(* ===== verification/Prelude.thy ===== *)
theory Prelude
  imports Main "HOL-Library.AList" "HOL-Library.Char_ord" "HOL-Library.List_Lexorder"
    "HOL-Library.Product_Lexorder" "HOL-Library.Option_ord"
begin

text \<open>
  Shared vocabulary of the development: fallible state-passing operations (Rust's \<open>Result\<close> with
  the early return of \<open>?\<close>), the environment that supplies clock readings and fresh ids, text
  operations of Rust's \<open>str\<close> on ASCII input, hash maps as association lists, SQL table statements
  as list functions, and two interfaces (\<open>codec\<close> for enums that are printed and parsed back,
  \<open>machine\<close> for a component whose operations keep an invariant).

  Rust strings are UTF-8 byte sequences; a HOL \<open>string\<close> is a list of bytes, so \<open>length\<close> is
  \<open>str::len\<close>. \<open>trim\<close>, \<open>to_lower\<close> and \<open>is_control\<close> are the Unicode functions of the standard
  library restricted to ASCII bytes: bytes from 128 on are neither white space nor control
  characters nor letters here.
\<close>

named_theorems op_simps \<open>unfolding rules for fallible state-passing operations\<close>

section \<open>Fallible operations with state\<close>

text \<open>
  An operation returns the new state with \<open>Inl\<close> an error or \<open>Inr\<close> a value. The state is returned
  in the error case too: statements that ran before the error stay in effect, as they do in the
  program, where a handler is not one transaction.
\<close>

type_synonym ('s, 'e, 'a) outcome = "'s \<times> ('e + 'a)"

definition and_then :: "('s, 'e, 'a) outcome \<Rightarrow> ('a \<Rightarrow> 's \<Rightarrow> ('s, 'e, 'b) outcome) \<Rightarrow> ('s, 'e, 'b) outcome" where
  "and_then r k = (case r of (s, Inl e) \<Rightarrow> (s, Inl e) | (s, Inr x) \<Rightarrow> k x s)"

lemma and_then_simps [simp, op_simps]:
  "and_then (s, Inl e) k = (s, Inl e)"
  "and_then (s, Inr x) k = k x s"
  by (simp_all add: and_then_def)

lemma and_then_Inr:
  "and_then r k = (s', Inr y) \<longleftrightarrow> (\<exists>s x. r = (s, Inr x) \<and> k x s = (s', Inr y))"
  by (auto simp: and_then_def split: prod.splits sum.splits)

definition map_err :: "('e \<Rightarrow> 'f) \<Rightarrow> ('s, 'e, 'a) outcome \<Rightarrow> ('s, 'f, 'a) outcome" where
  "map_err f r = (case r of (s, Inl e) \<Rightarrow> (s, Inl (f e)) | (s, Inr x) \<Rightarrow> (s, Inr x))"

lemma map_err_simps [simp, op_simps]:
  "map_err f (s, Inl e) = (s, Inl (f e))"
  "map_err f (s, Inr x) = (s, Inr x)"
  by (simp_all add: map_err_def)

lemma map_err_Inr [simp]: "map_err f r = (s, Inr x) \<longleftrightarrow> r = (s, Inr x)"
  by (cases r; cases "snd r") (auto simp: map_err_def)

lemma fst_map_err [simp]: "fst (map_err f r) = fst r"
  by (cases r; cases "snd r") (auto simp: map_err_def)

text \<open>\<open>for x in xs { body(x).await?; }\<close>\<close>

fun for_each :: "('a \<Rightarrow> 's \<Rightarrow> ('s, 'e, unit) outcome) \<Rightarrow> 'a list \<Rightarrow> 's \<Rightarrow> ('s, 'e, unit) outcome" where
  "for_each body [] s = (s, Inr ())"
| "for_each body (x # xs) s = and_then (body x s) (\<lambda>_. for_each body xs)"

text \<open>A predicate kept by the first operation and by the continuation is kept by the sequence.\<close>

lemma fst_and_then_inv:
  assumes "P (fst r)" and "\<And>x s. r = (s, Inr x) \<Longrightarrow> P s \<Longrightarrow> P (fst (k x s))"
  shows "P (fst (and_then r k))"
  using assms by (cases r; cases "snd r") auto

lemma fst_for_each_inv:
  assumes "\<And>x s. x \<in> set xs \<Longrightarrow> P s \<Longrightarrow> P (fst (body x s))" and "P s"
  shows "P (fst (for_each body xs s))"
  using assms
proof (induction xs arbitrary: s)
  case Nil
  then show ?case by simp
next
  case (Cons x xs)
  have "P (fst (body x s))" using Cons.prems by simp
  then show ?case
  proof (cases "body x s")
    case (Pair t r)
    have "P (fst (for_each body xs t))" if "P t"
      by (rule Cons.IH) (use Cons.prems that in auto)
    with \<open>P (fst (body x s))\<close> Pair show ?thesis by (cases r) auto
  qed
qed

lemma for_each_Inr_inv:
  assumes "for_each body xs s = (s', Inr u)" and "P s"
    and "\<And>x s s'. x \<in> set xs \<Longrightarrow> P s \<Longrightarrow> body x s = (s', Inr ()) \<Longrightarrow> P s'"
  shows "P s'"
  using assms
proof (induction xs arbitrary: s)
  case Nil
  then show ?case by simp
next
  case (Cons x xs)
  from Cons.prems(1) obtain t where t: "body x s = (t, Inr ())" "for_each body xs t = (s', Inr u)"
    by (auto simp: and_then_Inr)
  have "P t" by (rule Cons.prems(3) [OF _ Cons.prems(2) t(1)]) simp
  then show ?case
    by (rule Cons.IH [OF t(2)]) (rule Cons.prems(3), auto)
qed

section \<open>Clock and fresh ids\<close>

text \<open>
  \<open>generate_id\<close> (a UUID v7) and \<open>now_ms\<close> (the system clock) are inputs of the program: the
  environment gives the id and the time of every draw, numbered by a counter the state carries.
  \<open>distinct_ids\<close> is the documented behaviour of \<open>generate_id\<close>: no id is drawn twice.
\<close>

record env =
  mint_id :: "nat \<Rightarrow> string"
  clock :: "nat \<Rightarrow> int"

definition distinct_ids :: "'a env_scheme \<Rightarrow> bool" where
  "distinct_ids E \<longleftrightarrow> inj (mint_id E)"

lemma mint_id_eq: "distinct_ids E \<Longrightarrow> mint_id E j = mint_id E k \<longleftrightarrow> j = k"
  unfolding distinct_ids_def by (rule inj_eq)

text \<open>An environment for the concrete runs: the \<open>k\<close>-th id has \<open>k + 1\<close> letters, time counts the draws.\<close>

definition sample_env :: env where
  "sample_env = \<lparr>mint_id = (\<lambda>k. replicate (Suc k) CHR ''r''), clock = int\<rparr>"

lemma sample_env_distinct: "distinct_ids sample_env"
  unfolding distinct_ids_def sample_env_def by (rule injI) (simp add: replicate_eq_replicate)

lemma sample_env_mono: "mono (clock sample_env)"
  by (rule monoI) (simp add: sample_env_def)

section \<open>Text\<close>

definition is_ws :: "char \<Rightarrow> bool" where
  "is_ws c \<longleftrightarrow> c \<in> set [CHR 0x09, CHR 0x0A, CHR 0x0B, CHR 0x0C, CHR 0x0D, CHR 0x20]"

definition trim :: "string \<Rightarrow> string" where
  "trim s = rev (dropWhile is_ws (rev (dropWhile is_ws s)))"

definition is_control :: "char \<Rightarrow> bool" where
  "is_control c \<longleftrightarrow> (of_char c :: nat) < 32 \<or> (of_char c :: nat) = 127"

definition to_lower_char :: "char \<Rightarrow> char" where
  "to_lower_char c = (if CHR ''A'' \<le> c \<and> c \<le> CHR ''Z'' then char_of ((of_char c :: nat) + 32) else c)"

definition to_lower :: "string \<Rightarrow> string" where
  "to_lower s = map to_lower_char s"

fun starts_with :: "string \<Rightarrow> string \<Rightarrow> bool" where
  "starts_with [] s = True"
| "starts_with (p # ps) [] = False"
| "starts_with (p # ps) (c # cs) = (p = c \<and> starts_with ps cs)"

text \<open>\<open>str::find\<close>: the offset of the first occurrence of a pattern.\<close>

fun find_sub :: "string \<Rightarrow> string \<Rightarrow> nat option" where
  "find_sub p [] = (if p = [] then Some 0 else None)"
| "find_sub p (c # cs) =
     (if starts_with p (c # cs) then Some 0 else map_option Suc (find_sub p cs))"

definition contains_sub :: "string \<Rightarrow> string \<Rightarrow> bool" where
  "contains_sub p s \<longleftrightarrow> find_sub p s \<noteq> None"

lemma starts_with_iff: "starts_with p s \<longleftrightarrow> take (length p) s = p"
  by (induction p s rule: starts_with.induct) auto

lemma starts_with_append [simp]: "starts_with p (p @ s)"
  by (simp add: starts_with_iff)

lemma find_sub_Some:
  "find_sub p s = Some i \<Longrightarrow> i \<le> length s \<and> starts_with p (drop i s) \<and> (\<forall>j<i. \<not> starts_with p (drop j s))"
proof (induction p s arbitrary: i rule: find_sub.induct)
  case (1 p)
  then show ?case by (auto split: if_splits)
next
  case (2 p c cs)
  show ?case
  proof (cases "starts_with p (c # cs)")
    case True
    with "2.prems" show ?thesis by auto
  next
    case False
    with "2.prems" obtain k where k: "find_sub p cs = Some k" "i = Suc k" by auto
    from "2.IH" [OF False k(1)] k(2) False show ?thesis
      by (auto simp: less_Suc_eq_0_disj)
  qed
qed

lemma find_sub_bound: "find_sub p s = Some i \<Longrightarrow> i + length p \<le> length s"
proof -
  assume "find_sub p s = Some i"
  from find_sub_Some [OF this] have "i \<le> length s" "take (length p) (drop i s) = p"
    by (auto simp: starts_with_iff)
  then have "length p \<le> length s - i" by (metis length_drop length_take min.cobounded1)
  with \<open>i \<le> length s\<close> show ?thesis by simp
qed

lemma find_sub_None: "find_sub p s = None \<Longrightarrow> \<not> starts_with p (drop j s)"
proof (induction p s arbitrary: j rule: find_sub.induct)
  case (1 p)
  then show ?case by (cases p) auto
next
  case (2 p c cs)
  then show ?case by (cases j) (auto split: if_splits)
qed

text \<open>\<open>str::split\<close> at a character, \<open>split_once\<close> and \<open>strip_prefix\<close>\<close>

fun split_on :: "char \<Rightarrow> string \<Rightarrow> string list" where
  "split_on c [] = [[]]"
| "split_on c (x # xs) =
     (if x = c then [] # split_on c xs
      else case split_on c xs of [] \<Rightarrow> [[x]] | p # ps \<Rightarrow> (x # p) # ps)"

definition split_once :: "char \<Rightarrow> string \<Rightarrow> (string \<times> string) option" where
  "split_once c s = (if c \<in> set s then Some (takeWhile (\<lambda>x. x \<noteq> c) s, tl (dropWhile (\<lambda>x. x \<noteq> c) s)) else None)"

definition strip_prefix :: "string \<Rightarrow> string \<Rightarrow> string option" where
  "strip_prefix p s = (if starts_with p s then Some (drop (length p) s) else None)"

definition ends_with :: "string \<Rightarrow> string \<Rightarrow> bool" where
  "ends_with p s \<longleftrightarrow> starts_with (rev p) (rev s)"

lemma split_on_not_Nil [simp]: "split_on c s \<noteq> []"
  by (cases s) (auto split: list.splits)

lemma split_on_none: "c \<notin> set s \<Longrightarrow> split_on c s = [s]"
  by (induction s) auto

lemma split_on_append: "c \<notin> set s \<Longrightarrow> split_on c (s @ c # rest) = s # split_on c rest"
  by (induction s) auto

lemma split_once_append: "c \<notin> set s \<Longrightarrow> split_once c (s @ c # rest) = Some (s, rest)"
  unfolding split_once_def by (induction s) (auto simp: takeWhile_append dropWhile_append)

lemma strip_prefix_append [simp]: "strip_prefix p (p @ s) = Some s"
  by (simp add: strip_prefix_def)

lemma trim_id: "s \<noteq> [] \<Longrightarrow> \<not> is_ws (hd s) \<Longrightarrow> \<not> is_ws (last s) \<Longrightarrow> trim s = s"
  by (simp add: trim_def dropWhile_eq_self_iff [THEN iffD2] hd_rev)

text \<open>A word in single quotes, as the messages of the program print names.\<close>

definition quoted :: "string \<Rightarrow> string" where
  "quoted s = [CHR 0x27] @ s @ [CHR 0x27]"

section \<open>Codecs for the examples\<close>

text \<open>
  A concrete codec for the examples: a list is the concatenation of its strings, each character
  escaped by a dot and each string closed by a semicolon.
\<close>

definition demo_ser :: "string list \<Rightarrow> string" where
  "demo_ser xs = concat (map (\<lambda>s. concat (map (\<lambda>c. [CHR ''.'', c]) s) @ [CHR '';'']) xs)"

fun demo_de :: "string \<Rightarrow> string \<Rightarrow> string list option" where
  "demo_de acc [] = (if acc = [] then Some [] else None)"
| "demo_de acc (c # cs) =
     (if c = CHR '';'' then map_option ((#) acc) (demo_de [] cs)
      else case cs of
             d # ds \<Rightarrow> if c = CHR ''.'' then demo_de (acc @ [d]) ds else None
           | [] \<Rightarrow> None)"

lemma demo_de_ser_append: "demo_de acc (concat (map (\<lambda>c. [CHR ''.'', c]) s) @ CHR '';'' # rest) =
  map_option ((#) (acc @ s)) (demo_de [] rest)"
  by (induction s arbitrary: acc) simp_all

lemma demo_de_ser: "demo_de [] (demo_ser xs) = Some xs"
  by (induction xs) (simp_all add: demo_ser_def demo_de_ser_append)

text \<open>Numbers as strings of binary digits, the least significant first.\<close>

fun bits :: "nat \<Rightarrow> string" where
  "bits n = (if n = 0 then [] else (if odd n then CHR ''1'' else CHR ''0'') # bits (n div 2))"

fun unbits :: "string \<Rightarrow> nat" where
  "unbits [] = 0"
| "unbits (c # cs) = (if c = CHR ''1'' then 1 else 0) + 2 * unbits cs"

declare bits.simps [simp del]

lemma unbits_bits [simp]: "unbits (bits n) = n"
proof (induction n rule: bits.induct)
  case (1 n)
  then show ?case by (cases "n = 0") (auto simp: bits.simps [of 0] bits.simps [of n])
qed

section \<open>Hash maps\<close>

text \<open>
  A \<open>HashMap\<close> (or \<open>DashMap\<close>) is an association list with distinct keys. The order of the list is
  the iteration order of the map, which Rust leaves unspecified: a theorem over every list with
  distinct keys covers every iteration order.
\<close>

type_synonym ('k, 'v) hmap = "('k \<times> 'v) list"

abbreviation hm_ok :: "('k, 'v) hmap \<Rightarrow> bool" where
  "hm_ok m \<equiv> distinct (map fst m)"

abbreviation hm_get :: "('k, 'v) hmap \<Rightarrow> 'k \<Rightarrow> 'v option" where
  "hm_get m k \<equiv> map_of m k"

abbreviation hm_insert :: "'k \<Rightarrow> 'v \<Rightarrow> ('k, 'v) hmap \<Rightarrow> ('k, 'v) hmap" where
  "hm_insert k v m \<equiv> AList.update k v m"

abbreviation hm_remove :: "'k \<Rightarrow> ('k, 'v) hmap \<Rightarrow> ('k, 'v) hmap" where
  "hm_remove k m \<equiv> AList.delete k m"

abbreviation hm_contains :: "('k, 'v) hmap \<Rightarrow> 'k \<Rightarrow> bool" where
  "hm_contains m k \<equiv> map_of m k \<noteq> None"

abbreviation hm_values :: "('k, 'v) hmap \<Rightarrow> 'v list" where
  "hm_values m \<equiv> map snd m"

declare map_of_eq_Some_iff [simp del]

text \<open>\<open>HashMap::retain\<close>\<close>

definition hm_retain :: "('k \<Rightarrow> 'v \<Rightarrow> bool) \<Rightarrow> ('k, 'v) hmap \<Rightarrow> ('k, 'v) hmap" where
  "hm_retain P m = filter (\<lambda>(k, v). P k v) m"

lemma hm_ok_retain [simp]: "hm_ok m \<Longrightarrow> hm_ok (hm_retain P m)"
  by (simp add: hm_retain_def distinct_map_filter)

lemma hm_get_retain:
  "hm_ok m \<Longrightarrow> hm_get (hm_retain P m) k =
     (case hm_get m k of None \<Rightarrow> None | Some v \<Rightarrow> if P k v then Some v else None)"
  by (induction m) (auto simp: hm_retain_def map_of_eq_None_iff split: option.splits)

lemma hm_ok_insert [simp]: "hm_ok m \<Longrightarrow> hm_ok (hm_insert k v m)"
  by (rule distinct_update)

lemma hm_ok_remove [simp]: "hm_ok m \<Longrightarrow> hm_ok (hm_remove k m)"
  by (rule distinct_delete)

lemma hm_get_insert: "hm_get (hm_insert k v m) x = (if x = k then Some v else hm_get m x)"
  by (simp add: update_conv')

lemma hm_get_remove: "hm_get (hm_remove k m) x = (if x = k then None else hm_get m x)"
  by (simp add: delete_conv')

lemma hm_remove_Nil_iff: "hm_remove k m = [] \<longleftrightarrow> fst ` set m \<subseteq> {k}"
  by (auto simp: AList.delete_eq filter_empty_conv)

section \<open>SQL statements on a table\<close>

text \<open>
  A table is the list of its rows in rowid order. \<open>SELECT ... WHERE\<close> is \<open>filter\<close>,
  \<open>UPDATE ... SET ... WHERE\<close> is \<open>update_where\<close> and \<open>rows_affected\<close> counts the rows the
  \<open>WHERE\<close> clause selects. \<open>ORDER BY\<close> is \<open>sort_key\<close>, which keeps rowid order among equal keys
  (SQLite leaves that order open).
\<close>

definition update_where :: "('r \<Rightarrow> bool) \<Rightarrow> ('r \<Rightarrow> 'r) \<Rightarrow> 'r list \<Rightarrow> 'r list" where
  "update_where P f rows = map (\<lambda>r. if P r then f r else r) rows"

definition rows_affected :: "('r \<Rightarrow> bool) \<Rightarrow> 'r list \<Rightarrow> nat" where
  "rows_affected P rows = length (filter P rows)"

lemma rows_affected_0: "rows_affected P rows = 0 \<longleftrightarrow> (\<forall>r\<in>set rows. \<not> P r)"
  by (simp add: rows_affected_def filter_empty_conv)

lemma in_update_where:
  "x \<in> set (update_where P f rows) \<longleftrightarrow> (\<exists>r\<in>set rows. x = (if P r then f r else r))"
  by (auto simp: update_where_def)

lemma update_where_key:
  "(\<And>r. key (f r) = key r) \<Longrightarrow> map key (update_where P f rows) = map key rows"
  by (simp add: update_where_def)

lemma find_update_where:
  assumes "\<And>r. key (f r) = key r"
  shows "find (\<lambda>r. key r = k) (update_where P f rows) =
    map_option (\<lambda>r. if P r then f r else r) (find (\<lambda>r. key r = k) rows)"
  using assms by (induction rows) (auto simp: update_where_def)

lemma find_key_distinct:
  assumes "distinct (map key rows)"
  shows "find (\<lambda>r. key r = k) rows = Some r \<longleftrightarrow> r \<in> set rows \<and> key r = k"
  using assms by (induction rows) (auto simp: find_Some_iff rev_image_eqI)

section \<open>Interfaces\<close>

text \<open>An enum with a printed form that its parser reads back.\<close>

locale codec =
  fixes to_str :: "'a \<Rightarrow> string"
    and parse :: "string \<Rightarrow> 'a option"
  assumes parse_to_str: "parse (to_str x) = Some x"
begin

lemma to_str_inject: "to_str x = to_str y \<longleftrightarrow> x = y"
  by (metis option.inject parse_to_str)

lemma parse_eq_to_str: "s = to_str x \<Longrightarrow> parse s = Some x"
  by (simp add: parse_to_str)

end

text \<open>A component whose operations all keep an invariant keeps it along every sequence of them.\<close>

locale machine =
  fixes inv :: "'s \<Rightarrow> bool"
    and step :: "'o \<Rightarrow> 's \<Rightarrow> 's"
  assumes step_inv: "inv s \<Longrightarrow> inv (step x s)"
begin

lemma run_inv: "inv s \<Longrightarrow> inv (fold step xs s)"
  by (induction xs arbitrary: s) (auto intro: step_inv)

end

end
