(* ===== verification/TaskState.thy ===== *)
theory TaskState
  imports Prelude
begin

text \<open>
  The pure state machine of project tasks, \<open>aionui-db/src/task_state.rs\<close>: the six states, the
  five actions and \<open>next_status\<close>, the table of legal transitions. The database and the REST
  handlers of the other theories store a state by its printed form.
\<close>

datatype task_status = Todo | InProgress | InReview | Done | Rejected | Blocked

datatype task_action = Start | Submit | Approve | Reject | Reopen

fun task_status_as_str :: "task_status \<Rightarrow> string" where
  "task_status_as_str Todo = ''todo''"
| "task_status_as_str InProgress = ''in_progress''"
| "task_status_as_str InReview = ''in_review''"
| "task_status_as_str Done = ''done''"
| "task_status_as_str Rejected = ''rejected''"
| "task_status_as_str Blocked = ''blocked''"

definition task_status_parse :: "string \<Rightarrow> task_status option" where
  "task_status_parse s =
     (if s = ''todo'' then Some Todo
      else if s = ''in_progress'' then Some InProgress
      else if s = ''in_review'' then Some InReview
      else if s = ''done'' then Some Done
      else if s = ''rejected'' then Some Rejected
      else if s = ''blocked'' then Some Blocked
      else None)"

definition task_action_parse :: "string \<Rightarrow> task_action option" where
  "task_action_parse s =
     (if s = ''start'' then Some Start
      else if s = ''submit'' then Some Submit
      else if s = ''approve'' then Some Approve
      else if s = ''reject'' then Some Reject
      else if s = ''reopen'' then Some Reopen
      else None)"

fun next_status :: "task_status \<Rightarrow> task_action \<Rightarrow> bool \<Rightarrow> task_status option" where
  "next_status Todo Start _ = Some InProgress"
| "next_status Blocked Start _ = Some InProgress"
| "next_status InProgress Submit requires_review = Some (if requires_review then InReview else Done)"
| "next_status InReview Approve _ = Some Done"
| "next_status InReview Reject _ = Some Rejected"
| "next_status Rejected Reopen _ = Some Todo"
| "next_status _ _ _ = None"

fun_cases next_status_SomeE: "next_status st a r = Some st'"

interpretation task_status_codec: codec task_status_as_str task_status_parse
proof
  fix x show "task_status_parse (task_status_as_str x) = Some x"
    by (cases x) (simp_all add: task_status_parse_def)
qed

lemmas task_status_str = task_status_codec.to_str_inject task_status_codec.parse_to_str

lemma task_status_parse_Some:
  "task_status_parse s = Some st \<longleftrightarrow> s = task_status_as_str st"
proof
  assume "task_status_parse s = Some st"
  then show "s = task_status_as_str st"
    unfolding task_status_parse_def by (simp split: if_splits)
qed (simp add: task_status_codec.parse_to_str)

text \<open>The printed forms are literals, so comparing a column with one compares states.\<close>

lemma task_status_literal [simp]:
  "task_status_as_str st = ''todo'' \<longleftrightarrow> st = Todo"
  "task_status_as_str st = ''in_progress'' \<longleftrightarrow> st = InProgress"
  "task_status_as_str st = ''in_review'' \<longleftrightarrow> st = InReview"
  "task_status_as_str st = ''done'' \<longleftrightarrow> st = Done"
  "task_status_as_str st = ''rejected'' \<longleftrightarrow> st = Rejected"
  "task_status_as_str st = ''blocked'' \<longleftrightarrow> st = Blocked"
  by (cases st; simp)+

lemma next_status_no_target:
  "next_status st a r \<noteq> Some Blocked"
  "next_status Done a r = None"
  by (cases st; cases a; simp)+

lemma next_status_Done_cases:
  "next_status st a r = Some Done \<longleftrightarrow> (st = InReview \<and> a = Approve) \<or> (st = InProgress \<and> a = Submit \<and> \<not> r)"
  by (cases st; cases a; simp)

lemma next_status_from_Blocked: "next_status Blocked a r = Some st \<longleftrightarrow> a = Start \<and> st = InProgress"
  by (cases a) auto

text \<open>A run of actions from a state, or \<open>None\<close> when one of them is illegal.\<close>

fun run_actions :: "task_status \<Rightarrow> bool \<Rightarrow> task_action list \<Rightarrow> task_status option" where
  "run_actions st r [] = Some st"
| "run_actions st r (a # as) =
     (case next_status st a r of None \<Rightarrow> None | Some st' \<Rightarrow> run_actions st' r as)"

lemma run_actions_append:
  "run_actions st r (as @ bs) =
     (case run_actions st r as of None \<Rightarrow> None | Some st' \<Rightarrow> run_actions st' r bs)"
  by (induction as arbitrary: st) (auto split: option.splits)

lemma run_actions_last:
  assumes "run_actions st r as = Some Done" "as \<noteq> []"
  shows "if r then last as = Approve else last as = Approve \<or> last as = Submit"
proof -
  obtain bs a where as: "as = bs @ [a]" using assms(2) by (metis append_butlast_last_id)
  with assms(1) obtain st' where "next_status st' a r = Some Done"
    by (auto simp: run_actions_append split: option.splits)
  with as show ?thesis by (auto simp: next_status_Done_cases)
qed

end
