(* ===== verification/TaskRepo.thy ===== *)
theory TaskRepo
  imports TaskState
begin

text \<open>
  Rows and tables of the project module and \<open>SqliteTaskRepository\<close>
  (\<open>aionui-db/src/models/task.rs\<close>, \<open>repository/task.rs\<close>, \<open>repository/sqlite_task.rs\<close>), with the
  constraints its tables declare in migrations 018 and 019: primary keys, and the foreign keys
  that \<open>foreign_keys(true)\<close> switches on. A violated constraint is the error \<open>Query\<close>. A record
  field has the name of the column with a prefix for its table, because Isabelle's selectors are
  global names. I/O failures of SQLite are not modelled.
\<close>

section \<open>Rows\<close>

record task_row =
  tr_id :: string
  tr_project_id :: string
  tr_parent_task_id :: "string option"
  tr_title :: string
  tr_instructions :: "string option"
  tr_assignee_kind :: string
  tr_assignee_id :: "string option"
  tr_status :: string
  tr_requires_human_review :: bool
  tr_produces_artifact :: "string option"
  tr_order_index :: int
  tr_conversation_id :: "string option"
  tr_created_by :: string
  tr_created_at :: int
  tr_updated_at :: int
  tr_started_at :: "int option"
  tr_completed_at :: "int option"

record task_artifact_row =
  ta_id :: string
  ta_task_id :: string
  ta_kind :: string
  ta_uri :: string
  ta_title :: string
  ta_produced_by :: string
  ta_created_at :: int

record task_handoff_log_row =
  th_id :: string
  th_task_id :: string
  th_from_status :: "string option"
  th_to_status :: string
  th_actor :: string
  th_trigger_kind :: string
  th_note :: "string option"
  th_created_at :: int

record project_row =
  pr_id :: string
  pr_name :: string
  pr_description :: "string option"
  pr_project_type :: string
  pr_status :: string
  pr_created_by :: string
  pr_created_at :: int
  pr_updated_at :: int

record pipeline_template_row =
  pt_id :: string
  pt_name :: string
  pt_project_type :: string
  pt_version :: int
  pt_definition :: string
  pt_is_active :: bool
  pt_created_at :: int

record resource_acl_row =
  ra_id :: string
  ra_resource_type :: string
  ra_resource_id :: string
  ra_principal_type :: string
  ra_principal_id :: string
  ra_perm :: string
  ra_created_at :: int

text \<open>
  The tables. \<open>users\<close> holds the ids \<open>IUserRepository::find_by_id\<close> finds; \<open>tick\<close> counts the draws
  from the environment.
\<close>

record alinea_db =
  tasks :: "task_row list"
  task_dependencies :: "(string \<times> string) list"
  task_artifacts :: "task_artifact_row list"
  task_handoff_log :: "task_handoff_log_row list"
  projects :: "project_row list"
  pipeline_templates :: "pipeline_template_row list"
  resource_acl :: "resource_acl_row list"
  users :: "string list"
  tick :: nat

datatype db_error = Query | Migration | DbNotFound string | DbConflict string | DbInit string

type_synonym 'a db_op = "alinea_db \<Rightarrow> (alinea_db, db_error, 'a) outcome"

definition task_not_found :: "string \<Rightarrow> string" where
  "task_not_found i = ''Task '' @ quoted i @ '' not found''"

section \<open>Parameters\<close>

record new_task =
  nt_project_id :: string
  nt_parent_task_id :: "string option"
  nt_title :: string
  nt_instructions :: "string option"
  nt_assignee_kind :: string
  nt_assignee_id :: "string option"
  nt_requires_human_review :: bool
  nt_produces_artifact :: "string option"
  nt_order_index :: int
  nt_created_by :: string
  nt_depends_on :: "string list"

record task_update =
  tu_title :: "string option"
  tu_instructions :: "string option option"
  tu_assignee_kind :: "string option"
  tu_assignee_id :: "string option option"
  tu_requires_human_review :: "bool option"
  tu_order_index :: "int option"

record new_artifact =
  na_task_id :: string
  na_kind :: string
  na_uri :: string
  na_title :: string
  na_produced_by :: string

record new_handoff =
  nh_task_id :: string
  nh_from_status :: "string option"
  nh_to_status :: string
  nh_actor :: string
  nh_trigger_kind :: string
  nh_note :: "string option"

section \<open>Operations\<close>

definition task_get :: "string \<Rightarrow> alinea_db \<Rightarrow> task_row option" where
  "task_get i s = find (\<lambda>t. tr_id t = i) (tasks s)"

text \<open>
  \<open>INSERT OR IGNORE INTO task_dependencies\<close>: a pair already there is ignored; the foreign keys of
  a new pair are checked (\<open>OR IGNORE\<close> does not cover them).
\<close>

definition add_dependency :: "string \<Rightarrow> string \<Rightarrow> unit db_op" where
  "add_dependency task_id depends_on s =
     (if (task_id, depends_on) \<in> set (task_dependencies s) then (s, Inr ())
      else if task_get task_id s = None \<or> task_get depends_on s = None then (s, Inl Query)
      else (s\<lparr>task_dependencies := task_dependencies s @ [(task_id, depends_on)]\<rparr>, Inr ()))"

definition new_task_row :: "string \<Rightarrow> int \<Rightarrow> new_task \<Rightarrow> task_row" where
  "new_task_row i now p =
     \<lparr>tr_id = i, tr_project_id = nt_project_id p, tr_parent_task_id = nt_parent_task_id p,
      tr_title = nt_title p, tr_instructions = nt_instructions p,
      tr_assignee_kind = nt_assignee_kind p, tr_assignee_id = nt_assignee_id p,
      tr_status = ''todo'', tr_requires_human_review = nt_requires_human_review p,
      tr_produces_artifact = nt_produces_artifact p, tr_order_index = nt_order_index p,
      tr_conversation_id = None, tr_created_by = nt_created_by p, tr_created_at = now,
      tr_updated_at = now, tr_started_at = None, tr_completed_at = None\<rparr>"

text \<open>One transaction: an error rolls the task row and its dependencies back.\<close>

definition task_create :: "env \<Rightarrow> new_task \<Rightarrow> task_row db_op" where
  "task_create E p s =
     (let i = mint_id E (tick s); now = clock E (tick s); s1 = s\<lparr>tick := Suc (tick s)\<rparr>
      in if task_get i s1 \<noteq> None
            \<or> \<not> (\<exists>pr\<in>set (projects s1). pr_id pr = nt_project_id p)
            \<or> (case nt_parent_task_id p of None \<Rightarrow> False | Some q \<Rightarrow> task_get q s1 = None \<and> q \<noteq> i)
         then (s1, Inl Query)
         else
           (case for_each (add_dependency i) (nt_depends_on p)
                   (s1\<lparr>tasks := tasks s1 @ [new_task_row i now p]\<rparr>) of
              (_, Inl e) \<Rightarrow> (s1, Inl e)
            | (s2, Inr _) \<Rightarrow>
                (case task_get i s2 of
                   None \<Rightarrow> (s2, Inl (DbNotFound (task_not_found i @ '' after insert'')))
                 | Some t \<Rightarrow> (s2, Inr t))))"

definition task_list_by_project :: "string \<Rightarrow> alinea_db \<Rightarrow> task_row list" where
  "task_list_by_project project_id s =
     sort_key (\<lambda>t. (case tr_parent_task_id t of Some q \<Rightarrow> q | None \<Rightarrow> tr_id t, tr_order_index t, tr_created_at t))
       (filter (\<lambda>t. tr_project_id t = project_id) (tasks s))"

definition task_list_subtasks :: "string \<Rightarrow> alinea_db \<Rightarrow> task_row list" where
  "task_list_subtasks parent_task_id s =
     sort_key (\<lambda>t. (tr_order_index t, tr_created_at t))
       (filter (\<lambda>t. tr_parent_task_id t = Some parent_task_id) (tasks s))"

definition set_opt :: "'v option \<Rightarrow> ('v \<Rightarrow> 'r \<Rightarrow> 'r) \<Rightarrow> 'r \<Rightarrow> 'r" where
  "set_opt v f r = (case v of None \<Rightarrow> r | Some x \<Rightarrow> f x r)"

definition apply_task_update :: "task_update \<Rightarrow> int \<Rightarrow> task_row \<Rightarrow> task_row" where
  "apply_task_update u now t =
     (set_opt (tu_order_index u) (\<lambda>x r. r\<lparr>tr_order_index := x\<rparr>)
     (set_opt (tu_requires_human_review u) (\<lambda>x r. r\<lparr>tr_requires_human_review := x\<rparr>)
     (set_opt (tu_assignee_id u) (\<lambda>x r. r\<lparr>tr_assignee_id := x\<rparr>)
     (set_opt (tu_assignee_kind u) (\<lambda>x r. r\<lparr>tr_assignee_kind := x\<rparr>)
     (set_opt (tu_instructions u) (\<lambda>x r. r\<lparr>tr_instructions := x\<rparr>)
     (set_opt (tu_title u) (\<lambda>x r. r\<lparr>tr_title := x\<rparr>) t))))))\<lparr>tr_updated_at := now\<rparr>"

text \<open>A partial update; with no field set the statement is not run at all.\<close>

definition task_update_fields :: "env \<Rightarrow> string \<Rightarrow> task_update \<Rightarrow> unit db_op" where
  "task_update_fields E i u s =
     (let now = clock E (tick s); s1 = s\<lparr>tick := Suc (tick s)\<rparr>
      in if tu_title u = None \<and> tu_instructions u = None \<and> tu_assignee_kind u = None
            \<and> tu_assignee_id u = None \<and> tu_requires_human_review u = None \<and> tu_order_index u = None
         then (s1, Inr ())
         else if rows_affected (\<lambda>t. tr_id t = i) (tasks s1) = 0
         then (s1, Inl (DbNotFound (task_not_found i)))
         else (s1\<lparr>tasks := update_where (\<lambda>t. tr_id t = i) (apply_task_update u now) (tasks s1)\<rparr>, Inr ()))"

definition apply_status :: "string \<Rightarrow> int \<Rightarrow> task_row \<Rightarrow> task_row" where
  "apply_status st now t =
     t\<lparr>tr_status := st, tr_updated_at := now,
       tr_started_at := (if st = ''in_progress'' \<and> tr_started_at t = None then Some now else tr_started_at t),
       tr_completed_at := (if st \<in> {''done'', ''rejected''} then Some now else tr_completed_at t)\<rparr>"

definition set_status :: "env \<Rightarrow> string \<Rightarrow> string \<Rightarrow> unit db_op" where
  "set_status E i st s =
     (let now = clock E (tick s); s1 = s\<lparr>tick := Suc (tick s)\<rparr>
      in if rows_affected (\<lambda>t. tr_id t = i) (tasks s1) = 0
         then (s1, Inl (DbNotFound (task_not_found i)))
         else (s1\<lparr>tasks := update_where (\<lambda>t. tr_id t = i) (apply_status st now) (tasks s1)\<rparr>, Inr ()))"

definition dependencies :: "string \<Rightarrow> alinea_db \<Rightarrow> string list" where
  "dependencies i s = map snd (filter (\<lambda>d. fst d = i) (task_dependencies s))"

text \<open>\<open>SELECT COUNT(*)\<close> over the join of the dependencies with the tasks not \<open>done\<close>, compared with 0.\<close>

definition dependencies_satisfied :: "string \<Rightarrow> alinea_db \<Rightarrow> bool" where
  "dependencies_satisfied i s =
     (length [(d, t). d \<leftarrow> task_dependencies s, t \<leftarrow> tasks s,
                      tr_id t = snd d \<and> fst d = i \<and> tr_status t \<noteq> ''done''] = 0)"

definition subtask_rollup :: "string \<Rightarrow> alinea_db \<Rightarrow> int \<times> int" where
  "subtask_rollup parent_task_id s =
     (let sub = filter (\<lambda>t. tr_parent_task_id t = Some parent_task_id) (tasks s)
      in (int (length sub), int (length (filter (\<lambda>t. tr_status t = ''done'') sub))))"

definition dependents_of :: "string \<Rightarrow> alinea_db \<Rightarrow> task_row list" where
  "dependents_of i s =
     [t. t \<leftarrow> tasks s, d \<leftarrow> task_dependencies s, fst d = tr_id t \<and> snd d = i]"

definition repo_add_artifact :: "env \<Rightarrow> new_artifact \<Rightarrow> task_artifact_row db_op" where
  "repo_add_artifact E p s =
     (let i = mint_id E (tick s); now = clock E (tick s); s1 = s\<lparr>tick := Suc (tick s)\<rparr>;
          row = \<lparr>ta_id = i, ta_task_id = na_task_id p, ta_kind = na_kind p, ta_uri = na_uri p,
                 ta_title = na_title p, ta_produced_by = na_produced_by p, ta_created_at = now\<rparr>
      in if (\<exists>a\<in>set (task_artifacts s1). ta_id a = i) \<or> task_get (na_task_id p) s1 = None
         then (s1, Inl Query)
         else (s1\<lparr>task_artifacts := task_artifacts s1 @ [row]\<rparr>, Inr row))"

definition repo_list_artifacts :: "string \<Rightarrow> alinea_db \<Rightarrow> task_artifact_row list" where
  "repo_list_artifacts i s = sort_key ta_created_at (filter (\<lambda>a. ta_task_id a = i) (task_artifacts s))"

definition log_handoff :: "env \<Rightarrow> new_handoff \<Rightarrow> unit db_op" where
  "log_handoff E p s =
     (let i = mint_id E (tick s); now = clock E (tick s); s1 = s\<lparr>tick := Suc (tick s)\<rparr>;
          row = \<lparr>th_id = i, th_task_id = nh_task_id p, th_from_status = nh_from_status p,
                 th_to_status = nh_to_status p, th_actor = nh_actor p,
                 th_trigger_kind = nh_trigger_kind p, th_note = nh_note p, th_created_at = now\<rparr>
      in if (\<exists>h\<in>set (task_handoff_log s1). th_id h = i) \<or> task_get (nh_task_id p) s1 = None
         then (s1, Inl Query)
         else (s1\<lparr>task_handoff_log := task_handoff_log s1 @ [row]\<rparr>, Inr ()))"

definition repo_list_handoffs :: "string \<Rightarrow> alinea_db \<Rightarrow> task_handoff_log_row list" where
  "repo_list_handoffs i s = sort_key th_created_at (filter (\<lambda>h. th_task_id h = i) (task_handoff_log s))"

end
