(* ===== verification/TaskRepoFacts.thy ===== *)
theory TaskRepoFacts
  imports TaskRepo
begin

text \<open>
  What the operations of the task repository do, seen through \<open>status_at\<close> (the status column of a
  task) and the set of dependency pairs; \<open>db_ok\<close>, the well-formedness of the tables (primary keys,
  foreign keys, known status words, unused ids ahead of the clock), and its preservation.
\<close>

section \<open>Views of the tables\<close>

definition status_at :: "alinea_db \<Rightarrow> string \<Rightarrow> string option" where
  "status_at s i = map_option tr_status (task_get i s)"

definition deps :: "alinea_db \<Rightarrow> (string \<times> string) set" where
  "deps s = set (task_dependencies s)"

definition parent_at :: "alinea_db \<Rightarrow> string \<Rightarrow> string option" where
  "parent_at s i = (case task_get i s of None \<Rightarrow> None | Some t \<Rightarrow> tr_parent_task_id t)"

definition db_ok :: "env \<Rightarrow> alinea_db \<Rightarrow> bool" where
  "db_ok E s \<longleftrightarrow>
     distinct (map tr_id (tasks s)) \<and>
     distinct (task_dependencies s) \<and>
     (\<forall>(a, b)\<in>deps s. task_get a s \<noteq> None \<and> task_get b s \<noteq> None) \<and>
     (\<forall>t\<in>set (tasks s). task_status_parse (tr_status t) \<noteq> None) \<and>
     (\<forall>t\<in>set (tasks s). \<forall>q. tr_parent_task_id t = Some q \<longrightarrow> task_get q s \<noteq> None) \<and>
     (\<forall>k\<ge>tick s. mint_id E k \<notin> tr_id ` set (tasks s) \<union> th_id ` set (task_handoff_log s))"

lemma task_get_Some:
  "distinct (map tr_id (tasks s)) \<Longrightarrow> task_get i s = Some t \<longleftrightarrow> t \<in> set (tasks s) \<and> tr_id t = i"
  by (simp add: task_get_def find_key_distinct)

lemma task_get_None: "task_get i s = None \<longleftrightarrow> i \<notin> tr_id ` set (tasks s)"
  by (auto simp: task_get_def find_None_iff)

lemma task_get_id: "task_get i s = Some t \<Longrightarrow> tr_id t = i \<and> t \<in> set (tasks s)"
  by (auto simp: task_get_def find_Some_iff)

lemma task_get_cong: "tasks s = tasks s' \<Longrightarrow> task_get i s = task_get i s'"
  by (simp add: task_get_def)

lemma status_at_iff:
  "distinct (map tr_id (tasks s)) \<Longrightarrow>
   status_at s i = Some st \<longleftrightarrow> (\<exists>t\<in>set (tasks s). tr_id t = i \<and> tr_status t = st)"
  by (auto simp: status_at_def task_get_Some)

lemma db_okD:
  assumes "db_ok E s"
  shows db_ok_ids: "distinct (map tr_id (tasks s))"
    and db_ok_pairs: "distinct (task_dependencies s)"
    and db_ok_fk: "(a, b) \<in> deps s \<Longrightarrow> task_get a s \<noteq> None \<and> task_get b s \<noteq> None"
    and db_ok_status: "t \<in> set (tasks s) \<Longrightarrow> task_status_parse (tr_status t) \<noteq> None"
    and db_ok_parent: "t \<in> set (tasks s) \<Longrightarrow> tr_parent_task_id t = Some q \<Longrightarrow> task_get q s \<noteq> None"
    and db_ok_fresh: "tick s \<le> k \<Longrightarrow> mint_id E k \<notin> tr_id ` set (tasks s)"
    and db_ok_fresh_log: "tick s \<le> k \<Longrightarrow> mint_id E k \<notin> th_id ` set (task_handoff_log s)"
  using assms unfolding db_ok_def by blast+

lemma db_okI:
  assumes "distinct (map tr_id (tasks s))" "distinct (task_dependencies s)"
    and "\<And>a b. (a, b) \<in> deps s \<Longrightarrow> task_get a s \<noteq> None \<and> task_get b s \<noteq> None"
    and "\<And>t. t \<in> set (tasks s) \<Longrightarrow> task_status_parse (tr_status t) \<noteq> None"
    and "\<And>t q. t \<in> set (tasks s) \<Longrightarrow> tr_parent_task_id t = Some q \<Longrightarrow> task_get q s \<noteq> None"
    and "\<And>k. tick s \<le> k \<Longrightarrow> mint_id E k \<notin> tr_id ` set (tasks s)"
    and "\<And>k. tick s \<le> k \<Longrightarrow> mint_id E k \<notin> th_id ` set (task_handoff_log s)"
  shows "db_ok E s"
  using assms unfolding db_ok_def by blast

lemma concat_map_Nil: "concat (map f xs) = [] \<longleftrightarrow> (\<forall>x\<in>set xs. f x = [])"
  by (induction xs) auto

text \<open>With its foreign keys valid, the count of the SQL join is 0 iff every dependency is \<open>done\<close>.\<close>

lemma dependencies_satisfied_iff:
  assumes "db_ok E s"
  shows "dependencies_satisfied i s \<longleftrightarrow> (\<forall>d. (i, d) \<in> deps s \<longrightarrow> status_at s d = Some ''done'')"
proof -
  have dist: "distinct (map tr_id (tasks s))" using assms by (simp add: db_ok_def)
  have ex: "\<exists>t\<in>set (tasks s). tr_id t = d" if "(i, d) \<in> deps s" for d
    using assms that by (fastforce simp: db_ok_def task_get_None)
  have "dependencies_satisfied i s \<longleftrightarrow>
    (\<forall>d. (i, d) \<in> deps s \<longrightarrow> (\<forall>t\<in>set (tasks s). tr_id t = d \<longrightarrow> tr_status t = ''done''))"
    unfolding dependencies_satisfied_def deps_def length_0_conv concat_map_Nil
    by (auto split: if_splits)
  also have "\<dots> \<longleftrightarrow> (\<forall>d. (i, d) \<in> deps s \<longrightarrow> status_at s d = Some ''done'')"
  proof -
    have "(\<forall>t\<in>set (tasks s). tr_id t = d \<longrightarrow> tr_status t = ''done'') \<longleftrightarrow> status_at s d = Some ''done''"
      if d: "(i, d) \<in> deps s" for d
    proof -
      obtain t where t: "t \<in> set (tasks s)" "tr_id t = d" using ex [OF d] by blast
      then have g: "task_get d s = Some t" using dist by (simp add: task_get_Some)
      have u: "u = t" if "u \<in> set (tasks s)" "tr_id u = d" for u
        using iffD2 [OF task_get_Some [OF dist] conjI [OF that]] g by simp
      show ?thesis
      proof
        assume "\<forall>t\<in>set (tasks s). tr_id t = d \<longrightarrow> tr_status t = ''done''"
        with t show "status_at s d = Some ''done''" by (simp add: status_at_def g)
      next
        assume "status_at s d = Some ''done''"
        then have "tr_status t = ''done''" by (simp add: status_at_def g)
        then show "\<forall>t\<in>set (tasks s). tr_id t = d \<longrightarrow> tr_status t = ''done''"
          using u by blast
      qed
    qed
    then show ?thesis by (simp cong: imp_cong)
  qed
  finally show ?thesis .
qed

lemma dependents_of_iff:
  assumes "db_ok E s"
  shows "t \<in> set (dependents_of i s) \<longleftrightarrow> task_get (tr_id t) s = Some t \<and> (tr_id t, i) \<in> deps s"
  using assms by (auto simp: dependents_of_def db_ok_def deps_def task_get_Some)

lemma distinct_concat_single:
  "distinct xs \<Longrightarrow> (\<And>x. x \<in> set xs \<Longrightarrow> length (f x) \<le> 1) \<Longrightarrow> (\<And>x y. y \<in> set (f x) \<Longrightarrow> y = g x) \<Longrightarrow>
   inj_on g (set xs) \<Longrightarrow> distinct (concat (map f xs))"
proof (induction xs)
  case Nil
  then show ?case by simp
next
  case (Cons x xs)
  have "distinct (f x)" using Cons.prems(2)[of x]
    by (cases "f x") auto
  moreover have "distinct (concat (map f xs))" using Cons by auto
  moreover have "set (f x) \<inter> set (concat (map f xs)) = {}"
    using Cons.prems by (fastforce simp: inj_on_def)
  ultimately show ?case by simp
qed

lemma length_filter_pair_le_1:
  "distinct ds \<Longrightarrow> length (filter (\<lambda>d. fst d = a \<and> snd d = b) ds) \<le> 1"
proof -
  assume d: "distinct ds"
  have "set (filter (\<lambda>d. fst d = a \<and> snd d = b) ds) \<subseteq> {(a, b)}" by auto
  then have "card (set (filter (\<lambda>d. fst d = a \<and> snd d = b) ds)) \<le> 1"
    by (metis card_mono finite.intros card.empty card_insert_disjoint empty_iff One_nat_def)
  then show ?thesis using d by (metis distinct_card distinct_filter)
qed

lemma concat_map_if_filter:
  "concat (map (\<lambda>d. if P d then [t] else []) ds) = map (\<lambda>_. t) (filter P ds)"
  by (induction ds) auto

lemma dependents_of_alt:
  "dependents_of i s = concat (map (\<lambda>t. map (\<lambda>_. t)
     (filter (\<lambda>d. fst d = tr_id t \<and> snd d = i) (task_dependencies s))) (tasks s))"
  by (simp add: dependents_of_def concat_map_if_filter)

lemma distinct_dependents_of:
  assumes "db_ok E s"
  shows "distinct (map tr_id (dependents_of i s))"
proof -
  have d: "distinct (map tr_id (tasks s))" "distinct (task_dependencies s)"
    using assms by (auto simp: db_ok_def)
  have eq: "map tr_id (dependents_of i s) = concat (map (\<lambda>t. map (\<lambda>_. tr_id t)
     (filter (\<lambda>d. fst d = tr_id t \<and> snd d = i) (task_dependencies s))) (tasks s))"
    by (simp add: dependents_of_alt map_concat o_def)
  show ?thesis
    unfolding eq
    by (rule distinct_concat_single [where g = tr_id])
       (use d length_filter_pair_le_1 [OF d(2)] in \<open>auto simp: distinct_map\<close>)
qed

section \<open>Effects of the operations\<close>

lemma tasks_update_where_get:
  assumes "\<And>t. tr_id (f t) = tr_id t"
  shows "find (\<lambda>t. tr_id t = j) (update_where (\<lambda>t. tr_id t = i) f ts) =
    map_option (\<lambda>t. if j = i then f t else t) (find (\<lambda>t. tr_id t = j) ts)"
proof -
  have "find (\<lambda>t. tr_id t = j) (update_where (\<lambda>t. tr_id t = i) f ts) =
    map_option (\<lambda>t. if tr_id t = i then f t else t) (find (\<lambda>t. tr_id t = j) ts)"
    by (rule find_update_where) (rule assms)
  also have "\<dots> = map_option (\<lambda>t. if j = i then f t else t) (find (\<lambda>t. tr_id t = j) ts)"
  proof (cases "find (\<lambda>t. tr_id t = j) ts")
    case (Some t)
    then have "tr_id t = j" by (auto simp: find_Some_iff)
    with Some show ?thesis by simp
  qed simp
  finally show ?thesis .
qed

lemma apply_status_simps [simp]:
  "tr_id (apply_status st now t) = tr_id t"
  "tr_status (apply_status st now t) = st"
  "tr_parent_task_id (apply_status st now t) = tr_parent_task_id t"
  "tr_project_id (apply_status st now t) = tr_project_id t"
  "tr_requires_human_review (apply_status st now t) = tr_requires_human_review t"
  by (simp_all add: apply_status_def)

lemma set_status_ok:
  assumes "task_get i s \<noteq> None"
  shows "set_status E i st s =
    (s\<lparr>tick := Suc (tick s),
       tasks := update_where (\<lambda>t. tr_id t = i) (apply_status st (clock E (tick s))) (tasks s)\<rparr>, Inr ())"
  using assms by (auto simp: set_status_def Let_def rows_affected_0 task_get_None)

lemma set_status_missing:
  assumes "task_get i s = None"
  shows "set_status E i st s = (s\<lparr>tick := Suc (tick s)\<rparr>, Inl (DbNotFound (task_not_found i)))"
  using assms by (auto simp: set_status_def Let_def rows_affected_0 task_get_None)

lemma task_get_set_status:
  "task_get j (fst (set_status E i st s)) =
     map_option (\<lambda>t. if j = i then apply_status st (clock E (tick s)) t else t) (task_get j s)"
proof (cases "task_get i s = None")
  case True
  then show ?thesis
    by (cases "task_get j s") (auto simp: set_status_missing task_get_def)
next
  case False
  then show ?thesis
    by (simp add: set_status_ok) (simp add: task_get_def tasks_update_where_get)
qed

lemma status_at_set_status:
  "status_at (fst (set_status E i st s)) j =
     (if j = i \<and> task_get i s \<noteq> None then Some st else status_at s j)"
  by (cases "j = i"; cases "task_get i s"; cases "task_get j s")
     (simp_all add: status_at_def task_get_set_status)

lemma parent_at_set_status [simp]: "parent_at (fst (set_status E i st s)) = parent_at s"
  by (auto simp: parent_at_def task_get_set_status split: option.splits)

lemma set_status_frame [simp]:
  "task_dependencies (fst (set_status E i st s)) = task_dependencies s"
  "task_handoff_log (fst (set_status E i st s)) = task_handoff_log s"
  "task_artifacts (fst (set_status E i st s)) = task_artifacts s"
  "projects (fst (set_status E i st s)) = projects s"
  "pipeline_templates (fst (set_status E i st s)) = pipeline_templates s"
  "resource_acl (fst (set_status E i st s)) = resource_acl s"
  "users (fst (set_status E i st s)) = users s"
  "tick (fst (set_status E i st s)) = Suc (tick s)"
  by (simp_all add: set_status_def Let_def)

lemma map_id_set_status [simp]:
  "map tr_id (tasks (fst (set_status E i st s))) = map tr_id (tasks s)"
  by (simp add: set_status_def Let_def update_where_key)

lemma log_handoff_frame [simp]:
  "tasks (fst (log_handoff E p s)) = tasks s"
  "task_dependencies (fst (log_handoff E p s)) = task_dependencies s"
  "task_artifacts (fst (log_handoff E p s)) = task_artifacts s"
  "projects (fst (log_handoff E p s)) = projects s"
  "pipeline_templates (fst (log_handoff E p s)) = pipeline_templates s"
  "resource_acl (fst (log_handoff E p s)) = resource_acl s"
  "users (fst (log_handoff E p s)) = users s"
  "tick (fst (log_handoff E p s)) = Suc (tick s)"
  by (simp_all add: log_handoff_def Let_def)

lemma log_handoff_views [simp]:
  "task_get j (fst (log_handoff E p s)) = task_get j s"
  "status_at (fst (log_handoff E p s)) = status_at s"
  "parent_at (fst (log_handoff E p s)) = parent_at s"
  by (simp_all add: task_get_def status_at_def parent_at_def fun_eq_iff)

lemma deps_frame [simp]:
  "deps (fst (set_status E i st s)) = deps s"
  "deps (fst (log_handoff E p s)) = deps s"
  by (simp_all add: deps_def)

lemma log_handoff_ok:
  assumes "db_ok E s" "task_get (nh_task_id p) s \<noteq> None"
  shows "snd (log_handoff E p s) = Inr ()"
  using assms(2) db_ok_fresh_log [OF assms(1) order_refl]
  by (auto simp: log_handoff_def Let_def task_get_def image_iff)

text \<open>
  What the task operations that a handler runs after its checks leave alone: every table but the
  tasks, the dependencies and the handoff log; draws from the environment only move forward.
\<close>

definition same_rest :: "alinea_db \<Rightarrow> alinea_db \<Rightarrow> bool" where
  "same_rest s s' \<longleftrightarrow> tick s \<le> tick s' \<and> task_artifacts s' = task_artifacts s \<and> projects s' = projects s \<and>
     pipeline_templates s' = pipeline_templates s \<and> resource_acl s' = resource_acl s \<and> users s' = users s"

lemma same_rest_refl [simp]: "same_rest s s"
  by (simp add: same_rest_def)

lemma same_rest_trans [trans]: "same_rest s s' \<Longrightarrow> same_rest s' s'' \<Longrightarrow> same_rest s s''"
  by (simp add: same_rest_def)

lemma same_rest_ops [simp]:
  "same_rest s (fst (set_status E i st s))"
  "same_rest s (fst (log_handoff E p s))"
  by (simp_all add: same_rest_def)

section \<open>Well-formedness is kept\<close>

lemma db_ok_set_status:
  assumes "db_ok E s" "task_status_parse st \<noteq> None"
  shows "db_ok E (fst (set_status E i st s))"
proof -
  let ?s' = "fst (set_status E i st s)"
  have ids: "tr_id ` set (tasks ?s') = tr_id ` set (tasks s)"
    using map_id_set_status [of E i st s] by (metis set_map)
  have get: "task_get j ?s' = None \<longleftrightarrow> task_get j s = None" for j
    by (simp add: task_get_set_status)
  have row: "\<exists>u\<in>set (tasks s). tr_parent_task_id t = tr_parent_task_id u \<and>
      (tr_status t = tr_status u \<or> tr_status t = st)" if "t \<in> set (tasks ?s')" for t
    using that by (cases "task_get i s = None")
      (auto simp: set_status_ok set_status_missing in_update_where split: if_splits)
  show ?thesis
  proof (rule db_okI)
    show "task_status_parse (tr_status t) \<noteq> None" if "t \<in> set (tasks ?s')" for t
      using row [OF that] assms(2) db_ok_status [OF assms(1)] by metis
    show "task_get q ?s' \<noteq> None" if "t \<in> set (tasks ?s')" "tr_parent_task_id t = Some q" for t q
      using row [OF that(1)] that(2) db_ok_parent [OF assms(1)] by (metis get)
    show "task_get a ?s' \<noteq> None \<and> task_get b ?s' \<noteq> None" if "(a, b) \<in> deps ?s'" for a b
      using db_ok_fk [OF assms(1)] that by (simp add: get)
  qed (use db_okD [OF assms(1)] in \<open>simp_all add: ids\<close>)
qed

lemma db_ok_log_handoff:
  assumes "db_ok E s" "distinct_ids E"
  shows "db_ok E (fst (log_handoff E p s))"
proof -
  let ?s' = "fst (log_handoff E p s)"
  have log: "th_id ` set (task_handoff_log ?s') \<subseteq> insert (mint_id E (tick s)) (th_id ` set (task_handoff_log s))"
    by (auto simp: log_handoff_def Let_def)
  show ?thesis
  proof (rule db_okI)
    fix k assume "tick ?s' \<le> k"
    then have k: "tick s < k" by simp
    then have "mint_id E k \<noteq> mint_id E (tick s)"
      using assms(2) by (auto simp: distinct_ids_def inj_def)
    moreover have "mint_id E k \<notin> th_id ` set (task_handoff_log s)"
      using db_ok_fresh_log [OF assms(1)] k by simp
    ultimately show "mint_id E k \<notin> th_id ` set (task_handoff_log ?s')"
      using log by blast
    show "mint_id E k \<notin> tr_id ` set (tasks ?s')"
      using db_ok_fresh [OF assms(1)] k by simp
  next
    show "task_get a ?s' \<noteq> None \<and> task_get b ?s' \<noteq> None" if "(a, b) \<in> deps ?s'" for a b
      using db_ok_fk [OF assms(1)] that by simp
    show "task_get q ?s' \<noteq> None" if "t \<in> set (tasks ?s')" "tr_parent_task_id t = Some q" for t q
      using db_ok_parent [OF assms(1)] that by simp
  qed (use db_okD(1,2,4) [OF assms(1)] in auto)
qed

end
