(* ===== verification/ApiError.thy ===== *)
theory ApiError
  imports TaskRepo
begin

text \<open>
  \<open>ApiError\<close> (\<open>aionui-common/src/error.rs\<close>): the error of every REST handler, its HTTP status, its
  machine-readable code and the message a client may see. \<open>Internal\<close> of a printed database error
  is the constructor \<open>InternalDb\<close>, which keeps the error instead of SQLite's text.
\<close>

datatype api_error =
    NotFound string
  | BadRequest string
  | PayloadTooLarge string
  | UnsupportedMediaType string
  | Unauthorized string
  | Forbidden string
  | PathOutsideSandbox string "string option" "string option"
  | CsrfInvalid string
  | ApiConflict string
  | ApiRateLimited
  | Internal string
  | InternalDb db_error
  | BadGateway string
  | ApiTimeout string
  | UnprocessableEntity string
  | ConversationArchived string
  | WorkspacePathUnavailable string
  | WorkspacePathRuntimeUnavailable string

fun status_code :: "api_error \<Rightarrow> nat" where
  "status_code (NotFound _) = 404"
| "status_code (BadRequest _) = 400"
| "status_code (PayloadTooLarge _) = 413"
| "status_code (UnsupportedMediaType _) = 415"
| "status_code (Unauthorized _) = 401"
| "status_code (Forbidden _) = 403"
| "status_code (PathOutsideSandbox _ _ _) = 403"
| "status_code (CsrfInvalid _) = 403"
| "status_code (ApiConflict _) = 409"
| "status_code ApiRateLimited = 429"
| "status_code (Internal _) = 500"
| "status_code (InternalDb _) = 500"
| "status_code (BadGateway _) = 502"
| "status_code (ApiTimeout _) = 504"
| "status_code (UnprocessableEntity _) = 422"
| "status_code (ConversationArchived _) = 410"
| "status_code (WorkspacePathUnavailable _) = 400"
| "status_code (WorkspacePathRuntimeUnavailable _) = 400"

fun error_code :: "api_error \<Rightarrow> string" where
  "error_code (NotFound _) = ''NOT_FOUND''"
| "error_code (BadRequest _) = ''BAD_REQUEST''"
| "error_code (PayloadTooLarge _) = ''PAYLOAD_TOO_LARGE''"
| "error_code (UnsupportedMediaType _) = ''UNSUPPORTED_MEDIA_TYPE''"
| "error_code (Unauthorized _) = ''UNAUTHORIZED''"
| "error_code (Forbidden _) = ''FORBIDDEN''"
| "error_code (PathOutsideSandbox _ _ _) = ''PATH_OUTSIDE_SANDBOX''"
| "error_code (CsrfInvalid _) = ''CSRF_INVALID''"
| "error_code (ApiConflict _) = ''CONFLICT''"
| "error_code ApiRateLimited = ''RATE_LIMITED''"
| "error_code (Internal _) = ''INTERNAL_ERROR''"
| "error_code (InternalDb _) = ''INTERNAL_ERROR''"
| "error_code (BadGateway _) = ''BAD_GATEWAY''"
| "error_code (ApiTimeout _) = ''GATEWAY_TIMEOUT''"
| "error_code (UnprocessableEntity _) = ''UNPROCESSABLE_ENTITY''"
| "error_code (ConversationArchived _) = ''CONVERSATION_ARCHIVED''"
| "error_code (WorkspacePathUnavailable _) = ''WORKSPACE_PATH_UNAVAILABLE''"
| "error_code (WorkspacePathRuntimeUnavailable _) = ''WORKSPACE_PATH_RUNTIME_UNAVAILABLE''"

fun public_message :: "api_error \<Rightarrow> string" where
  "public_message (BadRequest message) = message"
| "public_message (Unauthorized message) = message"
| "public_message (Forbidden _) = ''Forbidden.''"
| "public_message (NotFound message) = message"
| "public_message (PathOutsideSandbox _ _ _) = ''Path is outside the allowed sandbox.''"
| "public_message (PayloadTooLarge _) = ''Request body is too large.''"
| "public_message (UnsupportedMediaType _) = ''Unsupported media type.''"
| "public_message (CsrfInvalid message) = message"
| "public_message (ApiConflict message) = message"
| "public_message ApiRateLimited = ''Rate limited''"
| "public_message (Internal _) = ''Internal server error.''"
| "public_message (InternalDb _) = ''Internal server error.''"
| "public_message (BadGateway _) = ''Upstream service unavailable.''"
| "public_message (ApiTimeout _) = ''Request timed out.''"
| "public_message (UnprocessableEntity message) = message"
| "public_message (ConversationArchived message) = message"
| "public_message (WorkspacePathUnavailable _) = ''Workspace path is unavailable.''"
| "public_message (WorkspacePathRuntimeUnavailable _) = ''Workspace path is unavailable at runtime.''"

text \<open>The rejection of a JSON body, by the status the web framework gives it.\<close>

definition from_json_rejection :: "nat \<Rightarrow> api_error" where
  "from_json_rejection status =
     (if status = 413 then PayloadTooLarge ''Request body is too large.''
      else if status = 415 then UnsupportedMediaType ''Unsupported media type.''
      else BadRequest ''Invalid JSON request body.'')"

text \<open>\<open>Result<Json<T>, JsonRejection>\<close>: the body, or the HTTP status of its rejection.\<close>

type_synonym 'r body = "nat + 'r"

definition read_body :: "'r body \<Rightarrow> 's \<Rightarrow> ('s, api_error, 'r) outcome" where
  "read_body body s = (case body of Inl status \<Rightarrow> (s, Inl (from_json_rejection status)) | Inr req \<Rightarrow> (s, Inr req))"

lemma read_body_simps [simp]:
  "read_body (Inl status) s = (s, Inl (from_json_rejection status))"
  "read_body (Inr req) s = (s, Inr req)"
  by (simp_all add: read_body_def)

lemma fst_read_body [simp]: "fst (read_body body s) = s"
  by (cases body) simp_all

lemma read_body_Inr [simp]: "read_body body s = (s', Inr x) \<longleftrightarrow> s' = s \<and> body = Inr x"
  by (cases body) auto

text \<open>
  Two errors with the same code have the same status, and for the errors a server or an upstream
  causes (status 500 and above) and the refused ones of sandbox and permission, the message a
  client sees depends on the code alone: no cause, path or SQL text leaks.
\<close>

lemma code_determines_status: "error_code e = error_code f \<Longrightarrow> status_code e = status_code f"
  by (cases e; cases f) simp_all

lemma public_message_by_code:
  "error_code e = error_code f \<Longrightarrow>
   error_code e \<in> {''INTERNAL_ERROR'', ''BAD_GATEWAY'', ''GATEWAY_TIMEOUT'', ''FORBIDDEN'', ''PATH_OUTSIDE_SANDBOX'',
     ''WORKSPACE_PATH_UNAVAILABLE'', ''WORKSPACE_PATH_RUNTIME_UNAVAILABLE''} \<Longrightarrow>
   public_message e = public_message f"
  by (cases e; cases f) simp_all

lemma server_errors_by_code:
  "500 \<le> status_code e \<Longrightarrow> error_code e \<in> {''INTERNAL_ERROR'', ''BAD_GATEWAY'', ''GATEWAY_TIMEOUT''}"
  by (cases e) simp_all

text \<open>Errors do not leak: the message a client sees for an internal, upstream, timeout, permission
  or sandbox error depends on the error's code alone, never on the cause, the path or the SQL text it
  carries; every error of status 500 or above is of that kind; and the code determines the status.\<close>

lemma public_message_does_not_leak:
  "(error_code e = error_code f \<and>
      (500 \<le> status_code e \<or> status_code e = 403 \<and> error_code e \<noteq> ''CSRF_INVALID'')
    \<longrightarrow> public_message e = public_message f) \<and>
   (error_code e = error_code f \<longrightarrow> status_code e = status_code f)"
proof (intro conjI impI)
  assume a: "error_code e = error_code f \<and> (500 \<le> status_code e \<or> status_code e = 403 \<and> error_code e \<noteq> ''CSRF_INVALID'')"
  have "error_code e \<in> {''FORBIDDEN'', ''PATH_OUTSIDE_SANDBOX''}" if "status_code e = 403" "error_code e \<noteq> ''CSRF_INVALID''"
    using that by (cases e) simp_all
  with a server_errors_by_code [of e] show "public_message e = public_message f"
    by (intro public_message_by_code) auto
qed (rule code_determines_status)

lemma public_message_does_not_leak_witness:
  "public_message (Internal ''SELECT secret'') = public_message (InternalDb (DbNotFound ''row''))"
  using public_message_does_not_leak [of "Internal ''SELECT secret''" "InternalDb (DbNotFound ''row'')"] by simp

end
