(* ===== verification/Workflow.thy ===== *)
theory Workflow
  imports TaskState
begin

text \<open>
  The abstract specification of the project pipeline: a partial map from task ids to states, the
  dependency pairs (task, prerequisite) and the parent of each task. \<open>ready\<close> says that every
  prerequisite is \<open>Done\<close>, \<open>cascade\<close> is what completing a task does to its dependents and
  \<open>wf_transition\<close> is one accepted action. \<open>scheduled\<close> is the promise of the handoff engine: a task
  is \<open>Blocked\<close> exactly as long as a prerequisite is open.
\<close>

record workflow =
  wf_status :: "string \<Rightarrow> task_status option"
  wf_deps :: "(string \<times> string) set"
  wf_parent :: "string \<Rightarrow> string option"

definition ready :: "workflow \<Rightarrow> string \<Rightarrow> bool" where
  "ready w i \<longleftrightarrow> (\<forall>d. (i, d) \<in> wf_deps w \<longrightarrow> wf_status w d = Some Done)"

definition scheduled :: "workflow \<Rightarrow> bool" where
  "scheduled w \<longleftrightarrow>
     (\<forall>i st. wf_status w i = Some st \<longrightarrow>
        (st = Blocked \<longrightarrow> \<not> ready w i) \<and> (st \<noteq> Blocked \<longrightarrow> st \<noteq> Done \<longrightarrow> ready w i))"

definition put_status :: "string \<Rightarrow> task_status \<Rightarrow> workflow \<Rightarrow> workflow" where
  "put_status i st w = w\<lparr>wf_status := (wf_status w)(i \<mapsto> st)\<rparr>"

definition cascade :: "string \<Rightarrow> workflow \<Rightarrow> workflow" where
  "cascade i w = w\<lparr>wf_status := (\<lambda>j.
     if wf_status w j = Some Blocked \<and> (j, i) \<in> wf_deps w \<and> ready w j then Some Todo
     else wf_status w j)\<rparr>"

definition children_done :: "string \<Rightarrow> workflow \<Rightarrow> bool" where
  "children_done p w \<longleftrightarrow> (\<forall>j. wf_parent w j = Some p \<longrightarrow> wf_status w j = Some Done)"

definition finish :: "string \<Rightarrow> workflow \<Rightarrow> workflow" where
  "finish i w = cascade i (put_status i Done w)"

definition wf_transition :: "string \<Rightarrow> task_action \<Rightarrow> bool \<Rightarrow> workflow \<Rightarrow> workflow option" where
  "wf_transition i a review w =
     (case wf_status w i of None \<Rightarrow> None | Some st \<Rightarrow>
      (case next_status st a review of None \<Rightarrow> None | Some st' \<Rightarrow>
        if a = Start \<and> \<not> ready w i then None
        else if st' \<noteq> Done then Some (put_status i st' w)
        else let w' = finish i w
             in case wf_parent w i of
                  None \<Rightarrow> Some w'
                | Some p \<Rightarrow> Some (if children_done p w' then finish p w' else w')))"

text \<open>A new task: added in \<open>Todo\<close>, then blocked when a prerequisite is open.\<close>

definition add_task :: "string \<Rightarrow> string option \<Rightarrow> string set \<Rightarrow> workflow \<Rightarrow> workflow" where
  "add_task i p ds w = w\<lparr>wf_status := (wf_status w)(i \<mapsto> Todo), wf_deps := wf_deps w \<union> {i} \<times> ds,
                         wf_parent := (wf_parent w)(i := p)\<rparr>"

definition settle :: "string \<Rightarrow> workflow \<Rightarrow> workflow" where
  "settle i w = (if ready w i then w else put_status i Blocked w)"

text \<open>\<open>scheduled\<close> but for the tasks of \<open>J\<close>, which are new and may still wait to be settled.\<close>

definition scheduled_but :: "string set \<Rightarrow> workflow \<Rightarrow> bool" where
  "scheduled_but J w \<longleftrightarrow>
     (\<forall>i st. wf_status w i = Some st \<longrightarrow>
        (if i \<in> J then st = Todo \<or> st = Blocked \<and> \<not> ready w i
         else (st = Blocked \<longrightarrow> \<not> ready w i) \<and> (st \<noteq> Blocked \<longrightarrow> st \<noteq> Done \<longrightarrow> ready w i)))"

section \<open>The schedule is kept\<close>

lemma put_status_simps [simp]:
  "wf_status (put_status i st w) = (wf_status w)(i \<mapsto> st)"
  "wf_deps (put_status i st w) = wf_deps w"
  "wf_parent (put_status i st w) = wf_parent w"
  by (simp_all add: put_status_def)

lemma cascade_simps [simp]:
  "wf_deps (cascade i w) = wf_deps w"
  "wf_parent (cascade i w) = wf_parent w"
  by (simp_all add: cascade_def)

lemma cascade_status:
  "wf_status (cascade i w) j =
     (if wf_status w j = Some Blocked \<and> (j, i) \<in> wf_deps w \<and> ready w j then Some Todo else wf_status w j)"
  by (simp add: cascade_def)

lemma cascade_Done [simp]: "wf_status (cascade i w) j = Some Done \<longleftrightarrow> wf_status w j = Some Done"
  by (auto simp: cascade_status)

lemma ready_cong:
  assumes "wf_deps w = wf_deps w'" "\<And>d. wf_status w d = Some Done \<longleftrightarrow> wf_status w' d = Some Done"
  shows "ready w i = ready w' i"
  using assms by (simp add: ready_def)

lemma ready_cascade [simp]: "ready (cascade i w) j = ready w j"
  by (rule ready_cong) simp_all

lemma finish_simps [simp]:
  "wf_deps (finish i w) = wf_deps w"
  "wf_parent (finish i w) = wf_parent w"
  "wf_status (finish i w) j = Some Done \<longleftrightarrow> j = i \<or> wf_status w j = Some Done"
  by (auto simp: finish_def)

lemma ready_finish: "ready w j \<Longrightarrow> ready (finish i w) j"
  by (auto simp: ready_def)

lemma ready_finish_new: "ready (finish i w) j \<Longrightarrow> \<not> ready w j \<Longrightarrow> (j, i) \<in> wf_deps w"
  by (auto simp: ready_def)

lemma ready_put_open:
  assumes "wf_status w i \<noteq> Some Done" "st \<noteq> Done"
  shows "ready (put_status i st w) j = ready w j"
  by (rule ready_cong) (use assms in auto)

lemma scheduledD:
  assumes "scheduled w" "wf_status w i = Some st"
  shows "st = Blocked \<Longrightarrow> \<not> ready w i" and "st \<noteq> Blocked \<Longrightarrow> st \<noteq> Done \<Longrightarrow> ready w i"
  using assms unfolding scheduled_def by blast+

lemma scheduled_put_open:
  assumes "scheduled w" "wf_status w i = Some old" "old \<noteq> Done" "st \<noteq> Done" "st \<noteq> Blocked" "ready w i"
  shows "scheduled (put_status i st w)"
proof -
  have r: "ready (put_status i st w) j = ready w j" for j
    by (rule ready_put_open) (use assms in auto)
  show ?thesis
    using assms unfolding scheduled_def by (auto simp: r)
qed

lemma scheduled_finish:
  assumes "scheduled w"
  shows "scheduled (finish i w)"
  unfolding scheduled_def
proof (intro allI impI conjI)
  fix j st
  assume j: "wf_status (finish i w) j = Some st"
  have rf: "ready (finish i w) j = ready (put_status i Done w) j"
    by (simp add: finish_def)
  show "\<not> ready (finish i w) j" if "st = Blocked"
  proof
    assume "ready (finish i w) j"
    with that j have b: "wf_status w j = Some Blocked" "j \<noteq> i" "(j, i) \<notin> wf_deps w"
      unfolding rf by (auto simp: finish_def cascade_status split: if_splits)
    with \<open>ready (finish i w) j\<close> ready_finish_new have "ready w j" by blast
    with b scheduledD [OF assms b(1)] show False by simp
  qed
  show "ready (finish i w) j" if "st \<noteq> Blocked" "st \<noteq> Done"
  proof (cases "wf_status w j = Some st")
    case True
    with that scheduledD [OF assms True] ready_finish show ?thesis by blast
  next
    case False
    with j that show ?thesis
      unfolding rf by (auto simp: finish_def cascade_status split: if_splits)
  qed
qed

lemma wf_transition_scheduled:
  assumes "scheduled w" "wf_transition i a review w = Some w'"
  shows "scheduled w'"
proof -
  obtain st st' where st: "wf_status w i = Some st" "next_status st a review = Some st'"
      "\<not> (a = Start \<and> \<not> ready w i)"
    using assms(2) by (auto simp: wf_transition_def split: option.splits if_splits)
  show ?thesis
  proof (cases "st' = Done")
    case True
    then show ?thesis
      using assms st by (auto simp: wf_transition_def Let_def scheduled_finish split: option.splits if_splits)
  next
    case False
    have nb: "st' \<noteq> Blocked" using st(2) next_status_no_target(1) by blast
    have nd: "st \<noteq> Done" using st(2) by auto
    have "ready w i"
    proof (cases "st = Blocked")
      case True
      with st(2) have "a = Start" by (cases a) auto
      with st(3) show ?thesis by simp
    qed (use scheduledD(2) [OF assms(1) st(1)] nd in blast)
    then show ?thesis
      using assms st False nb nd by (auto simp: wf_transition_def intro: scheduled_put_open)
  qed
qed

text \<open>A finished task stays finished, and no action moves it.\<close>

lemma wf_transition_Done_stable:
  assumes "wf_transition i a review w = Some w'" "wf_status w j = Some Done"
  shows "wf_status w' j = Some Done"
proof -
  obtain st st' where st: "wf_status w i = Some st" "next_status st a review = Some st'"
    using assms(1) by (auto simp: wf_transition_def split: option.splits)
  then have "st \<noteq> Done" by auto
  with st assms show ?thesis
    by (auto simp: wf_transition_def Let_def split: option.splits if_splits)
qed

lemma wf_transition_deps:
  "wf_transition i a review w = Some w' \<Longrightarrow> wf_deps w' = wf_deps w \<and> wf_parent w' = wf_parent w"
  by (auto simp: wf_transition_def Let_def split: option.splits if_splits)

text \<open>Once begun, a task's prerequisites are done and stay done.\<close>

lemma scheduled_begun:
  "scheduled w \<Longrightarrow> wf_status w i = Some st \<Longrightarrow> st \<in> {InProgress, InReview, Rejected, Todo} \<Longrightarrow>
   (i, d) \<in> wf_deps w \<Longrightarrow> wf_status w d = Some Done"
  using scheduledD(2) by (fastforce simp: ready_def)

text \<open>The start of a blocked task is always refused in a scheduled workflow.\<close>

lemma scheduled_blocked_no_start:
  "scheduled w \<Longrightarrow> wf_status w i = Some Blocked \<Longrightarrow> wf_transition i a review w = None"
  using scheduledD(1) by (cases a) (auto simp: wf_transition_def)

section \<open>New tasks\<close>

lemma scheduled_but_empty [simp]: "scheduled_but {} w = scheduled w"
  by (simp add: scheduled_but_def scheduled_def)

lemma add_task_simps [simp]:
  "wf_status (add_task i p ds w) = (wf_status w)(i \<mapsto> Todo)"
  "wf_deps (add_task i p ds w) = wf_deps w \<union> {i} \<times> ds"
  "wf_parent (add_task i p ds w) = (wf_parent w)(i := p)"
  by (simp_all add: add_task_def)

lemma scheduled_butD:
  assumes "scheduled_but J w" "wf_status w i = Some st"
  shows "st = Blocked \<Longrightarrow> \<not> ready w i" and "i \<in> J \<Longrightarrow> st = Todo \<or> st = Blocked"
    and "i \<notin> J \<Longrightarrow> st \<noteq> Blocked \<Longrightarrow> st \<noteq> Done \<Longrightarrow> ready w i"
proof -
  have *: "if i \<in> J then st = Todo \<or> st = Blocked \<and> \<not> ready w i
         else (st = Blocked \<longrightarrow> \<not> ready w i) \<and> (st \<noteq> Blocked \<longrightarrow> st \<noteq> Done \<longrightarrow> ready w i)"
    using assms unfolding scheduled_but_def by blast
  show "st = Blocked \<Longrightarrow> \<not> ready w i" and "i \<in> J \<Longrightarrow> st = Todo \<or> st = Blocked"
    and "i \<notin> J \<Longrightarrow> st \<noteq> Blocked \<Longrightarrow> st \<noteq> Done \<Longrightarrow> ready w i"
    using * by (auto split: if_splits)
qed

lemma scheduled_butI:
  assumes "\<And>i. wf_status w i = Some Blocked \<Longrightarrow> \<not> ready w i"
    and "\<And>i st. wf_status w i = Some st \<Longrightarrow> i \<in> J \<Longrightarrow> st = Todo \<or> st = Blocked"
    and "\<And>i st. wf_status w i = Some st \<Longrightarrow> i \<notin> J \<Longrightarrow> st \<noteq> Blocked \<Longrightarrow> st \<noteq> Done \<Longrightarrow> ready w i"
  shows "scheduled_but J w"
  using assms unfolding scheduled_but_def by (smt (verit))

text \<open>A task that no task depends on yet can be added without touching the others.\<close>

lemma scheduled_but_add_task:
  assumes "scheduled_but J w" "\<And>a b. (a, b) \<in> wf_deps w \<Longrightarrow> wf_status w a \<noteq> None \<and> wf_status w b \<noteq> None"
    and "wf_status w i = None"
  shows "scheduled_but (insert i J) (add_task i p ds w)"
proof -
  have r: "ready (add_task i p ds w) j = ready w j" if "j \<noteq> i" for j
    using assms(2,3) that unfolding ready_def by auto
  show ?thesis
    using assms(1) r unfolding scheduled_but_def by auto
qed

text \<open>More prerequisites for a task still to be settled disturb no other.\<close>

lemma scheduled_but_more_deps:
  assumes "scheduled_but J w" "i \<in> J"
  shows "scheduled_but J (w\<lparr>wf_deps := insert (i, d) (wf_deps w)\<rparr>)"
proof -
  let ?w = "w\<lparr>wf_deps := insert (i, d) (wf_deps w)\<rparr>"
  have r: "ready ?w j = ready w j" if "j \<noteq> i" for j
    using that by (auto simp: ready_def)
  have i: "ready ?w i \<Longrightarrow> ready w i" by (auto simp: ready_def)
  show ?thesis
  proof (rule scheduled_butI)
    show "\<not> ready ?w j" if "wf_status ?w j = Some Blocked" for j
      using scheduled_butD(1) [OF assms(1), of j] that r [of j] i by (cases "j = i") auto
    show "st = Todo \<or> st = Blocked" if "wf_status ?w j = Some st" "j \<in> J" for j st
      using scheduled_butD(2) [OF assms(1), of j] that by simp
    show "ready ?w j" if "wf_status ?w j = Some st" "j \<notin> J" "st \<noteq> Blocked" "st \<noteq> Done" for j st
      using scheduled_butD(3) [OF assms(1), of j] that r [of j] assms(2) by auto
  qed
qed

lemma settle_simps [simp]:
  "wf_deps (settle i w) = wf_deps w"
  "wf_parent (settle i w) = wf_parent w"
  by (simp_all add: settle_def)

lemma settle_status:
  "wf_status (settle i w) j = (if j = i \<and> \<not> ready w i then Some Blocked else wf_status w j)"
  by (simp add: settle_def)

lemma scheduled_but_settle:
  assumes "scheduled_but J w" "wf_status w i = Some st" "st = Todo \<or> st = Blocked"
  shows "scheduled_but (J - {i}) (settle i w)"
proof -
  have r: "ready (settle i w) j = ready w j" for j
    unfolding settle_def using assms(2,3) by (auto simp: ready_put_open)
  show ?thesis
  proof (rule scheduled_butI)
    show "\<not> ready (settle i w) j" if "wf_status (settle i w) j = Some Blocked" for j
      using scheduled_butD(1) [OF assms(1), of j] that unfolding r settle_status by (auto split: if_splits)
    show "st = Todo \<or> st = Blocked" if "wf_status (settle i w) j = Some st" "j \<in> J - {i}" for j st
      using scheduled_butD(2) [OF assms(1), of j] that unfolding settle_status by auto
    show "ready (settle i w) j"
      if "wf_status (settle i w) j = Some st" "j \<notin> J - {i}" "st \<noteq> Blocked" "st \<noteq> Done" for j st
      using scheduled_butD(3) [OF assms(1), of j] that unfolding r settle_status
      by (auto split: if_splits)
  qed
qed

lemma scheduled_but_intro:
  assumes "scheduled w" "\<And>i st. i \<in> J \<Longrightarrow> wf_status w i = Some st \<Longrightarrow> st = Todo \<or> st = Blocked"
  shows "scheduled_but J w"
  by (rule scheduled_butI) (use assms(2) scheduledD [OF assms(1)] in blast)+

lemma settle_ready [simp]: "ready w i \<Longrightarrow> settle i w = w"
  by (simp add: settle_def)

lemma scheduled_add_settle:
  assumes "scheduled w" "\<And>a b. (a, b) \<in> wf_deps w \<Longrightarrow> wf_status w a \<noteq> None \<and> wf_status w b \<noteq> None"
    and "wf_status w i = None"
  shows "scheduled (settle i (add_task i p ds w))"
proof -
  have "scheduled_but {i} (add_task i p ds w)"
    using scheduled_but_add_task [of "{}" w i p ds] assms by simp
  from scheduled_but_settle [OF this, of i Todo] show ?thesis by simp
qed

end
