(* ===== verification/Handoff.thy ===== *)
theory Handoff
  imports TaskRepoFacts Workflow
begin

text \<open>
  The handoff engine (\<open>aionui-projects/src/handoff.rs\<close>): \<open>on_task_completed\<close> unblocks the dependents
  of a completed task and \<open>block_if_unsatisfied\<close> blocks a new task with open dependencies. Both
  refine the abstract workflow: \<open>workflow_of\<close> reads the tables as a \<open>workflow\<close>.
\<close>

section \<open>The code\<close>

fun unblock_loop :: "env \<Rightarrow> task_row list \<Rightarrow> task_row list \<Rightarrow> task_row list db_op" where
  "unblock_loop E [] unblocked s = (s, Inr unblocked)"
| "unblock_loop E (dep # rest) unblocked s =
     (if tr_status dep = ''blocked'' \<and> dependencies_satisfied (tr_id dep) s
      then and_then (set_status E (tr_id dep) ''todo'' s) (\<lambda>_ s.
           and_then (log_handoff E
               \<lparr>nh_task_id = tr_id dep, nh_from_status = Some ''blocked'', nh_to_status = ''todo'',
                nh_actor = ''system'', nh_trigger_kind = ''dependency_satisfied'', nh_note = None\<rparr> s) (\<lambda>_ s.
           unblock_loop E rest
             (case task_get (tr_id dep) s of Some updated \<Rightarrow> unblocked @ [updated] | None \<Rightarrow> unblocked) s))
      else unblock_loop E rest unblocked s)"

definition on_task_completed :: "env \<Rightarrow> string \<Rightarrow> task_row list db_op" where
  "on_task_completed E completed_task_id s = unblock_loop E (dependents_of completed_task_id s) [] s"

definition block_if_unsatisfied :: "env \<Rightarrow> string \<Rightarrow> bool db_op" where
  "block_if_unsatisfied E task_id s =
     (if \<not> dependencies_satisfied task_id s
      then and_then (set_status E task_id ''blocked'' s) (\<lambda>_ s.
           and_then (log_handoff E
               \<lparr>nh_task_id = task_id, nh_from_status = Some ''todo'', nh_to_status = ''blocked'',
                nh_actor = ''system'', nh_trigger_kind = ''dependency_satisfied'',
                nh_note = Some ''created with unmet dependencies''\<rparr> s) (\<lambda>_ s.
           (s, Inr True)))
      else (s, Inr False))"

section \<open>Refinement of the abstract workflow\<close>

definition workflow_of :: "alinea_db \<Rightarrow> workflow" where
  "workflow_of s = \<lparr>wf_status = (\<lambda>i. Option.bind (status_at s i) task_status_parse),
                    wf_deps = deps s, wf_parent = parent_at s\<rparr>"

lemma workflow_of_simps [simp]:
  "wf_deps (workflow_of s) = deps s"
  "wf_parent (workflow_of s) = parent_at s"
  by (simp_all add: workflow_of_def)

lemma wf_status_of:
  "wf_status (workflow_of s) i = Some st \<longleftrightarrow> status_at s i = Some (task_status_as_str st)"
  by (cases "status_at s i") (auto simp: workflow_of_def task_status_parse_Some)

lemma wf_status_of_None:
  assumes "db_ok E s"
  shows "wf_status (workflow_of s) i = None \<longleftrightarrow> task_get i s = None"
proof (cases "task_get i s")
  case (Some t)
  with db_ok_status [OF assms] task_get_id [OF Some] show ?thesis
    by (simp add: workflow_of_def status_at_def)
qed (simp add: workflow_of_def status_at_def)

lemma ready_of:
  assumes "db_ok E s"
  shows "dependencies_satisfied i s \<longleftrightarrow> ready (workflow_of s) i"
  by (simp add: dependencies_satisfied_iff [OF assms] ready_def wf_status_of)

lemma workflow_of_log [simp]: "workflow_of (fst (log_handoff E p s)) = workflow_of s"
  by (simp add: workflow_of_def)

lemma workflow_of_set_status:
  assumes "task_get i s \<noteq> None"
  shows "workflow_of (fst (set_status E i (task_status_as_str st) s)) = put_status i st (workflow_of s)"
  using assms
  by (auto simp: workflow_of_def put_status_def fun_eq_iff status_at_set_status task_status_str)

text \<open>A set-then-log pair, as the engine and the handlers run it, succeeds and sets the state.\<close>

lemma set_and_log:
  assumes "db_ok E s" "distinct_ids E" "task_get i s \<noteq> None" "nh_task_id p = i"
  obtains s1 s' where
    "set_status E i (task_status_as_str st) s = (s1, Inr ())" "log_handoff E p s1 = (s', Inr ())"
    "db_ok E s'" "workflow_of s' = put_status i st (workflow_of s)"
    "\<And>j. j \<noteq> i \<Longrightarrow> task_get j s' = task_get j s"
    "same_rest s s'"
proof -
  let ?s1 = "fst (set_status E i (task_status_as_str st) s)"
  let ?s' = "fst (log_handoff E p ?s1)"
  have ok1: "db_ok E ?s1"
    by (rule db_ok_set_status) (use assms in \<open>simp_all add: task_status_str\<close>)
  show thesis
  proof (rule that [of ?s1 ?s'])
    show "set_status E i (task_status_as_str st) s = (?s1, Inr ())"
      using assms(3) by (simp add: set_status_ok)
    show "log_handoff E p ?s1 = (?s', Inr ())"
      by (rule prod_eqI) (use log_handoff_ok [OF ok1, of p] assms in \<open>auto simp: task_get_set_status\<close>)
    show "same_rest s ?s'" by (rule same_rest_trans [of s ?s1]) simp_all
  qed (use assms ok1 in \<open>auto simp: db_ok_log_handoff workflow_of_set_status task_get_set_status
        option.map_ident cong: option.map_cong\<close>)
qed

text \<open>The loop over a snapshot of dependents moves the blocked and ready ones among them to \<open>Todo\<close>.\<close>

definition unblock_among :: "string set \<Rightarrow> workflow \<Rightarrow> workflow" where
  "unblock_among J w = w\<lparr>wf_status := (\<lambda>j.
     if j \<in> J \<and> wf_status w j = Some Blocked \<and> ready w j then Some Todo else wf_status w j)\<rparr>"

lemma unblock_among_empty [simp]: "unblock_among {} w = w"
  by (simp add: unblock_among_def)

lemma unblock_among_insert_todo:
  assumes "wf_status w i = Some Blocked" "ready w i"
  shows "unblock_among (insert i J) w = unblock_among J (put_status i Todo w)"
  using assms by (auto simp: unblock_among_def put_status_def fun_eq_iff ready_put_open [unfolded put_status_def])

lemma unblock_among_insert_keep:
  assumes "\<not> (wf_status w i = Some Blocked \<and> ready w i)"
  shows "unblock_among (insert i J) w = unblock_among J w"
proof -
  have "(\<lambda>j. if j \<in> insert i J \<and> wf_status w j = Some Blocked \<and> ready w j then Some Todo else wf_status w j) =
        (\<lambda>j. if j \<in> J \<and> wf_status w j = Some Blocked \<and> ready w j then Some Todo else wf_status w j)"
    by (rule ext) (use assms in auto)
  then show ?thesis by (simp only: unblock_among_def)
qed

lemma unblock_loop_spec:
  assumes "db_ok E s" "distinct_ids E" "distinct (map tr_id ds)"
    and "\<And>d. d \<in> set ds \<Longrightarrow> task_get (tr_id d) s = Some d"
  shows "\<exists>s' out. unblock_loop E ds acc s = (s', Inr (acc @ out)) \<and> db_ok E s' \<and>
    same_rest s s' \<and>
    workflow_of s' = unblock_among (tr_id ` set ds) (workflow_of s) \<and>
    map tr_id out = map tr_id (filter (\<lambda>d. tr_status d = ''blocked'' \<and> dependencies_satisfied (tr_id d) s) ds)"
  using assms
proof (induction ds arbitrary: acc s)
  case Nil
  then show ?case by simp
next
  case (Cons d ds)
  have d: "task_get (tr_id d) s = Some d" using Cons.prems(4) by simp
  have blk: "tr_status d = ''blocked'' \<longleftrightarrow> wf_status (workflow_of s) (tr_id d) = Some Blocked"
    using d by (simp add: wf_status_of status_at_def)
  have rdy: "dependencies_satisfied (tr_id d) s \<longleftrightarrow> ready (workflow_of s) (tr_id d)"
    by (rule ready_of [OF Cons.prems(1)])
  show ?case
  proof (cases "tr_status d = ''blocked'' \<and> dependencies_satisfied (tr_id d) s")
    case True
    let ?p = "\<lparr>nh_task_id = tr_id d, nh_from_status = Some ''blocked'', nh_to_status = ''todo'',
      nh_actor = ''system'', nh_trigger_kind = ''dependency_satisfied'', nh_note = None\<rparr>"
    obtain s0 s1 where eff: "set_status E (tr_id d) (task_status_as_str Todo) s = (s0, Inr ())"
        "log_handoff E ?p s0 = (s1, Inr ())" and s1:
      "db_ok E s1" "workflow_of s1 = put_status (tr_id d) Todo (workflow_of s)"
      "\<And>j. j \<noteq> tr_id d \<Longrightarrow> task_get j s1 = task_get j s"
      "same_rest s s1"
      by (rule set_and_log [OF Cons.prems(1,2), of "tr_id d" ?p Todo]) (use d in auto)
    have "task_get (tr_id d) s1 \<noteq> None"
      using wf_status_of_None [OF s1(1)] s1(2) by (metis fun_upd_same option.distinct(1) put_status_simps(1))
    then obtain u where u: "task_get (tr_id d) s1 = Some u" by blast
    have rest: "task_get (tr_id x) s1 = Some x" if "x \<in> set ds" for x
    proof -
      have "tr_id x \<noteq> tr_id d" using Cons.prems(3) that by (auto simp: rev_image_eqI)
      from s1(3) [OF this] show ?thesis using Cons.prems(4) that by simp
    qed
    have sat: "dependencies_satisfied j s1 = dependencies_satisfied j s" for j
      unfolding ready_of [OF s1(1)] ready_of [OF Cons.prems(1)] s1(2)
      by (rule ready_put_open) (use True blk in auto)
    obtain s' out where s': "unblock_loop E ds (acc @ [u]) s1 = (s', Inr ((acc @ [u]) @ out))" "db_ok E s'"
      "same_rest s1 s'"
      "workflow_of s' = unblock_among (tr_id ` set ds) (workflow_of s1)"
      "map tr_id out = map tr_id (filter (\<lambda>d. tr_status d = ''blocked'' \<and> dependencies_satisfied (tr_id d) s1) ds)"
      using Cons.IH [OF s1(1) Cons.prems(2), of "acc @ [u]"] Cons.prems(3) rest by auto
    have "unblock_loop E (d # ds) acc s = unblock_loop E ds (acc @ [u]) s1"
      using True eff by (simp add: u)
    moreover have "workflow_of s' = unblock_among (tr_id ` set (d # ds)) (workflow_of s)"
      using True blk rdy s'(4) s1(2) by (simp add: unblock_among_insert_todo)
    ultimately show ?thesis
      using s' s1(2-) True task_get_id [OF u] same_rest_trans [OF s1(4) s'(3)] by (intro exI [of _ s'] exI [of _ "u # out"]) (simp add: sat)
  next
    case False
    have "unblock_among (tr_id ` set (d # ds)) (workflow_of s) = unblock_among (tr_id ` set ds) (workflow_of s)"
      using unblock_among_insert_keep [of "workflow_of s" "tr_id d" "tr_id ` set ds"] False blk rdy by auto
    moreover have "\<And>x. x \<in> set ds \<Longrightarrow> task_get (tr_id x) s = Some x" using Cons.prems(4) by simp
    ultimately show ?thesis
      using Cons.IH [OF Cons.prems(1,2), of acc] Cons.prems(3) False by auto
  qed
qed

lemma cascade_unblock_among:
  "cascade i w = unblock_among {j. (j, i) \<in> wf_deps w} w"
proof -
  have "(\<lambda>j. if wf_status w j = Some Blocked \<and> (j, i) \<in> wf_deps w \<and> ready w j then Some Todo else wf_status w j) =
        (\<lambda>j. if j \<in> {j. (j, i) \<in> wf_deps w} \<and> wf_status w j = Some Blocked \<and> ready w j then Some Todo else wf_status w j)"
    by (rule ext) auto
  then show ?thesis by (simp only: cascade_def unblock_among_def)
qed

lemma on_task_completed_spec:
  assumes "db_ok E s" "distinct_ids E"
  obtains s' out where "on_task_completed E i s = (s', Inr out)" "db_ok E s'"
    "same_rest s s'"
    "workflow_of s' = cascade i (workflow_of s)"
    "set (map tr_id out) = {j. (j, i) \<in> deps s \<and> status_at s j = Some ''blocked'' \<and> dependencies_satisfied j s}"
proof -
  let ?ds = "dependents_of i s"
  have get: "task_get (tr_id d) s = Some d" if "d \<in> set ?ds" for d
    using that dependents_of_iff [OF assms(1)] by blast
  have ids: "tr_id ` set ?ds = {j. (j, i) \<in> deps s}"
  proof (intro set_eqI iffI)
    fix j assume "j \<in> {j. (j, i) \<in> deps s}"
    then have "(j, i) \<in> deps s" by simp
    moreover from db_ok_fk [OF assms(1) this] obtain t where "task_get j s = Some t" by auto
    moreover from task_get_id [OF this] have "tr_id t = j" by simp
    ultimately have "t \<in> set ?ds" using dependents_of_iff [OF assms(1)] by metis
    with \<open>tr_id t = j\<close> show "j \<in> tr_id ` set ?ds" by blast
  qed (auto simp: dependents_of_iff [OF assms(1)])
  obtain s' out where s': "unblock_loop E ?ds [] s = (s', Inr out)" "db_ok E s'"
    "same_rest s s'"
    "workflow_of s' = unblock_among (tr_id ` set ?ds) (workflow_of s)"
    "map tr_id out = map tr_id (filter (\<lambda>d. tr_status d = ''blocked'' \<and> dependencies_satisfied (tr_id d) s) ?ds)"
    using unblock_loop_spec [OF assms distinct_dependents_of [OF assms(1)], of _ "[]"] get by force
  have st: "status_at s (tr_id d) = Some (tr_status d)" if "d \<in> set ?ds" for d
    using get [OF that] by (simp add: status_at_def)
  have out: "set (map tr_id out) = {j \<in> tr_id ` set ?ds. status_at s j = Some ''blocked'' \<and> dependencies_satisfied j s}"
    unfolding s'(5) using st by auto
  show thesis
  proof (rule that)
    show "on_task_completed E i s = (s', Inr out)"
      unfolding on_task_completed_def by (rule s'(1))
    show "workflow_of s' = cascade i (workflow_of s)"
      unfolding s'(4) cascade_unblock_among ids by simp
    show "set (map tr_id out) = {j. (j, i) \<in> deps s \<and> status_at s j = Some ''blocked'' \<and> dependencies_satisfied j s}"
      unfolding out ids by simp
  qed (fact s')+
qed

lemma block_if_unsatisfied_spec:
  assumes "db_ok E s" "distinct_ids E" "task_get i s \<noteq> None"
  obtains s' where "block_if_unsatisfied E i s = (s', Inr (\<not> ready (workflow_of s) i))" "db_ok E s'"
    "same_rest s s'"
    "workflow_of s' = (if ready (workflow_of s) i then workflow_of s else put_status i Blocked (workflow_of s))"
proof (cases "dependencies_satisfied i s")
  case True
  then show ?thesis
    using assms by (intro that [of s]) (simp_all add: block_if_unsatisfied_def ready_of)
next
  case False
  let ?p = "\<lparr>nh_task_id = i, nh_from_status = Some ''todo'', nh_to_status = ''blocked'',
    nh_actor = ''system'', nh_trigger_kind = ''dependency_satisfied'',
    nh_note = Some ''created with unmet dependencies''\<rparr>"
  obtain s0 s1 where s1: "set_status E i (task_status_as_str Blocked) s = (s0, Inr ())"
    "log_handoff E ?p s0 = (s1, Inr ())"
    "db_ok E s1" "workflow_of s1 = put_status i Blocked (workflow_of s)" "same_rest s s1"
    by (rule set_and_log [OF assms, of ?p Blocked]) auto
  show ?thesis
    using False s1 ready_of [OF assms(1), of i]
    by (intro that [of s1]) (simp_all add: block_if_unsatisfied_def)
qed

end
