(* ===== verification/TaskCreation.thy ===== *)
theory TaskCreation
  imports Handoff
begin

text \<open>
  What inserting a task and a dependency does to the tables and to the abstract workflow: the
  transaction of \<open>task_create\<close> either leaves the tables alone or adds one \<open>todo\<close> task with its
  dependencies, and \<open>add_dependency\<close> adds one pair.
\<close>

section \<open>Dependencies\<close>

definition deps_ok :: "alinea_db \<Rightarrow> bool" where
  "deps_ok s \<longleftrightarrow> distinct (task_dependencies s) \<and> (\<forall>a b. (a, b) \<in> deps s \<longrightarrow> task_get a s \<noteq> None \<and> task_get b s \<noteq> None)"

lemma add_dependency_Inr:
  assumes "add_dependency a b s = (s', Inr u)" "deps_ok s"
  shows "s' = s\<lparr>task_dependencies := task_dependencies s'\<rparr>" "deps s' = insert (a, b) (deps s)" "deps_ok s'"
proof -
  have "s' = s\<lparr>task_dependencies := task_dependencies s'\<rparr> \<and> deps s' = insert (a, b) (deps s) \<and> deps_ok s'"
  proof (cases "(a, b) \<in> set (task_dependencies s)")
    case True
    with assms show ?thesis by (auto simp: add_dependency_def deps_def)
  next
    case False
    with assms(1) have s': "s' = s\<lparr>task_dependencies := task_dependencies s @ [(a, b)]\<rparr>"
        "task_get a s \<noteq> None" "task_get b s \<noteq> None"
      by (auto simp: add_dependency_def split: if_splits)
    have g: "task_get j s' = task_get j s" for j by (simp add: s'(1) task_get_def)
    show ?thesis
      using assms(2) False s'(2,3) unfolding deps_ok_def g by (auto simp: s'(1) deps_def)
  qed
  then show "s' = s\<lparr>task_dependencies := task_dependencies s'\<rparr>" "deps s' = insert (a, b) (deps s)" "deps_ok s'"
    by blast+
qed

lemma add_dependency_succeeds:
  "task_get a s \<noteq> None \<Longrightarrow> task_get b s \<noteq> None \<Longrightarrow> snd (add_dependency a b s) = Inr ()"
  by (auto simp: add_dependency_def)

lemma add_dependencies_Inr:
  assumes "for_each (add_dependency i) ds s = (s', Inr u)" "deps_ok s"
  shows "s' = s\<lparr>task_dependencies := task_dependencies s'\<rparr> \<and> deps s' = deps s \<union> {i} \<times> set ds \<and> deps_ok s'"
  using assms
proof (induction ds arbitrary: s)
  case Nil
  then show ?case by simp
next
  case (Cons d ds)
  from Cons.prems(1) obtain t where t: "add_dependency i d s = (t, Inr ())" "for_each (add_dependency i) ds t = (s', Inr u)"
    by (auto simp: and_then_Inr)
  note 1 = add_dependency_Inr [OF t(1) Cons.prems(2)]
  note 2 = Cons.IH [OF t(2) 1(3)]
  have "s' = s\<lparr>task_dependencies := task_dependencies s'\<rparr>"
    using 1(1) 2 by (metis alinea_db.update_convs(2) alinea_db.cases_scheme alinea_db.select_convs(2))
  with 1 2 show ?case by auto
qed

section \<open>A new task\<close>

definition insert_task :: "task_row \<Rightarrow> (string \<times> string) list \<Rightarrow> alinea_db \<Rightarrow> alinea_db" where
  "insert_task t ds s = s\<lparr>tick := Suc (tick s), tasks := tasks s @ [t], task_dependencies := ds\<rparr>"

lemma task_create_cases:
  assumes "db_ok E s"
  obtains (failed) e where "task_create E p s = (s\<lparr>tick := Suc (tick s)\<rparr>, Inl e)"
  | (created) ds where
      "task_create E p s = (insert_task (new_task_row (mint_id E (tick s)) (clock E (tick s)) p) ds s,
          Inr (new_task_row (mint_id E (tick s)) (clock E (tick s)) p))"
      "set ds = deps s \<union> {mint_id E (tick s)} \<times> set (nt_depends_on p)" "distinct ds"
      "\<exists>pr\<in>set (projects s). pr_id pr = nt_project_id p"
      "\<And>q. nt_parent_task_id p = Some q \<Longrightarrow> task_get q s \<noteq> None \<or> q = mint_id E (tick s)"
      "\<And>d. d \<in> set (nt_depends_on p) \<Longrightarrow> task_get d s \<noteq> None \<or> d = mint_id E (tick s)"
proof -
  let ?i = "mint_id E (tick s)"
  let ?row = "new_task_row ?i (clock E (tick s)) p"
  let ?s1 = "s\<lparr>tick := Suc (tick s)\<rparr>"
  let ?s2 = "?s1\<lparr>tasks := tasks s @ [?row]\<rparr>"
  let ?bad = "task_get ?i ?s1 \<noteq> None \<or> \<not> (\<exists>pr\<in>set (projects s). pr_id pr = nt_project_id p)
    \<or> (case nt_parent_task_id p of None \<Rightarrow> False | Some q \<Rightarrow> task_get q ?s1 = None \<and> q \<noteq> ?i)"
  have id: "tr_id ?row = ?i" by (simp add: new_task_row_def)
  have fresh: "?i \<notin> tr_id ` set (tasks s)" by (rule db_ok_fresh [OF assms order_refl])
  have get: "task_get j ?s2 = (if j = ?i then Some ?row else task_get j s)" for j
  proof -
    have "find Q (xs @ [y]) = (case find Q xs of None \<Rightarrow> if Q y then Some y else None | Some x \<Rightarrow> Some x)"
      for Q :: "task_row \<Rightarrow> bool" and xs y by (induction xs) auto
    moreover have "find (\<lambda>t. tr_id t = ?i) (tasks s) = None"
      using fresh by (auto simp: find_None_iff image_iff)
    ultimately show ?thesis using id by (auto simp: task_get_def split: option.splits)
  qed
  have ok2: "deps_ok ?s2"
    unfolding deps_ok_def get using db_ok_fk [OF assms] db_ok_pairs [OF assms] by (auto simp: deps_def)
  obtain s3 r where fe: "for_each (add_dependency ?i) (nt_depends_on p) ?s2 = (s3, r)" by fastforce
  have unf: "task_create E p s = (if ?bad then (?s1, Inl Query)
      else (case r of Inl e \<Rightarrow> (?s1, Inl e) | Inr _ \<Rightarrow>
        (case task_get ?i s3 of None \<Rightarrow> (s3, Inl (DbNotFound (task_not_found ?i @ '' after insert''))) | Some t \<Rightarrow> (s3, Inr t))))"
    using fe by (simp add: task_create_def Let_def)
  show thesis
  proof (cases "?bad \<or> (\<exists>e. r = Inl e)")
    case True
    then show thesis using failed unf by (cases r) (auto split: if_splits)
  next
    case False
    then obtain u where r: "r = Inr u" by (cases r) auto
    from add_dependencies_Inr [OF fe [unfolded r] ok2]
    have s3: "s3 = ?s2\<lparr>task_dependencies := task_dependencies s3\<rparr>"
        "deps s3 = deps ?s2 \<union> {?i} \<times> set (nt_depends_on p)" "deps_ok s3" by auto
    have get3: "task_get j s3 = task_get j ?s2" for j
      by (rule task_get_cong) (use s3(1) in \<open>metis alinea_db.select_convs(1) alinea_db.surjective alinea_db.update_convs(2)\<close>)
    show thesis
    proof (rule created [of "task_dependencies s3"])
      have "s3 = insert_task ?row (task_dependencies s3) s"
        using s3(1) by (simp add: insert_task_def)
      then show "task_create E p s = (insert_task ?row (task_dependencies s3) s, Inr ?row)"
        using False unf r get3 [of ?i] get [of ?i] by simp
      show "set (task_dependencies s3) = deps s \<union> {?i} \<times> set (nt_depends_on p)"
        using s3(2) by (simp add: deps_def)
      show "distinct (task_dependencies s3)" using s3(3) by (simp add: deps_ok_def)
      show "\<exists>pr\<in>set (projects s). pr_id pr = nt_project_id p" using False by auto
      show "task_get q s \<noteq> None \<or> q = ?i" if "nt_parent_task_id p = Some q" for q
        using False that by (auto simp: task_get_def)
      show "task_get d s \<noteq> None \<or> d = ?i" if "d \<in> set (nt_depends_on p)" for d
      proof -
        have "(?i, d) \<in> deps s3" using s3(2) that by auto
        then have "task_get d s3 \<noteq> None" using s3(3) unfolding deps_ok_def by blast
        then show ?thesis unfolding get3 get by (auto split: if_splits)
      qed
    qed
  qed
qed

lemma find_append: "find Q (xs @ ys) = (case find Q xs of None \<Rightarrow> find Q ys | Some x \<Rightarrow> Some x)"
  by (induction xs) auto

lemma task_get_insert_task:
  assumes "tr_id t \<notin> tr_id ` set (tasks s)"
  shows "task_get j (insert_task t ds s) = (if j = tr_id t then Some t else task_get j s)"
proof -
  have "find (\<lambda>x. tr_id x = tr_id t) (tasks s) = None"
    using assms by (auto simp: find_None_iff image_iff)
  then show ?thesis
    by (auto simp: task_get_def insert_task_def find_append split: option.splits)
qed

lemma insert_task_frame [simp]:
  "tasks (insert_task t ds s) = tasks s @ [t]"
  "task_dependencies (insert_task t ds s) = ds"
  "task_handoff_log (insert_task t ds s) = task_handoff_log s"
  "tick (insert_task t ds s) = Suc (tick s)"
  "same_rest s (insert_task t ds s)"
  by (simp_all add: insert_task_def same_rest_def)

text \<open>The created task is \<open>add_task\<close> of the abstract workflow.\<close>

lemma insert_task_spec:
  assumes "db_ok E s" "distinct_ids E" "tr_id t = mint_id E (tick s)" "tr_status t = ''todo''"
    and "set ds = deps s \<union> {tr_id t} \<times> D" "distinct ds"
    and "\<And>q. tr_parent_task_id t = Some q \<Longrightarrow> task_get q s \<noteq> None \<or> q = tr_id t"
    and "\<And>d. d \<in> D \<Longrightarrow> task_get d s \<noteq> None \<or> d = tr_id t"
  shows "db_ok E (insert_task t ds s)"
    and "workflow_of (insert_task t ds s) = add_task (tr_id t) (tr_parent_task_id t) D (workflow_of s)"
proof -
  have fresh: "tr_id t \<notin> tr_id ` set (tasks s)"
    unfolding assms(3) by (rule db_ok_fresh [OF assms(1) order_refl])
  note get = task_get_insert_task [OF fresh]
  have deps: "deps (insert_task t ds s) = deps s \<union> {tr_id t} \<times> D"
    by (simp add: deps_def assms(5) [unfolded deps_def])
  show "db_ok E (insert_task t ds s)"
  proof (rule db_okI)
    show "distinct (map tr_id (tasks (insert_task t ds s)))"
      using db_ok_ids [OF assms(1)] fresh by simp
    show "task_get a (insert_task t ds s) \<noteq> None \<and> task_get b (insert_task t ds s) \<noteq> None"
      if "(a, b) \<in> deps (insert_task t ds s)" for a b
      using that db_ok_fk [OF assms(1), of a b] assms(8) [of b] unfolding deps get by auto
    show "task_status_parse (tr_status u) \<noteq> None" if "u \<in> set (tasks (insert_task t ds s))" for u
      using that db_ok_status [OF assms(1), of u] task_status_codec.parse_to_str [of Todo] assms(4) by auto
    show "task_get q (insert_task t ds s) \<noteq> None"
      if "u \<in> set (tasks (insert_task t ds s))" "tr_parent_task_id u = Some q" for u q
      using that db_ok_parent [OF assms(1), of u q] assms(7) [of q] unfolding get by auto
    fix k assume k: "tick (insert_task t ds s) \<le> k"
    then show "mint_id E k \<notin> tr_id ` set (tasks (insert_task t ds s))"
      using db_ok_fresh [OF assms(1), of k] by (simp add: assms(3) mint_id_eq [OF assms(2)])
    show "mint_id E k \<notin> th_id ` set (task_handoff_log (insert_task t ds s))"
      using db_ok_fresh_log [OF assms(1), of k] k by simp
  qed (use assms(6) in simp)
  have "wf_status (workflow_of (insert_task t ds s)) j = wf_status (add_task (tr_id t) (tr_parent_task_id t) D (workflow_of s)) j" for j
    using task_status_codec.parse_to_str [of Todo] assms(4)
    by (simp add: workflow_of_def status_at_def get)
  moreover have "wf_parent (workflow_of (insert_task t ds s)) j = wf_parent (add_task (tr_id t) (tr_parent_task_id t) D (workflow_of s)) j" for j
    by (simp add: parent_at_def get)
  ultimately show "workflow_of (insert_task t ds s) = add_task (tr_id t) (tr_parent_task_id t) D (workflow_of s)"
    by (intro workflow.equality) (auto simp: deps fun_eq_iff)
qed

text \<open>A dependency between existing tasks.\<close>

lemma add_dependency_spec:
  assumes "db_ok E s" "task_get a s \<noteq> None" "task_get b s \<noteq> None"
  obtains s' where "add_dependency a b s = (s', Inr ())" "db_ok E s'" "same_rest s s'" "tasks s' = tasks s"
    "workflow_of s' = (workflow_of s)\<lparr>wf_deps := insert (a, b) (wf_deps (workflow_of s))\<rparr>"
proof -
  let ?s' = "fst (add_dependency a b s)"
  have eq: "add_dependency a b s = (?s', Inr ())"
    using add_dependency_succeeds [OF assms(2,3)] by (metis prod.collapse)
  have "deps_ok s" using assms(1) db_okD(2,3) [OF assms(1)] by (simp add: deps_ok_def)
  note d = add_dependency_Inr [OF eq this]
  have fr: "tasks ?s' = tasks s" "task_handoff_log ?s' = task_handoff_log s" "tick ?s' = tick s" "same_rest s ?s'"
    by (auto simp: add_dependency_def same_rest_def)
  have g: "task_get j ?s' = task_get j s" for j by (rule task_get_cong) (rule fr)
  show thesis
  proof (rule that [OF eq])
    show "db_ok E ?s'"
    proof (rule db_okI)
      show "distinct (task_dependencies ?s')" using d(3) by (simp add: deps_ok_def)
      show "task_get a ?s' \<noteq> None \<and> task_get b ?s' \<noteq> None" if "(a, b) \<in> deps ?s'" for a b
        using d(3) that unfolding deps_ok_def by blast
      show "task_get q ?s' \<noteq> None" if "u \<in> set (tasks ?s')" "tr_parent_task_id u = Some q" for u q
        using that db_ok_parent [OF assms(1), of u q] unfolding g fr by simp
    qed (use db_okD(1,4,6,7) [OF assms(1)] in \<open>simp_all add: fr\<close>)
    show "workflow_of ?s' = (workflow_of s)\<lparr>wf_deps := insert (a, b) (wf_deps (workflow_of s))\<rparr>"
    proof -
      have "parent_at ?s' = parent_at s" by (rule ext) (simp add: parent_at_def g)
      then show ?thesis by (simp add: workflow_of_def d(2) status_at_def g)
    qed
  qed (fact fr)+
qed

lemma workflow_dom:
  assumes "db_ok E s" "(a, b) \<in> wf_deps (workflow_of s)"
  shows "wf_status (workflow_of s) a \<noteq> None \<and> wf_status (workflow_of s) b \<noteq> None"
  using db_ok_fk [OF assms(1)] assms(2) by (simp add: wf_status_of_None [OF assms(1)])

end
