(* ===== verification/ProjectRepo.thy ===== *)
theory ProjectRepo
  imports TaskRepo
begin

text \<open>
  \<open>SqliteProjectRepository\<close> (\<open>aionui-db/src/repository/sqlite_project.rs\<close>): the project rows and the
  catalogue of pipeline templates.
\<close>

record new_project =
  np_name :: string
  np_description :: "string option"
  np_project_type :: string
  np_created_by :: string

record project_update =
  pu_name :: "string option"
  pu_description :: "string option option"
  pu_status :: "string option"

definition project_create :: "env \<Rightarrow> new_project \<Rightarrow> project_row db_op" where
  "project_create E p s =
     (let i = mint_id E (tick s); now = clock E (tick s); s1 = s\<lparr>tick := Suc (tick s)\<rparr>;
          row = \<lparr>pr_id = i, pr_name = np_name p, pr_description = np_description p,
                 pr_project_type = np_project_type p, pr_status = ''active'',
                 pr_created_by = np_created_by p, pr_created_at = now, pr_updated_at = now\<rparr>
      in if \<exists>r\<in>set (projects s1). pr_id r = i then (s1, Inl Query)
         else (s1\<lparr>projects := projects s1 @ [row]\<rparr>, Inr row))"

definition project_get :: "string \<Rightarrow> alinea_db \<Rightarrow> project_row option" where
  "project_get i s = find (\<lambda>r. pr_id r = i) (projects s)"

text \<open>The join with \<open>resource_acl\<close>, newest update first.\<close>

definition list_for_user :: "string \<Rightarrow> bool \<Rightarrow> alinea_db \<Rightarrow> project_row list" where
  "list_for_user user_id include_archived s =
     sort_key (\<lambda>p. - pr_updated_at p)
       [p. p \<leftarrow> projects s, a \<leftarrow> resource_acl s,
           ra_resource_type a = ''project'' \<and> ra_resource_id a = pr_id p \<and>
           ra_principal_type a = ''user'' \<and> ra_principal_id a = user_id \<and>
           (include_archived \<or> pr_status p = ''active'')]"

definition apply_project_update :: "project_update \<Rightarrow> int \<Rightarrow> project_row \<Rightarrow> project_row" where
  "apply_project_update u now r =
     (set_opt (pu_status u) (\<lambda>x r. r\<lparr>pr_status := x\<rparr>)
     (set_opt (pu_description u) (\<lambda>x r. r\<lparr>pr_description := x\<rparr>)
     (set_opt (pu_name u) (\<lambda>x r. r\<lparr>pr_name := x\<rparr>) r)))\<lparr>pr_updated_at := now\<rparr>"

definition project_update_fields :: "env \<Rightarrow> string \<Rightarrow> project_update \<Rightarrow> unit db_op" where
  "project_update_fields E i u s =
     (if pu_name u = None \<and> pu_description u = None \<and> pu_status u = None then (s, Inr ())
      else let now = clock E (tick s); s1 = s\<lparr>tick := Suc (tick s)\<rparr>
           in if rows_affected (\<lambda>r. pr_id r = i) (projects s1) = 0
              then (s1, Inl (DbNotFound (''Project '' @ quoted i @ '' not found'')))
              else (s1\<lparr>projects := update_where (\<lambda>r. pr_id r = i) (apply_project_update u now) (projects s1)\<rparr>, Inr ()))"

definition list_templates :: "string option \<Rightarrow> alinea_db \<Rightarrow> pipeline_template_row list" where
  "list_templates project_type s =
     sort_key pt_name
       (filter (\<lambda>t. pt_is_active t \<and> (case project_type of None \<Rightarrow> True | Some pt \<Rightarrow> pt_project_type t = pt))
         (pipeline_templates s))"

definition get_template :: "string \<Rightarrow> alinea_db \<Rightarrow> pipeline_template_row option" where
  "get_template i s = find (\<lambda>t. pt_id t = i) (pipeline_templates s)"

section \<open>Effects\<close>

lemma project_create_frame [simp]:
  "tasks (fst (project_create E p s)) = tasks s"
  "task_dependencies (fst (project_create E p s)) = task_dependencies s"
  "task_handoff_log (fst (project_create E p s)) = task_handoff_log s"
  "task_artifacts (fst (project_create E p s)) = task_artifacts s"
  "resource_acl (fst (project_create E p s)) = resource_acl s"
  "users (fst (project_create E p s)) = users s"
  "tick (fst (project_create E p s)) = Suc (tick s)"
  by (simp_all add: project_create_def Let_def)

lemma project_update_frame [simp]:
  "tasks (fst (project_update_fields E i u s)) = tasks s"
  "task_dependencies (fst (project_update_fields E i u s)) = task_dependencies s"
  "task_handoff_log (fst (project_update_fields E i u s)) = task_handoff_log s"
  "task_artifacts (fst (project_update_fields E i u s)) = task_artifacts s"
  "resource_acl (fst (project_update_fields E i u s)) = resource_acl s"
  "users (fst (project_update_fields E i u s)) = users s"
  "tick s \<le> tick (fst (project_update_fields E i u s))"
  by (simp_all add: project_update_fields_def Let_def)

lemma apply_project_update_id [simp]: "pr_id (apply_project_update u now r) = pr_id r"
  by (simp add: apply_project_update_def set_opt_def split: option.splits)

lemma project_update_ids [simp]:
  "map pr_id (projects (fst (project_update_fields E i u s))) = map pr_id (projects s)"
  by (simp add: project_update_fields_def Let_def update_where_key)

end
