(* ===== verification/Pipeline.thy ===== *)
theory Pipeline
  imports TaskCreation ProjectRepo
begin

text \<open>
  \<open>PipelineService::instantiate\<close> (\<open>aionui-projects/src/pipeline.rs\<close>): a template's task
  specifications become tasks, their keys become dependencies, and every task with an open
  dependency is blocked. Reading the JSON definition (\<open>serde_json\<close>) is the parameter \<open>parse\<close>.
\<close>

section \<open>The code\<close>

record task_spec =
  ts_key :: string
  ts_title :: string
  ts_assignee_kind :: string
  ts_agent :: "string option"
  ts_requires_human_review :: bool
  ts_produces_artifact :: "string option"
  ts_depends_on :: "string list"

datatype pipeline_error = PipelineDb db_error | TemplateNotFound string | InvalidTemplate string

definition spec_task :: "string \<Rightarrow> string \<Rightarrow> nat \<Rightarrow> task_spec \<Rightarrow> new_task" where
  "spec_task project_id created_by i spec =
     \<lparr>nt_project_id = project_id, nt_parent_task_id = None, nt_title = ts_title spec,
      nt_instructions = None, nt_assignee_kind = ts_assignee_kind spec,
      nt_assignee_id = (if ts_assignee_kind spec = ''agent'' then ts_agent spec else None),
      nt_requires_human_review = ts_requires_human_review spec,
      nt_produces_artifact = ts_produces_artifact spec, nt_order_index = int i,
      nt_created_by = created_by, nt_depends_on = []\<rparr>"

fun create_specs :: "env \<Rightarrow> string \<Rightarrow> string \<Rightarrow> nat \<Rightarrow> task_spec list \<Rightarrow> (string, string) hmap
    \<Rightarrow> (string, string) hmap db_op" where
  "create_specs E project_id created_by i [] key_to_id s = (s, Inr key_to_id)"
| "create_specs E project_id created_by i (spec # specs) key_to_id s =
     and_then (task_create E (spec_task project_id created_by i spec) s) (\<lambda>task.
       create_specs E project_id created_by (Suc i) specs (hm_insert (ts_key spec) (tr_id task) key_to_id))"

definition wire_specs :: "(string, string) hmap \<Rightarrow> task_spec list \<Rightarrow> unit db_op" where
  "wire_specs key_to_id = for_each (\<lambda>spec s.
     case hm_get key_to_id (ts_key spec) of
       None \<Rightarrow> (s, Inr ())
     | Some task_id \<Rightarrow>
         for_each (\<lambda>dep_key s.
           case hm_get key_to_id dep_key of
             None \<Rightarrow> (s, Inr ())
           | Some dep_id \<Rightarrow> add_dependency task_id dep_id s) (ts_depends_on spec) s)"

fun block_created :: "env \<Rightarrow> (string, string) hmap \<Rightarrow> task_spec list \<Rightarrow> task_row list \<Rightarrow> task_row list db_op" where
  "block_created E key_to_id [] created s = (s, Inr created)"
| "block_created E key_to_id (spec # specs) created s =
     (case hm_get key_to_id (ts_key spec) of
        None \<Rightarrow> block_created E key_to_id specs created s
      | Some task_id \<Rightarrow>
          and_then (block_if_unsatisfied E task_id s) (\<lambda>_ s.
            block_created E key_to_id specs
              (case task_get task_id s of Some t \<Rightarrow> created @ [t] | None \<Rightarrow> created) s))"

definition instantiate :: "env \<Rightarrow> (string \<Rightarrow> string + task_spec list) \<Rightarrow> string \<Rightarrow> string \<Rightarrow> string \<Rightarrow> alinea_db
    \<Rightarrow> (alinea_db, pipeline_error, task_row list) outcome" where
  "instantiate E parse project_id template_id created_by s =
     (case get_template template_id s of
        None \<Rightarrow> (s, Inl (TemplateNotFound template_id))
      | Some template \<Rightarrow>
          (case parse (pt_definition template) of
             Inl e \<Rightarrow> (s, Inl (InvalidTemplate e))
           | Inr specs \<Rightarrow>
               map_err PipelineDb
                 (and_then (create_specs E project_id created_by 0 specs [] s) (\<lambda>key_to_id s.
                  and_then (wire_specs key_to_id specs s) (\<lambda>_ s.
                  block_created E key_to_id specs [] s)))))"

section \<open>Step 1: the tasks\<close>

text \<open>The map from keys to ids: distinct ids of tasks that are \<open>Todo\<close> and have no dependency.\<close>

definition keys_new :: "(string, string) hmap \<Rightarrow> alinea_db \<Rightarrow> bool" where
  "keys_new m s \<longleftrightarrow>
     (\<forall>k i. hm_get m k = Some i \<longrightarrow>
        wf_status (workflow_of s) i = Some Todo \<and> (\<forall>d. (i, d) \<notin> deps s) \<and>
        (\<forall>k'. hm_get m k' = Some i \<longrightarrow> k' = k))"

lemma keys_newD:
  assumes "keys_new m s" "hm_get m k = Some i"
  shows "wf_status (workflow_of s) i = Some Todo" "(i, d) \<notin> deps s" "hm_get m k' = Some i \<Longrightarrow> k' = k"
  using assms unfolding keys_new_def by blast+

lemma create_specs_spec:
  assumes "db_ok E s" "distinct_ids E" "\<exists>pr\<in>set (projects s). pr_id pr = p"
    "scheduled (workflow_of s)" "keys_new m s"
  shows "\<exists>s' m'. create_specs E p by i specs m s = (s', Inr m') \<and> db_ok E s' \<and> same_rest s s' \<and>
    scheduled (workflow_of s') \<and> keys_new m' s' \<and> deps s' = deps s \<and>
    dom (hm_get m') = dom (hm_get m) \<union> ts_key ` set specs"
  using assms
proof (induction specs arbitrary: i m s)
  case Nil
  then show ?case by auto
next
  case (Cons spec specs)
  let ?i = "mint_id E (tick s)" and ?p = "spec_task p by i spec"
  let ?t = "new_task_row ?i (clock E (tick s)) ?p"
  have nt: "nt_depends_on ?p = []" "nt_parent_task_id ?p = None" "nt_project_id ?p = p"
    by (simp_all add: spec_task_def)
  have t: "tr_id ?t = ?i" "tr_status ?t = ''todo''" "tr_parent_task_id ?t = None"
    by (simp_all add: new_task_row_def nt)
  have fresh: "task_get ?i s = None"
    unfolding task_get_None by (rule db_ok_fresh [OF Cons.prems(1) order_refl])
  have pr: "pr_id pr = p \<Longrightarrow> pr \<in> set (projects s) \<Longrightarrow> \<exists>pr\<in>set (projects s). pr_id pr = p" for pr
    by blast
  from Cons.prems(1) obtain ds where
    tc: "task_create E ?p s = (insert_task ?t ds s, Inr ?t)" and ds: "set ds = deps s" "distinct ds"
  proof (cases rule: task_create_cases [of E s ?p])
    case (failed e)
    moreover have "snd (task_create E ?p s) \<noteq> Inl e"
      using fresh Cons.prems(3)
      by (auto simp: task_create_def Let_def nt task_get_def find_append t new_task_row_def
          split: option.splits)
    ultimately show ?thesis by simp
  qed (auto simp: nt intro: that)
  let ?s1 = "insert_task ?t ds s"
  have it: "db_ok E ?s1" "workflow_of ?s1 = add_task ?i None {} (workflow_of s)"
    using insert_task_spec [OF Cons.prems(1,2) t(1,2), of ds "{}"] ds t(1,3) by auto
  have dep1: "deps ?s1 = deps s" by (simp add: deps_def ds [unfolded deps_def])
  have none: "wf_status (workflow_of s) ?i = None"
    using fresh by (simp add: wf_status_of_None [OF Cons.prems(1)])
  have nodep: "(?i, d) \<notin> deps s" for d
    using workflow_dom [OF Cons.prems(1), of ?i d] none by auto
  have "ready (workflow_of ?s1) ?i" unfolding it(2) using nodep by (simp add: ready_def)
  then have sch: "scheduled (workflow_of ?s1)"
    using scheduled_add_settle [OF Cons.prems(4) workflow_dom [OF Cons.prems(1)] none, of None "{}"]
    by (simp add: it(2))
  have kn: "keys_new (hm_insert (ts_key spec) ?i m) ?s1"
    unfolding keys_new_def
  proof (intro allI impI)
    fix k j assume k: "hm_get (hm_insert (ts_key spec) ?i m) k = Some j"
    have old: "wf_status (workflow_of s) j = Some Todo" if "hm_get m k' = Some j" for k'
      using keys_newD(1) [OF Cons.prems(5) that] .
    show "wf_status (workflow_of ?s1) j = Some Todo \<and> (\<forall>d. (j, d) \<notin> deps ?s1) \<and>
      (\<forall>k'. hm_get (hm_insert (ts_key spec) ?i m) k' = Some j \<longrightarrow> k' = k)"
    proof (cases "k = ts_key spec")
      case True
      with k have "j = ?i" by (simp add: hm_get_insert)
      moreover have "hm_get m k' \<noteq> Some ?i" for k' using old [of k'] none \<open>j = ?i\<close> by auto
      ultimately show ?thesis
        using True nodep unfolding it(2) dep1 by (simp add: hm_get_insert)
    next
      case False
      with k have m: "hm_get m k = Some j" by (simp add: hm_get_insert)
      have "wf_status (workflow_of s) j = Some Todo" by (rule old [OF m])
      with none have ne: "j \<noteq> ?i" by auto
      have "(j, d) \<notin> deps s" "hm_get m k' = Some j \<Longrightarrow> k' = k" for d k'
        using keys_newD(2,3) [OF Cons.prems(5) m] by blast+
      with ne old [OF m] show ?thesis
        unfolding it(2) dep1 by (simp add: hm_get_insert)
    qed
  qed
  have rest: "same_rest s ?s1" by simp
  then have "projects ?s1 = projects s" by (simp add: same_rest_def)
  with Cons.prems(3) have "\<exists>pr\<in>set (projects ?s1). pr_id pr = p" by simp
  from Cons.IH [OF it(1) Cons.prems(2) this sch kn, of "Suc i"]
  obtain s' m' where r: "create_specs E p by (Suc i) specs (hm_insert (ts_key spec) ?i m) ?s1 = (s', Inr m')"
    "db_ok E s'" "same_rest ?s1 s'" "scheduled (workflow_of s')" "keys_new m' s'" "deps s' = deps ?s1"
    "dom (hm_get m') = dom (hm_get (hm_insert (ts_key spec) ?i m)) \<union> ts_key ` set specs"
    by blast
  have "dom (hm_get (hm_insert (ts_key spec) ?i m)) = insert (ts_key spec) (dom (hm_get m))"
    by (auto simp: hm_get_insert dom_def)
  moreover have "create_specs E p by i (spec # specs) m s = (s', Inr m')"
    using r(1) by (simp add: tc t(1))
  moreover note same_rest_trans [OF rest r(3)]
  ultimately show ?case
    using r(2,4-7) dep1 by (intro exI [of _ s'] exI [of _ m']) simp
qed

section \<open>Step 2: the dependencies\<close>

text \<open>The pairs (task, prerequisite) that the keys of the template name.\<close>

definition spec_pairs :: "(string, string) hmap \<Rightarrow> task_spec list \<Rightarrow> (string \<times> string) list" where
  "spec_pairs m specs = concat (map (\<lambda>spec. case hm_get m (ts_key spec) of None \<Rightarrow> []
     | Some i \<Rightarrow> concat (map (\<lambda>k. case hm_get m k of None \<Rightarrow> [] | Some d \<Rightarrow> [(i, d)]) (ts_depends_on spec))) specs)"

lemma set_spec_pairs:
  "(i, d) \<in> set (spec_pairs m specs) \<longleftrightarrow>
     (\<exists>spec\<in>set specs. hm_get m (ts_key spec) = Some i \<and> (\<exists>k\<in>set (ts_depends_on spec). hm_get m k = Some d))"
  unfolding spec_pairs_def by (force split: option.splits)

lemma for_each_append:
  "for_each body (xs @ ys) s = and_then (for_each body xs s) (\<lambda>_. for_each body ys)"
  by (induction xs arbitrary: s) (auto simp: and_then_def split: prod.splits sum.splits)

lemma for_each_concat:
  assumes "\<And>x s. f x s = for_each g (h x) s"
  shows "for_each f xs s = for_each g (concat (map h xs)) s"
proof (induction xs arbitrary: s)
  case (Cons x xs)
  then have "for_each f xs = for_each g (concat (map h xs))" by (rule ext)
  then show ?case by (simp add: for_each_append assms [of x s])
qed simp

lemma wire_specs_pairs:
  "wire_specs m specs s = for_each (\<lambda>(i, d). add_dependency i d) (spec_pairs m specs) s"
proof -
  have *: "for_each (\<lambda>dep_key s. case hm_get m dep_key of None \<Rightarrow> (s, Inr ()) | Some d \<Rightarrow> add_dependency i d s) ks s
     = for_each (\<lambda>(i, d). add_dependency i d)
         (concat (map (\<lambda>k. case hm_get m k of None \<Rightarrow> [] | Some d \<Rightarrow> [(i, d)]) ks)) s" for i ks s
    by (rule for_each_concat) (auto simp: and_then_def split: option.splits prod.splits sum.splits)
  show ?thesis
    unfolding wire_specs_def spec_pairs_def
    by (rule for_each_concat) (simp add: * split: option.splits)
qed

lemma wire_pairs_spec:
  assumes "db_ok E s" "scheduled_but J (workflow_of s)"
    and "\<And>i d. (i, d) \<in> set ps \<Longrightarrow> i \<in> J \<and> task_get i s \<noteq> None \<and> task_get d s \<noteq> None"
  shows "\<exists>s'. for_each (\<lambda>(i, d). add_dependency i d) ps s = (s', Inr ()) \<and> db_ok E s' \<and> same_rest s s' \<and>
    tasks s' = tasks s \<and> scheduled_but J (workflow_of s') \<and> deps s' = deps s \<union> set ps"
  using assms
proof (induction ps arbitrary: s)
  case Nil
  then show ?case by simp
next
  case (Cons p ps)
  obtain i d where p: "p = (i, d)" by force
  have id: "i \<in> J" "task_get i s \<noteq> None" "task_get d s \<noteq> None" using Cons.prems(3) [of i d] p by auto
  from add_dependency_spec [OF Cons.prems(1) id(2,3)]
  obtain s1 where s1: "add_dependency i d s = (s1, Inr ())" "db_ok E s1" "same_rest s s1" "tasks s1 = tasks s"
    "workflow_of s1 = (workflow_of s)\<lparr>wf_deps := insert (i, d) (wf_deps (workflow_of s))\<rparr>" .
  have sb: "scheduled_but J (workflow_of s1)"
    unfolding s1(5) by (rule scheduled_but_more_deps [OF Cons.prems(2) id(1)])
  have dp: "deps s1 = insert (i, d) (deps s)"
    using arg_cong [OF s1(5), of wf_deps] by simp
  have g: "task_get j s1 = task_get j s" for j by (rule task_get_cong) (rule s1(4))
  have "\<And>i d. (i, d) \<in> set ps \<Longrightarrow> i \<in> J \<and> task_get i s1 \<noteq> None \<and> task_get d s1 \<noteq> None"
    unfolding g by (rule Cons.prems(3)) simp
  from Cons.IH [OF s1(2) sb this] obtain s' where
    "for_each (\<lambda>(i, d). add_dependency i d) ps s1 = (s', Inr ())" "db_ok E s'" "same_rest s1 s'"
    "tasks s' = tasks s1" "scheduled_but J (workflow_of s')" "deps s' = deps s1 \<union> set ps"
    by blast
  with same_rest_trans [OF s1(3)] show ?case
    by (intro exI [of _ s']) (auto simp: p s1(1,4) dp)
qed

section \<open>Step 3: blocking\<close>

text \<open>A settled new task is \<open>blocked\<close> iff it is not ready, and settling one leaves readiness alone.\<close>

definition settled_status :: "workflow \<Rightarrow> string \<Rightarrow> string" where
  "settled_status w i = (if ready w i then ''todo'' else ''blocked'')"

lemma block_created_spec:
  assumes "db_ok E s" "distinct_ids E" "scheduled_but J (workflow_of s)"
    and "\<And>k. k \<in> ts_key ` set specs \<Longrightarrow> \<exists>i. hm_get m k = Some i \<and>
          (wf_status (workflow_of s) i = Some Todo \<or> wf_status (workflow_of s) i = Some Blocked)"
  shows "\<exists>s' out. block_created E m specs created s = (s', Inr (created @ out)) \<and> db_ok E s' \<and> same_rest s s' \<and>
    deps s' = deps s \<and>
    scheduled_but (J - {i. \<exists>k\<in>ts_key ` set specs. hm_get m k = Some i}) (workflow_of s') \<and>
    map (\<lambda>t. (tr_id t, tr_status t)) out =
      map (\<lambda>spec. let i = the (hm_get m (ts_key spec)) in (i, settled_status (workflow_of s) i)) specs"
  using assms
proof (induction specs arbitrary: created s J)
  case Nil
  then show ?case by simp
next
  case (Cons spec specs)
  obtain i st where i: "hm_get m (ts_key spec) = Some i" "wf_status (workflow_of s) i = Some st" "st = Todo \<or> st = Blocked"
    using Cons.prems(4) [of "ts_key spec"] by auto
  have ex: "task_get i s \<noteq> None" using i(2) wf_status_of_None [OF Cons.prems(1), of i] by auto
  from block_if_unsatisfied_spec [OF Cons.prems(1,2) ex]
  obtain s1 where s1: "block_if_unsatisfied E i s = (s1, Inr (\<not> ready (workflow_of s) i))" "db_ok E s1" "same_rest s s1"
    "workflow_of s1 = (if ready (workflow_of s) i then workflow_of s else put_status i Blocked (workflow_of s))" .
  have w1: "workflow_of s1 = settle i (workflow_of s)" using s1(4) by (simp add: settle_def)
  have sb: "scheduled_but (J - {i}) (workflow_of s1)"
    unfolding w1 by (rule scheduled_but_settle [OF Cons.prems(3) i(2,3)])
  have rdy: "ready (workflow_of s1) j = ready (workflow_of s) j" for j
    unfolding w1 settle_def using i(2,3) by (auto simp: ready_put_open)
  have sst: "settled_status (workflow_of s1) = settled_status (workflow_of s)"
    by (rule ext) (simp add: settled_status_def rdy)
  have st1: "wf_status (workflow_of s1) i = Some (if ready (workflow_of s) i then Todo else Blocked)"
    using i(2,3) scheduled_butD(1) [OF Cons.prems(3) i(2)] by (auto simp: w1 settle_status)
  then obtain t where t: "task_get i s1 = Some t" "tr_status t = settled_status (workflow_of s) i"
    by (auto simp: wf_status_of status_at_def settled_status_def)
  have keys: "\<exists>i. hm_get m k = Some i \<and>
      (wf_status (workflow_of s1) i = Some Todo \<or> wf_status (workflow_of s1) i = Some Blocked)"
    if "k \<in> ts_key ` set specs" for k
    using Cons.prems(4) [of k] that unfolding w1 settle_status by auto
  from Cons.IH [OF s1(2) Cons.prems(2) sb keys, of "created @ [t]"]
  obtain s' out where s': "block_created E m specs (created @ [t]) s1 = (s', Inr ((created @ [t]) @ out))"
    "db_ok E s'" "same_rest s1 s'" "deps s' = deps s1"
    "scheduled_but (J - {i} - {i. \<exists>k\<in>ts_key ` set specs. hm_get m k = Some i}) (workflow_of s')"
    "map (\<lambda>t. (tr_id t, tr_status t)) out =
      map (\<lambda>spec. let i = the (hm_get m (ts_key spec)) in (i, settled_status (workflow_of s1) i)) specs"
    by blast
  have "J - {i} - {i. \<exists>k\<in>ts_key ` set specs. hm_get m k = Some i} =
      J - {i. \<exists>k\<in>ts_key ` set (spec # specs). hm_get m k = Some i}"
    using i(1) by auto
  moreover have "deps s1 = deps s" using arg_cong [OF w1, of wf_deps] by simp
  moreover have "tr_id t = i" using task_get_id [OF t(1)] by simp
  ultimately show ?case
    using s' i(1) s1(1) t same_rest_trans [OF s1(3) s'(3)]
    by (intro exI [of _ s'] exI [of _ "t # out"]) (simp add: sst)
qed

section \<open>The whole pipeline\<close>

lemma instantiate_spec:
  assumes "db_ok E s" "distinct_ids E" "scheduled (workflow_of s)" "\<exists>pr\<in>set (projects s). pr_id pr = p"
    and "get_template tid s = Some template" "parse (pt_definition template) = Inr specs"
  shows "\<exists>s' out m. instantiate E parse p tid by s = (s', Inr out) \<and> db_ok E s' \<and> same_rest s s' \<and>
    scheduled (workflow_of s') \<and> dom (hm_get m) = ts_key ` set specs \<and>
    deps s' = deps s \<union> set (spec_pairs m specs) \<and>
    map tr_id out = map (\<lambda>spec. the (hm_get m (ts_key spec))) specs \<and>
    (\<forall>t\<in>set out. tr_status t = (if \<exists>d. (tr_id t, d) \<in> set (spec_pairs m specs) then ''blocked'' else ''todo''))"
proof -
  have "keys_new [] s" by (simp add: keys_new_def)
  from create_specs_spec [OF assms(1,2,4,3) this, of "by" 0 specs]
  obtain s1 m where s1: "create_specs E p by 0 specs [] s = (s1, Inr m)" "db_ok E s1" "same_rest s s1"
    "scheduled (workflow_of s1)" "keys_new m s1" "deps s1 = deps s" "dom (hm_get m) = ts_key ` set specs"
    by auto
  have key: "\<exists>i. hm_get m k = Some i" if "k \<in> ts_key ` set specs" for k
    using that unfolding s1(7) [symmetric] by (rule domD)
  let ?J = "ran (hm_get m)"
  have todo: "wf_status (workflow_of s1) i = Some Todo" if "i \<in> ?J" for i
    using that keys_newD(1) [OF s1(5)] by (auto simp: ran_def)
  have J: "scheduled_but ?J (workflow_of s1)"
    by (rule scheduled_but_intro [OF s1(4)]) (simp add: todo)
  have pairs: "i \<in> ?J \<and> task_get i s1 \<noteq> None \<and> task_get d s1 \<noteq> None"
    if "(i, d) \<in> set (spec_pairs m specs)" for i d
  proof -
    have "i \<in> ?J" "d \<in> ?J" using that by (auto simp: set_spec_pairs ran_def)
    then show ?thesis
      using todo [of i] todo [of d] wf_status_of_None [OF s1(2), of i] wf_status_of_None [OF s1(2), of d] by simp
  qed
  from wire_pairs_spec [OF s1(2) J, of "spec_pairs m specs"] pairs
  obtain s2 where s2: "wire_specs m specs s1 = (s2, Inr ())" "db_ok E s2" "same_rest s1 s2" "tasks s2 = tasks s1"
    "scheduled_but ?J (workflow_of s2)" "deps s2 = deps s1 \<union> set (spec_pairs m specs)"
    unfolding wire_specs_pairs [symmetric] by blast
  have g2: "wf_status (workflow_of s2) = wf_status (workflow_of s1)"
  proof -
    have "status_at s2 = status_at s1" by (rule ext) (simp add: status_at_def task_get_cong [OF s2(4)])
    then show ?thesis by (simp add: workflow_of_def)
  qed
  have "\<exists>i. hm_get m k = Some i \<and> (wf_status (workflow_of s2) i = Some Todo \<or> wf_status (workflow_of s2) i = Some Blocked)"
    if "k \<in> ts_key ` set specs" for k
  proof -
    obtain i where i: "hm_get m k = Some i" using key [OF \<open>k \<in> ts_key ` set specs\<close>] by auto
    then have "i \<in> ?J" by (auto simp: ran_def)
    with todo i g2 show ?thesis by simp
  qed
  from block_created_spec [OF s2(2) assms(2) s2(5), where specs = specs and m = m and created = "[]", unfolded append_Nil] this
  obtain s3 out where s3: "block_created E m specs [] s2 = (s3, Inr out)" "db_ok E s3" "same_rest s2 s3" "deps s3 = deps s2"
    "scheduled_but (?J - {i. \<exists>k\<in>ts_key ` set specs. hm_get m k = Some i}) (workflow_of s3)"
    "map (\<lambda>t. (tr_id t, tr_status t)) out =
      map (\<lambda>spec. let i = the (hm_get m (ts_key spec)) in (i, settled_status (workflow_of s2) i)) specs"
    by blast
  have ids: "map tr_id out = map (\<lambda>spec. the (hm_get m (ts_key spec))) specs"
    using arg_cong [OF s3(6), of "map fst"] by (simp add: Let_def o_def)
  have rdy: "ready (workflow_of s2) i \<longleftrightarrow> \<not> (\<exists>d. (i, d) \<in> set (spec_pairs m specs))" if "i \<in> ?J" for i
  proof -
    have "(i, d) \<notin> deps s1" for d using that keys_newD(2) [OF s1(5)] by (auto simp: ran_def)
    moreover have "wf_status (workflow_of s2) d = Some Todo" if "(i, d) \<in> set (spec_pairs m specs)" for d
      using that todo unfolding g2 by (auto simp: set_spec_pairs ran_def)
    ultimately show ?thesis unfolding ready_def by (auto simp: s2(6))
  qed
  have stat: "tr_status t = (if \<exists>d. (tr_id t, d) \<in> set (spec_pairs m specs) then ''blocked'' else ''todo'')" if "t \<in> set out" for t
  proof -
    have "(tr_id t, tr_status t) \<in> set (map (\<lambda>spec. let i = the (hm_get m (ts_key spec)) in (i, settled_status (workflow_of s2) i)) specs)"
      unfolding s3(6) [symmetric] using that by force
    then obtain spec where sp: "spec \<in> set specs" "tr_id t = the (hm_get m (ts_key spec))"
      "tr_status t = settled_status (workflow_of s2) (tr_id t)" by (auto simp: Let_def)
    obtain i where "hm_get m (ts_key spec) = Some i" using key [of "ts_key spec"] sp(1) by auto
    with sp(2) have "tr_id t \<in> ?J" by (auto simp: ran_def)
    from rdy [OF this] sp(3) show ?thesis by (simp add: settled_status_def)
  qed
  have "?J - {i. \<exists>k\<in>ts_key ` set specs. hm_get m k = Some i} = {}"
    unfolding s1(7) [symmetric] by (auto simp: ran_def)
  with s3(5) have sch: "scheduled (workflow_of s3)" by (metis scheduled_but_empty)
  have "instantiate E parse p tid by s = (s3, Inr out)"
    using assms(5,6) s1(1) s2(1) s3(1) by (simp add: instantiate_def)
  moreover have "same_rest s s3" by (rule same_rest_trans [OF s1(3) same_rest_trans [OF s2(3) s3(3)]])
  moreover have "deps s3 = deps s \<union> set (spec_pairs m specs)" by (simp add: s3(4) s2(6) s1(6))
  ultimately show ?thesis
    using s3(2) sch s1(7) ids stat by blast
qed

end
