(* ===== verification/ResourceAcl.thy ===== *)
theory ResourceAcl
  imports TaskRepo
begin

text \<open>
  \<open>SqliteResourceAclRepository\<close> (\<open>aionui-db/src/repository/sqlite_resource_acl.rs\<close>): who may do what
  on a resource. The table has a primary key and \<open>UNIQUE(resource_type, resource_id,
  principal_type, principal_id)\<close> (migration 014). The contract the project handlers rely on is the
  locale \<open>membership\<close>, interpreted here on the repository's operations.
\<close>

section \<open>The code\<close>

datatype member_revoke = Revoked | WouldLeaveNoOwner

definition acl_match :: "string \<Rightarrow> string \<Rightarrow> string \<Rightarrow> resource_acl_row \<Rightarrow> bool" where
  "acl_match resource_type resource_id user_id r \<longleftrightarrow>
     ra_resource_type r = resource_type \<and> ra_resource_id r = resource_id \<and>
     ra_principal_type r = ''user'' \<and> ra_principal_id r = user_id"

definition is_member :: "string \<Rightarrow> string \<Rightarrow> string \<Rightarrow> alinea_db \<Rightarrow> bool" where
  "is_member resource_type resource_id user_id s =
     (find (acl_match resource_type resource_id user_id) (resource_acl s) \<noteq> None)"

definition get_perm :: "string \<Rightarrow> string \<Rightarrow> string \<Rightarrow> alinea_db \<Rightarrow> string option" where
  "get_perm resource_type resource_id user_id s =
     map_option ra_perm (find (acl_match resource_type resource_id user_id) (resource_acl s))"

text \<open>\<open>INSERT ... ON CONFLICT (...) DO UPDATE SET perm\<close>\<close>

definition grant :: "env \<Rightarrow> string \<Rightarrow> string \<Rightarrow> string \<Rightarrow> string \<Rightarrow> unit db_op" where
  "grant E resource_type resource_id user_id perm s =
     (let i = mint_id E (tick s); now = clock E (tick s); s1 = s\<lparr>tick := Suc (tick s)\<rparr>
      in if \<exists>r\<in>set (resource_acl s1). ra_id r = i then (s1, Inl Query)
         else if \<exists>r\<in>set (resource_acl s1). acl_match resource_type resource_id user_id r
         then (s1\<lparr>resource_acl := update_where (acl_match resource_type resource_id user_id)
                                     (\<lambda>r. r\<lparr>ra_perm := perm\<rparr>) (resource_acl s1)\<rparr>, Inr ())
         else (s1\<lparr>resource_acl := resource_acl s1 @
                 [\<lparr>ra_id = i, ra_resource_type = resource_type, ra_resource_id = resource_id,
                   ra_principal_type = ''user'', ra_principal_id = user_id, ra_perm = perm,
                   ra_created_at = now\<rparr>]\<rparr>, Inr ()))"

definition revoke :: "string \<Rightarrow> string \<Rightarrow> string \<Rightarrow> unit db_op" where
  "revoke resource_type resource_id user_id s =
     (s\<lparr>resource_acl := filter (\<lambda>r. \<not> acl_match resource_type resource_id user_id r) (resource_acl s)\<rparr>, Inr ())"

definition owner_count :: "string \<Rightarrow> alinea_db \<Rightarrow> nat" where
  "owner_count project_id s = length (filter
     (\<lambda>r. ra_resource_type r = ''project'' \<and> ra_resource_id r = project_id \<and>
          ra_principal_type r = ''user'' \<and> ra_perm r = ''owner'') (resource_acl s))"

definition try_revoke_project_member :: "string \<Rightarrow> string \<Rightarrow> member_revoke db_op" where
  "try_revoke_project_member project_id user_id s =
     (let sel = (\<lambda>r. acl_match ''project'' project_id user_id r \<and>
                      (ra_perm r \<noteq> ''owner'' \<or> owner_count project_id s > 1));
          s1 = s\<lparr>resource_acl := filter (\<lambda>r. \<not> sel r) (resource_acl s)\<rparr>
      in if rows_affected sel (resource_acl s) > 0 then (s1, Inr Revoked)
         else if get_perm ''project'' project_id user_id s1 = Some ''owner''
         then (s1, Inr WouldLeaveNoOwner)
         else (s1, Inr Revoked))"

definition list_principals :: "string \<Rightarrow> string \<Rightarrow> alinea_db \<Rightarrow> resource_acl_row list" where
  "list_principals resource_type resource_id s =
     sort_key ra_created_at (filter (\<lambda>r. ra_resource_type r = resource_type \<and> ra_resource_id r = resource_id)
       (resource_acl s))"

definition is_project_member :: "string \<Rightarrow> string \<Rightarrow> alinea_db \<Rightarrow> bool" where
  "is_project_member user_id project_id s = is_member ''project'' project_id user_id s"

section \<open>The table's constraints and what the operations do\<close>

definition acl_key :: "resource_acl_row \<Rightarrow> string \<times> string \<times> string \<times> string" where
  "acl_key r = (ra_resource_type r, ra_resource_id r, ra_principal_type r, ra_principal_id r)"

definition acl_ok :: "env \<Rightarrow> alinea_db \<Rightarrow> bool" where
  "acl_ok E s \<longleftrightarrow> distinct (map acl_key (resource_acl s)) \<and>
     (\<forall>k\<ge>tick s. mint_id E k \<notin> ra_id ` set (resource_acl s))"

lemma acl_match_key: "acl_match rt i u r \<longleftrightarrow> acl_key r = (rt, i, ''user'', u)"
  by (auto simp: acl_match_def acl_key_def)

lemma find_acl_match:
  "find (acl_match rt i u) rs = find (\<lambda>r. acl_key r = (rt, i, ''user'', u)) rs"
  by (rule arg_cong [where f = "\<lambda>P. find P rs"]) (rule ext, rule acl_match_key)

lemma acl_ok_fresh: "acl_ok E s \<Longrightarrow> r \<in> set (resource_acl s) \<Longrightarrow> tick s \<le> k \<Longrightarrow> ra_id r \<noteq> mint_id E k"
  unfolding acl_ok_def by (metis imageI)

lemma get_perm_Some:
  assumes "acl_ok E s"
  shows "get_perm rt i u s = Some p \<longleftrightarrow> (\<exists>r\<in>set (resource_acl s). acl_match rt i u r \<and> ra_perm r = p)"
proof -
  have d: "distinct (map acl_key (resource_acl s))" using assms by (simp add: acl_ok_def)
  have "get_perm rt i u s = Some p \<longleftrightarrow>
      (\<exists>r. find (\<lambda>r. acl_key r = (rt, i, ''user'', u)) (resource_acl s) = Some r \<and> ra_perm r = p)"
    by (simp add: get_perm_def find_acl_match)
  then show ?thesis by (simp only: find_key_distinct [OF d] acl_match_key) blast
qed

lemma get_perm_None: "get_perm rt i u s = None \<longleftrightarrow> \<not> (\<exists>r\<in>set (resource_acl s). acl_match rt i u r)"
  by (auto simp: get_perm_def find_None_iff)

lemma is_member_iff: "is_member rt i u s \<longleftrightarrow> get_perm rt i u s \<noteq> None"
  by (simp add: is_member_def get_perm_def)

lemma owner_count_card:
  assumes "acl_ok E s"
  shows "owner_count p s = card {u. get_perm ''project'' p u s = Some ''owner''}"
    and "finite {u. get_perm ''project'' p u s = Some ''owner''}"
proof -
  let ?P = "\<lambda>r. ra_resource_type r = ''project'' \<and> ra_resource_id r = p \<and> ra_principal_type r = ''user'' \<and> ra_perm r = ''owner''"
  let ?ows = "filter ?P (resource_acl s)"
  have set: "{u. get_perm ''project'' p u s = Some ''owner''} = ra_principal_id ` set ?ows"
    unfolding get_perm_Some [OF assms] acl_match_def by (auto simp: image_iff)
  have d: "distinct (map acl_key ?ows)"
    using assms by (simp add: acl_ok_def distinct_map_filter)
  have "inj_on ra_principal_id (set ?ows)"
  proof (rule inj_onI)
    fix x y assume "x \<in> set ?ows" "y \<in> set ?ows" "ra_principal_id x = ra_principal_id y"
    then have "acl_key x = acl_key y" by (simp add: acl_key_def)
    with d \<open>x \<in> set ?ows\<close> \<open>y \<in> set ?ows\<close> show "x = y"
      unfolding distinct_map by (blast dest: inj_onD)
  qed
  then have "distinct (map ra_principal_id ?ows)"
    using d by (simp add: distinct_map)
  from distinct_card [OF this] have "card (ra_principal_id ` set ?ows) = length ?ows"
    by (simp only: set_map length_map)
  then show "owner_count p s = card {u. get_perm ''project'' p u s = Some ''owner''}"
    by (simp only: set owner_count_def)
  show "finite {u. get_perm ''project'' p u s = Some ''owner''}"
    unfolding set by simp
qed

lemma grant_ok: "acl_ok E s \<Longrightarrow> snd (grant E rt i u p s) = Inr ()"
  using acl_ok_fresh by (fastforce simp: grant_def Let_def)

lemma get_perm_grant:
  assumes "acl_ok E s"
  shows "get_perm rt' i' u' (fst (grant E rt i u p s)) =
    (if rt' = rt \<and> i' = i \<and> u' = u then Some p else get_perm rt' i' u' s)"
proof -
  have fresh: "\<not> (\<exists>r\<in>set (resource_acl s). ra_id r = mint_id E (tick s))"
    using acl_ok_fresh [OF assms] by blast
  let ?up = "\<lambda>r. r\<lparr>ra_perm := p\<rparr>"
  have key: "acl_key (?up r) = acl_key r" for r by (simp add: acl_key_def)
  show ?thesis
  proof (cases "\<exists>r\<in>set (resource_acl s). acl_match rt i u r")
    case True
    then obtain r where r: "find (acl_match rt i u) (resource_acl s) = Some r"
      by (metis find_None_iff option.exhaust)
    have m: "acl_match rt i u r" using r by (auto simp: find_Some_iff)
    have "find (acl_match rt' i' u') (update_where (acl_match rt i u) ?up (resource_acl s)) =
      map_option (\<lambda>r. if acl_match rt i u r then ?up r else r) (find (acl_match rt' i' u') (resource_acl s))"
      unfolding acl_match_key by (rule find_update_where) (rule key)
    moreover have "acl_match rt i u r' \<longleftrightarrow> rt' = rt \<and> i' = i \<and> u' = u"
      if "find (acl_match rt' i' u') (resource_acl s) = Some r'" for r'
      using that by (auto simp: find_Some_iff acl_match_key)
    ultimately show ?thesis
      using True fresh r
      by (cases "find (acl_match rt' i' u') (resource_acl s)") (auto simp: grant_def Let_def get_perm_def)
  next
    case False
    then have "find (acl_match rt i u) (resource_acl s) = None" by (simp add: find_None_iff)
    moreover have "find Q (xs @ [y]) = (case find Q xs of None \<Rightarrow> if Q y then Some y else None | Some x \<Rightarrow> Some x)"
      for Q :: "resource_acl_row \<Rightarrow> bool" and xs y by (induction xs) auto
    ultimately show ?thesis
      using False fresh
      by (auto simp: grant_def Let_def get_perm_def acl_match_def split: option.splits)
  qed
qed

lemma acl_ok_grant:
  assumes "acl_ok E s" "distinct_ids E"
  shows "acl_ok E (fst (grant E rt i u p s))"
proof -
  have fresh: "\<not> (\<exists>r\<in>set (resource_acl s). ra_id r = mint_id E (tick s))"
    using acl_ok_fresh [OF assms(1)] by blast
  have inj: "mint_id E k \<noteq> mint_id E (tick s)" if "Suc (tick s) \<le> k" for k
    using that by (simp add: mint_id_eq [OF assms(2)])
  show ?thesis
  proof (cases "\<exists>r\<in>set (resource_acl s). acl_match rt i u r")
    case True
    have "map acl_key (update_where (acl_match rt i u) (ra_perm_update (\<lambda>_. p)) (resource_acl s)) = map acl_key (resource_acl s)"
      and "map ra_id (update_where (acl_match rt i u) (ra_perm_update (\<lambda>_. p)) (resource_acl s)) = map ra_id (resource_acl s)"
      by (simp_all add: update_where_key acl_key_def)
    then show ?thesis
      using True fresh assms(1) unfolding acl_ok_def grant_def Let_def
      by (simp flip: set_map)
  next
    case False
    then show ?thesis
      using fresh assms(1) inj unfolding acl_ok_def grant_def Let_def
      by (auto simp: acl_match_key image_iff) (auto simp: acl_key_def)
  qed
qed

lemma find_filter_not:
  "(\<And>x. P x \<Longrightarrow> \<not> Q x) \<Longrightarrow> find P (filter (\<lambda>x. \<not> Q x) xs) = find P xs"
  by (induction xs) auto

lemma get_perm_revoke:
  "get_perm rt' i' u' (fst (revoke rt i u s)) =
     (if rt' = rt \<and> i' = i \<and> u' = u then None else get_perm rt' i' u' s)"
proof (cases "rt' = rt \<and> i' = i \<and> u' = u")
  case True
  then show ?thesis by (auto simp: get_perm_None revoke_def)
next
  case False
  then have "find (acl_match rt' i' u') (filter (\<lambda>r. \<not> acl_match rt i u r) (resource_acl s)) =
    find (acl_match rt' i' u') (resource_acl s)"
    by (intro find_filter_not) (auto simp: acl_match_def)
  then have "get_perm rt' i' u' (fst (revoke rt i u s)) = get_perm rt' i' u' s"
    by (simp add: get_perm_def revoke_def)
  then show ?thesis by (simp only: False if_False)
qed

text \<open>The conditional delete: the entry goes unless it is the last owner's.\<close>

lemma try_revoke_cases:
  assumes "acl_ok E s"
  shows "try_revoke_project_member p u s =
    (if get_perm ''project'' p u s = Some ''owner'' \<and> owner_count p s \<le> 1 then (s, Inr WouldLeaveNoOwner)
     else (fst (revoke ''project'' p u s), Inr Revoked))"
proof (cases "get_perm ''project'' p u s = Some ''owner'' \<and> owner_count p s \<le> 1")
  case True
  have "ra_perm r = ''owner''" if "r \<in> set (resource_acl s)" "acl_match ''project'' p u r" for r
    using get_perm_Some [OF assms, of "''project''" p u "ra_perm r"] that True by auto
  then have "\<not> (acl_match ''project'' p u r \<and> (ra_perm r \<noteq> ''owner'' \<or> owner_count p s > 1))"
    if "r \<in> set (resource_acl s)" for r
    using that True by auto
  then have "filter (\<lambda>r. \<not> (acl_match ''project'' p u r \<and> (ra_perm r \<noteq> ''owner'' \<or> owner_count p s > 1))) (resource_acl s) = resource_acl s"
    and "rows_affected (\<lambda>r. acl_match ''project'' p u r \<and> (ra_perm r \<noteq> ''owner'' \<or> owner_count p s > 1)) (resource_acl s) = 0"
    by (simp_all add: rows_affected_0)
  then show ?thesis
    using True unfolding try_revoke_project_member_def Let_def by simp
next
  case False
  have "ra_perm r \<noteq> ''owner'' \<or> owner_count p s > 1"
    if "r \<in> set (resource_acl s)" "acl_match ''project'' p u r" for r
    using get_perm_Some [OF assms, of "''project''" p u "''owner''"] that False by auto
  then have "filter (\<lambda>r. \<not> (acl_match ''project'' p u r \<and> (ra_perm r \<noteq> ''owner'' \<or> owner_count p s > 1))) (resource_acl s) =
      filter (\<lambda>r. \<not> acl_match ''project'' p u r) (resource_acl s)"
    by (intro filter_cong) auto
  then have "try_revoke_project_member p u s = (fst (revoke ''project'' p u s), Inr Revoked)"
    using get_perm_revoke [of "''project''" p u "''project''" p u s]
    unfolding try_revoke_project_member_def Let_def revoke_def by simp
  then show ?thesis using False by (auto split: if_splits)
qed

lemma acl_ok_revoke:
  assumes "acl_ok E s"
  shows "acl_ok E (fst (revoke rt i u s))"
  using assms by (auto simp: acl_ok_def revoke_def distinct_map_filter)

section \<open>The contract\<close>

text \<open>
  What the project handlers need: a permission per project and user, a grant that sets exactly one,
  a guarded revocation that removes exactly one, unless it belongs to the only owner.
\<close>

locale membership =
  fixes ok :: "'s \<Rightarrow> bool"
    and perm :: "'s \<Rightarrow> string \<Rightarrow> string \<Rightarrow> string option"
    and give :: "string \<Rightarrow> string \<Rightarrow> string \<Rightarrow> 's \<Rightarrow> 's"
    and take_back :: "string \<Rightarrow> string \<Rightarrow> 's \<Rightarrow> 's"
  assumes perm_give: "ok s \<Longrightarrow> perm (give p u q s) p' u' = (if p' = p \<and> u' = u then Some q else perm s p' u')"
    and perm_take_back: "ok s \<Longrightarrow> perm (take_back p u s) p' u' =
      (if p' = p \<and> u' = u \<and> \<not> (perm s p u = Some ''owner'' \<and> card {v. perm s p v = Some ''owner''} \<le> 1)
       then None else perm s p' u')"
    and finite_owners: "ok s \<Longrightarrow> finite {v. perm s p v = Some ''owner''}"
begin

definition has_owner :: "'s \<Rightarrow> string \<Rightarrow> bool" where
  "has_owner s p \<longleftrightarrow> (\<exists>u. perm s p u = Some ''owner'')"

lemma other_owner:
  assumes "ok s" "perm s p u = Some ''owner''" "\<not> card {v. perm s p v = Some ''owner''} \<le> 1"
  shows "\<exists>v. v \<noteq> u \<and> perm s p v = Some ''owner''"
proof (rule ccontr)
  assume "\<not> ?thesis"
  with assms(2) have "{v. perm s p v = Some ''owner''} = {u}" by auto
  with assms(3) show False by simp
qed

lemma has_owner_take_back:
  assumes "ok s" "has_owner s p'"
  shows "has_owner (take_back p u s) p'"
proof -
  obtain v where v: "perm s p' v = Some ''owner''" using assms(2) by (auto simp: has_owner_def)
  show ?thesis
  proof (cases "p' = p \<and> v = u \<and> \<not> (perm s p u = Some ''owner'' \<and> card {v. perm s p v = Some ''owner''} \<le> 1)")
    case True
    then obtain w where "w \<noteq> u" "perm s p w = Some ''owner''"
      using other_owner [OF assms(1), of p u] v by auto
    with True show ?thesis
      by (auto simp: has_owner_def perm_take_back [OF assms(1)] intro!: exI [of _ w])
  next
    case False
    then have "perm (take_back p u s) p' v = Some ''owner''"
      using v by (simp only: perm_take_back [OF assms(1)] if_False)
    then show ?thesis by (auto simp: has_owner_def)
  qed
qed

text \<open>The guard of a grant: a demotion of the only owner is refused.\<close>

lemma has_owner_give:
  assumes "ok s" "has_owner s p'"
    and "q \<noteq> ''owner'' \<Longrightarrow> \<not> (perm s p u = Some ''owner'' \<and> card {v. perm s p v = Some ''owner''} \<le> 1)"
  shows "has_owner (give p u q s) p'"
proof -
  obtain v where v: "perm s p' v = Some ''owner''" using assms(2) by (auto simp: has_owner_def)
  show ?thesis
  proof (cases "p' = p \<and> v = u \<and> q \<noteq> ''owner''")
    case True
    then obtain w where "w \<noteq> u" "perm s p w = Some ''owner''"
      using other_owner [OF assms(1), of p u] v assms(3) by auto
    with True show ?thesis
      by (auto simp: has_owner_def perm_give [OF assms(1)] intro!: exI [of _ w])
  next
    case False
    then have "perm (give p u q s) p' v = Some ''owner''"
      using v by (auto simp: perm_give [OF assms(1)])
    then show ?thesis by (auto simp: has_owner_def)
  qed
qed

lemma has_owner_give_owner: "ok s \<Longrightarrow> has_owner (give p u ''owner'' s) p"
  by (auto simp: has_owner_def perm_give)

end

interpretation project_members: membership "acl_ok E" "\<lambda>s p u. get_perm ''project'' p u s"
    "\<lambda>p u q s. fst (grant E ''project'' p u q s)" "\<lambda>p u s. fst (try_revoke_project_member p u s)"
  for E
proof
  show "acl_ok E s \<Longrightarrow> get_perm ''project'' p' u' (fst (grant E ''project'' p u q s)) =
      (if p' = p \<and> u' = u then Some q else get_perm ''project'' p' u' s)" for s p u q p' u'
    by (simp add: get_perm_grant)
  show "acl_ok E s \<Longrightarrow> finite {v. get_perm ''project'' p v s = Some ''owner''}" for s p
    by (rule owner_count_card(2))
  show "acl_ok E s \<Longrightarrow> get_perm ''project'' p' u' (fst (try_revoke_project_member p u s)) =
      (if p' = p \<and> u' = u \<and> \<not> (get_perm ''project'' p u s = Some ''owner'' \<and>
           card {v. get_perm ''project'' p v s = Some ''owner''} \<le> 1)
       then None else get_perm ''project'' p' u' s)" for s p u p' u'
    by (auto simp: try_revoke_cases get_perm_revoke owner_count_card(1) [symmetric])
qed

end
