(* ===== verification/ProjectHandlers.thy ===== *)
theory ProjectHandlers
  imports ResourceAcl Pipeline ApiError
begin

text \<open>
  The REST handlers of the project module (\<open>aionui-app/src/router/projects.rs\<close>), one definition per
  handler, with their authorization checks, validations, early returns and repository calls in
  order. The extractors of the web framework are inputs: \<open>current\<close> is the id of the authenticated
  user and \<open>body\<close> the decoded JSON body or the status of its rejection.
\<close>

type_synonym 'a api_op = "alinea_db \<Rightarrow> (alinea_db, api_error, 'a) outcome"

section \<open>Errors and authorization\<close>

definition db_err :: "db_error \<Rightarrow> api_error" where
  "db_err err = InternalDb err"

fun pipeline_err :: "pipeline_error \<Rightarrow> api_error" where
  "pipeline_err (TemplateNotFound t) = NotFound (''template '' @ quoted t @ '' not found'')"
| "pipeline_err (InvalidTemplate m) = Internal (''invalid template: '' @ m)"
| "pipeline_err (PipelineDb e) = InternalDb e"

definition project_not_found :: "string \<Rightarrow> api_error" where
  "project_not_found i = NotFound (''Project '' @ i @ '' not found'')"

definition api_task_not_found :: "string \<Rightarrow> api_error" where
  "api_task_not_found i = NotFound (''Task '' @ i @ '' not found'')"

definition require_member :: "string \<Rightarrow> string \<Rightarrow> string api_op" where
  "require_member project_id user_id s =
     (case get_perm ''project'' project_id user_id s of
        Some perm \<Rightarrow> (s, Inr perm)
      | None \<Rightarrow> (s, Inl (Forbidden ''Not a member of this project'')))"

definition require_owner :: "string \<Rightarrow> string \<Rightarrow> unit api_op" where
  "require_owner project_id user_id s =
     and_then (require_member project_id user_id s) (\<lambda>perm s.
       if perm \<noteq> ''owner'' then (s, Inl (Forbidden ''Owner permission required'')) else (s, Inr ()))"

definition require_task_member :: "string \<Rightarrow> string \<Rightarrow> task_row api_op" where
  "require_task_member task_id user_id s =
     (case task_get task_id s of
        None \<Rightarrow> (s, Inl (api_task_not_found task_id))
      | Some task \<Rightarrow> and_then (require_member (tr_project_id task) user_id s) (\<lambda>_ s. (s, Inr task)))"

section \<open>Projects\<close>

record create_project_request =
  cp_name :: string
  cp_description :: "string option"
  cp_project_type :: "string option"

definition list_projects :: "string \<Rightarrow> bool option \<Rightarrow> project_row list api_op" where
  "list_projects current include_archived s =
     (s, Inr (list_for_user current (case include_archived of None \<Rightarrow> False | Some b \<Rightarrow> b) s))"

definition create_project :: "env \<Rightarrow> string \<Rightarrow> create_project_request body \<Rightarrow> project_row api_op" where
  "create_project E current body s =
     and_then (read_body body s) (\<lambda>req s.
       if trim (cp_name req) = [] then (s, Inl (BadRequest ''name is required''))
       else
         and_then (map_err db_err (project_create E
             \<lparr>np_name = trim (cp_name req), np_description = cp_description req,
              np_project_type = (case cp_project_type req of None \<Rightarrow> ''generico'' | Some t \<Rightarrow> t),
              np_created_by = current\<rparr> s)) (\<lambda>project s.
         and_then (map_err db_err (grant E ''project'' (pr_id project) current ''owner'' s)) (\<lambda>_ s.
         (s, Inr project))))"

definition get_project :: "string \<Rightarrow> string \<Rightarrow> project_row api_op" where
  "get_project current i s =
     and_then (require_member i current s) (\<lambda>_ s.
       case project_get i s of None \<Rightarrow> (s, Inl (project_not_found i)) | Some p \<Rightarrow> (s, Inr p))"

definition update_project :: "env \<Rightarrow> string \<Rightarrow> string \<Rightarrow> project_update body \<Rightarrow> project_row api_op" where
  "update_project E current i body s =
     and_then (require_owner i current s) (\<lambda>_ s.
     and_then (read_body body s) (\<lambda>req s.
       if (case pu_status req of None \<Rightarrow> False | Some st \<Rightarrow> st \<noteq> ''active'' \<and> st \<noteq> ''archived'')
       then (s, Inl (BadRequest (''status must be '' @ quoted ''active'' @ '' or '' @ quoted ''archived'')))
       else
         and_then (map_err db_err (project_update_fields E i req s)) (\<lambda>_ s.
         case project_get i s of None \<Rightarrow> (s, Inl (project_not_found i)) | Some p \<Rightarrow> (s, Inr p))))"

section \<open>Members\<close>

record add_member_request =
  am_user_id :: string
  am_perm :: "string option"

definition list_members :: "string \<Rightarrow> string \<Rightarrow> resource_acl_row list api_op" where
  "list_members current i s =
     and_then (require_member i current s) (\<lambda>_ s. (s, Inr (list_principals ''project'' i s)))"

text \<open>The anti-lockout check: the grant would take the owner role from the only owner.\<close>

definition demotes_last_owner :: "string \<Rightarrow> string \<Rightarrow> string \<Rightarrow> alinea_db \<Rightarrow> bool" where
  "demotes_last_owner i target perm s =
     (if perm \<noteq> ''owner''
      then let members = list_principals ''project'' i s;
               owner_count = length (filter (\<lambda>m. ra_principal_type m = ''user'' \<and> ra_perm m = ''owner'') members);
               target_is_owner = list_ex (\<lambda>m. ra_principal_type m = ''user'' \<and> ra_principal_id m = target \<and>
                                               ra_perm m = ''owner'') members
           in target_is_owner \<and> owner_count \<le> 1
      else False)"

definition add_member :: "env \<Rightarrow> string \<Rightarrow> string \<Rightarrow> add_member_request body \<Rightarrow> resource_acl_row list api_op" where
  "add_member E current i body s =
     and_then (require_owner i current s) (\<lambda>_ s.
     and_then (read_body body s) (\<lambda>req s.
       let target = trim (am_user_id req);
           perm = (case am_perm req of None \<Rightarrow> ''read'' | Some p \<Rightarrow> p)
       in if target = [] then (s, Inl (BadRequest ''user_id is required''))
          else if perm \<notin> {''read'', ''write'', ''owner''}
          then (s, Inl (BadRequest (''perm must be '' @ quoted ''read'' @ '', '' @ quoted ''write'' @ '' or '' @ quoted ''owner'')))
          else if target \<notin> set (users s) then (s, Inl (BadRequest ''target user does not exist''))
          else if demotes_last_owner i target perm s
          then (s, Inl (BadRequest ''Cannot demote the last owner of the project''))
          else
            and_then (map_err db_err (grant E ''project'' i target perm s)) (\<lambda>_ s.
            (s, Inr (list_principals ''project'' i s)))))"

definition remove_member :: "string \<Rightarrow> string \<Rightarrow> string \<Rightarrow> resource_acl_row list api_op" where
  "remove_member current i uid s =
     and_then (require_owner i current s) (\<lambda>_ s.
     and_then (map_err db_err (try_revoke_project_member i uid s)) (\<lambda>r s.
       case r of
         Revoked \<Rightarrow> (s, Inr (list_principals ''project'' i s))
       | WouldLeaveNoOwner \<Rightarrow> (s, Inl (BadRequest ''Cannot remove the last owner of the project''))))"

section \<open>Templates and pipelines\<close>

definition list_templates_handler :: "string option \<Rightarrow> pipeline_template_row list api_op" where
  "list_templates_handler project_type s = (s, Inr (list_templates project_type s))"

definition instantiate_pipeline :: "env \<Rightarrow> (string \<Rightarrow> string + task_spec list) \<Rightarrow> string \<Rightarrow> string \<Rightarrow> string body
    \<Rightarrow> task_row list api_op" where
  "instantiate_pipeline E parse current project_id body s =
     and_then (require_owner project_id current s) (\<lambda>_ s.
     and_then (read_body body s) (\<lambda>template_id s.
       map_err pipeline_err (instantiate E parse project_id template_id current s)))"

section \<open>Tasks\<close>

record create_task_request =
  ct_title :: string
  ct_instructions :: "string option"
  ct_parent_task_id :: "string option"
  ct_assignee_kind :: string
  ct_assignee_id :: "string option"
  ct_requires_human_review :: bool
  ct_produces_artifact :: "string option"
  ct_order_index :: int
  ct_depends_on :: "string list"

definition bad_assignee :: api_error where
  "bad_assignee = BadRequest (''assignee_kind must be '' @ quoted ''human'' @ '' or '' @ quoted ''agent'')"

definition check_parent :: "string \<Rightarrow> string option \<Rightarrow> unit api_op" where
  "check_parent project_id parent s =
     (case parent of
        None \<Rightarrow> (s, Inr ())
      | Some parent_id \<Rightarrow>
          (case task_get parent_id s of
             None \<Rightarrow> (s, Inl (BadRequest ''parent_task_id not found''))
           | Some t \<Rightarrow>
               if tr_project_id t \<noteq> project_id
               then (s, Inl (BadRequest ''parent task belongs to another project''))
               else (s, Inr ())))"

definition create_task :: "env \<Rightarrow> string \<Rightarrow> string \<Rightarrow> create_task_request body \<Rightarrow> task_row api_op" where
  "create_task E current project_id body s =
     and_then (require_member project_id current s) (\<lambda>_ s.
     and_then (read_body body s) (\<lambda>req s.
       if trim (ct_title req) = [] then (s, Inl (BadRequest ''title is required''))
       else if ct_assignee_kind req \<notin> {''human'', ''agent''} then (s, Inl bad_assignee)
       else
         and_then (check_parent project_id (ct_parent_task_id req) s) (\<lambda>_ s.
         and_then (map_err db_err (task_create E
             \<lparr>nt_project_id = project_id, nt_parent_task_id = ct_parent_task_id req,
              nt_title = trim (ct_title req), nt_instructions = ct_instructions req,
              nt_assignee_kind = ct_assignee_kind req, nt_assignee_id = ct_assignee_id req,
              nt_requires_human_review = ct_requires_human_review req,
              nt_produces_artifact = ct_produces_artifact req, nt_order_index = ct_order_index req,
              nt_created_by = current, nt_depends_on = ct_depends_on req\<rparr> s)) (\<lambda>task s.
         and_then (map_err db_err (block_if_unsatisfied E (tr_id task) s)) (\<lambda>blocked s.
           if blocked
           then (case task_get (tr_id task) s of
                   None \<Rightarrow> (s, Inl (api_task_not_found (tr_id task)))
                 | Some t \<Rightarrow> (s, Inr t))
           else (s, Inr task))))))"

definition list_tasks :: "string \<Rightarrow> string \<Rightarrow> task_row list api_op" where
  "list_tasks current project_id s =
     and_then (require_member project_id current s) (\<lambda>_ s. (s, Inr (task_list_by_project project_id s)))"

definition get_task :: "string \<Rightarrow> string \<Rightarrow> task_row api_op" where
  "get_task current i s = require_task_member i current s"

definition update_task :: "env \<Rightarrow> string \<Rightarrow> string \<Rightarrow> task_update body \<Rightarrow> task_row api_op" where
  "update_task E current i body s =
     and_then (require_task_member i current s) (\<lambda>_ s.
     and_then (read_body body s) (\<lambda>req s.
       if (case tu_assignee_kind req of None \<Rightarrow> False | Some k \<Rightarrow> k \<notin> {''human'', ''agent''})
       then (s, Inl bad_assignee)
       else
         and_then (map_err db_err (task_update_fields E i req s)) (\<lambda>_ s.
         case task_get i s of None \<Rightarrow> (s, Inl (api_task_not_found i)) | Some t \<Rightarrow> (s, Inr t))))"

definition trigger_kind :: "task_action \<Rightarrow> string" where
  "trigger_kind a = (case a of Approve \<Rightarrow> ''approval'' | Reject \<Rightarrow> ''rejection'' | _ \<Rightarrow> ''manual'')"

text \<open>The last part of \<open>transition_task\<close>: the cascade and the rollup of the parent.\<close>

definition close_task :: "env \<Rightarrow> string \<Rightarrow> string option \<Rightarrow> unit api_op" where
  "close_task E i parent s =
     and_then (map_err db_err (on_task_completed E i s)) (\<lambda>_ s.
       case parent of
         None \<Rightarrow> (s, Inr ())
       | Some parent_id \<Rightarrow>
           (let (n_all, n_done) = subtask_rollup parent_id s
            in if n_all > 0 \<and> n_all = n_done
               then and_then (map_err db_err (set_status E parent_id ''done'' s)) (\<lambda>_ s.
                    and_then (map_err db_err (log_handoff E
                        \<lparr>nh_task_id = parent_id, nh_from_status = None, nh_to_status = ''done'',
                         nh_actor = ''system'', nh_trigger_kind = ''dependency_satisfied'',
                         nh_note = Some ''all subtasks done''\<rparr> s)) (\<lambda>_ s.
                    and_then (map_err db_err (on_task_completed E parent_id s)) (\<lambda>_ s.
                    (s, Inr ()))))
               else (s, Inr ())))"

definition transition_task :: "env \<Rightarrow> string \<Rightarrow> string \<Rightarrow> string body \<Rightarrow> task_row api_op" where
  "transition_task E current i body s =
     and_then (require_task_member i current s) (\<lambda>task s.
     and_then (read_body body s) (\<lambda>req_action s.
       case task_action_parse req_action of
         None \<Rightarrow> (s, Inl (BadRequest ''invalid action''))
       | Some action \<Rightarrow>
       (case task_status_parse (tr_status task) of
         None \<Rightarrow> (s, Inl (Internal ''corrupt task status''))
       | Some source \<Rightarrow>
       (case next_status source action (tr_requires_human_review task) of
         None \<Rightarrow> (s, Inl (BadRequest (''illegal transition from '' @ quoted (tr_status task)
                    @ '' via '' @ quoted req_action)))
       | Some target \<Rightarrow>
           if action = Start \<and> \<not> dependencies_satisfied i s
           then (s, Inl (BadRequest ''task dependencies are not all done''))
           else
             and_then (map_err db_err (set_status E i (task_status_as_str target) s)) (\<lambda>_ s.
             and_then (map_err db_err (log_handoff E
                 \<lparr>nh_task_id = i, nh_from_status = Some (task_status_as_str source),
                  nh_to_status = task_status_as_str target, nh_actor = current,
                  nh_trigger_kind = trigger_kind action, nh_note = None\<rparr> s)) (\<lambda>_ s.
             and_then (if target = Done then close_task E i (tr_parent_task_id task) s else (s, Inr ())) (\<lambda>_ s.
             case task_get i s of None \<Rightarrow> (s, Inl (api_task_not_found i)) | Some t \<Rightarrow> (s, Inr t))))))))"

section \<open>Artifacts and the handoff log\<close>

record add_artifact_request =
  aa_kind :: string
  aa_uri :: string
  aa_title :: string

definition add_artifact :: "env \<Rightarrow> string \<Rightarrow> string \<Rightarrow> add_artifact_request body \<Rightarrow> task_artifact_row api_op" where
  "add_artifact E current i body s =
     and_then (require_task_member i current s) (\<lambda>_ s.
     and_then (read_body body s) (\<lambda>req s.
       if trim (aa_uri req) = [] \<or> trim (aa_title req) = []
       then (s, Inl (BadRequest ''uri and title are required''))
       else map_err db_err (repo_add_artifact E
              \<lparr>na_task_id = i, na_kind = aa_kind req, na_uri = aa_uri req, na_title = aa_title req,
               na_produced_by = current\<rparr> s)))"

definition list_artifacts :: "string \<Rightarrow> string \<Rightarrow> task_artifact_row list api_op" where
  "list_artifacts current i s =
     and_then (require_task_member i current s) (\<lambda>_ s. (s, Inr (repo_list_artifacts i s)))"

definition list_handoffs :: "string \<Rightarrow> string \<Rightarrow> task_handoff_log_row list api_op" where
  "list_handoffs current i s =
     and_then (require_task_member i current s) (\<lambda>_ s. (s, Inr (repo_list_handoffs i s)))"

section \<open>The router\<close>

datatype request =
    ListProjects "bool option"
  | CreateProject "create_project_request body"
  | GetProject string
  | UpdateProject string "project_update body"
  | ListMembers string
  | AddMember string "add_member_request body"
  | RemoveMember string string
  | ListTemplates "string option"
  | InstantiatePipeline string "string body"
  | CreateTask string "create_task_request body"
  | ListTasks string
  | GetTask string
  | UpdateTask string "task_update body"
  | TransitionTask string "string body"
  | AddArtifact string "add_artifact_request body"
  | ListArtifacts string
  | ListHandoffs string

datatype response =
    ProjectsResponse "project_row list"
  | ProjectResponse project_row
  | MembersResponse "resource_acl_row list"
  | TemplatesResponse "pipeline_template_row list"
  | TasksResponse "task_row list"
  | TaskResponse task_row
  | ArtifactResponse task_artifact_row
  | ArtifactsResponse "task_artifact_row list"
  | HandoffsResponse "task_handoff_log_row list"

definition ok :: "('a \<Rightarrow> response) \<Rightarrow> (alinea_db, api_error, 'a) outcome \<Rightarrow> (alinea_db, api_error, response) outcome" where
  "ok wrap r = and_then r (\<lambda>x s. (s, Inr (wrap x)))"

fun project_routes :: "env \<Rightarrow> (string \<Rightarrow> string + task_spec list) \<Rightarrow> string \<Rightarrow> request \<Rightarrow> response api_op" where
  "project_routes E parse u (ListProjects b) s = ok ProjectsResponse (list_projects u b s)"
| "project_routes E parse u (CreateProject b) s = ok ProjectResponse (create_project E u b s)"
| "project_routes E parse u (GetProject i) s = ok ProjectResponse (get_project u i s)"
| "project_routes E parse u (UpdateProject i b) s = ok ProjectResponse (update_project E u i b s)"
| "project_routes E parse u (ListMembers i) s = ok MembersResponse (list_members u i s)"
| "project_routes E parse u (AddMember i b) s = ok MembersResponse (add_member E u i b s)"
| "project_routes E parse u (RemoveMember i v) s = ok MembersResponse (remove_member u i v s)"
| "project_routes E parse u (ListTemplates t) s = ok TemplatesResponse (list_templates_handler t s)"
| "project_routes E parse u (InstantiatePipeline i b) s = ok TasksResponse (instantiate_pipeline E parse u i b s)"
| "project_routes E parse u (CreateTask i b) s = ok TaskResponse (create_task E u i b s)"
| "project_routes E parse u (ListTasks i) s = ok TasksResponse (list_tasks u i s)"
| "project_routes E parse u (GetTask i) s = ok TaskResponse (get_task u i s)"
| "project_routes E parse u (UpdateTask i b) s = ok TaskResponse (update_task E u i b s)"
| "project_routes E parse u (TransitionTask i b) s = ok TaskResponse (transition_task E u i b s)"
| "project_routes E parse u (AddArtifact i b) s = ok ArtifactResponse (add_artifact E u i b s)"
| "project_routes E parse u (ListArtifacts i) s = ok ArtifactsResponse (list_artifacts u i s)"
| "project_routes E parse u (ListHandoffs i) s = ok HandoffsResponse (list_handoffs u i s)"

end
