(* ===== verification/ProjectServer.thy ===== *)
theory ProjectServer
  imports ProjectHandlers
begin

text \<open>
  The project module as a server: the invariant of its tables, that every request keeps it, that
  the transition handler is exactly one step of the abstract workflow, and that a request on a
  project fails closed for a user who is not a member.
\<close>

section \<open>Authorization\<close>

lemma require_member_eq:
  "require_member p u s = (s, case get_perm ''project'' p u s of Some perm \<Rightarrow> Inr perm
     | None \<Rightarrow> Inl (Forbidden ''Not a member of this project''))"
  by (simp add: require_member_def split: option.splits)

lemma fst_require [simp]:
  "fst (require_member p u s) = s"
  "fst (require_owner p u s) = s"
  "fst (require_task_member i u s) = s"
  by (auto simp: require_owner_def require_task_member_def require_member_eq split: option.splits)

lemma require_owner_Inr:
  "require_owner p u s = (s', Inr x) \<longleftrightarrow> s' = s \<and> get_perm ''project'' p u s = Some ''owner''"
  by (auto simp: require_owner_def require_member_eq split: option.splits)

lemma require_member_Inr:
  "require_member p u s = (s', Inr x) \<longleftrightarrow> s' = s \<and> get_perm ''project'' p u s = Some x"
  by (auto simp: require_member_eq split: option.splits)

lemma require_task_member_Inr:
  "require_task_member i u s = (s', Inr t) \<longleftrightarrow>
     s' = s \<and> task_get i s = Some t \<and> get_perm ''project'' (tr_project_id t) u s \<noteq> None"
  by (auto simp: require_task_member_def require_member_eq split: option.splits)

section \<open>The rollup and the cascade\<close>

lemma subtask_rollup_iff:
  assumes "db_ok E s" "t \<in> set (tasks s)" "tr_parent_task_id t = Some p" "subtask_rollup p s = (n_all, n_done)"
  shows "n_all > 0 \<and> n_all = n_done \<longleftrightarrow> children_done p (workflow_of s)"
proof -
  let ?sub = "filter (\<lambda>t. tr_parent_task_id t = Some p) (tasks s)"
  have tot: "n_all = int (length ?sub)" "n_done = int (length (filter (\<lambda>t. tr_status t = ''done'') ?sub))"
    using assms(4) by (auto simp: subtask_rollup_def Let_def)
  have "?sub \<noteq> []" using assms(2,3) by (auto simp: filter_empty_conv)
  then have pos: "n_all > 0" by (simp add: tot)
  have len: "length (filter P xs) = length xs \<longleftrightarrow> (\<forall>x\<in>set xs. P x)" for P and xs :: "task_row list"
    by (metis filter_id_conv length_filter_less nat_neq_iff)
  have "n_all = n_done \<longleftrightarrow> (\<forall>u\<in>set ?sub. tr_status u = ''done'')"
    using len [of "\<lambda>t. tr_status t = ''done''" ?sub] by (auto simp: tot simp del: set_filter)
  also have "\<dots> \<longleftrightarrow> (\<forall>j. parent_at s j = Some p \<longrightarrow> status_at s j = Some ''done'')"
  proof
    assume all: "\<forall>u\<in>set ?sub. tr_status u = ''done''"
    show "\<forall>j. parent_at s j = Some p \<longrightarrow> status_at s j = Some ''done''"
    proof (intro allI impI)
      fix j assume "parent_at s j = Some p"
      then obtain u where u: "task_get j s = Some u" "tr_parent_task_id u = Some p"
        by (auto simp: parent_at_def split: option.splits)
      from task_get_id [OF u(1)] u(2) all u(1) show "status_at s j = Some ''done''"
        by (simp add: status_at_def)
    qed
  next
    assume all: "\<forall>j. parent_at s j = Some p \<longrightarrow> status_at s j = Some ''done''"
    show "\<forall>u\<in>set ?sub. tr_status u = ''done''"
    proof
      fix u assume "u \<in> set ?sub"
      then have u: "u \<in> set (tasks s)" "tr_parent_task_id u = Some p" by auto
      from u(1) have "task_get (tr_id u) s = Some u"
        by (simp add: task_get_Some [OF db_ok_ids [OF assms(1)]])
      with all [rule_format, of "tr_id u"] u(2) show "tr_status u = ''done''"
        by (simp add: parent_at_def status_at_def)
    qed
  qed
  finally show ?thesis
    using pos by (simp add: children_done_def wf_status_of)
qed

definition wf_close :: "string \<Rightarrow> string option \<Rightarrow> workflow \<Rightarrow> workflow" where
  "wf_close i parent w =
     (let w' = cascade i w
      in case parent of None \<Rightarrow> w' | Some p \<Rightarrow> if children_done p w' then finish p w' else w')"

lemma close_task_spec:
  assumes "db_ok E s" "distinct_ids E" "parent_at s i = parent"
  obtains s' where "close_task E i parent s = (s', Inr ())" "db_ok E s'" "same_rest s s'"
    "workflow_of s' = wf_close i parent (workflow_of s)"
proof -
  from on_task_completed_spec [OF assms(1,2), of i]
  obtain s1 out where s1: "on_task_completed E i s = (s1, Inr out)" "db_ok E s1" "same_rest s s1"
    "workflow_of s1 = cascade i (workflow_of s)" by metis
  show thesis
  proof (cases parent)
    case None
    with s1 show thesis by (intro that [of s1]) (simp_all add: close_task_def wf_close_def)
  next
    case (Some p)
    obtain n_all n_done where roll: "subtask_rollup p s1 = (n_all, n_done)" by force
    have "parent_at s1 = parent_at s" using arg_cong [OF s1(4), of wf_parent] by simp
    with Some assms(3) have "parent_at s1 i = Some p" by simp
    then obtain t where t: "t \<in> set (tasks s1)" "tr_parent_task_id t = Some p"
      using task_get_id by (fastforce simp: parent_at_def split: option.splits)
    have cd: "n_all > 0 \<and> n_all = n_done \<longleftrightarrow> children_done p (workflow_of s1)"
      by (rule subtask_rollup_iff [OF s1(2) t roll])
    show thesis
    proof (cases "n_all > 0 \<and> n_all = n_done")
      case False
      with cd s1 roll Some show thesis
        by (intro that [of s1]) (auto simp: close_task_def wf_close_def)
    next
      case True
      let ?p = "\<lparr>nh_task_id = p, nh_from_status = None, nh_to_status = ''done'', nh_actor = ''system'',
        nh_trigger_kind = ''dependency_satisfied'', nh_note = Some ''all subtasks done''\<rparr>"
      have "task_get p s1 \<noteq> None" by (rule db_ok_parent [OF s1(2) t])
      from set_and_log [OF s1(2) assms(2) this, of ?p Done]
      obtain s0 s2 where eff: "set_status E p ''done'' s1 = (s0, Inr ())" "log_handoff E ?p s0 = (s2, Inr ())"
        and s2: "db_ok E s2" "workflow_of s2 = put_status p Done (workflow_of s1)" "same_rest s1 s2"
        by (metis new_handoff.select_convs(1) task_status_as_str.simps(4))
      from on_task_completed_spec [OF s2(1) assms(2), of p]
      obtain s3 out' where s3: "on_task_completed E p s2 = (s3, Inr out')" "db_ok E s3" "same_rest s2 s3"
        "workflow_of s3 = cascade p (workflow_of s2)" by metis
      have "close_task E i parent s = (s3, Inr ())"
        using True roll Some s1(1) s3(1) eff by (simp add: close_task_def)
      moreover have "workflow_of s3 = wf_close i parent (workflow_of s)"
        using True cd Some by (simp add: s3(4) s2(2) s1(4) wf_close_def finish_def)
      ultimately show thesis
        using s3 same_rest_trans [OF s1(3) same_rest_trans [OF s2(3) s3(3)]] by (intro that [of s3])
    qed
  qed
qed

section \<open>A transition is one step of the workflow\<close>

lemma transition_refines:
  assumes "db_ok E s" "distinct_ids E" "task_get i s = Some t"
    and "get_perm ''project'' (tr_project_id t) u s \<noteq> None" "task_action_parse a = Some act"
  shows "case wf_transition i act (tr_requires_human_review t) (workflow_of s) of
      None \<Rightarrow> (\<exists>msg. transition_task E u i (Inr a) s = (s, Inl (BadRequest msg)))
    | Some w' \<Rightarrow> (\<exists>s' t'. transition_task E u i (Inr a) s = (s', Inr t') \<and> workflow_of s' = w' \<and>
        db_ok E s' \<and> same_rest s s' \<and> task_get i s' = Some t')"
proof -
  have auth: "require_task_member i u s = (s, Inr t)"
    using assms(3,4) by (simp add: require_task_member_Inr)
  obtain src where src: "task_status_parse (tr_status t) = Some src"
    using db_ok_status [OF assms(1)] task_get_id [OF assms(3)] by blast
  then have st: "tr_status t = task_status_as_str src" by (simp add: task_status_parse_Some)
  have wst: "wf_status (workflow_of s) i = Some src"
    by (simp add: wf_status_of status_at_def assms(3) st)
  show ?thesis
  proof (cases "next_status src act (tr_requires_human_review t)")
    case None
    then show ?thesis by (simp add: wf_transition_def wst transition_task_def auth assms(5) src)
  next
    case (Some dst)
    show ?thesis
    proof (cases "act = Start \<and> \<not> ready (workflow_of s) i")
      case True
      then show ?thesis
        using Some by (simp add: wf_transition_def wst transition_task_def auth assms(5) src ready_of [OF assms(1)])
    next
      case False
      let ?p = "\<lparr>nh_task_id = i, nh_from_status = Some (task_status_as_str src),
        nh_to_status = task_status_as_str dst, nh_actor = u, nh_trigger_kind = trigger_kind act, nh_note = None\<rparr>"
      obtain s0 s1 where eff: "set_status E i (task_status_as_str dst) s = (s0, Inr ())" "log_handoff E ?p s0 = (s1, Inr ())"
        and s1: "db_ok E s1" "workflow_of s1 = put_status i dst (workflow_of s)" "same_rest s s1"
        by (rule set_and_log [OF assms(1,2), of i ?p dst]) (use assms(3) in auto)
      have parent: "parent_at s1 i = tr_parent_task_id t"
        using arg_cong [OF s1(2), of wf_parent] by (simp add: parent_at_def assms(3))
      obtain s2 where s2: "(if dst = Done then close_task E i (tr_parent_task_id t) s1 else (s1, Inr ())) = (s2, Inr ())"
        "db_ok E s2" "same_rest s1 s2"
        "workflow_of s2 = (if dst = Done then wf_close i (tr_parent_task_id t) (workflow_of s1) else workflow_of s1)"
      proof (cases "dst = Done")
        case True
        from close_task_spec [OF s1(1) assms(2) parent] True that show thesis by auto
      next
        case False
        with that [of s1] s1 show thesis by simp
      qed
      have w2: "wf_transition i act (tr_requires_human_review t) (workflow_of s) = Some (workflow_of s2)"
      proof -
        have "parent_at s i = tr_parent_task_id t" by (simp add: parent_at_def assms(3))
        then show ?thesis
          using False Some wst unfolding s2(4) s1(2)
          by (auto simp: wf_transition_def wf_close_def finish_def Let_def split: option.splits)
      qed
      have "wf_status (workflow_of s2) i \<noteq> None"
        unfolding s2(4) s1(2)
        by (auto simp: wf_close_def Let_def finish_def cascade_status split: option.splits if_splits)
      then obtain t' where t': "task_get i s2 = Some t'"
        using wf_status_of_None [OF s2(2)] by auto
      have "transition_task E u i (Inr a) s = (s2, Inr t')"
        using False Some eff s2(1) t'
        by (simp add: transition_task_def auth assms(5) src ready_of [OF assms(1)])
      with w2 s2(2) t' same_rest_trans [OF s1(3) s2(3)] show ?thesis by simp
    qed
  qed
qed

section \<open>The invariant of the server\<close>

definition has_project :: "string \<Rightarrow> alinea_db \<Rightarrow> bool" where
  "has_project p s \<longleftrightarrow> (\<exists>r\<in>set (projects s). pr_id r = p)"

definition has_owner :: "string \<Rightarrow> alinea_db \<Rightarrow> bool" where
  "has_owner p s \<longleftrightarrow> (\<exists>u. get_perm ''project'' p u s = Some ''owner'')"

text \<open>
  The tables are well formed, the schedule of tasks is kept, every project has an owner, and the
  access list names existing projects only. Ids the environment is still to draw are unused.
\<close>

definition projects_ok :: "env \<Rightarrow> alinea_db \<Rightarrow> bool" where
  "projects_ok E s \<longleftrightarrow>
     (\<forall>k\<ge>tick s. \<not> has_project (mint_id E k) s) \<and>
     (\<forall>p. has_project p s \<longrightarrow> has_owner p s) \<and>
     (\<forall>p u. get_perm ''project'' p u s \<noteq> None \<longrightarrow> has_project p s)"

definition server_ok :: "env \<Rightarrow> alinea_db \<Rightarrow> bool" where
  "server_ok E s \<longleftrightarrow> db_ok E s \<and> acl_ok E s \<and> scheduled (workflow_of s) \<and> projects_ok E s"

lemma server_okD:
  assumes "server_ok E s"
  shows "db_ok E s" "acl_ok E s" "scheduled (workflow_of s)" "projects_ok E s"
  using assms by (simp_all add: server_ok_def)

lemma projects_okD:
  assumes "projects_ok E s"
  shows "tick s \<le> k \<Longrightarrow> \<not> has_project (mint_id E k) s" "has_project p s \<Longrightarrow> has_owner p s"
    "get_perm ''project'' p u s \<noteq> None \<Longrightarrow> has_project p s"
  using assms unfolding projects_ok_def by blast+

lemma projects_ok_mono:
  assumes "projects_ok E s" "tick s \<le> tick s'" "\<And>p. has_project p s' = has_project p s" "resource_acl s' = resource_acl s"
  shows "projects_ok E s'"
  using assms unfolding projects_ok_def has_owner_def get_perm_def by simp

lemma acl_ok_mono: "acl_ok E s \<Longrightarrow> resource_acl s' = resource_acl s \<Longrightarrow> tick s \<le> tick s' \<Longrightarrow> acl_ok E s'"
  by (simp add: acl_ok_def)

lemma server_ok_same_rest:
  assumes "server_ok E s" "same_rest s s'" "db_ok E s'" "scheduled (workflow_of s')"
  shows "server_ok E s'"
  using assms acl_ok_mono [of E s s'] projects_ok_mono [of E s s']
  by (auto simp: server_ok_def same_rest_def has_project_def)

lemma db_ok_cong:
  assumes "db_ok E s" "tasks s' = tasks s" "task_dependencies s' = task_dependencies s"
    "task_handoff_log s' = task_handoff_log s" "tick s \<le> tick s'"
  shows "db_ok E s'"
  using assms unfolding db_ok_def deps_def task_get_def by auto

lemma workflow_of_cong:
  assumes "tasks s' = tasks s" "task_dependencies s' = task_dependencies s"
  shows "workflow_of s' = workflow_of s"
proof -
  have "task_get j s' = task_get j s" for j by (rule task_get_cong) (rule assms)
  then have "status_at s' = status_at s" "parent_at s' = parent_at s"
    by (auto simp: status_at_def parent_at_def)
  then show ?thesis by (simp add: workflow_of_def deps_def assms(2))
qed

text \<open>Changes of the projects, the access list or the artifacts only.\<close>

lemma server_ok_other_tables:
  assumes "server_ok E s" "tasks s' = tasks s" "task_dependencies s' = task_dependencies s"
    "task_handoff_log s' = task_handoff_log s" "tick s \<le> tick s'" "acl_ok E s'" "projects_ok E s'"
  shows "server_ok E s'"
  using assms db_ok_cong [of E s s'] workflow_of_cong [of s' s] by (simp add: server_ok_def)

lemma server_ok_tick:
  assumes "server_ok E s"
  shows "server_ok E (s\<lparr>tick := Suc (tick s)\<rparr>)"
  by (rule server_ok_other_tables [OF assms])
     (use server_okD [OF assms] acl_ok_mono [of E s] projects_ok_mono [of E s] in \<open>auto simp: has_project_def\<close>)

section \<open>Every request keeps it\<close>

lemmas server_step = fst_and_then_inv [where P = "server_ok E" for E]

lemma server_ok_create_project:
  assumes "server_ok E s" "distinct_ids E"
  shows "server_ok E (fst (create_project E u body s))"
proof (cases "\<exists>req. body = Inr req \<and> trim (cp_name req) \<noteq> []")
  case False
  then show ?thesis using assms(1) by (cases body) (auto simp: create_project_def)
next
  case True
  then obtain req where req: "body = Inr req" "trim (cp_name req) \<noteq> []" by blast
  let ?p = "\<lparr>np_name = trim (cp_name req), np_description = cp_description req,
    np_project_type = (case cp_project_type req of None \<Rightarrow> ''generico'' | Some t \<Rightarrow> t), np_created_by = u\<rparr>"
  let ?i = "mint_id E (tick s)"
  note ok = server_okD [OF assms(1)]
  have fresh: "\<not> has_project ?i s" by (rule projects_okD(1) [OF ok(4) order_refl])
  obtain s1 row where s1: "project_create E ?p s = (s1, Inr row)" "pr_id row = ?i"
    "projects s1 = projects s @ [row]"
    using fresh by (fastforce simp: project_create_def Let_def has_project_def)
  have fr: "tasks s1 = tasks s" "task_dependencies s1 = task_dependencies s" "task_handoff_log s1 = task_handoff_log s"
    "resource_acl s1 = resource_acl s" "tick s1 = Suc (tick s)"
    using project_create_frame [of E ?p s] by (simp_all add: s1(1))
  have a1: "acl_ok E s1" by (rule acl_ok_mono [OF ok(2)]) (simp_all add: fr)
  let ?s2 = "fst (grant E ''project'' ?i u ''owner'' s1)"
  have g: "grant E ''project'' ?i u ''owner'' s1 = (?s2, Inr ())"
    using grant_ok [OF a1] by (metis prod.collapse)
  have fr2: "tasks ?s2 = tasks s" "task_dependencies ?s2 = task_dependencies s" "task_handoff_log ?s2 = task_handoff_log s"
    "projects ?s2 = projects s @ [row]" "tick ?s2 = Suc (Suc (tick s))"
    using s1(3) fr by (simp_all add: grant_def Let_def)
  have perm: "get_perm ''project'' p v ?s2 = (if p = ?i \<and> v = u then Some ''owner'' else get_perm ''project'' p v s)" for p v
    unfolding get_perm_grant [OF a1] using fr(4) by (simp add: get_perm_def)
  have hp: "has_project p ?s2 \<longleftrightarrow> p = ?i \<or> has_project p s" for p
    by (auto simp: has_project_def fr2(4) s1(2))
  have "projects_ok E ?s2"
    unfolding projects_ok_def hp
  proof (intro conjI allI impI)
    fix k assume "tick ?s2 \<le> k"
    then show "\<not> (mint_id E k = ?i \<or> has_project (mint_id E k) s)"
      using projects_okD(1) [OF ok(4), of k] by (simp add: fr2(5) mint_id_eq [OF assms(2)])
  next
    fix p assume "p = ?i \<or> has_project p s"
    then show "has_owner p ?s2"
      using projects_okD(2) [OF ok(4), of p] unfolding has_owner_def perm by auto
  next
    fix p v assume "get_perm ''project'' p v ?s2 \<noteq> None"
    then show "p = ?i \<or> has_project p s"
      using projects_okD(3) [OF ok(4), of p v] unfolding perm by (auto split: if_splits)
  qed
  then have "server_ok E ?s2"
    by (intro server_ok_other_tables [OF assms(1)]) (simp_all add: fr2 acl_ok_grant [OF a1 assms(2)])
  moreover have "create_project E u body s = (?s2, Inr row)"
    using req s1(1,2) by (simp add: create_project_def) (subst g, simp)
  ultimately show ?thesis by simp
qed

lemma server_ok_update_project:
  assumes "server_ok E s"
  shows "server_ok E (fst (update_project E u i body s))"
proof -
  have upd: "server_ok E (fst (project_update_fields E i req s))" if "server_ok E s" for req s
  proof (rule server_ok_other_tables [OF that])
    have "pr_id ` set (projects (fst (project_update_fields E i req s))) = pr_id ` set (projects s)"
      by (metis project_update_ids set_map)
    then have "has_project p (fst (project_update_fields E i req s)) = has_project p s" for p
      by (auto simp: has_project_def image_iff set_eq_iff) metis+
    then show "projects_ok E (fst (project_update_fields E i req s))"
      by (intro projects_ok_mono [OF server_okD(4) [OF that]]) simp_all
    show "acl_ok E (fst (project_update_fields E i req s))"
      by (rule acl_ok_mono [OF server_okD(2) [OF that]]) simp_all
  qed simp_all
  show ?thesis
    unfolding update_project_def using assms
    by (auto intro!: server_step upd split: option.splits)
qed

text \<open>Members\<close>

lemma owners_listed:
  "length (filter (\<lambda>m. ra_principal_type m = ''user'' \<and> ra_perm m = ''owner'') (list_principals ''project'' p s)) = owner_count p s"
  by (simp add: list_principals_def owner_count_def filter_sort conj_ac)

lemma demotes_last_owner_iff:
  assumes "acl_ok E s"
  shows "demotes_last_owner p u q s \<longleftrightarrow>
    q \<noteq> ''owner'' \<and> get_perm ''project'' p u s = Some ''owner'' \<and> owner_count p s \<le> 1"
proof -
  have "list_ex (\<lambda>m. ra_principal_type m = ''user'' \<and> ra_principal_id m = u \<and> ra_perm m = ''owner'')
      (list_principals ''project'' p s) \<longleftrightarrow> get_perm ''project'' p u s = Some ''owner''"
    unfolding get_perm_Some [OF assms] list_ex_iff by (auto simp: list_principals_def acl_match_def)
  then show ?thesis by (simp add: demotes_last_owner_def Let_def owners_listed)
qed

lemma has_owner_alt: "has_owner p s = project_members.has_owner s p"
  by (simp add: has_owner_def project_members.has_owner_def)

lemma server_ok_grant:
  assumes "server_ok E s" "distinct_ids E" "has_project p s"
    and "q \<noteq> ''owner'' \<Longrightarrow> \<not> (get_perm ''project'' p u s = Some ''owner'' \<and> owner_count p s \<le> 1)"
  shows "server_ok E (fst (grant E ''project'' p u q s))"
proof -
  let ?s' = "fst (grant E ''project'' p u q s)"
  note ok = server_okD [OF assms(1)]
  have fr: "tasks ?s' = tasks s" "task_dependencies ?s' = task_dependencies s" "task_handoff_log ?s' = task_handoff_log s"
    "tick ?s' = Suc (tick s)" "projects ?s' = projects s"
    by (simp_all add: grant_def Let_def)
  have "projects_ok E ?s'"
    unfolding projects_ok_def
  proof (intro conjI allI impI)
    show "\<not> has_project (mint_id E k) ?s'" if "tick ?s' \<le> k" for k
      using projects_okD(1) [OF ok(4), of k] that by (simp add: fr has_project_def)
    show "has_owner p' ?s'" if "has_project p' ?s'" for p'
    proof -
      have "has_owner p' s" using projects_okD(2) [OF ok(4), of p'] that by (simp add: fr has_project_def)
      then show ?thesis
        unfolding has_owner_alt
        by (rule project_members.has_owner_give [OF ok(2)]) (use assms(4) owner_count_card(1) [OF ok(2)] in simp)
    qed
    show "has_project p' ?s'" if "get_perm ''project'' p' v ?s' \<noteq> None" for p' v
      using projects_okD(3) [OF ok(4), of p' v] that assms(3) unfolding get_perm_grant [OF ok(2)]
      by (auto simp: fr has_project_def split: if_splits)
  qed
  then show ?thesis
    by (intro server_ok_other_tables [OF assms(1)]) (simp_all add: fr acl_ok_grant [OF ok(2) assms(2)])
qed

lemma server_ok_add_member:
  assumes "server_ok E s" "distinct_ids E"
  shows "server_ok E (fst (add_member E u i body s))"
proof -
  have step: "server_ok E (fst (grant E ''project'' i v q s'))"
    if "require_owner i u s = (s', Inr x)" "server_ok E s'" "\<not> demotes_last_owner i v q s'" for s' x v q
  proof (rule server_ok_grant [OF that(2) assms(2)])
    show "has_project i s'"
      using that(1) projects_okD(3) [OF server_okD(4) [OF that(2)], of i u] by (auto simp: require_owner_Inr)
    show "\<not> (get_perm ''project'' i v s' = Some ''owner'' \<and> owner_count i s' \<le> 1)" if "q \<noteq> ''owner''"
      using \<open>\<not> demotes_last_owner i v q s'\<close> that
      unfolding demotes_last_owner_iff [OF server_okD(2) [OF \<open>server_ok E s'\<close>]] by blast
  qed
  show ?thesis
    unfolding add_member_def Let_def using assms(1)
    by (auto intro!: server_step step)
qed

lemma server_ok_remove_member:
  assumes "server_ok E s"
  shows "server_ok E (fst (remove_member u i v s))"
proof -
  have step: "server_ok E (fst (try_revoke_project_member i v s))" if "server_ok E s" for s
  proof -
    let ?s' = "fst (try_revoke_project_member i v s)"
    note ok = server_okD [OF that]
    have fr: "tasks ?s' = tasks s" "task_dependencies ?s' = task_dependencies s" "task_handoff_log ?s' = task_handoff_log s"
      "tick ?s' = tick s" "projects ?s' = projects s"
      by (simp_all add: try_revoke_cases [OF ok(2)] revoke_def)
    have "projects_ok E ?s'"
      unfolding projects_ok_def
    proof (intro conjI allI impI)
      show "\<not> has_project (mint_id E k) ?s'" if "tick ?s' \<le> k" for k
        using projects_okD(1) [OF ok(4), of k] that by (simp add: fr has_project_def)
      show "has_owner p ?s'" if "has_project p ?s'" for p
      proof -
        have "has_owner p s" using projects_okD(2) [OF ok(4), of p] that by (simp add: fr has_project_def)
        then show ?thesis unfolding has_owner_alt by (rule project_members.has_owner_take_back [OF ok(2)])
      qed
      show "has_project p ?s'" if "get_perm ''project'' p w ?s' \<noteq> None" for p w
      proof -
        have "get_perm ''project'' p w s \<noteq> None"
          using that unfolding project_members.perm_take_back [OF ok(2)] by (metis (full_types))
        from projects_okD(3) [OF ok(4) this] show ?thesis by (simp add: fr has_project_def)
      qed
    qed
    moreover have "acl_ok E ?s'"
      by (simp add: try_revoke_cases [OF ok(2)] ok(2) acl_ok_revoke)
    ultimately show ?thesis
      by (intro server_ok_other_tables [OF that]) (simp_all add: fr)
  qed
  show ?thesis
    unfolding remove_member_def using assms
    by (auto intro!: server_step step split: member_revoke.splits)
qed

text \<open>Tasks\<close>

lemma update_task_frame [simp]:
  "same_rest s (fst (task_update_fields E i u s))"
  "task_dependencies (fst (task_update_fields E i u s)) = task_dependencies s"
  "task_handoff_log (fst (task_update_fields E i u s)) = task_handoff_log s"
  "tick s \<le> tick (fst (task_update_fields E i u s))"
  by (simp_all add: task_update_fields_def Let_def same_rest_def)

lemma apply_task_update_simps [simp]:
  "tr_id (apply_task_update u now t) = tr_id t"
  "tr_status (apply_task_update u now t) = tr_status t"
  "tr_parent_task_id (apply_task_update u now t) = tr_parent_task_id t"
  "tr_project_id (apply_task_update u now t) = tr_project_id t"
  by (simp_all add: apply_task_update_def set_opt_def split: option.splits)

lemma update_task_rows:
  "map (\<lambda>t. (tr_id t, tr_status t, tr_parent_task_id t)) (tasks (fst (task_update_fields E i u s))) =
   map (\<lambda>t. (tr_id t, tr_status t, tr_parent_task_id t)) (tasks s)"
  by (simp add: task_update_fields_def Let_def update_where_def)

text \<open>Tables that agree on the ids, states and parents of the tasks give the same workflow.\<close>

lemma find_map_eq:
  "map f xs = map f ys \<Longrightarrow> (\<And>x y. f x = f y \<Longrightarrow> P x = P y) \<Longrightarrow> map_option f (find P xs) = map_option f (find P ys)"
proof (induction xs arbitrary: ys)
  case (Cons x xs)
  from Cons.prems(1) obtain y ys' where "ys = y # ys'" "f x = f y" "map f xs = map f ys'" by (cases ys) auto
  moreover from this(2) have "P x = P y" by (rule Cons.prems(2))
  moreover from \<open>map f xs = map f ys'\<close> have "map_option f (find P xs) = map_option f (find P ys')"
    by (rule Cons.IH) (rule Cons.prems(2))
  ultimately show ?case by simp
qed simp

lemma same_rows:
  assumes "map (\<lambda>t. (tr_id t, tr_status t, tr_parent_task_id t)) (tasks s') =
           map (\<lambda>t. (tr_id t, tr_status t, tr_parent_task_id t)) (tasks s)" (is "map ?f _ = _")
    and "task_dependencies s' = task_dependencies s" "task_handoff_log s' = task_handoff_log s" "tick s \<le> tick s'"
    and "db_ok E s"
  shows "db_ok E s'" "workflow_of s' = workflow_of s"
proof -
  have opt: "map_option ?f (task_get j s') = map_option ?f (task_get j s)" for j
    unfolding task_get_def by (rule find_map_eq [OF assms(1)]) simp
  have get: "task_get j s' = None \<longleftrightarrow> task_get j s = None" for j
    using opt [of j] by (cases "task_get j s"; cases "task_get j s'") simp_all
  have ids: "map tr_id (tasks s') = map tr_id (tasks s)"
    using arg_cong [OF assms(1), of "map fst"] by (simp add: o_def)
  then have idset: "tr_id ` set (tasks s') = tr_id ` set (tasks s)"
    by (simp only: set_map [symmetric])
  have row: "\<exists>v\<in>set (tasks s). tr_status w = tr_status v \<and> tr_parent_task_id w = tr_parent_task_id v"
    if "w \<in> set (tasks s')" for w
  proof -
    have "?f w \<in> set (map ?f (tasks s))" unfolding assms(1) [symmetric] using that by force
    then show ?thesis by auto
  qed
  have "status_at s' j = status_at s j" "parent_at s' j = parent_at s j" for j
    using opt [of j] by (cases "task_get j s"; cases "task_get j s'"; simp add: status_at_def parent_at_def)+
  then show "workflow_of s' = workflow_of s"
    by (simp add: workflow_of_def deps_def assms(2) fun_eq_iff)
  show "db_ok E s'"
  proof (rule db_okI)
    show "task_status_parse (tr_status w) \<noteq> None" if "w \<in> set (tasks s')" for w
      using row [OF that] db_ok_status [OF assms(5)] by auto
    show "task_get q s' \<noteq> None" if "w \<in> set (tasks s')" "tr_parent_task_id w = Some q" for w q
      using row [OF that(1)] db_ok_parent [OF assms(5)] that(2) unfolding get by auto
    show "task_get a s' \<noteq> None \<and> task_get b s' \<noteq> None" if "(a, b) \<in> deps s'" for a b
      using db_ok_fk [OF assms(5), of a b] that by (simp add: get deps_def assms(2))
  qed (use db_okD(1,2,6,7) [OF assms(5)] assms(2-4) in \<open>simp_all add: ids idset\<close>)
qed

lemma server_ok_update_task:
  assumes "server_ok E s"
  shows "server_ok E (fst (update_task E u i body s))"
proof -
  have step: "server_ok E (fst (task_update_fields E i req s))" if "server_ok E s" for req s
  proof -
    note ok = server_okD [OF that]
    have same: "db_ok E (fst (task_update_fields E i req s))"
        "workflow_of (fst (task_update_fields E i req s)) = workflow_of s"
      by (rule same_rows [OF update_task_rows _ _ _ ok(1)]; simp)+
    show ?thesis
      by (rule server_ok_same_rest [OF that]) (use same ok(3) in simp_all)
  qed
  show ?thesis
    unfolding update_task_def using assms
    by (auto intro!: server_step step split: option.splits)
qed

lemma transition_task_unchanged:
  assumes "\<nexists>t a act. task_get i s = Some t \<and> get_perm ''project'' (tr_project_id t) u s \<noteq> None \<and>
    body = Inr a \<and> task_action_parse a = Some act"
  shows "fst (transition_task E u i body s) = s"
proof -
  obtain r where r: "require_task_member i u s = (s, r)"
    using fst_require(3) [of i u s] by (metis prod.collapse)
  show ?thesis
  proof (cases r)
    case (Inr t)
    with r have "task_get i s = Some t" "get_perm ''project'' (tr_project_id t) u s \<noteq> None"
      by (auto simp: require_task_member_Inr)
    with assms r Inr show ?thesis
      by (cases body) (auto simp: transition_task_def split: option.splits)
  qed (simp add: transition_task_def r)
qed

lemma server_ok_transition_task:
  assumes "server_ok E s" "distinct_ids E"
  shows "server_ok E (fst (transition_task E u i body s))"
proof -
  note ok = server_okD [OF assms(1)]
  show ?thesis
  proof (cases "\<exists>t a act. require_task_member i u s = (s, Inr t) \<and> body = Inr a \<and> task_action_parse a = Some act")
    case False
    have "fst (transition_task E u i body s) = s"
      by (rule transition_task_unchanged) (use False in \<open>simp add: require_task_member_Inr\<close>)
    then show ?thesis using assms(1) by simp
  next
    case True
    then obtain t a act where b: "task_get i s = Some t" "get_perm ''project'' (tr_project_id t) u s \<noteq> None"
      "body = Inr a" "task_action_parse a = Some act"
      by (auto simp: require_task_member_Inr)
    note ref = transition_refines [OF ok(1) assms(2) b(1,2,4)]
    show ?thesis
    proof (cases "wf_transition i act (tr_requires_human_review t) (workflow_of s)")
      case None
      with ref b(3) assms(1) show ?thesis by auto
    next
      case (Some w')
      with ref b(3) obtain s' t' where "transition_task E u i body s = (s', Inr t')" "workflow_of s' = w'"
        "db_ok E s'" "same_rest s s'" by auto
      with wf_transition_scheduled [OF ok(3) Some] show ?thesis
        using server_ok_same_rest [OF assms(1), of s'] by simp
    qed
  qed
qed

text \<open>Creating a task adds it to the workflow and settles it, or leaves the tables alone.\<close>

definition create_then_block :: "env \<Rightarrow> new_task \<Rightarrow> task_row api_op" where
  "create_then_block E p s =
     and_then (map_err db_err (task_create E p s)) (\<lambda>task s.
     and_then (map_err db_err (block_if_unsatisfied E (tr_id task) s)) (\<lambda>blocked s.
       if blocked
       then (case task_get (tr_id task) s of
               None \<Rightarrow> (s, Inl (api_task_not_found (tr_id task)))
             | Some t \<Rightarrow> (s, Inr t))
       else (s, Inr task)))"

lemma create_then_block_spec:
  assumes "db_ok E s" "distinct_ids E"
  obtains (failed) e where "create_then_block E p s = (s\<lparr>tick := Suc (tick s)\<rparr>, Inl (InternalDb e))"
  | (created) s' t where "create_then_block E p s = (s', Inr t)" "db_ok E s'" "same_rest s s'"
      "tr_id t = mint_id E (tick s)" "task_get (tr_id t) s = None"
      "workflow_of s' = settle (tr_id t) (add_task (tr_id t) (nt_parent_task_id p) (set (nt_depends_on p)) (workflow_of s))"
      "task_get (tr_id t) s' = Some t"
proof (cases rule: task_create_cases [OF assms(1), of p])
  case (1 e)
  then show thesis by (intro failed) (simp add: create_then_block_def db_err_def)
next
  case (2 ds)
  let ?i = "mint_id E (tick s)"
  let ?row = "new_task_row ?i (clock E (tick s)) p" and ?s1 = "insert_task (new_task_row ?i (clock E (tick s)) p) ds s"
  have row: "tr_id ?row = ?i" "tr_status ?row = ''todo''" "tr_parent_task_id ?row = nt_parent_task_id p"
    by (simp_all add: new_task_row_def)
  have fresh: "?i \<notin> tr_id ` set (tasks s)" by (rule db_ok_fresh [OF assms(1) order_refl])
  note ins = insert_task_spec [OF assms row(1,2), of ds "set (nt_depends_on p)"]
  have ok1: "db_ok E ?s1" and w1: "workflow_of ?s1 = add_task ?i (nt_parent_task_id p) (set (nt_depends_on p)) (workflow_of s)"
    using ins 2 row by auto
  have g: "task_get ?i ?s1 = Some ?row"
    using task_get_insert_task [of ?row s ?i ds] fresh row(1) by simp
  then have "task_get ?i ?s1 \<noteq> None" by simp
  from block_if_unsatisfied_spec [OF ok1 assms(2) this]
  obtain s' where s': "block_if_unsatisfied E ?i ?s1 = (s', Inr (\<not> ready (workflow_of ?s1) ?i))" "db_ok E s'" "same_rest ?s1 s'"
    "workflow_of s' = (if ready (workflow_of ?s1) ?i then workflow_of ?s1 else put_status ?i Blocked (workflow_of ?s1))" .
  have w': "workflow_of s' = settle ?i (add_task ?i (nt_parent_task_id p) (set (nt_depends_on p)) (workflow_of s))"
    unfolding s'(4) w1 by (simp add: settle_def)
  have rest: "same_rest s s'" by (rule same_rest_trans [OF _ s'(3)]) simp
  have none: "task_get ?i s = None" using fresh by (simp add: task_get_None)
  show thesis
  proof (cases "ready (workflow_of ?s1) ?i")
    case True
    then have same: "s' = ?s1" using s'(1) by (simp add: block_if_unsatisfied_def ready_of [OF ok1])
    have "create_then_block E p s = (s', Inr ?row)"
      using 2(1) s'(1) True row(1) by (simp add: create_then_block_def)
    then show thesis
      using s'(2) rest row(1) none w' g same by (intro created [of s' ?row]) simp_all
  next
    case False
    have "wf_status (workflow_of s') ?i \<noteq> None" using w' by (simp add: settle_status)
    then obtain t where t: "task_get ?i s' = Some t" using wf_status_of_None [OF s'(2)] by auto
    then have "create_then_block E p s = (s', Inr t)"
      using 2(1) s'(1) False row(1) by (simp add: create_then_block_def)
    then show thesis
      using s'(2) rest none w' t task_get_id [OF t] by (intro created [of s' t]) simp_all
  qed
qed

lemma server_ok_create_task:
  assumes "server_ok E s" "distinct_ids E"
  shows "server_ok E (fst (create_task E u p body s))"
proof -
  have step: "server_ok E (fst (create_then_block E q s))" if "server_ok E s" for q s
  proof -
    note ok = server_okD [OF that]
    show ?thesis
    proof (cases rule: create_then_block_spec [OF ok(1) assms(2), of q])
      case (1 e)
      then show ?thesis using server_ok_tick [OF that] by simp
    next
      case (2 s' t)
      have "scheduled (workflow_of s')"
        unfolding 2(6)
        by (rule scheduled_add_settle [OF ok(3) workflow_dom [OF ok(1)]])
           (use iffD2 [OF wf_status_of_None [OF ok(1)] 2(5)] in simp_all)
      with 2 show ?thesis using server_ok_same_rest [OF that 2(3,2)] by simp
    qed
  qed
  show ?thesis
    unfolding create_task_def create_then_block_def [symmetric] using assms(1)
    by (auto intro!: server_step step simp: check_parent_def split: option.splits)
qed

lemma instantiate_no_project:
  assumes "\<not> has_project p s"
  shows "fst (instantiate E parse p tid u s) \<in> {s, s\<lparr>tick := Suc (tick s)\<rparr>}"
proof -
  have "\<exists>e. task_create E (spec_task p u 0 spec) s = (s\<lparr>tick := Suc (tick s)\<rparr>, Inl e)" for spec
    using assms by (auto simp: task_create_def Let_def spec_task_def has_project_def)
  then have *: "\<exists>e. create_specs E p u 0 (spec # specs) [] s = (s\<lparr>tick := Suc (tick s)\<rparr>, Inl e)" for spec specs
    by (metis and_then_simps(1) create_specs.simps(2))
  show ?thesis
  proof (cases "\<exists>template spec specs. get_template tid s = Some template \<and> parse (pt_definition template) = Inr (spec # specs)")
    case True
    then obtain template spec specs e where "get_template tid s = Some template"
      "parse (pt_definition template) = Inr (spec # specs)"
      "create_specs E p u 0 (spec # specs) [] s = (s\<lparr>tick := Suc (tick s)\<rparr>, Inl e)"
      using * by blast
    then show ?thesis by (simp add: instantiate_def del: create_specs.simps)
  next
    case False
    have "fst (instantiate E parse p tid u s) = s"
    proof (cases "\<exists>template. get_template tid s = Some template \<and> parse (pt_definition template) = Inr []")
      case True
      then show ?thesis by (auto simp: instantiate_def wire_specs_def)
    next
      case none: False
      have "parse (pt_definition template) \<noteq> Inr specs" if "get_template tid s = Some template" for template specs
        using False none that by (cases specs) blast+
      then show ?thesis by (auto simp: instantiate_def split: option.splits sum.splits)
    qed
    then show ?thesis by simp
  qed
qed

lemma server_ok_instantiate:
  assumes "server_ok E s" "distinct_ids E"
  shows "server_ok E (fst (instantiate E parse p tid u s))"
proof (cases "has_project p s \<and> (\<exists>template specs. get_template tid s = Some template \<and> parse (pt_definition template) = Inr specs)")
  case True
  then obtain template specs where t: "get_template tid s = Some template" "parse (pt_definition template) = Inr specs"
    "\<exists>pr\<in>set (projects s). pr_id pr = p" by (auto simp: has_project_def)
  note ok = server_okD [OF assms(1)]
  from instantiate_spec [OF ok(1) assms(2) ok(3) t(3,1), of parse specs u] t(2)
  obtain s' out where "instantiate E parse p tid u s = (s', Inr out)" "db_ok E s'" "same_rest s s'" "scheduled (workflow_of s')"
    by blast
  then show ?thesis using server_ok_same_rest [OF assms(1), of s'] by simp
next
  case False
  then have "fst (instantiate E parse p tid u s) \<in> {s, s\<lparr>tick := Suc (tick s)\<rparr>}"
  proof (cases "has_project p s")
    case True
    with False show ?thesis by (auto simp: instantiate_def split: option.splits sum.splits)
  qed (use instantiate_no_project in blast)
  with assms(1) server_ok_tick [OF assms(1)] show ?thesis by auto
qed

lemma server_ok_add_artifact:
  assumes "server_ok E s"
  shows "server_ok E (fst (add_artifact E u i body s))"
proof -
  have step: "server_ok E (fst (repo_add_artifact E p s))" if "server_ok E s" for p s
  proof (rule server_ok_other_tables [OF that])
    show "acl_ok E (fst (repo_add_artifact E p s))"
      by (rule acl_ok_mono [OF server_okD(2) [OF that]]) (simp_all add: repo_add_artifact_def Let_def)
    show "projects_ok E (fst (repo_add_artifact E p s))"
      by (rule projects_ok_mono [OF server_okD(4) [OF that]])
         (simp_all add: repo_add_artifact_def Let_def has_project_def)
  qed (simp_all add: repo_add_artifact_def Let_def)
  show ?thesis
    unfolding add_artifact_def using assms
    by (auto intro!: server_step step)
qed

text \<open>The router, and the server as a machine that keeps its invariant.\<close>

lemma fst_ok [simp]: "fst (ok wrap r) = fst r"
  by (cases r; cases "snd r") (auto simp: ok_def)

lemma server_ok_read:
  "fst (list_projects u b s) = s" "fst (get_project u i s) = s" "fst (list_members u i s) = s"
  "fst (list_templates_handler t s) = s" "fst (list_tasks u i s) = s" "fst (get_task u i s) = s"
  "fst (list_artifacts u i s) = s" "fst (list_handoffs u i s) = s"
  by (auto simp: list_projects_def get_project_def list_members_def list_templates_handler_def list_tasks_def
      get_task_def list_artifacts_def list_handoffs_def require_member_eq require_task_member_def
      split: option.splits)

lemma server_ok_routes:
  assumes "server_ok E s" "distinct_ids E"
  shows "server_ok E (fst (project_routes E parse u r s))"
proof (cases r)
  case (InstantiatePipeline p body)
  have "server_ok E (fst (instantiate_pipeline E parse u p body s))"
    unfolding instantiate_pipeline_def using assms
    by (auto intro!: server_step server_ok_instantiate)
  with InstantiatePipeline show ?thesis by simp
qed (use assms in \<open>simp_all add: server_ok_read server_ok_create_project server_ok_update_project server_ok_add_member
      server_ok_remove_member server_ok_create_task server_ok_update_task server_ok_transition_task
      server_ok_add_artifact\<close>)

text \<open>A request of any user, when the environment draws distinct ids.\<close>

definition serve :: "env \<Rightarrow> (string \<Rightarrow> string + task_spec list) \<Rightarrow> string \<times> request \<Rightarrow> alinea_db \<Rightarrow> alinea_db" where
  "serve E parse q s = fst (project_routes E parse (fst q) (snd q) s)"

interpretation project_server: machine "\<lambda>s. distinct_ids E \<and> server_ok E s" "serve E parse"
  for E parse
  by unfold_locales (simp add: serve_def server_ok_routes)

end
