(* ===== verification/ProjectProperties.thy ===== *)
theory ProjectProperties
  imports ProjectServer
begin

text \<open>
  The properties of the project module: what its state machine, its handoff engine, its pipelines
  and its access control promise, each with a run of the server at which its hypotheses hold.
\<close>

section \<open>The server from an empty database\<close>

text \<open>No project, no task; the catalogue of templates and the users are what the installation has.\<close>

definition initial_db :: "pipeline_template_row list \<Rightarrow> string list \<Rightarrow> alinea_db" where
  "initial_db templates us =
     \<lparr>tasks = [], task_dependencies = [], task_artifacts = [], task_handoff_log = [], projects = [],
      pipeline_templates = templates, resource_acl = [], users = us, tick = 0\<rparr>"

lemma server_ok_initial: "server_ok E (initial_db templates us)"
  by (simp add: server_ok_def db_ok_def acl_ok_def projects_ok_def scheduled_def workflow_of_def status_at_def
      task_get_def deps_def has_project_def get_perm_def initial_db_def)

lemma server_ok_run:
  "distinct_ids E \<Longrightarrow> server_ok E (fold (serve E parse) qs (initial_db templates us))"
  using project_server.run_inv [of E "initial_db templates us" parse qs] by (simp add: server_ok_initial)

section \<open>A run to evaluate\<close>

definition demo_env :: env where
  "demo_env = \<lparr>mint_id = (\<lambda>k. replicate (Suc k) CHR ''i''), clock = int\<rparr>"

lemma demo_distinct: "distinct_ids demo_env"
  unfolding distinct_ids_def demo_env_def by (rule injI) (simp add: replicate_eq_replicate)

definition demo_parse :: "string \<Rightarrow> string + task_spec list" where
  "demo_parse d = (if d = ''two'' then
     Inr [\<lparr>ts_key = ''calc'', ts_title = ''Calculo'', ts_assignee_kind = ''agent'', ts_agent = Some ''openclaw'',
           ts_requires_human_review = True, ts_produces_artifact = None, ts_depends_on = []\<rparr>,
          \<lparr>ts_key = ''bom'', ts_title = ''BOM'', ts_assignee_kind = ''human'', ts_agent = None,
           ts_requires_human_review = False, ts_produces_artifact = Some ''bom'', ts_depends_on = [''calc'', ''none'']\<rparr>]
     else Inl ''bad'')"

definition demo_templates :: "pipeline_template_row list" where
  "demo_templates = [\<lparr>pt_id = ''tpl'', pt_name = ''Two'', pt_project_type = ''generico'', pt_version = 1,
     pt_definition = ''two'', pt_is_active = True, pt_created_at = 0\<rparr>]"

text \<open>Ana creates a project (id \<open>i\<close>) and instantiates the template: tasks \<open>iii\<close> and \<open>iiii\<close>.\<close>

definition demo_requests :: "(string \<times> request) list" where
  "demo_requests =
     [(''ana'', CreateProject (Inr \<lparr>cp_name = ''Torre'', cp_description = None, cp_project_type = None\<rparr>)),
      (''ana'', InstantiatePipeline ''i'' (Inr ''tpl''))]"

definition demo_db :: alinea_db where
  "demo_db = fold (serve demo_env demo_parse) demo_requests (initial_db demo_templates [''ana'', ''bob''])"

lemma demo_ok: "server_ok demo_env demo_db"
  unfolding demo_db_def by (rule server_ok_run [OF demo_distinct])

lemma demo_tasks: "map (\<lambda>t. (tr_id t, tr_status t)) (tasks demo_db) = [(''iii'', ''todo''), (''iiii'', ''blocked'')]"
  by code_simp

section \<open>Tasks\<close>

text \<open>C1. The transition endpoint refines the abstract workflow: for a member and a known action it
  performs exactly one \<open>wf_transition\<close> (the state change, the cascade to the dependents and the
  rollup of the parent) and answers with the task's new row; when the workflow refuses the action
  it answers 400 and leaves every table alone.\<close>

theorem transition_task_refines_workflow:
  assumes "db_ok E s" "distinct_ids E" "task_get i s = Some t"
    and "get_perm ''project'' (tr_project_id t) u s \<noteq> None" "task_action_parse a = Some act"
  shows "case wf_transition i act (tr_requires_human_review t) (workflow_of s) of
      None \<Rightarrow> (\<exists>msg. transition_task E u i (Inr a) s = (s, Inl (BadRequest msg)))
    | Some w' \<Rightarrow> (\<exists>s' t'. transition_task E u i (Inr a) s = (s', Inr t') \<and> workflow_of s' = w' \<and>
        db_ok E s' \<and> same_rest s s' \<and> task_get i s' = Some t')"
  using assms by (rule transition_refines)

lemma transition_task_refines_workflow_witness:
  "\<exists>t. task_get ''iii'' demo_db = Some t \<and>
     (case wf_transition ''iii'' Start (tr_requires_human_review t) (workflow_of demo_db) of
        None \<Rightarrow> (\<exists>msg. transition_task demo_env ''ana'' ''iii'' (Inr ''start'') demo_db = (demo_db, Inl (BadRequest msg)))
      | Some w' \<Rightarrow> (\<exists>s' t'. transition_task demo_env ''ana'' ''iii'' (Inr ''start'') demo_db = (s', Inr t') \<and>
          workflow_of s' = w' \<and> db_ok demo_env s' \<and> same_rest demo_db s' \<and> task_get ''iii'' s' = Some t'))"
proof -
  have "case task_get ''iii'' demo_db of None \<Rightarrow> False
    | Some t \<Rightarrow> get_perm ''project'' (tr_project_id t) ''ana'' demo_db \<noteq> None" by code_simp
  then obtain t where "task_get ''iii'' demo_db = Some t" "get_perm ''project'' (tr_project_id t) ''ana'' demo_db \<noteq> None"
    by (auto split: option.splits)
  moreover have "task_action_parse ''start'' = Some Start" by code_simp
  ultimately show ?thesis
    using transition_task_refines_workflow [OF server_okD(1) [OF demo_ok] demo_distinct] by blast
qed

text \<open>C2. From an empty database, after any sequence of requests of any users, the tables are well
  formed and the schedule is kept: a task that is under way or open (not \<open>blocked\<close>, not \<open>done\<close>) has
  every dependency \<open>done\<close>, and a \<open>blocked\<close> task has one that is not.\<close>

theorem schedule_kept_by_all_requests:
  assumes "distinct_ids E" "s = fold (serve E parse) qs (initial_db templates us)" "task_get i s = Some t"
  shows "if tr_status t = ''blocked'' then \<exists>d. (i, d) \<in> deps s \<and> status_at s d \<noteq> Some ''done''
    else if tr_status t = ''done'' then True
    else \<forall>d. (i, d) \<in> deps s \<longrightarrow> status_at s d = Some ''done''"
proof -
  have ok: "server_ok E s" using server_ok_run [OF assms(1)] assms(2) by simp
  note db = server_okD(1) [OF ok]
  obtain st where st: "tr_status t = task_status_as_str st"
    using db_ok_status [OF db] task_get_id [OF assms(3)] by (fastforce simp: task_status_parse_Some)
  then have "wf_status (workflow_of s) i = Some st" by (simp add: wf_status_of status_at_def assms(3))
  from scheduledD [OF server_okD(3) [OF ok] this] show ?thesis
    unfolding ready_of [OF db, symmetric] dependencies_satisfied_iff [OF db]
    by (simp add: st)
qed

lemma schedule_kept_by_all_requests_witness:
  "\<exists>t. task_get ''iiii'' demo_db = Some t \<and>
    (if tr_status t = ''blocked'' then \<exists>d. (''iiii'', d) \<in> deps demo_db \<and> status_at demo_db d \<noteq> Some ''done''
     else if tr_status t = ''done'' then True
     else \<forall>d. (''iiii'', d) \<in> deps demo_db \<longrightarrow> status_at demo_db d = Some ''done'')"
proof -
  have "task_get ''iiii'' demo_db \<noteq> None" by code_simp
  then obtain t where "task_get ''iiii'' demo_db = Some t" by blast
  with schedule_kept_by_all_requests [OF demo_distinct demo_db_def this] show ?thesis by blast
qed

text \<open>A \<open>done\<close> task is final: no transition of any task by any user moves it.\<close>

lemma done_is_final:
  assumes "server_ok E s" "distinct_ids E" "status_at s j = Some ''done''"
  shows "status_at (fst (transition_task E u i body s)) j = Some ''done''"
proof (cases "\<exists>t a act. task_get i s = Some t \<and> get_perm ''project'' (tr_project_id t) u s \<noteq> None \<and>
    body = Inr a \<and> task_action_parse a = Some act")
  case True
  then obtain t a act where b: "task_get i s = Some t" "get_perm ''project'' (tr_project_id t) u s \<noteq> None"
    "body = Inr a" "task_action_parse a = Some act" by blast
  have j: "wf_status (workflow_of s) j = Some Done" using assms(3) by (simp add: wf_status_of)
  note ref = transition_refines [OF server_okD(1) [OF assms(1)] assms(2) b(1,2,4)]
  show ?thesis
  proof (cases "wf_transition i act (tr_requires_human_review t) (workflow_of s)")
    case None
    with ref b(3) assms(3) show ?thesis by auto
  next
    case (Some w')
    with ref b(3) obtain s' t' where r: "transition_task E u i body s = (s', Inr t')" "workflow_of s' = w'" by auto
    from wf_transition_Done_stable [OF Some j] show ?thesis
      unfolding r(2) [symmetric] by (simp add: wf_status_of r(1))
  qed
next
  case False
  have "fst (transition_task E u i body s) = s"
    by (rule transition_task_unchanged) (use False in blast)
  with assms(3) show ?thesis by simp
qed

lemma done_is_final_witness:
  "\<exists>s. status_at s ''iii'' = Some ''done'' \<and>
     status_at (fst (transition_task demo_env ''ana'' ''iiii'' (Inr ''start'') s)) ''iii'' = Some ''done''"
proof -
  let ?rs = "[(''ana'', TransitionTask ''iii'' (Inr ''start'')), (''ana'', TransitionTask ''iii'' (Inr ''submit'')),
    (''ana'', TransitionTask ''iii'' (Inr ''approve''))]"
  let ?s = "fold (serve demo_env demo_parse) (demo_requests @ ?rs) (initial_db demo_templates [''ana'', ''bob''])"
  have "status_at ?s ''iii'' = Some ''done''" by code_simp
  with done_is_final [OF server_ok_run [OF demo_distinct] demo_distinct this] show ?thesis by blast
qed

text \<open>C3. The review gate: a transition that brings its task to \<open>done\<close> is an \<open>approve\<close> of a task in
  review, or the \<open>submit\<close> of a task in progress that does not require a human review.\<close>

theorem review_gate:
  assumes "db_ok E s" "distinct_ids E" "task_get i s = Some t" "tr_status t \<noteq> ''done''"
    and "transition_task E u i (Inr a) s = (s', Inr t')" "tr_status t' = ''done''"
  shows "(a = ''approve'' \<and> tr_status t = ''in_review'') \<or>
    (a = ''submit'' \<and> tr_status t = ''in_progress'' \<and> \<not> tr_requires_human_review t)"
proof -
  have perm: "get_perm ''project'' (tr_project_id t) u s \<noteq> None"
    using assms(5) by (auto simp: transition_task_def and_then_Inr require_task_member_Inr assms(3))
  obtain act where act: "task_action_parse a = Some act"
    using assms(5) by (auto simp: transition_task_def and_then_Inr split: option.splits)
  note ref = transition_refines [OF assms(1,2,3) perm act]
  then obtain w' where w': "wf_transition i act (tr_requires_human_review t) (workflow_of s) = Some w'"
    "workflow_of s' = w'" "task_get i s' = Some t'"
    using assms(5) by (auto split: option.splits)
  have d': "wf_status w' i = Some Done" using assms(6) w' by (auto simp: wf_status_of status_at_def)
  obtain st where st: "tr_status t = task_status_as_str st" "wf_status (workflow_of s) i = Some st"
    using db_ok_status [OF assms(1)] task_get_id [OF assms(3)] assms(3)
    by (fastforce simp: task_status_parse_Some wf_status_of status_at_def)
  then have "next_status st act (tr_requires_human_review t) = Some Done"
    using w'(1) d' by (auto simp: wf_transition_def split: option.splits if_splits)
  then have "(st = InReview \<and> act = Approve) \<or> (st = InProgress \<and> act = Submit \<and> \<not> tr_requires_human_review t)"
    by (simp add: next_status_Done_cases)
  then show ?thesis
    using act st(1) unfolding task_action_parse_def by (auto split: if_splits)
qed

lemma review_gate_witness:
  "\<exists>s t s' t'. transition_task demo_env ''ana'' ''iii'' (Inr ''approve'') s = (s', Inr t') \<and> tr_status t' = ''done'' \<and>
     task_get ''iii'' s = Some t \<and> tr_status t = ''in_review''"
proof -
  let ?rs = "[(''ana'', TransitionTask ''iii'' (Inr ''start'')), (''ana'', TransitionTask ''iii'' (Inr ''submit''))]"
  let ?s = "fold (serve demo_env demo_parse) (demo_requests @ ?rs) (initial_db demo_templates [''ana'', ''bob''])"
  have "case task_get ''iii'' ?s of None \<Rightarrow> False | Some t \<Rightarrow> tr_status t \<noteq> ''done'' \<and>
      (case transition_task demo_env ''ana'' ''iii'' (Inr ''approve'') ?s of
         (s', Inr t') \<Rightarrow> tr_status t' = ''done'' | _ \<Rightarrow> False)" by code_simp
  then obtain t s' t' where r: "task_get ''iii'' ?s = Some t" "tr_status t \<noteq> ''done''"
    "transition_task demo_env ''ana'' ''iii'' (Inr ''approve'') ?s = (s', Inr t')" "tr_status t' = ''done''"
    by (auto split: option.splits prod.splits sum.splits)
  from review_gate [OF server_okD(1) [OF server_ok_run [OF demo_distinct]] demo_distinct this] r show ?thesis
    by auto
qed

text \<open>No user can move a \<open>blocked\<close> task by hand: every action on it is refused with the tables
  unchanged; only the handoff engine unblocks it.\<close>

lemma blocked_task_not_startable:
  assumes "server_ok E s" "distinct_ids E" "status_at s i = Some ''blocked''"
  shows "fst (transition_task E u i body s) = s \<and> (\<exists>e. snd (transition_task E u i body s) = Inl e)"
proof -
  obtain t where t: "task_get i s = Some t" "tr_status t = ''blocked''"
    using assms(3) by (auto simp: status_at_def)
  have w: "wf_status (workflow_of s) i = Some Blocked" using assms(3) by (simp add: wf_status_of)
  show ?thesis
  proof (cases "get_perm ''project'' (tr_project_id t) u s \<noteq> None \<and> (\<exists>a act. body = Inr a \<and> task_action_parse a = Some act)")
    case True
    then obtain a act where b: "get_perm ''project'' (tr_project_id t) u s \<noteq> None" "body = Inr a" "task_action_parse a = Some act"
      by blast
    from transition_refines [OF server_okD(1) [OF assms(1)] assms(2) t(1) b(1,3)]
    show ?thesis
      using scheduled_blocked_no_start [OF server_okD(3) [OF assms(1)] w, of act "tr_requires_human_review t"] b(2) by auto
  next
    case False
    have u: "fst (transition_task E u i body s) = s"
      by (rule transition_task_unchanged) (use False t in auto)
    have "\<exists>e. snd (transition_task E u i body s) = Inl e"
      using False t by (cases body) (auto simp: transition_task_def require_task_member_def require_member_eq
          split: option.splits)
    with u show ?thesis by blast
  qed
qed

lemma blocked_task_not_startable_witness:
  "status_at demo_db ''iiii'' = Some ''blocked'' \<and>
   fst (transition_task demo_env ''ana'' ''iiii'' (Inr ''start'') demo_db) = demo_db \<and>
   (\<exists>e. snd (transition_task demo_env ''ana'' ''iiii'' (Inr ''start'') demo_db) = Inl e)"
proof -
  have "status_at demo_db ''iiii'' = Some ''blocked''" by code_simp
  with blocked_task_not_startable [OF demo_ok demo_distinct this] show ?thesis by blast
qed

section \<open>The handoff engine and the pipelines\<close>

text \<open>C4. Completing a task unblocks exactly its \<open>blocked\<close> dependents whose other dependencies are all
  \<open>done\<close>: these and no other task change state (to \<open>todo\<close>), and they are the tasks returned.\<close>

theorem on_task_completed_unblocks_exactly:
  assumes "db_ok E s" "distinct_ids E"
  shows "\<exists>s' out. on_task_completed E i s = (s', Inr out) \<and>
    tr_id ` set out = {j. (j, i) \<in> deps s \<and> status_at s j = Some ''blocked'' \<and>
                          (\<forall>d. (j, d) \<in> deps s \<longrightarrow> status_at s d = Some ''done'')} \<and>
    (\<forall>j st. status_at s' j = Some st \<longleftrightarrow>
       (if j \<in> tr_id ` set out then st = ''todo'' else status_at s j = Some st))"
proof -
  obtain s' out where r: "on_task_completed E i s = (s', Inr out)" "db_ok E s'"
    "workflow_of s' = cascade i (workflow_of s)"
    "set (map tr_id out) = {j. (j, i) \<in> deps s \<and> status_at s j = Some ''blocked'' \<and> dependencies_satisfied j s}"
    by (rule on_task_completed_spec [OF assms, of i], rule that)
  have out: "tr_id ` set out = {j. (j, i) \<in> deps s \<and> status_at s j = Some ''blocked'' \<and> dependencies_satisfied j s}"
    using r(4) by simp
  have words: "status_at v j = Some st \<longleftrightarrow> (\<exists>x. st = task_status_as_str x \<and> wf_status (workflow_of v) j = Some x)"
    if "db_ok E v" for v j st
  proof
    assume *: "status_at v j = Some st"
    then obtain u where "task_get j v = Some u" "tr_status u = st" by (auto simp: status_at_def)
    then obtain x where "st = task_status_as_str x"
      using db_ok_status [OF \<open>db_ok E v\<close>] task_get_id by (fastforce simp: task_status_parse_Some)
    with * show "\<exists>x. st = task_status_as_str x \<and> wf_status (workflow_of v) j = Some x" by (auto simp: wf_status_of)
  qed (auto simp: wf_status_of)
  have "status_at s' j = Some st \<longleftrightarrow> (if j \<in> tr_id ` set out then st = ''todo'' else status_at s j = Some st)" for j st
  proof (cases "j \<in> tr_id ` set out")
    case True
    then have "wf_status (workflow_of s') j = Some Todo"
      using ready_of [OF assms(1), of j] unfolding out r(3) cascade_status by (simp add: wf_status_of)
    with True show ?thesis by (auto simp: wf_status_of)
  next
    case False
    then have "wf_status (workflow_of s') j = wf_status (workflow_of s) j"
      using ready_of [OF assms(1), of j] unfolding out r(3) cascade_status by (auto simp: wf_status_of)
    with False show ?thesis unfolding words [OF r(2)] words [OF assms(1)] by simp
  qed
  then show ?thesis
    using r(1) out unfolding dependencies_satisfied_iff [OF assms(1)] by (intro exI conjI allI)
qed

lemma on_task_completed_unblocks_exactly_witness:
  "\<exists>s' out. on_task_completed demo_env ''iii'' demo_db = (s', Inr out) \<and>
    tr_id ` set out = {j. (j, ''iii'') \<in> deps demo_db \<and> status_at demo_db j = Some ''blocked'' \<and>
                          (\<forall>d. (j, d) \<in> deps demo_db \<longrightarrow> status_at demo_db d = Some ''done'')}"
  using on_task_completed_unblocks_exactly [OF server_okD(1) [OF demo_ok] demo_distinct, of "''iii''"] by blast

text \<open>A created task is new, is \<open>blocked\<close> exactly when one of its dependencies is not \<open>done\<close>
  (otherwise \<open>todo\<close>), is the row returned, and no other task changes state.\<close>

lemma create_task_result:
  assumes "db_ok E s" "distinct_ids E" "create_task E u p (Inr req) s = (s', Inr t)"
  shows "task_get (tr_id t) s = None \<and> task_get (tr_id t) s' = Some t \<and>
    tr_status t = (if \<forall>d\<in>set (ct_depends_on req). status_at s d = Some ''done'' then ''todo'' else ''blocked'') \<and>
    deps s' = deps s \<union> {tr_id t} \<times> set (ct_depends_on req) \<and>
    (\<forall>j. j \<noteq> tr_id t \<longrightarrow> wf_status (workflow_of s') j = wf_status (workflow_of s) j)"
proof -
  obtain q where q: "create_then_block E q s = (s', Inr t)" "nt_depends_on q = ct_depends_on req"
    using assms(3) unfolding create_task_def create_then_block_def [symmetric]
    by (auto simp: and_then_Inr require_member_Inr check_parent_def split: if_splits option.splits)
  show ?thesis
  proof (cases rule: create_then_block_spec [OF assms(1,2), of q])
    case (2 s'' t'')
    then have same: "s'' = s'" "t'' = t" using q(1) by auto
    let ?w = "add_task (tr_id t) (nt_parent_task_id q) (set (ct_depends_on req)) (workflow_of s)"
    note r = 2(2-7) [unfolded same q(2)]
    have old: "(tr_id t, d) \<notin> deps s" for d using db_ok_fk [OF assms(1), of "tr_id t" d] r(4) by blast
    have ns: "status_at s (tr_id t) = None" using r(4) by (simp add: status_at_def)
    have rdy: "ready ?w (tr_id t) \<longleftrightarrow> (\<forall>d\<in>set (ct_depends_on req). status_at s d = Some ''done'')"
      using old ns by (auto simp: ready_def wf_status_of [of s _ Done, simplified])
    have "wf_status (workflow_of s') (tr_id t) = Some (if ready ?w (tr_id t) then Todo else Blocked)"
      unfolding r(5) by (simp add: settle_status)
    then have "tr_status t = (if ready ?w (tr_id t) then ''todo'' else ''blocked'')"
      using r(6) by (simp add: wf_status_of status_at_def split: if_splits)
    moreover have "deps s' = deps s \<union> {tr_id t} \<times> set (ct_depends_on req)"
      using arg_cong [OF r(5), of wf_deps] by simp
    moreover have "wf_status (workflow_of s') j = wf_status (workflow_of s) j" if "j \<noteq> tr_id t" for j
      unfolding r(5) using that by (simp add: settle_status)
    ultimately show ?thesis using r(4,6) rdy by simp
  qed (use q in simp)
qed

lemma create_task_result_witness:
  "\<exists>s' t. tr_status t = ''blocked'' \<and> task_get (tr_id t) s' = Some t \<and> task_get (tr_id t) demo_db = None"
proof -
  let ?req = "\<lparr>ct_title = ''Revisar'', ct_instructions = None, ct_parent_task_id = Some ''iii'',
    ct_assignee_kind = ''human'', ct_assignee_id = None, ct_requires_human_review = True,
    ct_produces_artifact = None, ct_order_index = 0, ct_depends_on = [''iii'']\<rparr>"
  have "case create_task demo_env ''ana'' ''i'' (Inr ?req) demo_db of (s', Inr t) \<Rightarrow> tr_status t = ''blocked'' | _ \<Rightarrow> False"
    by code_simp
  then obtain s' t where r: "create_task demo_env ''ana'' ''i'' (Inr ?req) demo_db = (s', Inr t)" "tr_status t = ''blocked''"
    by (auto split: prod.splits sum.splits)
  from create_task_result [OF server_okD(1) [OF demo_ok] demo_distinct r(1)] r(2) show ?thesis by blast
qed



section \<open>Access control\<close>

text \<open>The project a request reads or writes; \<open>None\<close> when it is about no existing one.\<close>

fun request_project :: "request \<Rightarrow> alinea_db \<Rightarrow> string option" where
  "request_project (GetProject p) s = Some p"
| "request_project (UpdateProject p _) s = Some p"
| "request_project (ListMembers p) s = Some p"
| "request_project (AddMember p _) s = Some p"
| "request_project (RemoveMember p _) s = Some p"
| "request_project (InstantiatePipeline p _) s = Some p"
| "request_project (CreateTask p _) s = Some p"
| "request_project (ListTasks p) s = Some p"
| "request_project (GetTask i) s = map_option tr_project_id (task_get i s)"
| "request_project (UpdateTask i _) s = map_option tr_project_id (task_get i s)"
| "request_project (TransitionTask i _) s = map_option tr_project_id (task_get i s)"
| "request_project (AddArtifact i _) s = map_option tr_project_id (task_get i s)"
| "request_project (ListArtifacts i) s = map_option tr_project_id (task_get i s)"
| "request_project (ListHandoffs i) s = map_option tr_project_id (task_get i s)"
| "request_project _ s = None"

definition owner_only :: "request \<Rightarrow> bool" where
  "owner_only r = (case r of UpdateProject _ _ \<Rightarrow> True | AddMember _ _ \<Rightarrow> True | RemoveMember _ _ \<Rightarrow> True
     | InstantiatePipeline _ _ \<Rightarrow> True | _ \<Rightarrow> False)"

lemma require_none:
  "get_perm ''project'' p u s = None \<Longrightarrow> require_member p u s = (s, Inl (Forbidden ''Not a member of this project''))"
  "get_perm ''project'' p u s = None \<Longrightarrow> require_owner p u s = (s, Inl (Forbidden ''Not a member of this project''))"
  "task_get i s = Some t \<Longrightarrow> get_perm ''project'' (tr_project_id t) u s = None \<Longrightarrow>
     require_task_member i u s = (s, Inl (Forbidden ''Not a member of this project''))"
  by (simp_all add: require_member_def require_owner_def require_task_member_def)

lemmas handler_defs = get_project_def update_project_def list_members_def add_member_def remove_member_def
  instantiate_pipeline_def create_task_def list_tasks_def get_task_def update_task_def transition_task_def
  add_artifact_def list_artifacts_def list_handoffs_def ok_def

text \<open>C6. Membership fails closed: a request on a project, or on a task of a project, by a user with no
  entry in the project's access list is answered 403, whatever its body, with the tables unchanged.\<close>

theorem non_member_is_refused:
  assumes "request_project r s = Some p" "get_perm ''project'' p u s = None"
  shows "project_routes E parse u r s = (s, Inl (Forbidden ''Not a member of this project''))"
  using assms by (cases r) (auto simp: handler_defs require_none)

lemma non_member_is_refused_witness:
  "project_routes demo_env demo_parse ''bob'' (TransitionTask ''iii'' (Inr ''start'')) demo_db =
     (demo_db, Inl (Forbidden ''Not a member of this project''))"
proof -
  have "request_project (TransitionTask ''iii'' (Inr ''start'')) demo_db = Some ''i''"
    "get_perm ''project'' ''i'' ''bob'' demo_db = None" by code_simp+
  then show ?thesis by (rule non_member_is_refused)
qed

text \<open>Editing a project, changing its members and instantiating a pipeline are reserved to its
  owners: anyone else is answered 403 with the tables unchanged.\<close>

lemma only_owners_administer:
  assumes "owner_only r" "request_project r s = Some p" "get_perm ''project'' p u s \<noteq> Some ''owner''"
  shows "\<exists>msg. project_routes E parse u r s = (s, Inl (Forbidden msg))"
proof -
  have "\<exists>msg. require_owner p u s = (s, Inl (Forbidden msg))"
    using assms(3) by (auto simp: require_owner_def require_member_eq split: option.splits)
  then show ?thesis
    using assms(1,2) by (cases r) (auto simp: owner_only_def handler_defs)
qed

lemma only_owners_administer_witness:
  "\<exists>msg. project_routes demo_env demo_parse ''bob'' (RemoveMember ''i'' ''ana'') demo_db = (demo_db, Inl (Forbidden msg))"
proof -
  have "owner_only (RemoveMember ''i'' ''ana'')" "request_project (RemoveMember ''i'' ''ana'') demo_db = Some ''i''"
    "get_perm ''project'' ''i'' ''bob'' demo_db \<noteq> Some ''owner''" by code_simp+
  then show ?thesis by (rule only_owners_administer)
qed

text \<open>C7. No lockout: from an empty database, after any sequence of requests of any users, every
  project has an owner (neither a demotion nor a removal can take the last one), and the access
  list names existing projects only.\<close>

theorem every_project_has_an_owner:
  assumes "distinct_ids E" "s = fold (serve E parse) qs (initial_db templates us)"
  shows "(\<forall>pr\<in>set (projects s). \<exists>u. get_perm ''project'' (pr_id pr) u s = Some ''owner'') \<and>
    (\<forall>p u. get_perm ''project'' p u s \<noteq> None \<longrightarrow> (\<exists>pr\<in>set (projects s). pr_id pr = p))"
proof -
  have "projects_ok E s" using server_okD(4) [OF server_ok_run [OF assms(1)]] assms(2) by simp
  from projects_okD(2,3) [OF this] show ?thesis
    unfolding has_project_def has_owner_def by blast
qed

lemma every_project_has_an_owner_witness:
  "\<exists>pr u. pr \<in> set (projects demo_db) \<and> get_perm ''project'' (pr_id pr) u demo_db = Some ''owner''"
proof -
  have "projects demo_db \<noteq> []" by code_simp
  then have "hd (projects demo_db) \<in> set (projects demo_db)" by simp
  with every_project_has_an_owner [OF demo_distinct demo_db_def] show ?thesis by blast
qed

text \<open>A run of legal actions that ends in \<open>Done\<close> ends with \<open>approve\<close> when the task requires a
  human review, and with \<open>approve\<close> or \<open>submit\<close> otherwise; \<open>Done\<close> allows no action at all.\<close>

lemma no_run_skips_review:
  assumes "run_actions st requires_review as = Some Done" "as \<noteq> []"
  shows "(if requires_review then last as = Approve else last as = Approve \<or> last as = Submit) \<and>
    (\<forall>a r. next_status Done a r = None)"
  using run_actions_last [OF assms] by (simp add: next_status_no_target)

lemma no_run_skips_review_witness:
  "run_actions Todo True [Start, Submit, Reject, Reopen, Start, Submit, Approve] = Some Done \<and>
   last [Start, Submit, Reject, Reopen, Start, Submit, Approve] = Approve"
proof -
  have "run_actions Todo True [Start, Submit, Reject, Reopen, Start, Submit, Approve] = Some Done" by simp
  with no_run_skips_review [OF this] show ?thesis by simp
qed

section \<open>What the model shows beside the properties\<close>

text \<open>
  The rollup closes a parent with \<open>set_status\<close> alone: a parent that requires a human review and was
  never started is \<open>done\<close> as soon as its only subtask is, although \<open>next_status\<close> has no such
  transition.
\<close>

definition rollup_requests :: "(string \<times> request) list" where
  "rollup_requests =
     (let req = \<lparr>ct_title = ''Padre'', ct_instructions = None, ct_parent_task_id = None,
        ct_assignee_kind = ''human'', ct_assignee_id = None, ct_requires_human_review = True,
        ct_produces_artifact = None, ct_order_index = 0, ct_depends_on = []\<rparr>
      in [(''ana'', CreateProject (Inr \<lparr>cp_name = ''Torre'', cp_description = None, cp_project_type = None\<rparr>)),
          (''ana'', CreateTask ''i'' (Inr req)),
          (''ana'', CreateTask ''i'' (Inr (req\<lparr>ct_title := ''Hija'', ct_parent_task_id := Some ''iii'',
                                              ct_requires_human_review := False\<rparr>))),
          (''ana'', TransitionTask ''iiii'' (Inr ''start'')),
          (''ana'', TransitionTask ''iiii'' (Inr ''submit''))])"

lemma rollup_skips_the_review:
  "let s = fold (serve demo_env demo_parse) rollup_requests (initial_db [] [''ana''])
   in map (\<lambda>t. (tr_id t, tr_status t, tr_requires_human_review t, tr_started_at t)) (tasks s) =
        [(''iii'', ''done'', True, None), (''iiii'', ''done'', False, Some 4)]"
  by code_simp

text \<open>\<open>completed_at\<close> is set by a rejection too and survives the reopening of the task.\<close>

lemma reopened_task_is_still_completed:
  "let s = fold (serve demo_env demo_parse)
        (demo_requests @ map (\<lambda>a. (''ana'', TransitionTask ''iii'' (Inr a))) [''start'', ''submit'', ''reject'', ''reopen''])
        (initial_db demo_templates [''ana''])
   in (case task_get ''iii'' s of None \<Rightarrow> False
       | Some t \<Rightarrow> tr_status t = ''todo'' \<and> tr_completed_at t \<noteq> None)"
  by code_simp

end
