(* ===== verification/TeamTypes.thy ===== *)
theory TeamTypes
  imports Prelude
begin

text \<open>
  The data of the team module: \<open>aionui-team/src/types.rs\<close>, the rows of its tables
  (\<open>aionui-db/src/models/team.rs\<close>), the run payloads (\<open>aionui-api-types/src/team.rs\<close>), the wake
  sources (\<open>wake.rs\<close>), the errors (\<open>error.rs\<close>) and the event names (\<open>events.rs\<close>). A list column holds
  JSON text; \<open>serde_json\<close> is the parameter \<open>json\<close>. A \<open>serde_json::Value\<close> is kept as its printed text:
  \<open>de_value\<close> gives the text that printing the value read would give.
\<close>

section \<open>JSON columns\<close>

record json =
  ser_list :: "string list \<Rightarrow> string"
  de_list :: "string \<Rightarrow> string list option"
  de_value :: "string \<Rightarrow> string option"

text \<open>What the code relies on: a list or value that was printed is read back, and \<open>[]\<close> is the empty list.\<close>

definition json_ok :: "json \<Rightarrow> bool" where
  "json_ok J \<longleftrightarrow> (\<forall>xs. de_list J (ser_list J xs) = Some xs) \<and> de_list J ''[]'' = Some [] \<and>
     (\<forall>s v. de_value J s = Some v \<longrightarrow> de_value J v = Some v)"

text \<open>A concrete codec for the examples.\<close>

definition demo_json :: json where
  "demo_json = \<lparr>ser_list = demo_ser, de_list = (\<lambda>s. if s = ''[]'' then Some [] else demo_de [] s),
                de_value = Some\<rparr>"

lemma demo_ser_not_empty_list: "demo_ser xs \<noteq> ''[]''"
proof (cases xs)
  case (Cons s ss)
  then show ?thesis by (cases s) (simp_all add: demo_ser_def)
qed (simp add: demo_ser_def)

lemma demo_json_ok: "json_ok demo_json"
  by (simp add: json_ok_def demo_json_def demo_de_ser demo_ser_not_empty_list)

section \<open>Enums\<close>

datatype teammate_role = Lead | Teammate

fun role_to_string :: "teammate_role \<Rightarrow> string" where
  "role_to_string Lead = ''lead''"
| "role_to_string Teammate = ''teammate''"

definition role_parse :: "string \<Rightarrow> teammate_role option" where
  "role_parse s =
     (if s = ''lead'' \<or> s = ''leader'' then Some Lead
      else if s = ''teammate'' then Some Teammate
      else None)"

datatype teammate_status = Idle | Working | Thinking | ToolUse | StatusCompleted | StatusError

fun teammate_status_to_string :: "teammate_status \<Rightarrow> string" where
  "teammate_status_to_string Idle = ''idle''"
| "teammate_status_to_string Working = ''working''"
| "teammate_status_to_string Thinking = ''thinking''"
| "teammate_status_to_string ToolUse = ''tool_use''"
| "teammate_status_to_string StatusCompleted = ''completed''"
| "teammate_status_to_string StatusError = ''error''"

definition teammate_status_parse :: "string \<Rightarrow> teammate_status option" where
  "teammate_status_parse s =
     (if s = ''idle'' \<or> s = ''pending'' then Some Idle
      else if s = ''working'' \<or> s = ''active'' then Some Working
      else if s = ''thinking'' then Some Thinking
      else if s = ''tool_use'' then Some ToolUse
      else if s = ''completed'' then Some StatusCompleted
      else if s = ''error'' \<or> s = ''failed'' then Some StatusError
      else None)"

datatype mailbox_message_type = MsgMessage | MsgIdleNotification | MsgShutdownRequest

fun msg_type_to_string :: "mailbox_message_type \<Rightarrow> string" where
  "msg_type_to_string MsgMessage = ''message''"
| "msg_type_to_string MsgIdleNotification = ''idle_notification''"
| "msg_type_to_string MsgShutdownRequest = ''shutdown_request''"

definition msg_type_parse :: "string \<Rightarrow> mailbox_message_type option" where
  "msg_type_parse s =
     (if s = ''message'' then Some MsgMessage
      else if s = ''idle_notification'' then Some MsgIdleNotification
      else if s = ''shutdown_request'' then Some MsgShutdownRequest
      else None)"

datatype board_status = Pending | BoardInProgress | Completed | Deleted

fun board_status_to_string :: "board_status \<Rightarrow> string" where
  "board_status_to_string Pending = ''pending''"
| "board_status_to_string BoardInProgress = ''in_progress''"
| "board_status_to_string Completed = ''completed''"
| "board_status_to_string Deleted = ''deleted''"

definition board_status_parse :: "string \<Rightarrow> board_status option" where
  "board_status_parse s =
     (if s = ''pending'' then Some Pending
      else if s = ''in_progress'' then Some BoardInProgress
      else if s = ''completed'' then Some Completed
      else if s = ''deleted'' then Some Deleted
      else None)"

interpretation role_codec: codec role_to_string role_parse
proof
  fix x show "role_parse (role_to_string x) = Some x" by (cases x) (simp_all add: role_parse_def)
qed

interpretation teammate_status_codec: codec teammate_status_to_string teammate_status_parse
proof
  fix x show "teammate_status_parse (teammate_status_to_string x) = Some x"
    by (cases x) (simp_all add: teammate_status_parse_def)
qed

interpretation msg_type_codec: codec msg_type_to_string msg_type_parse
proof
  fix x show "msg_type_parse (msg_type_to_string x) = Some x" by (cases x) (simp_all add: msg_type_parse_def)
qed

interpretation board_status_codec: codec board_status_to_string board_status_parse
proof
  fix x show "board_status_parse (board_status_to_string x) = Some x"
    by (cases x) (simp_all add: board_status_parse_def)
qed

text \<open>The printed forms of two states are equal only for the same state; stored rows compare so.\<close>

lemmas team_codecs [simp] = role_codec.parse_to_str role_codec.to_str_inject
  teammate_status_codec.parse_to_str teammate_status_codec.to_str_inject
  msg_type_codec.parse_to_str msg_type_codec.to_str_inject
  board_status_codec.parse_to_str board_status_codec.to_str_inject

section \<open>Agents and teams\<close>

record team_agent =
  ag_slot_id :: string
  ag_name :: string
  ag_role :: teammate_role
  ag_conversation_id :: string
  ag_backend :: string
  ag_model :: string
  ag_custom_agent_id :: "string option"
  ag_status :: "teammate_status option"
  ag_conversation_type :: "string option"
  ag_cli_path :: "string option"

record team_agent_response =
  are_slot_id :: string
  are_name :: string
  are_role :: string
  are_conversation_id :: string
  are_backend :: string
  are_icon :: "string option"
  are_model :: string
  are_custom_agent_id :: "string option"
  are_status :: "string option"
  are_pending_confirmations :: nat

definition agent_to_response_with_icon :: "string option \<Rightarrow> team_agent \<Rightarrow> team_agent_response" where
  "agent_to_response_with_icon icon a =
     \<lparr>are_slot_id = ag_slot_id a, are_name = ag_name a, are_role = role_to_string (ag_role a),
      are_conversation_id = ag_conversation_id a, are_backend = ag_backend a, are_icon = icon,
      are_model = ag_model a, are_custom_agent_id = ag_custom_agent_id a,
      are_status = map_option teammate_status_to_string (ag_status a), are_pending_confirmations = 0\<rparr>"

definition agent_to_response :: "team_agent \<Rightarrow> team_agent_response" where
  "agent_to_response a = agent_to_response_with_icon None a"

record team =
  te_id :: string
  te_name :: string
  te_agents :: "team_agent list"
  te_lead_agent_id :: "string option"
  te_created_at :: int
  te_updated_at :: int

record team_row =
  tw_id :: string
  tw_user_id :: string
  tw_name :: string
  tw_workspace :: string
  tw_workspace_mode :: string
  tw_agents :: string
  tw_lead_agent_id :: "string option"
  tw_session_mode :: "string option"
  tw_agents_version :: string
  tw_created_at :: int
  tw_updated_at :: int

text \<open>Reading the \<open>agents\<close> column (serde on \<open>TeamAgent\<close>) is a parameter.\<close>

definition team_from_row :: "(string \<Rightarrow> team_agent list option) \<Rightarrow> team_row \<Rightarrow> team option" where
  "team_from_row de_agents row = map_option (\<lambda>agents.
     \<lparr>te_id = tw_id row, te_name = tw_name row, te_agents = agents, te_lead_agent_id = tw_lead_agent_id row,
      te_created_at = tw_created_at row, te_updated_at = tw_updated_at row\<rparr>) (de_agents (tw_agents row))"

record team_response =
  tre_id :: string
  tre_name :: string
  tre_agents :: "team_agent_response list"
  tre_lead_agent_id :: "string option"
  tre_created_at :: int
  tre_updated_at :: int

definition team_to_response :: "team \<Rightarrow> team_response" where
  "team_to_response t =
     \<lparr>tre_id = te_id t, tre_name = te_name t, tre_agents = map agent_to_response (te_agents t),
      tre_lead_agent_id = te_lead_agent_id t, tre_created_at = te_created_at t,
      tre_updated_at = te_updated_at t\<rparr>"

section \<open>Mailbox messages and board tasks\<close>

record mailbox_message_row =
  mr_id :: string
  mr_team_id :: string
  mr_to_agent_id :: string
  mr_from_agent_id :: string
  mr_msg_type :: string
  mr_content :: string
  mr_summary :: "string option"
  mr_files :: "string option"
  mr_read :: bool
  mr_created_at :: int

record mailbox_message =
  mm_id :: string
  mm_team_id :: string
  mm_to_agent_id :: string
  mm_from_agent_id :: string
  mm_msg_type :: mailbox_message_type
  mm_content :: string
  mm_summary :: "string option"
  mm_files :: "string list option"
  mm_read :: bool
  mm_created_at :: int

text \<open>A row with an unknown type is dropped; unreadable or empty \<open>files\<close> become \<open>None\<close>.\<close>

definition message_from_row :: "json \<Rightarrow> mailbox_message_row \<Rightarrow> mailbox_message option" where
  "message_from_row J row =
     (case msg_type_parse (mr_msg_type row) of
        None \<Rightarrow> None
      | Some ty \<Rightarrow> Some
          \<lparr>mm_id = mr_id row, mm_team_id = mr_team_id row, mm_to_agent_id = mr_to_agent_id row,
           mm_from_agent_id = mr_from_agent_id row, mm_msg_type = ty, mm_content = mr_content row,
           mm_summary = mr_summary row,
           mm_files = (case Option.bind (mr_files row) (de_list J) of
                         None \<Rightarrow> None | Some v \<Rightarrow> if v = [] then None else Some v),
           mm_read = mr_read row, mm_created_at = mr_created_at row\<rparr>)"

record team_task_row =
  br_id :: string
  br_team_id :: string
  br_subject :: string
  br_description :: "string option"
  br_status :: string
  br_owner :: "string option"
  br_blocked_by :: string
  br_blocks :: string
  br_metadata :: "string option"
  br_created_at :: int
  br_updated_at :: int

record team_task =
  bt_id :: string
  bt_team_id :: string
  bt_subject :: string
  bt_description :: "string option"
  bt_status :: board_status
  bt_owner :: "string option"
  bt_blocked_by :: "string list"
  bt_blocks :: "string list"
  bt_metadata :: "string option"
  bt_created_at :: int
  bt_updated_at :: int

text \<open>An unknown status reads as \<open>Pending\<close>; unreadable lists or metadata are an error.\<close>

definition task_from_row :: "json \<Rightarrow> team_task_row \<Rightarrow> team_task option" where
  "task_from_row J row =
     (case de_list J (br_blocked_by row) of None \<Rightarrow> None
      | Some blocked_by \<Rightarrow>
        (case de_list J (br_blocks row) of None \<Rightarrow> None
         | Some blocks \<Rightarrow>
           (case (case br_metadata row of None \<Rightarrow> Some None | Some s \<Rightarrow> map_option Some (de_value J s)) of
              None \<Rightarrow> None
            | Some metadata \<Rightarrow> Some
                \<lparr>bt_id = br_id row, bt_team_id = br_team_id row, bt_subject = br_subject row,
                 bt_description = br_description row,
                 bt_status = (case board_status_parse (br_status row) of None \<Rightarrow> Pending | Some st \<Rightarrow> st),
                 bt_owner = br_owner row, bt_blocked_by = blocked_by, bt_blocks = blocks,
                 bt_metadata = metadata, bt_created_at = br_created_at row,
                 bt_updated_at = br_updated_at row\<rparr>)))"

section \<open>Team runs\<close>

datatype team_run_status = Accepted | Running | Cancelling | RunCompleted | Cancelled | Failed

text \<open>\<open>TeamRunTargetRole\<close> has the same two values as \<open>TeammateRole\<close>; it is a type of its own.\<close>

datatype team_run_target_role = TargetLead | TargetTeammate

fun target_role_for :: "teammate_role \<Rightarrow> team_run_target_role" where
  "target_role_for Lead = TargetLead"
| "target_role_for Teammate = TargetTeammate"

record team_run_ack =
  ack_team_run_id :: string
  ack_team_id :: string
  ack_target_slot_id :: string
  ack_target_role :: team_run_target_role
  ack_status :: team_run_status
  ack_message_id :: "string option"

record team_run_payload =
  rp_team_id :: string
  rp_team_run_id :: string
  rp_target_slot_id :: string
  rp_target_role :: team_run_target_role
  rp_status :: team_run_status
  rp_active_child_count :: nat
  rp_pending_wake_count :: nat
  rp_starting_child_count :: nat

record team_child_turn_payload =
  cp_team_id :: string
  cp_team_run_id :: string
  cp_slot_id :: string
  cp_role :: team_run_target_role
  cp_conversation_id :: string
  cp_turn_id :: string
  cp_status :: team_run_status

datatype team_wake_source =
    UserMessage | UserIntervention | McpSendMessage | McpShutdownRequest | SpawnWelcome
  | SpawnAttachFailure | IdleNotification | InterruptedNotification | CrashNotification
  | InactivityTimeout | ShutdownRejected

fun wake_source_as_str :: "team_wake_source \<Rightarrow> string" where
  "wake_source_as_str UserMessage = ''user_message''"
| "wake_source_as_str UserIntervention = ''user_intervention''"
| "wake_source_as_str McpSendMessage = ''mcp_send_message''"
| "wake_source_as_str McpShutdownRequest = ''mcp_shutdown_request''"
| "wake_source_as_str SpawnWelcome = ''spawn_welcome''"
| "wake_source_as_str SpawnAttachFailure = ''spawn_attach_failure''"
| "wake_source_as_str IdleNotification = ''idle_notification''"
| "wake_source_as_str InterruptedNotification = ''interrupted_notification''"
| "wake_source_as_str CrashNotification = ''crash_notification''"
| "wake_source_as_str InactivityTimeout = ''inactivity_timeout''"
| "wake_source_as_str ShutdownRejected = ''shutdown_rejected''"

datatype team_error =
    TeamNotFound string | AgentNotFound string | BoardTaskNotFound string | InvalidRequest string
  | LeaderOnly string | TeamForbidden string | SessionNotFound string | BlockedTaskNotFound string
  | BackendNotAllowed string | DuplicateAgentName string | TeamWorkspacePathUnavailable string
  | TeamWorkspacePathRuntimeUnavailable string | TeamDatabase | TeamJson

section \<open>Events\<close>

datatype run_event_name = RunAcceptedEvent | RunStartedEvent | RunUpdatedEvent | RunCompletedEvent
  | RunCancelledEvent | RunFailedEvent

datatype child_event_name = ChildTurnStartedEvent | ChildTurnCompletedEvent | ChildTurnCancelledEvent

fun run_event_str :: "run_event_name \<Rightarrow> string" where
  "run_event_str RunAcceptedEvent = ''team.runAccepted''"
| "run_event_str RunStartedEvent = ''team.runStarted''"
| "run_event_str RunUpdatedEvent = ''team.runUpdated''"
| "run_event_str RunCompletedEvent = ''team.runCompleted''"
| "run_event_str RunCancelledEvent = ''team.runCancelled''"
| "run_event_str RunFailedEvent = ''team.runFailed''"

fun child_event_str :: "child_event_name \<Rightarrow> string" where
  "child_event_str ChildTurnStartedEvent = ''team.childTurnStarted''"
| "child_event_str ChildTurnCompletedEvent = ''team.childTurnCompleted''"
| "child_event_str ChildTurnCancelledEvent = ''team.childTurnCancelled''"

datatype team_event =
    RunEvent run_event_name team_run_payload
  | ChildEvent child_event_name team_child_turn_payload
  | AgentStatusEvent string teammate_status

end
