(* ===== verification/TeamRun.thy ===== *)
theory TeamRun
  imports TeamTypes
begin

text \<open>
  \<open>TeamRunManager\<close> (\<open>aionui-team/src/team_run.rs\<close>): the state machine of a team run. A run collects
  pending wakes per agent slot, turns a wake into a starting reservation, a reservation into an
  active child turn, and ends \<open>Completed\<close>, \<open>Cancelled\<close> or \<open>Failed\<close>. Every method takes the manager's
  lock for its whole body, so an operation is one step; what it broadcasts is appended to \<open>rm_log\<close>.
\<close>

section \<open>State\<close>

record active_child_turn =
  ac_team_run_id :: string
  ac_slot_id :: string
  ac_role :: team_run_target_role
  ac_conversation_id :: string
  ac_turn_id :: string

datatype starting_reservation_state = Starting | ReservationCancelling

record starting_child_reservation =
  sr_reservation_id :: string
  sr_team_run_id :: string
  sr_slot_id :: string
  sr_role :: team_run_target_role
  sr_conversation_id :: string
  sr_state :: starting_reservation_state

record pending_wake =
  pw_slot_id :: string
  pw_role :: team_run_target_role
  pw_source :: team_wake_source

datatype child_start_decision = StartAccepted | CancelImmediately active_child_turn | Ignored

datatype child_cancel_target = CancelActive active_child_turn | CancelStarting starting_child_reservation

record team_run_record =
  ru_team_run_id :: string
  ru_team_id :: string
  ru_target_slot_id :: string
  ru_target_role :: team_run_target_role
  ru_status :: team_run_status
  ru_started_at :: "int option"
  ru_completed_at :: "int option"
  ru_cancelled_at :: "int option"
  ru_cancel_reason :: "string option"
  ru_active_child_turns :: "(string, active_child_turn) hmap"
  ru_starting_reservations :: "(string, starting_child_reservation) hmap"
  ru_pending_wakes :: "(string, pending_wake list) hmap"

record team_run_manager =
  rm_team_id :: string
  rm_state :: "team_run_record option"
  rm_log :: "team_event list"
  rm_tick :: nat

definition pending_wake_count :: "team_run_record \<Rightarrow> nat" where
  "pending_wake_count run = sum_list (map length (hm_values (ru_pending_wakes run)))"

definition payload :: "team_run_record \<Rightarrow> team_run_payload" where
  "payload run =
     \<lparr>rp_team_id = ru_team_id run, rp_team_run_id = ru_team_run_id run,
      rp_target_slot_id = ru_target_slot_id run, rp_target_role = ru_target_role run,
      rp_status = ru_status run, rp_active_child_count = length (ru_active_child_turns run),
      rp_pending_wake_count = pending_wake_count run,
      rp_starting_child_count = length (ru_starting_reservations run)\<rparr>"

definition ack :: "team_run_record \<Rightarrow> string option \<Rightarrow> team_run_ack" where
  "ack run message_id =
     \<lparr>ack_team_run_id = ru_team_run_id run, ack_team_id = ru_team_id run,
      ack_target_slot_id = ru_target_slot_id run, ack_target_role = ru_target_role run,
      ack_status = ru_status run, ack_message_id = message_id\<rparr>"

definition run_is_active :: "team_run_record \<Rightarrow> bool" where
  "run_is_active run \<longleftrightarrow> ru_status run = Accepted \<or> ru_status run = Running"

definition child_payload :: "string \<Rightarrow> active_child_turn \<Rightarrow> team_run_status \<Rightarrow> team_child_turn_payload" where
  "child_payload team_id child status =
     \<lparr>cp_team_id = team_id, cp_team_run_id = ac_team_run_id child, cp_slot_id = ac_slot_id child,
      cp_role = ac_role child, cp_conversation_id = ac_conversation_id child,
      cp_turn_id = ac_turn_id child, cp_status = status\<rparr>"

text \<open>\<open>put run evs m\<close>: the guard's new content and the events broadcast; one tick for its draws.\<close>

definition put :: "team_run_record option \<Rightarrow> team_event list \<Rightarrow> team_run_manager \<Rightarrow> team_run_manager" where
  "put run evs m = m\<lparr>rm_state := run, rm_log := rm_log m @ evs, rm_tick := Suc (rm_tick m)\<rparr>"

definition team_run_manager_new :: "string \<Rightarrow> team_run_manager" where
  "team_run_manager_new team_id = \<lparr>rm_team_id = team_id, rm_state = None, rm_log = [], rm_tick = 0\<rparr>"

section \<open>Operations\<close>

definition new_run :: "env \<Rightarrow> string \<Rightarrow> team_run_target_role \<Rightarrow> team_run_manager \<Rightarrow> team_run_record" where
  "new_run E target_slot_id target_role m =
     \<lparr>ru_team_run_id = mint_id E (rm_tick m), ru_team_id = rm_team_id m,
      ru_target_slot_id = target_slot_id, ru_target_role = target_role, ru_status = Accepted,
      ru_started_at = None, ru_completed_at = None, ru_cancelled_at = None, ru_cancel_reason = None,
      ru_active_child_turns = [], ru_starting_reservations = [], ru_pending_wakes = []\<rparr>"

definition accept_user_message :: "env \<Rightarrow> string \<Rightarrow> team_run_target_role \<Rightarrow> bool \<Rightarrow> string option
    \<Rightarrow> team_run_manager \<Rightarrow> (team_run_manager, team_error, team_run_ack) outcome" where
  "accept_user_message E target_slot_id target_role allow_active_intervention message_id m =
     (let start = (let record = new_run E target_slot_id target_role m
                   in (put (Some record) [RunEvent RunAcceptedEvent (payload record)] m, Inr (ack record message_id)))
      in case rm_state m of
           None \<Rightarrow> start
         | Some run \<Rightarrow>
             if run_is_active run
             then if allow_active_intervention then (m, Inr (ack run message_id))
                  else (m, Inl (InvalidRequest ''team run is already active''))
             else if ru_status run = Cancelling
             then (m, Inl (InvalidRequest (''team run '' @ ru_team_run_id run @ '' is cancelling'')))
             else start)"

definition active_run_id :: "team_run_manager \<Rightarrow> string option" where
  "active_run_id m = (case rm_state m of None \<Rightarrow> None
     | Some run \<Rightarrow> if run_is_active run then Some (ru_team_run_id run) else None)"

definition current_run_id :: "team_run_manager \<Rightarrow> string option" where
  "current_run_id m = map_option ru_team_run_id (rm_state m)"

definition active_child_turns :: "team_run_manager \<Rightarrow> active_child_turn list" where
  "active_child_turns m = (case rm_state m of None \<Rightarrow> [] | Some run \<Rightarrow> hm_values (ru_active_child_turns run))"

definition record_pending_wake :: "string \<Rightarrow> team_run_target_role \<Rightarrow> team_wake_source
    \<Rightarrow> team_run_manager \<Rightarrow> (team_run_manager, team_error, unit) outcome" where
  "record_pending_wake slot_id target_role wake_source m =
     (case rm_state m of
        None \<Rightarrow> (m, Inl (InvalidRequest ''no active team run for run-scoped wake''))
      | Some run \<Rightarrow>
          if \<not> run_is_active run then (m, Inl (InvalidRequest ''no active team run for run-scoped wake''))
          else
            let pending = \<lparr>pw_slot_id = slot_id, pw_role = target_role, pw_source = wake_source\<rparr>;
                queue = (case hm_get (ru_pending_wakes run) slot_id of None \<Rightarrow> [] | Some q \<Rightarrow> q);
                run' = run\<lparr>ru_pending_wakes := hm_insert slot_id (queue @ [pending]) (ru_pending_wakes run)\<rparr>
            in (put (Some run') [RunEvent RunUpdatedEvent (payload run')] m, Inr ()))"

text \<open>\<open>get_mut(slot).and_then(pop_front)\<close>, removing a queue that becomes empty.\<close>

definition pop_wake :: "string \<Rightarrow> team_run_record \<Rightarrow> (pending_wake \<times> team_run_record) option" where
  "pop_wake slot_id run =
     (case hm_get (ru_pending_wakes run) slot_id of
        None \<Rightarrow> None
      | Some [] \<Rightarrow> None
      | Some (w # ws) \<Rightarrow>
          Some (w, run\<lparr>ru_pending_wakes :=
            (if ws = [] then hm_remove slot_id (ru_pending_wakes run)
             else hm_insert slot_id ws (ru_pending_wakes run))\<rparr>))"

definition claim_wake_for_turn :: "env \<Rightarrow> string \<Rightarrow> team_run_target_role \<Rightarrow> string
    \<Rightarrow> team_run_manager \<Rightarrow> team_run_manager \<times> starting_child_reservation option" where
  "claim_wake_for_turn E slot_id role conversation_id m =
     (case rm_state m of
        None \<Rightarrow> (m, None)
      | Some run \<Rightarrow>
          if \<not> run_is_active run then (m, None)
          else (case pop_wake slot_id run of
                  None \<Rightarrow> (m, None)
                | Some (pending, run1) \<Rightarrow>
                    let reservation =
                          \<lparr>sr_reservation_id = mint_id E (rm_tick m), sr_team_run_id = ru_team_run_id run1,
                           sr_slot_id = pw_slot_id pending, sr_role = role,
                           sr_conversation_id = conversation_id, sr_state = Starting\<rparr>;
                        run2 = run1\<lparr>ru_starting_reservations :=
                          hm_insert (sr_reservation_id reservation) reservation (ru_starting_reservations run1)\<rparr>
                    in (put (Some run2) [RunEvent RunUpdatedEvent (payload run2)] m, Some reservation)))"

definition has_work :: "team_run_record \<Rightarrow> bool" where
  "has_work run \<longleftrightarrow>
     pending_wake_count run > 0 \<or> ru_starting_reservations run \<noteq> [] \<or> ru_active_child_turns run \<noteq> []"

text \<open>
  \<open>maybe_complete_locked\<close> and \<open>maybe_cancelled_locked\<close>: the run after the call, the events
  broadcast and the payload returned.
\<close>

definition maybe_complete_locked :: "int \<Rightarrow> team_run_record
    \<Rightarrow> team_run_record \<times> team_event list \<times> team_run_payload option" where
  "maybe_complete_locked now run =
     (if has_work run then (run, [RunEvent RunUpdatedEvent (payload run)], None)
      else if ru_status run \<notin> {Running, Accepted} then (run, [], None)
      else let run' = run\<lparr>ru_status := RunCompleted, ru_completed_at := Some now\<rparr>
           in (run', [RunEvent RunCompletedEvent (payload run')], Some (payload run')))"

definition maybe_cancelled_locked :: "int \<Rightarrow> team_run_record
    \<Rightarrow> team_run_record \<times> team_event list \<times> team_run_payload option" where
  "maybe_cancelled_locked now run =
     (if ru_status run \<noteq> Cancelling then (run, [], None)
      else if has_work run then (run, [RunEvent RunUpdatedEvent (payload run)], None)
      else let run' = run\<lparr>ru_status := Cancelled, ru_cancelled_at := Some now\<rparr>
           in (run', [RunEvent RunCancelledEvent (payload run')], Some (payload run')))"

text \<open>Store the run back, or clear the guard when a payload was returned.\<close>

definition settle_run :: "team_event list \<Rightarrow> team_run_record \<times> team_event list \<times> team_run_payload option
    \<Rightarrow> team_event list \<Rightarrow> team_run_manager \<Rightarrow> team_run_manager \<times> team_run_payload option" where
  "settle_run before r after m =
     (case r of (run, evs, p) \<Rightarrow>
        (put (if p = None then Some run else None) (before @ evs @ after) m, p))"

definition record_empty_wake_observed :: "env \<Rightarrow> string \<Rightarrow> team_run_manager
    \<Rightarrow> team_run_manager \<times> team_run_payload option" where
  "record_empty_wake_observed E slot_id m =
     (case rm_state m of
        None \<Rightarrow> (m, None)
      | Some run \<Rightarrow>
          let run1 = (case pop_wake slot_id run of None \<Rightarrow> run | Some (_, r) \<Rightarrow> r)
          in settle_run [] (maybe_complete_locked (clock E (rm_tick m)) run1) [] m)"

definition record_child_started :: "env \<Rightarrow> string \<Rightarrow> active_child_turn \<Rightarrow> team_run_manager
    \<Rightarrow> team_run_manager \<times> child_start_decision" where
  "record_child_started E reservation_id child m =
     (case rm_state m of
        None \<Rightarrow> (m, Ignored)
      | Some run \<Rightarrow>
        (case hm_get (ru_starting_reservations run) reservation_id of
           None \<Rightarrow> (m, Ignored)
         | Some reservation \<Rightarrow>
             let run1 = run\<lparr>ru_starting_reservations := hm_remove reservation_id (ru_starting_reservations run)\<rparr>
             in if ru_team_run_id run1 \<noteq> ac_team_run_id child then (put (Some run1) [] m, Ignored)
                else
                  let should_cancel = (ru_status run1 = Cancelling \<or> sr_state reservation = ReservationCancelling);
                      first_child_for_run = (ru_started_at run1 = None);
                      run2 = (if first_child_for_run then run1\<lparr>ru_started_at := Some (clock E (rm_tick m))\<rparr> else run1);
                      run3 = (if \<not> should_cancel then run2\<lparr>ru_status := Running\<rparr> else run2);
                      run4 = run3\<lparr>ru_active_child_turns := hm_insert (ac_slot_id child) child (ru_active_child_turns run3)\<rparr>
                  in (put (Some run4)
                        [RunEvent (if first_child_for_run \<and> \<not> should_cancel then RunStartedEvent else RunUpdatedEvent) (payload run4),
                         ChildEvent ChildTurnStartedEvent (child_payload (ru_team_id run4) child Running)] m,
                      if should_cancel then CancelImmediately child else StartAccepted)))"

definition record_child_start_failed :: "env \<Rightarrow> string \<Rightarrow> team_run_manager
    \<Rightarrow> team_run_manager \<times> team_run_payload option" where
  "record_child_start_failed E reservation_id m =
     (case rm_state m of
        None \<Rightarrow> (m, None)
      | Some run \<Rightarrow>
        (case hm_get (ru_starting_reservations run) reservation_id of
           None \<Rightarrow> (m, None)
         | Some reservation \<Rightarrow>
             let run1 = run\<lparr>ru_starting_reservations := hm_remove reservation_id (ru_starting_reservations run)\<rparr>
             in if ru_status run1 = Cancelling \<or> sr_state reservation = ReservationCancelling
                then settle_run [] (maybe_cancelled_locked (clock E (rm_tick m)) run1) [] m
                else let run2 = run1\<lparr>ru_status := Failed, ru_completed_at := Some (clock E (rm_tick m))\<rparr>
                     in (put None [RunEvent RunFailedEvent (payload run2)] m, Some (payload run2))))"

definition record_child_completed :: "env \<Rightarrow> string \<Rightarrow> string \<Rightarrow> team_run_status \<Rightarrow> team_run_manager
    \<Rightarrow> team_run_manager \<times> team_run_payload option" where
  "record_child_completed E slot_id turn_id status m =
     (case rm_state m of
        None \<Rightarrow> (m, None)
      | Some run \<Rightarrow>
        (case hm_get (ru_active_child_turns run) slot_id of
           None \<Rightarrow> (m, None)
         | Some child \<Rightarrow>
             if ac_turn_id child \<noteq> turn_id then (m, None)
             else
               let run1 = run\<lparr>ru_active_child_turns := hm_remove slot_id (ru_active_child_turns run)\<rparr>;
                   ev = ChildEvent ChildTurnCompletedEvent (child_payload (ru_team_id run1) child status)
               in if status = Failed
                  then let run2 = run1\<lparr>ru_status := Failed, ru_completed_at := Some (clock E (rm_tick m))\<rparr>
                       in (put None [ev, RunEvent RunFailedEvent (payload run2)] m, Some (payload run2))
                  else settle_run [ev] (maybe_complete_locked (clock E (rm_tick m)) run1) [] m))"

definition maybe_complete :: "env \<Rightarrow> team_run_manager \<Rightarrow> team_run_manager \<times> team_run_payload option" where
  "maybe_complete E m =
     (case rm_state m of
        None \<Rightarrow> (m, None)
      | Some run \<Rightarrow> settle_run [] (maybe_complete_locked (clock E (rm_tick m)) run) [] m)"

definition begin_cancel :: "string option \<Rightarrow> string option \<Rightarrow> team_run_manager
    \<Rightarrow> (team_run_manager, team_error, unit) outcome" where
  "begin_cancel target_slot_id reason m =
     (case rm_state m of
        None \<Rightarrow> (m, Inl (InvalidRequest ''no active team run to cancel''))
      | Some run \<Rightarrow>
          if \<not> run_is_active run then (m, Inl (InvalidRequest ''no active team run to cancel''))
          else if (case target_slot_id of None \<Rightarrow> False | Some target \<Rightarrow>
                     target \<noteq> ru_target_slot_id run \<and> \<not> hm_contains (ru_active_child_turns run) target \<and>
                     \<not> list_ex (\<lambda>r. sr_slot_id r = target) (hm_values (ru_starting_reservations run)))
          then (m, Inl (AgentNotFound (the target_slot_id)))
          else
            let run' = run\<lparr>ru_status := Cancelling, ru_cancel_reason := reason, ru_pending_wakes := [],
                  ru_starting_reservations :=
                    map (\<lambda>(k, r). (k, r\<lparr>sr_state := ReservationCancelling\<rparr>)) (ru_starting_reservations run)\<rparr>
            in (put (Some run') [RunEvent RunUpdatedEvent (payload run')] m, Inr ()))"

definition try_complete_cancelled :: "env \<Rightarrow> team_run_manager \<Rightarrow> team_run_manager \<times> team_run_payload option" where
  "try_complete_cancelled E m =
     (case rm_state m of
        None \<Rightarrow> (m, None)
      | Some run \<Rightarrow> settle_run [] (maybe_cancelled_locked (clock E (rm_tick m)) run) [] m)"

definition complete_failed :: "env \<Rightarrow> team_run_manager \<Rightarrow> team_run_manager \<times> string option" where
  "complete_failed E m =
     (case rm_state m of
        None \<Rightarrow> (m, None)
      | Some run \<Rightarrow>
          let run' = run\<lparr>ru_status := Failed, ru_completed_at := Some (clock E (rm_tick m))\<rparr>
          in (put None [RunEvent RunFailedEvent (payload run')] m, Some (ru_team_run_id run)))"

definition begin_cancel_child :: "string \<Rightarrow> team_run_manager
    \<Rightarrow> (team_run_manager, team_error, child_cancel_target) outcome" where
  "begin_cancel_child slot_id m =
     (case rm_state m of
        None \<Rightarrow> (m, Inl (InvalidRequest ''no active team run''))
      | Some run \<Rightarrow>
          if \<not> run_is_active run then (m, Inl (InvalidRequest ''no active team run''))
          else (case hm_get (ru_active_child_turns run) slot_id of
                  Some child \<Rightarrow> (m, Inr (CancelActive child))
                | None \<Rightarrow>
                  (case find (\<lambda>kr. sr_slot_id (snd kr) = slot_id) (ru_starting_reservations run) of
                     Some (k, r) \<Rightarrow>
                       let r' = r\<lparr>sr_state := ReservationCancelling\<rparr>
                       in (put (Some (run\<lparr>ru_starting_reservations := hm_insert k r' (ru_starting_reservations run)\<rparr>)) [] m,
                           Inr (CancelStarting r'))
                   | None \<Rightarrow> (m, Inl (InvalidRequest (''agent '' @ slot_id @ '' has no active or starting child turn''))))))"

definition record_child_cancelled :: "env \<Rightarrow> active_child_turn \<Rightarrow> team_run_manager \<Rightarrow> team_run_manager" where
  "record_child_cancelled E child m =
     (case rm_state m of
        None \<Rightarrow> m
      | Some run \<Rightarrow>
          let run1 = run\<lparr>ru_active_child_turns := hm_remove (ac_slot_id child) (ru_active_child_turns run)\<rparr>;
              ev = ChildEvent ChildTurnCancelledEvent (child_payload (ru_team_id run1) child Cancelled)
          in if ru_status run1 = Cancelling
             then fst (settle_run [] (maybe_cancelled_locked (clock E (rm_tick m)) run1) [ev] m)
             else put (Some run1) [ev] m)"

section \<open>Steps\<close>

datatype run_op =
    OpAccept string team_run_target_role bool "string option"
  | OpPendingWake string team_run_target_role team_wake_source
  | OpClaim string team_run_target_role string
  | OpEmptyWake string
  | OpChildStarted string active_child_turn
  | OpStartFailed string
  | OpChildCompleted string string team_run_status
  | OpMaybeComplete
  | OpBeginCancel "string option" "string option"
  | OpTryCompleteCancelled
  | OpCompleteFailed
  | OpCancelChild string
  | OpChildCancelled active_child_turn

fun run_step :: "env \<Rightarrow> run_op \<Rightarrow> team_run_manager \<Rightarrow> team_run_manager" where
  "run_step E (OpAccept slot role allow mid) m = fst (accept_user_message E slot role allow mid m)"
| "run_step E (OpPendingWake slot role src) m = fst (record_pending_wake slot role src m)"
| "run_step E (OpClaim slot role conv) m = fst (claim_wake_for_turn E slot role conv m)"
| "run_step E (OpEmptyWake slot) m = fst (record_empty_wake_observed E slot m)"
| "run_step E (OpChildStarted rid child) m = fst (record_child_started E rid child m)"
| "run_step E (OpStartFailed rid) m = fst (record_child_start_failed E rid m)"
| "run_step E (OpChildCompleted slot turn status) m = fst (record_child_completed E slot turn status m)"
| "run_step E OpMaybeComplete m = fst (maybe_complete E m)"
| "run_step E (OpBeginCancel target reason) m = fst (begin_cancel target reason m)"
| "run_step E OpTryCompleteCancelled m = fst (try_complete_cancelled E m)"
| "run_step E OpCompleteFailed m = fst (complete_failed E m)"
| "run_step E (OpCancelChild slot) m = fst (begin_cancel_child slot m)"
| "run_step E (OpChildCancelled child) m = record_child_cancelled E child m"

end
