(* ===== verification/TeamRunFacts.thy ===== *)
theory TeamRunFacts
  imports TeamRun
begin

text \<open>
  Every operation of the run manager has one of four effects (\<open>run_effect\<close>): nothing, the same run
  kept alive, the run ended by one terminal event, or a new run accepted. From these follow the
  invariant of the manager and the order of the events it broadcasts.
\<close>

section \<open>Well-formed runs\<close>

definition run_wf :: "team_run_record \<Rightarrow> bool" where
  "run_wf run \<longleftrightarrow>
     ru_status run \<in> {Accepted, Running, Cancelling} \<and>
     hm_ok (ru_active_child_turns run) \<and> hm_ok (ru_starting_reservations run) \<and> hm_ok (ru_pending_wakes run) \<and>
     (\<forall>k q. hm_get (ru_pending_wakes run) k = Some q \<longrightarrow> q \<noteq> [] \<and> (\<forall>w\<in>set q. pw_slot_id w = k)) \<and>
     (\<forall>k c. hm_get (ru_active_child_turns run) k = Some c \<longrightarrow>
        ac_slot_id c = k \<and> ac_team_run_id c = ru_team_run_id run) \<and>
     (\<forall>k r. hm_get (ru_starting_reservations run) k = Some r \<longrightarrow>
        sr_reservation_id r = k \<and> sr_team_run_id r = ru_team_run_id run) \<and>
     (ru_status run = Cancelling \<longrightarrow> ru_pending_wakes run = [] \<and>
        (\<forall>k r. hm_get (ru_starting_reservations run) k = Some r \<longrightarrow> sr_state r = ReservationCancelling))"

fun accepted_ids :: "team_event list \<Rightarrow> string list" where
  "accepted_ids [] = []"
| "accepted_ids (RunEvent n p # evs) = (if n = RunAcceptedEvent then [rp_team_run_id p] else []) @ accepted_ids evs"
| "accepted_ids (_ # evs) = accepted_ids evs"

fun ended_ids :: "team_event list \<Rightarrow> string list" where
  "ended_ids [] = []"
| "ended_ids (RunEvent n p # evs) =
     (if n \<in> {RunCompletedEvent, RunCancelledEvent, RunFailedEvent} then [rp_team_run_id p] else []) @ ended_ids evs"
| "ended_ids (_ # evs) = ended_ids evs"

text \<open>The payload of an event agrees with its name; a completed or cancelled run has no work left.\<close>

fun event_ok :: "team_event \<Rightarrow> bool" where
  "event_ok (RunEvent n p) \<longleftrightarrow>
     (n = RunAcceptedEvent \<longrightarrow> rp_status p = Accepted) \<and>
     (n = RunStartedEvent \<longrightarrow> rp_status p = Running \<and> rp_active_child_count p > 0) \<and>
     (n = RunUpdatedEvent \<longrightarrow> rp_status p \<in> {Accepted, Running, Cancelling}) \<and>
     (n = RunCompletedEvent \<longrightarrow> rp_status p = RunCompleted) \<and>
     (n = RunCancelledEvent \<longrightarrow> rp_status p = Cancelled) \<and>
     (n = RunFailedEvent \<longrightarrow> rp_status p = Failed) \<and>
     (n \<in> {RunCompletedEvent, RunCancelledEvent} \<longrightarrow>
        rp_active_child_count p = 0 \<and> rp_pending_wake_count p = 0 \<and> rp_starting_child_count p = 0)"
| "event_ok _ \<longleftrightarrow> True"

lemma accepted_ids_append [simp]: "accepted_ids (xs @ ys) = accepted_ids xs @ accepted_ids ys"
  by (induction xs rule: accepted_ids.induct) auto

lemma ended_ids_append [simp]: "ended_ids (xs @ ys) = ended_ids xs @ ended_ids ys"
  by (induction xs rule: ended_ids.induct) auto

lemma payload_simps [simp]:
  "rp_team_run_id (payload run) = ru_team_run_id run"
  "rp_status (payload run) = ru_status run"
  "rp_active_child_count (payload run) = length (ru_active_child_turns run)"
  "rp_pending_wake_count (payload run) = pending_wake_count run"
  "rp_starting_child_count (payload run) = length (ru_starting_reservations run)"
  by (simp_all add: payload_def)

section \<open>The four effects\<close>

inductive run_effect :: "env \<Rightarrow> team_run_manager \<Rightarrow> team_run_manager \<Rightarrow> bool" for E m where
  same: "run_effect E m m"
| keep: "\<lbrakk>rm_state m = Some run; run_wf run'; ru_team_run_id run' = ru_team_run_id run;
          ru_status run = Cancelling \<longrightarrow> ru_status run' = Cancelling;
          accepted_ids evs = []; ended_ids evs = []; list_all event_ok evs\<rbrakk>
         \<Longrightarrow> run_effect E m (put (Some run') evs m)"
| finish: "\<lbrakk>rm_state m = Some run; accepted_ids evs = []; ended_ids evs = [ru_team_run_id run]; list_all event_ok evs;
            ru_status run = Cancelling \<longrightarrow> (\<forall>p. RunEvent RunCompletedEvent p \<notin> set evs)\<rbrakk>
           \<Longrightarrow> run_effect E m (put None evs m)"
| start: "\<lbrakk>rm_state m = None; run = new_run E slot role m\<rbrakk>
          \<Longrightarrow> run_effect E m (put (Some run) [RunEvent RunAcceptedEvent (payload run)] m)"

inductive_cases run_effectE: "run_effect E m m'"

lemma new_run_simps [simp]:
  "ru_team_run_id (new_run E slot role m) = mint_id E (rm_tick m)"
  "ru_status (new_run E slot role m) = Accepted"
  by (simp_all add: new_run_def)

lemma run_wf_new [simp]: "run_wf (new_run E slot role m)"
  by (simp add: run_wf_def new_run_def)

lemma run_wfD:
  assumes "run_wf run"
  shows "ru_status run \<in> {Accepted, Running, Cancelling}"
    "run_is_active run \<or> ru_status run = Cancelling"
  using assms by (auto simp: run_wf_def run_is_active_def)

lemma maybe_complete_effect:
  assumes "rm_state m = Some run0" "run_wf run" "ru_team_run_id run = ru_team_run_id run0" "ru_status run = ru_status run0"
    and "accepted_ids evs = []" "ended_ids evs = []" "list_all event_ok evs" "\<forall>p. RunEvent RunCompletedEvent p \<notin> set evs"
  shows "run_effect E m (fst (settle_run evs (maybe_complete_locked now run) [] m))"
proof (cases "has_work run \<or> ru_status run \<notin> {Running, Accepted}")
  case True
  then have "fst (settle_run evs (maybe_complete_locked now run) [] m) =
      put (Some run) (evs @ (if has_work run then [RunEvent RunUpdatedEvent (payload run)] else [])) m"
    by (auto simp: settle_run_def maybe_complete_locked_def)
  then show ?thesis
    using assms run_wfD(1) [OF assms(2)] by (simp add: run_effect.keep)
next
  case False
  let ?run' = "run\<lparr>ru_status := RunCompleted, ru_completed_at := Some now\<rparr>"
  have "fst (settle_run evs (maybe_complete_locked now run) [] m) = put None (evs @ [RunEvent RunCompletedEvent (payload ?run')]) m"
    using False by (simp add: settle_run_def maybe_complete_locked_def Let_def)
  moreover have "run_effect E m (put None (evs @ [RunEvent RunCompletedEvent (payload ?run')]) m)"
    by (rule run_effect.finish [OF assms(1)])
       (use False assms in \<open>auto simp: has_work_def pending_wake_count_def\<close>)
  ultimately show ?thesis by simp
qed

lemma maybe_cancelled_effect:
  assumes "rm_state m = Some run0" "run_wf run" "ru_team_run_id run = ru_team_run_id run0" "ru_status run = ru_status run0"
    and "accepted_ids evs = []" "ended_ids evs = []" "list_all event_ok evs" "\<forall>p. RunEvent RunCompletedEvent p \<notin> set evs"
  shows "run_effect E m (fst (settle_run [] (maybe_cancelled_locked now run) evs m))"
proof (cases "has_work run \<or> ru_status run \<noteq> Cancelling")
  case True
  then have "fst (settle_run [] (maybe_cancelled_locked now run) evs m) =
      put (Some run) ((if ru_status run = Cancelling then [RunEvent RunUpdatedEvent (payload run)] else []) @ evs) m"
    by (auto simp: settle_run_def maybe_cancelled_locked_def)
  then show ?thesis
    using assms run_wfD(1) [OF assms(2)] by (simp add: run_effect.keep)
next
  case False
  let ?run' = "run\<lparr>ru_status := Cancelled, ru_cancelled_at := Some now\<rparr>"
  have "fst (settle_run [] (maybe_cancelled_locked now run) evs m) = put None (RunEvent RunCancelledEvent (payload ?run') # evs) m"
    using False by (simp add: settle_run_def maybe_cancelled_locked_def Let_def)
  moreover have "run_effect E m (put None (RunEvent RunCancelledEvent (payload ?run') # evs) m)"
    by (rule run_effect.finish [OF assms(1)])
       (use False assms in \<open>auto simp: has_work_def pending_wake_count_def\<close>)
  ultimately show ?thesis by simp
qed

section \<open>Every operation\<close>

lemma run_wf_pop:
  assumes "run_wf run" "pop_wake slot run = Some (w, run')"
  shows "run_wf run'" "ru_team_run_id run' = ru_team_run_id run" "ru_status run' = ru_status run"
    "ru_starting_reservations run' = ru_starting_reservations run" "pw_slot_id w = slot"
proof -
  obtain ws where q: "hm_get (ru_pending_wakes run) slot = Some (w # ws)"
    "run' = run\<lparr>ru_pending_wakes := (if ws = [] then hm_remove slot (ru_pending_wakes run)
             else hm_insert slot ws (ru_pending_wakes run))\<rparr>"
    using assms(2) by (auto simp: pop_wake_def split: option.splits list.splits)
  have "ru_status run \<noteq> Cancelling" using assms(1) q(1) by (auto simp: run_wf_def)
  moreover have "\<forall>v\<in>set (w # ws). pw_slot_id v = slot" using assms(1) q(1) unfolding run_wf_def by blast
  ultimately show "run_wf run'" "pw_slot_id w = slot"
    using assms(1) unfolding q(2) run_wf_def by (auto simp: hm_get_insert hm_get_remove)
qed (use assms in \<open>auto simp: pop_wake_def split: option.splits list.splits\<close>)

lemma run_wf_remove_reservation:
  "run_wf run \<Longrightarrow> run_wf (run\<lparr>ru_starting_reservations := hm_remove k (ru_starting_reservations run)\<rparr>)"
  by (auto simp: run_wf_def hm_get_remove)

lemma run_wf_remove_child:
  "run_wf run \<Longrightarrow> run_wf (run\<lparr>ru_active_child_turns := hm_remove k (ru_active_child_turns run)\<rparr>)"
  by (auto simp: run_wf_def hm_get_remove)

lemma hm_insert_length: "hm_insert k v m \<noteq> []"
  by (cases m) (auto split: prod.splits)

lemma put_keep:
  assumes "rm_state m = Some run" "run_wf run'" "ru_team_run_id run' = ru_team_run_id run"
    "ru_status run = Cancelling \<longrightarrow> ru_status run' = Cancelling"
  shows "run_effect E m (put (Some run') [RunEvent RunUpdatedEvent (payload run')] m)"
    "run_effect E m (put (Some run') [] m)"
    "run_effect E m (put (Some run') [ChildEvent n c] m)"
  by (rule run_effect.keep [OF assms]; use run_wfD(1) [OF assms(2)] in simp)+

lemma accept_effect:
  assumes "\<And>run. rm_state m = Some run \<Longrightarrow> run_wf run"
  shows "run_effect E m (fst (accept_user_message E slot role allow mid m))"
proof (cases "rm_state m")
  case None
  then show ?thesis by (simp add: accept_user_message_def Let_def run_effect.start)
next
  case (Some run)
  with run_wfD(2) [OF assms [OF Some]] show ?thesis
    by (auto simp: accept_user_message_def Let_def run_effect.same)
qed

lemma pending_wake_effect:
  assumes "\<And>run. rm_state m = Some run \<Longrightarrow> run_wf run"
  shows "run_effect E m (fst (record_pending_wake slot role src m))"
proof (cases "rm_state m")
  case (Some run)
  let ?run' = "run\<lparr>ru_pending_wakes := hm_insert slot ((case hm_get (ru_pending_wakes run) slot of None \<Rightarrow> [] | Some q \<Rightarrow> q)
      @ [\<lparr>pw_slot_id = slot, pw_role = role, pw_source = src\<rparr>]) (ru_pending_wakes run)\<rparr>"
  show ?thesis
  proof (cases "run_is_active run")
    case True
    then have "run_wf ?run'"
      using assms [OF Some] by (auto simp: run_wf_def hm_get_insert run_is_active_def split: option.splits)
    with True Some show ?thesis
      by (auto simp: record_pending_wake_def Let_def run_is_active_def intro!: put_keep(1))
  qed (simp add: record_pending_wake_def Some run_effect.same)
qed (simp add: record_pending_wake_def run_effect.same)

lemma claim_effect:
  assumes "\<And>run. rm_state m = Some run \<Longrightarrow> run_wf run"
  shows "run_effect E m (fst (claim_wake_for_turn E slot role conv m))"
proof (cases "\<exists>run w run1. rm_state m = Some run \<and> run_is_active run \<and> pop_wake slot run = Some (w, run1)")
  case True
  then obtain run w run1 where r: "rm_state m = Some run" "run_is_active run" "pop_wake slot run = Some (w, run1)" by blast
  note pop = run_wf_pop [OF assms [OF r(1)] r(3)]
  let ?res = "\<lparr>sr_reservation_id = mint_id E (rm_tick m), sr_team_run_id = ru_team_run_id run1,
    sr_slot_id = pw_slot_id w, sr_role = role, sr_conversation_id = conv, sr_state = Starting\<rparr>"
  have "run_wf (run1\<lparr>ru_starting_reservations := hm_insert (mint_id E (rm_tick m)) ?res (ru_starting_reservations run1)\<rparr>)"
    using pop(1,3) r(2) by (auto simp: run_wf_def hm_get_insert run_is_active_def)
  with r pop show ?thesis
    by (auto simp: claim_wake_for_turn_def Let_def run_is_active_def intro!: put_keep(1))
next
  case False
  then show ?thesis by (auto simp: claim_wake_for_turn_def run_effect.same split: option.splits)
qed

lemma empty_wake_effect:
  assumes "\<And>run. rm_state m = Some run \<Longrightarrow> run_wf run"
  shows "run_effect E m (fst (record_empty_wake_observed E slot m))"
proof (cases "rm_state m")
  case (Some run)
  let ?run1 = "case pop_wake slot run of None \<Rightarrow> run | Some (_, r) \<Rightarrow> r"
  have "run_wf ?run1 \<and> ru_team_run_id ?run1 = ru_team_run_id run \<and> ru_status ?run1 = ru_status run"
    using run_wf_pop [OF assms [OF Some]] assms [OF Some] by (cases "pop_wake slot run") auto
  then show ?thesis
    by (simp add: record_empty_wake_observed_def Some Let_def) (intro maybe_complete_effect [OF Some]; simp)
qed (simp add: record_empty_wake_observed_def run_effect.same)

lemma child_started_effect:
  assumes "\<And>run. rm_state m = Some run \<Longrightarrow> run_wf run"
  shows "run_effect E m (fst (record_child_started E rid child m))"
proof (cases "\<exists>run res. rm_state m = Some run \<and> hm_get (ru_starting_reservations run) rid = Some res")
  case True
  then obtain run res where r: "rm_state m = Some run" "hm_get (ru_starting_reservations run) rid = Some res" by blast
  let ?run1 = "run\<lparr>ru_starting_reservations := hm_remove rid (ru_starting_reservations run)\<rparr>"
  have wf1: "run_wf ?run1" by (rule run_wf_remove_reservation) (rule assms [OF r(1)])
  show ?thesis
  proof (cases "ru_team_run_id run = ac_team_run_id child")
    case False
    with r wf1 show ?thesis by (simp add: record_child_started_def Let_def put_keep)
  next
    case True
    let ?cancel = "ru_status run = Cancelling \<or> sr_state res = ReservationCancelling"
    let ?run4 = "(if \<not> ?cancel then (if ru_started_at run = None then ?run1\<lparr>ru_started_at := Some (clock E (rm_tick m))\<rparr> else ?run1)
        \<lparr>ru_status := Running\<rparr> else if ru_started_at run = None then ?run1\<lparr>ru_started_at := Some (clock E (rm_tick m))\<rparr> else ?run1)"
    let ?run5 = "?run4\<lparr>ru_active_child_turns := hm_insert (ac_slot_id child) child (ru_active_child_turns ?run4)\<rparr>"
    have wf: "run_wf ?run5" using wf1 True unfolding run_wf_def by (auto simp: hm_get_insert)
    have id: "ru_team_run_id ?run5 = ru_team_run_id run" "ru_status run = Cancelling \<longrightarrow> ru_status ?run5 = Cancelling"
      by simp_all
    have "record_child_started E rid child m = (put (Some ?run5)
        [RunEvent (if ru_started_at run = None \<and> \<not> ?cancel then RunStartedEvent else RunUpdatedEvent) (payload ?run5),
         ChildEvent ChildTurnStartedEvent (child_payload (ru_team_id run) child Running)] m,
       if ?cancel then CancelImmediately child else StartAccepted)"
      using True r by (simp add: record_child_started_def Let_def)
    moreover have "run_effect E m (put (Some ?run5)
        [RunEvent (if ru_started_at run = None \<and> \<not> ?cancel then RunStartedEvent else RunUpdatedEvent) (payload ?run5),
         ChildEvent ChildTurnStartedEvent (child_payload (ru_team_id run) child Running)] m)"
      by (rule run_effect.keep [OF r(1) wf id])
         (use run_wfD(1) [OF assms [OF r(1)]] hm_insert_length in \<open>auto simp: run_wf_def\<close>)
    ultimately show ?thesis by simp
  qed
next
  case False
  then show ?thesis by (auto simp: record_child_started_def run_effect.same split: option.splits)
qed

lemma fail_effect:
  assumes "rm_state m = Some run" "ru_team_run_id run' = ru_team_run_id run" "ru_status run' = Failed"
    and "accepted_ids evs = []" "ended_ids evs = []" "list_all event_ok evs" "\<forall>p. RunEvent RunCompletedEvent p \<notin> set evs"
  shows "run_effect E m (put None (evs @ [RunEvent RunFailedEvent (payload run')]) m)"
  by (rule run_effect.finish [OF assms(1)]) (use assms in auto)

lemma start_failed_effect:
  assumes "\<And>run. rm_state m = Some run \<Longrightarrow> run_wf run"
  shows "run_effect E m (fst (record_child_start_failed E rid m))"
proof (cases "\<exists>run res. rm_state m = Some run \<and> hm_get (ru_starting_reservations run) rid = Some res")
  case True
  then obtain run res where r: "rm_state m = Some run" "hm_get (ru_starting_reservations run) rid = Some res" by blast
  let ?run1 = "run\<lparr>ru_starting_reservations := hm_remove rid (ru_starting_reservations run)\<rparr>"
  have wf1: "run_wf ?run1" by (rule run_wf_remove_reservation) (rule assms [OF r(1)])
  show ?thesis
  proof (cases "ru_status run = Cancelling \<or> sr_state res = ReservationCancelling")
    case True
    with r wf1 show ?thesis
      by (simp add: record_child_start_failed_def Let_def) (intro maybe_cancelled_effect [OF r(1)]; simp)
  next
    case False
    with r show ?thesis
      using fail_effect [OF r(1), of "?run1\<lparr>ru_status := Failed, ru_completed_at := Some (clock E (rm_tick m))\<rparr>" "[]" E]
      by (simp add: record_child_start_failed_def Let_def)
  qed
next
  case False
  then show ?thesis by (auto simp: record_child_start_failed_def run_effect.same split: option.splits)
qed

lemma child_completed_effect:
  assumes "\<And>run. rm_state m = Some run \<Longrightarrow> run_wf run"
  shows "run_effect E m (fst (record_child_completed E slot turn status m))"
proof (cases "\<exists>run c. rm_state m = Some run \<and> hm_get (ru_active_child_turns run) slot = Some c \<and> ac_turn_id c = turn")
  case True
  then obtain run c where r: "rm_state m = Some run" "hm_get (ru_active_child_turns run) slot = Some c" "ac_turn_id c = turn" by blast
  let ?run1 = "run\<lparr>ru_active_child_turns := hm_remove slot (ru_active_child_turns run)\<rparr>"
  let ?ev = "ChildEvent ChildTurnCompletedEvent (child_payload (ru_team_id run) c status)"
  have wf1: "run_wf ?run1" by (rule run_wf_remove_child) (rule assms [OF r(1)])
  show ?thesis
  proof (cases "status = Failed")
    case False
    with r wf1 show ?thesis
      by (simp add: record_child_completed_def Let_def) (intro maybe_complete_effect [OF r(1)]; simp)
  next
    case True
    with r show ?thesis
      using fail_effect [OF r(1), of "?run1\<lparr>ru_status := Failed, ru_completed_at := Some (clock E (rm_tick m))\<rparr>" "[?ev]" E]
      by (simp add: record_child_completed_def Let_def)
  qed
next
  case False
  then show ?thesis by (auto simp: record_child_completed_def run_effect.same split: option.splits)
qed

lemma cancel_effect:
  assumes "\<And>run. rm_state m = Some run \<Longrightarrow> run_wf run"
  shows "run_effect E m (fst (begin_cancel target reason m))"
proof (cases "rm_state m")
  case (Some run)
  let ?run' = "run\<lparr>ru_status := Cancelling, ru_cancel_reason := reason, ru_pending_wakes := [],
    ru_starting_reservations := map (\<lambda>(k, r). (k, r\<lparr>sr_state := ReservationCancelling\<rparr>)) (ru_starting_reservations run)\<rparr>"
  have get: "hm_get (map (\<lambda>(k, r). (k, r\<lparr>sr_state := ReservationCancelling\<rparr>)) rs) k =
      map_option (sr_state_update (\<lambda>_. ReservationCancelling)) (hm_get rs k)" for rs :: "(string, starting_child_reservation) hmap" and k
    by (induction rs) auto
  have keys: "fst \<circ> (\<lambda>(k, r). (k, r\<lparr>sr_state := ReservationCancelling\<rparr>)) = (fst :: string \<times> starting_child_reservation \<Rightarrow> string)"
    by auto
  have wf: "run_wf ?run'"
    using assms [OF Some] unfolding run_wf_def by (auto simp: get keys)
  show ?thesis
    unfolding begin_cancel_def Some
    using put_keep(1) [OF Some wf] by (auto simp: Let_def run_effect.same)
qed (simp add: begin_cancel_def run_effect.same)

lemma complete_failed_effect: "run_effect E m (fst (complete_failed E m))"
proof (cases "rm_state m")
  case (Some run)
  then show ?thesis
    using fail_effect [OF Some, of "run\<lparr>ru_status := Failed, ru_completed_at := Some (clock E (rm_tick m))\<rparr>" "[]" E]
    by (simp add: complete_failed_def Let_def)
qed (simp add: complete_failed_def run_effect.same)

lemma cancel_child_effect:
  assumes "\<And>run. rm_state m = Some run \<Longrightarrow> run_wf run"
  shows "run_effect E m (fst (begin_cancel_child slot m))"
proof (cases "rm_state m")
  case (Some run)
  have wf: "run_wf (run\<lparr>ru_starting_reservations := hm_insert k (r\<lparr>sr_state := ReservationCancelling\<rparr>) (ru_starting_reservations run)\<rparr>)"
    if "find (\<lambda>kr. sr_slot_id (snd kr) = slot) (ru_starting_reservations run) = Some (k, r)" for k r
  proof -
    have "hm_get (ru_starting_reservations run) k = Some r"
      using that assms [OF Some] by (auto simp: find_Some_iff run_wf_def intro: map_of_is_SomeI)
    then show ?thesis
      using assms [OF Some] unfolding run_wf_def by (auto simp: hm_get_insert)
  qed
  show ?thesis
    unfolding begin_cancel_child_def Some
    using put_keep(2) [OF Some wf] by (auto simp: Let_def run_effect.same split: option.splits)
qed (simp add: begin_cancel_child_def run_effect.same)

lemma child_cancelled_effect:
  assumes "\<And>run. rm_state m = Some run \<Longrightarrow> run_wf run"
  shows "run_effect E m (record_child_cancelled E child m)"
proof (cases "rm_state m")
  case (Some run)
  let ?run1 = "run\<lparr>ru_active_child_turns := hm_remove (ac_slot_id child) (ru_active_child_turns run)\<rparr>"
  have wf1: "run_wf ?run1" by (rule run_wf_remove_child) (rule assms [OF Some])
  show ?thesis
  proof (cases "ru_status run = Cancelling")
    case True
    with wf1 Some show ?thesis
      by (simp add: record_child_cancelled_def Let_def) (intro maybe_cancelled_effect [OF Some]; simp)
  next
    case False
    with wf1 Some show ?thesis
      by (simp add: record_child_cancelled_def Let_def put_keep(3))
  qed
qed (simp add: record_child_cancelled_def run_effect.same)

lemma run_step_effect:
  assumes "\<And>run. rm_state m = Some run \<Longrightarrow> run_wf run"
  shows "run_effect E m (run_step E x m)"
proof -
  have "run_effect E m (fst (maybe_complete E m))"
    using assms by (cases "rm_state m") (auto simp: maybe_complete_def run_effect.same intro!: maybe_complete_effect)
  moreover have "run_effect E m (fst (try_complete_cancelled E m))"
    using assms by (cases "rm_state m") (auto simp: try_complete_cancelled_def run_effect.same intro!: maybe_cancelled_effect)
  ultimately show ?thesis
    by (cases x) (simp_all add: assms accept_effect pending_wake_effect claim_effect empty_wake_effect child_started_effect
        start_failed_effect child_completed_effect cancel_effect complete_failed_effect cancel_child_effect
        child_cancelled_effect)
qed

end
