(* ===== verification/TeamRunProperties.thy ===== *)
theory TeamRunProperties
  imports TeamRunFacts
begin

text \<open>
  The properties of the run manager: every accepted run is ended by exactly one terminal event, in
  order; the counts of a terminal event are truthful; a cancelled run ends; wakes are first-in
  first-out per slot.
\<close>

section \<open>The invariant\<close>

definition manager_ok :: "env \<Rightarrow> team_run_manager \<Rightarrow> bool" where
  "manager_ok E m \<longleftrightarrow>
     (\<forall>run. rm_state m = Some run \<longrightarrow> run_wf run) \<and>
     accepted_ids (rm_log m) =
       ended_ids (rm_log m) @ (case rm_state m of None \<Rightarrow> [] | Some run \<Rightarrow> [ru_team_run_id run]) \<and>
     distinct (accepted_ids (rm_log m)) \<and>
     (\<forall>k\<ge>rm_tick m. mint_id E k \<notin> set (accepted_ids (rm_log m))) \<and>
     list_all event_ok (rm_log m)"

lemma put_simps [simp]:
  "rm_state (put run evs m) = run"
  "rm_log (put run evs m) = rm_log m @ evs"
  "rm_tick (put run evs m) = Suc (rm_tick m)"
  by (simp_all add: put_def)

lemma manager_ok_effect:
  assumes "manager_ok E m" "distinct_ids E" "run_effect E m m'"
  shows "manager_ok E m'"
  using assms(3)
proof (cases rule: run_effect.cases)
  case (start run slot role)
  have "mint_id E (rm_tick m) \<notin> set (accepted_ids (rm_log m))"
    "\<And>k. Suc (rm_tick m) \<le> k \<Longrightarrow> mint_id E k \<noteq> mint_id E (rm_tick m)"
    using assms(1) by (auto simp: manager_ok_def mint_id_eq [OF assms(2)])
  then show ?thesis
    using start assms(1) by (auto simp: manager_ok_def)
next
  case same
  with assms(1) show ?thesis by simp
qed (use assms(1) in \<open>auto simp: manager_ok_def\<close>)

lemma manager_ok_wf: "manager_ok E m \<Longrightarrow> rm_state m = Some run \<Longrightarrow> run_wf run"
  unfolding manager_ok_def by blast

lemma manager_ok_step: "manager_ok E m \<Longrightarrow> distinct_ids E \<Longrightarrow> manager_ok E (run_step E x m)"
  using manager_ok_wf manager_ok_effect run_step_effect by blast

interpretation team_run_machine: machine "\<lambda>m. distinct_ids E \<and> manager_ok E m" "run_step E" for E
  by unfold_locales (simp add: manager_ok_step)

lemma manager_ok_new: "manager_ok E (team_run_manager_new t)"
  by (simp add: manager_ok_def team_run_manager_new_def)

lemma manager_ok_run: "distinct_ids E \<Longrightarrow> manager_ok E (fold (run_step E) xs (team_run_manager_new t))"
  using team_run_machine.run_inv [of E "team_run_manager_new t" xs] by (simp add: manager_ok_new)

section \<open>A run to evaluate\<close>

definition demo_child :: active_child_turn where
  "demo_child = \<lparr>ac_team_run_id = ''r'', ac_slot_id = ''lead'', ac_role = TargetLead,
                 ac_conversation_id = ''conv'', ac_turn_id = ''turn''\<rparr>"

text \<open>A run whose lead works on one message: accepted, woken, claimed (reservation \<open>rrr\<close>), started.\<close>

definition demo_start :: "run_op list" where
  "demo_start = [OpAccept ''lead'' TargetLead False None, OpPendingWake ''lead'' TargetLead UserMessage,
                 OpClaim ''lead'' TargetLead ''conv'', OpChildStarted ''rrr'' demo_child]"

section \<open>Events\<close>



text \<open>C9. The events tell the truth: after any sequence of operations, every run event broadcast
  carries the status its name says, a started event counts an active child, and a completed or
  cancelled run is announced only with no active child, no starting child and no pending wake.\<close>

theorem events_are_truthful:
  assumes "distinct_ids E" "RunEvent n p \<in> set (rm_log (fold (run_step E) xs (team_run_manager_new t)))"
  shows "event_ok (RunEvent n p)"
  using manager_ok_run [OF assms(1), of xs t] assms(2) unfolding manager_ok_def list_all_iff by blast

lemma events_are_truthful_witness:
  "\<exists>p. RunEvent RunStartedEvent p \<in> set (rm_log (fold (run_step sample_env) demo_start (team_run_manager_new ''t''))) \<and>
     rp_status p = Running \<and> 0 < rp_active_child_count p"
proof -
  let ?log = "rm_log (fold (run_step sample_env) demo_start (team_run_manager_new ''t''))"
  have "list_ex (\<lambda>e. case e of RunEvent n p \<Rightarrow> n = RunStartedEvent | _ \<Rightarrow> False) ?log" by code_simp
  then obtain e where "e \<in> set ?log" "case e of RunEvent n p \<Rightarrow> n = RunStartedEvent | _ \<Rightarrow> False"
    unfolding list_ex_iff by blast
  then obtain p where "RunEvent RunStartedEvent p \<in> set ?log" by (cases e rule: team_event.exhaust) auto
  with events_are_truthful [OF sample_env_distinct this] show ?thesis by (intro exI [of _ p]) simp
qed

text \<open>C10. A cancellation cannot be undone: while a run is \<open>Cancelling\<close>, whatever operation comes next
  leaves the same run \<open>Cancelling\<close> with no pending wake, or ends it with exactly one terminal event
  that is not \<open>completed\<close>.\<close>

lemma cancelling_is_final:
  assumes "manager_ok E m" "rm_state m = Some run" "ru_status run = Cancelling"
  shows "(\<exists>run'. rm_state (run_step E x m) = Some run' \<and> ru_team_run_id run' = ru_team_run_id run \<and>
            ru_status run' = Cancelling \<and> pending_wake_count run' = 0) \<or>
    (rm_state (run_step E x m) = None \<and>
     (\<exists>evs. rm_log (run_step E x m) = rm_log m @ evs \<and> ended_ids evs = [ru_team_run_id run] \<and>
            (\<forall>p. RunEvent RunCompletedEvent p \<notin> set evs)))"
proof -
  have wf: "\<And>r. rm_state m = Some r \<Longrightarrow> run_wf r" using assms(1) by (simp add: manager_ok_def)
  have p0: "run_wf r \<Longrightarrow> ru_status r = Cancelling \<Longrightarrow> pending_wake_count r = 0" for r
    by (simp add: run_wf_def pending_wake_count_def)
  have eff: "run_effect E m (run_step E x m)" by (rule run_step_effect) (rule wf)
  then show ?thesis
    by (cases rule: run_effect.cases) (use assms(2,3) wf p0 in auto)
qed

lemma cancelling_is_final_witness:
  "\<exists>run. rm_state (fold (run_step sample_env) (demo_start @ [OpBeginCancel None None]) (team_run_manager_new ''t'')) = Some run \<and>
     ru_status run = Cancelling \<and>
     ((\<exists>run'. rm_state (run_step sample_env OpMaybeComplete
                (fold (run_step sample_env) (demo_start @ [OpBeginCancel None None]) (team_run_manager_new ''t''))) = Some run' \<and>
              ru_status run' = Cancelling) \<or>
      rm_state (run_step sample_env OpMaybeComplete
                (fold (run_step sample_env) (demo_start @ [OpBeginCancel None None]) (team_run_manager_new ''t''))) = None)"
proof -
  let ?m = "fold (run_step sample_env) (demo_start @ [OpBeginCancel None None]) (team_run_manager_new ''t'')"
  have "case rm_state ?m of None \<Rightarrow> False | Some run \<Rightarrow> ru_status run = Cancelling" by code_simp
  then obtain run where "rm_state ?m = Some run" "ru_status run = Cancelling" by (auto split: option.splits)
  from cancelling_is_final [OF manager_ok_run [OF sample_env_distinct] this, of OpMaybeComplete] this show ?thesis by blast
qed

section \<open>Progress\<close>

text \<open>The clean-up of a cancelled run: cancel each active child, fail each starting one, then finish.\<close>

definition drain_ops :: "team_run_record \<Rightarrow> run_op list" where
  "drain_ops run = map OpChildCancelled (hm_values (ru_active_child_turns run)) @
     map (OpStartFailed \<circ> fst) (ru_starting_reservations run) @ [OpTryCompleteCancelled]"

definition ended_cancelled :: "string \<Rightarrow> team_run_manager \<Rightarrow> bool" where
  "ended_cancelled i m \<longleftrightarrow> rm_state m = None \<and> (\<exists>p. RunEvent RunCancelledEvent p \<in> set (rm_log m) \<and> rp_team_run_id p = i)"

lemma no_run_no_step: "rm_state m = None \<Longrightarrow> fold (run_step E) (map OpChildCancelled cs @ map (OpStartFailed \<circ> fst) rs @ [OpTryCompleteCancelled]) m = m"
proof -
  assume "rm_state m = None"
  then have "run_step E (OpChildCancelled c) m = m" "run_step E (OpStartFailed i) m = m" "run_step E OpTryCompleteCancelled m = m" for c i
    by (simp_all add: record_child_cancelled_def record_child_start_failed_def try_complete_cancelled_def)
  note step = this
  have "fold (run_step E) (map OpChildCancelled cs) m = m" by (induction cs) (simp_all add: step del: run_step.simps)
  moreover have "fold (run_step E) (map (OpStartFailed \<circ> fst) rs) m = m" by (induction rs) (simp_all add: step del: run_step.simps)
  ultimately show ?thesis using step(3) by (simp del: run_step.simps)
qed

text \<open>One clean-up step on a cancelling run: the run goes on with less work, or it is over.\<close>

lemma cancelled_step:
  assumes "rm_state m = Some run0" "ru_status run = Cancelling"
    "m' = fst (settle_run [] (maybe_cancelled_locked now run) evs m)"
  shows "(has_work run \<and> rm_state m' = Some run) \<or> ended_cancelled (ru_team_run_id run) m'"
proof (cases "has_work run")
  case True
  then show ?thesis using assms by (simp add: settle_run_def maybe_cancelled_locked_def)
next
  case False
  then have "m' = put None (RunEvent RunCancelledEvent (payload (run\<lparr>ru_status := Cancelled, ru_cancelled_at := Some now\<rparr>)) # evs) m"
    using assms by (simp add: settle_run_def maybe_cancelled_locked_def Let_def)
  then show ?thesis by (auto simp: ended_cancelled_def intro: exI [of _ "payload (run\<lparr>ru_status := Cancelled, ru_cancelled_at := Some now\<rparr>)"])
qed

lemma drain_ends:
  assumes "rm_state m = Some run" "run_wf run" "ru_status run = Cancelling"
  shows "ended_cancelled (ru_team_run_id run) (fold (run_step E) (drain_ops run) m)"
  using assms
proof (induction "length (ru_active_child_turns run) + length (ru_starting_reservations run)" arbitrary: run m)
  case 0
  then have "\<not> has_work run" by (simp add: has_work_def run_wf_def pending_wake_count_def)
  with 0 cancelled_step [OF 0(2,4) refl, of "clock E (rm_tick m)" "[]"] show ?case
    by (auto simp: drain_ops_def try_complete_cancelled_def)
next
  case (Suc n)
  let ?id = "ru_team_run_id run"
  show ?case
  proof (cases "ru_active_child_turns run")
    case (Cons kc rest)
    obtain k c where kc: "kc = (k, c)" by force
    have k: "ac_slot_id c = k" "hm_remove k ((k, c) # rest) = rest"
      using Suc.prems(2) Cons kc by (auto simp: run_wf_def split: if_splits)
    let ?run1 = "run\<lparr>ru_active_child_turns := rest\<rparr>"
    have wf1: "run_wf ?run1"
      using run_wf_remove_child [OF Suc.prems(2), of k] Cons kc k(2) by simp
    let ?m1 = "run_step E (OpChildCancelled c) m"
    have "?m1 = fst (settle_run [] (maybe_cancelled_locked (clock E (rm_tick m)) ?run1)
        [ChildEvent ChildTurnCancelledEvent (child_payload (ru_team_id run) c Cancelled)] m)"
      using Suc.prems Cons kc k by (simp add: record_child_cancelled_def Let_def)
    from cancelled_step [OF Suc.prems(1) _ this] Suc.prems(3)
    have "(has_work ?run1 \<and> rm_state ?m1 = Some ?run1) \<or> ended_cancelled ?id ?m1" by simp
    then show ?thesis
    proof
      assume "has_work ?run1 \<and> rm_state ?m1 = Some ?run1"
      then have "ended_cancelled (ru_team_run_id ?run1) (fold (run_step E) (drain_ops ?run1) ?m1)"
        using Suc.hyps(2) Cons wf1 Suc.prems(3) by (intro Suc.hyps(1)) simp_all
      then show ?thesis by (simp add: drain_ops_def Cons kc)
    next
      assume e: "ended_cancelled ?id ?m1"
      then have "fold (run_step E) (drain_ops ?run1) ?m1 = ?m1"
        unfolding drain_ops_def by (intro no_run_no_step) (simp add: ended_cancelled_def)
      with e show ?thesis by (simp add: drain_ops_def Cons kc)
    qed
  next
    case Nil
    with Suc.hyps(2) obtain kr rest where Cons: "ru_starting_reservations run = kr # rest"
      by (cases "ru_starting_reservations run") auto
    obtain k r where kr: "kr = (k, r)" by force
    have k: "hm_remove k ((k, r) # rest) = rest"
      using Suc.prems(2) Cons kr by (auto simp: run_wf_def split: if_splits)
    let ?run1 = "run\<lparr>ru_starting_reservations := rest\<rparr>"
    have wf1: "run_wf ?run1"
      using run_wf_remove_reservation [OF Suc.prems(2), of k] Cons kr k by simp
    let ?m1 = "run_step E (OpStartFailed k) m"
    have "?m1 = fst (settle_run [] (maybe_cancelled_locked (clock E (rm_tick m)) ?run1) [] m)"
      using Suc.prems Cons kr k by (simp add: record_child_start_failed_def Let_def)
    from cancelled_step [OF Suc.prems(1) _ this] Suc.prems(3)
    have "(has_work ?run1 \<and> rm_state ?m1 = Some ?run1) \<or> ended_cancelled ?id ?m1" by simp
    then show ?thesis
    proof
      assume "has_work ?run1 \<and> rm_state ?m1 = Some ?run1"
      then have "ended_cancelled (ru_team_run_id ?run1) (fold (run_step E) (drain_ops ?run1) ?m1)"
        using Suc.hyps(2) Cons Nil wf1 Suc.prems(3) by (intro Suc.hyps(1)) simp_all
      then show ?thesis by (simp add: drain_ops_def Cons kr Nil)
    next
      assume e: "ended_cancelled ?id ?m1"
      then have "fold (run_step E) (drain_ops ?run1) ?m1 = ?m1"
        unfolding drain_ops_def by (intro no_run_no_step) (simp add: ended_cancelled_def)
      with e show ?thesis by (simp add: drain_ops_def Cons kr Nil)
    qed
  qed
qed



text \<open>The number of pending wakes when one queue changes.\<close>

lemma sum_values_update:
  "hm_ok m \<Longrightarrow> sum_list (map length (hm_values (hm_insert k v m))) +
     (case hm_get m k of None \<Rightarrow> 0 | Some q \<Rightarrow> length q) = sum_list (map length (hm_values m)) + length v"
  by (induction m) (auto split: option.splits simp: map_of_eq_None_iff)

lemma sum_values_delete:
  "hm_ok m \<Longrightarrow> sum_list (map length (hm_values (hm_remove k m))) +
     (case hm_get m k of None \<Rightarrow> 0 | Some q \<Rightarrow> length q) = sum_list (map length (hm_values m))"
proof (induction m)
  case (Cons kv m)
  obtain k' v where kv: "kv = (k', v)" by force
  from Cons.prems kv have "k = k' \<Longrightarrow> hm_get m k = None" by (auto simp: map_of_eq_None_iff)
  with Cons kv show ?case by (auto split: option.splits)
qed simp

lemma pop_wake_count:
  assumes "run_wf run" "pop_wake slot run = Some (w, run')"
  shows "Suc (pending_wake_count run') = pending_wake_count run"
proof -
  obtain ws where q: "hm_get (ru_pending_wakes run) slot = Some (w # ws)"
    "run' = run\<lparr>ru_pending_wakes := (if ws = [] then hm_remove slot (ru_pending_wakes run)
             else hm_insert slot ws (ru_pending_wakes run))\<rparr>"
    using assms(2) by (auto simp: pop_wake_def split: option.splits list.splits)
  have ok: "hm_ok (ru_pending_wakes run)" using assms(1) by (simp add: run_wf_def)
  show ?thesis
    using sum_values_update [OF ok, of slot ws] sum_values_delete [OF ok, of slot] q(1)
    by (auto simp: q(2) pending_wake_count_def)
qed

lemma hm_insert_new_length: "hm_get m k = None \<Longrightarrow> length (hm_insert k v m) = Suc (length m)"
  by (induction m) (auto split: if_splits)

text \<open>A claim takes the oldest pending wake of its slot and no other, and turns it into one starting
  reservation: one wake less, one starting child more, the same active children; it is refused only
  when the run is not active or the slot has no pending wake.\<close>

lemma claim_takes_the_oldest_wake:
  assumes "manager_ok E m" "rm_state m = Some run" "run_is_active run"
    and "hm_get (ru_starting_reservations run) (mint_id E (rm_tick m)) = None"
  shows "case hm_get (ru_pending_wakes run) slot of
      None \<Rightarrow> claim_wake_for_turn E slot role conv m = (m, None)
    | Some q \<Rightarrow> \<exists>m' run' r. claim_wake_for_turn E slot role conv m = (m', Some r) \<and> rm_state m' = Some run' \<and>
        sr_slot_id r = slot \<and> sr_state r = Starting \<and>
        hm_get (ru_pending_wakes run') = (hm_get (ru_pending_wakes run))(slot := (if tl q = [] then None else Some (tl q))) \<and>
        Suc (pending_wake_count run') = pending_wake_count run \<and>
        length (ru_starting_reservations run') = Suc (length (ru_starting_reservations run)) \<and>
        ru_active_child_turns run' = ru_active_child_turns run"
proof (cases "hm_get (ru_pending_wakes run) slot")
  case None
  then show ?thesis by (simp add: claim_wake_for_turn_def assms(2,3) pop_wake_def)
next
  case (Some q)
  have wf: "run_wf run" by (rule manager_ok_wf [OF assms(1,2)])
  with Some have "q \<noteq> []" by (auto simp: run_wf_def)
  then obtain w ws where q: "q = w # ws" by (cases q) auto
  let ?run1 = "run\<lparr>ru_pending_wakes := (if ws = [] then hm_remove slot (ru_pending_wakes run)
    else hm_insert slot ws (ru_pending_wakes run))\<rparr>"
  have pop: "pop_wake slot run = Some (w, ?run1)" using Some q by (simp add: pop_wake_def)
  let ?r = "\<lparr>sr_reservation_id = mint_id E (rm_tick m), sr_team_run_id = ru_team_run_id ?run1, sr_slot_id = pw_slot_id w,
    sr_role = role, sr_conversation_id = conv, sr_state = Starting\<rparr>"
  let ?run2 = "?run1\<lparr>ru_starting_reservations := hm_insert (mint_id E (rm_tick m)) ?r (ru_starting_reservations ?run1)\<rparr>"
  have "claim_wake_for_turn E slot role conv m = (put (Some ?run2) [RunEvent RunUpdatedEvent (payload ?run2)] m, Some ?r)"
    using assms(2,3) pop by (simp add: claim_wake_for_turn_def Let_def)
  moreover have "hm_get (ru_pending_wakes ?run2) = (hm_get (ru_pending_wakes run))(slot := (if ws = [] then None else Some ws))"
    by (rule ext) (simp add: hm_get_insert hm_get_remove)
  moreover have "Suc (pending_wake_count ?run2) = pending_wake_count run"
    using pop_wake_count [OF wf pop] by (simp add: pending_wake_count_def)
  moreover have "length (ru_starting_reservations ?run2) = Suc (length (ru_starting_reservations run))"
    using assms(4) by (simp add: hm_insert_new_length)
  moreover have "pw_slot_id w = slot" by (rule run_wf_pop(5) [OF wf pop])
  ultimately show ?thesis
    unfolding Some q option.case list.sel
    by (intro exI [of _ "put (Some ?run2) [RunEvent RunUpdatedEvent (payload ?run2)] m"] exI [of _ ?run2] exI [of _ ?r]) simp
qed

lemma claim_takes_the_oldest_wake_witness:
  "\<exists>m' r. claim_wake_for_turn sample_env ''lead'' TargetLead ''conv'' (fold (run_step sample_env) (take 2 demo_start) (team_run_manager_new ''t'')) =
     (m', Some r) \<and> sr_slot_id r = ''lead''"
proof -
  let ?m = "fold (run_step sample_env) (take 2 demo_start) (team_run_manager_new ''t'')"
  have "case rm_state ?m of None \<Rightarrow> False | Some run \<Rightarrow> run_is_active run \<and>
      hm_get (ru_starting_reservations run) (mint_id sample_env (rm_tick ?m)) = None \<and>
      hm_get (ru_pending_wakes run) ''lead'' \<noteq> None" by code_simp
  then obtain run q where "rm_state ?m = Some run" "run_is_active run"
    "hm_get (ru_starting_reservations run) (mint_id sample_env (rm_tick ?m)) = None" "hm_get (ru_pending_wakes run) ''lead'' = Some q"
    by (auto split: option.splits)
  with claim_takes_the_oldest_wake [OF manager_ok_run [OF sample_env_distinct] this(1-3), of "''lead''" TargetLead "''conv''"]
  show ?thesis by auto
qed

text \<open>Completion: reporting the last active child of an active run completed, with nothing pending or
  starting, completes the run, clears the manager and announces the child and then the run; with
  work left the run goes on.\<close>

lemma last_child_completes_the_run:
  assumes "rm_state m = Some run" "run_is_active run" "hm_get (ru_active_child_turns run) slot = Some c"
    and "ac_turn_id c = turn" "status \<noteq> Failed" "hm_ok (ru_active_child_turns run)"
  shows "let idle = (fst ` set (ru_active_child_turns run) = {slot} \<and> ru_starting_reservations run = [] \<and> pending_wake_count run = 0);
             (m', p) = record_child_completed E slot turn status m
         in (if idle then rm_state m' = None \<and> p \<noteq> None else p = None \<and> rm_state m' \<noteq> None) \<and>
            map (\<lambda>e. case e of RunEvent n _ \<Rightarrow> run_event_str n | ChildEvent n _ \<Rightarrow> child_event_str n | _ \<Rightarrow> [])
                (drop (length (rm_log m)) (rm_log m')) =
              [''team.childTurnCompleted'', if idle then ''team.runCompleted'' else ''team.runUpdated'']"
proof -
  let ?run1 = "run\<lparr>ru_active_child_turns := hm_remove slot (ru_active_child_turns run)\<rparr>"
  have "slot \<in> fst ` set (ru_active_child_turns run)" using assms(3) by (force dest: map_of_SomeD)
  then have idle: "hm_remove slot (ru_active_child_turns run) = [] \<longleftrightarrow> fst ` set (ru_active_child_turns run) = {slot}"
    by (auto simp: hm_remove_Nil_iff)
  have pc: "pending_wake_count ?run1 = pending_wake_count run" by (simp add: pending_wake_count_def)
  have work: "has_work ?run1 \<longleftrightarrow> \<not> (fst ` set (ru_active_child_turns run) = {slot} \<and> ru_starting_reservations run = [] \<and> pending_wake_count run = 0)"
    unfolding has_work_def pc by (auto simp: idle)
  show ?thesis
  proof (cases "has_work ?run1")
    case True
    then show ?thesis
      using assms work by (simp add: record_child_completed_def settle_run_def maybe_complete_locked_def Let_def)
  next
    case False
    then show ?thesis
      using assms work by (auto simp: record_child_completed_def settle_run_def maybe_complete_locked_def Let_def run_is_active_def)
  qed
qed

lemma last_child_completes_the_run_witness:
  "\<exists>m'. rm_state m' = None \<and> fst (record_child_completed sample_env ''lead'' ''turn'' RunCompleted
      (fold (run_step sample_env) demo_start (team_run_manager_new ''t''))) = m'"
proof -
  let ?m = "fold (run_step sample_env) demo_start (team_run_manager_new ''t'')"
  have "case rm_state ?m of None \<Rightarrow> False | Some run \<Rightarrow> run_is_active run \<and>
      ru_active_child_turns run = [(''lead'', demo_child)] \<and> ru_starting_reservations run = [] \<and> pending_wake_count run = 0"
    by code_simp
  then obtain run where r: "rm_state ?m = Some run" "run_is_active run" "ru_active_child_turns run = [(''lead'', demo_child)]"
    "ru_starting_reservations run = []" "pending_wake_count run = 0"
    by (auto split: option.splits)
  have "hm_get (ru_active_child_turns run) ''lead'' = Some demo_child" "ac_turn_id demo_child = ''turn''"
    "hm_ok (ru_active_child_turns run)" by (simp_all add: r(3) demo_child_def)
  from last_child_completes_the_run [OF r(1,2) this(1,2) _ this(3), of RunCompleted sample_env] r(3-5)
  show ?thesis by (simp add: Let_def split: prod.splits)
qed

section \<open>What the model shows beside the properties\<close>

text \<open>
  When the only child of a run is cancelled while it is starting (\<open>begin_cancel_child\<close>) and its start
  then fails, \<open>record_child_start_failed\<close> calls \<open>maybe_cancelled_locked\<close>, which does nothing because the
  run itself is not \<open>Cancelling\<close>: the run stays \<open>Accepted\<close> with no work at all, no terminal event is
  broadcast, and the next user message is rejected as if a run were active. The event loop does not
  call \<open>maybe_complete\<close> on this path.
\<close>

definition stuck_ops :: "run_op list" where
  "stuck_ops = take 3 demo_start @ [OpCancelChild ''lead'', OpStartFailed ''rrr'']"

lemma child_cancel_leaves_the_run_stuck:
  "let m = fold (run_step sample_env) stuck_ops (team_run_manager_new ''t'')
   in (case rm_state m of None \<Rightarrow> False | Some run \<Rightarrow> ru_status run = Accepted \<and> \<not> has_work run) \<and>
      ended_ids (rm_log m) = [] \<and>
      snd (accept_user_message sample_env ''lead'' TargetLead False None m) = Inl (InvalidRequest ''team run is already active'')"
  by code_simp

end
