(* ===== verification/TeamRepo.thy ===== *)
theory TeamRepo
  imports TeamTypes TaskRepo
begin

text \<open>
  \<open>SqliteTeamRepository\<close> (\<open>aionui-db/src/repository/sqlite_team.rs\<close>): the tables \<open>teams\<close>, \<open>mailbox\<close> and
  \<open>team_tasks\<close> with the primary keys and checks of the migrations. A method that opens a transaction
  is one step. Failures of SQLite other than a violated constraint are not modelled.
\<close>

section \<open>State and parameters\<close>

record team_db =
  tb_teams :: "team_row list"
  tb_mailbox :: "mailbox_message_row list"
  tb_tasks :: "team_task_row list"
  tb_tick :: nat

type_synonym 'a team_op = "team_db \<Rightarrow> (team_db, db_error, 'a) outcome"

record update_team_params =
  up_name :: "string option"
  up_agents :: "string option"
  up_lead_agent_id :: "string option"

record update_task_params =
  tp_status :: "string option"
  tp_description :: "string option"
  tp_owner :: "string option"
  tp_blocked_by :: "string option"
  tp_metadata :: "string option"

section \<open>Teams\<close>

definition create_team :: "team_row \<Rightarrow> unit team_op" where
  "create_team row s =
     (if \<exists>r\<in>set (tb_teams s). tw_id r = tw_id row then (s, Inl Query)
      else (s\<lparr>tb_teams := tb_teams s @ [row]\<rparr>, Inr ()))"

definition list_teams :: "team_db \<Rightarrow> team_row list" where
  "list_teams s = sort_key tw_created_at (tb_teams s)"

definition list_teams_by_user :: "string \<Rightarrow> team_db \<Rightarrow> team_row list" where
  "list_teams_by_user user_id s = sort_key tw_created_at (filter (\<lambda>r. tw_user_id r = user_id) (tb_teams s))"

definition get_team :: "string \<Rightarrow> team_db \<Rightarrow> team_row option" where
  "get_team team_id s = find (\<lambda>r. tw_id r = team_id) (tb_teams s)"

definition update_team :: "env \<Rightarrow> string \<Rightarrow> update_team_params \<Rightarrow> unit team_op" where
  "update_team E team_id params s =
     (if up_name params = None \<and> up_agents params = None \<and> up_lead_agent_id params = None then (s, Inr ())
      else let now = clock E (tb_tick s); s1 = s\<lparr>tb_tick := Suc (tb_tick s)\<rparr>
           in if rows_affected (\<lambda>r. tw_id r = team_id) (tb_teams s1) = 0
              then (s1, Inl (DbNotFound (''team '' @ team_id)))
              else (s1\<lparr>tb_teams := update_where (\<lambda>r. tw_id r = team_id)
                (\<lambda>r. (set_opt (up_name params) (\<lambda>x r. r\<lparr>tw_name := x\<rparr>)
                     (set_opt (up_agents params) (\<lambda>x r. r\<lparr>tw_agents := x\<rparr>)
                     (set_opt (up_lead_agent_id params) (\<lambda>x r. r\<lparr>tw_lead_agent_id := Some x\<rparr>) r)))
                     \<lparr>tw_updated_at := now\<rparr>) (tb_teams s1)\<rparr>, Inr ()))"

definition delete_team :: "string \<Rightarrow> unit team_op" where
  "delete_team team_id s =
     (if rows_affected (\<lambda>r. tw_id r = team_id) (tb_teams s) = 0 then (s, Inl (DbNotFound (''team '' @ team_id)))
      else (s\<lparr>tb_teams := filter (\<lambda>r. tw_id r \<noteq> team_id) (tb_teams s)\<rparr>, Inr ()))"

section \<open>Mailbox\<close>

definition message_types :: "string list" where
  "message_types = [''message'', ''idle_notification'', ''shutdown_request'']"

definition write_message :: "mailbox_message_row \<Rightarrow> unit team_op" where
  "write_message row s =
     (if (\<exists>r\<in>set (tb_mailbox s). mr_id r = mr_id row) \<or> mr_msg_type row \<notin> set message_types then (s, Inl Query)
      else (s\<lparr>tb_mailbox := tb_mailbox s @ [row]\<rparr>, Inr ()))"

abbreviation unread_for :: "string \<Rightarrow> string \<Rightarrow> mailbox_message_row \<Rightarrow> bool" where
  "unread_for team_id to_agent_id r \<equiv> mr_team_id r = team_id \<and> mr_to_agent_id r = to_agent_id \<and> \<not> mr_read r"

definition peek_unread :: "string \<Rightarrow> string \<Rightarrow> team_db \<Rightarrow> mailbox_message_row list" where
  "peek_unread team_id to_agent_id s =
     sort_key mr_created_at (filter (unread_for team_id to_agent_id) (tb_mailbox s))"

definition read_unread_and_mark :: "string \<Rightarrow> string \<Rightarrow> team_db \<Rightarrow> team_db \<times> mailbox_message_row list" where
  "read_unread_and_mark team_id to_agent_id s =
     (let rows = sort_key mr_created_at (filter (unread_for team_id to_agent_id) (tb_mailbox s))
      in (if rows = [] then s
          else s\<lparr>tb_mailbox := update_where (unread_for team_id to_agent_id) (\<lambda>r. r\<lparr>mr_read := True\<rparr>) (tb_mailbox s)\<rparr>,
          rows))"

text \<open>\<open>slice::chunks\<close>\<close>

function chunks :: "nat \<Rightarrow> 'a list \<Rightarrow> 'a list list" where
  "chunks n xs = (if n = 0 \<or> xs = [] then [] else take n xs # chunks n (drop n xs))"
  by auto
termination by (relation "measure (\<lambda>(n, xs). length xs)") auto

declare chunks.simps [simp del]

definition mark_read_batch :: "string list \<Rightarrow> team_db \<Rightarrow> team_db" where
  "mark_read_batch ids s =
     (if ids = [] then s
      else fold (\<lambda>chunk s. s\<lparr>tb_mailbox := update_where (\<lambda>r. mr_id r \<in> set chunk) (\<lambda>r. r\<lparr>mr_read := True\<rparr>) (tb_mailbox s)\<rparr>)
        (chunks 500 ids) s)"

text \<open>SQLite reads a negative \<open>LIMIT\<close> as no limit.\<close>

definition get_history :: "string \<Rightarrow> string \<Rightarrow> int option \<Rightarrow> team_db \<Rightarrow> mailbox_message_row list" where
  "get_history team_id to_agent_id lim s =
     (let rows = sort_key mr_created_at
            (filter (\<lambda>r. mr_team_id r = team_id \<and> mr_to_agent_id r = to_agent_id) (tb_mailbox s))
      in case lim of None \<Rightarrow> rows | Some l \<Rightarrow> if l < 0 then rows else take (nat l) rows)"

definition delete_mailbox_by_team :: "string \<Rightarrow> team_db \<Rightarrow> team_db" where
  "delete_mailbox_by_team team_id s = s\<lparr>tb_mailbox := filter (\<lambda>r. mr_team_id r \<noteq> team_id) (tb_mailbox s)\<rparr>"

section \<open>Board tasks\<close>

definition board_statuses :: "string list" where
  "board_statuses = [''pending'', ''in_progress'', ''completed'', ''deleted'']"

definition create_board_task :: "team_task_row \<Rightarrow> unit team_op" where
  "create_board_task row s =
     (if (\<exists>r\<in>set (tb_tasks s). br_id r = br_id row) \<or> br_status row \<notin> set board_statuses then (s, Inl Query)
      else (s\<lparr>tb_tasks := tb_tasks s @ [row]\<rparr>, Inr ()))"

definition find_task_by_id :: "string \<Rightarrow> string \<Rightarrow> team_db \<Rightarrow> team_task_row option" where
  "find_task_by_id team_id task_id s = find (\<lambda>r. br_team_id r = team_id \<and> br_id r = task_id) (tb_tasks s)"

definition apply_board_update :: "update_task_params \<Rightarrow> int \<Rightarrow> team_task_row \<Rightarrow> team_task_row" where
  "apply_board_update p now r =
     (set_opt (tp_status p) (\<lambda>x r. r\<lparr>br_status := x\<rparr>)
     (set_opt (tp_description p) (\<lambda>x r. r\<lparr>br_description := Some x\<rparr>)
     (set_opt (tp_owner p) (\<lambda>x r. r\<lparr>br_owner := Some x\<rparr>)
     (set_opt (tp_blocked_by p) (\<lambda>x r. r\<lparr>br_blocked_by := x\<rparr>)
     (set_opt (tp_metadata p) (\<lambda>x r. r\<lparr>br_metadata := Some x\<rparr>) r)))))\<lparr>br_updated_at := now\<rparr>"

definition update_board_row :: "env \<Rightarrow> string \<Rightarrow> update_task_params \<Rightarrow> unit team_op" where
  "update_board_row E task_id p s =
     (if tp_status p = None \<and> tp_description p = None \<and> tp_owner p = None \<and> tp_blocked_by p = None \<and>
         tp_metadata p = None then (s, Inr ())
      else let now = clock E (tb_tick s); s1 = s\<lparr>tb_tick := Suc (tb_tick s)\<rparr>
           in if rows_affected (\<lambda>r. br_id r = task_id) (tb_tasks s1) = 0
              then (s1, Inl (DbNotFound (''task '' @ task_id)))
              else if (case tp_status p of None \<Rightarrow> False | Some st \<Rightarrow> st \<notin> set board_statuses)
              then (s1, Inl Query)
              else (s1\<lparr>tb_tasks := update_where (\<lambda>r. br_id r = task_id) (apply_board_update p now) (tb_tasks s1)\<rparr>, Inr ()))"

definition list_board_rows :: "string \<Rightarrow> team_db \<Rightarrow> team_task_row list" where
  "list_board_rows team_id s = sort_key br_created_at (filter (\<lambda>r. br_team_id r = team_id) (tb_tasks s))"

text \<open>\<open>from_str(..).unwrap_or_default()\<close>\<close>

definition read_list :: "json \<Rightarrow> string \<Rightarrow> string list" where
  "read_list J text = (case de_list J text of None \<Rightarrow> [] | Some xs \<Rightarrow> xs)"

definition append_to_blocks :: "env \<Rightarrow> json \<Rightarrow> string \<Rightarrow> string \<Rightarrow> unit team_op" where
  "append_to_blocks E J task_id blocked_task_id s =
     (case find (\<lambda>r. br_id r = task_id) (tb_tasks s) of
        None \<Rightarrow> (s, Inl (DbNotFound (''task '' @ task_id)))
      | Some row \<Rightarrow>
          let blocks = read_list J (br_blocks row);
              blocks' = (if blocked_task_id \<in> set blocks then blocks else blocks @ [blocked_task_id]);
              now = clock E (tb_tick s)
          in (s\<lparr>tb_tick := Suc (tb_tick s),
                tb_tasks := update_where (\<lambda>r. br_id r = task_id)
                  (\<lambda>r. r\<lparr>br_blocks := ser_list J blocks', br_updated_at := now\<rparr>) (tb_tasks s)\<rparr>, Inr ()))"

definition remove_from_blocked_by :: "env \<Rightarrow> json \<Rightarrow> string \<Rightarrow> string \<Rightarrow> unit team_op" where
  "remove_from_blocked_by E J task_id unblocked_task_id s =
     (case find (\<lambda>r. br_id r = task_id) (tb_tasks s) of
        None \<Rightarrow> (s, Inl (DbNotFound (''task '' @ task_id)))
      | Some row \<Rightarrow>
          let blocked_by = filter (\<lambda>i. i \<noteq> unblocked_task_id) (read_list J (br_blocked_by row));
              now = clock E (tb_tick s)
          in (s\<lparr>tb_tick := Suc (tb_tick s),
                tb_tasks := update_where (\<lambda>r. br_id r = task_id)
                  (\<lambda>r. r\<lparr>br_blocked_by := ser_list J blocked_by, br_updated_at := now\<rparr>) (tb_tasks s)\<rparr>, Inr ()))"

definition delete_tasks_by_team :: "string \<Rightarrow> team_db \<Rightarrow> team_db" where
  "delete_tasks_by_team team_id s = s\<lparr>tb_tasks := filter (\<lambda>r. br_team_id r \<noteq> team_id) (tb_tasks s)\<rparr>"

section \<open>Facts\<close>

text \<open>Marking in chunks marks the same rows as one statement over all ids.\<close>

lemma concat_chunks: "0 < n \<Longrightarrow> concat (chunks n xs) = xs"
  by (induction n xs rule: chunks.induct) (subst chunks.simps, simp)

lemma chunk_length: "c \<in> set (chunks n xs) \<Longrightarrow> 0 < length c \<and> length c \<le> n"
proof (induction n xs rule: chunks.induct)
  case (1 n xs)
  from 1(2) have nonempty: "\<not> (n = 0 \<or> xs = [])" by (subst (asm) chunks.simps) (simp split: if_splits)
  from 1(2) nonempty have "c = take n xs \<or> c \<in> set (chunks n (drop n xs))"
    by (subst (asm) chunks.simps) (simp split: if_splits)
  with 1(1) [OF nonempty] nonempty show ?case by auto
qed

lemma fold_mark_read:
  "tb_mailbox (fold (\<lambda>chunk s. s\<lparr>tb_mailbox := update_where (\<lambda>r. mr_id r \<in> set chunk) (\<lambda>r. r\<lparr>mr_read := True\<rparr>) (tb_mailbox s)\<rparr>) cs s) =
     map (\<lambda>r. if mr_id r \<in> set (concat cs) then r\<lparr>mr_read := True\<rparr> else r) (tb_mailbox s)"
  by (induction cs arbitrary: s) (auto simp: update_where_def)

lemma tb_mailbox_mark_read_batch:
  "tb_mailbox (mark_read_batch ids s) =
     map (\<lambda>r. if mr_id r \<in> set ids then r\<lparr>mr_read := True\<rparr> else r) (tb_mailbox s)"
  by (auto simp: mark_read_batch_def fold_mark_read concat_chunks)

end
