(* ===== verification/Mailbox.thy ===== *)
theory Mailbox
  imports TeamRepo "HOL-Library.Multiset"
begin

text \<open>
  \<open>Mailbox\<close> (\<open>aionui-team/src/mailbox.rs\<close>): messages between the agents of a team. The interface
  \<open>inbox\<close> states what a store of addressed messages promises; its client lemma says that every
  posted message is taken once. The model's mailbox is an instance.
\<close>

section \<open>Operations\<close>

definition from_rows :: "json \<Rightarrow> mailbox_message_row list \<Rightarrow> mailbox_message list" where
  "from_rows J rows = List.map_filter (message_from_row J) rows"

definition message_row :: "env \<Rightarrow> json \<Rightarrow> string \<Rightarrow> string \<Rightarrow> string \<Rightarrow> mailbox_message_type \<Rightarrow> string
    \<Rightarrow> string option \<Rightarrow> string list option \<Rightarrow> team_db \<Rightarrow> mailbox_message_row" where
  "message_row E J team_id to_agent_id from_agent_id msg_type content summary files s =
     \<lparr>mr_id = mint_id E (tb_tick s), mr_team_id = team_id, mr_to_agent_id = to_agent_id,
      mr_from_agent_id = from_agent_id, mr_msg_type = msg_type_to_string msg_type, mr_content = content,
      mr_summary = summary,
      mr_files = (case files of None \<Rightarrow> None | Some f \<Rightarrow> if f = [] then None else Some (ser_list J f)),
      mr_read = False, mr_created_at = clock E (tb_tick s)\<rparr>"

definition write_with_files :: "env \<Rightarrow> json \<Rightarrow> string \<Rightarrow> string \<Rightarrow> string \<Rightarrow> mailbox_message_type \<Rightarrow> string
    \<Rightarrow> string option \<Rightarrow> string list option \<Rightarrow> team_db \<Rightarrow> (team_db, team_error, mailbox_message) outcome" where
  "write_with_files E J team_id to_agent_id from_agent_id msg_type content summary files s =
     (let row = message_row E J team_id to_agent_id from_agent_id msg_type content summary files s
      in and_then (map_err (\<lambda>_. TeamDatabase) (write_message row (s\<lparr>tb_tick := Suc (tb_tick s)\<rparr>))) (\<lambda>_ s.
         case message_from_row J row of
           None \<Rightarrow> (s, Inl (InvalidRequest (''invalid message type: '' @ msg_type_to_string msg_type)))
         | Some m \<Rightarrow> (s, Inr m)))"

definition mailbox_write :: "env \<Rightarrow> json \<Rightarrow> string \<Rightarrow> string \<Rightarrow> string \<Rightarrow> mailbox_message_type \<Rightarrow> string
    \<Rightarrow> string option \<Rightarrow> team_db \<Rightarrow> (team_db, team_error, mailbox_message) outcome" where
  "mailbox_write E J team_id to_agent_id from_agent_id msg_type content summary s =
     write_with_files E J team_id to_agent_id from_agent_id msg_type content summary None s"

definition read_unread :: "json \<Rightarrow> string \<Rightarrow> string \<Rightarrow> team_db \<Rightarrow> team_db \<times> mailbox_message list" where
  "read_unread J team_id agent_id s =
     (case read_unread_and_mark team_id agent_id s of (s', rows) \<Rightarrow> (s', from_rows J rows))"

definition mailbox_peek_unread :: "json \<Rightarrow> string \<Rightarrow> string \<Rightarrow> team_db \<Rightarrow> mailbox_message list" where
  "mailbox_peek_unread J team_id agent_id s = from_rows J (peek_unread team_id agent_id s)"

definition mark_all_unread_for_agents_read :: "json \<Rightarrow> string \<Rightarrow> string list \<Rightarrow> team_db \<Rightarrow> team_db \<times> nat" where
  "mark_all_unread_for_agents_read J team_id agent_ids s =
     (let ids = concat (map (\<lambda>a. map mm_id (mailbox_peek_unread J team_id a s)) agent_ids)
      in (if ids \<noteq> [] then mark_read_batch ids s else s, length ids))"

definition mailbox_get_history :: "json \<Rightarrow> string \<Rightarrow> string \<Rightarrow> int option \<Rightarrow> team_db \<Rightarrow> mailbox_message list" where
  "mailbox_get_history J team_id agent_id lim s = from_rows J (get_history team_id agent_id lim s)"

definition has_unread :: "string \<Rightarrow> string \<Rightarrow> team_db \<Rightarrow> bool" where
  "has_unread team_id agent_id s = list_ex (\<lambda>r. \<not> mr_read r) (get_history team_id agent_id None s)"

section \<open>The interface of a store of addressed messages\<close>

text \<open>
  \<open>entry m s\<close> is what posting \<open>m\<close> in \<open>s\<close> leaves for its addressee, \<open>pending s a\<close> what waits for \<open>a\<close>.
\<close>

locale inbox =
  fixes inv :: "'s \<Rightarrow> bool"
    and addr :: "'m \<Rightarrow> 'a"
    and entry :: "'m \<Rightarrow> 's \<Rightarrow> 'i"
    and post :: "'m \<Rightarrow> 's \<Rightarrow> 's"
    and take_all :: "'a \<Rightarrow> 's \<Rightarrow> 's \<times> 'i list"
    and pending :: "'s \<Rightarrow> 'a \<Rightarrow> 'i list"
  assumes inv_post: "inv s \<Longrightarrow> inv (post m s)"
    and inv_take: "inv s \<Longrightarrow> inv (fst (take_all a s))"
    and pending_post: "inv s \<Longrightarrow>
      mset (pending (post m s) b) = mset (pending s b) + (if b = addr m then {#entry m s#} else {#})"
    and taken: "inv s \<Longrightarrow> snd (take_all a s) = pending s a"
    and pending_take: "inv s \<Longrightarrow> pending (fst (take_all a s)) b = (if b = a then [] else pending s b)"
begin

text \<open>A history of posts (\<open>Inl\<close>) and takes (\<open>Inr\<close>): what was posted to and taken by each address.\<close>

fun history :: "('m + 'a) list \<Rightarrow> 's \<Rightarrow> 's \<times> ('a \<times> 'i) list \<times> ('a \<times> 'i) list" where
  "history [] s = (s, [], [])"
| "history (Inl m # ops) s =
     (case history ops (post m s) of (s', posted, got) \<Rightarrow> (s', (addr m, entry m s) # posted, got))"
| "history (Inr a # ops) s =
     (case take_all a s of (s1, ids) \<Rightarrow>
        case history ops s1 of (s', posted, got) \<Rightarrow> (s', posted, map (Pair a) ids @ got))"

definition sent_to :: "'a \<Rightarrow> ('a \<times> 'i) list \<Rightarrow> 'i list" where
  "sent_to a xs = map snd (filter (\<lambda>x. fst x = a) xs)"

lemma sent_to_simps [simp]:
  "sent_to a [] = []"
  "sent_to a (x # xs) = (if fst x = a then snd x # sent_to a xs else sent_to a xs)"
  "sent_to a (xs @ ys) = sent_to a xs @ sent_to a ys"
  "sent_to a (map (Pair b) is) = (if a = b then is else [])"
  by (auto simp: sent_to_def filter_map comp_def)

lemma taken_once:
  assumes "inv s" and "history ops s = (s', posted, got)"
  shows "inv s'" and "mset (sent_to a got) + mset (pending s' a) = mset (pending s a) + mset (sent_to a posted)"
proof -
  have "inv s' \<and> mset (sent_to a got) + mset (pending s' a) = mset (pending s a) + mset (sent_to a posted)"
    using assms
  proof (induction ops s arbitrary: s' posted got rule: history.induct)
    case (1 s)
    then show ?case by simp
  next
    case (2 m ops s)
    from "2.prems"(2) obtain p where h: "history ops (post m s) = (s', p, got)" "posted = (addr m, entry m s) # p"
      by (auto split: prod.splits)
    from "2.IH" [OF inv_post [OF "2.prems"(1)] h(1)] show ?case
      using pending_post [OF "2.prems"(1), of m a] h(2) by auto
  next
    case (3 b ops s)
    obtain s1 ids where t: "take_all b s = (s1, ids)" by fastforce
    with "3.prems"(2) obtain g where h: "history ops s1 = (s', posted, g)" "got = map (Pair b) ids @ g"
      by (auto split: prod.splits)
    have "inv s1" using inv_take [OF "3.prems"(1), of b] t by simp
    from "3.IH" [OF t [symmetric] this h(1)] show ?case
      using pending_take [OF "3.prems"(1), of b a] taken [OF "3.prems"(1), of b] t h(2) by auto
  qed
  then show "inv s'" and "mset (sent_to a got) + mset (pending s' a) = mset (pending s a) + mset (sent_to a posted)"
    by auto
qed

end

text \<open>A store that keeps the order of the posts: what is taken and what still waits is what was posted.\<close>

locale fifo_inbox = inbox +
  assumes pending_fifo: "inv s \<Longrightarrow> pending (post m s) b = pending s b @ (if b = addr m then [entry m s] else [])"
begin

lemma taken_in_order:
  assumes "inv s" and "history ops s = (s', posted, got)"
  shows "sent_to a got @ pending s' a = pending s a @ sent_to a posted"
  using assms
proof (induction ops s arbitrary: s' posted got rule: history.induct)
  case (1 s)
  then show ?case by simp
next
  case (2 m ops s)
  from "2.prems"(2) obtain p where h: "history ops (post m s) = (s', p, got)" "posted = (addr m, entry m s) # p"
    by (auto split: prod.splits)
  from "2.IH" [OF inv_post [OF "2.prems"(1)] h(1)] show ?case
    using pending_fifo [OF "2.prems"(1), of m a] h(2) by auto
next
  case (3 b ops s)
  obtain s1 ids where t: "take_all b s = (s1, ids)" by fastforce
  with "3.prems"(2) obtain g where h: "history ops s1 = (s', posted, g)" "got = map (Pair b) ids @ g"
    by (auto split: prod.splits)
  have "inv s1" using inv_take [OF "3.prems"(1), of b] t by simp
  from "3.IH" [OF t [symmetric] this h(1)] show ?case
    using pending_take [OF "3.prems"(1), of b a] taken [OF "3.prems"(1), of b] t h(2) by auto
qed

end

section \<open>The mailbox is such a store\<close>

text \<open>Ids are drawn from the part of the sequence already used, and every row has a known type.\<close>

definition mailbox_ok :: "env \<Rightarrow> team_db \<Rightarrow> bool" where
  "mailbox_ok E s \<longleftrightarrow> distinct_ids E \<and> distinct (map mr_id (tb_mailbox s)) \<and>
     (\<forall>r\<in>set (tb_mailbox s). mr_msg_type r \<in> set message_types \<and> (\<exists>k<tb_tick s. mr_id r = mint_id E k))"

text \<open>With a clock that never runs backwards, rows are in the order of their timestamps.\<close>

definition mailbox_in_order :: "env \<Rightarrow> team_db \<Rightarrow> bool" where
  "mailbox_in_order E s \<longleftrightarrow> mailbox_ok E s \<and> mono (clock E) \<and> sorted (map mr_created_at (tb_mailbox s)) \<and>
     (\<forall>r\<in>set (tb_mailbox s). mr_created_at r \<le> clock E (tb_tick s))"

lemma message_from_row_known:
  "mr_msg_type r \<in> set message_types \<Longrightarrow> \<exists>m. message_from_row J r = Some m \<and> mm_id m = mr_id r"
  by (auto simp: message_from_row_def message_types_def msg_type_parse_def)

text \<open>\<open>(team, to, sender, type, content, summary, files)\<close>\<close>

type_synonym letter =
  "string \<times> string \<times> string \<times> mailbox_message_type \<times> string \<times> string option \<times> string list option"

definition letter_row :: "env \<Rightarrow> json \<Rightarrow> letter \<Rightarrow> team_db \<Rightarrow> mailbox_message_row" where
  "letter_row E J l s = (case l of (t, a, sender, ty, content, summary, files) \<Rightarrow>
     message_row E J t a sender ty content summary files s)"

definition letter_write :: "env \<Rightarrow> json \<Rightarrow> letter \<Rightarrow> team_db \<Rightarrow> (team_db, team_error, mailbox_message) outcome" where
  "letter_write E J l s = (case l of (t, a, sender, ty, content, summary, files) \<Rightarrow>
     write_with_files E J t a sender ty content summary files s)"

definition letter_addr :: "letter \<Rightarrow> string \<times> string" where
  "letter_addr l = (fst l, fst (snd l))"

definition letter_message :: "env \<Rightarrow> json \<Rightarrow> letter \<Rightarrow> team_db \<Rightarrow> mailbox_message" where
  "letter_message E J l s = the (message_from_row J (letter_row E J l s))"

lemma letter_row_simps [simp]:
  "mr_id (letter_row E J l s) = mint_id E (tb_tick s)"
  "(mr_team_id (letter_row E J l s), mr_to_agent_id (letter_row E J l s)) = letter_addr l"
  "mr_msg_type (letter_row E J l s) \<in> set message_types"
  "mr_read (letter_row E J l s) = False"
  "mr_created_at (letter_row E J l s) = clock E (tb_tick s)"
proof -
  have "msg_type_to_string ty \<in> set message_types" for ty by (cases ty) (simp_all add: message_types_def)
  then show "mr_msg_type (letter_row E J l s) \<in> set message_types"
    by (simp add: letter_row_def message_row_def split: prod.splits)
qed (simp_all add: letter_row_def message_row_def letter_addr_def split: prod.splits)

lemma letter_message_Some: "message_from_row J (letter_row E J l s) = Some (letter_message E J l s)"
  using message_from_row_known [of "letter_row E J l s" J] by (auto simp: letter_message_def)

lemma fresh_message: "mailbox_ok E s \<Longrightarrow> r \<in> set (tb_mailbox s) \<Longrightarrow> mr_id r \<noteq> mint_id E (tb_tick s)"
  by (auto simp: mailbox_ok_def) (metis mint_id_eq less_irrefl)

text \<open>A write succeeds, appends its row and returns it.\<close>

lemma letter_write_eq:
  assumes "mailbox_ok E s"
  shows "letter_write E J l s =
    (s\<lparr>tb_tick := Suc (tb_tick s), tb_mailbox := tb_mailbox s @ [letter_row E J l s]\<rparr>, Inr (letter_message E J l s))"
proof -
  obtain t a f ty c su fi where l: "l = (t, a, f, ty, c, su, fi)" by (cases l)
  have "write_message (letter_row E J l s) (s\<lparr>tb_tick := Suc (tb_tick s)\<rparr>) =
    (s\<lparr>tb_tick := Suc (tb_tick s), tb_mailbox := tb_mailbox s @ [letter_row E J l s]\<rparr>, Inr ())"
    using fresh_message [OF assms] by (auto simp: write_message_def)
  with letter_message_Some [of J E l s] show ?thesis
    by (simp add: letter_write_def write_with_files_def Let_def l letter_row_def)
qed

lemma mailbox_ok_write: "mailbox_ok E s \<Longrightarrow> mailbox_ok E (fst (letter_write E J l s))"
  using fresh_message [of E s] by (auto simp: letter_write_eq mailbox_ok_def less_Suc_eq)

lemma from_rows_append [simp]: "from_rows J (xs @ ys) = from_rows J xs @ from_rows J ys"
  by (simp add: from_rows_def List.map_filter_def)

lemma mset_from_rows: "mset xs = mset ys \<Longrightarrow> mset (from_rows J xs) = mset (from_rows J ys)"
  unfolding from_rows_def List.map_filter_def by (metis mset_filter mset_map)

lemma from_rows_Nil [simp]: "from_rows J [] = []"
  by (simp add: from_rows_def List.map_filter_def)

lemma from_rows_letter [simp]: "from_rows J [letter_row E J l s] = [letter_message E J l s]"
  by (simp add: from_rows_def List.map_filter_def letter_message_Some)

lemma pending_mset: "mset (mailbox_peek_unread J t a s) = mset (from_rows J (filter (unread_for t a) (tb_mailbox s)))"
  unfolding mailbox_peek_unread_def by (rule mset_from_rows) (simp add: peek_unread_def)

lemma filter_unread_letter:
  "filter (unread_for t b) [letter_row E J l s] = (if (t, b) = letter_addr l then [letter_row E J l s] else [])"
  by (cases l) (auto simp: letter_addr_def letter_row_def message_row_def)

lemma tb_mailbox_read:
  "tb_mailbox (fst (read_unread_and_mark t a s)) =
     update_where (unread_for t a) (\<lambda>r. r\<lparr>mr_read := True\<rparr>) (tb_mailbox s)"
proof (cases "filter (unread_for t a) (tb_mailbox s) = []")
  case True
  then have "update_where (unread_for t a) (\<lambda>r. r\<lparr>mr_read := True\<rparr>) (tb_mailbox s) = tb_mailbox s"
    unfolding update_where_def by (intro map_idI) (auto simp: filter_empty_conv)
  with True show ?thesis by (simp add: read_unread_and_mark_def)
next
  case False
  then have "sort_key mr_created_at (filter (unread_for t a) (tb_mailbox s)) \<noteq> []"
    by (metis set_empty set_sort)
  then show ?thesis by (simp add: read_unread_and_mark_def)
qed

lemma tb_tick_read: "tb_tick (fst (read_unread_and_mark t a s)) = tb_tick s"
  by (simp add: read_unread_and_mark_def Let_def)

lemma read_unread_simps:
  "fst (read_unread J t a s) = fst (read_unread_and_mark t a s)"
  "snd (read_unread J t a s) = mailbox_peek_unread J t a s"
  by (simp_all add: read_unread_def mailbox_peek_unread_def read_unread_and_mark_def peek_unread_def Let_def)

lemma mailbox_ok_read: "mailbox_ok E s \<Longrightarrow> mailbox_ok E (fst (read_unread_and_mark t a s))"
  by (auto simp: mailbox_ok_def tb_mailbox_read tb_tick_read update_where_key in_update_where)

lemma filter_unread_marked:
  "filter (unread_for t' b) (update_where (unread_for t a) (\<lambda>r. r\<lparr>mr_read := True\<rparr>) rows) =
     (if (t', b) = (t, a) then [] else filter (unread_for t' b) rows)"
proof -
  have "unread_for t' b (if unread_for t a r then r\<lparr>mr_read := True\<rparr> else r) \<longleftrightarrow>
    (t', b) \<noteq> (t, a) \<and> unread_for t' b r" for r :: mailbox_message_row
    by simp blast
  moreover have "(t', b) \<noteq> (t, a) \<Longrightarrow> unread_for t' b r \<Longrightarrow> \<not> unread_for t a r" for r :: mailbox_message_row
    by auto
  ultimately show ?thesis
    unfolding update_where_def filter_map comp_def by (auto intro!: map_idI)
qed

lemma unread_after_read:
  "mailbox_peek_unread J t' b (fst (read_unread_and_mark t a s)) =
     (if (t', b) = (t, a) then [] else mailbox_peek_unread J t' b s)"
  by (simp add: mailbox_peek_unread_def peek_unread_def tb_mailbox_read filter_unread_marked from_rows_def)

definition letter_post :: "env \<Rightarrow> json \<Rightarrow> letter \<Rightarrow> team_db \<Rightarrow> team_db" where
  "letter_post E J l s = fst (letter_write E J l s)"

definition mailbox_pending :: "json \<Rightarrow> team_db \<Rightarrow> string \<times> string \<Rightarrow> mailbox_message list" where
  "mailbox_pending J s ta = mailbox_peek_unread J (fst ta) (snd ta) s"

definition mailbox_take :: "json \<Rightarrow> string \<times> string \<Rightarrow> team_db \<Rightarrow> team_db \<times> mailbox_message list" where
  "mailbox_take J ta s = read_unread J (fst ta) (snd ta) s"

interpretation mailbox_store: inbox "mailbox_ok E" letter_addr "letter_message E J"
  "letter_post E J" "mailbox_take J" "mailbox_pending J" for E J
proof
  fix s a b and m :: letter
  assume ok: "mailbox_ok E s"
  show "mailbox_ok E (letter_post E J m s)"
    unfolding letter_post_def by (rule mailbox_ok_write [OF ok])
  show "mailbox_ok E (fst (mailbox_take J a s))"
    by (simp add: mailbox_take_def read_unread_simps mailbox_ok_read [OF ok])
  show "mset (mailbox_pending J (letter_post E J m s) b) =
      mset (mailbox_pending J s b) + (if b = letter_addr m then {#letter_message E J m s#} else {#})"
    by (cases b) (simp add: mailbox_pending_def pending_mset letter_post_def letter_write_eq [OF ok]
        filter_append filter_unread_letter del: filter.simps)
  show "snd (mailbox_take J a s) = mailbox_pending J s a"
    by (simp add: mailbox_take_def mailbox_pending_def read_unread_simps)
  show "mailbox_pending J (fst (mailbox_take J a s)) b = (if b = a then [] else mailbox_pending J s b)"
    by (simp add: mailbox_take_def mailbox_pending_def read_unread_simps unread_after_read prod_eq_iff)
qed

text \<open>With the rows in the order of their timestamps, \<open>ORDER BY created_at\<close> is the order of the writes.\<close>

lemma sort_key_sorted: "sorted (map f xs) \<Longrightarrow> sort_key f xs = xs"
  by (induction xs) (auto simp: insort_key_left_comm intro: insort_is_Cons)

lemma peek_in_order:
  "sorted (map mr_created_at (tb_mailbox s)) \<Longrightarrow> peek_unread t a s = filter (unread_for t a) (tb_mailbox s)"
  unfolding peek_unread_def by (rule sort_key_sorted) (rule sorted_filter)

lemma in_order_ok: "mailbox_in_order E s \<Longrightarrow> mailbox_ok E s"
  by (simp add: mailbox_in_order_def)

lemma in_order_write:
  assumes "mailbox_in_order E s"
  shows "mailbox_in_order E (letter_post E J l s)"
proof -
  have ok: "mailbox_ok E s" and mono: "mono (clock E)" and sorted: "sorted (map mr_created_at (tb_mailbox s))"
    and le: "\<forall>r\<in>set (tb_mailbox s). mr_created_at r \<le> clock E (tb_tick s)"
    using assms by (simp_all add: mailbox_in_order_def)
  have "clock E (tb_tick s) \<le> clock E (Suc (tb_tick s))" by (rule monoD [OF mono]) simp
  moreover have "mailbox_ok E (letter_post E J l s)"
    unfolding letter_post_def by (rule mailbox_ok_write [OF ok])
  ultimately show ?thesis
    using mono sorted le by (fastforce simp: mailbox_in_order_def letter_post_def letter_write_eq [OF ok] sorted_append)
qed

lemma in_order_read:
  "mailbox_in_order E s \<Longrightarrow> mailbox_in_order E (fst (mailbox_take J a s))"
  by (auto simp: mailbox_in_order_def mailbox_take_def read_unread_simps mailbox_ok_read tb_mailbox_read
      tb_tick_read update_where_key in_update_where)

interpretation mailbox_fifo: fifo_inbox "mailbox_in_order E" letter_addr "letter_message E J"
  "letter_post E J" "mailbox_take J" "mailbox_pending J" for E J
proof
  fix s a b and m :: letter
  assume ord: "mailbox_in_order E s"
  then have ok: "mailbox_ok E s" and sorted: "sorted (map mr_created_at (tb_mailbox s))"
    by (simp_all add: mailbox_in_order_def)
  show "mailbox_in_order E (letter_post E J m s)" by (rule in_order_write [OF ord])
  then have sorted': "sorted (map mr_created_at (tb_mailbox (letter_post E J m s)))"
    by (simp add: mailbox_in_order_def)
  show "mailbox_in_order E (fst (mailbox_take J a s))" by (rule in_order_read [OF ord])
  show "mset (mailbox_pending J (letter_post E J m s) b) =
      mset (mailbox_pending J s b) + (if b = letter_addr m then {#letter_message E J m s#} else {#})"
    by (rule mailbox_store.pending_post [OF ok])
  show "snd (mailbox_take J a s) = mailbox_pending J s a" by (rule mailbox_store.taken [OF ok])
  show "mailbox_pending J (fst (mailbox_take J a s)) b = (if b = a then [] else mailbox_pending J s b)"
    by (rule mailbox_store.pending_take [OF ok])
  show "mailbox_pending J (letter_post E J m s) b =
      mailbox_pending J s b @ (if b = letter_addr m then [letter_message E J m s] else [])"
    using peek_in_order [OF sorted'] peek_in_order [OF sorted]
    by (cases b) (simp add: mailbox_pending_def mailbox_peek_unread_def letter_post_def letter_write_eq [OF ok]
        filter_append filter_unread_letter del: filter.simps)
qed

section \<open>Exactly once, in order\<close>

text \<open>A history of writes (\<open>Inl\<close>) and reads (\<open>Inr\<close>): the messages written to and read by each agent.\<close>

fun mailbox_run :: "env \<Rightarrow> json \<Rightarrow> (letter + string \<times> string) list \<Rightarrow> team_db
    \<Rightarrow> team_db \<times> ((string \<times> string) \<times> mailbox_message) list \<times> ((string \<times> string) \<times> mailbox_message) list" where
  "mailbox_run E J [] s = (s, [], [])"
| "mailbox_run E J (Inl l # ops) s =
     (case letter_write E J l s of
        (s1, r) \<Rightarrow>
          case mailbox_run E J ops s1 of
            (s', written, got) \<Rightarrow> (s', (case r of Inl _ \<Rightarrow> written | Inr m \<Rightarrow> (letter_addr l, m) # written), got))"
| "mailbox_run E J (Inr a # ops) s =
     (case read_unread J (fst a) (snd a) s of
        (s1, ms) \<Rightarrow> case mailbox_run E J ops s1 of (s', written, got) \<Rightarrow> (s', written, map (Pair a) ms @ got))"

lemma mailbox_run_history:
  "mailbox_ok E s \<Longrightarrow> mailbox_run E J ops s = mailbox_store.history E J ops s"
proof (induction E J ops s rule: mailbox_run.induct)
  case (1 E J s)
  then show ?case by simp
next
  case (2 E J l ops s)
  have w: "letter_write E J l s = (letter_post E J l s, Inr (letter_message E J l s))"
    by (simp add: letter_post_def letter_write_eq [OF "2.prems"])
  have "mailbox_ok E (letter_post E J l s)" by (rule mailbox_store.inv_post [OF "2.prems"])
  with "2.IH" [OF w [symmetric]] w show ?case
    by (simp split: prod.splits)
next
  case (3 E J a ops s)
  obtain s1 ms where read: "read_unread J (fst a) (snd a) s = (s1, ms)" by fastforce
  then have take: "mailbox_take J a s = (s1, ms)" by (simp add: mailbox_take_def)
  have "mailbox_ok E s1" using mailbox_store.inv_take [OF "3.prems", of J a] take by simp
  with "3.IH" [OF read [symmetric]] read take show ?case
    by (simp split: prod.splits)
qed

abbreviation for_agent :: "string \<Rightarrow> string \<Rightarrow> ((string \<times> string) \<times> mailbox_message) list \<Rightarrow> mailbox_message list" where
  "for_agent t a xs \<equiv> map snd (filter (\<lambda>x. fst x = (t, a)) xs)"

lemma for_agent_sent_to: "for_agent t a xs = mailbox_store.sent_to (t, a) xs"
  by (simp add: mailbox_store.sent_to_def)

definition empty_team_db :: team_db where
  "empty_team_db = \<lparr>tb_teams = [], tb_mailbox = [], tb_tasks = [], tb_tick = 0\<rparr>"

lemma mailbox_ok_empty [simp]: "distinct_ids E \<Longrightarrow> mailbox_ok E empty_team_db"
  by (simp add: mailbox_ok_def empty_team_db_def)

lemma mailbox_in_order_empty [simp]: "distinct_ids E \<Longrightarrow> mono (clock E) \<Longrightarrow> mailbox_in_order E empty_team_db"
  by (simp add: mailbox_in_order_def mailbox_ok_empty) (simp add: empty_team_db_def)

lemma peek_empty [simp]: "mailbox_peek_unread J t a empty_team_db = []"
  by (simp add: mailbox_peek_unread_def peek_unread_def empty_team_db_def)

text \<open>C12. Along any sequence of writes and reads from an empty database, the messages an agent has read
  together with the ones it has not read yet are exactly the messages written to it: a message is
  neither lost nor delivered twice, whatever the clock does.\<close>

theorem messages_delivered_once:
  assumes "distinct_ids E" and "mailbox_run E J ops empty_team_db = (s, written, got)"
  shows "mset (for_agent t a got) + mset (mailbox_peek_unread J t a s) = mset (for_agent t a written)"
  using mailbox_store.taken_once(2) [OF mailbox_ok_empty [OF assms(1)], of J ops s written got "(t, a)"]
    assms(2) mailbox_run_history [OF mailbox_ok_empty [OF assms(1)], of J ops]
  by (simp add: for_agent_sent_to mailbox_pending_def)

definition demo_letter :: "string \<Rightarrow> string \<Rightarrow> letter" where
  "demo_letter to_agent content = (''t'', to_agent, ''user'', MsgMessage, content, None, Some [''f''])"

definition demo_mail :: "(letter + string \<times> string) list" where
  "demo_mail = [Inl (demo_letter ''a'' ''one''), Inl (demo_letter ''b'' ''two''), Inl (demo_letter ''a'' ''three''),
     Inr (''t'', ''a''), Inl (demo_letter ''a'' ''four''), Inr (''t'', ''c'')]"

lemma messages_delivered_once_witness:
  "case mailbox_run sample_env demo_json demo_mail empty_team_db of (s, written, got) \<Rightarrow>
     mset (for_agent ''t'' ''a'' got) + mset (mailbox_peek_unread demo_json ''t'' ''a'' s) =
       mset (for_agent ''t'' ''a'' written) \<and>
     map mm_content (for_agent ''t'' ''a'' got) = [''one'', ''three'']"
proof -
  obtain s written got where r: "mailbox_run sample_env demo_json demo_mail empty_team_db = (s, written, got)"
    by (metis prod_cases3)
  have "map mm_content (for_agent ''t'' ''a'' (snd (snd (mailbox_run sample_env demo_json demo_mail empty_team_db)))) =
    [''one'', ''three'']" by code_simp
  with r messages_delivered_once [OF sample_env_distinct r, of "''t''" "''a''"] show ?thesis by simp
qed

text \<open>With a clock that never runs backwards the messages of an agent are delivered in the order
  they were written.\<close>

lemma messages_delivered_in_order:
  assumes "distinct_ids E" and "mono (clock E)" and "mailbox_run E J ops empty_team_db = (s, written, got)"
  shows "for_agent t a got @ mailbox_peek_unread J t a s = for_agent t a written"
  using mailbox_fifo.taken_in_order [OF mailbox_in_order_empty [OF assms(1,2)], of J ops s written got "(t, a)"]
    assms(3) mailbox_run_history [OF mailbox_ok_empty [OF assms(1)], of J ops]
  by (simp add: for_agent_sent_to mailbox_pending_def)

lemma messages_delivered_in_order_witness:
  "case mailbox_run sample_env demo_json demo_mail empty_team_db of (s, written, got) \<Rightarrow>
     for_agent ''t'' ''a'' got @ mailbox_peek_unread demo_json ''t'' ''a'' s = for_agent ''t'' ''a'' written \<and>
     map mm_content (for_agent ''t'' ''a'' written) = [''one'', ''three'', ''four'']"
proof -
  obtain s written got where r: "mailbox_run sample_env demo_json demo_mail empty_team_db = (s, written, got)"
    by (metis prod_cases3)
  have "map mm_content (for_agent ''t'' ''a'' (fst (snd (mailbox_run sample_env demo_json demo_mail empty_team_db)))) =
    [''one'', ''three'', ''four'']" by code_simp
  with r messages_delivered_in_order [OF sample_env_distinct sample_env_mono r, of "''t''" "''a''"] show ?thesis by simp
qed

section \<open>Marking the unread messages of cancelled agents\<close>

lemma from_rows_known:
  assumes "mailbox_ok E s" and "set rows \<subseteq> set (tb_mailbox s)"
  shows "map mm_id (from_rows J rows) = map mr_id rows"
  using assms
proof (induction rows)
  case (Cons r rows)
  then have "mr_msg_type r \<in> set message_types" by (auto simp: mailbox_ok_def)
  from message_from_row_known [OF this, of J] Cons show ?case by (auto simp: from_rows_def)
qed simp

lemma ids_unread:
  "mailbox_ok E s \<Longrightarrow> map mm_id (mailbox_peek_unread J t a s) = map mr_id (peek_unread t a s)"
  unfolding mailbox_peek_unread_def by (rule from_rows_known) (auto simp: peek_unread_def)

lemma key_in_set: "distinct (map f xs) \<Longrightarrow> x \<in> set xs \<Longrightarrow> f x \<in> f ` A \<Longrightarrow> A \<subseteq> set xs \<Longrightarrow> x \<in> A"
  by (auto simp: distinct_map inj_on_def)

lemma marked_ids:
  assumes "mailbox_ok E s"
  shows "concat (map (\<lambda>a. map mm_id (mailbox_peek_unread J t a s)) agents) =
    concat (map (\<lambda>a. map mr_id (peek_unread t a s)) agents)"
  by (simp add: ids_unread [OF assms])

lemma mark_all_unread_eq:
  "mark_all_unread_for_agents_read J t agents s =
     (mark_read_batch (concat (map (\<lambda>a. map mm_id (mailbox_peek_unread J t a s)) agents)) s,
      length (concat (map (\<lambda>a. map mm_id (mailbox_peek_unread J t a s)) agents)))"
  by (simp add: mark_all_unread_for_agents_read_def mark_read_batch_def Let_def)

lemma marked_rows:
  assumes ok: "mailbox_ok E s" and run: "mark_all_unread_for_agents_read J t agents s = (s', n)"
  shows "tb_mailbox s' =
    map (\<lambda>r. if mr_team_id r = t \<and> mr_to_agent_id r \<in> set agents then r\<lparr>mr_read := True\<rparr> else r) (tb_mailbox s)"
proof -
  let ?U = "{r \<in> set (tb_mailbox s). mr_team_id r = t \<and> mr_to_agent_id r \<in> set agents \<and> \<not> mr_read r}"
  let ?ids = "concat (map (\<lambda>a. map mr_id (peek_unread t a s)) agents)"
  have set_ids: "set ?ids = mr_id ` ?U" by (auto simp: peek_unread_def)
  have s': "tb_mailbox s' = map (\<lambda>r. if mr_id r \<in> set ?ids then r\<lparr>mr_read := True\<rparr> else r) (tb_mailbox s)"
    using run unfolding mark_all_unread_eq marked_ids [OF ok] by (auto simp only: tb_mailbox_mark_read_batch prod.inject)
  show ?thesis unfolding s'
  proof (rule map_cong [OF refl])
    fix r assume r: "r \<in> set (tb_mailbox s)"
    have "mr_id r \<in> set ?ids \<longleftrightarrow> r \<in> ?U"
    proof
      assume "mr_id r \<in> set ?ids"
      then have "mr_id r \<in> mr_id ` ?U" by (simp only: set_ids)
      then show "r \<in> ?U" by (rule key_in_set [OF _ r, rotated]) (use ok in \<open>auto simp: mailbox_ok_def\<close>)
    qed (simp only: set_ids image_eqI)
    then show "(if mr_id r \<in> set ?ids then r\<lparr>mr_read := True\<rparr> else r) =
      (if mr_team_id r = t \<and> mr_to_agent_id r \<in> set agents then r\<lparr>mr_read := True\<rparr> else r)"
      using r by (cases "mr_read r") simp_all
  qed
qed

lemma marked_count:
  assumes "mailbox_ok E s" and "distinct agents"
    and "mark_all_unread_for_agents_read J t agents s = (s', n)"
  shows "n = length (filter (\<lambda>r. mr_team_id r = t \<and> mr_to_agent_id r \<in> set agents \<and> \<not> mr_read r) (tb_mailbox s))"
proof -
  have "n = (\<Sum>a\<leftarrow>agents. length (filter (unread_for t a) (tb_mailbox s)))"
    using assms(3) by (simp add: mark_all_unread_for_agents_read_def marked_ids [OF assms(1)] Let_def length_concat comp_def peek_unread_def)
  also have "\<dots> = length (filter (\<lambda>r. mr_team_id r = t \<and> mr_to_agent_id r \<in> set agents \<and> \<not> mr_read r) (tb_mailbox s))"
    using assms(2)
  proof (induction agents)
    case (Cons a as)
    have "length (filter (\<lambda>r. mr_team_id r = t \<and> mr_to_agent_id r \<in> set (a # as) \<and> \<not> mr_read r) xs) =
      length (filter (unread_for t a) xs) +
      length (filter (\<lambda>r. mr_team_id r = t \<and> mr_to_agent_id r \<in> set as \<and> \<not> mr_read r) xs)" for xs
      using Cons.prems by (induction xs) auto
    with Cons show ?case by simp
  qed simp
  finally show ?thesis .
qed

text \<open>Marking the unread messages of a list of agents as read marks exactly these: the rows of other
  agents, other teams and their contents stay as they are, nothing stays unread for the listed agents,
  and the number returned counts the messages marked, each agent being listed once.\<close>

lemma mark_all_unread_marks_exactly:
  assumes "mailbox_ok E s" and "distinct agents"
    and "mark_all_unread_for_agents_read J t agents s = (s', n)"
  shows "tb_mailbox s' = map (\<lambda>r. if mr_team_id r = t \<and> mr_to_agent_id r \<in> set agents then r\<lparr>mr_read := True\<rparr> else r) (tb_mailbox s) \<and>
    n = length (filter (\<lambda>r. mr_team_id r = t \<and> mr_to_agent_id r \<in> set agents \<and> \<not> mr_read r) (tb_mailbox s))"
proof
  show "tb_mailbox s' = map (\<lambda>r. if mr_team_id r = t \<and> mr_to_agent_id r \<in> set agents then r\<lparr>mr_read := True\<rparr> else r) (tb_mailbox s)"
    by (rule marked_rows [OF assms(1,3)])
  show "n = length (filter (\<lambda>r. mr_team_id r = t \<and> mr_to_agent_id r \<in> set agents \<and> \<not> mr_read r) (tb_mailbox s))"
    by (rule marked_count [OF assms])
qed

lemma mark_all_unread_witness:
  "case mark_all_unread_for_agents_read demo_json ''t'' [''a'', ''c''] (fst (mailbox_run sample_env demo_json demo_mail empty_team_db)) of (s', n) \<Rightarrow>
     n = 1 \<and> map mr_read (tb_mailbox s') = [True, False, True, True]"
proof -
  let ?s = "fst (mailbox_run sample_env demo_json demo_mail empty_team_db)"
  obtain s' n where r: "mark_all_unread_for_agents_read demo_json ''t'' [''a'', ''c''] ?s = (s', n)" by fastforce
  have ok: "mailbox_ok sample_env ?s"
    using mailbox_store.taken_once(1) [OF mailbox_ok_empty [OF sample_env_distinct], of demo_json demo_mail]
      mailbox_run_history [OF mailbox_ok_empty [OF sample_env_distinct], of demo_json demo_mail]
    by (metis prod_cases3 fst_conv)
  have "distinct [''a'', ''c'']" by simp
  note marked = mark_all_unread_marks_exactly [OF ok this r]
  have rows: "map mr_read (map (\<lambda>r. if mr_team_id r = ''t'' \<and> mr_to_agent_id r \<in> set [''a'', ''c''] then r\<lparr>mr_read := True\<rparr> else r) (tb_mailbox ?s)) =
    [True, False, True, True]" by code_simp
  have "length (filter (\<lambda>r. mr_team_id r = ''t'' \<and> mr_to_agent_id r \<in> set [''a'', ''c''] \<and> \<not> mr_read r) (tb_mailbox ?s)) = 1"
    by code_simp
  with rows marked r show ?thesis by simp
qed

end
