(* ===== verification/TaskBoard.thy ===== *)
theory TaskBoard
  imports TeamRepo Mailbox
begin

text \<open>
  \<open>TaskBoard\<close> (\<open>aionui-team/src/task_board.rs\<close>): tasks of a team with \<open>blocked_by\<close> and \<open>blocks\<close> lists. The
  invariant \<open>board_ok\<close> says that the two lists describe one dependency graph; completing a task
  then removes it from the \<open>blocked_by\<close> of every task.
\<close>

section \<open>Operations\<close>

record board_update =
  bu_status :: "board_status option"
  bu_description :: "string option"
  bu_owner :: "string option"
  bu_blocked_by :: "string list option"
  bu_metadata :: "string option"

definition new_board_row :: "env \<Rightarrow> json \<Rightarrow> string \<Rightarrow> string \<Rightarrow> string option \<Rightarrow> string option \<Rightarrow> string list
    \<Rightarrow> team_db \<Rightarrow> team_task_row" where
  "new_board_row E J team_id subject description owner blocked_by s =
     \<lparr>br_id = mint_id E (tb_tick s), br_team_id = team_id, br_subject = subject, br_description = description,
      br_status = board_status_to_string Pending, br_owner = owner, br_blocked_by = ser_list J blocked_by,
      br_blocks = ''[]'', br_metadata = None, br_created_at = clock E (tb_tick s),
      br_updated_at = clock E (tb_tick s)\<rparr>"

fun check_deps :: "string \<Rightarrow> string list \<Rightarrow> team_db \<Rightarrow> team_error + unit" where
  "check_deps team_id [] s = Inr ()"
| "check_deps team_id (dep_id # deps) s =
     (case find_task_by_id team_id dep_id s of
        None \<Rightarrow> Inl (BlockedTaskNotFound dep_id)
      | Some _ \<Rightarrow> check_deps team_id deps s)"

definition read_back :: "json \<Rightarrow> team_task_row \<Rightarrow> team_db \<Rightarrow> (team_db, team_error, team_task) outcome" where
  "read_back J row s = (case task_from_row J row of None \<Rightarrow> (s, Inl TeamJson) | Some t \<Rightarrow> (s, Inr t))"

definition create_task_on_board :: "env \<Rightarrow> json \<Rightarrow> string \<Rightarrow> string \<Rightarrow> string option \<Rightarrow> string option \<Rightarrow> string list
    \<Rightarrow> team_db \<Rightarrow> (team_db, team_error, team_task) outcome" where
  "create_task_on_board E J team_id subject description owner blocked_by s =
     (case check_deps team_id blocked_by s of
        Inl e \<Rightarrow> (s, Inl e)
      | Inr _ \<Rightarrow>
          let row = new_board_row E J team_id subject description owner blocked_by s
          in and_then (map_err (\<lambda>_. TeamDatabase) (create_board_task row (s\<lparr>tb_tick := Suc (tb_tick s)\<rparr>))) (\<lambda>_ s.
             and_then (map_err (\<lambda>_. TeamDatabase)
               (for_each (\<lambda>dep_id. append_to_blocks E J dep_id (br_id row)) blocked_by s)) (\<lambda>_ s.
             read_back J row s)))"

definition check_unblocks :: "env \<Rightarrow> json \<Rightarrow> string \<Rightarrow> team_task_row \<Rightarrow> team_db \<Rightarrow> (team_db, team_error, unit) outcome" where
  "check_unblocks E J completed_task_id completed_row s =
     (case de_list J (br_blocks completed_row) of
        None \<Rightarrow> (s, Inl TeamJson)
      | Some blocks \<Rightarrow> map_err (\<lambda>_. TeamDatabase)
          (for_each (\<lambda>downstream_id. remove_from_blocked_by E J downstream_id completed_task_id) blocks s))"

definition update_params :: "json \<Rightarrow> board_update \<Rightarrow> update_task_params" where
  "update_params J u =
     \<lparr>tp_status = map_option board_status_to_string (bu_status u), tp_description = bu_description u,
      tp_owner = bu_owner u, tp_blocked_by = map_option (ser_list J) (bu_blocked_by u),
      tp_metadata = bu_metadata u\<rparr>"

definition update_task_on_board :: "env \<Rightarrow> json \<Rightarrow> string \<Rightarrow> string \<Rightarrow> board_update
    \<Rightarrow> team_db \<Rightarrow> (team_db, team_error, team_task) outcome" where
  "update_task_on_board E J team_id task_id u s =
     (case find_task_by_id team_id task_id s of
        None \<Rightarrow> (s, Inl (BoardTaskNotFound task_id))
      | Some existing \<Rightarrow>
          and_then (map_err (\<lambda>_. TeamDatabase) (update_board_row E task_id (update_params J u) s)) (\<lambda>_ s.
          and_then (if bu_status u = Some Completed then check_unblocks E J task_id existing s else (s, Inr ())) (\<lambda>_ s.
          case find_task_by_id team_id task_id s of
            None \<Rightarrow> (s, Inl (BoardTaskNotFound task_id))
          | Some updated \<Rightarrow> read_back J updated s)))"

definition board_list_tasks :: "json \<Rightarrow> string \<Rightarrow> team_db \<Rightarrow> team_task list" where
  "board_list_tasks J team_id s = List.map_filter (task_from_row J) (list_board_rows team_id s)"

section \<open>The dependency graph\<close>

text \<open>
  The two lists of every row are readable; \<open>t\<close> is blocked by \<open>d\<close> only if \<open>d\<close> is a task of the same team
  that lists \<open>t\<close> in its \<open>blocks\<close>; the ids in \<open>blocks\<close> are tasks of the team.
\<close>

definition blockers :: "json \<Rightarrow> team_task_row \<Rightarrow> string list" where
  "blockers J r = read_list J (br_blocked_by r)"

definition blocking :: "json \<Rightarrow> team_task_row \<Rightarrow> string list" where
  "blocking J r = read_list J (br_blocks r)"

definition readable :: "json \<Rightarrow> team_task_row \<Rightarrow> bool" where
  "readable J r \<longleftrightarrow> de_list J (br_blocked_by r) \<noteq> None \<and> de_list J (br_blocks r) \<noteq> None \<and>
     (case br_metadata r of None \<Rightarrow> True | Some v \<Rightarrow> de_value J v \<noteq> None)"

definition links_ok :: "json \<Rightarrow> team_task_row list \<Rightarrow> bool" where
  "links_ok J rows \<longleftrightarrow>
     (\<forall>r\<in>set rows. \<forall>d\<in>set (blockers J r). \<exists>q\<in>set rows. br_id q = d \<and> br_team_id q = br_team_id r \<and> br_id r \<in> set (blocking J q)) \<and>
     (\<forall>q\<in>set rows. \<forall>i\<in>set (blocking J q). \<exists>r\<in>set rows. br_id r = i \<and> br_team_id r = br_team_id q)"

definition board_ok :: "env \<Rightarrow> json \<Rightarrow> team_db \<Rightarrow> bool" where
  "board_ok E J s \<longleftrightarrow> distinct_ids E \<and> json_ok J \<and> distinct (map br_id (tb_tasks s)) \<and>
     (\<forall>r\<in>set (tb_tasks s). readable J r \<and> (\<exists>k<tb_tick s. br_id r = mint_id E k)) \<and> links_ok J (tb_tasks s)"

lemma json_ok_simps:
  "json_ok J \<Longrightarrow> de_list J (ser_list J xs) = Some xs"
  "json_ok J \<Longrightarrow> de_list J ''[]'' = Some []"
  "json_ok J \<Longrightarrow> read_list J (ser_list J xs) = xs"
  "json_ok J \<Longrightarrow> read_list J ''[]'' = []"
  by (simp_all add: json_ok_def read_list_def)

lemma task_from_row_readable: "readable J r \<Longrightarrow> \<exists>t. task_from_row J r = Some t \<and> bt_id t = br_id r \<and>
    bt_blocked_by t = blockers J r \<and> bt_blocks t = blocking J r"
  by (auto simp: readable_def task_from_row_def blockers_def blocking_def read_list_def split: option.splits)

lemma read_back_readable: "readable J r \<Longrightarrow> \<exists>t. read_back J r s = (s, Inr t) \<and> task_from_row J r = Some t"
  using task_from_row_readable [of J r] by (auto simp: read_back_def)

section \<open>What the list updates do\<close>

definition same_task :: "team_task_row \<Rightarrow> team_task_row \<Rightarrow> bool" where
  "same_task r r' \<longleftrightarrow> br_id r' = br_id r \<and> br_team_id r' = br_team_id r \<and> br_subject r' = br_subject r \<and>
     br_description r' = br_description r \<and> br_status r' = br_status r \<and> br_owner r' = br_owner r \<and>
     br_metadata r' = br_metadata r \<and> br_created_at r' = br_created_at r"

text \<open>\<open>r'\<close> is \<open>r\<close> with \<open>i\<close> in its \<open>blocks\<close> if its id is in \<open>D\<close>; \<open>r'\<close> is \<open>r\<close> with \<open>c\<close> out of its \<open>blocked_by\<close> likewise.\<close>

definition appended :: "json \<Rightarrow> string set \<Rightarrow> string \<Rightarrow> team_task_row \<Rightarrow> team_task_row \<Rightarrow> bool" where
  "appended J D i r r' \<longleftrightarrow> (br_id r \<notin> D \<longrightarrow> r' = r) \<and> same_task r r' \<and> br_blocked_by r' = br_blocked_by r \<and> (readable J r \<longrightarrow> readable J r') \<and>
     set (blocking J r') = set (blocking J r) \<union> (if br_id r \<in> D then {i} else {})"

definition unblocked :: "json \<Rightarrow> string set \<Rightarrow> string \<Rightarrow> team_task_row \<Rightarrow> team_task_row \<Rightarrow> bool" where
  "unblocked J D c r r' \<longleftrightarrow> (br_id r \<notin> D \<longrightarrow> r' = r) \<and> same_task r r' \<and> br_blocks r' = br_blocks r \<and> (readable J r \<longrightarrow> readable J r') \<and>
     blockers J r' = (if br_id r \<in> D then filter (\<lambda>i. i \<noteq> c) (blockers J r) else blockers J r)"

lemma list_all2_update_where:
  "(\<And>r. r \<in> set rows \<Longrightarrow> P r \<Longrightarrow> R r (f r)) \<Longrightarrow> (\<And>r. r \<in> set rows \<Longrightarrow> \<not> P r \<Longrightarrow> R r r) \<Longrightarrow>
     list_all2 R rows (update_where P f rows)"
  by (simp add: update_where_def list_all2_map2 list_all2_same)

lemma map_id_list_all2: "list_all2 R rows rows' \<Longrightarrow> (\<And>r r'. R r r' \<Longrightarrow> key r' = key r) \<Longrightarrow> map key rows' = map key rows"
  by (induction rule: list_all2_induct) auto

lemma append_to_blocks_eq:
  assumes J: "json_ok J" and ids: "distinct (map br_id (tb_tasks s))" and r: "r \<in> set (tb_tasks s)" "br_id r = d"
  shows "\<exists>rows. append_to_blocks E J d i s = (s\<lparr>tb_tick := Suc (tb_tick s), tb_tasks := rows\<rparr>, Inr ()) \<and>
    list_all2 (appended J {d} i) (tb_tasks s) rows"
proof -
  let ?b = "if i \<in> set (blocking J r) then blocking J r else blocking J r @ [i]"
  let ?rows = "update_where (\<lambda>r. br_id r = d)
    (\<lambda>r. r\<lparr>br_blocks := ser_list J ?b, br_updated_at := clock E (tb_tick s)\<rparr>) (tb_tasks s)"
  have find: "find (\<lambda>r. br_id r = d) (tb_tasks s) = Some r"
    using find_key_distinct [OF ids] r by blast
  have "append_to_blocks E J d i s = (s\<lparr>tb_tick := Suc (tb_tick s), tb_tasks := ?rows\<rparr>, Inr ())"
    by (simp add: append_to_blocks_def find blocking_def Let_def)
  moreover have "list_all2 (appended J {d} i) (tb_tasks s) ?rows"
  proof (rule list_all2_update_where)
    fix q assume q: "q \<in> set (tb_tasks s)" "br_id q = d"
    then have "q = r" using find find_key_distinct [OF ids, of d q] by simp
    then show "appended J {d} i q (q\<lparr>br_blocks := ser_list J ?b, br_updated_at := clock E (tb_tick s)\<rparr>)"
      using q by (auto simp: appended_def same_task_def readable_def blocking_def json_ok_simps [OF J])
  qed (auto simp: appended_def same_task_def)
  ultimately show ?thesis by blast
qed

lemma remove_from_blocked_by_eq:
  assumes J: "json_ok J" and ids: "distinct (map br_id (tb_tasks s))" and r: "r \<in> set (tb_tasks s)" "br_id r = d"
  shows "\<exists>rows. remove_from_blocked_by E J d c s = (s\<lparr>tb_tick := Suc (tb_tick s), tb_tasks := rows\<rparr>, Inr ()) \<and>
    list_all2 (unblocked J {d} c) (tb_tasks s) rows"
proof -
  let ?b = "filter (\<lambda>i. i \<noteq> c) (blockers J r)"
  let ?rows = "update_where (\<lambda>r. br_id r = d)
    (\<lambda>r. r\<lparr>br_blocked_by := ser_list J ?b, br_updated_at := clock E (tb_tick s)\<rparr>) (tb_tasks s)"
  have find: "find (\<lambda>r. br_id r = d) (tb_tasks s) = Some r"
    using find_key_distinct [OF ids] r by blast
  have "remove_from_blocked_by E J d c s = (s\<lparr>tb_tick := Suc (tb_tick s), tb_tasks := ?rows\<rparr>, Inr ())"
    by (simp add: remove_from_blocked_by_def find blockers_def Let_def)
  moreover have "list_all2 (unblocked J {d} c) (tb_tasks s) ?rows"
  proof (rule list_all2_update_where)
    fix q assume q: "q \<in> set (tb_tasks s)" "br_id q = d"
    then have "q = r" using find find_key_distinct [OF ids, of d q] by simp
    then show "unblocked J {d} c q (q\<lparr>br_blocked_by := ser_list J ?b, br_updated_at := clock E (tb_tick s)\<rparr>)"
      using q by (auto simp: unblocked_def same_task_def readable_def blockers_def json_ok_simps [OF J])
  qed (auto simp: unblocked_def same_task_def)
  ultimately show ?thesis by blast
qed

lemma appended_trans: "appended J D i q r \<Longrightarrow> appended J D' i r r' \<Longrightarrow> appended J (D \<union> D') i q r'"
  by (auto simp: appended_def same_task_def)

lemma unblocked_trans: "unblocked J D i q r \<Longrightarrow> unblocked J D' i r r' \<Longrightarrow> unblocked J (D \<union> D') i q r'"
  by (auto simp: unblocked_def same_task_def)

text \<open>
  A loop of row updates, each of which succeeds on an existing row: it succeeds and relates the rows
  by the union. Used for both loops.
\<close>

lemma for_each_rows:
  assumes step: "\<And>d s. distinct (map br_id (tb_tasks s)) \<Longrightarrow> d \<in> br_id ` set (tb_tasks s) \<Longrightarrow>
      \<exists>rows. body d s = (s\<lparr>tb_tick := Suc (tb_tick s), tb_tasks := rows\<rparr>, Inr ()) \<and> list_all2 (R {d}) (tb_tasks s) rows"
    and trans: "\<And>D D' q r r'. R D q r \<Longrightarrow> R D' r r' \<Longrightarrow> R (D \<union> D') q r'"
    and refl: "\<And>r. R {} r r" and id: "\<And>D r r'. R D r r' \<Longrightarrow> br_id r' = br_id r"
    and ids: "distinct (map br_id (tb_tasks s))" and deps: "set deps \<subseteq> br_id ` set (tb_tasks s)"
  shows "\<exists>n rows. for_each body deps s = (s\<lparr>tb_tick := tb_tick s + n, tb_tasks := rows\<rparr>, Inr ()) \<and>
    list_all2 (R (set deps)) (tb_tasks s) rows"
  using ids deps
proof (induction deps arbitrary: s)
  case Nil
  have "for_each body [] s = (s\<lparr>tb_tick := tb_tick s + 0, tb_tasks := tb_tasks s\<rparr>, Inr ())" by simp
  moreover have "list_all2 (R (set [])) (tb_tasks s) (tb_tasks s)" by (simp add: list_all2_same refl)
  ultimately show ?case by blast
next
  case (Cons d deps)
  from step [OF Cons.prems(1), of d] Cons.prems(2) obtain rows where
    rows: "body d s = (s\<lparr>tb_tick := Suc (tb_tick s), tb_tasks := rows\<rparr>, Inr ())" "list_all2 (R {d}) (tb_tasks s) rows"
    by auto
  let ?s = "s\<lparr>tb_tick := Suc (tb_tick s), tb_tasks := rows\<rparr>"
  have keys: "map br_id rows = map br_id (tb_tasks s)" by (rule map_id_list_all2 [OF rows(2)]) (rule id)
  then have "br_id ` set rows = br_id ` set (tb_tasks s)" by (metis set_map)
  with Cons.IH [of ?s] Cons.prems keys obtain n rows' where
    rest: "for_each body deps ?s = (?s\<lparr>tb_tick := tb_tick ?s + n, tb_tasks := rows'\<rparr>, Inr ())"
      "list_all2 (R (set deps)) rows rows'" by auto
  have "list_all2 (R (set (d # deps))) (tb_tasks s) rows'"
    using list_all2_trans [OF _ rows(2) rest(2), of "R (set (d # deps))"] trans [of "{d}" _ _ "set deps"] by auto
  moreover have "for_each body (d # deps) s = (s\<lparr>tb_tick := tb_tick s + Suc n, tb_tasks := rows'\<rparr>, Inr ())"
    using rows(1) rest(1) by simp
  ultimately show ?case by blast
qed

lemma append_all:
  assumes "json_ok J" and "distinct (map br_id (tb_tasks s))" and "set deps \<subseteq> br_id ` set (tb_tasks s)"
  shows "\<exists>n rows. for_each (\<lambda>d. append_to_blocks E J d i) deps s =
      (s\<lparr>tb_tick := tb_tick s + n, tb_tasks := rows\<rparr>, Inr ()) \<and> list_all2 (appended J (set deps) i) (tb_tasks s) rows"
  by (rule for_each_rows [where R="\<lambda>D. appended J D i", OF _ _ _ _ assms(2,3)])
    (auto intro: appended_trans append_to_blocks_eq [OF assms(1)] simp: appended_def same_task_def)

lemma remove_all:
  assumes "json_ok J" and "distinct (map br_id (tb_tasks s))" and "set deps \<subseteq> br_id ` set (tb_tasks s)"
  shows "\<exists>n rows. for_each (\<lambda>d. remove_from_blocked_by E J d c) deps s =
      (s\<lparr>tb_tick := tb_tick s + n, tb_tasks := rows\<rparr>, Inr ()) \<and> list_all2 (unblocked J (set deps) c) (tb_tasks s) rows"
  by (rule for_each_rows [where R="\<lambda>D. unblocked J D c", OF _ _ _ _ assms(2,3)])
    (auto intro: unblocked_trans remove_from_blocked_by_eq [OF assms(1)] simp: unblocked_def same_task_def)

end
