(* ===== verification/TaskBoardProperties.thy ===== *)
theory TaskBoardProperties
  imports TaskBoard
begin

text \<open>
  What the task board keeps: the two dependency lists describe one graph after any sequence of
  creations, updates and deletions that does not overwrite \<open>blocked_by\<close>, and completing a task
  removes it from the \<open>blocked_by\<close> list of every task. Overwriting \<open>blocked_by\<close> breaks the graph; the
  last section runs the program to show it.
\<close>

section \<open>Creating a task\<close>

lemma find_task_Some:
  "distinct (map br_id (tb_tasks s)) \<Longrightarrow>
     find_task_by_id team i s = Some r \<longleftrightarrow> r \<in> set (tb_tasks s) \<and> br_id r = i \<and> br_team_id r = team"
  unfolding find_task_by_id_def find_Some_iff
  by (auto simp: in_set_conv_nth distinct_conv_nth)

lemma check_deps_find:
  "check_deps team deps s =
     (case find (\<lambda>d. find_task_by_id team d s = None) deps of
        None \<Rightarrow> Inr () | Some d \<Rightarrow> Inl (BlockedTaskNotFound d))"
  by (induction deps) (auto split: option.splits)

lemma check_deps_Inr:
  "check_deps team deps s = Inr () \<longleftrightarrow> (\<forall>d\<in>set deps. find_task_by_id team d s \<noteq> None)"
  by (induction deps) (auto split: option.splits)

text \<open>The rows after a creation: the new row at the end, its id in the \<open>blocks\<close> of every dependency.\<close>

lemma create_task_on_board_eq:
  fixes subject description owner
  assumes ok: "board_ok E J s" and deps: "check_deps team deps s = Inr ()"
  defines "row \<equiv> new_board_row E J team subject description owner deps s"
  shows "\<exists>n rows t. create_task_on_board E J team subject description owner deps s =
      (s\<lparr>tb_tick := tb_tick s + Suc n, tb_tasks := rows @ [row]\<rparr>, Inr t) \<and>
    task_from_row J row = Some t \<and> list_all2 (appended J (set deps) (br_id row)) (tb_tasks s) rows \<and>
    br_id row \<notin> br_id ` set (tb_tasks s)"
proof -
  have J: "json_ok J" and ids: "distinct (map br_id (tb_tasks s))" and E: "distinct_ids E"
    and old: "\<forall>r\<in>set (tb_tasks s). \<exists>k<tb_tick s. br_id r = mint_id E k"
    using ok by (auto simp: board_ok_def)
  have id: "br_id row = mint_id E (tb_tick s)" by (simp add: row_def new_board_row_def)
  have fresh: "br_id row \<notin> br_id ` set (tb_tasks s)"
    using old mint_id_eq [OF E] unfolding id by fastforce
  let ?s1 = "s\<lparr>tb_tick := Suc (tb_tick s), tb_tasks := tb_tasks s @ [row]\<rparr>"
  have ins: "create_board_task row (s\<lparr>tb_tick := Suc (tb_tick s)\<rparr>) = (?s1, Inr ())"
    using fresh by (force simp: create_board_task_def row_def new_board_row_def board_statuses_def)
  have sub: "set deps \<subseteq> br_id ` set (tb_tasks s)"
    using deps unfolding check_deps_Inr by (fastforce simp: find_task_Some [OF ids])
  then have "set deps \<subseteq> br_id ` set (tb_tasks ?s1)" by auto
  then obtain n rows1 where loop: "for_each (\<lambda>d. append_to_blocks E J d (br_id row)) deps ?s1 =
      (?s1\<lparr>tb_tick := tb_tick ?s1 + n, tb_tasks := rows1\<rparr>, Inr ())"
    and rel: "list_all2 (appended J (set deps) (br_id row)) (tb_tasks s @ [row]) rows1"
    using append_all [OF J, of ?s1 deps E "br_id row"] ids fresh sub by auto
  from rel obtain rows row' where split: "rows1 = rows @ [row']"
    "list_all2 (appended J (set deps) (br_id row)) (tb_tasks s) rows" "appended J (set deps) (br_id row) row row'"
    by (auto simp: list_all2_append1 list_all2_Cons1)
  have "readable J row" by (simp add: readable_def row_def new_board_row_def json_ok_simps [OF J])
  then obtain t where t: "task_from_row J row = Some t" using task_from_row_readable by blast
  have "row' = row" using split(3) fresh sub by (auto simp: appended_def)
  with ins loop t split fresh show ?thesis
    by (intro exI [of _ n] exI [of _ rows] exI [of _ t])
      (simp add: create_task_on_board_def deps row_def [symmetric] read_back_def)
qed

lemma list_all2_in1: "list_all2 R xs ys \<Longrightarrow> x \<in> set xs \<Longrightarrow> \<exists>y\<in>set ys. R x y"
  by (metis in_set_conv_nth list_all2_conv_all_nth)

lemma list_all2_in2: "list_all2 R xs ys \<Longrightarrow> y \<in> set ys \<Longrightarrow> \<exists>x\<in>set xs. R x y"
  by (metis in_set_conv_nth list_all2_conv_all_nth)

lemma appendedD:
  assumes "appended J D i r r'"
  shows "br_id r' = br_id r" "br_team_id r' = br_team_id r" "blockers J r' = blockers J r"
    "set (blocking J r') = set (blocking J r) \<union> (if br_id r \<in> D then {i} else {})"
    "readable J r \<Longrightarrow> readable J r'" "br_status r' = br_status r"
  using assms by (simp_all add: appended_def same_task_def blockers_def)

lemma unblockedD:
  assumes "unblocked J D c r r'"
  shows "br_id r' = br_id r" "br_team_id r' = br_team_id r" "blocking J r' = blocking J r"
    "blockers J r' = (if br_id r \<in> D then filter (\<lambda>i. i \<noteq> c) (blockers J r) else blockers J r)"
    "readable J r \<Longrightarrow> readable J r'" "br_status r' = br_status r"
  using assms by (simp_all add: unblocked_def same_task_def blocking_def)

lemma key_unique: "distinct (map f xs) \<Longrightarrow> x \<in> set xs \<Longrightarrow> y \<in> set xs \<Longrightarrow> f x = f y \<Longrightarrow> x = y"
  by (auto simp: distinct_map inj_on_def)

lemma links_ok_create:
  assumes links: "links_ok J rows0" and ids: "distinct (map br_id rows0)"
    and rel: "list_all2 (appended J (set deps) i) rows0 rows"
    and row: "br_id row = i" "set (blockers J row) \<subseteq> set deps" "blocking J row = []"
    and deps: "\<forall>d\<in>set deps. \<exists>q\<in>set rows0. br_id q = d \<and> br_team_id q = br_team_id row"
  shows "links_ok J (rows @ [row])"
proof -
  have new: "\<exists>q'\<in>set rows. appended J (set deps) i q q'" if "q \<in> set rows0" for q
    by (rule list_all2_in1 [OF rel that])
  have old: "\<exists>q0\<in>set rows0. appended J (set deps) i q0 q" if "q \<in> set rows" for q
    by (rule list_all2_in2 [OF rel that])
  have linked: "\<exists>q\<in>set rows. br_id q = d \<and> br_team_id q = br_team_id r \<and> br_id r \<in> set (blocking J q)"
    if r: "r \<in> set rows \<or> r = row" and d: "d \<in> set (blockers J r)" for r d
  proof (cases "r \<in> set rows")
    case True
    then obtain r0 where r0: "r0 \<in> set rows0" "appended J (set deps) i r0 r" using old by blast
    then have "d \<in> set (blockers J r0)" using d by (simp add: appendedD)
    with links r0(1) obtain q where q: "q \<in> set rows0" "br_id q = d" "br_team_id q = br_team_id r0" "br_id r0 \<in> set (blocking J q)"
      unfolding links_ok_def by blast
    from new [OF q(1)] obtain q' where "q' \<in> set rows" "appended J (set deps) i q q'" by blast
    with q appendedD [OF r0(2)] show ?thesis by (intro bexI [of _ q']) (simp_all add: appendedD)
  next
    case False
    with r d row(2) have [simp]: "r = row" and "d \<in> set deps" by auto
    with deps obtain q where q: "q \<in> set rows0" "br_id q = d" "br_team_id q = br_team_id row" by blast
    from new [OF q(1)] obtain q' where "q' \<in> set rows" "appended J (set deps) i q q'" by blast
    with q \<open>d \<in> set deps\<close> row(1) show ?thesis by (intro bexI [of _ q']) (simp_all add: appendedD)
  qed
  have forth: "\<exists>r\<in>set (rows @ [row]). br_id r = j \<and> br_team_id r = br_team_id q"
    if q: "q \<in> set rows" and j: "j \<in> set (blocking J q)" for q j
  proof -
    from old [OF q] obtain q0 where q0: "q0 \<in> set rows0" "appended J (set deps) i q0 q" by blast
    show ?thesis
    proof (cases "j \<in> set (blocking J q0)")
      case True
      with links q0(1) obtain r0 where r0: "r0 \<in> set rows0" "br_id r0 = j" "br_team_id r0 = br_team_id q0"
        unfolding links_ok_def by blast
      from new [OF r0(1)] obtain r' where "r' \<in> set rows" "appended J (set deps) i r0 r'" by blast
      with r0 appendedD [OF q0(2)] show ?thesis by (intro bexI [of _ r']) (simp_all add: appendedD)
    next
      case False
      with q0(2) j have "j = i" "br_id q0 \<in> set deps" by (auto simp: appendedD split: if_splits)
      then obtain p where p: "p \<in> set rows0" "br_id p = br_id q0" "br_team_id p = br_team_id row" using deps by blast
      with key_unique [OF ids p(1) q0(1)] have "br_team_id row = br_team_id q0" by simp
      with \<open>j = i\<close> row(1) q0(2) show ?thesis by (simp add: appendedD)
    qed
  qed
  show ?thesis unfolding links_ok_def
  proof (intro conjI ballI)
    fix r d assume "r \<in> set (rows @ [row])" "d \<in> set (blockers J r)"
    then have "\<exists>q\<in>set rows. br_id q = d \<and> br_team_id q = br_team_id r \<and> br_id r \<in> set (blocking J q)"
      by (intro linked) auto
    then show "\<exists>q\<in>set (rows @ [row]). br_id q = d \<and> br_team_id q = br_team_id r \<and> br_id r \<in> set (blocking J q)"
      by auto
  next
    fix q j assume q: "q \<in> set (rows @ [row])" and j: "j \<in> set (blocking J q)"
    with row(3) have "q \<in> set rows" by auto
    from forth [OF this j] show "\<exists>r\<in>set (rows @ [row]). br_id r = j \<and> br_team_id r = br_team_id q" .
  qed
qed

section \<open>Updating a task\<close>

text \<open>An update that leaves \<open>blocked_by\<close> alone and whose metadata is a printed value.\<close>

definition plain_update :: "json \<Rightarrow> board_update \<Rightarrow> bool" where
  "plain_update J u \<longleftrightarrow> bu_blocked_by u = None \<and> (case bu_metadata u of None \<Rightarrow> True | Some v \<Rightarrow> de_value J v = Some v)"

definition status_after :: "string \<Rightarrow> board_update \<Rightarrow> team_task_row \<Rightarrow> string" where
  "status_after i u r =
     (if br_id r = i then (case bu_status u of None \<Rightarrow> br_status r | Some st \<Rightarrow> board_status_to_string st) else br_status r)"

definition touched :: "json \<Rightarrow> string \<Rightarrow> board_update \<Rightarrow> team_task_row \<Rightarrow> team_task_row \<Rightarrow> bool" where
  "touched J i u r r' \<longleftrightarrow> br_id r' = br_id r \<and> br_team_id r' = br_team_id r \<and> blockers J r' = blockers J r \<and>
     br_blocks r' = br_blocks r \<and> (readable J r \<longrightarrow> readable J r') \<and> br_status r' = status_after i u r"

lemma board_status_known [simp]: "board_status_to_string st \<in> set board_statuses"
  by (cases st) (simp_all add: board_statuses_def)

lemma touched_update:
  assumes "plain_update J u" and "br_id r = i"
  shows "touched J i u r (apply_board_update (update_params J u) now r)"
  using assms by (auto simp: touched_def apply_board_update_def update_params_def plain_update_def status_after_def
      set_opt_def blockers_def readable_def split: option.splits)

lemma touched_refl: "br_id r \<noteq> i \<Longrightarrow> touched J i u r r"
  by (simp add: touched_def status_after_def)

lemma update_board_row_eq:
  assumes u: "plain_update J u" and r: "r \<in> set (tb_tasks s)" "br_id r = i"
  shows "\<exists>n rows. update_board_row E i (update_params J u) s = (s\<lparr>tb_tick := tb_tick s + n, tb_tasks := rows\<rparr>, Inr ()) \<and>
    list_all2 (touched J i u) (tb_tasks s) rows"
proof (cases "bu_status u = None \<and> bu_description u = None \<and> bu_owner u = None \<and> bu_metadata u = None")
  case True
  then have "update_board_row E i (update_params J u) s = (s\<lparr>tb_tick := tb_tick s + 0, tb_tasks := tb_tasks s\<rparr>, Inr ())"
    using u by (simp add: update_board_row_def update_params_def plain_update_def)
  moreover have "list_all2 (touched J i u) (tb_tasks s) (tb_tasks s)"
    using True by (simp add: list_all2_same touched_def status_after_def)
  ultimately show ?thesis by blast
next
  case False
  let ?rows = "update_where (\<lambda>r. br_id r = i) (apply_board_update (update_params J u) (clock E (tb_tick s))) (tb_tasks s)"
  have "rows_affected (\<lambda>r. br_id r = i) (tb_tasks s) \<noteq> 0" using r by (auto simp: rows_affected_0)
  with False have "update_board_row E i (update_params J u) s = (s\<lparr>tb_tick := tb_tick s + 1, tb_tasks := ?rows\<rparr>, Inr ())"
    by (auto simp: update_board_row_def update_params_def Let_def split: option.splits)
  moreover have "list_all2 (touched J i u) (tb_tasks s) ?rows"
    by (rule list_all2_update_where) (simp_all add: touched_update [OF u] touched_refl)
  ultimately show ?thesis by blast
qed

text \<open>The rows after an update of task \<open>i\<close>: statuses as requested; if it completes, \<open>i\<close> blocks nobody.\<close>

definition settled :: "json \<Rightarrow> string \<Rightarrow> board_update \<Rightarrow> team_task_row \<Rightarrow> team_task_row \<Rightarrow> bool" where
  "settled J i u r r' \<longleftrightarrow> br_id r' = br_id r \<and> br_team_id r' = br_team_id r \<and> blocking J r' = blocking J r \<and>
     blockers J r' = (if bu_status u = Some Completed then filter (\<lambda>d. d \<noteq> i) (blockers J r) else blockers J r) \<and>
     (readable J r \<longrightarrow> readable J r') \<and> br_status r' = status_after i u r"

lemma settled_unblocked:
  assumes ok: "board_ok E J s" and row: "row \<in> set (tb_tasks s)" "br_id row = i"
    and r: "r \<in> set (tb_tasks s)" and st: "bu_status u = Some Completed"
    and rel: "touched J i u r r1" "unblocked J (set (blocking J row)) i r1 r2"
  shows "settled J i u r r2"
proof -
  have ids: "distinct (map br_id (tb_tasks s))" and links: "links_ok J (tb_tasks s)" using ok by (auto simp: board_ok_def)
  have "br_id r \<in> set (blocking J row)" if "i \<in> set (blockers J r)"
  proof -
    from that links r obtain q where q: "q \<in> set (tb_tasks s)" "br_id q = i" "br_id r \<in> set (blocking J q)"
      unfolding links_ok_def by blast
    with key_unique [OF ids q(1) row(1)] row(2) show ?thesis by simp
  qed
  then have "filter (\<lambda>d. d \<noteq> i) (blockers J r) = blockers J r" if "br_id r \<notin> set (blocking J row)"
    using that by (metis (mono_tags, lifting) filter_True)
  moreover have "blocking J r1 = blocking J r" using rel(1) by (simp add: touched_def blocking_def)
  ultimately show ?thesis
    using rel(1) unblockedD [OF rel(2)] st by (simp add: settled_def touched_def)
qed

lemma update_task_on_board_eq:
  assumes ok: "board_ok E J s" and row: "find_task_by_id team i s = Some row" and u: "plain_update J u"
  shows "\<exists>n rows row' t. update_task_on_board E J team i u s = (s\<lparr>tb_tick := tb_tick s + n, tb_tasks := rows\<rparr>, Inr t) \<and>
    list_all2 (settled J i u) (tb_tasks s) rows \<and> row' \<in> set rows \<and> br_id row' = i \<and> task_from_row J row' = Some t"
proof -
  have J: "json_ok J" and ids: "distinct (map br_id (tb_tasks s))" and rd: "\<forall>r\<in>set (tb_tasks s). readable J r"
    and links: "links_ok J (tb_tasks s)" using ok by (auto simp: board_ok_def)
  from row have row': "row \<in> set (tb_tasks s)" "br_id row = i" "br_team_id row = team"
    by (simp_all add: find_task_Some [OF ids])
  obtain n rows1 where upd: "update_board_row E i (update_params J u) s = (s\<lparr>tb_tick := tb_tick s + n, tb_tasks := rows1\<rparr>, Inr ())"
    and rel1: "list_all2 (touched J i u) (tb_tasks s) rows1"
    using update_board_row_eq [OF u row'(1,2)] by blast
  let ?s1 = "s\<lparr>tb_tick := tb_tick s + n, tb_tasks := rows1\<rparr>"
  have keys1: "map br_id rows1 = map br_id (tb_tasks s)"
    by (rule map_id_list_all2 [OF rel1]) (simp add: touched_def)
  have "\<exists>m rows. (if bu_status u = Some Completed then check_unblocks E J i row ?s1 else (?s1, Inr ())) =
      (?s1\<lparr>tb_tick := tb_tick ?s1 + m, tb_tasks := rows\<rparr>, Inr ()) \<and> list_all2 (settled J i u) (tb_tasks s) rows"
  proof (cases "bu_status u = Some Completed")
    case False
    have "list_all2 (settled J i u) (tb_tasks s) rows1"
      by (rule list_all2_mono [OF rel1]) (use False in \<open>simp add: settled_def touched_def blocking_def\<close>)
    with False show ?thesis by (intro exI [of _ 0] exI [of _ rows1]) simp
  next
    case True
    have de: "de_list J (br_blocks row) = Some (blocking J row)"
      using rd row'(1) by (auto simp: readable_def blocking_def read_list_def)
    have "set (blocking J row) \<subseteq> br_id ` set (tb_tasks s)"
    proof
      fix j assume "j \<in> set (blocking J row)"
      with links row'(1) obtain r where "r \<in> set (tb_tasks s)" "br_id r = j" unfolding links_ok_def by blast
      then show "j \<in> br_id ` set (tb_tasks s)" by blast
    qed
    moreover have "set (map br_id rows1) = set (map br_id (tb_tasks s))" by (simp only: keys1)
    ultimately have "set (blocking J row) \<subseteq> br_id ` set (tb_tasks ?s1)" by simp
    with remove_all [OF J, of ?s1 "blocking J row" E i] keys1 ids obtain m rows where
      loop: "for_each (\<lambda>d. remove_from_blocked_by E J d i) (blocking J row) ?s1 =
        (?s1\<lparr>tb_tick := tb_tick ?s1 + m, tb_tasks := rows\<rparr>, Inr ())"
      and rel2: "list_all2 (unblocked J (set (blocking J row)) i) rows1 rows" by auto
    have "list_all2 (settled J i u) (tb_tasks s) rows"
    proof (rule list_all2_all_nthI)
      show "length (tb_tasks s) = length rows" using rel1 rel2 by (simp add: list_all2_lengthD)
      fix k assume k: "k < length (tb_tasks s)"
      have "touched J i u (tb_tasks s ! k) (rows1 ! k)" using rel1 k by (rule list_all2_nthD)
      moreover have "unblocked J (set (blocking J row)) i (rows1 ! k) (rows ! k)"
        using rel2 k list_all2_lengthD [OF rel1] by (simp add: list_all2_nthD)
      ultimately show "settled J i u (tb_tasks s ! k) (rows ! k)"
        by (rule settled_unblocked [OF ok row'(1,2) nth_mem [OF k] True])
    qed
    with True loop de show ?thesis by (intro exI [of _ m] exI [of _ rows]) (simp add: check_unblocks_def)
  qed
  then obtain m rows where chk: "(if bu_status u = Some Completed then check_unblocks E J i row ?s1 else (?s1, Inr ())) =
      (?s1\<lparr>tb_tick := tb_tick ?s1 + m, tb_tasks := rows\<rparr>, Inr ())" and rel: "list_all2 (settled J i u) (tb_tasks s) rows"
    by blast
  let ?s2 = "?s1\<lparr>tb_tick := tb_tick ?s1 + m, tb_tasks := rows\<rparr>"
  have keys: "map br_id rows = map br_id (tb_tasks s)"
    by (rule map_id_list_all2 [OF rel]) (simp add: settled_def)
  from list_all2_in1 [OF rel row'(1)] obtain r2 where r2: "r2 \<in> set rows" "settled J i u row r2" by blast
  have found: "find_task_by_id team i ?s2 = Some r2"
    using r2 row' keys ids by (subst find_task_Some) (simp_all add: settled_def)
  have "readable J r2" using r2 rd row'(1) by (simp add: settled_def)
  then obtain t where t: "task_from_row J r2 = Some t" using task_from_row_readable by blast
  have "update_task_on_board E J team i u s = (?s2, Inr t)"
    using chk found by (simp add: update_task_on_board_def row upd read_back_def t)
  with rel r2 row'(2) t show ?thesis
    by (intro exI [of _ "n + m"] exI [of _ rows] exI [of _ r2] exI [of _ t]) (simp add: settled_def)
qed

section \<open>The invariant\<close>

lemma board_ok_create:
  assumes ok: "board_ok E J s"
  shows "board_ok E J (fst (create_task_on_board E J team subject description owner deps s))"
proof (cases "check_deps team deps s")
  case (Inl e)
  with ok show ?thesis by (simp add: create_task_on_board_def)
next
  case (Inr x)
  then have deps: "check_deps team deps s = Inr ()" by simp
  have J: "json_ok J" and ids: "distinct (map br_id (tb_tasks s))" using ok by (auto simp: board_ok_def)
  let ?row = "new_board_row E J team subject description owner deps s"
  obtain n rows t where res: "create_task_on_board E J team subject description owner deps s =
      (s\<lparr>tb_tick := tb_tick s + Suc n, tb_tasks := rows @ [?row]\<rparr>, Inr t)"
    and rel: "list_all2 (appended J (set deps) (br_id ?row)) (tb_tasks s) rows"
    and fresh: "br_id ?row \<notin> br_id ` set (tb_tasks s)"
    using create_task_on_board_eq [OF ok deps] by blast
  have keys: "map br_id rows = map br_id (tb_tasks s)"
    by (rule map_id_list_all2 [OF rel]) (simp add: appendedD)
  then have sets: "br_id ` set rows = br_id ` set (tb_tasks s)" by (metis set_map)
  have row: "readable J ?row" "blockers J ?row = deps" "blocking J ?row = []"
    by (simp_all add: readable_def blockers_def blocking_def new_board_row_def json_ok_simps [OF J])
  have "\<forall>d\<in>set deps. \<exists>q\<in>set (tb_tasks s). br_id q = d \<and> br_team_id q = br_team_id ?row"
  proof
    fix d assume "d \<in> set deps"
    with deps obtain q where "find_task_by_id team d s = Some q" unfolding check_deps_Inr by auto
    then show "\<exists>q\<in>set (tb_tasks s). br_id q = d \<and> br_team_id q = br_team_id ?row"
      using find_task_Some [OF ids, of team d q] by (auto simp: new_board_row_def)
  qed
  then have links: "links_ok J (rows @ [?row])"
    using ok row by (intro links_ok_create [OF _ ids rel]) (auto simp: board_ok_def)
  have old: "readable J r \<and> (\<exists>k<tb_tick s + Suc n. br_id r = mint_id E k)" if "r \<in> set rows" for r
  proof -
    from list_all2_in2 [OF rel that] obtain r0 where r0: "r0 \<in> set (tb_tasks s)" "appended J (set deps) (br_id ?row) r0 r"
      by blast
    then obtain k where "readable J r0" "k < tb_tick s" "br_id r0 = mint_id E k" using ok by (auto simp: board_ok_def)
    then show ?thesis using appendedD(1,5) [OF r0(2)] by (intro conjI exI [of _ k]) simp_all
  qed
  have new: "\<exists>k<tb_tick s + Suc n. br_id ?row = mint_id E k"
    by (intro exI [of _ "tb_tick s"]) (simp add: new_board_row_def)
  show ?thesis
    using ok res keys sets ids fresh links old new row(1) unfolding board_ok_def by simp
qed

lemma links_ok_settled:
  assumes links: "links_ok J rows0" and rel: "list_all2 (settled J i u) rows0 rows"
  shows "links_ok J rows"
proof -
  have new: "\<exists>q'\<in>set rows. settled J i u q q'" if "q \<in> set rows0" for q
    by (rule list_all2_in1 [OF rel that])
  have old: "\<exists>q0\<in>set rows0. settled J i u q0 q" if "q \<in> set rows" for q
    by (rule list_all2_in2 [OF rel that])
  show ?thesis unfolding links_ok_def
  proof (intro conjI ballI)
    fix r d assume r: "r \<in> set rows" and d: "d \<in> set (blockers J r)"
    obtain r0 where r0: "r0 \<in> set rows0" "settled J i u r0 r" using old [OF r] by blast
    then have "d \<in> set (blockers J r0)" using d by (auto simp: settled_def split: if_splits)
    with links r0(1) obtain q where q: "q \<in> set rows0" "br_id q = d" "br_team_id q = br_team_id r0" "br_id r0 \<in> set (blocking J q)"
      unfolding links_ok_def by blast
    from new [OF q(1)] obtain q' where "q' \<in> set rows" "settled J i u q q'" by blast
    with q r0(2) show "\<exists>q\<in>set rows. br_id q = d \<and> br_team_id q = br_team_id r \<and> br_id r \<in> set (blocking J q)"
      by (intro bexI [of _ q']) (simp_all add: settled_def)
  next
    fix q j assume q: "q \<in> set rows" and j: "j \<in> set (blocking J q)"
    obtain q0 where q0: "q0 \<in> set rows0" "settled J i u q0 q" using old [OF q] by blast
    then have "j \<in> set (blocking J q0)" using j by (simp add: settled_def)
    with links q0(1) obtain r0 where r0: "r0 \<in> set rows0" "br_id r0 = j" "br_team_id r0 = br_team_id q0"
      unfolding links_ok_def by blast
    from new [OF r0(1)] obtain r' where "r' \<in> set rows" "settled J i u r0 r'" by blast
    with r0 q0(2) show "\<exists>r\<in>set rows. br_id r = j \<and> br_team_id r = br_team_id q"
      by (intro bexI [of _ r']) (simp_all add: settled_def)
  qed
qed

lemma board_ok_update:
  assumes ok: "board_ok E J s" and u: "plain_update J u"
  shows "board_ok E J (fst (update_task_on_board E J team i u s))"
proof (cases "find_task_by_id team i s")
  case None
  with ok show ?thesis by (simp add: update_task_on_board_def)
next
  case (Some row)
  from update_task_on_board_eq [OF ok Some u] obtain n rows t where
    res: "update_task_on_board E J team i u s = (s\<lparr>tb_tick := tb_tick s + n, tb_tasks := rows\<rparr>, Inr t)"
    and rel: "list_all2 (settled J i u) (tb_tasks s) rows" by blast
  have keys: "map br_id rows = map br_id (tb_tasks s)"
    by (rule map_id_list_all2 [OF rel]) (simp add: settled_def)
  have old: "readable J r \<and> (\<exists>k<tb_tick s + n. br_id r = mint_id E k)" if r: "r \<in> set rows" for r
  proof -
    from list_all2_in2 [OF rel r] obtain r0 where r0: "r0 \<in> set (tb_tasks s)" "settled J i u r0 r" by blast
    then obtain k where "readable J r0" "k < tb_tick s" "br_id r0 = mint_id E k" using ok by (auto simp: board_ok_def)
    then show ?thesis using r0(2) by (intro conjI exI [of _ k]) (simp_all add: settled_def)
  qed
  have "links_ok J rows" using ok by (intro links_ok_settled [OF _ rel]) (simp add: board_ok_def)
  with ok res keys old show ?thesis unfolding board_ok_def by simp
qed

lemma board_ok_delete: "board_ok E J s \<Longrightarrow> board_ok E J (delete_tasks_by_team team s)"
  unfolding board_ok_def links_ok_def delete_tasks_by_team_def by (auto simp: distinct_map_filter) metis+

datatype board_op =
    BoardCreate string string "string option" "string option" "string list"
  | BoardUpdate string string board_update
  | BoardDeleteTeam string

fun board_step :: "env \<Rightarrow> json \<Rightarrow> board_op \<Rightarrow> team_db \<Rightarrow> team_db" where
  "board_step E J (BoardCreate team subject description owner deps) s =
     fst (create_task_on_board E J team subject description owner deps s)"
| "board_step E J (BoardUpdate team i u) s = fst (update_task_on_board E J team i u s)"
| "board_step E J (BoardDeleteTeam team) s = delete_tasks_by_team team s"

fun plain_op :: "json \<Rightarrow> board_op \<Rightarrow> bool" where
  "plain_op J (BoardUpdate team i u) = plain_update J u"
| "plain_op J _ = True"

lemma board_ok_step: "board_ok E J s \<Longrightarrow> plain_op J x \<Longrightarrow> board_ok E J (board_step E J x s)"
  by (cases x) (simp_all add: board_ok_create board_ok_update board_ok_delete)

text \<open>The board as a machine: an operation that would overwrite \<open>blocked_by\<close> is left out.\<close>

interpretation board: machine "board_ok E J" "\<lambda>x s. if plain_op J x then board_step E J x s else s" for E J
  by unfold_locales (simp add: board_ok_step)

lemma fold_plain: "list_all (plain_op J) ops \<Longrightarrow>
    fold (\<lambda>x s. if plain_op J x then board_step E J x s else s) ops s = fold (board_step E J) ops s"
  by (induction ops arbitrary: s) auto

lemma board_ok_run:
  assumes "distinct_ids E" and "json_ok J" and "list_all (plain_op J) ops"
  shows "board_ok E J (fold (board_step E J) ops empty_team_db)"
proof -
  have "board_ok E J empty_team_db"
    using assms by (simp add: board_ok_def empty_team_db_def links_ok_def)
  from board.run_inv [OF this, of ops] show ?thesis by (simp only: fold_plain [OF assms(3)])
qed

section \<open>Properties\<close>

lemma in_board_list:
  "t \<in> set (board_list_tasks J team s) \<longleftrightarrow>
     (\<exists>r\<in>set (tb_tasks s). br_team_id r = team \<and> task_from_row J r = Some t)"
  by (force simp: board_list_tasks_def list_board_rows_def List.map_filter_def)

lemma length_board_list:
  assumes "board_ok E J s"
  shows "length (board_list_tasks J team s) = length (filter (\<lambda>r. br_team_id r = team) (tb_tasks s))"
proof -
  have "filter (\<lambda>x. task_from_row J x \<noteq> None) (list_board_rows team s) = list_board_rows team s"
    using assms task_from_row_readable by (fastforce simp: list_board_rows_def board_ok_def intro: filter_True)
  then have "length (board_list_tasks J team s) = length (list_board_rows team s)"
    by (simp only: board_list_tasks_def List.map_filter_def length_map comp_def)
  then show ?thesis by (simp add: list_board_rows_def)
qed


definition finish :: board_update where
  "finish = \<lparr>bu_status = Some Completed, bu_description = None, bu_owner = None, bu_blocked_by = None, bu_metadata = None\<rparr>"

text \<open>Ids \<open>r\<close>, \<open>rr\<close>, \<open>rrrr\<close>: the third task waits for the first two.\<close>

definition demo_board :: "board_op list" where
  "demo_board = [BoardCreate ''t'' ''plan'' None None [], BoardCreate ''t'' ''code'' None None [],
     BoardCreate ''t'' ''test'' None None [''r'', ''rr'']]"


text \<open>Completing a task of a consistent board succeeds; afterwards it is completed and blocks nobody:
  it is gone from the \<open>blocked_by\<close> list of every task, the other entries and the states of the other
  tasks stay as they were.\<close>

lemma completing_unblocks_everyone:
  assumes "board_ok E J s" and "find_task_by_id team i s = Some row"
    and "bu_status u = Some Completed" and "plain_update J u"
    and "update_task_on_board E J team i u s = (s', r)"
  shows "(\<exists>t. r = Inr t \<and> bt_id t = i \<and> bt_status t = Completed) \<and>
    list_all2 (\<lambda>q q'. br_id q' = br_id q \<and> blockers J q' = filter (\<lambda>d. d \<noteq> i) (blockers J q) \<and>
      br_status q' = (if br_id q = i then ''completed'' else br_status q)) (tb_tasks s) (tb_tasks s')"
proof -
  obtain n rows row' t where res: "update_task_on_board E J team i u s = (s\<lparr>tb_tick := tb_tick s + n, tb_tasks := rows\<rparr>, Inr t)"
    and rel: "list_all2 (settled J i u) (tb_tasks s) rows" and row': "row' \<in> set rows" "br_id row' = i" "task_from_row J row' = Some t"
    using update_task_on_board_eq [OF assms(1,2,4)] by blast
  have "list_all2 (\<lambda>q q'. br_id q' = br_id q \<and> blockers J q' = filter (\<lambda>d. d \<noteq> i) (blockers J q) \<and>
      br_status q' = (if br_id q = i then ''completed'' else br_status q)) (tb_tasks s) rows"
    by (rule list_all2_mono [OF rel]) (simp add: settled_def assms(3) status_after_def)
  moreover have "br_status row' = ''completed''"
    using list_all2_in2 [OF rel row'(1)] row'(2) assms(3) by (auto simp: settled_def status_after_def)
  then have "bt_id t = i \<and> bt_status t = Completed"
    using row'(2,3) by (auto simp: task_from_row_def board_status_parse_def split: option.splits)
  ultimately show ?thesis using res assms(5) by simp
qed

lemma completing_unblocks_everyone_witness:
  "let s = fold (board_step sample_env demo_json) demo_board empty_team_db in
   case update_task_on_board sample_env demo_json ''t'' ''r'' finish s of
     (s', r) \<Rightarrow> map (blockers demo_json) (tb_tasks s') = [[], [], [''rr'']] \<and> map br_status (tb_tasks s') = [''completed'', ''pending'', ''pending'']"
proof -
  let ?s = "fold (board_step sample_env demo_json) demo_board empty_team_db"
  have ok: "board_ok sample_env demo_json ?s"
    by (rule board_ok_run [OF sample_env_distinct demo_json_ok]) (simp add: demo_board_def)
  obtain s' r where run: "update_task_on_board sample_env demo_json ''t'' ''r'' finish ?s = (s', r)" by fastforce
  have "find_task_by_id ''t'' ''r'' ?s \<noteq> None" by code_simp
  then obtain row where row: "find_task_by_id ''t'' ''r'' ?s = Some row" by blast
  have u: "bu_status finish = Some Completed" "plain_update demo_json finish" by (simp_all add: finish_def plain_update_def)
  have rel: "list_all2 (\<lambda>q q'. br_id q' = br_id q \<and> blockers demo_json q' = filter (\<lambda>d. d \<noteq> ''r'') (blockers demo_json q) \<and>
      br_status q' = (if br_id q = ''r'' then ''completed'' else br_status q)) (tb_tasks ?s) (tb_tasks s')"
    using completing_unblocks_everyone [OF ok row u run] by blast
  have "map (blockers demo_json) (tb_tasks s') = map (\<lambda>q. filter (\<lambda>d. d \<noteq> ''r'') (blockers demo_json q)) (tb_tasks ?s)"
    and "map br_status (tb_tasks s') = map (\<lambda>q. if br_id q = ''r'' then ''completed'' else br_status q) (tb_tasks ?s)"
    using rel by (induction rule: list_all2_induct) auto
  moreover have "map (\<lambda>q. filter (\<lambda>d. d \<noteq> ''r'') (blockers demo_json q)) (tb_tasks ?s) = [[], [], [''rr'']]" by code_simp
  moreover have "map (\<lambda>q. if br_id q = ''r'' then ''completed'' else br_status q) (tb_tasks ?s) = [''completed'', ''pending'', ''pending'']"
    by code_simp
  ultimately show ?thesis using run by (simp add: Let_def)
qed

text \<open>Creating a task on a consistent board names the first dependency that is not a task of the team
  and changes nothing, or succeeds: the new task is pending, fresh and blocked by exactly the given
  tasks, each of which now lists it; other tasks keep their own \<open>blocked_by\<close> list and state.\<close>

lemma creating_a_board_task:
  assumes "board_ok E J s"
    and "create_task_on_board E J team subject description owner deps s = (s', r)"
  shows "case find (\<lambda>d. find_task_by_id team d s = None) deps of
      Some d \<Rightarrow> r = Inl (BlockedTaskNotFound d) \<and> s' = s
    | None \<Rightarrow> (\<exists>t rows row. r = Inr t \<and> bt_status t = Pending \<and> bt_blocked_by t = deps \<and> bt_team_id t = team \<and>
        bt_id t \<notin> br_id ` set (tb_tasks s) \<and> tb_tasks s' = rows @ [row] \<and> task_from_row J row = Some t \<and>
        list_all2 (\<lambda>q q'. br_id q' = br_id q \<and> blockers J q' = blockers J q \<and> br_status q' = br_status q \<and>
          set (blocking J q') = set (blocking J q) \<union> (if br_id q \<in> set deps then {bt_id t} else {})) (tb_tasks s) rows)"
proof (cases "find (\<lambda>d. find_task_by_id team d s = None) deps")
  case (Some d)
  with assms(2) show ?thesis by (simp add: create_task_on_board_def check_deps_find)
next
  case None
  then have "check_deps team deps s = Inr ()" by (simp add: check_deps_find)
  let ?row = "new_board_row E J team subject description owner deps s"
  obtain n rows t where res: "create_task_on_board E J team subject description owner deps s =
      (s\<lparr>tb_tick := tb_tick s + Suc n, tb_tasks := rows @ [?row]\<rparr>, Inr t)"
    and t: "task_from_row J ?row = Some t"
    and rel: "list_all2 (appended J (set deps) (br_id ?row)) (tb_tasks s) rows"
    and fresh: "br_id ?row \<notin> br_id ` set (tb_tasks s)"
    using create_task_on_board_eq [OF assms(1) \<open>check_deps team deps s = Inr ()\<close>] by blast
  have J: "json_ok J" using assms(1) by (simp add: board_ok_def)
  have t': "bt_id t = br_id ?row" "bt_status t = Pending" "bt_blocked_by t = deps" "bt_team_id t = team"
    using t by (auto simp: task_from_row_def new_board_row_def json_ok_simps [OF J] board_status_parse_def split: option.splits)
  have "list_all2 (\<lambda>q q'. br_id q' = br_id q \<and> blockers J q' = blockers J q \<and> br_status q' = br_status q \<and>
      set (blocking J q') = set (blocking J q) \<union> (if br_id q \<in> set deps then {bt_id t} else {})) (tb_tasks s) rows"
    by (rule list_all2_mono [OF rel]) (simp add: appendedD t'(1))
  with None res assms(2) t t' fresh show ?thesis by auto
qed

lemma creating_a_board_task_witness:
  "let s = fold (board_step sample_env demo_json) (take 1 demo_board) empty_team_db in
   snd (create_task_on_board sample_env demo_json ''t'' ''x'' None None [''r'', ''nope'', ''no''] s) = Inl (BlockedTaskNotFound ''nope'')"
proof -
  let ?s = "fold (board_step sample_env demo_json) (take 1 demo_board) empty_team_db"
  have ok: "board_ok sample_env demo_json ?s"
    by (rule board_ok_run [OF sample_env_distinct demo_json_ok]) (simp add: demo_board_def)
  obtain s' r where run: "create_task_on_board sample_env demo_json ''t'' ''x'' None None [''r'', ''nope'', ''no''] ?s = (s', r)"
    by fastforce
  have "find (\<lambda>d. find_task_by_id ''t'' d ?s = None) [''r'', ''nope'', ''no''] = Some ''nope''" by code_simp
  with creating_a_board_task [OF ok run] run show ?thesis by (simp add: Let_def)
qed

section \<open>Where the graph breaks\<close>

text \<open>
  An update that sets \<open>blocked_by\<close> does not touch the \<open>blocks\<close> of the new dependency, so completing the
  dependency does not unblock the task; a task created on a completed dependency stays blocked.
\<close>

definition set_blocked_by :: "string list \<Rightarrow> board_update" where
  "set_blocked_by deps =
     \<lparr>bu_status = None, bu_description = None, bu_owner = None, bu_blocked_by = Some deps, bu_metadata = None\<rparr>"

lemma overwritten_blocked_by_is_never_unblocked:
  "map (blockers demo_json) (tb_tasks (fold (board_step sample_env demo_json)
     (take 2 demo_board @ [BoardUpdate ''t'' ''rr'' (set_blocked_by [''r'']), BoardUpdate ''t'' ''r'' finish]) empty_team_db)) =
   [[], [''r'']]"
  by code_simp

lemma task_on_completed_dependency_stays_blocked:
  "map (blockers demo_json) (tb_tasks (fold (board_step sample_env demo_json)
     (take 1 demo_board @ [BoardUpdate ''t'' ''r'' finish, BoardCreate ''t'' ''x'' None None [''r'']]) empty_team_db)) =
   [[], [''r'']]"
  by code_simp

end
