(* ===== verification/AuthTypes.thy ===== *)
theory AuthTypes
  imports ApiError
begin

text \<open>The errors of \<open>aionui-auth\<close> (\<open>error.rs\<close>) and their HTTP form (\<open>lib.rs\<close>).\<close>

datatype auth_error =
    InvalidCredentials | WeakPassword string | InvalidUsername string | TokenExpired
  | TokenInvalid string | TokenBlacklisted | AuthRateLimited | HashError string

end
