(* ===== verification/RateLimit.thy ===== *)
theory RateLimit
  imports AuthTypes "HOL-Library.Word"
begin

text \<open>
  \<open>RateLimiter\<close> (\<open>aionui-auth/src/rate_limit.rs\<close>): a fixed-window counter per key in a \<open>DashMap\<close>.
  Counters are \<open>u32\<close> and times \<open>u64\<close> milliseconds, at their widths; \<open>+\<close> wraps, as in a release
  build. The clock reading of an operation is its argument \<open>now\<close>.
\<close>

section \<open>State and operations\<close>

record rate_limit_entry =
  re_count :: "32 word"
  re_reset_time_ms :: "64 word"

record rate_limiter =
  rl_entries :: "(string, rate_limit_entry) hmap"
  rl_max_requests :: "32 word"
  rl_window_ms :: "64 word"

definition rate_limiter_new :: "32 word \<Rightarrow> 64 word \<Rightarrow> rate_limiter" where
  "rate_limiter_new max_requests window = \<lparr>rl_entries = [], rl_max_requests = max_requests, rl_window_ms = window\<rparr>"

definition auth_limiter :: rate_limiter where
  "auth_limiter = rate_limiter_new 5 (15 * 60 * 1000)"

definition api_limiter :: rate_limiter where
  "api_limiter = rate_limiter_new 60 (60 * 1000)"

definition authenticated_action_limiter :: rate_limiter where
  "authenticated_action_limiter = rate_limiter_new 20 (60 * 1000)"

definition rl_check :: "64 word \<Rightarrow> string \<Rightarrow> rate_limiter \<Rightarrow> auth_error + unit" where
  "rl_check now key l =
     (case hm_get (rl_entries l) key of
        None \<Rightarrow> Inr ()
      | Some e \<Rightarrow> if now < re_reset_time_ms e \<and> re_count e \<ge> rl_max_requests l then Inl AuthRateLimited else Inr ())"

text \<open>\<open>entry(key).or_insert(..)\<close> and the reset of an expired window, common to both counting operations.\<close>

definition current_entry :: "64 word \<Rightarrow> string \<Rightarrow> rate_limiter \<Rightarrow> rate_limit_entry" where
  "current_entry now key l =
     (let e = (case hm_get (rl_entries l) key of
                 None \<Rightarrow> \<lparr>re_count = 0, re_reset_time_ms = now + rl_window_ms l\<rparr> | Some e \<Rightarrow> e)
      in if now \<ge> re_reset_time_ms e then e\<lparr>re_count := 0, re_reset_time_ms := now + rl_window_ms l\<rparr> else e)"

definition check_and_increment :: "64 word \<Rightarrow> string \<Rightarrow> rate_limiter \<Rightarrow> rate_limiter \<times> (auth_error + unit)" where
  "check_and_increment now key l =
     (let e = current_entry now key l
      in if re_count e \<ge> rl_max_requests l then (l\<lparr>rl_entries := hm_insert key e (rl_entries l)\<rparr>, Inl AuthRateLimited)
         else (l\<lparr>rl_entries := hm_insert key (e\<lparr>re_count := re_count e + 1\<rparr>) (rl_entries l)\<rparr>, Inr ()))"

definition record_attempt :: "64 word \<Rightarrow> string \<Rightarrow> rate_limiter \<Rightarrow> rate_limiter" where
  "record_attempt now key l =
     (let e = current_entry now key l
      in l\<lparr>rl_entries := hm_insert key (e\<lparr>re_count := re_count e + 1\<rparr>) (rl_entries l)\<rparr>)"

definition rl_cleanup :: "64 word \<Rightarrow> rate_limiter \<Rightarrow> rate_limiter" where
  "rl_cleanup now l = l\<lparr>rl_entries := hm_retain (\<lambda>_ e. now < re_reset_time_ms e) (rl_entries l)\<rparr>"

definition entry_count :: "rate_limiter \<Rightarrow> nat" where
  "entry_count l = length (rl_entries l)"

section \<open>The bound of a window\<close>

text \<open>Counting requests and cleanups at given times; the log has the requests let through.\<close>

datatype limiter_op = Request "64 word" string | Cleanup "64 word"

fun op_time :: "limiter_op \<Rightarrow> 64 word" where
  "op_time (Request now _) = now"
| "op_time (Cleanup now) = now"

fun limiter_run :: "limiter_op list \<Rightarrow> rate_limiter \<Rightarrow> rate_limiter \<times> (string \<times> 64 word) list" where
  "limiter_run [] l = (l, [])"
| "limiter_run (Request now key # ops) l =
     (case check_and_increment now key l of (l1, r) \<Rightarrow>
        case limiter_run ops l1 of (l', granted) \<Rightarrow>
          (l', (case r of Inl _ \<Rightarrow> granted | Inr _ \<Rightarrow> (key, now) # granted)))"
| "limiter_run (Cleanup now # ops) l = limiter_run ops (rl_cleanup now l)"

text \<open>How many of the times \<open>ts\<close> lie from \<open>a\<close> on and before \<open>b\<close>.\<close>

definition between :: "nat \<Rightarrow> nat \<Rightarrow> 64 word list \<Rightarrow> nat" where
  "between a b ts = length (filter (\<lambda>t. a \<le> unat t \<and> unat t < b) ts)"

definition granted_to :: "string \<Rightarrow> (string \<times> 64 word) list \<Rightarrow> 64 word list" where
  "granted_to key log = map snd (filter (\<lambda>x. fst x = key) log)"

text \<open>
  What is known of a key after some requests: \<open>past\<close> are the times granted so far (none after
  \<open>t\<close>), \<open>m\<close> the limit and \<open>w\<close> the window. In a window that started at \<open>start\<close> the counter is the
  number of grants since then; the grants before it that an interval of length \<open>w\<close> reaching into the
  window can still see are at most \<open>m\<close>.
\<close>

definition in_window :: "nat \<Rightarrow> nat \<Rightarrow> nat \<Rightarrow> 64 word list \<Rightarrow> rate_limit_entry \<Rightarrow> nat \<Rightarrow> bool" where
  "in_window m w t past e start \<longleftrightarrow>
     unat (re_reset_time_ms e) = start + w \<and> start \<le> t \<and> (\<forall>x\<in>set past. unat x < start + w) \<and>
     unat (re_count e) = between start (Suc t) past \<and> unat (re_count e) \<le> m \<and>
     (\<forall>a. start < a + w \<longrightarrow> between a start past \<le> m)"

definition key_ok :: "nat \<Rightarrow> nat \<Rightarrow> nat \<Rightarrow> 64 word list \<Rightarrow> rate_limit_entry option \<Rightarrow> bool" where
  "key_ok m w t past e \<longleftrightarrow>
     (\<forall>x\<in>set past. unat x \<le> t) \<and> (\<forall>a. between a (a + w) past \<le> 2 * m) \<and>
     (case e of
        None \<Rightarrow> (\<forall>x\<in>set past. unat x < t) \<and> (\<forall>a. t < a + w \<longrightarrow> between a (Suc t) past \<le> m)
      | Some e \<Rightarrow> \<exists>start. in_window m w t past e start)"

lemma between_append: "between a b (xs @ ys) = between a b xs + between a b ys"
  by (simp add: between_def)

lemma between_Nil [simp]: "between a b [] = 0"
  by (simp add: between_def)

lemma between_single: "between a b [x] = (if a \<le> unat x \<and> unat x < b then 1 else 0)"
  by (simp add: between_def)

lemma between_split: "a \<le> c \<Longrightarrow> c \<le> b \<Longrightarrow> between a b xs = between a c xs + between c b xs"
  by (induction xs) (auto simp: between_def)

lemma between_le:
  "(\<And>x. x \<in> set xs \<Longrightarrow> a \<le> unat x \<Longrightarrow> unat x < b \<Longrightarrow> a' \<le> unat x \<and> unat x < b') \<Longrightarrow> between a b xs \<le> between a' b' xs"
  by (induction xs) (auto simp: between_def)

lemma between_later:
  assumes "\<And>x. x \<in> set xs \<Longrightarrow> unat x \<le> t" and "t < b"
  shows "between a b xs = between a (Suc t) xs"
proof (rule antisym)
  show "between a b xs \<le> between a (Suc t) xs" by (rule between_le) (use assms(1) in \<open>auto simp: less_Suc_eq_le\<close>)
  show "between a (Suc t) xs \<le> between a b xs" by (rule between_le) (use assms(2) in auto)
qed

lemma between_none: "(\<And>x. x \<in> set xs \<Longrightarrow> unat x < a) \<Longrightarrow> between a b xs = 0"
  by (force simp: between_def filter_empty_conv)

text \<open>Time passing and a cleanup keep what is known.\<close>

lemma key_ok_later:
  assumes ok: "key_ok m w t past e" and le: "t \<le> t'"
  shows "key_ok m w t' past e"
proof -
  have ub: "\<And>x. x \<in> set past \<Longrightarrow> unat x \<le> t" using ok by (simp add: key_ok_def)
  have eq: "between a (Suc t') past = between a (Suc t) past" for a
    by (rule between_later [OF ub]) (use le in auto)
  show ?thesis
  proof (cases e)
    case None
    with ok le show ?thesis by (fastforce simp: key_ok_def eq)
  next
    case (Some f)
    with ok obtain start where "in_window m w t past f start" by (auto simp: key_ok_def)
    with le have "in_window m w t' past f start" by (auto simp: in_window_def eq)
    with ok Some ub le show ?thesis by (auto simp: key_ok_def intro: order_trans)
  qed
qed

lemma key_ok_removed:
  assumes ok: "key_ok m w t past (Some e)" and "unat (re_reset_time_ms e) \<le> t"
  shows "key_ok m w t past None"
proof -
  from ok obtain start where s: "in_window m w t past e start" by (auto simp: key_ok_def)
  have "between a (Suc t) past \<le> m" if "t < a + w" for a
  proof -
    have "start \<le> a" using that s assms(2) by (simp add: in_window_def)
    then have "between a (Suc t) past \<le> between start (Suc t) past" by (intro between_le) auto
    with s show ?thesis by (simp add: in_window_def)
  qed
  moreover have "\<forall>x\<in>set past. unat x < t"
    using s assms(2) by (auto simp: in_window_def intro: less_le_trans)
  ultimately show ?thesis using ok by (simp add: key_ok_def)
qed

text \<open>A window opens at \<open>now\<close>.\<close>

lemma window_opens:
  assumes ok: "key_ok m w t past None" and t: "t \<le> unat now" and w: "0 < w"
    and e: "unat (re_reset_time_ms e) = unat now + w" "re_count e = 0"
  shows "in_window m w (unat now) past e (unat now)"
proof -
  have now: "key_ok m w (unat now) past None" by (rule key_ok_later [OF ok t])
  then have lt: "\<And>x. x \<in> set past \<Longrightarrow> unat x < unat now" by (simp add: key_ok_def)
  have "between a (unat now) past \<le> m" if "unat now < a + w" for a
  proof -
    have "between a (unat now) past \<le> between a (Suc (unat now)) past" by (rule between_le) auto
    with now that show ?thesis by (fastforce simp: key_ok_def)
  qed
  moreover have "between (unat now) (Suc (unat now)) past = 0" by (rule between_none [OF lt])
  ultimately show ?thesis using e w lt by (auto simp: in_window_def intro: trans_less_add1)
qed

text \<open>The entry a counting operation works on.\<close>

lemma current_entry_ok:
  assumes ok: "key_ok m (unat (rl_window_ms l)) t past (hm_get (rl_entries l) key)" and t: "t \<le> unat now"
    and w: "0 < unat (rl_window_ms l)" and fit: "unat now + unat (rl_window_ms l) < 2 ^ 64"
  shows "\<exists>start. in_window m (unat (rl_window_ms l)) (unat now) past (current_entry now key l) start \<and>
    unat now < start + unat (rl_window_ms l)"
proof -
  let ?w = "unat (rl_window_ms l)" and ?e = "current_entry now key l"
  have sum: "unat (now + rl_window_ms l) = unat now + ?w"
    using fit by (simp add: unat_word_ariths)
  have fresh: ?thesis if "key_ok m ?w t past None" "?e = \<lparr>re_count = 0, re_reset_time_ms = now + rl_window_ms l\<rparr>"
    using window_opens [OF that(1) t w, of ?e] that(2) sum w by auto
  show ?thesis
  proof (cases "hm_get (rl_entries l) key")
    case None
    have "now \<ge> now + rl_window_ms l \<Longrightarrow> False" using sum w by (simp add: word_le_nat_alt)
    then have "?e = \<lparr>re_count = 0, re_reset_time_ms = now + rl_window_ms l\<rparr>"
      using None by (auto simp: current_entry_def Let_def)
    with ok None show ?thesis by (intro fresh) simp_all
  next
    case (Some e)
    have later: "key_ok m ?w (unat now) past (Some e)" using ok Some key_ok_later t by simp
    show ?thesis
    proof (cases "now \<ge> re_reset_time_ms e")
      case True
      then have removed: "key_ok m ?w (unat now) past None"
        by (intro key_ok_removed [OF later]) (simp add: word_le_nat_alt)
      have "?e = \<lparr>re_count = 0, re_reset_time_ms = now + rl_window_ms l\<rparr>"
        using Some True by (cases e) (simp add: current_entry_def Let_def)
      with window_opens [OF removed order_refl w, of ?e] sum w show ?thesis by auto
    next
      case False
      then have "?e = e" using Some by (simp add: current_entry_def Let_def)
      moreover from later obtain start where "in_window m ?w (unat now) past e start" by (auto simp: key_ok_def)
      moreover from this False have "unat now < start + ?w" by (simp add: in_window_def word_le_nat_alt)
      ultimately show ?thesis by auto
    qed
  qed
qed

text \<open>A granted request is counted and keeps the bound of every interval.\<close>

lemma grant_keeps:
  assumes past: "\<forall>x\<in>set past. unat x \<le> unat now" and two: "\<forall>a. between a (a + w) past \<le> 2 * m"
    and win: "in_window m w (unat now) past e start" "unat now < start + w" and less: "unat (re_count e) < m"
    and m: "m < 2 ^ 32"
  shows "key_ok m w (unat now) (past @ [now]) (Some (e\<lparr>re_count := re_count e + 1\<rparr>))"
proof -
  have inc: "unat (re_count e + 1) = Suc (unat (re_count e))"
    using less m by (simp add: unat_word_ariths)
  have count: "unat (re_count e) = between start (Suc (unat now)) past" and start: "start \<le> unat now"
    and prior: "\<And>a. start < a + w \<Longrightarrow> between a start past \<le> m"
    using win(1) by (simp_all add: in_window_def)
  have "between a (a + w) (past @ [now]) \<le> 2 * m" for a
  proof (cases "a \<le> unat now \<and> unat now < a + w")
    case False
    then have "between a (a + w) [now] = 0" by (auto simp: between_single)
    with two show ?thesis by (simp add: between_append)
  next
    case True
    have tail: "between c (a + w) past \<le> unat (re_count e)" if "start \<le> c" for c
      unfolding count by (rule between_le) (use that past in \<open>auto simp: less_Suc_eq_le\<close>)
    show ?thesis
    proof (cases "a \<le> start")
      case True
      with \<open>a \<le> unat now \<and> unat now < a + w\<close> start have "start < a + w" by simp
      then have "between a (a + w) past = between a start past + between start (a + w) past"
        using True by (intro between_split) auto
      with prior [OF \<open>start < a + w\<close>] tail [OF order_refl] less show ?thesis
        by (simp add: between_append between_single)
    next
      case False
      with tail [of a] less show ?thesis by (simp add: between_append between_single)
    qed
  qed
  moreover have "in_window m w (unat now) (past @ [now]) (e\<lparr>re_count := re_count e + 1\<rparr>) start"
    using win start less count by (auto simp: in_window_def inc between_append between_single)
  ultimately show ?thesis using past by (auto simp: key_ok_def)
qed

text \<open>The invariant of a limiter along its log, and its preservation by every operation.\<close>

definition limiter_ok :: "nat \<Rightarrow> (string \<times> 64 word) list \<Rightarrow> rate_limiter \<Rightarrow> bool" where
  "limiter_ok t log l \<longleftrightarrow> hm_ok (rl_entries l) \<and>
     (\<forall>key. key_ok (unat (rl_max_requests l)) (unat (rl_window_ms l)) t (granted_to key log) (hm_get (rl_entries l) key))"

lemma granted_to_append: "granted_to key (xs @ ys) = granted_to key xs @ granted_to key ys"
  by (simp add: granted_to_def)

lemma granted_to_single: "granted_to key [(k, t)] = (if k = key then [t] else [])"
  by (simp add: granted_to_def)

lemma limiter_ok_request:
  assumes ok: "limiter_ok t log l" and t: "t \<le> unat now"
    and w: "0 < unat (rl_window_ms l)" and fit: "unat now + unat (rl_window_ms l) < 2 ^ 64"
    and step: "check_and_increment now key l = (l', r)"
  shows "limiter_ok (unat now) (log @ (case r of Inl _ \<Rightarrow> [] | Inr _ \<Rightarrow> [(key, now)])) l'"
proof -
  let ?m = "unat (rl_max_requests l)" and ?w = "unat (rl_window_ms l)" and ?e = "current_entry now key l"
  let ?past = "granted_to key log"
  have here: "key_ok ?m ?w t ?past (hm_get (rl_entries l) key)" using ok by (simp add: limiter_ok_def)
  obtain start where win: "in_window ?m ?w (unat now) ?past ?e start" "unat now < start + ?w"
    using current_entry_ok [OF here t w fit] by blast
  have past: "\<forall>x\<in>set ?past. unat x \<le> unat now" and two: "\<forall>a. between a (a + ?w) ?past \<le> 2 * ?m"
    using here t by (auto simp: key_ok_def)
  have others: "key_ok ?m ?w (unat now) (granted_to k log) (hm_get (rl_entries l) k)" for k
    by (rule key_ok_later [OF _ t]) (use ok in \<open>simp add: limiter_ok_def\<close>)
  show ?thesis
  proof (cases "re_count ?e \<ge> rl_max_requests l")
    case True
    with step have "r = Inl AuthRateLimited" "l' = l\<lparr>rl_entries := hm_insert key ?e (rl_entries l)\<rparr>"
      by (auto simp: check_and_increment_def Let_def)
    moreover have "key_ok ?m ?w (unat now) ?past (Some ?e)" using past two win(1) by (auto simp: key_ok_def)
    ultimately show ?thesis using ok others by (auto simp: limiter_ok_def hm_get_insert)
  next
    case False
    with step have r: "r = Inr ()" "l' = l\<lparr>rl_entries := hm_insert key (?e\<lparr>re_count := re_count ?e + 1\<rparr>) (rl_entries l)\<rparr>"
      by (auto simp: check_and_increment_def Let_def)
    have "unat (re_count ?e) < ?m" using False by (simp add: word_le_nat_alt)
    moreover have "?m < 2 ^ 32" using unsigned_less [of "rl_max_requests l"] by simp
    ultimately have "key_ok ?m ?w (unat now) (?past @ [now]) (Some (?e\<lparr>re_count := re_count ?e + 1\<rparr>))"
      by (rule grant_keeps [OF past two win])
    with ok others r show ?thesis
      by (auto simp: limiter_ok_def hm_get_insert granted_to_append granted_to_single)
  qed
qed

lemma limiter_ok_cleanup:
  assumes ok: "limiter_ok t log l" and t: "t \<le> unat now"
  shows "limiter_ok (unat now) log (rl_cleanup now l)"
proof -
  let ?m = "unat (rl_max_requests l)" and ?w = "unat (rl_window_ms l)"
  have "key_ok ?m ?w (unat now) (granted_to k log) (hm_get (rl_entries (rl_cleanup now l)) k)" for k
  proof -
    have later: "key_ok ?m ?w (unat now) (granted_to k log) (hm_get (rl_entries l) k)"
      by (rule key_ok_later [OF _ t]) (use ok in \<open>simp add: limiter_ok_def\<close>)
    show ?thesis
    proof (cases "hm_get (rl_entries l) k")
      case None
      with later ok show ?thesis by (simp add: rl_cleanup_def limiter_ok_def hm_get_retain)
    next
      case (Some e)
      with later ok key_ok_removed [of ?m ?w "unat now" "granted_to k log" e] show ?thesis
        by (simp add: rl_cleanup_def limiter_ok_def hm_get_retain word_le_nat_alt not_less)
    qed
  qed
  with ok show ?thesis by (simp add: limiter_ok_def) (simp add: rl_cleanup_def)
qed

lemma limiter_run_ok:
  assumes "limiter_ok t log l" and "limiter_run ops l = (l', granted)"
    and "sorted (t # map (unat \<circ> op_time) ops)" and "0 < unat (rl_window_ms l)"
    and "list_all (\<lambda>x. unat (op_time x) + unat (rl_window_ms l) < 2 ^ 64) ops"
  shows "\<exists>t'. limiter_ok t' (log @ granted) l' \<and> rl_max_requests l' = rl_max_requests l \<and> rl_window_ms l' = rl_window_ms l"
  using assms
proof (induction ops l arbitrary: t log l' granted rule: limiter_run.induct)
  case (1 l)
  then show ?case by auto
next
  case (2 now key ops l)
  obtain l1 r where step: "check_and_increment now key l = (l1, r)" by fastforce
  from "2.prems"(2) step obtain g where rest: "limiter_run ops l1 = (l', g)"
    "granted = (case r of Inl _ \<Rightarrow> g | Inr _ \<Rightarrow> (key, now) # g)"
    by (auto split: prod.splits)
  have same: "rl_max_requests l1 = rl_max_requests l" "rl_window_ms l1 = rl_window_ms l"
    using step by (auto simp: check_and_increment_def Let_def split: if_splits)
  have "limiter_ok (unat now) (log @ (case r of Inl _ \<Rightarrow> [] | Inr _ \<Rightarrow> [(key, now)])) l1"
    using "2.prems" by (intro limiter_ok_request [OF "2.prems"(1) _ _ _ step]) auto
  from "2.IH" [OF step [symmetric] this rest(1)] "2.prems" same rest(2)
  show ?case by (auto split: sum.splits)
next
  case (3 now ops l)
  have "limiter_ok (unat now) log (rl_cleanup now l)"
    using "3.prems" by (intro limiter_ok_cleanup [OF "3.prems"(1)]) auto
  from "3.IH" [OF this] "3.prems" show ?case by (auto simp: rl_cleanup_def)
qed

text \<open>C14. Under load: along any sequence of requests and cleanups at times that do not run backwards and
  leave room for a window in a \<open>u64\<close>, at most twice the limit of requests of a key is let through in any
  interval as long as the window, however the clients time them.\<close>

theorem rate_limit_bound:
  assumes "limiter_run ops (rate_limiter_new m w) = (l, granted)"
    and "sorted (map (unat \<circ> op_time) ops)" and "0 < w"
    and "list_all (\<lambda>x. unat (op_time x) + unat w < 2 ^ 64) ops"
  shows "between a (a + unat w) (granted_to key granted) \<le> 2 * unat m"
proof -
  have "limiter_ok 0 [] (rate_limiter_new m w)"
    by (simp add: limiter_ok_def rate_limiter_new_def key_ok_def granted_to_def)
  moreover have "0 < unat (rl_window_ms (rate_limiter_new m w))"
    using assms(3) by (simp add: rate_limiter_new_def word_less_nat_alt)
  ultimately obtain t' where "limiter_ok t' ([] @ granted) l" "rl_max_requests l = m" "rl_window_ms l = w"
    using limiter_run_ok [OF _ assms(1), of 0 "[]"] assms(2,4) by (auto simp: rate_limiter_new_def)
  then show ?thesis by (simp add: limiter_ok_def key_ok_def)
qed

lemma limiter_run_request:
  "check_and_increment now key l = (l1, r) \<Longrightarrow> limiter_run (Request now key # ops) l =
     (fst (limiter_run ops l1), (case r of Inl _ \<Rightarrow> [] | Inr _ \<Rightarrow> [(key, now)]) @ snd (limiter_run ops l1))"
  by (cases "limiter_run ops l1") (auto split: sum.splits)

text \<open>Three requests per window of 100 ms; the fourth of a window is refused, a new window opens at 250.\<close>

definition demo_requests :: "limiter_op list" where
  "demo_requests = map (\<lambda>t. Request t ''k'') [120, 190, 195, 199] @ [Cleanup 240] @ map (\<lambda>t. Request t ''k'') [250, 251, 252, 253]"

lemma rate_limit_bound_witness:
  "snd (limiter_run demo_requests (rate_limiter_new 3 100)) = map (Pair ''k'') [120, 190, 195, 250, 251, 252] \<and>
   between 170 (170 + 100) (granted_to ''k'' (snd (limiter_run demo_requests (rate_limiter_new 3 100)))) \<le> 6"
proof
  show "snd (limiter_run demo_requests (rate_limiter_new 3 100)) = map (Pair ''k'') [120, 190, 195, 250, 251, 252]"
    by (simp add: demo_requests_def rate_limiter_new_def check_and_increment_def current_entry_def rl_cleanup_def
        hm_retain_def Let_def word_le_nat_alt word_less_nat_alt limiter_run_request del: limiter_run.simps(2))
  obtain l granted where r: "limiter_run demo_requests (rate_limiter_new 3 100) = (l, granted)" by fastforce
  have "sorted (map (unat \<circ> op_time) demo_requests)" by (simp add: demo_requests_def)
  moreover have "list_all (\<lambda>x. unat (op_time x) + unat (100 :: 64 word) < 2 ^ 64) demo_requests" by (simp add: demo_requests_def)
  ultimately show "between 170 (170 + 100) (granted_to ''k'' (snd (limiter_run demo_requests (rate_limiter_new 3 100)))) \<le> 6"
    using rate_limit_bound [OF r, of 170 "''k''"] r by simp
qed

section \<open>Lockout after failed attempts\<close>

lemma record_attempt_same_window:
  assumes "hm_get (rl_entries l) key = Some e" and "now < re_reset_time_ms e"
  shows "hm_get (rl_entries (record_attempt now key l)) key = Some (e\<lparr>re_count := re_count e + 1\<rparr>)"
  using assms by (simp add: record_attempt_def current_entry_def Let_def hm_get_insert not_le)

lemma record_attempts_count:
  assumes "hm_get (rl_entries l) key = Some e" and "list_all (\<lambda>t. t < re_reset_time_ms e) ts"
  shows "hm_get (rl_entries (fold (\<lambda>t. record_attempt t key) ts l)) key =
    Some (e\<lparr>re_count := re_count e + of_nat (length ts)\<rparr>)"
  using assms
proof (induction ts arbitrary: l e)
  case (Cons t ts)
  then have "hm_get (rl_entries (record_attempt t key l)) key = Some (e\<lparr>re_count := re_count e + 1\<rparr>)"
    by (intro record_attempt_same_window) auto
  from Cons.IH [OF this] Cons.prems(2) show ?case by (simp add: add.commute add.left_commute)
qed simp

lemma record_attempts_params:
  "rl_max_requests (fold (\<lambda>t. record_attempt t key) ts l) = rl_max_requests l"
  "k \<noteq> key \<Longrightarrow> hm_get (rl_entries (fold (\<lambda>t. record_attempt t key) ts l)) k = hm_get (rl_entries l) k"
  by (induction ts arbitrary: l) (simp_all add: record_attempt_def Let_def hm_get_insert)

text \<open>The login limiter locks a key out: after attempts at times \<open>t0, ts\<close> within one window (fewer than
  \<open>2 ^ 32\<close>, so that the counter does not wrap) the key is refused exactly while the window lasts and the
  attempts have reached the limit; every other key is treated as before.\<close>

lemma lockout_after_failures:
  assumes "hm_get (rl_entries l) key = None" and "list_all (\<lambda>t. t < t0 + rl_window_ms l) ts"
    and "t0 < t0 + rl_window_ms l" and "Suc (length ts) < 2 ^ 32"
    and "l' = fold (\<lambda>t. record_attempt t key) (t0 # ts) l"
  shows "rl_check now key l' =
      (if now < t0 + rl_window_ms l \<and> unat (rl_max_requests l) \<le> length (t0 # ts) then Inl AuthRateLimited else Inr ()) \<and>
    (k \<noteq> key \<longrightarrow> rl_check now k l' = rl_check now k l)"
proof -
  let ?e = "\<lparr>re_count = 1, re_reset_time_ms = t0 + rl_window_ms l\<rparr>"
  have first: "hm_get (rl_entries (record_attempt t0 key l)) key = Some ?e"
    using assms(1,3) by (simp add: record_attempt_def current_entry_def Let_def hm_get_insert not_le [symmetric])
  have "hm_get (rl_entries l') key = Some (?e\<lparr>re_count := re_count ?e + of_nat (length ts)\<rparr>)"
    unfolding assms(5) fold_simps by (rule record_attempts_count [OF first]) (use assms(2) in simp)
  moreover have "unat (1 + of_nat (length ts) :: 32 word) = Suc (length ts)"
    using assms(4) unat_of_nat [of "Suc (length ts)", where 'a=32] by simp
  ultimately have "rl_check now key l' =
      (if now < t0 + rl_window_ms l \<and> unat (rl_max_requests l) \<le> length (t0 # ts) then Inl AuthRateLimited else Inr ())"
    using record_attempts_params(1) [of key "t0 # ts" l]
    by (simp add: rl_check_def word_le_nat_alt assms(5))
  moreover have "k \<noteq> key \<longrightarrow> rl_check now k l' = rl_check now k l"
    using record_attempts_params [where key=key and ts="t0 # ts" and l=l]
    by (auto simp: rl_check_def assms(5) split: option.splits)
  ultimately show ?thesis by blast
qed

lemma lockout_after_failures_witness:
  "let l = fold (\<lambda>t. record_attempt t ''ip'') [1000, 2000, 3000, 4000, 5000] auth_limiter in
     rl_check 900999 ''ip'' l = Inl AuthRateLimited \<and> rl_check 901000 ''ip'' l = Inr () \<and> rl_check 900999 ''other'' l = Inr ()"
proof -
  let ?l = "fold (\<lambda>t. record_attempt t ''ip'') (1000 # [2000, 3000, 4000, 5000]) auth_limiter"
  have "rl_check now ''ip'' ?l = (if now < 1000 + rl_window_ms auth_limiter \<and>
        unat (rl_max_requests auth_limiter) \<le> length [1000, 2000, 3000, 4000, 5000 :: 64 word] then Inl AuthRateLimited else Inr ()) \<and>
      (''other'' \<noteq> ''ip'' \<longrightarrow> rl_check now ''other'' ?l = rl_check now ''other'' auth_limiter)" for now
    by (rule lockout_after_failures) (simp_all add: auth_limiter_def rate_limiter_new_def word_less_nat_alt)
  from this [of 900999] this [of 901000] show ?thesis
    by (simp add: Let_def auth_limiter_def rate_limiter_new_def rl_check_def [of _ _ "\<lparr>rl_entries = [], rl_max_requests = _, rl_window_ms = _\<rparr>"]
        word_less_nat_alt)
qed

end
