(* ===== verification/QrToken.thy ===== *)
theory QrToken
  imports AuthTypes "HOL-Library.Word"
begin

text \<open>
  \<open>QrTokenStore\<close> (\<open>aionui-auth/src/qr_token.rs\<close>): one-time login tokens that expire after five minutes.
  The random bytes and the clock reading of an operation are its arguments. A \<open>DashMap\<close> entry is
  locked while an operation works on it, so every operation is one step.
\<close>

section \<open>State and operations\<close>

record qr_token_data =
  qt_created_at_ms :: int
  qt_used :: bool

type_synonym qr_token_store = "(string, qr_token_data) hmap"

definition QR_TOKEN_TTL_MS :: int where
  "QR_TOKEN_TTL_MS = 5 * 60 * 1000"

text \<open>\<open>i64::saturating_sub\<close>\<close>

definition sat_sub :: "int \<Rightarrow> int \<Rightarrow> int" where
  "sat_sub a b = max (- (2 ^ 63)) (min (2 ^ 63 - 1) (a - b))"

definition hex_digit :: "nat \<Rightarrow> char" where
  "hex_digit n = ''0123456789abcdef'' ! n"

definition hex_byte :: "8 word \<Rightarrow> string" where
  "hex_byte b = [hex_digit (unat b div 16), hex_digit (unat b mod 16)]"

definition token_hex :: "8 word list \<Rightarrow> string" where
  "token_hex buf = concat (map hex_byte buf)"

definition generate_with_expiry :: "8 word list \<Rightarrow> int \<Rightarrow> qr_token_store \<Rightarrow> qr_token_store \<times> string \<times> int" where
  "generate_with_expiry buf now store =
     (let token = token_hex buf
      in (hm_insert token \<lparr>qt_created_at_ms = now, qt_used = False\<rparr> store, token, now + QR_TOKEN_TTL_MS))"

definition validate_and_consume :: "int \<Rightarrow> string \<Rightarrow> qr_token_store \<Rightarrow> (qr_token_store, auth_error, unit) outcome" where
  "validate_and_consume now token store =
     (case hm_get store token of
        None \<Rightarrow> (store, Inl (TokenInvalid ''Invalid QR token''))
      | Some entry \<Rightarrow>
          if qt_used entry then (store, Inl (TokenInvalid ''QR token already used''))
          else if sat_sub now (qt_created_at_ms entry) > QR_TOKEN_TTL_MS
          then (store, Inl (TokenInvalid ''QR token expired''))
          else (hm_insert token (entry\<lparr>qt_used := True\<rparr>) store, Inr ()))"

definition qr_cleanup :: "int \<Rightarrow> qr_token_store \<Rightarrow> qr_token_store" where
  "qr_cleanup now store = hm_retain (\<lambda>_ d. sat_sub now (qt_created_at_ms d) \<le> QR_TOKEN_TTL_MS) store"

section \<open>Tokens are used once\<close>

lemma sat_sub_ttl: "sat_sub a b \<le> QR_TOKEN_TTL_MS \<longleftrightarrow> a - b \<le> QR_TOKEN_TTL_MS"
  by (auto simp: sat_sub_def QR_TOKEN_TTL_MS_def max_def min_def)

datatype qr_op = QrGenerate "8 word list" int | QrValidate string int | QrCleanup int

text \<open>The log: tokens handed out with their time, and tokens accepted with theirs.\<close>

fun qr_run :: "qr_op list \<Rightarrow> qr_token_store \<Rightarrow> qr_token_store \<times> (string \<times> int) list \<times> (string \<times> int) list" where
  "qr_run [] store = (store, [], [])"
| "qr_run (QrGenerate buf now # ops) store =
     (case generate_with_expiry buf now store of
        (s1, token, _) \<Rightarrow> case qr_run ops s1 of (s', made, used) \<Rightarrow> (s', (token, now) # made, used))"
| "qr_run (QrValidate token now # ops) store =
     (case validate_and_consume now token store of
        (s1, r) \<Rightarrow> case qr_run ops s1 of
          (s', made, used) \<Rightarrow> (s', made, (case r of Inl _ \<Rightarrow> used | Inr _ \<Rightarrow> (token, now) # used)))"
| "qr_run (QrCleanup now # ops) store = qr_run ops (qr_cleanup now store)"

text \<open>What may still be accepted: an unused entry, or a token that is handed out later.\<close>

definition live :: "qr_token_store \<Rightarrow> (string \<times> int) set" where
  "live store = {(t, c). \<exists>d. hm_get store t = Some d \<and> \<not> qt_used d \<and> qt_created_at_ms d = c}"

lemma qr_run_used:
  assumes "hm_ok store" and "qr_run ops store = (s', made, used)"
    and "distinct (map fst made)" and "\<forall>t\<in>fst ` set made. hm_get store t = None"
  shows "distinct (map fst used) \<and>
    (\<forall>(t, u)\<in>set used. \<exists>c. (t, c) \<in> live store \<union> set made \<and> u - c \<le> QR_TOKEN_TTL_MS)"
  using assms
proof (induction ops store arbitrary: s' made used rule: qr_run.induct)
  case (1 store)
  then show ?case by simp
next
  case (2 buf now ops store)
  let ?t = "token_hex buf" and ?s1 = "hm_insert (token_hex buf) \<lparr>qt_created_at_ms = now, qt_used = False\<rparr> store"
  obtain m where rest: "qr_run ops ?s1 = (s', m, used)" "made = (?t, now) # m"
    using "2.prems"(2) by (auto simp: generate_with_expiry_def Let_def split: prod.splits)
  have gen: "generate_with_expiry buf now store = (?s1, ?t, now + QR_TOKEN_TTL_MS)"
    by (simp add: generate_with_expiry_def Let_def)
  have "distinct (map fst used) \<and> (\<forall>(t, u)\<in>set used. \<exists>c. (t, c) \<in> live ?s1 \<union> set m \<and> u - c \<le> QR_TOKEN_TTL_MS)"
  proof (rule "2.IH" [OF gen [symmetric] refl _ rest(1)])
    show "hm_ok ?s1" using "2.prems"(1) by simp
    show "distinct (map fst m)" using "2.prems"(3) rest(2) by simp
    have "?t \<notin> fst ` set m" using "2.prems"(3) rest(2) by simp
    then show "\<forall>t\<in>fst ` set m. hm_get ?s1 t = None"
      using "2.prems"(4) rest(2) by (simp add: hm_get_insert) (metis fst_conv imageI)
  qed
  moreover have "live ?s1 \<subseteq> insert (?t, now) (live store)"
    by (auto simp: live_def hm_get_insert split: if_splits)
  ultimately show ?case using rest(2) by fastforce
next
  case (3 token now ops store)
  obtain s1 r where step: "validate_and_consume now token store = (s1, r)" by fastforce
  with "3.prems"(2) obtain u where rest: "qr_run ops s1 = (s', made, u)"
    "used = (case r of Inl _ \<Rightarrow> u | Inr _ \<Rightarrow> (token, now) # u)" by (auto split: prod.splits)
  show ?case
  proof (cases r)
    case (Inl e)
    with step have "s1 = store" by (auto simp: validate_and_consume_def split: option.splits if_splits)
    with "3.IH" [OF step [symmetric]] "3.prems" rest Inl show ?thesis by simp
  next
    case (Inr x)
    with step obtain d where d: "hm_get store token = Some d" "\<not> qt_used d"
      "now - qt_created_at_ms d \<le> QR_TOKEN_TTL_MS" "s1 = hm_insert token (d\<lparr>qt_used := True\<rparr>) store"
      by (auto simp: validate_and_consume_def sat_sub_ttl [symmetric] not_less split: option.splits if_splits)
    have prem: "\<forall>t\<in>fst ` set made. hm_get s1 t = None" using "3.prems"(4) d(1,4) by (auto simp: hm_get_insert)
    have ih: "distinct (map fst u) \<and> (\<forall>(t, v)\<in>set u. \<exists>c. (t, c) \<in> live s1 \<union> set made \<and> v - c \<le> QR_TOKEN_TTL_MS)"
      using "3.prems"(1,3) d(4) by (intro "3.IH" [OF step [symmetric] _ rest(1) _ prem]) auto
    have sub: "live s1 \<subseteq> live store" and gone: "(token, c) \<notin> live s1" for c
      by (auto simp: live_def d(4) hm_get_insert split: if_splits)
    have "token \<notin> fst ` set made" using "3.prems"(4) d(1) by auto
    have "token \<notin> fst ` set u"
    proof
      assume "token \<in> fst ` set u"
      then obtain v where "(token, v) \<in> set u" by auto
      with ih obtain c where "(token, c) \<in> live s1 \<union> set made" by blast
      with gone \<open>token \<notin> fst ` set made\<close> show False by force
    qed
    moreover have "(token, qt_created_at_ms d) \<in> live store" using d by (simp add: live_def)
    ultimately show ?thesis using ih sub d(3) rest(2) Inr by fastforce
  qed
next
  case (4 now ops store)
  have "live (qr_cleanup now store) \<subseteq> live store"
    using "4.prems"(1) by (auto simp: live_def qr_cleanup_def hm_get_retain split: option.splits if_splits)
  moreover have "distinct (map fst used) \<and>
      (\<forall>(t, u)\<in>set used. \<exists>c. (t, c) \<in> live (qr_cleanup now store) \<union> set made \<and> u - c \<le> QR_TOKEN_TTL_MS)"
    using "4.prems" by (intro "4.IH") (auto simp: qr_cleanup_def hm_get_retain)
  ultimately show ?case by fastforce
qed

text \<open>C15. Along any sequence of requests, if the random source never repeats a token, a QR token is accepted
  at most once, only if it was handed out, and no later than five minutes after that.\<close>

theorem qr_token_single_use:
  assumes "qr_run ops [] = (s', made, used)" and "distinct (map fst made)"
  shows "distinct (map fst used) \<and> (\<forall>(t, u)\<in>set used. \<exists>c. (t, c) \<in> set made \<and> u \<le> c + 5 * 60 * 1000)"
  using qr_run_used [OF _ assms] by (fastforce simp: live_def QR_TOKEN_TTL_MS_def)

definition demo_qr :: "qr_op list" where
  "demo_qr = [QrGenerate [1, 255] 1000, QrGenerate [2, 16] 2000, QrValidate ''01ff'' 3000, QrValidate ''01ff'' 3001,
     QrValidate ''0210'' 302001, QrCleanup 303000, QrValidate ''0210'' 303000]"

lemma qr_token_single_use_witness:
  "snd (snd (qr_run demo_qr [])) = [(''01ff'', 3000)] \<and> distinct (map fst (snd (snd (qr_run demo_qr []))))"
proof
  have run: "snd (qr_run demo_qr []) = ([(''01ff'', 1000), (''0210'', 2000)], [(''01ff'', 3000)])"
    by code_simp
  then show "snd (snd (qr_run demo_qr [])) = [(''01ff'', 3000)]" by simp
  obtain s' made used where r: "qr_run demo_qr [] = (s', made, used)" by (metis prod_cases3)
  with run have "made = [(''01ff'', 1000), (''0210'', 2000)]" by simp
  then have "distinct (map fst made)" by simp
  from qr_token_single_use [OF r this] r show "distinct (map fst (snd (snd (qr_run demo_qr []))))" by simp
qed

end
