(* ===== verification/Validation.thy ===== *)
theory Validation
  imports AuthTypes
begin

text \<open>
  User names and passwords (\<open>aionui-auth/src/validation.rs\<close>). \<open>len\<close> counts bytes.
\<close>

definition weak_passwords :: "string list" where
  "weak_passwords = [''password'', ''12345678'', ''123456789'', ''qwertyui'', ''abcdefgh'']"

definition validate_password :: "string \<Rightarrow> auth_error + unit" where
  "validate_password password =
     (if length password < 8 then Inl (WeakPassword ''Password must be at least 8 characters'')
      else if length password > 128 then Inl (WeakPassword ''Password must not exceed 128 characters'')
      else if to_lower password \<in> set weak_passwords then Inl (WeakPassword ''Password is too common'')
      else Inr ())"

definition is_ascii_alphanumeric :: "char \<Rightarrow> bool" where
  "is_ascii_alphanumeric b \<longleftrightarrow>
     (CHR ''0'' \<le> b \<and> b \<le> CHR ''9'') \<or> (CHR ''a'' \<le> b \<and> b \<le> CHR ''z'') \<or> (CHR ''A'' \<le> b \<and> b \<le> CHR ''Z'')"

definition validate_username :: "string \<Rightarrow> auth_error + unit" where
  "validate_username username =
     (if length username < 3 then Inl (InvalidUsername ''Username must be at least 3 characters'')
      else if length username > 32 then Inl (InvalidUsername ''Username must not exceed 32 characters'')
      else if \<not> list_all (\<lambda>b. is_ascii_alphanumeric b \<or> b = CHR ''_'' \<or> b = CHR ''-'') username
      then Inl (InvalidUsername ''Username may only contain letters, digits, underscores, and hyphens'')
      else if hd username \<in> {CHR ''-'', CHR ''_''} \<or> last username \<in> {CHR ''-'', CHR ''_''}
      then Inl (InvalidUsername ''Username must not start or end with a hyphen or underscore'')
      else Inr ())"

lemma dash_not_alphanumeric: "\<not> is_ascii_alphanumeric (CHR ''-'')" "\<not> is_ascii_alphanumeric (CHR ''_'')"
  by (simp_all add: is_ascii_alphanumeric_def less_eq_char_def)

lemma validate_username_ok:
  "validate_username u = Inr () \<longleftrightarrow> 3 \<le> length u \<and> length u \<le> 32 \<and>
     (\<forall>b\<in>set u. is_ascii_alphanumeric b \<or> b = CHR ''_'' \<or> b = CHR ''-'') \<and>
     is_ascii_alphanumeric (hd u) \<and> is_ascii_alphanumeric (last u)"
proof (cases u)
  case Nil
  then show ?thesis by (simp add: validate_username_def)
next
  case (Cons c cs)
  then have "hd u \<in> set u" "last u \<in> set u" by simp_all
  then show ?thesis
    using dash_not_alphanumeric by (auto simp: validate_username_def list_all_iff)
qed

lemma validate_password_ok:
  "validate_password p = Inr () \<longleftrightarrow> 8 \<le> length p \<and> length p \<le> 128 \<and> to_lower p \<notin> set weak_passwords"
  by (auto simp: validate_password_def)

end
