(* ===== verification/HttpHeaders.thy ===== *)
theory HttpHeaders
  imports AuthTypes
begin

text \<open>
  What the auth layer reads from and writes to HTTP headers: client address and tokens
  (\<open>aionui-auth/src/extract.rs\<close>), cookies (\<open>cookie.rs\<close>) and the CSRF check (\<open>csrf.rs\<close>). A
  \<open>HeaderMap\<close> is the list of its entries with lower-case names; \<open>get\<close> gives the first.
\<close>

type_synonym headers = "(string \<times> string) list"

record 'b response =
  resp_headers :: headers
  resp_body :: 'b

text \<open>\<open>HeaderValue::to_str\<close> fails unless every byte is visible ASCII or a tab.\<close>

definition visible :: "char \<Rightarrow> bool" where
  "visible c \<longleftrightarrow> (CHR 0x20 \<le> c \<and> c < CHR 0x7F) \<or> c = CHR 0x09"

definition header_str :: "headers \<Rightarrow> string \<Rightarrow> string option" where
  "header_str h name = (case map_of h name of None \<Rightarrow> None | Some v \<Rightarrow> if list_all visible v then Some v else None)"

definition COOKIE_NAME :: string where "COOKIE_NAME = ''aionui-session''"
definition CSRF_COOKIE_NAME :: string where "CSRF_COOKIE_NAME = ''aionui-csrf-token''"
definition CSRF_HEADER_NAME :: string where "CSRF_HEADER_NAME = ''x-csrf-token''"
definition COOKIE_MAX_AGE_DAYS :: nat where "COOKIE_MAX_AGE_DAYS = 30"

section \<open>Client address and tokens\<close>

definition extract_client_ip_from_headers :: "headers \<Rightarrow> string" where
  "extract_client_ip_from_headers h =
     (let forwarded = (case header_str h ''x-forwarded-for'' of None \<Rightarrow> [] | Some v \<Rightarrow> trim (hd (split_on CHR '','' v)));
          real_ip = (case header_str h ''x-real-ip'' of None \<Rightarrow> [] | Some v \<Rightarrow> trim v)
      in if forwarded \<noteq> [] then forwarded else if real_ip \<noteq> [] then real_ip else ''unknown'')"

definition extract_bearer_token :: "headers \<Rightarrow> string option" where
  "extract_bearer_token h =
     (case Option.bind (header_str h ''authorization'') (strip_prefix ''Bearer '') of
        None \<Rightarrow> None | Some token \<Rightarrow> if token = [] then None else Some token)"

fun find_cookie :: "string \<Rightarrow> string list \<Rightarrow> string option" where
  "find_cookie name [] = None"
| "find_cookie name (part # parts) =
     (case split_once CHR ''='' (trim part) of
        None \<Rightarrow> find_cookie name parts
      | Some (key, value) \<Rightarrow>
          if trim key = name \<and> trim value \<noteq> [] then Some (trim value) else find_cookie name parts)"

definition extract_cookie_value :: "headers \<Rightarrow> string \<Rightarrow> string option" where
  "extract_cookie_value h name =
     (case header_str h ''cookie'' of None \<Rightarrow> None | Some v \<Rightarrow> find_cookie name (split_on CHR '';'' v))"

definition extract_token_from_headers :: "headers \<Rightarrow> string option" where
  "extract_token_from_headers h =
     (case extract_bearer_token h of Some t \<Rightarrow> Some t | None \<Rightarrow> extract_cookie_value h COOKIE_NAME)"

definition extract_token_from_ws_headers :: "headers \<Rightarrow> string option" where
  "extract_token_from_ws_headers h =
     (case extract_bearer_token h of
        Some t \<Rightarrow> Some t
      | None \<Rightarrow> (case extract_cookie_value h COOKIE_NAME of
          Some t \<Rightarrow> Some t
        | None \<Rightarrow> (case header_str h ''sec-websocket-protocol'' of
            None \<Rightarrow> None
          | Some protocols \<Rightarrow>
              let first = trim (hd (split_on CHR '','' protocols))
              in if first = [] then None else Some first)))"

section \<open>Cookies\<close>

record cookie_config =
  cc_secure :: bool
  cc_same_site :: string

definition cookie_config_from_env :: "string option \<Rightarrow> cookie_config" where
  "cookie_config_from_env aionui_https =
     (let https = (case aionui_https of None \<Rightarrow> False | Some v \<Rightarrow> to_lower v = ''true'')
      in \<lparr>cc_secure = https, cc_same_site = (if https then ''Strict'' else ''Lax'')\<rparr>)"

text \<open>30 days in seconds is 2592000.\<close>

definition build_session_cookie :: "cookie_config \<Rightarrow> string \<Rightarrow> string" where
  "build_session_cookie cfg token =
     COOKIE_NAME @ ''='' @ token @ ''; Path=/; HttpOnly; SameSite='' @ cc_same_site cfg @
     (if cc_secure cfg then ''; Secure'' else []) @ ''; Max-Age=2592000''"

definition clear_session_cookie :: "cookie_config \<Rightarrow> string" where
  "clear_session_cookie cfg =
     COOKIE_NAME @ ''=; Path=/; HttpOnly; SameSite='' @ cc_same_site cfg @
     (if cc_secure cfg then ''; Secure'' else []) @ ''; Max-Age=0''"

definition build_csrf_cookie :: "cookie_config \<Rightarrow> string \<Rightarrow> string" where
  "build_csrf_cookie cfg token =
     CSRF_COOKIE_NAME @ ''='' @ token @ ''; Path=/; SameSite='' @ cc_same_site cfg @
     (if cc_secure cfg then ''; Secure'' else []) @ ''; Max-Age=2592000''"

section \<open>The CSRF check\<close>

definition needs_validation :: "string \<Rightarrow> bool" where
  "needs_validation request_method \<longleftrightarrow> request_method \<in> set [''POST'', ''PUT'', ''DELETE'', ''PATCH'']"

definition is_exempt :: "string \<Rightarrow> bool" where
  "is_exempt path \<longleftrightarrow> path = ''/login'' \<or> path = ''/api/auth/qr-login'' \<or> path = ''/api/usage/ingest''"

text \<open>\<open>token\<close> is the fresh random token; \<open>next\<close> runs the rest of the stack.\<close>

definition csrf_middleware :: "cookie_config \<Rightarrow> string \<Rightarrow> string \<Rightarrow> string \<Rightarrow> headers
    \<Rightarrow> ('s \<Rightarrow> 's \<times> 'b response) \<Rightarrow> 's \<Rightarrow> ('s, api_error, 'b response) outcome" where
  "csrf_middleware cfg token request_method path h run_next s =
     (let csrf_cookie = extract_cookie_value h CSRF_COOKIE_NAME;
          header_token = header_str h CSRF_HEADER_NAME
      in if needs_validation request_method \<and> \<not> is_exempt path \<and>
            \<not> (case (csrf_cookie, header_token) of
                  (Some cookie, Some hdr) \<Rightarrow> cookie \<noteq> [] \<and> cookie = hdr
                | _ \<Rightarrow> False)
         then (s, Inl (CsrfInvalid ''CSRF token validation failed''))
         else case run_next s of (s', resp) \<Rightarrow>
           (s', Inr (if csrf_cookie = None \<and> list_all visible (build_csrf_cookie cfg token)
                     then resp\<lparr>resp_headers := resp_headers resp @ [(''set-cookie'', build_csrf_cookie cfg token)]\<rparr>
                     else resp)))"

section \<open>Properties\<close>

lemma find_cookie_first:
  "split_once CHR ''='' (trim part) = Some (key, value) \<Longrightarrow> trim key = name \<Longrightarrow> trim value \<noteq> [] \<Longrightarrow>
     find_cookie name (part # parts) = Some (trim value)"
  by simp

text \<open>The session cookie a browser stores from the login answer (the text before the first semicolon)
  and sends back, alone or before other cookies, is read back as the token that was set, for every
  printable token without semicolons and surrounding white space.
\<close>

lemma session_cookie_roundtrip:
  assumes "token \<noteq> []" and "list_all visible token" and "CHR '';'' \<notin> set token"
    and "\<not> is_ws (hd token)" and "\<not> is_ws (last token)" and "list_all visible others"
    and "map_of h ''authorization'' = None"
    and "map_of h ''cookie'' = Some (hd (split_on CHR '';'' (build_session_cookie cfg token)) @ others)"
    and "others = [] \<or> hd others = CHR '';''"
  shows "extract_token_from_headers h = Some token"
proof -
  let ?pair = "COOKIE_NAME @ ''='' @ token"
  have no_semicolon: "CHR '';'' \<notin> set ?pair" using assms(3) by (simp add: COOKIE_NAME_def)
  have "build_session_cookie cfg token = ?pair @ CHR '';'' # ('' Path=/; HttpOnly; SameSite='' @ cc_same_site cfg @
      (if cc_secure cfg then ''; Secure'' else []) @ ''; Max-Age=2592000'')"
    by (simp add: build_session_cookie_def)
  then have first: "hd (split_on CHR '';'' (build_session_cookie cfg token)) = ?pair"
    by (simp only: split_on_append [OF no_semicolon] list.sel)
  have parts: "\<exists>rest. split_on CHR '';'' (?pair @ others) = ?pair # rest"
  proof (cases others)
    case Nil
    then show ?thesis using split_on_none [OF no_semicolon] by simp
  next
    case (Cons c cs)
    with assms(9) have "others = CHR '';'' # cs" by simp
    then show ?thesis using split_on_append [OF no_semicolon, of cs] by simp
  qed
  have "trim ?pair = ?pair" using assms(1,5) by (intro trim_id) (simp_all add: COOKIE_NAME_def is_ws_def)
  moreover have "split_once CHR ''='' ?pair = Some (COOKIE_NAME, token)"
    using split_once_append [of "CHR ''=''" COOKIE_NAME token] by (simp add: COOKIE_NAME_def)
  moreover have "trim COOKIE_NAME = COOKIE_NAME" by (intro trim_id) (simp_all add: COOKIE_NAME_def is_ws_def)
  moreover have "trim token = token" using assms(1,4,5) by (rule trim_id)
  ultimately have "find_cookie COOKIE_NAME (?pair # rest) = Some token" for rest using assms(1) by simp
  moreover have "list_all visible (?pair @ others)"
    using assms(2,6) by (simp add: COOKIE_NAME_def visible_def)
  ultimately have "extract_cookie_value h COOKIE_NAME = Some token"
    using assms(8) parts unfolding first by (auto simp: extract_cookie_value_def header_str_def)
  with assms(7) show ?thesis
    by (simp add: extract_token_from_headers_def extract_bearer_token_def header_str_def)
qed

lemma session_cookie_roundtrip_witness:
  "extract_token_from_headers [(''cookie'', hd (split_on CHR '';'' (build_session_cookie (cookie_config_from_env (Some ''TRUE'')) ''a.b.c'')) @
     ''; aionui-csrf-token=x'')] = Some ''a.b.c''"
  by (rule session_cookie_roundtrip [where others="''; aionui-csrf-token=x''" and cfg="cookie_config_from_env (Some ''TRUE'')"])
    (simp_all add: visible_def is_ws_def)



end
