(* ===== verification/Jwt.thy ===== *)
theory Jwt
  imports AuthTypes
begin

text \<open>
  \<open>JwtService\<close> (\<open>aionui-auth/src/jwt.rs\<close>): session tokens with a blacklist and a rotatable secret.
  The library \<open>jsonwebtoken\<close> and SHA-256 are the parameter \<open>jwt_lib\<close>; \<open>jwt_lib_ok\<close> states what their
  documentation promises, among it that a validated expiry has a default leeway of 60 seconds. Times
  are seconds, far below the range of \<open>u64\<close>. The text a library error adds to \<open>TokenInvalid\<close> is left out.
\<close>

section \<open>The library\<close>

definition JWT_ISSUER :: string where "JWT_ISSUER = ''aionui''"
definition JWT_AUDIENCE :: string where "JWT_AUDIENCE = ''aionui-webui''"
definition TOKEN_EXPIRY :: nat where "TOKEN_EXPIRY = 24 * 60 * 60"

record token_payload =
  tk_user_id :: string
  tk_username :: string
  tk_iat :: nat
  tk_exp :: nat
  tk_iss :: string
  tk_aud :: string

datatype jwt_error = ExpiredSignature | OtherJwtError

record jwt_lib =
  jwt_encode :: "string \<Rightarrow> token_payload \<Rightarrow> string"
  jwt_decode :: "string \<Rightarrow> bool \<Rightarrow> nat \<Rightarrow> string \<Rightarrow> jwt_error + token_payload"
  sha256_hex :: "string \<Rightarrow> string"

text \<open>
  \<open>jwt_decode L secret validate_exp now token\<close> checks signature, issuer and audience, and the expiry if
  asked to. A token of one secret is not accepted under another, and the hash has no collisions.
\<close>

definition LEEWAY :: nat where "LEEWAY = 60"

definition jwt_lib_ok :: "jwt_lib \<Rightarrow> bool" where
  "jwt_lib_ok L \<longleftrightarrow>
     (\<forall>s p now. tk_iss p = JWT_ISSUER \<longrightarrow> tk_aud p = JWT_AUDIENCE \<longrightarrow> jwt_decode L s False now (jwt_encode L s p) = Inr p) \<and>
     (\<forall>s now now' tok. jwt_decode L s False now tok = jwt_decode L s False now' tok) \<and>
     (\<forall>s now tok p. jwt_decode L s False now tok = Inr p \<longrightarrow>
        jwt_decode L s True now tok = (if now \<le> tk_exp p + LEEWAY then Inr p else Inl ExpiredSignature)) \<and>
     (\<forall>s now tok e. jwt_decode L s False now tok = Inl e \<longrightarrow> (\<exists>e. jwt_decode L s True now tok = Inl e)) \<and>
     (\<forall>s s' now tok p. jwt_decode L s False now tok = Inr p \<longrightarrow> s' \<noteq> s \<longrightarrow> (\<exists>e. jwt_decode L s' False now tok = Inl e)) \<and>
     inj (sha256_hex L)"

section \<open>State and operations\<close>

record jwt_service =
  jw_secret :: string
  jw_blacklist :: "(string, nat) hmap"

definition jwt_service_new :: "string \<Rightarrow> jwt_service" where
  "jwt_service_new secret = \<lparr>jw_secret = secret, jw_blacklist = []\<rparr>"

definition jwt_claims :: "string \<Rightarrow> string \<Rightarrow> nat \<Rightarrow> token_payload" where
  "jwt_claims user_id username now =
     \<lparr>tk_user_id = user_id, tk_username = username, tk_iat = now, tk_exp = now + TOKEN_EXPIRY,
      tk_iss = JWT_ISSUER, tk_aud = JWT_AUDIENCE\<rparr>"

definition jwt_sign :: "jwt_lib \<Rightarrow> nat \<Rightarrow> string \<Rightarrow> string \<Rightarrow> jwt_service \<Rightarrow> string" where
  "jwt_sign L now user_id username j = jwt_encode L (jw_secret j) (jwt_claims user_id username now)"

definition jwt_verify :: "jwt_lib \<Rightarrow> nat \<Rightarrow> string \<Rightarrow> jwt_service \<Rightarrow> auth_error + token_payload" where
  "jwt_verify L now token j =
     (if hm_contains (jw_blacklist j) (sha256_hex L token) then Inl TokenBlacklisted
      else case jwt_decode L (jw_secret j) True now token of
        Inl ExpiredSignature \<Rightarrow> Inl TokenExpired
      | Inl OtherJwtError \<Rightarrow> Inl (TokenInvalid ''JWT verification failed'')
      | Inr p \<Rightarrow> Inr p)"

definition extract_expiry :: "jwt_lib \<Rightarrow> nat \<Rightarrow> string \<Rightarrow> jwt_service \<Rightarrow> nat option" where
  "extract_expiry L now token j =
     (case jwt_decode L (jw_secret j) False now token of Inl _ \<Rightarrow> None | Inr p \<Rightarrow> Some (tk_exp p))"

definition blacklist_token :: "jwt_lib \<Rightarrow> nat \<Rightarrow> string \<Rightarrow> jwt_service \<Rightarrow> jwt_service" where
  "blacklist_token L now token j =
     (let exp_time = (case extract_expiry L now token j of None \<Rightarrow> now + TOKEN_EXPIRY | Some e \<Rightarrow> e)
      in j\<lparr>jw_blacklist := hm_insert (sha256_hex L token) exp_time (jw_blacklist j)\<rparr>)"

definition rotate_secret :: "string \<Rightarrow> jwt_service \<Rightarrow> jwt_service" where
  "rotate_secret new_secret j = j\<lparr>jw_secret := new_secret, jw_blacklist := []\<rparr>"

definition cleanup_blacklist :: "nat \<Rightarrow> jwt_service \<Rightarrow> jwt_service" where
  "cleanup_blacklist now j = j\<lparr>jw_blacklist := hm_retain (\<lambda>_ e. e > now) (jw_blacklist j)\<rparr>"

definition resolve_jwt_secret :: "string \<Rightarrow> string option \<Rightarrow> string option \<Rightarrow> string \<times> bool" where
  "resolve_jwt_secret fresh env_secret db_secret =
     (case env_secret of Some s \<Rightarrow> (s, False)
      | None \<Rightarrow> (case db_secret of Some s \<Rightarrow> (s, False) | None \<Rightarrow> (fresh, True)))"

section \<open>Verification\<close>

lemma jwt_verify_iff:
  assumes "jwt_lib_ok L"
  shows "jwt_verify L now token j = Inr p \<longleftrightarrow> \<not> hm_contains (jw_blacklist j) (sha256_hex L token) \<and>
    jwt_decode L (jw_secret j) False 0 token = Inr p \<and> now \<le> tk_exp p + LEEWAY"
proof -
  have dec: "jwt_decode L (jw_secret j) True now token = Inr p \<longleftrightarrow>
      jwt_decode L (jw_secret j) False 0 token = Inr p \<and> now \<le> tk_exp p + LEEWAY"
  proof (cases "jwt_decode L (jw_secret j) False now token")
    case (Inl e)
    with assms have "\<exists>e. jwt_decode L (jw_secret j) True now token = Inl e" "jwt_decode L (jw_secret j) False 0 token = Inl e"
      unfolding jwt_lib_ok_def by metis+
    then show ?thesis by auto
  next
    case (Inr q)
    with assms have "jwt_decode L (jw_secret j) True now token = (if now \<le> tk_exp q + LEEWAY then Inr q else Inl ExpiredSignature)"
      "jwt_decode L (jw_secret j) False 0 token = Inr q"
      unfolding jwt_lib_ok_def by metis+
    then show ?thesis by auto
  qed
  show ?thesis
    by (simp only: dec [symmetric]) (auto simp: jwt_verify_def split: sum.splits jwt_error.splits)
qed

section \<open>Revocation\<close>

datatype jwt_op = JwtBlacklist string nat | JwtCleanup nat | JwtRotate string nat

fun jwt_op_time :: "jwt_op \<Rightarrow> nat" where
  "jwt_op_time (JwtBlacklist _ now) = now"
| "jwt_op_time (JwtCleanup now) = now"
| "jwt_op_time (JwtRotate _ now) = now"

fun jwt_step :: "jwt_lib \<Rightarrow> jwt_op \<Rightarrow> jwt_service \<Rightarrow> jwt_service" where
  "jwt_step L (JwtBlacklist token now) j = blacklist_token L now token j"
| "jwt_step L (JwtCleanup now) j = cleanup_blacklist now j"
| "jwt_step L (JwtRotate new_secret now) j = rotate_secret new_secret j"

text \<open>
  What holds of a revoked token \<open>tok\<close> that expires at \<open>e\<close> and belongs to \<open>secret\<close>: the service still
  knows it, or its expiry has passed, or the secret is another one.
\<close>

definition revoked :: "jwt_lib \<Rightarrow> string \<Rightarrow> string \<Rightarrow> nat \<Rightarrow> nat \<Rightarrow> jwt_service \<Rightarrow> bool" where
  "revoked L secret tok e now j \<longleftrightarrow> hm_ok (jw_blacklist j) \<and>
     (jw_secret j = secret \<longrightarrow> hm_get (jw_blacklist j) (sha256_hex L tok) = Some e \<or> e \<le> now)"

lemma revoked_step:
  assumes L: "jwt_lib_ok L" and dec: "jwt_decode L secret False 0 tok = Inr p"
    and r: "revoked L secret tok (tk_exp p) now j" and le: "now \<le> jwt_op_time x"
    and fresh: "\<And>s t. x = JwtRotate s t \<Longrightarrow> s \<noteq> secret"
  shows "revoked L secret tok (tk_exp p) (jwt_op_time x) (jwt_step L x j)"
proof (cases x)
  case (JwtBlacklist token t)
  have dec': "jwt_decode L secret False t tok = Inr p" using L dec unfolding jwt_lib_ok_def by metis
  have inj: "sha256_hex L tok = sha256_hex L token \<longleftrightarrow> tok = token"
    using L unfolding jwt_lib_ok_def by (auto dest: injD)
  show ?thesis
  proof (cases "tok = token")
    case True
    with dec' r JwtBlacklist show ?thesis
      by (auto simp: revoked_def blacklist_token_def extract_expiry_def Let_def hm_get_insert)
  next
    case False
    with inj r le JwtBlacklist show ?thesis
      by (auto simp: revoked_def blacklist_token_def Let_def hm_get_insert)
  qed
next
  case (JwtCleanup t)
  with r le show ?thesis by (auto simp: revoked_def cleanup_blacklist_def hm_get_retain)
next
  case (JwtRotate s t)
  with fresh show ?thesis by (simp add: revoked_def rotate_secret_def)
qed

lemma revoked_run:
  assumes L: "jwt_lib_ok L" and dec: "jwt_decode L secret False 0 tok = Inr p"
    and "revoked L secret tok (tk_exp p) t j" and "sorted (t # map jwt_op_time ops)"
    and "list_all (\<lambda>x. case x of JwtRotate s _ \<Rightarrow> s \<noteq> secret | _ \<Rightarrow> True) ops"
  shows "revoked L secret tok (tk_exp p) (last (t # map jwt_op_time ops)) (fold (jwt_step L) ops j)"
  using assms(3-5)
proof (induction ops arbitrary: t j)
  case (Cons x ops)
  have "revoked L secret tok (tk_exp p) (jwt_op_time x) (jwt_step L x j)"
    using Cons.prems by (intro revoked_step [OF L dec Cons.prems(1)]) auto
  from Cons.IH [OF this] Cons.prems show ?case by simp
qed simp

text \<open>C17. Logging out revokes: once a token of the current secret is blacklisted, no later verification accepts
  it, whatever is blacklisted, cleaned up or rotated (to secrets other than its own) in between, except in
  the 60 seconds after its expiry, when the clean-up may have dropped it.\<close>

theorem revoked_token_rejected:
  assumes "jwt_lib_ok L" and "jwt_decode L (jw_secret j) False 0 tok = Inr p" and "hm_ok (jw_blacklist j)"
    and "sorted (t # map jwt_op_time ops @ [now])"
    and "list_all (\<lambda>x. case x of JwtRotate s _ \<Rightarrow> s \<noteq> jw_secret j | _ \<Rightarrow> True) ops"
    and "now < tk_exp p \<or> tk_exp p + LEEWAY < now"
  shows "\<exists>e. jwt_verify L now tok (fold (jwt_step L) ops (blacklist_token L t tok j)) = Inl e"
proof -
  let ?j = "fold (jwt_step L) ops (blacklist_token L t tok j)" and ?last = "last (t # map jwt_op_time ops)"
  have "jwt_decode L (jw_secret j) False t tok = Inr p" using assms(1,2) unfolding jwt_lib_ok_def by metis
  then have "revoked L (jw_secret j) tok (tk_exp p) t (blacklist_token L t tok j)"
    using assms(3) by (simp add: revoked_def blacklist_token_def extract_expiry_def hm_get_insert)
  moreover have "sorted (t # map jwt_op_time ops)" using assms(4) by (simp add: sorted_append)
  ultimately have r: "revoked L (jw_secret j) tok (tk_exp p) ?last ?j"
    by (rule revoked_run [OF assms(1,2)]) (rule assms(5))
  have last: "?last \<le> now" using assms(4) by (auto simp: sorted_append last_map)
  have "jwt_verify L now tok ?j \<noteq> Inr q" for q
  proof
    assume v: "jwt_verify L now tok ?j = Inr q"
    then have "\<not> hm_contains (jw_blacklist ?j) (sha256_hex L tok)" "jwt_decode L (jw_secret ?j) False 0 tok = Inr q"
      "now \<le> tk_exp q + LEEWAY" by (simp_all add: jwt_verify_iff [OF assms(1)])
    moreover from this(2) assms(1,2) have secret: "jw_secret ?j = jw_secret j"
      unfolding jwt_lib_ok_def by (metis sum.distinct(1))
    ultimately show False using r assms(2,6) last by (auto simp: revoked_def)
  qed
  then show ?thesis by (cases "jwt_verify L now tok ?j") auto
qed

text \<open>A token that was just signed verifies to the claims it was signed with, for 24 hours and the leeway
  of a minute, unless it was blacklisted.\<close>

lemma sign_verify_roundtrip:
  assumes "jwt_lib_ok L"
  shows "jwt_verify L now (jwt_sign L t user_id username j) j =
    (if hm_contains (jw_blacklist j) (sha256_hex L (jwt_sign L t user_id username j)) then Inl TokenBlacklisted
     else if now \<le> t + 24 * 60 * 60 + 60 then Inr (jwt_claims user_id username t) else Inl TokenExpired)"
proof -
  let ?tok = "jwt_sign L t user_id username j"
  have dec: "jwt_decode L (jw_secret j) False now ?tok = Inr (jwt_claims user_id username t)"
    using assms unfolding jwt_lib_ok_def jwt_sign_def by (simp add: jwt_claims_def)
  with assms have "jwt_decode L (jw_secret j) True now ?tok =
      (if now \<le> tk_exp (jwt_claims user_id username t) + LEEWAY then Inr (jwt_claims user_id username t) else Inl ExpiredSignature)"
    unfolding jwt_lib_ok_def by metis
  then show ?thesis by (simp add: jwt_verify_def jwt_claims_def TOKEN_EXPIRY_def LEEWAY_def)
qed

section \<open>A concrete library\<close>

definition demo_encode :: "string \<Rightarrow> token_payload \<Rightarrow> string" where
  "demo_encode s p = demo_ser [s, tk_user_id p, tk_username p, bits (tk_iat p), bits (tk_exp p), tk_iss p, tk_aud p]"

definition demo_decode :: "string \<Rightarrow> bool \<Rightarrow> nat \<Rightarrow> string \<Rightarrow> jwt_error + token_payload" where
  "demo_decode s validate_exp now tok =
     (case demo_de [] tok of
        Some [s', u, n, i, e, iss, aud] \<Rightarrow>
          if s' = s \<and> iss = JWT_ISSUER \<and> aud = JWT_AUDIENCE
          then if validate_exp \<and> \<not> now \<le> unbits e + LEEWAY then Inl ExpiredSignature
               else Inr \<lparr>tk_user_id = u, tk_username = n, tk_iat = unbits i, tk_exp = unbits e, tk_iss = iss, tk_aud = aud\<rparr>
          else Inl OtherJwtError
      | _ \<Rightarrow> Inl OtherJwtError)"

definition demo_jwt :: jwt_lib where
  "demo_jwt = \<lparr>jwt_encode = demo_encode, jwt_decode = demo_decode, sha256_hex = id\<rparr>"

lemma demo_decode_encode:
  "demo_decode s' v now (demo_encode s p) =
     (if s = s' \<and> tk_iss p = JWT_ISSUER \<and> tk_aud p = JWT_AUDIENCE
      then if v \<and> \<not> now \<le> tk_exp p + LEEWAY then Inl ExpiredSignature else Inr p else Inl OtherJwtError)"
  by (simp add: demo_decode_def demo_encode_def demo_de_ser)

lemma demo_decode_cases:
  obtains (bad) "\<And>s v now. demo_decode s v now tok = Inl OtherJwtError"
  | (good) s0 p where "\<And>s v now. demo_decode s v now tok =
      (if s = s0 then if v \<and> \<not> now \<le> tk_exp p + LEEWAY then Inl ExpiredSignature else Inr p else Inl OtherJwtError)"
proof (cases "\<exists>s' u n i e. demo_de [] tok = Some [s', u, n, i, e, JWT_ISSUER, JWT_AUDIENCE]")
  case True
  then obtain s' u n i e where "demo_de [] tok = Some [s', u, n, i, e, JWT_ISSUER, JWT_AUDIENCE]" by blast
  then show ?thesis
    by (intro good [of s' "\<lparr>tk_user_id = u, tk_username = n, tk_iat = unbits i, tk_exp = unbits e, tk_iss = JWT_ISSUER, tk_aud = JWT_AUDIENCE\<rparr>"])
      (auto simp: demo_decode_def)
next
  case False
  then show ?thesis by (intro bad) (auto simp: demo_decode_def split: option.splits list.splits)
qed

lemma demo_jwt_ok: "jwt_lib_ok demo_jwt"
proof -
  have "(\<forall>s now now'. demo_decode s False now tok = demo_decode s False now' tok) \<and>
    (\<forall>s now p. demo_decode s False now tok = Inr p \<longrightarrow>
      demo_decode s True now tok = (if now \<le> tk_exp p + LEEWAY then Inr p else Inl ExpiredSignature)) \<and>
    (\<forall>s now e. demo_decode s False now tok = Inl e \<longrightarrow> (\<exists>e. demo_decode s True now tok = Inl e)) \<and>
    (\<forall>s s' now p. demo_decode s False now tok = Inr p \<longrightarrow> s' \<noteq> s \<longrightarrow> (\<exists>e. demo_decode s' False now tok = Inl e))" for tok
    by (cases tok rule: demo_decode_cases) auto
  then show ?thesis by (simp add: jwt_lib_ok_def demo_jwt_def demo_decode_encode)
qed

definition demo_session :: string where
  "demo_session = jwt_sign demo_jwt 100 ''u1'' ''ana'' (jwt_service_new ''s1'')"

lemma demo_session_decodes:
  "jwt_decode demo_jwt ''s1'' False 0 demo_session = Inr (jwt_claims ''u1'' ''ana'' 100)"
  by (simp add: demo_session_def jwt_sign_def jwt_service_new_def demo_jwt_def demo_decode_encode jwt_claims_def)

lemma revoked_token_rejected_witness:
  "\<exists>e. jwt_verify demo_jwt 86499 demo_session
     (fold (jwt_step demo_jwt) [JwtCleanup 200, JwtBlacklist ''x'' 300, JwtCleanup 86400]
       (blacklist_token demo_jwt 150 demo_session (jwt_service_new ''s1''))) = Inl e"
  by (rule revoked_token_rejected [OF demo_jwt_ok, where p="jwt_claims ''u1'' ''ana'' 100"])
    (simp_all add: jwt_service_new_def demo_session_decodes, simp_all add: jwt_claims_def TOKEN_EXPIRY_def)

lemma sign_verify_roundtrip_witness:
  "jwt_verify demo_jwt 500 demo_session (jwt_service_new ''s1'') = Inr (jwt_claims ''u1'' ''ana'' 100)"
  using sign_verify_roundtrip [OF demo_jwt_ok, of 500 100 "''u1''" "''ana''" "jwt_service_new ''s1''"]
  by (simp add: demo_session_def jwt_service_new_def)

text \<open>A revoked token is accepted again after its expiry, once the clean-up has run, within the leeway.\<close>

lemma revoked_token_revives:
  "let e = 100 + TOKEN_EXPIRY; j = cleanup_blacklist (e + 1) (blacklist_token demo_jwt 150 demo_session (jwt_service_new ''s1''))
   in jwt_verify demo_jwt (e + 2) demo_session j = Inr (jwt_claims ''u1'' ''ana'' 100)"
proof -
  let ?e = "100 + TOKEN_EXPIRY" and ?b = "blacklist_token demo_jwt 150 demo_session (jwt_service_new ''s1'')"
  have "extract_expiry demo_jwt 150 demo_session (jwt_service_new ''s1'') = Some ?e"
    by (simp add: extract_expiry_def jwt_service_new_def demo_session_def jwt_sign_def demo_jwt_def demo_decode_encode jwt_claims_def)
  then have "?b = \<lparr>jw_secret = ''s1'', jw_blacklist = [(sha256_hex demo_jwt demo_session, ?e)]\<rparr>"
    by (simp add: blacklist_token_def jwt_service_new_def)
  then have "cleanup_blacklist (?e + 1) ?b = jwt_service_new ''s1''"
    by (simp add: cleanup_blacklist_def hm_retain_def jwt_service_new_def)
  moreover have "jwt_verify demo_jwt (?e + 2) demo_session (jwt_service_new ''s1'') = Inr (jwt_claims ''u1'' ''ana'' 100)"
    by (simp add: jwt_verify_iff [OF demo_jwt_ok] demo_session_decodes jwt_service_new_def jwt_claims_def LEEWAY_def)
  ultimately show ?thesis by (simp add: Let_def)
qed

end
