(* ===== verification/UserRepo.thy ===== *)
theory UserRepo
  imports ApiError
begin

text \<open>
  \<open>SqliteUserRepository\<close> (\<open>aionui-db/src/repository/sqlite_user.rs\<close>) on the tables \<open>users\<close>, \<open>roles\<close>
  and \<open>user_roles\<close>, with the constraints of migrations 001, 013 and 014: the primary keys, the unique
  user name and e-mail, and the foreign keys of \<open>user_roles\<close>, whose rows go with their user. A violated
  unique constraint is a \<open>Conflict\<close>, any other violation the error \<open>Query\<close>. Tables of other modules that
  hang on a user (conversations) are not part of this state.
\<close>

section \<open>Rows\<close>

record user_row =
  us_id :: string
  us_username :: string
  us_email :: "string option"
  us_password_hash :: string
  us_avatar_path :: "string option"
  us_jwt_secret :: "string option"
  us_created_at :: int
  us_updated_at :: int
  us_last_login :: "int option"
  us_role :: string
  us_is_active :: bool
  us_display_name :: "string option"

record role_row =
  ro_id :: string
  ro_name :: string
  ro_label :: string
  ro_created_at :: int

record user_role_row =
  ur_user_id :: string
  ur_role_id :: string
  ur_created_at :: int

datatype role_removal = Removed | WouldLeaveNoAdmins

record user_db =
  users_tbl :: "user_row list"
  roles_tbl :: "role_row list"
  user_roles_tbl :: "user_role_row list"
  draws :: nat

type_synonym 'a user_op = "user_db \<Rightarrow> (user_db, db_error, 'a) outcome"

definition ADMIN_ROLE :: string where "ADMIN_ROLE = ''admin''"
definition SYSTEM_USER :: string where "SYSTEM_USER = ''system_default_user''"

definition user_not_found :: "string \<Rightarrow> db_error" where
  "user_not_found i = DbNotFound (''User '' @ quoted i @ '' not found'')"

definition username_taken :: "string \<Rightarrow> db_error" where
  "username_taken username = DbConflict (''Username '' @ quoted username @ '' already exists'')"

section \<open>Reading\<close>

definition has_users :: "user_db \<Rightarrow> bool" where
  "has_users s \<longleftrightarrow> length (filter (\<lambda>u. us_password_hash u \<noteq> []) (users_tbl s)) > 0"

definition find_by_id :: "string \<Rightarrow> user_db \<Rightarrow> user_row option" where
  "find_by_id i s = find (\<lambda>u. us_id u = i) (users_tbl s)"

definition find_by_username :: "string \<Rightarrow> user_db \<Rightarrow> user_row option" where
  "find_by_username username s = find (\<lambda>u. us_username u = username) (users_tbl s)"

definition get_system_user :: "user_db \<Rightarrow> user_row option" where
  "get_system_user s = find (\<lambda>u. us_id u = SYSTEM_USER) (users_tbl s)"

definition get_primary_webui_user :: "user_db \<Rightarrow> user_row option" where
  "get_primary_webui_user s =
     (case get_system_user s of
        Some u \<Rightarrow> Some u
      | None \<Rightarrow> find (\<lambda>u. us_username u = ''admin'') (users_tbl s))"

definition list_users :: "user_db \<Rightarrow> user_row list" where
  "list_users s = sort_key us_created_at (users_tbl s)"

definition count_users :: "user_db \<Rightarrow> nat" where
  "count_users s = length (users_tbl s)"

definition get_user_roles :: "string \<Rightarrow> user_db \<Rightarrow> string list" where
  "get_user_roles i s = map ur_role_id (filter (\<lambda>r. ur_user_id r = i) (user_roles_tbl s))"

definition list_roles :: "user_db \<Rightarrow> role_row list" where
  "list_roles s = sort_key ro_id (roles_tbl s)"

definition count_users_with_role :: "string \<Rightarrow> user_db \<Rightarrow> nat" where
  "count_users_with_role role s = length (filter (\<lambda>r. ur_role_id r = role) (user_roles_tbl s))"

section \<open>Writing\<close>

text \<open>\<open>INSERT OR IGNORE INTO user_roles\<close>: a duplicate key is ignored, a violated foreign key is not.\<close>

definition insert_user_role :: "string \<Rightarrow> string \<Rightarrow> int \<Rightarrow> unit user_op" where
  "insert_user_role user role now s =
     (if \<exists>r\<in>set (user_roles_tbl s). ur_user_id r = user \<and> ur_role_id r = role then (s, Inr ())
      else if (\<exists>u\<in>set (users_tbl s). us_id u = user) \<and> (\<exists>r\<in>set (roles_tbl s). ro_id r = role)
      then (s\<lparr>user_roles_tbl := user_roles_tbl s @ [\<lparr>ur_user_id = user, ur_role_id = role, ur_created_at = now\<rparr>]\<rparr>, Inr ())
      else (s, Inl Query))"

definition assign_role :: "'e env_scheme \<Rightarrow> string \<Rightarrow> string \<Rightarrow> unit user_op" where
  "assign_role E user role s =
     insert_user_role user role (clock E (draws s)) (s\<lparr>draws := Suc (draws s)\<rparr>)"

text \<open>\<open>UPDATE users SET ..., updated_at = now WHERE id = ?\<close>, the form of every update of a user.\<close>

definition update_user :: "'e env_scheme \<Rightarrow> db_error \<Rightarrow> string \<Rightarrow> (int \<Rightarrow> user_row \<Rightarrow> user_row) \<Rightarrow> unit user_op" where
  "update_user E missing i f s =
     (let now = clock E (draws s); s1 = s\<lparr>draws := Suc (draws s)\<rparr>
      in if rows_affected (\<lambda>u. us_id u = i) (users_tbl s1) = 0 then (s1, Inl missing)
         else (s1\<lparr>users_tbl := update_where (\<lambda>u. us_id u = i) (\<lambda>u. (f now u)\<lparr>us_updated_at := now\<rparr>) (users_tbl s1)\<rparr>,
               Inr ()))"

text \<open>The unique constraint on user names refuses an update that would give two rows one name.\<close>

definition name_taken :: "string \<Rightarrow> string \<Rightarrow> user_db \<Rightarrow> bool" where
  "name_taken i username s \<longleftrightarrow> (\<exists>u\<in>set (users_tbl s). us_id u = i) \<and>
     (\<exists>u\<in>set (users_tbl s). us_username u = username \<and> us_id u \<noteq> i)"

definition set_system_user_credentials :: "'e env_scheme \<Rightarrow> string \<Rightarrow> string \<Rightarrow> unit user_op" where
  "set_system_user_credentials E username password_hash s =
     (if name_taken SYSTEM_USER username s
      then (s\<lparr>draws := Suc (draws s)\<rparr>, Inl (username_taken username))
      else
        and_then (update_user E (DbNotFound ''system_default_user not found'') SYSTEM_USER
            (\<lambda>_ u. u\<lparr>us_username := username, us_password_hash := password_hash, us_role := ''admin''\<rparr>) s) (\<lambda>_ s'.
        insert_user_role SYSTEM_USER ADMIN_ROLE (clock E (draws s)) s'))"

definition create_user_full :: "'e env_scheme \<Rightarrow> string \<Rightarrow> string \<Rightarrow> string option \<Rightarrow> string option \<Rightarrow> string
    \<Rightarrow> user_row user_op" where
  "create_user_full E username password_hash email display_name role s =
     (let i = ''user_'' @ mint_id E (draws s); now = clock E (draws s); s1 = s\<lparr>draws := Suc (draws s)\<rparr>;
          row = \<lparr>us_id = i, us_username = username, us_email = email, us_password_hash = password_hash,
                 us_avatar_path = None, us_jwt_secret = None, us_created_at = now, us_updated_at = now,
                 us_last_login = None, us_role = role, us_is_active = True, us_display_name = display_name\<rparr>
      in if \<exists>u\<in>set (users_tbl s1). us_id u = i then (s1, Inl Query)
         else if \<exists>u\<in>set (users_tbl s1). us_username u = username \<or> (email \<noteq> None \<and> us_email u = email)
         then (s1, Inl (username_taken username))
         else (s1\<lparr>users_tbl := users_tbl s1 @ [row]\<rparr>, Inr row))"

definition create_user :: "'e env_scheme \<Rightarrow> string \<Rightarrow> string \<Rightarrow> user_row user_op" where
  "create_user E username password_hash = create_user_full E username password_hash None None ''member''"

definition update_password :: "'e env_scheme \<Rightarrow> string \<Rightarrow> string \<Rightarrow> unit user_op" where
  "update_password E i password_hash = update_user E (user_not_found i) i (\<lambda>_ u. u\<lparr>us_password_hash := password_hash\<rparr>)"

definition update_username :: "'e env_scheme \<Rightarrow> string \<Rightarrow> string \<Rightarrow> unit user_op" where
  "update_username E i username s =
     (if name_taken i username s then (s\<lparr>draws := Suc (draws s)\<rparr>, Inl (username_taken username))
      else update_user E (user_not_found i) i (\<lambda>_ u. u\<lparr>us_username := username\<rparr>) s)"

definition update_last_login :: "'e env_scheme \<Rightarrow> string \<Rightarrow> unit user_op" where
  "update_last_login E i = update_user E (user_not_found i) i (\<lambda>now u. u\<lparr>us_last_login := Some now\<rparr>)"

definition update_jwt_secret :: "'e env_scheme \<Rightarrow> string \<Rightarrow> string \<Rightarrow> unit user_op" where
  "update_jwt_secret E i secret = update_user E (user_not_found i) i (\<lambda>_ u. u\<lparr>us_jwt_secret := Some secret\<rparr>)"

definition set_active :: "'e env_scheme \<Rightarrow> string \<Rightarrow> bool \<Rightarrow> unit user_op" where
  "set_active E i active = update_user E (user_not_found i) i (\<lambda>_ u. u\<lparr>us_is_active := active\<rparr>)"

definition set_role :: "'e env_scheme \<Rightarrow> string \<Rightarrow> string \<Rightarrow> unit user_op" where
  "set_role E i role = update_user E (user_not_found i) i (\<lambda>_ u. u\<lparr>us_role := role\<rparr>)"

definition set_display_name :: "'e env_scheme \<Rightarrow> string \<Rightarrow> string option \<Rightarrow> unit user_op" where
  "set_display_name E i name = update_user E (user_not_found i) i (\<lambda>_ u. u\<lparr>us_display_name := name\<rparr>)"

text \<open>The admin role is taken only while another user has it, in one statement.\<close>

definition remove_role :: "string \<Rightarrow> string \<Rightarrow> role_removal user_op" where
  "remove_role user role s =
     (let match = (\<lambda>r. ur_user_id r = user \<and> ur_role_id r = role)
      in if role \<noteq> ADMIN_ROLE
         then (s\<lparr>user_roles_tbl := filter (\<lambda>r. \<not> match r) (user_roles_tbl s)\<rparr>, Inr Removed)
         else
           let many = length (filter (\<lambda>r. ur_role_id r = role) (user_roles_tbl s)) > 1;
               deleted = (if many then rows_affected match (user_roles_tbl s) else 0);
               s1 = (if many then s\<lparr>user_roles_tbl := filter (\<lambda>r. \<not> match r) (user_roles_tbl s)\<rparr> else s)
           in if deleted \<ge> 1 then (s1, Inr Removed)
              else (s1, Inr (if \<exists>r\<in>set (user_roles_tbl s1). match r then WouldLeaveNoAdmins else Removed)))"

definition delete_user :: "string \<Rightarrow> unit user_op" where
  "delete_user i s =
     (if rows_affected (\<lambda>u. us_id u = i) (users_tbl s) = 0 then (s, Inl (user_not_found i))
      else (s\<lparr>users_tbl := filter (\<lambda>u. us_id u \<noteq> i) (users_tbl s),
              user_roles_tbl := filter (\<lambda>r. ur_user_id r \<noteq> i) (user_roles_tbl s)\<rparr>, Inr ()))"

end
