(* ===== verification/UserFacts.thy ===== *)
theory UserFacts
  imports UserRepo
begin

text \<open>
  The invariant of the user tables (keys and foreign keys) and what the operations of \<open>UserRepo\<close> do to
  it, to the administrators and to the rows of a user.
\<close>

definition emails :: "user_row list \<Rightarrow> string list" where
  "emails us = map (the \<circ> us_email) (filter (\<lambda>u. us_email u \<noteq> None) us)"

definition users_ok :: "user_db \<Rightarrow> bool" where
  "users_ok s \<longleftrightarrow> distinct (map us_id (users_tbl s)) \<and> distinct (map us_username (users_tbl s)) \<and>
     distinct (emails (users_tbl s)) \<and>
     distinct (map (\<lambda>r. (ur_user_id r, ur_role_id r)) (user_roles_tbl s)) \<and>
     (\<forall>r\<in>set (user_roles_tbl s). ur_user_id r \<in> us_id ` set (users_tbl s) \<and> ur_role_id r \<in> ro_id ` set (roles_tbl s))"

definition admins :: "user_db \<Rightarrow> string set" where
  "admins s = {i. \<exists>r\<in>set (user_roles_tbl s). ur_user_id r = i \<and> ur_role_id r = ADMIN_ROLE}"

lemma in_get_user_roles: "role \<in> set (get_user_roles i s) \<longleftrightarrow> (\<exists>r\<in>set (user_roles_tbl s). ur_user_id r = i \<and> ur_role_id r = role)"
  by (auto simp: get_user_roles_def)

lemma admins_iff: "i \<in> admins s \<longleftrightarrow> ADMIN_ROLE \<in> set (get_user_roles i s)"
  by (simp add: admins_def in_get_user_roles)

lemma find_by_id_Some: "find_by_id i s = Some u \<Longrightarrow> u \<in> set (users_tbl s) \<and> us_id u = i"
  by (auto simp: find_by_id_def find_Some_iff)

lemma find_by_id_None: "find_by_id i s = None \<longleftrightarrow> i \<notin> us_id ` set (users_tbl s)"
  by (auto simp: find_by_id_def find_None_iff)

lemma find_by_username_Some: "find_by_username n s = Some u \<Longrightarrow> u \<in> set (users_tbl s) \<and> us_username u = n"
  by (auto simp: find_by_username_def find_Some_iff)

lemma find_by_id_in: "users_ok s \<Longrightarrow> u \<in> set (users_tbl s) \<Longrightarrow> find_by_id (us_id u) s = Some u"
  by (simp add: find_by_id_def users_ok_def find_key_distinct)

section \<open>Updates of a user\<close>

lemma emails_update:
  assumes "\<And>u. us_email (f u) = us_email u"
  shows "emails (update_where P f us) = emails us"
  using assms by (induction us) (simp_all add: emails_def update_where_def)

lemma ids_update:
  assumes "\<And>u. us_id (f u) = us_id u"
  shows "us_id ` set (update_where P f us) = us_id ` set us"
  by (metis assms set_map update_where_key)

lemma update_user_ok:
  assumes "users_ok s" and "\<And>now u. us_id (f now u) = us_id u \<and> us_username (f now u) = us_username u \<and> us_email (f now u) = us_email u"
  shows "users_ok (fst (update_user E e i f s))"
  using assms by (simp add: update_user_def users_ok_def Let_def update_where_key emails_update ids_update)

lemma update_user_frame [simp]:
  "roles_tbl (fst (update_user E e i f s)) = roles_tbl s"
  "user_roles_tbl (fst (update_user E e i f s)) = user_roles_tbl s"
  "draws (fst (update_user E e i f s)) = Suc (draws s)"
  by (simp_all add: update_user_def Let_def)

lemma update_user_find:
  assumes "\<And>now u. us_id (f now u) = us_id u"
  shows "find_by_id j (fst (update_user E e i f s)) =
    map_option (\<lambda>u. if j = i then (f (clock E (draws s)) u)\<lparr>us_updated_at := clock E (draws s)\<rparr> else u) (find_by_id j s)"
proof -
  have "find_by_id j (fst (update_user E e i f s)) =
    map_option (\<lambda>u. if us_id u = i then (f (clock E (draws s)) u)\<lparr>us_updated_at := clock E (draws s)\<rparr> else u) (find_by_id j s)"
  proof (cases "rows_affected (\<lambda>u. us_id u = i) (users_tbl s) = 0")
    case True
    then have "find_by_id j s = map_option (\<lambda>u. if us_id u = i then g u else u) (find_by_id j s)" for g
      by (cases "find_by_id j s") (auto dest: find_by_id_Some simp: rows_affected_0)
    with True show ?thesis by (simp add: update_user_def Let_def find_by_id_def)
  next
    case False
    then show ?thesis by (simp add: update_user_def Let_def find_by_id_def find_update_where assms)
  qed
  also have "\<dots> = map_option (\<lambda>u. if j = i then (f (clock E (draws s)) u)\<lparr>us_updated_at := clock E (draws s)\<rparr> else u) (find_by_id j s)"
    by (cases "find_by_id j s") (auto dest: find_by_id_Some)
  finally show ?thesis .
qed

lemma update_user_Inr:
  "(\<exists>s'. update_user E e i f s = (s', Inr ())) \<longleftrightarrow> find_by_id i s \<noteq> None"
  by (auto simp: update_user_def Let_def rows_affected_0 find_by_id_def find_None_iff)

lemma rename_distinct:
  assumes "distinct (map us_id us)" "distinct (map us_username us)" "\<forall>u\<in>set us. us_username u = n \<longrightarrow> us_id u = i"
    and "\<And>u. us_username (f u) = n"
  shows "distinct (map us_username (update_where (\<lambda>u. us_id u = i) f us))"
  using assms(1-3)
proof (induction us)
  case (Cons u us)
  have rest: "us_username ` set (update_where (\<lambda>u. us_id u = i) f us) \<subseteq>
      us_username ` set us \<union> (if i \<in> us_id ` set us then {n} else {})"
    using assms(4) by (auto simp: update_where_def)
  show ?case
  proof (cases "us_id u = i")
    case True
    with Cons.prems have i: "i \<notin> us_id ` set us" by simp
    have "n \<notin> us_username ` set us"
    proof
      assume "n \<in> us_username ` set us"
      then obtain x where "x \<in> set us" "us_username x = n" by auto
      with Cons.prems(3) have "us_id x = i" by simp
      with \<open>x \<in> set us\<close> i show False by blast
    qed
    with i have no: "i \<notin> us_id ` set us" "n \<notin> us_username ` set us" by simp_all
    then have "update_where (\<lambda>u. us_id u = i) f us = us"
      by (induction us) (auto simp: update_where_def)
    with True no assms(4) Cons show ?thesis by (auto simp: update_where_def)
  next
    case False
    have eq: "update_where (\<lambda>u. us_id u = i) f (u # us) = u # update_where (\<lambda>u. us_id u = i) f us"
      using False by (simp add: update_where_def)
    have "us_username u \<noteq> n" "us_username u \<notin> us_username ` set us" using False Cons.prems by auto
    with rest have "us_username u \<notin> us_username ` set (update_where (\<lambda>u. us_id u = i) f us)" by (auto split: if_splits)
    with Cons show ?thesis unfolding eq by simp
  qed
qed (simp add: update_where_def)

lemma rename_ok:
  assumes "users_ok s" "\<not> name_taken i n s"
    and "\<And>now u. us_id (f now u) = us_id u \<and> us_username (f now u) = n \<and> us_email (f now u) = us_email u"
  shows "users_ok (fst (update_user E e i f s))"
proof (cases "rows_affected (\<lambda>u. us_id u = i) (users_tbl s) = 0")
  case False
  then have "\<forall>u\<in>set (users_tbl s). us_username u = n \<longrightarrow> us_id u = i"
    using assms(2) by (auto simp: name_taken_def rows_affected_0)
  with assms(1) have d: "distinct (map us_username
      (update_where (\<lambda>u. us_id u = i) (\<lambda>u. (f (clock E (draws s)) u)\<lparr>us_updated_at := clock E (draws s)\<rparr>) (users_tbl s)))"
    by (intro rename_distinct [where n=n]) (auto simp: users_ok_def assms(3))
  with False assms(1) show ?thesis
    by (simp add: update_user_def users_ok_def Let_def update_where_key emails_update ids_update assms(3))
qed (use assms in \<open>simp add: update_user_def users_ok_def Let_def\<close>)

section \<open>The invariant\<close>

lemmas field_update_defs = update_password_def update_last_login_def update_jwt_secret_def set_active_def
  set_role_def set_display_name_def

lemma field_updates_ok:
  assumes "users_ok s"
  shows "users_ok (fst (update_password E i h s))" "users_ok (fst (update_last_login E i s))"
    "users_ok (fst (update_jwt_secret E i x s))" "users_ok (fst (set_active E i b s))"
    "users_ok (fst (set_role E i r s))" "users_ok (fst (set_display_name E i d s))"
  unfolding field_update_defs by (rule update_user_ok [OF assms], simp)+

lemma update_username_ok: "users_ok s \<Longrightarrow> users_ok (fst (update_username E i n s))"
  by (auto simp: update_username_def intro!: rename_ok) (simp add: users_ok_def)

lemma insert_user_role_ok: "users_ok s \<Longrightarrow> users_ok (fst (insert_user_role i role now s))"
  by (auto simp: insert_user_role_def users_ok_def)

lemma assign_role_ok: "users_ok s \<Longrightarrow> users_ok (fst (assign_role E i role s))"
  unfolding assign_role_def by (rule insert_user_role_ok) (simp add: users_ok_def)

lemma set_system_user_credentials_ok:
  assumes "users_ok s"
  shows "users_ok (fst (set_system_user_credentials E n h s))"
  unfolding set_system_user_credentials_def
  by (auto intro!: fst_and_then_inv [where P=users_ok] rename_ok [OF assms] insert_user_role_ok)
    (use assms in \<open>simp add: users_ok_def\<close>)

lemma create_user_full_ok:
  assumes "users_ok s"
  shows "users_ok (fst (create_user_full E n h email d r s))"
  using assms by (auto simp: create_user_full_def users_ok_def Let_def emails_def)

lemma distinct_map_filter': "distinct (map f xs) \<Longrightarrow> distinct (map f (filter P xs))"
  by (rule distinct_map_filter)

lemma emails_filter: "distinct (emails us) \<Longrightarrow> distinct (emails (filter P us))"
proof -
  have "filter (\<lambda>u. us_email u \<noteq> None) (filter P us) = filter P (filter (\<lambda>u. us_email u \<noteq> None) us)"
    by (simp add: conj_commute)
  then show "distinct (emails us) \<Longrightarrow> distinct (emails (filter P us))"
    by (simp only: emails_def distinct_map_filter)
qed

lemma remove_role_ok: "users_ok s \<Longrightarrow> users_ok (fst (remove_role i role s))"
  by (auto simp: remove_role_def users_ok_def Let_def distinct_map_filter')

lemma delete_user_ok: "users_ok s \<Longrightarrow> users_ok (fst (delete_user i s))"
  by (auto simp: delete_user_def users_ok_def distinct_map_filter' emails_filter)

section \<open>Administrators\<close>

lemma count_admins: "users_ok s \<Longrightarrow> count_users_with_role ADMIN_ROLE s = card (admins s)"
proof -
  assume "users_ok s"
  then have "distinct (map (\<lambda>r. (ur_user_id r, ur_role_id r)) (filter (\<lambda>r. ur_role_id r = ADMIN_ROLE) (user_roles_tbl s)))"
    by (simp add: users_ok_def distinct_map_filter')
  then have "distinct (map ur_user_id (filter (\<lambda>r. ur_role_id r = ADMIN_ROLE) (user_roles_tbl s)))"
    by (auto simp: distinct_map inj_on_def)
  moreover have "admins s = set (map ur_user_id (filter (\<lambda>r. ur_role_id r = ADMIN_ROLE) (user_roles_tbl s)))"
    by (auto simp: admins_def)
  ultimately show ?thesis by (simp only: distinct_card count_users_with_role_def length_map)
qed

lemma admins_cong: "user_roles_tbl s = user_roles_tbl t \<Longrightarrow> admins s = admins t"
  by (simp add: admins_def)

lemma admins_update [simp]: "admins (fst (update_user E e i f s)) = admins s"
  by (rule admins_cong) simp

lemma admins_insert:
  "admins (fst (insert_user_role i role now s)) =
    admins s \<union> (if role = ADMIN_ROLE \<and> snd (insert_user_role i role now s) = Inr () then {i} else {})"
  by (auto simp: insert_user_role_def admins_def)

lemma admins_create [simp]: "admins (fst (create_user_full E n h email d r s)) = admins s"
  by (rule admins_cong) (simp add: create_user_full_def Let_def)

lemma admins_assign: "admins s \<subseteq> admins (fst (assign_role E i role s))"
  unfolding assign_role_def admins_insert by (auto simp: admins_def)

lemma admins_credentials: "admins s \<subseteq> admins (fst (set_system_user_credentials E n h s))"
proof (cases "name_taken SYSTEM_USER n s")
  case False
  then show ?thesis unfolding set_system_user_credentials_def
    by (simp, intro fst_and_then_inv [where P="\<lambda>t. admins s \<subseteq> admins t"]) (auto simp: admins_insert)
qed (simp add: set_system_user_credentials_def admins_def)

lemma admins_remove:
  assumes "users_ok s"
  shows "admins (fst (remove_role i role s)) = (if role = ADMIN_ROLE \<and> card (admins s) > 1 then admins s - {i} else admins s)"
  using count_admins [OF assms] unfolding remove_role_def count_users_with_role_def Let_def
  by (auto simp: admins_def)

lemma finite_admins [simp]: "finite (admins s)"
proof -
  have "admins s \<subseteq> ur_user_id ` set (user_roles_tbl s)" by (auto simp: admins_def)
  then show ?thesis by (rule finite_subset) simp
qed

lemma remove_role_keeps_admin:
  assumes "users_ok s" and "admins s \<noteq> {}"
  shows "admins (fst (remove_role i role s)) \<noteq> {}"
proof -
  have "admins s - {i} \<noteq> {}" if "card (admins s) > 1"
  proof
    assume "admins s - {i} = {}"
    then have "admins s \<subseteq> {i}" by blast
    from card_mono [OF _ this] that show False by simp
  qed
  with assms show ?thesis by (simp add: admins_remove)
qed

lemma delete_user_frame:
  "admins (fst (delete_user i s)) = (if find_by_id i s = None then admins s else admins s - {i})"
  "roles_tbl (fst (delete_user i s)) = roles_tbl s"
  by (auto simp: delete_user_def admins_def rows_affected_0 find_by_id_def find_None_iff)

lemma admins_exist: "users_ok s \<Longrightarrow> i \<in> admins s \<Longrightarrow> find_by_id i s \<noteq> None"
  by (auto simp: admins_def users_ok_def find_by_id_None)

end
