(* ===== verification/Password.thy ===== *)
theory Password
  imports Validation "HOL-Library.Word" "HOL-Library.Multiset"
begin

text \<open>
  Passwords (\<open>aionui-auth/src/password.rs\<close>): hashing through bcrypt, a parameter, and the generation of
  credentials from random bytes. The bytes of one generation are the function \<open>rnd\<close>, numbered in the
  order the code draws them. The padding of a verification to 50 milliseconds is not modelled.
\<close>

section \<open>Hashing\<close>

text \<open>
  \<open>bc_hash n p\<close> is the hash of \<open>p\<close> with the salt of the \<open>n\<close>-th draw, \<open>bc_verify p h\<close> the check, \<open>None\<close>
  an error of the library. Its documentation: what was hashed verifies.
\<close>

record bcrypt =
  bc_hash :: "nat \<Rightarrow> string \<Rightarrow> string option"
  bc_verify :: "string \<Rightarrow> string \<Rightarrow> bool option"

definition bcrypt_ok :: "bcrypt \<Rightarrow> bool" where
  "bcrypt_ok B \<longleftrightarrow>
     (\<forall>n p h. bc_hash B n p = Some h \<longrightarrow> bc_verify B p h = Some True \<and> trim h \<noteq> [])"

definition hash_password :: "bcrypt \<Rightarrow> nat \<Rightarrow> string \<Rightarrow> auth_error + string" where
  "hash_password B n password =
     (case bc_hash B n password of None \<Rightarrow> Inl (HashError ''bcrypt'') | Some h \<Rightarrow> Inr h)"

definition verify_password :: "bcrypt \<Rightarrow> string \<Rightarrow> string \<Rightarrow> auth_error + bool" where
  "verify_password B password hash =
     (case bc_verify B password hash of None \<Rightarrow> Inl (HashError ''bcrypt'') | Some b \<Rightarrow> Inr b)"

section \<open>Generation\<close>

definition LOWER :: string where "LOWER = ''abcdefghijklmnopqrstuvwxyz''"
definition UPPER :: string where "UPPER = ''ABCDEFGHIJKLMNOPQRSTUVWXYZ''"
definition DIGITS :: string where "DIGITS = ''0123456789''"
definition SPECIAL :: string where "SPECIAL = ''!@#$%^&*''"
definition ALPHANUMERIC_LOWER :: string where "ALPHANUMERIC_LOWER = ''abcdefghijklmnopqrstuvwxyz0123456789''"
definition ALL_PASSWORD_CHARS :: string where
  "ALL_PASSWORD_CHARS = ''ABCDEFGHIJKLMNOPQRSTUVWXYZabcdefghijklmnopqrstuvwxyz0123456789!@#$%^&*''"

definition random_from :: "8 word \<Rightarrow> string \<Rightarrow> char" where
  "random_from b charset = charset ! (unat b mod length charset)"

definition random_string :: "8 word list \<Rightarrow> string \<Rightarrow> string" where
  "random_string buf charset = map (\<lambda>b. charset ! (unat b mod length charset)) buf"

text \<open>\<open>u32::from_le_bytes\<close> of four bytes\<close>

definition random_range :: "8 word list \<Rightarrow> nat \<Rightarrow> nat \<Rightarrow> nat" where
  "random_range buf lo max_exclusive =
     (let range = max_exclusive - lo
      in lo + (unat (buf ! 0) + 256 * unat (buf ! 1) + 65536 * unat (buf ! 2) + 16777216 * unat (buf ! 3)) mod range)"

definition swap :: "nat \<Rightarrow> nat \<Rightarrow> 'a list \<Rightarrow> 'a list" where
  "swap i j xs = xs[i := xs ! j, j := xs ! i]"

text \<open>\<open>for i in (1..len).rev() { swap(i, bytes[i] % (i + 1)) }\<close>\<close>

fun shuffle_from :: "nat \<Rightarrow> (nat \<Rightarrow> 8 word) \<Rightarrow> 'a list \<Rightarrow> 'a list" where
  "shuffle_from 0 bytes xs = xs"
| "shuffle_from (Suc k) bytes xs = shuffle_from k bytes (swap (Suc k) (unat (bytes (Suc k)) mod (Suc k + 1)) xs)"

definition generate_strong_password :: "(nat \<Rightarrow> 8 word) \<Rightarrow> nat \<Rightarrow> string" where
  "generate_strong_password rnd len =
     (let chars = [random_from (rnd 0) UPPER, random_from (rnd 1) LOWER, random_from (rnd 2) DIGITS,
                   random_from (rnd 3) SPECIAL] @ map (\<lambda>k. random_from (rnd k) ALL_PASSWORD_CHARS) [4..<len]
      in shuffle_from (length chars - 1) (\<lambda>i. rnd (length chars + i)) chars)"

definition generate_password :: "(nat \<Rightarrow> 8 word) \<Rightarrow> nat \<Rightarrow> string" where
  "generate_password rnd len = generate_strong_password rnd (max len 4)"

text \<open>Eight bytes for the two lengths, then the user name, then the password.\<close>

definition generate_user_credentials :: "(nat \<Rightarrow> 8 word) \<Rightarrow> string \<times> string" where
  "generate_user_credentials rnd =
     (let username_len = random_range (map rnd [0..<4]) 6 9;
          password_len = random_range (map rnd [4..<8]) 12 18;
          username = random_string (map rnd [8..<8 + username_len]) ALPHANUMERIC_LOWER
      in (username, generate_strong_password (\<lambda>k. rnd (8 + username_len + k)) password_len))"

section \<open>The generated credentials are strong\<close>

lemma mset_swap: "i < length xs \<Longrightarrow> j < length xs \<Longrightarrow> mset (swap i j xs) = mset xs"
  unfolding swap_def by (rule mset_swap)

lemma length_swap [simp]: "length (swap i j xs) = length xs"
  by (simp add: swap_def)

lemma mset_shuffle: "k < length xs \<Longrightarrow> mset (shuffle_from k bytes xs) = mset xs"
proof (induction k arbitrary: xs)
  case (Suc k)
  have "unat (bytes (Suc k)) mod (Suc k + 1) < Suc (Suc k)" by simp
  then have j: "unat (bytes (Suc k)) mod (Suc k + 1) < length xs" using Suc.prems by linarith
  have "mset (shuffle_from (Suc k) bytes xs) = mset (swap (Suc k) (unat (bytes (Suc k)) mod (Suc k + 1)) xs)"
    using Suc by simp
  also have "\<dots> = mset xs" by (rule mset_swap [OF Suc.prems j])
  finally show ?case .
qed simp

lemma random_from_in: "charset \<noteq> [] \<Longrightarrow> random_from b charset \<in> set charset"
  by (simp add: random_from_def)

lemma strong_password:
  assumes "4 \<le> len"
  shows "length (generate_strong_password rnd len) = len \<and>
    set (generate_strong_password rnd len) \<subseteq> set ALL_PASSWORD_CHARS \<and>
    (\<forall>category \<in> {UPPER, LOWER, DIGITS, SPECIAL}. \<exists>c \<in> set category. c \<in> set (generate_strong_password rnd len))"
proof -
  let ?chars = "[random_from (rnd 0) UPPER, random_from (rnd 1) LOWER, random_from (rnd 2) DIGITS,
    random_from (rnd 3) SPECIAL] @ map (\<lambda>k. random_from (rnd k) ALL_PASSWORD_CHARS) [4..<len]"
  have m: "mset (generate_strong_password rnd len) = mset ?chars"
    unfolding generate_strong_password_def Let_def by (rule mset_shuffle) simp
  have mem: "random_from (rnd 0) UPPER \<in> set UPPER" "random_from (rnd 1) LOWER \<in> set LOWER"
    "random_from (rnd 2) DIGITS \<in> set DIGITS" "random_from (rnd 3) SPECIAL \<in> set SPECIAL"
    by (intro random_from_in, simp add: UPPER_def LOWER_def DIGITS_def SPECIAL_def)+
  have sub: "set UPPER \<subseteq> set ALL_PASSWORD_CHARS" "set LOWER \<subseteq> set ALL_PASSWORD_CHARS"
    "set DIGITS \<subseteq> set ALL_PASSWORD_CHARS" "set SPECIAL \<subseteq> set ALL_PASSWORD_CHARS"
    unfolding UPPER_def LOWER_def DIGITS_def SPECIAL_def ALL_PASSWORD_CHARS_def by auto
  have all: "random_from (rnd k) ALL_PASSWORD_CHARS \<in> set ALL_PASSWORD_CHARS" for k
    by (rule random_from_in) (simp add: ALL_PASSWORD_CHARS_def)
  from assms mset_eq_length [OF m] have "length (generate_strong_password rnd len) = len" by simp
  moreover from mem sub all have "set ?chars \<subseteq> set ALL_PASSWORD_CHARS" by auto
  ultimately show ?thesis
    using mem by (auto simp: mset_eq_setD [OF m])
qed

lemma special_not_weak: "c \<in> set SPECIAL \<Longrightarrow> c \<in> set p \<Longrightarrow> to_lower p \<notin> set weak_passwords"
proof
  assume c: "c \<in> set SPECIAL" "c \<in> set p" and "to_lower p \<in> set weak_passwords"
  then have "to_lower_char c \<in> set (concat weak_passwords)" by (auto simp: to_lower_def intro!: bexI [of _ "map to_lower_char p"])
  moreover have "\<forall>c \<in> set SPECIAL. to_lower_char c \<notin> set (concat weak_passwords)" by code_simp
  ultimately show False using c(1) by blast
qed

lemma strong_password_valid:
  assumes "8 \<le> len" "len \<le> 128"
  shows "validate_password (generate_strong_password rnd len) = Inr ()"
proof -
  from strong_password [of len rnd] assms obtain c where
    "c \<in> set SPECIAL" "c \<in> set (generate_strong_password rnd len)" "length (generate_strong_password rnd len) = len"
    by auto
  with special_not_weak assms show ?thesis by (simp add: validate_password_ok)
qed

lemma random_range_bounds: "lo < hi \<Longrightarrow> lo \<le> random_range buf lo hi \<and> random_range buf lo hi < hi"
proof -
  assume "lo < hi"
  then have "n mod (hi - lo) < hi - lo" for n :: nat by simp
  with \<open>lo < hi\<close> show ?thesis unfolding random_range_def Let_def by (metis add_less_cancel_left le_add1 le_add_diff_inverse order_less_imp_le)
qed

lemma random_username_valid:
  assumes "6 \<le> length buf" "length buf \<le> 8"
  shows "validate_username (random_string buf ALPHANUMERIC_LOWER) = Inr ()"
proof -
  have alnum: "\<forall>c \<in> set ALPHANUMERIC_LOWER. is_ascii_alphanumeric c"
    unfolding ALPHANUMERIC_LOWER_def is_ascii_alphanumeric_def by (simp add: less_eq_char_def)
  have "set (random_string buf ALPHANUMERIC_LOWER) \<subseteq> set ALPHANUMERIC_LOWER"
    by (auto simp: random_string_def intro!: nth_mem) (simp add: ALPHANUMERIC_LOWER_def)
  with alnum have all: "\<forall>c \<in> set (random_string buf ALPHANUMERIC_LOWER). is_ascii_alphanumeric c" by blast
  have "length (random_string buf ALPHANUMERIC_LOWER) = length buf" by (simp add: random_string_def)
  moreover from this assms have "random_string buf ALPHANUMERIC_LOWER \<noteq> []" by auto
  ultimately show ?thesis using all assms by (auto simp: validate_username_ok)
qed

text \<open>Whatever the random bytes, the bootstrap credentials pass the validation users are held to, and the
  password has between 12 and 17 characters, all printable, of which each of the four categories supplies
  one, wherever the shuffle moved it.\<close>

lemma generated_credentials_are_strong:
  "case generate_user_credentials rnd of (username, password) \<Rightarrow>
     validate_username username = Inr () \<and> validate_password password = Inr () \<and>
     12 \<le> length password \<and> length password < 18 \<and> set password \<subseteq> set ALL_PASSWORD_CHARS \<and>
     (\<exists>c\<in>set UPPER. c \<in> set password) \<and> (\<exists>c\<in>set LOWER. c \<in> set password) \<and>
     (\<exists>c\<in>set DIGITS. c \<in> set password) \<and> (\<exists>c\<in>set SPECIAL. c \<in> set password)"
proof -
  let ?n = "random_range (map rnd [0..<4]) 6 9" and ?m = "random_range (map rnd [4..<8]) 12 18"
  have n: "6 \<le> ?n" "?n < 9" and m: "12 \<le> ?m" "?m < 18"
    using random_range_bounds [of 6 9 "map rnd [0..<4]"] random_range_bounds [of 12 18 "map rnd [4..<8]"] by simp_all
  then have "validate_username (random_string (map rnd [8..<8 + ?n]) ALPHANUMERIC_LOWER) = Inr ()"
    by (intro random_username_valid) auto
  moreover have "validate_password (generate_strong_password (\<lambda>k. rnd (8 + ?n + k)) ?m) = Inr ()"
    using m by (intro strong_password_valid) auto
  moreover from m have "4 \<le> ?m" by simp
  from strong_password [OF this, of "\<lambda>k. rnd (8 + ?n + k)"] m
  have "12 \<le> length (generate_strong_password (\<lambda>k. rnd (8 + ?n + k)) ?m) \<and>
    length (generate_strong_password (\<lambda>k. rnd (8 + ?n + k)) ?m) < 18 \<and>
    set (generate_strong_password (\<lambda>k. rnd (8 + ?n + k)) ?m) \<subseteq> set ALL_PASSWORD_CHARS \<and>
    (\<forall>category \<in> {UPPER, LOWER, DIGITS, SPECIAL}. \<exists>c \<in> set category. c \<in> set (generate_strong_password (\<lambda>k. rnd (8 + ?n + k)) ?m))"
    by simp
  ultimately show ?thesis by (simp add: generate_user_credentials_def Let_def)
qed

text \<open>A bcrypt for the examples: a hash is the password after a mark.\<close>

definition demo_bcrypt :: bcrypt where
  "demo_bcrypt = \<lparr>bc_hash = (\<lambda>_ p. if length p \<le> 128 then Some (CHR ''$'' # p) else None),
     bc_verify = (\<lambda>p h. if h = [] then None else Some (h = CHR ''$'' # p))\<rparr>"

lemma demo_bcrypt_ok: "bcrypt_ok demo_bcrypt"
proof -
  have "trim (CHR ''$'' # p) \<noteq> []" for p
    by (auto simp: trim_def is_ws_def dropWhile_eq_Nil_conv)
  then show ?thesis by (simp add: bcrypt_ok_def demo_bcrypt_def)
qed

end
