(* ===== verification/AuthState.thy ===== *)
theory AuthState
  imports UserFacts Password RateLimit QrToken HttpHeaders Jwt
begin

text \<open>
  The state of the auth server: the user tables, the session service, the one-time tokens, the
  registration settings and the limiters its routes share, with the middlewares that guard the handlers
  (\<open>aionui-auth/src/middleware.rs\<close>, the end of \<open>rate_limit.rs\<close>) and the error mapping of \<open>routes.rs\<close>.
  One clock drives everything: milliseconds for rows, tokens and limiters, whole seconds for sessions. A
  draw of randomness or time is numbered by \<open>draws\<close> of the user tables.
\<close>

section \<open>Environment and state\<close>

record auth_env = env +
  ae_jwt :: jwt_lib
  ae_bcrypt :: bcrypt
  ae_secret :: "nat \<Rightarrow> string"
  ae_bytes :: "nat \<Rightarrow> nat \<Rightarrow> 8 word"
  ae_cookies :: cookie_config
  ae_local :: bool

record reg_settings =
  st_registration_mode :: "string option"
  st_registration_domain :: "string option"

record auth_state =
  au_db :: user_db
  au_jwt :: jwt_service
  au_qr :: qr_token_store
  au_settings :: "reg_settings option"
  au_auth_limiter :: rate_limiter
  au_api_limiter :: rate_limiter
  au_action_limiter :: rate_limiter
  au_admin_api_limiter :: rate_limiter
  au_admin_action_limiter :: rate_limiter

type_synonym 'a auth_op = "auth_state \<Rightarrow> (auth_state, api_error, 'a) outcome"

definition now_ms :: "auth_env \<Rightarrow> auth_state \<Rightarrow> int" where
  "now_ms E s = clock E (draws (au_db s))"

definition now_secs :: "auth_env \<Rightarrow> auth_state \<Rightarrow> nat" where
  "now_secs E s = nat (now_ms E s div 1000)"

definition drawn :: "auth_state \<Rightarrow> auth_state" where
  "drawn s = s\<lparr>au_db := (au_db s)\<lparr>draws := Suc (draws (au_db s))\<rparr>\<rparr>"

definition auth_state_new :: "user_db \<Rightarrow> string \<Rightarrow> reg_settings option \<Rightarrow> auth_state" where
  "auth_state_new db secret settings =
     \<lparr>au_db = db, au_jwt = jwt_service_new secret, au_qr = [], au_settings = settings,
      au_auth_limiter = auth_limiter, au_api_limiter = api_limiter, au_action_limiter = authenticated_action_limiter,
      au_admin_api_limiter = api_limiter, au_admin_action_limiter = authenticated_action_limiter\<rparr>"

text \<open>
  How the server comes up (\<open>AppServices::from_config\<close>): the secret of the environment, else that of the
  system user's row, else a new one, which is stored there.
\<close>

definition stored_secret :: "user_db \<Rightarrow> string option" where
  "stored_secret db =
     (case Option.bind (get_system_user db) us_jwt_secret of
        None \<Rightarrow> None | Some s \<Rightarrow> if s = [] then None else Some s)"

definition startup_secret :: "auth_env \<Rightarrow> string option \<Rightarrow> user_db \<Rightarrow> user_db \<times> string" where
  "startup_secret E env_secret db =
     (case resolve_jwt_secret (ae_secret E (draws db)) env_secret (stored_secret db) of
        (secret, is_new) \<Rightarrow>
          ((if is_new then (case get_system_user db of
                              None \<Rightarrow> db | Some u \<Rightarrow> fst (update_jwt_secret E (us_id u) secret db))
            else db), secret))"

section \<open>Errors\<close>

text \<open>\<open>From<AuthError> for ApiError\<close> and \<open>db_error_to_api_error\<close>\<close>

fun auth_err :: "auth_error \<Rightarrow> api_error" where
  "auth_err InvalidCredentials = Unauthorized ''Invalid username or password''"
| "auth_err (WeakPassword msg) = BadRequest msg"
| "auth_err (InvalidUsername msg) = BadRequest msg"
| "auth_err TokenExpired = Unauthorized ''Token expired''"
| "auth_err (TokenInvalid msg) = Unauthorized msg"
| "auth_err TokenBlacklisted = Unauthorized ''Token has been revoked''"
| "auth_err AuthRateLimited = ApiRateLimited"
| "auth_err (HashError msg) = Internal (''Password hash error: '' @ msg)"

fun db_error_to_api_error :: "db_error \<Rightarrow> api_error" where
  "db_error_to_api_error (DbNotFound msg) = NotFound msg"
| "db_error_to_api_error (DbConflict msg) = ApiConflict msg"
| "db_error_to_api_error Query = InternalDb Query"
| "db_error_to_api_error Migration = InternalDb Migration"
| "db_error_to_api_error (DbInit msg) = InternalDb (DbInit msg)"

text \<open>Lifting: an operation on the user tables, and a check that has no state.\<close>

definition on_db :: "(db_error \<Rightarrow> api_error) \<Rightarrow> 'a user_op \<Rightarrow> 'a auth_op" where
  "on_db err f s = (case f (au_db s) of (db, r) \<Rightarrow>
     (s\<lparr>au_db := db\<rparr>, case r of Inl e \<Rightarrow> Inl (err e) | Inr x \<Rightarrow> Inr x))"

definition checked :: "auth_error + 'a \<Rightarrow> 'a auth_op" where
  "checked r s = (s, case r of Inl e \<Rightarrow> Inl (auth_err e) | Inr x \<Rightarrow> Inr x)"

definition ensure_local_mode :: "auth_env \<Rightarrow> unit auth_op" where
  "ensure_local_mode E s =
     (s, if ae_local E then Inr () else Inl (Forbidden ''This endpoint is only available in local mode''))"

text \<open>\<open>hash_password\<close> on a worker thread, with a salt of its own.\<close>

definition hashed :: "auth_env \<Rightarrow> string \<Rightarrow> string auth_op" where
  "hashed E password s = checked (hash_password (ae_bcrypt E) (draws (au_db s)) password) (drawn s)"

section \<open>Middlewares\<close>

record current_user =
  cu_id :: string
  cu_username :: string
  cu_roles :: "string list"

definition is_admin :: "current_user \<Rightarrow> bool" where
  "is_admin u \<longleftrightarrow> list_ex (\<lambda>r. r = ''admin'') (cu_roles u)"

definition local_user :: current_user where
  "local_user = \<lparr>cu_id = ''system_default_user'', cu_username = ''system_default_user'', cu_roles = [''admin'']\<rparr>"

definition auth_middleware :: "auth_env \<Rightarrow> bool \<Rightarrow> headers \<Rightarrow> current_user auth_op" where
  "auth_middleware E local_mode h s =
     (if local_mode then (s, Inr local_user)
      else case extract_token_from_headers h of
        None \<Rightarrow> (s, Inl (Unauthorized ''Authentication required''))
      | Some token \<Rightarrow>
          (case jwt_verify (ae_jwt E) (now_secs E s) token (au_jwt s) of
             Inl _ \<Rightarrow> (s, Inl (Unauthorized ''Invalid or expired token''))
           | Inr payload \<Rightarrow>
               (case find_by_id (tk_user_id payload) (au_db s) of
                  None \<Rightarrow> (s, Inl (Unauthorized ''Invalid authentication subject''))
                | Some user \<Rightarrow>
                    if \<not> us_is_active user then (s, Inl (Forbidden ''Account is deactivated''))
                    else (s, Inr \<lparr>cu_id = us_id user, cu_username = us_username user,
                                  cu_roles = get_user_roles (us_id user) (au_db s)\<rparr>))))"

definition require_admin_middleware :: "current_user \<Rightarrow> unit auth_op" where
  "require_admin_middleware user s =
     (s, if is_admin user then Inr () else Inl (Forbidden ''Admin access required''))"

text \<open>\<open>StatusCode::is_success\<close> of the answer of the inner service; every handler that succeeds answers 200.\<close>

definition is_success :: "api_error + 'a \<Rightarrow> bool" where
  "is_success r = (case r of Inl e \<Rightarrow> 200 \<le> status_code e \<and> status_code e < 300 | Inr _ \<Rightarrow> True)"

definition auth_rate_limit_middleware :: "auth_env \<Rightarrow> headers \<Rightarrow> 'a auth_op \<Rightarrow> 'a auth_op" where
  "auth_rate_limit_middleware E h run_next s =
     (let ip = extract_client_ip_from_headers h
      in case rl_check (word_of_int (now_ms E s)) ip (au_auth_limiter s) of
           Inl e \<Rightarrow> (s, Inl (auth_err e))
         | Inr _ \<Rightarrow> (case run_next s of (s', r) \<Rightarrow>
             ((if is_success r then s'
               else s'\<lparr>au_auth_limiter := record_attempt (word_of_int (now_ms E s')) ip (au_auth_limiter s')\<rparr>), r)))"

definition rate_limited :: "auth_env \<Rightarrow> (auth_state \<Rightarrow> rate_limiter) \<Rightarrow> (rate_limiter \<Rightarrow> auth_state \<Rightarrow> auth_state)
    \<Rightarrow> string \<Rightarrow> unit auth_op" where
  "rate_limited E get_limiter set_limiter key s =
     (case check_and_increment (word_of_int (now_ms E s)) key (get_limiter s) of
        (l, r) \<Rightarrow> checked r (set_limiter l s))"

definition api_rate_limit_middleware :: "auth_env \<Rightarrow> headers \<Rightarrow> unit auth_op" where
  "api_rate_limit_middleware E h =
     rate_limited E au_api_limiter (\<lambda>l s. s\<lparr>au_api_limiter := l\<rparr>) (extract_client_ip_from_headers h)"

definition action_key :: "current_user option \<Rightarrow> headers \<Rightarrow> string" where
  "action_key user h =
     (case user of Some u \<Rightarrow> ''user:'' @ cu_id u | None \<Rightarrow> ''ip:'' @ extract_client_ip_from_headers h)"

definition authenticated_action_rate_limit_middleware :: "auth_env \<Rightarrow> current_user option \<Rightarrow> headers \<Rightarrow> unit auth_op" where
  "authenticated_action_rate_limit_middleware E user h =
     rate_limited E au_action_limiter (\<lambda>l s. s\<lparr>au_action_limiter := l\<rparr>) (action_key user h)"

text \<open>The admin router has limiters of its own, and its action limiter runs before authentication.\<close>

definition admin_rate_limits :: "auth_env \<Rightarrow> headers \<Rightarrow> unit auth_op" where
  "admin_rate_limits E h s =
     and_then (rate_limited E au_admin_api_limiter (\<lambda>l s. s\<lparr>au_admin_api_limiter := l\<rparr>) (extract_client_ip_from_headers h) s) (\<lambda>_.
       rate_limited E au_admin_action_limiter (\<lambda>l s. s\<lparr>au_admin_action_limiter := l\<rparr>) (action_key None h))"

end
