(* ===== verification/AuthHandlers.thy ===== *)
theory AuthHandlers
  imports AuthState
begin

text \<open>
  The REST handlers of the auth module (\<open>aionui-auth/src/routes.rs\<close>), one definition per handler, and
  the two routers with their middlewares in the order the layers run. The extractors of the web framework
  are inputs: the headers, the decoded body or the status of its rejection, and the current user the auth
  middleware stored.
\<close>

section \<open>Bodies and answers\<close>

record login_request = lq_username :: string  lq_password :: string
record change_password_request = cq_current_password :: string  cq_new_password :: string
record register_request =
  gq_username :: string
  gq_password :: string
  gq_email :: "string option"
  gq_display_name :: "string option"
record internal_user_request = iq_username :: string  iq_password_hash :: string
record admin_create_user_request = register_request +
  aq_role :: "string option"
record admin_update_user_request =
  uq_is_active :: "bool option"
  uq_role :: "string option"
  uq_display_name :: "string option"

record public_user =
  pb_id :: string
  pb_username :: string
  pb_role :: string
  pb_is_active :: bool
  pb_display_name :: "string option"

record admin_user =
  ad_id :: string
  ad_username :: string
  ad_email :: "string option"
  ad_roles :: "string list"
  ad_is_active :: bool
  ad_display_name :: "string option"
  ad_created_at :: int
  ad_last_login :: "int option"

datatype auth_answer =
    LoginResponse public_user string
  | Message string
  | AuthStatus bool nat bool
  | Users "user_row list"
  | MaybeUser "user_row option"
  | CreatedUser user_row
  | Done_unit
  | UserInfo public_user
  | Refreshed string
  | WsToken string nat
  | UsernameChanged string
  | PasswordReset string
  | QrTokenAnswer string int
  | AdminUsers "admin_user list"
  | AdminUserAnswer admin_user
  | Roles "role_row list"
  | Registered public_user
  | QrLoginHtml

definition public_view :: "user_row \<Rightarrow> public_user" where
  "public_view u = \<lparr>pb_id = us_id u, pb_username = us_username u, pb_role = us_role u,
     pb_is_active = us_is_active u, pb_display_name = us_display_name u\<rparr>"

definition json :: "auth_answer \<Rightarrow> auth_answer response" where
  "json x = \<lparr>resp_headers = [], resp_body = x\<rparr>"

definition with_cookie :: "string \<Rightarrow> auth_answer \<Rightarrow> auth_answer response" where
  "with_cookie cookie x = \<lparr>resp_headers = [(''set-cookie'', cookie)], resp_body = x\<rparr>"

section \<open>Sessions\<close>

definition invalid_login :: api_error where
  "invalid_login = Unauthorized ''Invalid username or password''"

text \<open>The token, the time of the login (whose failure is only logged) and the answer, as both logins end.\<close>

definition open_session :: "auth_env \<Rightarrow> user_row \<Rightarrow> auth_answer response auth_op" where
  "open_session E user s =
     (let token = jwt_sign (ae_jwt E) (now_secs E s) (us_id user) (us_username user) (au_jwt s);
          s1 = s\<lparr>au_db := fst (update_last_login E (us_id user) (au_db s))\<rparr>
      in (s1, Inr (with_cookie (build_session_cookie (ae_cookies E) token) (LoginResponse (public_view user) token))))"

definition login_handler :: "auth_env \<Rightarrow> login_request body \<Rightarrow> auth_answer response auth_op" where
  "login_handler E body s =
     and_then (read_body body s) (\<lambda>req s.
       if length (lq_username req) > 32 then (s, Inl (BadRequest ''Username must not exceed 32 characters''))
       else if length (lq_password req) > 128 then (s, Inl (BadRequest ''Password must not exceed 128 characters''))
       else
         and_then (case find_by_username (lq_username req) (au_db s) of
             None \<Rightarrow> (s, Inr (None, False))
           | Some u \<Rightarrow>
               if trim (us_password_hash u) = [] then (s, Inr (None, False))
               else and_then (checked (verify_password (ae_bcrypt E) (lq_password req) (us_password_hash u)) s)
                      (\<lambda>valid s. (s, Inr (Some u, valid)))) (\<lambda>(found_user, password_valid) s.
         if \<not> password_valid then (s, Inl invalid_login)
         else case found_user of
           None \<Rightarrow> (s, Inl invalid_login)
         | Some user \<Rightarrow>
             if \<not> us_is_active user then (s, Inl (Forbidden ''Account is deactivated''))
             else open_session E user s))"

definition logout_handler :: "auth_env \<Rightarrow> headers \<Rightarrow> auth_answer response auth_op" where
  "logout_handler E h s =
     (let s1 = (case extract_token_from_headers h of
                  None \<Rightarrow> s
                | Some token \<Rightarrow> s\<lparr>au_jwt := blacklist_token (ae_jwt E) (now_secs E s) token (au_jwt s)\<rparr>)
      in (s1, Inr (with_cookie (clear_session_cookie (ae_cookies E)) (Message ''Logged out successfully''))))"

definition status_handler :: "auth_env \<Rightarrow> headers \<Rightarrow> auth_answer response auth_op" where
  "status_handler E h s =
     (let is_authenticated = (case extract_token_from_headers h of
            None \<Rightarrow> False
          | Some token \<Rightarrow> (case jwt_verify (ae_jwt E) (now_secs E s) token (au_jwt s) of Inl _ \<Rightarrow> False | Inr _ \<Rightarrow> True))
      in (s, Inr (json (AuthStatus (\<not> has_users (au_db s)) (count_users (au_db s)) is_authenticated))))"

definition user_handler :: "current_user \<Rightarrow> auth_answer response auth_op" where
  "user_handler current s =
     (case find_by_id (cu_id current) (au_db s) of
        None \<Rightarrow> (s, Inl (NotFound ''User not found''))
      | Some user \<Rightarrow> (s, Inr (json (UserInfo (public_view user)))))"

text \<open>\<open>Internal("Database error")\<close> of handlers that do not map the kinds of a database error\<close>

definition change_password_handler :: "auth_env \<Rightarrow> current_user \<Rightarrow> change_password_request body \<Rightarrow> auth_answer response auth_op" where
  "change_password_handler E current body s =
     and_then (read_body body s) (\<lambda>req s.
     and_then (checked (validate_password (cq_new_password req)) s) (\<lambda>_ s.
     case find_by_id (cu_id current) (au_db s) of
       None \<Rightarrow> (s, Inl (NotFound ''User not found''))
     | Some user \<Rightarrow>
         and_then (checked (verify_password (ae_bcrypt E) (cq_current_password req) (us_password_hash user)) s) (\<lambda>valid s.
         if \<not> valid then (s, Inl (Unauthorized ''Current password is incorrect''))
         else
           and_then (hashed E (cq_new_password req) s) (\<lambda>new_hash s.
           and_then (on_db InternalDb (update_password E (cu_id current) new_hash) s) (\<lambda>_ s.
           let new_secret = ae_secret E (draws (au_db s));
               s1 = (drawn s)\<lparr>au_jwt := rotate_secret new_secret (au_jwt s)\<rparr>
           in and_then (on_db InternalDb (update_jwt_secret E (cu_id current) new_secret) s1) (\<lambda>_ s.
              (s, Inr (json (Message ''Password changed successfully'')))))))))"

definition refresh_handler :: "auth_env \<Rightarrow> string body \<Rightarrow> auth_answer response auth_op" where
  "refresh_handler E body s =
     and_then (read_body body s) (\<lambda>token s.
       case jwt_verify (ae_jwt E) (now_secs E s) token (au_jwt s) of
         Inl _ \<Rightarrow> (s, Inl (Unauthorized ''Invalid or expired token''))
       | Inr payload \<Rightarrow>
           (s, Inr (json (Refreshed (jwt_sign (ae_jwt E) (now_secs E s) (tk_user_id payload) (tk_username payload) (au_jwt s))))))"

text \<open>30 days in milliseconds is 2592000000.\<close>

definition ws_token_handler :: "current_user \<Rightarrow> headers \<Rightarrow> auth_answer response auth_op" where
  "ws_token_handler current h s =
     (case extract_token_from_headers h of
        None \<Rightarrow> (s, Inl (Unauthorized ''No token found''))
      | Some token \<Rightarrow>
          (case find_by_id (cu_id current) (au_db s) of
             None \<Rightarrow> (s, Inl (Unauthorized ''User not found''))
           | Some _ \<Rightarrow> (s, Inr (json (WsToken token 2592000000)))))"

definition qr_login_handler :: "auth_env \<Rightarrow> string body \<Rightarrow> auth_answer response auth_op" where
  "qr_login_handler E body s =
     and_then (read_body body s) (\<lambda>qr_token s.
       case validate_and_consume (now_ms E s) qr_token (au_qr s) of
         (_, Inl e) \<Rightarrow> (s, Inl (auth_err e))
       | (qr, Inr _) \<Rightarrow>
           let s1 = s\<lparr>au_qr := qr\<rparr>
           in case get_primary_webui_user (au_db s1) of
                None \<Rightarrow> (s1, Inl (Internal ''No primary user configured''))
              | Some user \<Rightarrow> open_session E user s1)"

section \<open>Local-only endpoints\<close>

definition list_internal_users_handler :: "auth_env \<Rightarrow> auth_answer response auth_op" where
  "list_internal_users_handler E s =
     and_then (ensure_local_mode E s) (\<lambda>_ s. (s, Inr (json (Users (list_users (au_db s))))))"

definition get_system_user_handler :: "auth_env \<Rightarrow> auth_answer response auth_op" where
  "get_system_user_handler E s =
     and_then (ensure_local_mode E s) (\<lambda>_ s. (s, Inr (json (MaybeUser (get_system_user (au_db s))))))"

definition find_user_by_username_handler :: "auth_env \<Rightarrow> string \<Rightarrow> auth_answer response auth_op" where
  "find_user_by_username_handler E username s =
     and_then (ensure_local_mode E s) (\<lambda>_ s. (s, Inr (json (MaybeUser (find_by_username username (au_db s))))))"

definition find_user_by_id_handler :: "auth_env \<Rightarrow> string \<Rightarrow> auth_answer response auth_op" where
  "find_user_by_id_handler E i s =
     and_then (ensure_local_mode E s) (\<lambda>_ s. (s, Inr (json (MaybeUser (find_by_id i (au_db s))))))"

definition create_internal_user_handler :: "auth_env \<Rightarrow> internal_user_request body \<Rightarrow> auth_answer response auth_op" where
  "create_internal_user_handler E body s =
     and_then (ensure_local_mode E s) (\<lambda>_ s.
     and_then (read_body body s) (\<lambda>req s.
     and_then (on_db db_error_to_api_error (create_user E (iq_username req) (iq_password_hash req)) s) (\<lambda>user s.
     (s, Inr (json (CreatedUser user))))))"

definition set_system_user_credentials_handler :: "auth_env \<Rightarrow> internal_user_request body \<Rightarrow> auth_answer response auth_op" where
  "set_system_user_credentials_handler E body s =
     and_then (ensure_local_mode E s) (\<lambda>_ s.
     and_then (read_body body s) (\<lambda>req s.
     and_then (on_db db_error_to_api_error (set_system_user_credentials E (iq_username req) (iq_password_hash req)) s) (\<lambda>_ s.
     (s, Inr (json Done_unit)))))"

definition update_user_password_hash_handler :: "auth_env \<Rightarrow> string \<Rightarrow> string body \<Rightarrow> auth_answer response auth_op" where
  "update_user_password_hash_handler E i body s =
     and_then (ensure_local_mode E s) (\<lambda>_ s.
     and_then (read_body body s) (\<lambda>password_hash s.
     and_then (on_db db_error_to_api_error (update_password E i password_hash) s) (\<lambda>_ s.
     (s, Inr (json Done_unit)))))"

definition update_user_username_handler :: "auth_env \<Rightarrow> string \<Rightarrow> string body \<Rightarrow> auth_answer response auth_op" where
  "update_user_username_handler E i body s =
     and_then (ensure_local_mode E s) (\<lambda>_ s.
     and_then (read_body body s) (\<lambda>username s.
     and_then (on_db db_error_to_api_error (update_username E i username) s) (\<lambda>_ s.
     (s, Inr (json Done_unit)))))"

definition update_user_jwt_secret_handler :: "auth_env \<Rightarrow> string \<Rightarrow> string body \<Rightarrow> auth_answer response auth_op" where
  "update_user_jwt_secret_handler E i body s =
     and_then (ensure_local_mode E s) (\<lambda>_ s.
     and_then (read_body body s) (\<lambda>jwt_secret s.
     and_then (on_db db_error_to_api_error (update_jwt_secret E i jwt_secret) s) (\<lambda>_ s.
     (s, Inr (json Done_unit)))))"

definition update_user_last_login_handler :: "auth_env \<Rightarrow> string \<Rightarrow> auth_answer response auth_op" where
  "update_user_last_login_handler E i s =
     and_then (ensure_local_mode E s) (\<lambda>_ s.
     and_then (on_db db_error_to_api_error (update_last_login E i) s) (\<lambda>_ s.
     (s, Inr (json Done_unit))))"

definition resolve_webui_admin :: "user_row auth_op" where
  "resolve_webui_admin s =
     (s, case get_primary_webui_user (au_db s) of
           None \<Rightarrow> Inl (NotFound ''No WebUI admin user configured'')
         | Some u \<Rightarrow> Inr u)"

definition webui_change_password_handler :: "auth_env \<Rightarrow> string body \<Rightarrow> auth_answer response auth_op" where
  "webui_change_password_handler E body s =
     and_then (ensure_local_mode E s) (\<lambda>_ s.
     and_then (read_body body s) (\<lambda>new_password s.
     and_then (checked (validate_password new_password) s) (\<lambda>_ s.
     and_then (resolve_webui_admin s) (\<lambda>user s.
     and_then (hashed E new_password s) (\<lambda>new_hash s.
     and_then (on_db InternalDb (update_password E (us_id user) new_hash) s) (\<lambda>_ s.
     (s, Inr (json (Message ''Password changed successfully'')))))))))"

definition webui_change_username_handler :: "auth_env \<Rightarrow> string body \<Rightarrow> auth_answer response auth_op" where
  "webui_change_username_handler E body s =
     and_then (ensure_local_mode E s) (\<lambda>_ s.
     and_then (read_body body s) (\<lambda>new_username s.
     let trimmed = trim new_username
     in and_then (checked (validate_username trimmed) s) (\<lambda>_ s.
        and_then (resolve_webui_admin s) (\<lambda>user s.
        and_then (if us_username user \<noteq> trimmed
                  then on_db InternalDb (update_username E (us_id user) trimmed) s
                  else (s, Inr ())) (\<lambda>_ s.
        (s, Inr (json (UsernameChanged trimmed))))))))"

definition webui_reset_password_handler :: "auth_env \<Rightarrow> auth_answer response auth_op" where
  "webui_reset_password_handler E s =
     and_then (ensure_local_mode E s) (\<lambda>_ s.
     and_then (resolve_webui_admin s) (\<lambda>user s.
     let new_password = generate_password (ae_bytes E (draws (au_db s))) 16
     in and_then (hashed E new_password (drawn s)) (\<lambda>new_hash s.
        and_then (on_db InternalDb (update_password E (us_id user) new_hash) s) (\<lambda>_ s.
        (s, Inr (json (PasswordReset new_password)))))))"

definition webui_generate_qr_token_handler :: "auth_env \<Rightarrow> auth_answer response auth_op" where
  "webui_generate_qr_token_handler E s =
     and_then (ensure_local_mode E s) (\<lambda>_ s.
       case generate_with_expiry (map (ae_bytes E (draws (au_db s))) [0..<32]) (now_ms E s) (au_qr s) of
         (qr, token, expires_at_ms) \<Rightarrow> ((drawn s)\<lparr>au_qr := qr\<rparr>, Inr (json (QrTokenAnswer token expires_at_ms))))"

section \<open>Administration\<close>

definition admin_user_view :: "user_row \<Rightarrow> auth_state \<Rightarrow> admin_user" where
  "admin_user_view u s = \<lparr>ad_id = us_id u, ad_username = us_username u, ad_email = us_email u,
     ad_roles = get_user_roles (us_id u) (au_db s), ad_is_active = us_is_active u,
     ad_display_name = us_display_name u, ad_created_at = us_created_at u, ad_last_login = us_last_login u\<rparr>"

definition invalid_role :: "string \<Rightarrow> api_error" where
  "invalid_role role = BadRequest (''Invalid role '' @ quoted role @ '': must be '' @ quoted ''admin'' @ '' or '' @ quoted ''member'')"

definition last_admin_role :: api_error where
  "last_admin_role = ApiConflict (''No puedes quitar el '' @ [CHR 0xC3, CHR 0xBA] @ ''ltimo rol admin del sistema'')"

definition admin_list_users_handler :: "auth_answer response auth_op" where
  "admin_list_users_handler s = (s, Inr (json (AdminUsers (map (\<lambda>u. admin_user_view u s) (list_users (au_db s))))))"

definition admin_create_user_handler :: "auth_env \<Rightarrow> admin_create_user_request body \<Rightarrow> auth_answer response auth_op" where
  "admin_create_user_handler E body s =
     and_then (read_body body s) (\<lambda>req s.
     let trimmed = trim (gq_username req)
     in and_then (checked (validate_username trimmed) s) (\<lambda>_ s.
        and_then (checked (validate_password (gq_password req)) s) (\<lambda>_ s.
        let role = (case aq_role req of None \<Rightarrow> ''member'' | Some r \<Rightarrow> r)
        in if role \<noteq> ''admin'' \<and> role \<noteq> ''member'' then (s, Inl (invalid_role role))
           else
             and_then (hashed E (gq_password req) s) (\<lambda>hash s.
             and_then (on_db db_error_to_api_error
                 (create_user_full E trimmed hash (gq_email req) (gq_display_name req) role) s) (\<lambda>user s.
             and_then (if role = ADMIN_ROLE then on_db db_error_to_api_error (assign_role E (us_id user) ADMIN_ROLE) s
                       else (s, Inr ())) (\<lambda>_ s.
             (s, Inr (json (AdminUserAnswer (admin_user_view user s))))))))))"

text \<open>The part of an update that changes the role: the old column first, then \<open>user_roles\<close>.\<close>

definition change_role :: "auth_env \<Rightarrow> string \<Rightarrow> string \<Rightarrow> unit auth_op" where
  "change_role E i role s =
     (if role \<noteq> ''admin'' \<and> role \<noteq> ''member'' then (s, Inl (invalid_role role))
      else
        and_then (on_db db_error_to_api_error (set_role E i role) s) (\<lambda>_ s.
        if role = ADMIN_ROLE then on_db db_error_to_api_error (assign_role E i ADMIN_ROLE) s
        else
          and_then (on_db db_error_to_api_error (remove_role i ADMIN_ROLE) s) (\<lambda>r s.
          if r = WouldLeaveNoAdmins then (s, Inl last_admin_role) else (s, Inr ()))))"

definition admin_update_user_handler :: "auth_env \<Rightarrow> current_user \<Rightarrow> string \<Rightarrow> admin_update_user_request body
    \<Rightarrow> auth_answer response auth_op" where
  "admin_update_user_handler E current i body s =
     and_then (read_body body s) (\<lambda>req s.
       if i = cu_id current \<and> uq_is_active req = Some False
       then (s, Inl (BadRequest ''Cannot deactivate your own account''))
       else if i = cu_id current \<and> uq_role req = Some ''member''
       then (s, Inl (BadRequest ''Cannot demote your own admin role''))
       else
         and_then (case uq_role req of None \<Rightarrow> (s, Inr ()) | Some role \<Rightarrow> change_role E i role s) (\<lambda>_ s.
         and_then (case uq_is_active req of None \<Rightarrow> (s, Inr ())
                   | Some b \<Rightarrow> on_db db_error_to_api_error (set_active E i b) s) (\<lambda>_ s.
         and_then (case uq_display_name req of None \<Rightarrow> (s, Inr ())
                   | Some name \<Rightarrow> on_db db_error_to_api_error (set_display_name E i (Some name)) s) (\<lambda>_ s.
         (s, Inr (json (Message ''User updated successfully'')))))))"

definition admin_delete_user_handler :: "current_user \<Rightarrow> string \<Rightarrow> auth_answer response auth_op" where
  "admin_delete_user_handler current i s =
     (if i = cu_id current then (s, Inl (BadRequest ''Cannot delete your own account''))
      else if i = ''system_default_user'' then (s, Inl (BadRequest ''Cannot delete the system default user''))
      else if list_ex (\<lambda>r. r = ADMIN_ROLE) (get_user_roles i (au_db s)) \<and> count_users_with_role ADMIN_ROLE (au_db s) \<le> 1
      then (s, Inl (ApiConflict (''No puedes borrar al '' @ [CHR 0xC3, CHR 0xBA] @ ''ltimo administrador del sistema'')))
      else
        and_then (on_db db_error_to_api_error (delete_user i) s) (\<lambda>_ s.
        (s, Inr (json (Message ''User deleted successfully'')))))"

definition admin_reset_password_handler :: "auth_env \<Rightarrow> string \<Rightarrow> string body \<Rightarrow> auth_answer response auth_op" where
  "admin_reset_password_handler E i body s =
     and_then (read_body body s) (\<lambda>new_password s.
     and_then (checked (validate_password new_password) s) (\<lambda>_ s.
     and_then (hashed E new_password s) (\<lambda>hash s.
     and_then (on_db db_error_to_api_error (update_password E i hash) s) (\<lambda>_ s.
     (s, Inr (json (Message ''Password reset successfully'')))))))"

definition admin_list_roles_handler :: "auth_answer response auth_op" where
  "admin_list_roles_handler s = (s, Inr (json (Roles (list_roles (au_db s)))))"

definition admin_assign_role_handler :: "auth_env \<Rightarrow> string \<Rightarrow> string body \<Rightarrow> auth_answer response auth_op" where
  "admin_assign_role_handler E user_id body s =
     and_then (read_body body s) (\<lambda>req_role s.
     let role = trim req_role
     in if role = [] then (s, Inl (BadRequest ''role must not be empty''))
        else case find_by_id user_id (au_db s) of
          None \<Rightarrow> (s, Inl (NotFound (''User '' @ quoted user_id @ '' not found'')))
        | Some user \<Rightarrow>
            if \<not> list_ex (\<lambda>r. ro_id r = role) (list_roles (au_db s))
            then (s, Inl (BadRequest (''Unknown role '' @ quoted role)))
            else
              and_then (on_db db_error_to_api_error (assign_role E user_id role) s) (\<lambda>_ s.
              (s, Inr (json (AdminUserAnswer (admin_user_view user s))))))"

definition admin_remove_role_handler :: "string \<Rightarrow> string \<Rightarrow> auth_answer response auth_op" where
  "admin_remove_role_handler user_id role s =
     (case find_by_id user_id (au_db s) of
        None \<Rightarrow> (s, Inl (NotFound (''User '' @ quoted user_id @ '' not found'')))
      | Some user \<Rightarrow>
          and_then (on_db db_error_to_api_error (remove_role user_id role) s) (\<lambda>r s.
          if r = WouldLeaveNoAdmins then (s, Inl last_admin_role)
          else (s, Inr (json (AdminUserAnswer (admin_user_view user s))))))"

section \<open>Registration\<close>

definition by_invitation_only :: api_error where
  "by_invitation_only = Forbidden ''Registration by invitation only''"

definition effective_registration_mode :: "reg_settings \<Rightarrow> string" where
  "effective_registration_mode st = (case st_registration_mode st of None \<Rightarrow> ''invite_only'' | Some m \<Rightarrow> m)"

text \<open>What the settings say of a registration with this e-mail.\<close>

definition registration_policy :: "reg_settings option \<Rightarrow> string option \<Rightarrow> api_error + unit" where
  "registration_policy settings email =
     (let mode = (case settings of None \<Rightarrow> ''invite_only'' | Some st \<Rightarrow> effective_registration_mode st)
      in if mode = ''invite_only'' then Inl by_invitation_only
         else if mode = ''domain_allowlist''
         then let domain = (case Option.bind settings st_registration_domain of None \<Rightarrow> [] | Some d \<Rightarrow> d);
                  address = (case email of None \<Rightarrow> [] | Some e \<Rightarrow> e)
              in if domain = [] then Inl (Internal ''Domain allowlist mode requires registration_domain to be set'')
                 else if \<not> ends_with (''@'' @ domain) address
                 then Inl (Forbidden (''Registration requires an email from @'' @ domain))
                 else Inr ()
         else if mode = ''open'' then Inr ()
         else Inl by_invitation_only)"

definition register_handler :: "auth_env \<Rightarrow> register_request body \<Rightarrow> auth_answer response auth_op" where
  "register_handler E body s =
     and_then (read_body body s) (\<lambda>req s.
     and_then (s, registration_policy (au_settings s) (gq_email req)) (\<lambda>_ s.
     let trimmed = trim (gq_username req)
     in and_then (checked (validate_username trimmed) s) (\<lambda>_ s.
        and_then (checked (validate_password (gq_password req)) s) (\<lambda>_ s.
        and_then (hashed E (gq_password req) s) (\<lambda>hash s.
        and_then (on_db db_error_to_api_error
            (create_user_full E trimmed hash (gq_email req) (gq_display_name req) ''member'') s) (\<lambda>user s.
        (s, Inr (json (Registered (public_view user))))))))))"

end
