(* ===== verification/AuthServer.thy ===== *)
theory AuthServer
  imports AuthHandlers
begin

text \<open>
  The routers of the auth module (\<open>auth_routes\<close> and \<open>admin_routes\<close> of \<open>aionui-auth/src/routes.rs\<close>): every
  endpoint behind its middlewares, the clean-up tasks, and what every request keeps: the keys of the user
  tables, an administrator, and consistent maps.
\<close>

section \<open>Routers\<close>

datatype public_request =
    ReqStatus
  | ReqRegister "register_request body"
  | ReqListUsers
  | ReqCreateUser "internal_user_request body"
  | ReqSystemUser
  | ReqSystemCredentials "internal_user_request body"
  | ReqByUsername string
  | ReqById string
  | ReqSetPasswordHash string "string body"
  | ReqSetUsername string "string body"
  | ReqSetJwtSecret string "string body"
  | ReqSetLastLogin string
  | ReqWebuiPassword "string body"
  | ReqWebuiUsername "string body"
  | ReqWebuiReset
  | ReqWebuiQr

datatype session_request =
    ReqLogout
  | ReqUser
  | ReqChangePassword "change_password_request body"
  | ReqWsToken

datatype admin_request =
    AdmListUsers
  | AdmCreateUser "admin_create_user_request body"
  | AdmUpdateUser string "admin_update_user_request body"
  | AdmDeleteUser string
  | AdmResetPassword string "string body"
  | AdmListRoles
  | AdmAssignRole string "string body"
  | AdmRemoveRole string string

datatype auth_request =
    PostLogin "login_request body"
  | PostQrLogin "string body"
  | Public public_request
  | Session session_request
  | PostRefresh "string body"
  | GetQrLoginPage
  | Admin admin_request

fun public_handler :: "auth_env \<Rightarrow> headers \<Rightarrow> public_request \<Rightarrow> auth_answer response auth_op" where
  "public_handler E h ReqStatus = status_handler E h"
| "public_handler E h (ReqRegister body) = register_handler E body"
| "public_handler E h ReqListUsers = list_internal_users_handler E"
| "public_handler E h (ReqCreateUser body) = create_internal_user_handler E body"
| "public_handler E h ReqSystemUser = get_system_user_handler E"
| "public_handler E h (ReqSystemCredentials body) = set_system_user_credentials_handler E body"
| "public_handler E h (ReqByUsername n) = find_user_by_username_handler E n"
| "public_handler E h (ReqById i) = find_user_by_id_handler E i"
| "public_handler E h (ReqSetPasswordHash i body) = update_user_password_hash_handler E i body"
| "public_handler E h (ReqSetUsername i body) = update_user_username_handler E i body"
| "public_handler E h (ReqSetJwtSecret i body) = update_user_jwt_secret_handler E i body"
| "public_handler E h (ReqSetLastLogin i) = update_user_last_login_handler E i"
| "public_handler E h (ReqWebuiPassword body) = webui_change_password_handler E body"
| "public_handler E h (ReqWebuiUsername body) = webui_change_username_handler E body"
| "public_handler E h ReqWebuiReset = webui_reset_password_handler E"
| "public_handler E h ReqWebuiQr = webui_generate_qr_token_handler E"

fun session_handler :: "auth_env \<Rightarrow> headers \<Rightarrow> current_user \<Rightarrow> session_request \<Rightarrow> auth_answer response auth_op" where
  "session_handler E h current ReqLogout = logout_handler E h"
| "session_handler E h current ReqUser = user_handler current"
| "session_handler E h current (ReqChangePassword body) = change_password_handler E current body"
| "session_handler E h current ReqWsToken = ws_token_handler current h"

fun admin_handler :: "auth_env \<Rightarrow> current_user \<Rightarrow> admin_request \<Rightarrow> auth_answer response auth_op" where
  "admin_handler E current AdmListUsers = admin_list_users_handler"
| "admin_handler E current (AdmCreateUser body) = admin_create_user_handler E body"
| "admin_handler E current (AdmUpdateUser i body) = admin_update_user_handler E current i body"
| "admin_handler E current (AdmDeleteUser i) = admin_delete_user_handler current i"
| "admin_handler E current (AdmResetPassword i body) = admin_reset_password_handler E i body"
| "admin_handler E current AdmListRoles = admin_list_roles_handler"
| "admin_handler E current (AdmAssignRole i body) = admin_assign_role_handler E i body"
| "admin_handler E current (AdmRemoveRole i role) = admin_remove_role_handler i role"

text \<open>The admin router: its limiters, the authentication (bypassed in local mode), the role check.\<close>

definition admin_routes :: "auth_env \<Rightarrow> headers \<Rightarrow> admin_request \<Rightarrow> auth_answer response auth_op" where
  "admin_routes E h req s =
     and_then (admin_rate_limits E h s) (\<lambda>_ s.
     and_then (auth_middleware E (ae_local E) h s) (\<lambda>current s.
     and_then (require_admin_middleware current s) (\<lambda>_.
     admin_handler E current req)))"

fun auth_routes :: "auth_env \<Rightarrow> headers \<Rightarrow> auth_request \<Rightarrow> auth_answer response auth_op" where
  "auth_routes E h (PostLogin body) s = auth_rate_limit_middleware E h (login_handler E body) s"
| "auth_routes E h (PostQrLogin body) s = auth_rate_limit_middleware E h (qr_login_handler E body) s"
| "auth_routes E h (Public req) s = and_then (api_rate_limit_middleware E h s) (\<lambda>_. public_handler E h req)"
| "auth_routes E h (Session req) s =
     and_then (api_rate_limit_middleware E h s) (\<lambda>_ s.
     and_then (auth_middleware E False h s) (\<lambda>current s.
     and_then (authenticated_action_rate_limit_middleware E (Some current) h s) (\<lambda>_.
     session_handler E h current req)))"
| "auth_routes E h (PostRefresh body) s =
     and_then (api_rate_limit_middleware E h s) (\<lambda>_ s.
     and_then (authenticated_action_rate_limit_middleware E None h s) (\<lambda>_.
     refresh_handler E body))"
| "auth_routes E h GetQrLoginPage s = (s, Inr (json QrLoginHtml))"
| "auth_routes E h (Admin req) s = admin_routes E h req s"

text \<open>The background tasks clean up limiters, tokens and the blacklist.\<close>

definition background_cleanup :: "auth_env \<Rightarrow> auth_state \<Rightarrow> auth_state" where
  "background_cleanup E s =
     (let w = word_of_int (now_ms E s) :: 64 word
      in s\<lparr>au_auth_limiter := rl_cleanup w (au_auth_limiter s), au_api_limiter := rl_cleanup w (au_api_limiter s),
           au_action_limiter := rl_cleanup w (au_action_limiter s),
           au_admin_api_limiter := rl_cleanup w (au_admin_api_limiter s),
           au_admin_action_limiter := rl_cleanup w (au_admin_action_limiter s),
           au_qr := qr_cleanup (now_ms E s) (au_qr s), au_jwt := cleanup_blacklist (now_secs E s) (au_jwt s)\<rparr>)"

datatype auth_event = Serve headers auth_request | Background

fun auth_step :: "auth_env \<Rightarrow> auth_event \<Rightarrow> auth_state \<Rightarrow> auth_state" where
  "auth_step E (Serve h req) s = fst (auth_routes E h req s)"
| "auth_step E Background s = background_cleanup E s"

section \<open>Lifting facts\<close>

lemma fst_on_db [simp]: "fst (on_db err f s) = s\<lparr>au_db := fst (f (au_db s))\<rparr>"
  by (simp add: on_db_def split: prod.splits)

lemma fst_checked [simp]: "fst (checked r s) = s"
  by (simp add: checked_def)

lemma fst_ensure_local [simp]: "fst (ensure_local_mode E s) = s"
  by (simp add: ensure_local_mode_def)

lemma fst_hashed [simp]: "fst (hashed E p s) = drawn s"
  by (simp add: hashed_def)

lemma fst_resolve [simp]: "fst (resolve_webui_admin s) = s"
  by (simp add: resolve_webui_admin_def)

lemma fst_auth_middleware [simp]: "fst (auth_middleware E m h s) = s"
  by (simp add: auth_middleware_def split: option.splits sum.splits)

lemma fst_require_admin [simp]: "fst (require_admin_middleware u s) = s"
  by (simp add: require_admin_middleware_def)

lemma drawn_simps [simp]:
  "au_db (drawn s) = (au_db s)\<lparr>draws := Suc (draws (au_db s))\<rparr>" "au_jwt (drawn s) = au_jwt s" "au_qr (drawn s) = au_qr s"
  by (simp_all add: drawn_def)

section \<open>The invariant\<close>

named_theorems keeps \<open>operations keep the invariant of the auth server\<close>

definition user_inv :: "user_db \<Rightarrow> bool" where
  "user_inv db \<longleftrightarrow> users_ok db \<and> admins db \<noteq> {}"

definition server_inv :: "auth_state \<Rightarrow> bool" where
  "server_inv s \<longleftrightarrow> user_inv (au_db s) \<and> hm_ok (jw_blacklist (au_jwt s)) \<and> hm_ok (au_qr s)"

lemma user_inv_draws [simp]: "user_inv (db\<lparr>draws := n\<rparr>) = user_inv db"
  by (simp add: user_inv_def users_ok_def admins_def)

lemma user_inv_mono: "users_ok t \<Longrightarrow> admins s \<subseteq> admins t \<Longrightarrow> user_inv s \<Longrightarrow> user_inv t"
  by (auto simp: user_inv_def)

lemma admins_field_updates:
  "admins (fst (update_password E i h s)) = admins s" "admins (fst (update_last_login E i s)) = admins s"
  "admins (fst (update_jwt_secret E i x s)) = admins s" "admins (fst (set_active E i b s)) = admins s"
  "admins (fst (set_role E i r s)) = admins s" "admins (fst (set_display_name E i d s)) = admins s"
  unfolding field_update_defs by (rule admins_update)+

lemma admins_update_username: "admins (fst (update_username E i n s)) = admins s"
  by (auto simp: update_username_def admins_def update_user_def Let_def)

lemma user_ops_keep [keeps]:
  assumes "user_inv s"
  shows "user_inv (fst (update_password E i h s))" "user_inv (fst (update_last_login E i s))"
    "user_inv (fst (update_jwt_secret E i x s))" "user_inv (fst (set_active E i b s))"
    "user_inv (fst (set_role E i r s))" "user_inv (fst (set_display_name E i d s))"
    "user_inv (fst (update_username E i n s))" "user_inv (fst (assign_role E i r s))"
    "user_inv (fst (set_system_user_credentials E n h s))" "user_inv (fst (create_user_full E n h email d r s))"
    "user_inv (fst (create_user E n h s))" "user_inv (fst (remove_role i r s))"
  using assms admins_assign [of s E i r] admins_credentials [of s E n h] remove_role_keeps_admin [of s i r]
  unfolding user_inv_def create_user_def
  by (auto simp: field_updates_ok update_username_ok assign_role_ok set_system_user_credentials_ok create_user_full_ok
      remove_role_ok admins_field_updates admins_update_username)

lemma delete_user_keeps:
  assumes "user_inv s" and "\<not> (ADMIN_ROLE \<in> set (get_user_roles i s) \<and> count_users_with_role ADMIN_ROLE s \<le> 1)"
  shows "user_inv (fst (delete_user i s))"
proof -
  have "admins s - {i} \<noteq> {}"
  proof (cases "i \<in> admins s")
    case True
    with assms have "card (admins s) > 1" by (simp add: user_inv_def count_admins admins_iff)
    then show ?thesis using card_mono [of "{i}" "admins s"] by auto
  qed (use assms in \<open>auto simp: user_inv_def\<close>)
  with assms show ?thesis by (auto simp: user_inv_def delete_user_ok delete_user_frame)
qed

lemma on_db_keeps [keeps]: "server_inv s \<Longrightarrow> user_inv (fst (f (au_db s))) \<Longrightarrow> server_inv (fst (on_db err f s))"
  by (simp add: server_inv_def)

lemma with_db_keeps [keeps]: "server_inv s \<Longrightarrow> user_inv db \<Longrightarrow> server_inv (s\<lparr>au_db := db\<rparr>)"
  by (simp add: server_inv_def)

lemma drawn_keeps [simp]: "server_inv (drawn s) = server_inv s"
  by (simp add: server_inv_def)

lemma server_inv_db: "server_inv s \<Longrightarrow> user_inv (au_db s)"
  by (simp add: server_inv_def)

lemma limited_keeps [keeps]:
  assumes "server_inv s" and "\<And>l s. server_inv (upd l s) = server_inv s"
  shows "server_inv (fst (rate_limited E get_l upd key s))"
  using assms by (simp add: rate_limited_def split: prod.splits)

lemma limiters_keep [simp]:
  "server_inv (s\<lparr>au_auth_limiter := l\<rparr>) = server_inv s" "server_inv (s\<lparr>au_api_limiter := l\<rparr>) = server_inv s"
  "server_inv (s\<lparr>au_action_limiter := l\<rparr>) = server_inv s" "server_inv (s\<lparr>au_admin_api_limiter := l\<rparr>) = server_inv s"
  "server_inv (s\<lparr>au_admin_action_limiter := l\<rparr>) = server_inv s"
  by (simp_all add: server_inv_def)

lemmas seq_keeps = fst_and_then_inv [where P=server_inv]

lemma open_session_keeps [keeps]: "server_inv s \<Longrightarrow> server_inv (fst (open_session E u s))"
  by (simp add: open_session_def Let_def server_inv_def user_ops_keep)

lemma login_keeps [keeps]: "server_inv s \<Longrightarrow> server_inv (fst (login_handler E body s))"
  unfolding login_handler_def
  by (intro seq_keeps) (auto intro!: seq_keeps keeps split: option.splits)

lemma qr_upd_keeps [keeps]: "server_inv s \<Longrightarrow> hm_ok q \<Longrightarrow> server_inv (s\<lparr>au_qr := q\<rparr>)"
  by (simp add: server_inv_def)

lemma jwt_upd_keeps [keeps]: "server_inv s \<Longrightarrow> hm_ok (jw_blacklist j) \<Longrightarrow> server_inv (s\<lparr>au_jwt := j\<rparr>)"
  by (simp add: server_inv_def)

lemma consume_ok: "validate_and_consume now t q = (q', r) \<Longrightarrow> hm_ok q \<Longrightarrow> hm_ok q'"
  by (auto simp: validate_and_consume_def split: option.splits if_splits)

lemma jwt_ops_ok:
  "hm_ok (jw_blacklist j) \<Longrightarrow> hm_ok (jw_blacklist (blacklist_token L now t j))"
  "hm_ok (jw_blacklist (rotate_secret x j))"
  by (simp_all add: blacklist_token_def rotate_secret_def Let_def)

lemma server_inv_maps: "server_inv s \<Longrightarrow> hm_ok (au_qr s)" "server_inv s \<Longrightarrow> hm_ok (jw_blacklist (au_jwt s))"
  by (simp_all add: server_inv_def)

lemma qr_login_keeps [keeps]: "server_inv s \<Longrightarrow> server_inv (fst (qr_login_handler E body s))"
  unfolding qr_login_handler_def
  by (intro seq_keeps)
    (auto simp: Let_def intro!: keeps dest: consume_ok server_inv_maps split: option.splits prod.splits sum.splits)

lemma session_handlers_keep [keeps]: "server_inv s \<Longrightarrow> server_inv (fst (session_handler E h current req s))"
proof (cases req)
  case (ReqChangePassword body)
  assume "server_inv s"
  then show ?thesis unfolding ReqChangePassword session_handler.simps change_password_handler_def
    by (intro seq_keeps)
      (auto simp: Let_def jwt_ops_ok intro!: seq_keeps keeps server_inv_db split: option.splits)
qed (auto simp: logout_handler_def Let_def user_handler_def ws_token_handler_def jwt_ops_ok
    intro!: keeps dest: server_inv_maps split: option.splits)

lemma public_handlers_keep [keeps]: "server_inv s \<Longrightarrow> server_inv (fst (public_handler E h req s))"
  by (cases req)
    (auto simp: status_handler_def register_handler_def list_internal_users_handler_def create_internal_user_handler_def
      get_system_user_handler_def set_system_user_credentials_handler_def find_user_by_username_handler_def
      find_user_by_id_handler_def update_user_password_hash_handler_def update_user_username_handler_def
      update_user_jwt_secret_handler_def update_user_last_login_handler_def webui_change_password_handler_def
      webui_change_username_handler_def webui_reset_password_handler_def webui_generate_qr_token_handler_def
      generate_with_expiry_def Let_def
      intro!: seq_keeps keeps server_inv_db hm_ok_insert server_inv_maps(1) split: option.splits)

lemma change_role_keeps [keeps]: "server_inv s \<Longrightarrow> server_inv (fst (change_role E i role s))"
  unfolding change_role_def by (auto intro!: seq_keeps keeps server_inv_db)

lemma delete_handler_keeps [keeps]: "server_inv s \<Longrightarrow> server_inv (fst (admin_delete_user_handler current i s))"
  unfolding admin_delete_user_handler_def
  by (auto intro!: seq_keeps on_db_keeps delete_user_keeps server_inv_db simp: list_ex_iff)

lemma admin_handlers_keep [keeps]: "server_inv s \<Longrightarrow> server_inv (fst (admin_handler E current req s))"
  by (cases req)
    (auto simp: admin_list_users_handler_def admin_create_user_handler_def admin_update_user_handler_def
      admin_reset_password_handler_def admin_list_roles_handler_def admin_assign_role_handler_def
      admin_remove_role_handler_def Let_def
      intro!: seq_keeps keeps server_inv_db split: option.splits)

lemma auth_limited_keeps:
  assumes "server_inv s" and "\<And>s. server_inv s \<Longrightarrow> server_inv (fst (f s))"
  shows "server_inv (fst (auth_rate_limit_middleware E h f s))"
  using assms(1) assms(2) [OF assms(1)]
  by (auto simp: auth_rate_limit_middleware_def Let_def split: sum.splits prod.splits)

lemma admin_routes_keep [keeps]: "server_inv s \<Longrightarrow> server_inv (fst (admin_routes E h req s))"
  unfolding admin_routes_def admin_rate_limits_def by (auto intro!: seq_keeps keeps)

lemma routes_keep: "server_inv s \<Longrightarrow> server_inv (fst (auth_routes E h req s))"
  by (cases req)
    (auto simp: api_rate_limit_middleware_def authenticated_action_rate_limit_middleware_def refresh_handler_def
      intro!: seq_keeps keeps auth_limited_keeps split: sum.splits)

lemma cleanup_keeps: "server_inv s \<Longrightarrow> server_inv (background_cleanup E s)"
  by (simp add: background_cleanup_def server_inv_def qr_cleanup_def cleanup_blacklist_def Let_def)

interpretation auth_server: machine server_inv "auth_step E" for E
proof unfold_locales
  fix s x
  assume "server_inv s"
  then show "server_inv (auth_step E x s)"
    by (cases x) (simp_all add: routes_keep cleanup_keeps)
qed

end
