(* ===== verification/AuthProperties.thy ===== *)
theory AuthProperties
  imports AuthServer
begin

text \<open>
  What the auth server promises: administrators are never all removed, a client without an administrator's
  session changes no rights, a login opens a session for the right user, and a changed password ends every
  session.
\<close>

section \<open>Who a request speaks for\<close>

text \<open>The active user whose valid token the headers carry, if any.\<close>

definition sender :: "auth_env \<Rightarrow> headers \<Rightarrow> auth_state \<Rightarrow> user_row option" where
  "sender E h s =
     (case extract_token_from_headers h of
        None \<Rightarrow> None
      | Some token \<Rightarrow>
          (case jwt_verify (ae_jwt E) (now_secs E s) token (au_jwt s) of
             Inl _ \<Rightarrow> None
           | Inr p \<Rightarrow> (case find_by_id (tk_user_id p) (au_db s) of
               None \<Rightarrow> None | Some u \<Rightarrow> if us_is_active u then Some u else None)))"

lemma auth_middleware_sender:
  "(\<exists>e. auth_middleware E False h s = (s, Inl e) \<and> status_code e \<in> {401, 403}) \<and> sender E h s = None \<or>
   (\<exists>u. sender E h s = Some u \<and> auth_middleware E False h s =
      (s, Inr \<lparr>cu_id = us_id u, cu_username = us_username u, cu_roles = get_user_roles (us_id u) (au_db s)\<rparr>))"
  by (auto simp: auth_middleware_def sender_def split: option.splits sum.splits)

text \<open>What a counter of a limiter does not touch.\<close>

definition same_data :: "auth_state \<Rightarrow> auth_state \<Rightarrow> bool" where
  "same_data s t \<longleftrightarrow> au_db t = au_db s \<and> au_jwt t = au_jwt s \<and> au_qr t = au_qr s"

lemma same_data_refl [simp]: "same_data s s"
  by (simp add: same_data_def)

lemma same_data_sender: "same_data s t \<Longrightarrow> sender E h t = sender E h s"
  by (simp add: same_data_def sender_def now_secs_def now_ms_def cong: option.case_cong sum.case_cong)

text \<open>A limiter lets a request through or answers 429, and changes nothing but its counter.\<close>

definition limits :: "'a auth_op \<Rightarrow> bool" where
  "limits f \<longleftrightarrow> (\<forall>s. \<exists>t. same_data s t \<and> (f s = (t, Inl ApiRateLimited) \<or> (\<exists>x. f s = (t, Inr x))))"

lemma limits_rate_limited:
  assumes "\<And>l s. same_data s (upd l s)"
  shows "limits (rate_limited E get_l upd key)"
  unfolding limits_def
proof
  fix s
  obtain l r where c: "check_and_increment (word_of_int (now_ms E s)) key (get_l s) = (l, r)" by force
  then have "r = Inl AuthRateLimited \<or> r = Inr ()"
    by (auto simp: check_and_increment_def Let_def split: if_splits)
  then show "\<exists>t. same_data s t \<and> (rate_limited E get_l upd key s = (t, Inl ApiRateLimited) \<or>
      (\<exists>x. rate_limited E get_l upd key s = (t, Inr x)))"
    using c assms by (intro exI [of _ "upd l s"]) (auto simp: rate_limited_def checked_def)
qed

lemma same_data_limiters [simp]:
  "same_data s (s\<lparr>au_auth_limiter := l\<rparr>)" "same_data s (s\<lparr>au_api_limiter := l\<rparr>)"
  "same_data s (s\<lparr>au_action_limiter := l\<rparr>)" "same_data s (s\<lparr>au_admin_api_limiter := l\<rparr>)"
  "same_data s (s\<lparr>au_admin_action_limiter := l\<rparr>)"
  by (simp_all add: same_data_def)

lemma same_data_trans: "same_data a b \<Longrightarrow> same_data b c \<Longrightarrow> same_data a c"
  by (simp add: same_data_def)

lemma limits_seq:
  assumes "limits f" "limits g"
  shows "limits (\<lambda>s. and_then (f s) (\<lambda>_. g))"
  unfolding limits_def
proof
  fix s
  from assms(1) obtain t where t: "same_data s t" "f s = (t, Inl ApiRateLimited) \<or> (\<exists>x. f s = (t, Inr x))"
    unfolding limits_def by blast
  moreover from assms(2) obtain u where "same_data t u" "g t = (u, Inl ApiRateLimited) \<or> (\<exists>x. g t = (u, Inr x))"
    unfolding limits_def by blast
  ultimately show "\<exists>t. same_data s t \<and> (and_then (f s) (\<lambda>_. g) = (t, Inl ApiRateLimited) \<or> (\<exists>x. and_then (f s) (\<lambda>_. g) = (t, Inr x)))"
    by (elim disjE exE) (auto intro: same_data_trans)
qed

lemma limits_middlewares:
  "limits (api_rate_limit_middleware E h)" "limits (authenticated_action_rate_limit_middleware E u h)"
  "limits (admin_rate_limits E h)"
  unfolding api_rate_limit_middleware_def authenticated_action_rate_limit_middleware_def
    fun_eq_iff admin_rate_limits_def [abs_def]
  by (intro limits_seq limits_rate_limited same_data_limiters)+

lemma limitsE:
  assumes "limits f"
  obtains (refused) t where "f s = (t, Inl ApiRateLimited)" "same_data s t"
  | (granted) t x where "f s = (t, Inr x)" "same_data s t"
  using assms unfolding limits_def by blast

section \<open>Rights\<close>

text \<open>The part of the user tables that decides who may do what.\<close>

definition rights :: "user_db \<Rightarrow> string \<Rightarrow> (string \<times> bool) option" where
  "rights db i = map_option (\<lambda>u. (us_role u, us_is_active u)) (find_by_id i db)"

definition rights_kept :: "user_db \<Rightarrow> user_db \<Rightarrow> bool" where
  "rights_kept db db' \<longleftrightarrow> user_roles_tbl db' = user_roles_tbl db \<and>
     (\<forall>i x. rights db i = Some x \<longrightarrow> rights db' i = Some x)"

lemma rights_kept_refl [simp]: "rights_kept db db"
  by (simp add: rights_kept_def)

lemma rights_kept_trans: "rights_kept a b \<Longrightarrow> rights_kept b c \<Longrightarrow> rights_kept a c"
  by (simp add: rights_kept_def)

lemma rights_kept_draws [simp]: "rights_kept db (db'\<lparr>draws := n\<rparr>) = rights_kept db db'"
  by (simp add: rights_kept_def rights_def find_by_id_def)

lemma rights_kept_update:
  assumes "\<And>now u. us_id (f now u) = us_id u \<and> us_role (f now u) = us_role u \<and> us_is_active (f now u) = us_is_active u"
  shows "rights_kept db (fst (update_user E e i f db))"
proof -
  have "rights (fst (update_user E e i f db)) j = rights db j" for j
    using assms by (cases "find_by_id j db") (auto simp: rights_def update_user_find)
  then show ?thesis by (simp add: rights_kept_def)
qed

lemma rights_kept_ops:
  "rights_kept db (fst (update_password E i h db))" "rights_kept db (fst (update_last_login E i db))"
  "rights_kept db (fst (update_jwt_secret E i x db))"
  unfolding field_update_defs by (rule rights_kept_update, simp)+

lemma find_Some_append: "find P xs = Some x \<Longrightarrow> find P (xs @ ys) = Some x"
  by (induction xs) auto

lemma rights_kept_create: "rights_kept db (fst (create_user_full E n h email d r db))"
  by (auto simp: create_user_full_def rights_kept_def rights_def find_by_id_def find_Some_append Let_def)

lemma rights_kept_roles: "rights_kept db db' \<Longrightarrow> get_user_roles i db' = get_user_roles i db"
  by (simp add: rights_kept_def get_user_roles_def)

definition kept_rights :: "user_db \<Rightarrow> auth_state \<Rightarrow> bool" where
  "kept_rights db s \<longleftrightarrow> rights_kept db (au_db s)"

lemmas seq_kept = fst_and_then_inv [where P="kept_rights db" for db]

lemma kept_rights_simps [simp]:
  "kept_rights db (drawn s) = kept_rights db s"
  "kept_rights db (s\<lparr>au_jwt := j\<rparr>) = kept_rights db s" "kept_rights db (s\<lparr>au_qr := q\<rparr>) = kept_rights db s"
  "kept_rights db (s\<lparr>au_auth_limiter := l\<rparr>) = kept_rights db s"
  "kept_rights db (s\<lparr>au_db := db'\<rparr>) = rights_kept db db'"
  by (simp_all add: kept_rights_def)

lemma kept_rights_db: "kept_rights db s \<Longrightarrow> rights_kept db (au_db s)"
  by (simp add: kept_rights_def)

lemma kept_rights_ops:
  assumes "rights_kept db db'"
  shows "rights_kept db (fst (update_password E i h db'))" "rights_kept db (fst (update_last_login E i db'))"
    "rights_kept db (fst (update_jwt_secret E i x db'))" "rights_kept db (fst (create_user_full E n h email d r db'))"
  using assms rights_kept_ops rights_kept_create by (blast intro: rights_kept_trans)+

lemma login_kept: "kept_rights db s \<Longrightarrow> kept_rights db (fst (login_handler E body s))"
  unfolding login_handler_def
  by (intro seq_kept) (auto intro!: seq_kept kept_rights_ops kept_rights_db simp: open_session_def Let_def split: option.splits)

lemma qr_login_kept: "kept_rights db s \<Longrightarrow> kept_rights db (fst (qr_login_handler E body s))"
  unfolding qr_login_handler_def
  by (intro seq_kept) (auto simp: open_session_def Let_def kept_rights_def split: option.splits prod.splits sum.splits
      intro: rights_kept_ops rights_kept_trans)

lemma session_kept: "kept_rights db s \<Longrightarrow> kept_rights db (fst (session_handler E h current req s))"
  by (cases req) (auto simp: logout_handler_def user_handler_def ws_token_handler_def change_password_handler_def Let_def
    intro!: seq_kept kept_rights_ops kept_rights_db split: option.splits)

lemma refresh_kept: "kept_rights db s \<Longrightarrow> kept_rights db (fst (refresh_handler E body s))"
  unfolding refresh_handler_def by (intro seq_kept) (auto split: sum.splits)

lemma public_kept: "\<not> ae_local E \<Longrightarrow> kept_rights db s \<Longrightarrow> kept_rights db (fst (public_handler E h req s))"
  by (cases req)
    (auto simp: status_handler_def register_handler_def list_internal_users_handler_def create_internal_user_handler_def
      get_system_user_handler_def set_system_user_credentials_handler_def find_user_by_username_handler_def
      find_user_by_id_handler_def update_user_password_hash_handler_def update_user_username_handler_def
      update_user_jwt_secret_handler_def update_user_last_login_handler_def webui_change_password_handler_def
      webui_change_username_handler_def webui_reset_password_handler_def webui_generate_qr_token_handler_def
      ensure_local_mode_def Let_def
      intro!: seq_kept kept_rights_ops kept_rights_db)

lemma same_data_kept: "same_data s t \<Longrightarrow> kept_rights (au_db s) t"
  by (simp add: same_data_def kept_rights_def)

lemma limited_kept:
  assumes "limits f" and "\<And>t x. same_data s t \<Longrightarrow> kept_rights (au_db s) (fst (k x t))"
  shows "kept_rights (au_db s) (fst (and_then (f s) k))"
  by (rule limitsE [OF assms(1), of s]) (auto intro: assms(2) same_data_kept)

lemma limited_kept_from: "limits f \<Longrightarrow> kept_rights db s \<Longrightarrow> kept_rights db (fst (f s))"
  by (rule limitsE [of f s]) (auto simp: kept_rights_def same_data_def)

lemma auth_limited_kept:
  assumes "kept_rights db (fst (f s))" and "kept_rights db s"
  shows "kept_rights db (fst (auth_rate_limit_middleware E h f s))"
  using assms by (auto simp: auth_rate_limit_middleware_def Let_def split: sum.splits prod.splits)

text \<open>Without an administrator's session the admin router answers an error and touches nothing but its counters.\<close>

definition not_admin :: "auth_env \<Rightarrow> headers \<Rightarrow> auth_state \<Rightarrow> bool" where
  "not_admin E h s \<longleftrightarrow>
     (case sender E h s of None \<Rightarrow> True | Some u \<Rightarrow> ADMIN_ROLE \<notin> set (get_user_roles (us_id u) (au_db s)))"

lemma admin_routes_refuse:
  assumes "\<not> ae_local E" and "not_admin E h s"
  shows "same_data s (fst (admin_routes E h req s)) \<and>
    (\<exists>e. snd (admin_routes E h req s) = Inl e \<and> status_code e \<in> {401, 403, 429})"
proof (rule limitsE [OF limits_middlewares(3), of E h s])
  fix t x assume t: "admin_rate_limits E h s = (t, Inr x)" "same_data s t"
  have na: "not_admin E h t" using assms(2) t(2) unfolding not_admin_def same_data_sender [OF t(2)]
    by (simp add: same_data_def split: option.splits)
  from auth_middleware_sender [of E h t] consider
      (anonymous) e where "auth_middleware E False h t = (t, Inl e)" "status_code e \<in> {401, 403}"
    | (user) u where "sender E h t = Some u" "auth_middleware E False h t =
        (t, Inr \<lparr>cu_id = us_id u, cu_username = us_username u, cu_roles = get_user_roles (us_id u) (au_db t)\<rparr>)"
    by blast
  then show ?thesis
  proof cases
    case anonymous
    with t assms(1) show ?thesis by (auto simp: admin_routes_def)
  next
    case user
    with na have "\<not> is_admin \<lparr>cu_id = us_id u, cu_username = us_username u, cu_roles = get_user_roles (us_id u) (au_db t)\<rparr>"
      by (auto simp: not_admin_def is_admin_def list_ex_iff ADMIN_ROLE_def)
    with t user assms(1) show ?thesis by (simp add: admin_routes_def require_admin_middleware_def)
  qed
qed (auto simp: admin_routes_def)

text \<open>C19. No privilege escalation: a request that does not come with the valid session of an active
  administrator never changes who has which role, nor the role column or the activation of any existing
  account (it may create a member, change a password or a login time), and if it is for the admin router it
  is answered 401, 403 or 429 with users, sessions and tokens unchanged. (The server is not in local mode.)\<close>

theorem no_privilege_escalation:
  assumes "\<not> ae_local E" and "not_admin E h s"
  shows "rights_kept (au_db s) (au_db (fst (auth_routes E h req s))) \<and>
    (case req of
       Admin a \<Rightarrow> same_data s (fst (auth_routes E h req s)) \<and>
         (\<exists>e. snd (auth_routes E h req s) = Inl e \<and> status_code e \<in> {401, 403, 429})
     | _ \<Rightarrow> True)"
proof (cases req)
  case (Admin a)
  with admin_routes_refuse [OF assms, of a] show ?thesis by (simp add: same_data_def)
next
  case (Session r)
  have "kept_rights (au_db s) (fst (auth_routes E h req s))" unfolding Session auth_routes.simps
    by (rule limited_kept [OF limits_middlewares(1)], intro seq_kept session_kept limited_kept_from [OF limits_middlewares(2)])
      (auto dest: same_data_kept)
  with Session show ?thesis by (simp add: kept_rights_def)
next
  case (Public r)
  have "kept_rights (au_db s) (fst (auth_routes E h req s))" unfolding Public auth_routes.simps
    by (intro limited_kept limits_middlewares public_kept assms(1) same_data_kept)
  with Public show ?thesis by (simp add: kept_rights_def)
next
  case (PostRefresh r)
  have "kept_rights (au_db s) (fst (auth_routes E h req s))" unfolding PostRefresh auth_routes.simps
    by (rule limited_kept [OF limits_middlewares(1)], intro seq_kept refresh_kept limited_kept_from [OF limits_middlewares(2)])
      (auto dest: same_data_kept)
  with PostRefresh show ?thesis by (simp add: kept_rights_def)
next
  case (PostLogin r)
  have "kept_rights (au_db s) (fst (auth_routes E h req s))" unfolding PostLogin auth_routes.simps
    by (intro auth_limited_kept login_kept same_data_kept same_data_refl)
  with PostLogin show ?thesis by (simp add: kept_rights_def)
next
  case (PostQrLogin r)
  have "kept_rights (au_db s) (fst (auth_routes E h req s))" unfolding PostQrLogin auth_routes.simps
    by (intro auth_limited_kept qr_login_kept same_data_kept same_data_refl)
  with PostQrLogin show ?thesis by (simp add: kept_rights_def)
qed simp

section \<open>Administrators\<close>

text \<open>C18. Nobody can lock the administrators out: from tables with valid keys and an administrator, after any
  sequence of requests (in local mode or not) and clean-ups the keys are still valid and some existing user
  has the admin role.\<close>

theorem never_locked_out:
  assumes "users_ok db" and "admins db \<noteq> {}"
    and "s = fold (auth_step E) events (auth_state_new db secret settings)"
  shows "users_ok (au_db s) \<and> (\<exists>u\<in>set (users_tbl (au_db s)). ADMIN_ROLE \<in> set (get_user_roles (us_id u) (au_db s)))"
proof -
  have "server_inv (auth_state_new db secret settings)"
    using assms(1,2) by (simp add: server_inv_def user_inv_def auth_state_new_def jwt_service_new_def)
  from auth_server.run_inv [OF this] have inv: "users_ok (au_db s)" "admins (au_db s) \<noteq> {}"
    by (simp_all add: assms(3) server_inv_def user_inv_def)
  then obtain i where i: "i \<in> admins (au_db s)" by blast
  from admins_exist [OF inv(1) this] obtain u where "find_by_id i (au_db s) = Some u" by blast
  with find_by_id_Some i inv(1) show ?thesis by (auto simp: admins_iff)
qed

section \<open>Logging in\<close>

definition good_login :: "auth_env \<Rightarrow> login_request \<Rightarrow> auth_state \<Rightarrow> user_row \<Rightarrow> bool" where
  "good_login E req s u \<longleftrightarrow> length (lq_username req) \<le> 32 \<and> length (lq_password req) \<le> 128 \<and>
     find_by_username (lq_username req) (au_db s) = Some u \<and> trim (us_password_hash u) \<noteq> [] \<and>
     bc_verify (ae_bcrypt E) (lq_password req) (us_password_hash u) = Some True \<and> us_is_active u"

lemma login_handler_cases:
  "login_handler E (Inr req) s =
     (if \<exists>u. good_login E req s u then open_session E (the (find_by_username (lq_username req) (au_db s))) s
      else (s, Inl (projl (snd (login_handler E (Inr req) s))))) \<and>
   ((\<exists>u. good_login E req s u) \<or> (\<exists>e. snd (login_handler E (Inr req) s) = Inl e))"
  by (auto simp: login_handler_def good_login_def checked_def verify_password_def split: option.splits)

lemma sender_of_token:
  assumes "jwt_lib_ok (ae_jwt E)" and "extract_token_from_headers h = Some (jwt_sign (ae_jwt E) t i n (au_jwt s))"
    and "\<not> hm_contains (jw_blacklist (au_jwt s)) (sha256_hex (ae_jwt E) (jwt_sign (ae_jwt E) t i n (au_jwt s)))"
    and "now_secs E s \<le> t + 24 * 60 * 60 + 60" and "find_by_id i (au_db s) = Some u" and "us_is_active u"
  shows "sender E h s = Some u"
proof -
  let ?token = "jwt_sign (ae_jwt E) t i n (au_jwt s)"
  have "jwt_decode (ae_jwt E) (jw_secret (au_jwt s)) False 0 ?token = Inr (jwt_claims i n t)"
    using assms(1) unfolding jwt_lib_ok_def jwt_sign_def by (simp add: jwt_claims_def)
  with assms(3,4) have "jwt_verify (ae_jwt E) (now_secs E s) ?token (au_jwt s) = Inr (jwt_claims i n t)"
    by (simp add: jwt_verify_iff [OF assms(1)]) (simp add: jwt_claims_def TOKEN_EXPIRY_def LEEWAY_def)
  with assms show ?thesis by (simp add: sender_def jwt_claims_def)
qed

text \<open>C20. A login succeeds exactly for the name and password of an active account, and otherwise changes
  nothing; the token it answers (in its body and its cookie) makes every request that carries it speak for
  that account, for as long as the account is active and the session service has neither changed its secret
  nor revoked the token, up to 24 hours and the minute of leeway.\<close>

theorem login_opens_session:
  assumes "jwt_lib_ok (ae_jwt E)"
  shows "case login_handler E (Inr req) s of
      (s', Inl e) \<Rightarrow> s' = s \<and> (\<nexists>u. good_login E req s u)
    | (s', Inr resp) \<Rightarrow> \<exists>u token. good_login E req s u \<and>
        resp = with_cookie (build_session_cookie (ae_cookies E) token) (LoginResponse (public_view u) token) \<and>
        (\<forall>h t v. extract_token_from_headers h = Some token \<and> jw_secret (au_jwt t) = jw_secret (au_jwt s') \<and>
             \<not> hm_contains (jw_blacklist (au_jwt t)) (sha256_hex (ae_jwt E) token) \<and>
             now_secs E t \<le> now_secs E s + 24 * 60 * 60 + 60 \<and> find_by_id (us_id u) (au_db t) = Some v \<and> us_is_active v \<longrightarrow>
           sender E h t = Some v)"
proof (cases "\<exists>u. good_login E req s u")
  case False
  from login_handler_cases [of E req s] False obtain e where "login_handler E (Inr req) s = (s, Inl e)" by auto
  with False show ?thesis by simp
next
  case True
  then obtain u where u: "good_login E req s u" by blast
  let ?token = "jwt_sign (ae_jwt E) (now_secs E s) (us_id u) (us_username u) (au_jwt s)"
  from login_handler_cases [of E req s] u have "login_handler E (Inr req) s = open_session E u s"
    by (auto simp: good_login_def)
  then obtain s' where s': "login_handler E (Inr req) s =
      (s', Inr (with_cookie (build_session_cookie (ae_cookies E) ?token) (LoginResponse (public_view u) ?token)))"
    "au_jwt s' = au_jwt s"
    by (simp add: open_session_def Let_def)
  have "sender E h t = Some v"
    if "extract_token_from_headers h = Some ?token" "jw_secret (au_jwt t) = jw_secret (au_jwt s')"
      "\<not> hm_contains (jw_blacklist (au_jwt t)) (sha256_hex (ae_jwt E) ?token)"
      "now_secs E t \<le> now_secs E s + 24 * 60 * 60 + 60" "find_by_id (us_id u) (au_db t) = Some v" "us_is_active v" for h t v
  proof -
    have "?token = jwt_sign (ae_jwt E) (now_secs E s) (us_id u) (us_username u) (au_jwt t)"
      using that(2) s'(2) by (simp add: jwt_sign_def)
    with that assms show ?thesis by (intro sender_of_token) simp_all
  qed
  with u s' show ?thesis by (auto intro!: exI [of _ u])
qed

section \<open>Changing a password\<close>

lemma update_user_eq:
  "update_user E e i f db =
    (fst (update_user E e i f db), if find_by_id i db = None then Inl e else Inr ())"
  by (auto simp: update_user_def Let_def rows_affected_0 find_by_id_def find_None_iff find_Some_iff)

lemma find_by_id_draws [simp]: "find_by_id i (db\<lparr>draws := n\<rparr>) = find_by_id i db"
  by (simp add: find_by_id_def)

text \<open>What a successful change of password does, step by step.\<close>

lemma change_password_success:
  assumes "change_password_handler E current (Inr req) s = (s', Inr resp)"
  obtains u hash v where "find_by_id (cu_id current) (au_db s) = Some u"
    "bc_verify (ae_bcrypt E) (cq_current_password req) (us_password_hash u) = Some True"
    "validate_password (cq_new_password req) = Inr ()"
    "bc_hash (ae_bcrypt E) (draws (au_db s)) (cq_new_password req) = Some hash"
    "\<exists>n. au_jwt s' = rotate_secret (ae_secret E n) (au_jwt s)"
    "find_by_id (cu_id current) (au_db s') = Some v" "us_password_hash v = hash"
    "\<And>i. i \<noteq> cu_id current \<Longrightarrow> find_by_id i (au_db s') = find_by_id i (au_db s)"
proof -
  from assms obtain u where u: "find_by_id (cu_id current) (au_db s) = Some u"
    "bc_verify (ae_bcrypt E) (cq_current_password req) (us_password_hash u) = Some True"
    "validate_password (cq_new_password req) = Inr ()"
    by (auto simp: change_password_handler_def checked_def verify_password_def split: option.splits sum.splits if_splits)
  with assms obtain hash where h: "bc_hash (ae_bcrypt E) (draws (au_db s)) (cq_new_password req) = Some hash"
    by (auto simp: change_password_handler_def checked_def verify_password_def hashed_def hash_password_def split: option.splits)
  define db1 where "db1 = fst (update_password E (cu_id current) hash (au_db (drawn s)))"
  define secret where "secret = ae_secret E (draws db1)"
  have up: "update_password E (cu_id current) hash (au_db (drawn s)) = (db1, Inr ())"
    using u(1) unfolding db1_def update_password_def by (subst update_user_eq) simp
  have find1: "find_by_id j db1 = map_option (\<lambda>u. if j = cu_id current
      then u\<lparr>us_password_hash := hash, us_updated_at := clock E (Suc (draws (au_db s)))\<rparr> else u) (find_by_id j (au_db s))" for j
    unfolding db1_def update_password_def by (simp add: update_user_find cong: if_cong)
  define db2 where "db2 = fst (update_jwt_secret E (cu_id current) secret (db1\<lparr>draws := Suc (draws db1)\<rparr>))"
  have up2: "update_jwt_secret E (cu_id current) secret (db1\<lparr>draws := Suc (draws db1)\<rparr>) = (db2, Inr ())"
    using u(1) find1 unfolding db2_def update_jwt_secret_def by (subst update_user_eq) simp
  from assms u h up up2 have s': "s' = (drawn s)\<lparr>au_db := db2, au_jwt := rotate_secret secret (au_jwt s)\<rparr>"
    by (auto simp: change_password_handler_def checked_def verify_password_def hashed_def hash_password_def on_db_def
        Let_def secret_def drawn_def)
  have find2: "find_by_id j db2 = map_option (\<lambda>u. if j = cu_id current
      then u\<lparr>us_jwt_secret := Some secret, us_updated_at := clock E (Suc (draws db1))\<rparr> else u) (find_by_id j db1)" for j
    unfolding db2_def update_jwt_secret_def by (simp add: update_user_find cong: if_cong)
  let ?v = "u\<lparr>us_password_hash := hash, us_jwt_secret := Some secret, us_updated_at := clock E (Suc (draws db1))\<rparr>"
  show thesis
  proof (rule that [OF u h, where v="?v"])
    show "\<exists>n. au_jwt s' = rotate_secret (ae_secret E n) (au_jwt s)" using s' by (auto simp: secret_def)
    show "find_by_id i (au_db s') = find_by_id i (au_db s)" if "i \<noteq> cu_id current" for i
      using that s' find1 [of i] find2 [of i] by (simp add: option.map_ident)
  qed (use s' find1 find2 u in auto)
qed

text \<open>C21. A successful change of password proves the old one, stores a hash the new one verifies against,
  leaves every other account as it was, and ends every session of every account: no token that was accepted
  before is accepted again, at any later time, by the running server.\<close>

theorem password_change_ends_sessions:
  assumes "jwt_lib_ok (ae_jwt E)" and "bcrypt_ok (ae_bcrypt E)" and "\<And>n. ae_secret E n \<noteq> jw_secret (au_jwt s)"
    and "change_password_handler E current (Inr req) s = (s', Inr resp)"
  shows "(\<exists>u. find_by_id (cu_id current) (au_db s) = Some u \<and>
      bc_verify (ae_bcrypt E) (cq_current_password req) (us_password_hash u) = Some True) \<and>
    (\<exists>v. find_by_id (cu_id current) (au_db s') = Some v \<and>
      bc_verify (ae_bcrypt E) (cq_new_password req) (us_password_hash v) = Some True) \<and>
    (\<forall>i. i \<noteq> cu_id current \<longrightarrow> find_by_id i (au_db s') = find_by_id i (au_db s)) \<and>
    (\<forall>token now p now'. jwt_verify (ae_jwt E) now token (au_jwt s) = Inr p \<longrightarrow>
      (\<exists>e. jwt_verify (ae_jwt E) now' token (au_jwt s') = Inl e))"
proof -
  from change_password_success [OF assms(4)] obtain u hash v n where
    facts: "find_by_id (cu_id current) (au_db s) = Some u"
      "bc_verify (ae_bcrypt E) (cq_current_password req) (us_password_hash u) = Some True"
      "bc_hash (ae_bcrypt E) (draws (au_db s)) (cq_new_password req) = Some hash"
      "au_jwt s' = rotate_secret (ae_secret E n) (au_jwt s)"
      "find_by_id (cu_id current) (au_db s') = Some v" "us_password_hash v = hash"
      "\<And>i. i \<noteq> cu_id current \<Longrightarrow> find_by_id i (au_db s') = find_by_id i (au_db s)"
    by metis
  have "\<exists>e. jwt_verify (ae_jwt E) now' token (au_jwt s') = Inl e"
    if "jwt_verify (ae_jwt E) now token (au_jwt s) = Inr p" for token now p now'
  proof -
    have "jwt_decode (ae_jwt E) (jw_secret (au_jwt s)) False 0 token = Inr p"
      using that by (simp add: jwt_verify_iff [OF assms(1)])
    with assms(1,3) have "\<exists>e. jwt_decode (ae_jwt E) (ae_secret E n) False 0 token = Inl e"
      unfolding jwt_lib_ok_def by metis
    then have "jwt_verify (ae_jwt E) now' token (au_jwt s') \<noteq> Inr q" for q
      by (auto simp: jwt_verify_iff [OF assms(1)] facts(4) rotate_secret_def)
    then show ?thesis by (cases "jwt_verify (ae_jwt E) now' token (au_jwt s')") auto
  qed
  with facts assms(2) show ?thesis unfolding bcrypt_ok_def by auto
qed

text \<open>
  But only the running server forgets the old secret: a restart reads it from the system user's row, and a
  change by any other account stores the new secret in that account's row. The tokens from before the change
  are accepted again.
\<close>

lemma password_change_is_undone_by_restart:
  assumes "change_password_handler E current (Inr req) s = (s', Inr resp)" and "cu_id current \<noteq> SYSTEM_USER"
    and "stored_secret (au_db s) = Some old"
  shows "startup_secret E None (au_db s') = (au_db s', old)"
proof -
  from change_password_success [OF assms(1)] have "find_by_id SYSTEM_USER (au_db s') = find_by_id SYSTEM_USER (au_db s)"
    using assms(2) by metis
  then have "stored_secret (au_db s') = Some old"
    using assms(3) by (simp add: stored_secret_def get_system_user_def find_by_id_def)
  then show ?thesis by (simp add: startup_secret_def resolve_jwt_secret_def)
qed

end
