(* ===== verification/AuthExamples.thy ===== *)
theory AuthExamples
  imports AuthProperties
begin

text \<open>
  A server with three accounts (the system user and bob administer, ana is a member), on which the
  properties of the auth server are applied, and runs that show where the program falls short of its comments.
\<close>

definition demo_auth_env :: auth_env where
  "demo_auth_env = \<lparr>mint_id = (\<lambda>k. replicate (Suc k) CHR ''r''), clock = (\<lambda>k. 1000 * int k), ae_jwt = demo_jwt,
     ae_bcrypt = demo_bcrypt, ae_secret = (\<lambda>k. replicate (k + 3) CHR ''k''), ae_bytes = (\<lambda>_ _. 0),
     ae_cookies = cookie_config_from_env None, ae_local = False\<rparr>"

definition demo_account :: "string \<Rightarrow> string \<Rightarrow> string \<Rightarrow> string \<Rightarrow> user_row" where
  "demo_account i name password role = \<lparr>us_id = i, us_username = name, us_email = None, us_password_hash = CHR ''$'' # password,
     us_avatar_path = None, us_jwt_secret = Some ''s1'', us_created_at = 0, us_updated_at = 0, us_last_login = None,
     us_role = role, us_is_active = True, us_display_name = None\<rparr>"

definition demo_users :: user_db where
  "demo_users = \<lparr>users_tbl = [demo_account SYSTEM_USER ''root'' ''root-pass-1'' ''admin'',
       demo_account ''u1'' ''ana'' ''ana-pass-1'' ''member'', demo_account ''u2'' ''bob'' ''bob-pass-1'' ''admin''],
     roles_tbl = [\<lparr>ro_id = ADMIN_ROLE, ro_name = ''admin'', ro_label = ''Administrador'', ro_created_at = 0\<rparr>],
     user_roles_tbl = [\<lparr>ur_user_id = SYSTEM_USER, ur_role_id = ADMIN_ROLE, ur_created_at = 0\<rparr>,
       \<lparr>ur_user_id = ''u2'', ur_role_id = ADMIN_ROLE, ur_created_at = 0\<rparr>],
     draws = 0\<rparr>"

definition demo_server :: auth_state where
  "demo_server = auth_state_new demo_users ''s1'' None"

lemma demo_env_simps [simp]:
  "ae_jwt demo_auth_env = demo_jwt" "ae_bcrypt demo_auth_env = demo_bcrypt" "ae_local demo_auth_env = False"
  "ae_secret demo_auth_env k = replicate (k + 3) CHR ''k''"
  by (simp_all add: demo_auth_env_def)

lemma demo_server_simps [simp]:
  "au_db demo_server = demo_users" "au_jwt demo_server = jwt_service_new ''s1''"
  by (simp_all add: demo_server_def auth_state_new_def)

lemma demo_users_ok: "users_ok demo_users"
  by (simp add: users_ok_def demo_users_def demo_account_def SYSTEM_USER_def ADMIN_ROLE_def emails_def)

lemma demo_admins: "admins demo_users \<noteq> {}"
  by (auto simp: admins_def demo_users_def)

lemma demo_ana: "find_by_id ''u1'' demo_users = Some (demo_account ''u1'' ''ana'' ''ana-pass-1'' ''member'')"
  by (simp add: find_by_id_def demo_users_def demo_account_def SYSTEM_USER_def)

definition bearer :: "string \<Rightarrow> headers" where
  "bearer token = [(''authorization'', ''Bearer '' @ token)]"

lemmas visible_chars = visible_def less_eq_char_def less_char_def

lemma extract_bearer: "token \<noteq> [] \<Longrightarrow> list_all visible token \<Longrightarrow> extract_token_from_headers (bearer token) = Some token"
  by (simp add: bearer_def extract_token_from_headers_def extract_bearer_token_def header_str_def strip_prefix_def
      visible_def less_eq_char_def less_char_def)

lemma demo_session_visible: "demo_session \<noteq> [] \<and> list_all visible demo_session"
proof -
  have ser: "list_all visible (demo_ser xs)" if "\<forall>x\<in>set xs. list_all visible x" for xs
    using that by (induction xs) (auto simp: demo_ser_def list_all_iff visible_chars)
  have "list_all visible (bits n)" for n
    by (induction n rule: bits.induct) (simp add: bits.simps visible_chars)
  then show ?thesis
    by (auto simp: demo_session_def jwt_sign_def demo_jwt_def demo_encode_def jwt_claims_def jwt_service_new_def
        JWT_ISSUER_def JWT_AUDIENCE_def visible_chars intro!: ser) (simp add: demo_ser_def)
qed

text \<open>Ana's session.\<close>

lemma demo_sender: "sender demo_auth_env (bearer demo_session) demo_server = Some (demo_account ''u1'' ''ana'' ''ana-pass-1'' ''member'')"
proof -
  have "extract_token_from_headers (bearer demo_session) =
      Some (jwt_sign (ae_jwt demo_auth_env) 100 ''u1'' ''ana'' (au_jwt demo_server))"
    using extract_bearer demo_session_visible by (simp add: demo_session_def)
  then show ?thesis
    by (rule sender_of_token [rotated])
      (simp_all add: demo_jwt_ok jwt_service_new_def now_secs_def now_ms_def demo_users_def demo_auth_env_def find_by_id_def
        demo_account_def SYSTEM_USER_def)
qed

section \<open>The properties on the example\<close>

lemma never_locked_out_witness:
  "\<exists>u\<in>set (users_tbl (au_db (fold (auth_step demo_auth_env)
      [Serve (bearer demo_session) (Admin (AdmDeleteUser ''u2'')), Background] (auth_state_new demo_users ''s1'' None)))).
     ADMIN_ROLE \<in> set (get_user_roles (us_id u) (au_db (fold (auth_step demo_auth_env)
      [Serve (bearer demo_session) (Admin (AdmDeleteUser ''u2'')), Background] (auth_state_new demo_users ''s1'' None))))"
  by (rule never_locked_out [OF demo_users_ok demo_admins refl, THEN conjunct2])

lemma no_privilege_escalation_witness:
  "user_roles_tbl (au_db (fst (auth_routes demo_auth_env (bearer demo_session) (Admin (AdmAssignRole ''u1'' (Inr ''admin''))) demo_server)))
     = user_roles_tbl demo_users"
proof -
  have "not_admin demo_auth_env (bearer demo_session) demo_server"
    by (simp add: not_admin_def demo_sender) (simp add: demo_account_def demo_users_def get_user_roles_def SYSTEM_USER_def)
  from no_privilege_escalation [OF _ this, of "Admin (AdmAssignRole ''u1'' (Inr ''admin''))"] show ?thesis
    by (simp add: rights_kept_def)
qed

lemma login_opens_session_witness:
  "\<exists>u. good_login demo_auth_env \<lparr>lq_username = ''ana'', lq_password = ''ana-pass-1''\<rparr> demo_server u"
proof -
  have "\<exists>s' r. login_handler demo_auth_env (Inr \<lparr>lq_username = ''ana'', lq_password = ''ana-pass-1''\<rparr>) demo_server = (s', Inr r)"
    by (simp add: login_handler_def find_by_username_def demo_users_def demo_account_def checked_def verify_password_def
        demo_bcrypt_def open_session_def trim_def is_ws_def Let_def)
  then obtain s' r where login: "login_handler demo_auth_env (Inr \<lparr>lq_username = ''ana'', lq_password = ''ana-pass-1''\<rparr>)
      demo_server = (s', Inr r)" by blast
  have "jwt_lib_ok (ae_jwt demo_auth_env)" by (simp add: demo_jwt_ok)
  from login_opens_session [OF this, of demo_server "\<lparr>lq_username = ''ana'', lq_password = ''ana-pass-1''\<rparr>"]
  show ?thesis unfolding login prod.case sum.case by blast
qed

definition ana :: current_user where
  "ana = \<lparr>cu_id = ''u1'', cu_username = ''ana'', cu_roles = []\<rparr>"

lemma ana_changes_password:
  obtains s' resp where "change_password_handler demo_auth_env ana
    (Inr \<lparr>cq_current_password = ''ana-pass-1'', cq_new_password = ''new-pass-9''\<rparr>) demo_server = (s', Inr resp)"
proof -
  have "validate_password ''new-pass-9'' = Inr ()" by code_simp
  then have "\<exists>s' resp. change_password_handler demo_auth_env ana
    (Inr \<lparr>cq_current_password = ''ana-pass-1'', cq_new_password = ''new-pass-9''\<rparr>) demo_server = (s', Inr resp)"
    by (simp add: change_password_handler_def checked_def verify_password_def hashed_def hash_password_def on_db_def
        find_by_id_def ana_def demo_account_def demo_bcrypt_def update_password_def update_jwt_secret_def update_user_def
        rows_affected_def update_where_def demo_users_def SYSTEM_USER_def drawn_def Let_def)
  with that show thesis by blast
qed

lemma password_change_ends_sessions_witness:
  "\<exists>(s' :: auth_state) v e. find_by_id ''u1'' (au_db s') = Some v \<and> bc_verify demo_bcrypt ''new-pass-9'' (us_password_hash v) = Some True \<and>
     jwt_verify demo_jwt 200 demo_session (jwt_service_new ''s1'') = Inr (jwt_claims ''u1'' ''ana'' 100) \<and>
     jwt_verify demo_jwt 200 demo_session (au_jwt s') = Inl e"
proof (rule ana_changes_password)
  fix s' resp assume c: "change_password_handler demo_auth_env ana
    (Inr \<lparr>cq_current_password = ''ana-pass-1'', cq_new_password = ''new-pass-9''\<rparr>) demo_server = (s', Inr resp)"
  have v: "jwt_verify demo_jwt 200 demo_session (jwt_service_new ''s1'') = Inr (jwt_claims ''u1'' ''ana'' 100)"
    by (simp add: jwt_verify_iff [OF demo_jwt_ok] demo_session_decodes jwt_service_new_def jwt_claims_def LEEWAY_def TOKEN_EXPIRY_def)
  have "ae_secret demo_auth_env n \<noteq> jw_secret (au_jwt demo_server)" for n
    by (simp add: jwt_service_new_def numeral_3_eq_3)
  note facts = password_change_ends_sessions [OF _ _ this c, simplified demo_env_simps demo_server_simps ana_def,
      OF demo_jwt_ok demo_bcrypt_ok, simplified]
  from facts obtain w where w: "find_by_id ''u1'' (au_db s') = Some w"
    "bc_verify demo_bcrypt ''new-pass-9'' (us_password_hash w) = Some True" by blast
  from facts v obtain e where "jwt_verify demo_jwt 200 demo_session (au_jwt s') = Inl e" by blast
  with w v show ?thesis by blast
qed

section \<open>Where the program falls short\<close>

text \<open>The anti-lockout check counts deactivated administrators: two requests leave no active one.\<close>

definition root :: current_user where
  "root = \<lparr>cu_id = SYSTEM_USER, cu_username = ''root'', cu_roles = [ADMIN_ROLE]\<rparr>"

lemma deactivated_administrators_count:
  "let s1 = fst (admin_handler demo_auth_env root
         (AdmUpdateUser ''u2'' (Inr \<lparr>uq_is_active = Some False, uq_role = None, uq_display_name = None\<rparr>)) demo_server);
       s2 = fst (admin_handler demo_auth_env root (AdmRemoveRole SYSTEM_USER ADMIN_ROLE) s1)
   in \<not> list_ex (\<lambda>u. us_is_active u \<and> ADMIN_ROLE \<in> set (get_user_roles (us_id u) (au_db s2))) (users_tbl (au_db s2))"
  by (simp add: root_def admin_update_user_handler_def admin_remove_role_handler_def on_db_def set_active_def update_user_def
      rows_affected_def update_where_def remove_role_def find_by_id_def demo_users_def demo_account_def SYSTEM_USER_def
      ADMIN_ROLE_def get_user_roles_def Let_def) auto

text \<open>A demotion that is refused with 409 has already changed the role column.\<close>

lemma refused_demotion_changes_the_column:
  assumes "find_by_id i (au_db s) = Some u" and "admins (au_db s) = {i}" and "users_ok (au_db s)"
  shows "snd (change_role E i ''member'' s) = Inl last_admin_role \<and>
    (\<exists>v. find_by_id i (au_db (fst (change_role E i ''member'' s))) = Some v \<and> us_role v = ''member'')"
proof -
  define db where "db = fst (set_role E i ''member'' (au_db s))"
  have role: "set_role E i ''member'' (au_db s) = (db, Inr ())"
    using assms(1) unfolding db_def set_role_def by (subst update_user_eq) simp
  have ok: "users_ok db" "admins db = {i}" using assms field_updates_ok(5) [OF assms(3)]
    unfolding db_def by (simp_all add: admins_field_updates)
  have "remove_role i ADMIN_ROLE db = (db, Inr WouldLeaveNoAdmins)"
    using ok count_admins [OF ok(1)] by (auto simp: remove_role_def count_users_with_role_def admins_def Let_def)
  moreover have "\<exists>v. find_by_id i db = Some v \<and> us_role v = ''member''"
    using assms(1) unfolding db_def set_role_def by (simp add: update_user_find)
  ultimately show ?thesis using role by (simp add: change_role_def on_db_def ADMIN_ROLE_def)
qed

text \<open>
  Two tokens of one account signed within one second are the same token, so a login in the second of a
  logout answers a token that is revoked already.
\<close>

lemma relogin_within_a_second_is_revoked:
  "let token = jwt_sign L t i n j; j' = blacklist_token L t token j
   in jwt_sign L t i n j' = token \<and> jwt_verify L t' (jwt_sign L t i n j') j' = Inl TokenBlacklisted"
  by (simp add: Let_def blacklist_token_def jwt_sign_def jwt_verify_def hm_get_insert)

text \<open>The one-time login does not look at the activation of the account.\<close>

lemma qr_login_ignores_deactivation:
  assumes "validate_and_consume (now_ms E s) token (au_qr s) = (q, Inr ())"
    and "get_system_user (au_db s) = Some u" and "\<not> us_is_active u"
  shows "\<exists>s' resp. qr_login_handler E (Inr token) s = (s', Inr resp)"
  using assms by (simp add: qr_login_handler_def get_primary_webui_user_def open_session_def Let_def)

end
