(* ===== verification/Scheduler.thy ===== *)
theory Scheduler
  imports TaskBoard
begin

text \<open>
  \<open>TeammateManager\<close> (\<open>aionui-team/src/scheduler/\<close>): the slots of a team with their status, the turns of the
  agents and what they tell the lead. The state carries the team's tables, which its mailbox and task
  board work on, and the events it broadcasts. An operation that takes the slot lock several times is one
  step here; the order of its statements is the source's. A \<open>HashMap\<close> is visited in the order of its
  list. Times are milliseconds of one clock.
\<close>

section \<open>State\<close>

record agent_slot =
  as_agent :: team_agent
  as_status :: teammate_status
  as_needs_role_prompt :: bool

datatype agent_event =
    AgentStatus string teammate_status
  | AgentSpawned team_agent_response
  | AgentRemoved string
  | AgentRenamed string string

record team_state =
  sc_team_id :: string
  sc_slots :: "(string, agent_slot) hmap"
  sc_active_wakes :: "string list"
  sc_finalized :: "(string, int) hmap"
  sc_expiries :: "(int \<times> string) list"
  sc_armed :: "string list"
  sc_log :: "agent_event list"
  sc_db :: team_db

type_synonym ('x, 'a) team_do = "'x team_state_scheme \<Rightarrow> ('x team_state_scheme, team_error, 'a) outcome"

definition on_team_db :: "(team_db \<Rightarrow> (team_db, team_error, 'a) outcome) \<Rightarrow> ('x, 'a) team_do" where
  "on_team_db f s = (case f (sc_db s) of (db, r) \<Rightarrow> (s\<lparr>sc_db := db\<rparr>, r))"

definition emit :: "agent_event \<Rightarrow> 'x team_state_scheme \<Rightarrow> 'x team_state_scheme" where
  "emit e s = s\<lparr>sc_log := sc_log s @ [e]\<rparr>"

definition new_slot :: "team_agent \<Rightarrow> agent_slot" where
  "new_slot a = \<lparr>as_agent = a, as_status = Idle, as_needs_role_prompt = True\<rparr>"

definition teammate_manager_new :: "string \<Rightarrow> team_agent list \<Rightarrow> team_db \<Rightarrow> team_state" where
  "teammate_manager_new team_id agents db =
     \<lparr>sc_team_id = team_id,
      sc_slots = fold (\<lambda>a m. hm_insert (ag_slot_id a) (new_slot (a\<lparr>ag_status := Some Idle\<rparr>)) m) agents [],
      sc_active_wakes = [], sc_finalized = [], sc_expiries = [], sc_armed = [], sc_log = [], sc_db = db\<rparr>"

section \<open>Names\<close>

definition normalize_name :: "string \<Rightarrow> string" where
  "normalize_name name = to_lower (filter (\<lambda>c. \<not> is_control c) (trim name))"

section \<open>Slots\<close>

definition is_settled :: "teammate_status \<Rightarrow> bool" where
  "is_settled status \<longleftrightarrow> status = Idle \<or> status = StatusCompleted \<or> status = StatusError"

definition get_agent :: "string \<Rightarrow> 'x team_state_scheme \<Rightarrow> team_error + team_agent" where
  "get_agent slot_id s =
     (case hm_get (sc_slots s) slot_id of None \<Rightarrow> Inl (AgentNotFound slot_id) | Some slot \<Rightarrow> Inr (as_agent slot))"

definition list_agents :: "'x team_state_scheme \<Rightarrow> team_agent list" where
  "list_agents s = map as_agent (hm_values (sc_slots s))"

definition find_lead_slot_id :: "'x team_state_scheme \<Rightarrow> string option" where
  "find_lead_slot_id s =
     map_option (\<lambda>sl. ag_slot_id (as_agent sl)) (find (\<lambda>sl. ag_role (as_agent sl) = Lead) (hm_values (sc_slots s)))"

definition set_agent_status :: "string \<Rightarrow> teammate_status \<Rightarrow> ('x, unit) team_do" where
  "set_agent_status slot_id status s =
     (case hm_get (sc_slots s) slot_id of
        None \<Rightarrow> (s, Inl (AgentNotFound slot_id))
      | Some slot \<Rightarrow>
          let slot' = slot\<lparr>as_status := status, as_agent := (as_agent slot)\<lparr>ag_status := Some status\<rparr>\<rparr>
          in (emit (AgentStatus slot_id status) (s\<lparr>sc_slots := hm_insert slot_id slot' (sc_slots s)\<rparr>), Inr ()))"

definition get_status :: "string \<Rightarrow> 'x team_state_scheme \<Rightarrow> team_error + teammate_status" where
  "get_status slot_id s =
     (case hm_get (sc_slots s) slot_id of None \<Rightarrow> Inl (AgentNotFound slot_id) | Some slot \<Rightarrow> Inr (as_status slot))"

definition take_needs_role_prompt :: "string \<Rightarrow> 'x team_state_scheme \<Rightarrow> 'x team_state_scheme \<times> bool" where
  "take_needs_role_prompt slot_id s =
     (case hm_get (sc_slots s) slot_id of
        None \<Rightarrow> (s, False)
      | Some slot \<Rightarrow> (s\<lparr>sc_slots := hm_insert slot_id (slot\<lparr>as_needs_role_prompt := False\<rparr>) (sc_slots s)\<rparr>,
                       as_needs_role_prompt slot))"

text \<open>The loop over the slots: the lead seen last, whether a teammate was seen, and whether all seen are settled.\<close>

fun scan_slots :: "agent_slot list \<Rightarrow> string option \<Rightarrow> bool \<Rightarrow> string option \<times> bool \<times> bool" where
  "scan_slots [] lead has_teammates = (lead, has_teammates, True)"
| "scan_slots (slot # slots) lead has_teammates =
     (if ag_role (as_agent slot) = Lead then scan_slots slots (Some (ag_slot_id (as_agent slot))) has_teammates
      else if \<not> is_settled (as_status slot) then (lead, True, False)
      else scan_slots slots lead True)"

definition maybe_wake_leader_when_all_idle :: "'x team_state_scheme \<Rightarrow> string option" where
  "maybe_wake_leader_when_all_idle s =
     (case scan_slots (hm_values (sc_slots s)) None False of
        (None, _, _) \<Rightarrow> None
      | (Some lead_id, has_teammates, all_settled) \<Rightarrow>
          if \<not> has_teammates then None
          else if \<not> all_settled then None
          else (case hm_get (sc_slots s) lead_id of
                  None \<Rightarrow> None
                | Some slot \<Rightarrow> if as_status slot = Idle then Some lead_id else None))"

section \<open>Writing to the mailbox\<close>

definition post :: "env \<Rightarrow> json \<Rightarrow> string \<Rightarrow> string \<Rightarrow> mailbox_message_type \<Rightarrow> string \<Rightarrow> string option \<Rightarrow> ('x, unit) team_do" where
  "post E J to_slot from_slot ty content summary s =
     and_then (on_team_db (mailbox_write E J (sc_team_id s) to_slot from_slot ty content summary) s) (\<lambda>_ s. (s, Inr ()))"

definition mark_idle :: "env \<Rightarrow> json \<Rightarrow> string \<Rightarrow> string option \<Rightarrow> ('x, string option) team_do" where
  "mark_idle E J slot_id summary s =
     and_then (set_agent_status slot_id Idle s) (\<lambda>_ s.
     case get_agent slot_id s of
       Inl e \<Rightarrow> (s, Inl e)
     | Inr agent \<Rightarrow>
         if ag_role agent = Lead then (s, Inr None)
         else
           and_then (case find_lead_slot_id s of
               None \<Rightarrow> (s, Inr ())
             | Some lead \<Rightarrow>
                 if lead \<noteq> slot_id
                 then post E J lead slot_id MsgIdleNotification (case summary of None \<Rightarrow> ''idle'' | Some x \<Rightarrow> x) summary s
                 else (s, Inr ())) (\<lambda>_ s.
           (s, Inr (maybe_wake_leader_when_all_idle s))))"

section \<open>Wakes\<close>

definition acquire_wake_lock :: "string \<Rightarrow> 'x team_state_scheme \<Rightarrow> 'x team_state_scheme \<times> bool" where
  "acquire_wake_lock slot_id s =
     (if slot_id \<in> set (sc_active_wakes s) then (s, False)
      else (s\<lparr>sc_active_wakes := slot_id # sc_active_wakes s\<rparr>, True))"

definition release_wake_lock :: "string \<Rightarrow> 'x team_state_scheme \<Rightarrow> 'x team_state_scheme" where
  "release_wake_lock slot_id s = s\<lparr>sc_active_wakes := filter (\<lambda>x. x \<noteq> slot_id) (sc_active_wakes s)\<rparr>"

definition is_wake_active :: "string \<Rightarrow> 'x team_state_scheme \<Rightarrow> bool" where
  "is_wake_active slot_id s \<longleftrightarrow> slot_id \<in> set (sc_active_wakes s)"

text \<open>The watchdog tasks, by the slots that have one.\<close>

definition clear_wake_timeout :: "string \<Rightarrow> 'x team_state_scheme \<Rightarrow> 'x team_state_scheme" where
  "clear_wake_timeout slot_id s = s\<lparr>sc_armed := filter (\<lambda>x. x \<noteq> slot_id) (sc_armed s)\<rparr>"

definition arm_wake_timeout :: "string \<Rightarrow> 'x team_state_scheme \<Rightarrow> 'x team_state_scheme" where
  "arm_wake_timeout slot_id s = s\<lparr>sc_armed := slot_id # filter (\<lambda>x. x \<noteq> slot_id) (sc_armed s)\<rparr>"

datatype stream_signal = StreamFinish | StreamError | StreamClosed | StreamLagged | StreamOther

definition WAKE_TIMEOUT_MS :: int where "WAKE_TIMEOUT_MS = 60000"

text \<open>
  Whether a watchdog with this deadline times out on the signals that come, with their times: an end of the
  turn stops it, any other sign of life moves the deadline.
\<close>

fun watchdog :: "int \<Rightarrow> (int \<times> stream_signal) list \<Rightarrow> bool" where
  "watchdog deadline [] = True"
| "watchdog deadline ((t, x) # signals) =
     (if t > deadline then True
      else if x = StreamFinish \<or> x = StreamError \<or> x = StreamClosed then False
      else watchdog (t + WAKE_TIMEOUT_MS) signals)"

record wake_payload =
  wp_agent :: team_agent
  wp_tasks :: "team_task list"
  wp_unread_messages :: "mailbox_message list"

definition build_wake_payload :: "json \<Rightarrow> string \<Rightarrow> ('x, wake_payload) team_do" where
  "build_wake_payload J slot_id s =
     (case get_agent slot_id s of
        Inl e \<Rightarrow> (s, Inl e)
      | Inr agent \<Rightarrow>
          let tasks = board_list_tasks J (sc_team_id s) (sc_db s)
          in case read_unread J (sc_team_id s) slot_id (sc_db s) of
               (db, unread) \<Rightarrow> (s\<lparr>sc_db := db\<rparr>, Inr \<lparr>wp_agent = agent, wp_tasks = tasks, wp_unread_messages = unread\<rparr>))"

definition try_wake :: "json \<Rightarrow> string \<Rightarrow> ('x, wake_payload option) team_do" where
  "try_wake J slot_id s =
     (case get_status slot_id s of
        Inl e \<Rightarrow> (s, Inl e)
      | Inr current \<Rightarrow>
          if current \<noteq> Idle then (s, Inr None)
          else
            and_then (set_agent_status slot_id Working s) (\<lambda>_ s.
            and_then (build_wake_payload J slot_id s) (\<lambda>p s. (s, Inr (Some p)))))"

section \<open>Actions\<close>

datatype scheduler_action =
    ActSendMessage string string
  | ActTaskCreate string "string option" "string option" "string list"
  | ActTaskUpdate string "string option" "string option" "string option" "string list option"
  | ActSpawnAgent string string string
  | ActIdleNotification "string option"
  | ActShutdownAgent string "string option"
  | ActRenameAgent string string

definition handle_send_message :: "env \<Rightarrow> json \<Rightarrow> string \<Rightarrow> string \<Rightarrow> string \<Rightarrow> ('x, unit) team_do" where
  "handle_send_message E J from_slot to_slot message s =
     (if to_slot = ''*''
      then for_each (\<lambda>target. post E J target from_slot MsgMessage message None)
             (filter (\<lambda>i. i \<noteq> from_slot) (map fst (sc_slots s))) s
      else post E J to_slot from_slot MsgMessage message None s)"

definition handle_shutdown_agent :: "env \<Rightarrow> json \<Rightarrow> string \<Rightarrow> string \<Rightarrow> string option \<Rightarrow> ('x, unit) team_do" where
  "handle_shutdown_agent E J from_slot target_slot reason s =
     (case get_agent from_slot s of
        Inl e \<Rightarrow> (s, Inl e)
      | Inr sender \<Rightarrow>
          if ag_role sender \<noteq> Lead then (s, Inl (InvalidRequest ''only lead can shutdown agents''))
          else case get_agent target_slot s of
            Inl e \<Rightarrow> (s, Inl e)
          | Inr target \<Rightarrow>
              if ag_role target = Lead then (s, Inl (InvalidRequest ''cannot shutdown the team lead''))
              else post E J target_slot from_slot MsgShutdownRequest
                     (case reason of None \<Rightarrow> ''shutdown requested'' | Some r \<Rightarrow> r) None s)"

definition rename_agent :: "string \<Rightarrow> string \<Rightarrow> ('x, unit) team_do" where
  "rename_agent slot_id new_name s =
     (let normalized = normalize_name new_name
      in if normalized = [] then (s, Inl (InvalidRequest ''rename_agent.new_name is empty after normalization''))
         else case hm_get (sc_slots s) slot_id of
           None \<Rightarrow> (s, Inl (AgentNotFound slot_id))
         | Some slot \<Rightarrow>
             if list_ex (\<lambda>(i, sl). i \<noteq> slot_id \<and> normalize_name (ag_name (as_agent sl)) = normalized) (sc_slots s)
             then (s, Inl (DuplicateAgentName new_name))
             else (emit (AgentRenamed slot_id new_name)
                     (s\<lparr>sc_slots := hm_insert slot_id (slot\<lparr>as_agent := (as_agent slot)\<lparr>ag_name := new_name\<rparr>\<rparr>) (sc_slots s)\<rparr>),
                   Inr ()))"

definition task_update_of :: "string option \<Rightarrow> string option \<Rightarrow> string option \<Rightarrow> string list option \<Rightarrow> board_update" where
  "task_update_of status description owner blocked_by =
     \<lparr>bu_status = Option.bind status board_status_parse, bu_description = description, bu_owner = owner,
      bu_blocked_by = blocked_by, bu_metadata = None\<rparr>"

fun execute_action :: "env \<Rightarrow> json \<Rightarrow> string \<Rightarrow> scheduler_action \<Rightarrow> ('x, string option) team_do" where
  "execute_action E J from_slot (ActSendMessage to_slot message) s =
     and_then (handle_send_message E J from_slot to_slot message s) (\<lambda>_ s. (s, Inr None))"
| "execute_action E J from_slot (ActTaskCreate subject description owner blocked_by) s =
     and_then (on_team_db (create_task_on_board E J (sc_team_id s) subject description owner blocked_by) s) (\<lambda>_ s. (s, Inr None))"
| "execute_action E J from_slot (ActTaskUpdate task_id status description owner blocked_by) s =
     and_then (on_team_db (update_task_on_board E J (sc_team_id s) task_id
         (task_update_of status description owner blocked_by)) s) (\<lambda>_ s. (s, Inr None))"
| "execute_action E J from_slot (ActIdleNotification summary) s = mark_idle E J from_slot summary s"
| "execute_action E J from_slot (ActSpawnAgent name role backend) s = (s, Inr None)"
| "execute_action E J from_slot (ActShutdownAgent slot_id reason) s =
     and_then (handle_shutdown_agent E J from_slot slot_id reason s) (\<lambda>_ s. (s, Inr None))"
| "execute_action E J from_slot (ActRenameAgent slot_id new_name) s =
     and_then (rename_agent slot_id new_name s) (\<lambda>_ s. (s, Inr None))"

text \<open>The loop of \<open>finalize_turn\<close>: idle notifications give the summary, the first wins; the rest is executed.\<close>

fun run_actions :: "env \<Rightarrow> json \<Rightarrow> string \<Rightarrow> scheduler_action list \<Rightarrow> string option \<Rightarrow> ('x, string option) team_do" where
  "run_actions E J slot_id [] summary s = (s, Inr summary)"
| "run_actions E J slot_id (ActIdleNotification m # actions) summary s =
     run_actions E J slot_id actions (if summary = None then m else summary) s"
| "run_actions E J slot_id (a # actions) summary s =
     and_then (execute_action E J slot_id a s) (\<lambda>_. run_actions E J slot_id actions summary)"

definition finalize_turn :: "env \<Rightarrow> json \<Rightarrow> string \<Rightarrow> scheduler_action list \<Rightarrow> ('x, string option) team_do" where
  "finalize_turn E J slot_id actions s =
     and_then (run_actions E J slot_id actions None s) (\<lambda>summary. mark_idle E J slot_id summary)"

section \<open>Joining and leaving\<close>

definition add_agent :: "team_agent \<Rightarrow> 'x team_state_scheme \<Rightarrow> 'x team_state_scheme" where
  "add_agent a s = emit (AgentSpawned (agent_to_response a)) (s\<lparr>sc_slots := hm_insert (ag_slot_id a) (new_slot a) (sc_slots s)\<rparr>)"

definition clear_agent_state :: "string \<Rightarrow> string \<Rightarrow> 'x team_state_scheme \<Rightarrow> 'x team_state_scheme" where
  "clear_agent_state slot_id conversation_id s =
     (let s1 = clear_wake_timeout slot_id (release_wake_lock slot_id s)
      in s1\<lparr>sc_finalized := hm_remove conversation_id (sc_finalized s1)\<rparr>)"

definition sched_remove_agent :: "string \<Rightarrow> ('x, string option) team_do" where
  "sched_remove_agent slot_id s =
     (case hm_get (sc_slots s) slot_id of
        None \<Rightarrow> (s, Inl (AgentNotFound slot_id))
      | Some removed \<Rightarrow>
          let conversation_id = ag_conversation_id (as_agent removed)
          in (emit (AgentRemoved slot_id)
                (clear_agent_state slot_id conversation_id (s\<lparr>sc_slots := hm_remove slot_id (sc_slots s)\<rparr>)),
              Inr (Some conversation_id)))"

section \<open>Crashes\<close>

datatype crash_reason = ProcessExited | CrashSessionNotFound | CrashUnknown string

text \<open>\<open>detect_crash\<close> on an error event with this message; any other event is no crash.\<close>

definition detect_crash :: "string \<Rightarrow> crash_reason" where
  "detect_crash msg =
     (if contains_sub ''process exited unexpectedly'' msg \<or> contains_sub ''process exited'' msg then ProcessExited
      else if contains_sub ''Session not found'' msg \<or> contains_sub ''session not found'' msg then CrashSessionNotFound
      else CrashUnknown msg)"

text \<open>The dash is U+2014.\<close>

definition em_dash :: string where "em_dash = [CHR 0xE2, CHR 0x80, CHR 0x94]"

definition format_with_unknown :: "string \<Rightarrow> string \<Rightarrow> string option \<Rightarrow> string" where
  "format_with_unknown agent_name reason_msg last_message =
     ''Teammate '' @ quoted agent_name @ '' crashed during task (reason: Unknown '' @ em_dash @ '' '' @ reason_msg @
     (case last_message of None \<Rightarrow> ''). Please investigate.''
      | Some msg \<Rightarrow> ''). Last message: '' @ msg @ ''. Please investigate.'')"

definition format_crash_testament :: "string \<Rightarrow> crash_reason \<Rightarrow> string option \<Rightarrow> string" where
  "format_crash_testament agent_name reason last_message =
     (let known = (\<lambda>reason_str. ''Teammate '' @ quoted agent_name @ '' crashed during task (reason: '' @ reason_str @
            (case last_message of None \<Rightarrow> ''). Please investigate.''
             | Some msg \<Rightarrow> ''). Last message: '' @ msg @ ''. Please investigate.''))
      in case reason of
           ProcessExited \<Rightarrow> known ''ProcessExited''
         | CrashSessionNotFound \<Rightarrow> known ''SessionNotFound''
         | CrashUnknown msg \<Rightarrow> format_with_unknown agent_name msg last_message)"

definition write_crash_testament :: "env \<Rightarrow> json \<Rightarrow> string \<Rightarrow> string \<Rightarrow> crash_reason \<Rightarrow> string option \<Rightarrow> ('x, unit) team_do" where
  "write_crash_testament E J slot_id agent_name reason last_message s =
     (case find_lead_slot_id s of
        None \<Rightarrow> (s, Inr ())
      | Some lead \<Rightarrow>
          if lead = slot_id then (s, Inr ())
          else post E J lead slot_id MsgMessage (format_crash_testament agent_name reason last_message) None s)"

definition handle_agent_crash :: "env \<Rightarrow> json \<Rightarrow> string \<Rightarrow> crash_reason \<Rightarrow> string option \<Rightarrow> ('x, string option) team_do" where
  "handle_agent_crash E J slot_id reason last_message s =
     (case get_agent slot_id s of
        Inl e \<Rightarrow> (s, Inl e)
      | Inr agent \<Rightarrow>
          and_then (write_crash_testament E J slot_id (ag_name agent) reason last_message s) (\<lambda>_ s.
          and_then (set_agent_status slot_id StatusError s) (\<lambda>_ s.
          let s1 = clear_wake_timeout slot_id (release_wake_lock slot_id s)
          in (s1, Inr (if ag_role agent = Lead then None else find_lead_slot_id s1)))))"

definition handle_inactivity_timeout :: "env \<Rightarrow> json \<Rightarrow> string \<Rightarrow> ('x, string option) team_do" where
  "handle_inactivity_timeout E J slot_id s =
     (case get_agent slot_id s of
        Inl e \<Rightarrow> (s, Inl e)
      | Inr agent \<Rightarrow>
          and_then (set_agent_status slot_id StatusError s) (\<lambda>_ s.
          let s1 = clear_wake_timeout slot_id (release_wake_lock slot_id s)
          in if ag_role agent = Lead then (s1, Inr None)
             else case find_lead_slot_id s1 of
               None \<Rightarrow> (s1, Inr None)
             | Some lead \<Rightarrow>
                 and_then (post E J lead slot_id MsgMessage
                     (''Teammate '' @ quoted (ag_name agent) @ '' timed out after 60s of inactivity. Please investigate.'') None s1) (\<lambda>_ s.
                 (s, Inr (Some lead)))))"

definition notify_shutdown_rejected :: "env \<Rightarrow> json \<Rightarrow> string \<Rightarrow> string \<Rightarrow> ('x, unit) team_do" where
  "notify_shutdown_rejected E J from_slot reason s =
     (case find_lead_slot_id s of
        None \<Rightarrow> (s, Inr ())
      | Some lead \<Rightarrow>
          if lead = from_slot then (s, Inr ())
          else let agent_name = (case get_agent from_slot s of Inl _ \<Rightarrow> from_slot | Inr a \<Rightarrow> ag_name a)
               in post E J lead from_slot MsgMessage
                    (''Teammate '' @ quoted agent_name @ '' declined shutdown: '' @ reason) None s)"

section \<open>The finalization window\<close>

definition FINALIZE_DEDUP_WINDOW :: int where "FINALIZE_DEDUP_WINDOW = 5000"

text \<open>\<open>begin_finalize\<close> at \<open>now\<close>; it leaves a delayed task that removes the entry after the window.\<close>

definition begin_finalize :: "int \<Rightarrow> string \<Rightarrow> 'x team_state_scheme \<Rightarrow> 'x team_state_scheme \<times> bool" where
  "begin_finalize now conversation_id s =
     (let should_proceed = \<not> (case hm_get (sc_finalized s) conversation_id of
            None \<Rightarrow> False | Some since \<Rightarrow> now - since < FINALIZE_DEDUP_WINDOW)
      in (if should_proceed
          then s\<lparr>sc_finalized := hm_insert conversation_id now (sc_finalized s),
                 sc_expiries := (now + FINALIZE_DEDUP_WINDOW, conversation_id) # sc_expiries s\<rparr>
          else s, should_proceed))"

definition clear_finalized_turn :: "string \<Rightarrow> 'x team_state_scheme \<Rightarrow> 'x team_state_scheme" where
  "clear_finalized_turn conversation_id s = s\<lparr>sc_finalized := hm_remove conversation_id (sc_finalized s)\<rparr>"

text \<open>The delayed tasks that are due.\<close>

definition fire_expiries :: "int \<Rightarrow> 'x team_state_scheme \<Rightarrow> 'x team_state_scheme" where
  "fire_expiries now s =
     s\<lparr>sc_finalized := fold (\<lambda>(_, c) m. hm_remove c m) (filter (\<lambda>(t, _). t \<le> now) (sc_expiries s)) (sc_finalized s),
       sc_expiries := filter (\<lambda>(t, _). now < t) (sc_expiries s)\<rparr>"

end
