(* ===== verification/Projection.thy ===== *)
theory Projection
  imports Mailbox
begin

text \<open>
  The bubbles that mirror team messages into conversations: \<open>aionui-team/src/visibility.rs\<close> and
  \<open>message_projection.rs\<close>. The store is the conversation module's \<open>messages\<close> table with its primary key and
  its foreign key. The JSON text of a bubble's content is kept as the value it prints.
\<close>

section \<open>Visibility\<close>

record visibility_policy =
  vp_write_mailbox :: bool
  vp_insert_user_visible_bubble :: bool
  vp_insert_teammate_visible_bubble :: bool
  vp_allow_hidden_conversation_message :: bool
  vp_strip_system_notes :: bool

definition user_message_policy :: visibility_policy where
  "user_message_policy = \<lparr>vp_write_mailbox = True, vp_insert_user_visible_bubble = True,
     vp_insert_teammate_visible_bubble = False, vp_allow_hidden_conversation_message = False, vp_strip_system_notes = True\<rparr>"

definition teammate_message_policy :: visibility_policy where
  "teammate_message_policy = \<lparr>vp_write_mailbox = True, vp_insert_user_visible_bubble = False,
     vp_insert_teammate_visible_bubble = True, vp_allow_hidden_conversation_message = False, vp_strip_system_notes = False\<rparr>"

abbreviation note_mark :: string where "note_mark \<equiv> ''[SYSTEM NOTE:''"

definition drop_blank_line :: "string \<Rightarrow> string \<Rightarrow> string" where
  "drop_blank_line result rest =
     (if ends_with [CHR 0x0A] result \<and> starts_with [CHR 0x0A] rest then drop 1 rest else rest)"

text \<open>The loop over the rest of the text, with the result so far.\<close>

function strip_notes :: "string \<Rightarrow> string \<Rightarrow> string" where
  "strip_notes result rest =
     (case find_sub note_mark rest of
        None \<Rightarrow> result @ rest
      | Some start \<Rightarrow>
          (let result1 = result @ take start rest
           in case find_sub '']'' (drop start rest) of
                None \<Rightarrow> result1 @ drop start rest
              | Some end' \<Rightarrow> strip_notes result1 (drop_blank_line result1 (drop (start + end' + 1) rest))))"
  by auto
termination
proof (relation "measure (\<lambda>(_, rest). length rest)", simp)
  fix result rest :: string and start result1 end'
  assume "find_sub note_mark rest = Some start"
  from find_sub_bound [OF this] have "0 < length rest" by (cases rest) simp_all
  then have "length (drop (start + end' + 1) rest) < length rest" by simp
  then show "((result1, drop_blank_line result1 (drop (start + end' + 1) rest)), (result, rest))
      \<in> measure (\<lambda>(_, rest). length rest)"
    by (auto simp: drop_blank_line_def)
qed

declare strip_notes.simps [simp del]

definition strip_system_notes :: "string \<Rightarrow> string" where
  "strip_system_notes text = trim (strip_notes [] text)"

section \<open>Projection\<close>

datatype projection_source =
    ProjUser
  | ProjTeammate string string "string option" "string option"

record projection_request =
  pq_team_id :: string
  pq_slot_id :: string
  pq_conversation_id :: string
  pq_source :: projection_source
  pq_content :: string
  pq_files :: "string list"
  pq_visibility :: visibility_policy
  pq_dedupe_key :: "string option"

definition user_visible :: "string \<Rightarrow> string \<Rightarrow> string \<Rightarrow> string \<Rightarrow> string list \<Rightarrow> projection_request" where
  "user_visible team_id slot_id conversation_id content files =
     \<lparr>pq_team_id = team_id, pq_slot_id = slot_id, pq_conversation_id = conversation_id, pq_source = ProjUser,
      pq_content = content, pq_files = files, pq_visibility = user_message_policy, pq_dedupe_key = None\<rparr>"

definition should_insert_visible_bubble :: "projection_request \<Rightarrow> bool" where
  "should_insert_visible_bubble q =
     (case pq_source q of
        ProjUser \<Rightarrow> vp_insert_user_visible_bubble (pq_visibility q)
      | ProjTeammate _ _ _ _ \<Rightarrow> vp_insert_teammate_visible_bubble (pq_visibility q))"

definition teammate_dedupe_key :: "string \<Rightarrow> string \<Rightarrow> string \<Rightarrow> string" where
  "teammate_dedupe_key team_id mailbox_message_id conversation_id =
     ''team:'' @ team_id @ '':mailbox:'' @ mailbox_message_id @ '':conversation:'' @ conversation_id"

datatype bubble_content = UserBubble string | TeammateBubble string string "string option" "string option"

record bubble_row =
  bb_id :: string
  bb_conversation_id :: string
  bb_msg_id :: "string option"
  bb_type :: string
  bb_content :: bubble_content
  bb_position :: string
  bb_status :: string
  bb_hidden :: bool
  bb_created_at :: int

definition build_message_row :: "projection_request \<Rightarrow> string \<Rightarrow> int \<Rightarrow> bubble_row" where
  "build_message_row q msg_id created_at =
     (case (case pq_source q of
              ProjUser \<Rightarrow> (''right'', UserBubble (if vp_strip_system_notes (pq_visibility q)
                                                then strip_system_notes (pq_content q) else pq_content q))
            | ProjTeammate _ from_name backend conv \<Rightarrow> (''left'', TeammateBubble (pq_content q) from_name backend conv)) of
        (position, content) \<Rightarrow>
          \<lparr>bb_id = msg_id, bb_conversation_id = pq_conversation_id q, bb_msg_id = Some msg_id, bb_type = ''text'',
           bb_content = content, bb_position = position, bb_status = ''finish'',
           bb_hidden = vp_allow_hidden_conversation_message (pq_visibility q), bb_created_at = created_at\<rparr>)"

datatype projected = Inserted string | AlreadyProjected string | ProjectionSkipped

record bubble_store =
  bs_conversations :: "string list"
  bs_rows :: "bubble_row list"
  bs_teammate_events :: "projection_request list"
  bs_tick :: nat

definition find_projected_message :: "string \<Rightarrow> string \<Rightarrow> string \<Rightarrow> bubble_store \<Rightarrow> bubble_row option" where
  "find_projected_message conversation_id msg_id msg_type s =
     find (\<lambda>r. bb_conversation_id r = conversation_id \<and> bb_msg_id r = Some msg_id \<and> bb_type r = msg_type) (bs_rows s)"

definition insert_projected_message :: "bubble_row \<Rightarrow> bubble_store \<Rightarrow> (bubble_store, team_error, unit) outcome" where
  "insert_projected_message row s =
     (if (\<exists>r\<in>set (bs_rows s). bb_id r = bb_id row) \<or> bb_conversation_id row \<notin> set (bs_conversations s)
      then (s, Inl TeamDatabase)
      else (s\<lparr>bs_rows := bs_rows s @ [row]\<rparr>, Inr ()))"

definition project :: "env \<Rightarrow> projection_request \<Rightarrow> bubble_store \<Rightarrow> (bubble_store, team_error, projected) outcome" where
  "project E q s =
     (if \<not> should_insert_visible_bubble q then (s, Inr ProjectionSkipped)
      else
        let msg_id = (case pq_dedupe_key q of Some k \<Rightarrow> k | None \<Rightarrow> mint_id E (bs_tick s));
            s1 = s\<lparr>bs_tick := Suc (bs_tick s)\<rparr>
        in case (if pq_dedupe_key q = None then None
                 else find_projected_message (pq_conversation_id q) msg_id ''text'' s1) of
             Some existing \<Rightarrow> (s1, Inr (AlreadyProjected (case bb_msg_id existing of Some i \<Rightarrow> i | None \<Rightarrow> bb_id existing)))
           | None \<Rightarrow>
               and_then (insert_projected_message (build_message_row q msg_id (clock E (bs_tick s))) s1) (\<lambda>_ s.
               (case pq_source q of ProjUser \<Rightarrow> s | ProjTeammate _ _ _ _ \<Rightarrow> s\<lparr>bs_teammate_events := bs_teammate_events s @ [q]\<rparr>,
                Inr (Inserted msg_id))))"

section \<open>Facts\<close>

lemma strip_system_notes_plain: "find_sub note_mark text = None \<Longrightarrow> strip_system_notes text = trim text"
  by (simp add: strip_system_notes_def strip_notes.simps)

text \<open>Projecting a teammate's message again leaves the conversation as it is.\<close>

lemma build_message_row_simps [simp]:
  "bb_id (build_message_row q i t) = i" "bb_msg_id (build_message_row q i t) = Some i"
  "bb_type (build_message_row q i t) = ''text''" "bb_conversation_id (build_message_row q i t) = pq_conversation_id q"
  by (simp_all add: build_message_row_def split: projection_source.splits)

lemma project_leaves_it:
  assumes "pq_dedupe_key q = Some k" and "should_insert_visible_bubble q" and "project E q s = (s1, Inr p)"
  shows "find_projected_message (pq_conversation_id q) k ''text'' s1 \<noteq> None"
proof (cases "find_projected_message (pq_conversation_id q) k ''text'' (s\<lparr>bs_tick := Suc (bs_tick s)\<rparr>)")
  case (Some r)
  with assms show ?thesis by (auto simp: project_def Let_def)
next
  case None
  let ?row = "build_message_row q k (clock E (bs_tick s))"
  from assms None have "bs_rows s1 = bs_rows s @ [?row]"
    by (auto simp: project_def Let_def insert_projected_message_def split: if_splits projection_source.splits)
  then have "?row \<in> set (bs_rows s1)" by simp
  moreover have "bb_conversation_id ?row = pq_conversation_id q \<and> bb_msg_id ?row = Some k \<and> bb_type ?row = ''text''" by simp
  ultimately show ?thesis unfolding find_projected_message_def find_None_iff by blast
qed

lemma project_again:
  assumes key: "pq_dedupe_key q = Some k" and first: "project E q s = (s1, Inr p)"
  shows "bs_rows (fst (project E q s1)) = bs_rows s1"
proof (cases "should_insert_visible_bubble q")
  case False
  then show ?thesis by (simp add: project_def)
next
  case True
  from project_leaves_it [OF key True first]
  have "find_projected_message (pq_conversation_id q) k ''text'' (s1\<lparr>bs_tick := Suc (bs_tick s1)\<rparr>) \<noteq> None"
    by (simp add: find_projected_message_def)
  with key True show ?thesis by (auto simp: project_def Let_def)
qed

text \<open>A note nested in another survives the removal.\<close>

lemma nested_note_survives:
  "strip_system_notes ''[SYSTEM [SYSTEM NOTE: x]NOTE: y]'' = ''[SYSTEM NOTE: y]''"
proof -
  have "strip_notes [] ''[SYSTEM [SYSTEM NOTE: x]NOTE: y]'' = strip_notes ''[SYSTEM '' ''NOTE: y]''"
    by (subst strip_notes.simps) (simp add: drop_blank_line_def ends_with_def)
  also have "\<dots> = ''[SYSTEM NOTE: y]''" by (subst strip_notes.simps) simp
  finally show ?thesis by (simp add: strip_system_notes_def trim_def is_ws_def)
qed

end
