(* ===== verification/TeamSession.thy ===== *)
theory TeamSession
  imports Scheduler TeamRun Projection
begin

text \<open>
  A live team (\<open>TeamSession\<close>, \<open>aionui-team/src/session.rs\<close>), the event loop of its agents
  (\<open>event_loop.rs\<close>) and the wake text (\<open>prompts/mod.rs\<close>). The state is the scheduler's with the run
  manager, the event loops and the mirrored bubbles. An event loop is in one of three phases: it waits for
  its \<open>Notify\<close> (which holds at most one permit), it is about to look into the mailbox, or its turn port works
  on a request. Other operations run between its steps. The role prompts are parameters (\<open>role_prompt\<close>); the
  MCP server and the attaching of agent processes are not modelled.
\<close>

section \<open>The wake text\<close>

abbreviation newline :: string where "newline \<equiv> [CHR 0x0A]"

definition ellipsis :: string where "ellipsis = [CHR 0xE2, CHR 0x80, CHR 0xA6]"

fun join :: "string \<Rightarrow> string list \<Rightarrow> string" where
  "join sep [] = []"
| "join sep [x] = x"
| "join sep (x # xs) = x @ sep @ join sep xs"

definition message_line :: "mailbox_message \<Rightarrow> string" where
  "message_line m = ''- From `'' @ mm_from_agent_id m @ ''` ['' @ msg_type_to_string (mm_msg_type m) @ '']: '' @ mm_content m @ newline @
     (case mm_summary m of None \<Rightarrow> [] | Some summary \<Rightarrow> ''  Summary: '' @ summary @ newline)"

definition task_line :: "team_task \<Rightarrow> string" where
  "task_line t =
     (let owner = (case bt_owner t of None \<Rightarrow> ''-'' | Some x \<Rightarrow> x);
          blocked = (if bt_blocked_by t = [] then ''-'' else join '', '' (bt_blocked_by t));
          short_id = take 8 (bt_id t)
      in ''| '' @ short_id @ ellipsis @ '' | '' @ bt_subject t @ '' | '' @ board_status_to_string (bt_status t) @ '' | '' @
         owner @ '' | '' @ blocked @ '' |'' @ newline)"

definition wake_text :: "team_agent \<Rightarrow> team_task list \<Rightarrow> mailbox_message list \<Rightarrow> string" where
  "wake_text agent ts unread =
     (if unread \<noteq> [] then ''## New Messages'' @ newline @ newline @ concat (map message_line unread) @ newline
      else ''## New Messages'' @ newline @ newline @ ''No new messages.'' @ newline @ newline) @
     (if ts \<noteq> []
      then ''## Current Task Board'' @ newline @ newline @ ''| ID | Subject | Status | Owner | Blocked By |'' @ newline @
           ''|---|---|---|---|---|'' @ newline @ concat (map task_line ts) @ newline
      else ''## Current Task Board'' @ newline @ newline @ ''No tasks on the board.'' @ newline @ newline) @
     ''You are **'' @ ag_name agent @ ''** (role: '' @ role_to_string (ag_role agent) @ ''). Proceed with your work.'' @ newline"

section \<open>State\<close>

record wake_input =
  wi_team_run_id :: "string option"
  wi_conversation_id :: string
  wi_first_message :: string
  wi_should_send :: bool
  wi_unread :: "mailbox_message list"
  wi_agent_role :: teammate_role

datatype loop_phase =
    LoopWaiting
  | LoopDraining
  | LoopTurn wake_input "starting_child_reservation option" bool

text \<open>A phase \<open>LoopTurn input reservation started_seen\<close> is an event loop that awaits its turn port.\<close>

record session_state = team_state +
  ss_runs :: team_run_manager
  ss_loops :: "(string, loop_phase) hmap"
  ss_permits :: "string list"
  ss_bubbles :: bubble_store

type_synonym 'a session_do = "session_state \<Rightarrow> (session_state, team_error, 'a) outcome"

definition session_start :: "string \<Rightarrow> team_agent list \<Rightarrow> team_db \<Rightarrow> bubble_store \<Rightarrow> session_state" where
  "session_start team_id agents db bubbles =
     team_state.extend (teammate_manager_new team_id agents db)
       \<lparr>ss_runs = team_run_manager_new team_id, ss_loops = [], ss_permits = [], ss_bubbles = bubbles\<rparr>"

definition on_runs :: "(team_run_manager \<Rightarrow> team_run_manager \<times> 'a) \<Rightarrow> session_state \<Rightarrow> session_state \<times> 'a" where
  "on_runs f s = (case f (ss_runs s) of (m, x) \<Rightarrow> (s\<lparr>ss_runs := m\<rparr>, x))"

text \<open>A projection whose failure is only logged.\<close>

definition project_bubble :: "env \<Rightarrow> projection_request \<Rightarrow> session_state \<Rightarrow> session_state" where
  "project_bubble E q s = s\<lparr>ss_bubbles := fst (project E q (ss_bubbles s))\<rparr>"

section \<open>The registry of event loops\<close>

definition loop_has :: "string \<Rightarrow> session_state \<Rightarrow> bool" where
  "loop_has slot_id s \<longleftrightarrow> hm_contains (ss_loops s) slot_id"

text \<open>\<open>Notify::notify_one\<close> stores at most one permit.\<close>

definition loop_notify :: "string \<Rightarrow> session_state \<Rightarrow> session_state" where
  "loop_notify slot_id s =
     (if loop_has slot_id s \<and> slot_id \<notin> set (ss_permits s) then s\<lparr>ss_permits := slot_id # ss_permits s\<rparr> else s)"

definition set_phase :: "string \<Rightarrow> loop_phase \<Rightarrow> session_state \<Rightarrow> session_state" where
  "set_phase slot_id p s = (if loop_has slot_id s then s\<lparr>ss_loops := hm_insert slot_id p (ss_loops s)\<rparr> else s)"

definition loop_spawn :: "string \<Rightarrow> session_state \<Rightarrow> session_state \<times> bool" where
  "loop_spawn slot_id s =
     (if loop_has slot_id s then (s, False)
      else (s\<lparr>ss_loops := hm_insert slot_id LoopWaiting (ss_loops s)\<rparr>, True))"

text \<open>Removing a loop aborts its task, whatever its phase.\<close>

definition loop_remove :: "string \<Rightarrow> session_state \<Rightarrow> session_state" where
  "loop_remove slot_id s = s\<lparr>ss_loops := hm_remove slot_id (ss_loops s),
     ss_permits := filter (\<lambda>x. x \<noteq> slot_id) (ss_permits s)\<rparr>"

definition loop_shutdown :: "session_state \<Rightarrow> session_state" where
  "loop_shutdown s = s\<lparr>ss_loops := [], ss_permits := []\<rparr>"

section \<open>Waking\<close>

text \<open>
  \<open>role_prompt agent agents\<close> is \<open>build_lead_prompt\<close> or \<open>build_teammate_prompt\<close>, by the agent's role.
\<close>

type_synonym prompts = "team_agent \<Rightarrow> team_agent list \<Rightarrow> string"

definition compute_wake_input :: "json \<Rightarrow> prompts \<Rightarrow> string \<Rightarrow> wake_input session_do" where
  "compute_wake_input J role_prompt slot_id s =
     (case get_agent slot_id s of
        Inl e \<Rightarrow> (s, Inl e)
      | Inr agent \<Rightarrow>
          let all_unread = mailbox_peek_unread J (sc_team_id s) slot_id (sc_db s);
              unread = filter (\<lambda>m. mm_from_agent_id m \<noteq> slot_id) all_unread;
              wake_body = wake_text agent (board_list_tasks J (sc_team_id s) (sc_db s)) unread
          in case take_needs_role_prompt slot_id s of
               (s1, needs_role_prompt) \<Rightarrow>
                 let first_message = (if needs_role_prompt
                        then role_prompt agent (list_agents s1) @ newline @ newline @ wake_body else wake_body)
                 in (s1, Inr \<lparr>wi_team_run_id = active_run_id (ss_runs s1), wi_conversation_id = ag_conversation_id agent,
                       wi_first_message = first_message, wi_should_send = (unread \<noteq> []), wi_unread = unread,
                       wi_agent_role = ag_role agent\<rparr>))"

definition reserve_wake_for_team_work :: "string \<Rightarrow> team_wake_source \<Rightarrow> team_run_target_role session_do" where
  "reserve_wake_for_team_work slot_id source s =
     (case get_agent slot_id s of
        Inl e \<Rightarrow> (s, Inl e)
      | Inr agent \<Rightarrow>
          (case on_runs (record_pending_wake slot_id (target_role_for (ag_role agent)) source) s of
             (s1, Inl e) \<Rightarrow> (s1, Inl e)
           | (s1, Inr _) \<Rightarrow> (s1, Inr (target_role_for (ag_role agent)))))"

definition wake_agent_for_team_work :: "string \<Rightarrow> team_wake_source \<Rightarrow> unit session_do" where
  "wake_agent_for_team_work slot_id source s =
     and_then (reserve_wake_for_team_work slot_id source s) (\<lambda>_ s. (loop_notify slot_id s, Inr ()))"

section \<open>Messages of the user\<close>

text \<open>The part \<open>send_message\<close> and \<open>send_message_to_agent\<close> share: store, project, wake.\<close>

definition deliver_user_message :: "env \<Rightarrow> json \<Rightarrow> string \<Rightarrow> string \<Rightarrow> string \<Rightarrow> string list option
    \<Rightarrow> team_wake_source \<Rightarrow> team_run_ack \<Rightarrow> team_run_ack session_do" where
  "deliver_user_message E J slot_id conversation_id content files source a s =
     (case on_team_db (write_with_files E J (sc_team_id s) slot_id ''user'' MsgMessage content None files) s of
        (s1, Inl e) \<Rightarrow> (fst (on_runs (complete_failed E) s1), Inl e)
      | (s1, Inr m) \<Rightarrow>
          and_then (wake_agent_for_team_work slot_id source
              (project_bubble E (user_visible (sc_team_id s1) slot_id conversation_id content
                 (case files of None \<Rightarrow> [] | Some fs \<Rightarrow> fs)) s1)) (\<lambda>_ s.
          (s, Inr (a\<lparr>ack_message_id := Some (mm_id m)\<rparr>))))"

definition send_message :: "env \<Rightarrow> json \<Rightarrow> string \<Rightarrow> string list option \<Rightarrow> team_run_ack session_do" where
  "send_message E J content files s =
     (case find_lead_slot_id s of
        None \<Rightarrow> (s, Inl (AgentNotFound ''no lead agent in team''))
      | Some lead \<Rightarrow>
          (case get_agent lead s of
             Inl e \<Rightarrow> (s, Inl e)
           | Inr agent \<Rightarrow>
               and_then (on_runs (accept_user_message E lead TargetLead False None) s) (\<lambda>a.
               deliver_user_message E J lead (ag_conversation_id agent) content files UserMessage a)))"

definition send_message_to_agent :: "env \<Rightarrow> json \<Rightarrow> string \<Rightarrow> string \<Rightarrow> string list option \<Rightarrow> team_run_ack session_do" where
  "send_message_to_agent E J slot_id content files s =
     (case get_agent slot_id s of
        Inl e \<Rightarrow> (s, Inl e)
      | Inr agent \<Rightarrow>
          let source = (if active_run_id (ss_runs s) \<noteq> None then UserIntervention else UserMessage)
          in and_then (on_runs (accept_user_message E slot_id (target_role_for (ag_role agent)) (ag_role agent = Teammate) None) s)
             (\<lambda>a. deliver_user_message E J slot_id (ag_conversation_id agent) content files source a))"

end
