(* ===== verification/EventLoop.thy ===== *)
theory EventLoop
  imports TeamSession
begin

text \<open>
  One turn of an agent's event loop (\<open>event_loop.rs\<close>), the cancellations and the notices to the lead
  (\<open>session.rs\<close>), and the steps of a session. The turn port and the cancellation port belong to the
  conversation module: what they answer is an argument of the step.
\<close>

section \<open>Starting a turn\<close>

definition mirror_request :: "session_state \<Rightarrow> wake_input \<Rightarrow> mailbox_message \<Rightarrow> projection_request" where
  "mirror_request s input m =
     (let sender = find (\<lambda>a. ag_slot_id a = mm_from_agent_id m) (list_agents s);
          sender_name = (case sender of None \<Rightarrow> mm_from_agent_id m | Some a \<Rightarrow> ag_name a);
          display_content = (if length (wi_unread input) > 1 then ''['' @ sender_name @ ''] '' @ mm_content m else mm_content m)
      in \<lparr>pq_team_id = sc_team_id s, pq_slot_id = mm_to_agent_id m, pq_conversation_id = wi_conversation_id input,
          pq_source = ProjTeammate (mm_from_agent_id m) sender_name (map_option ag_backend sender)
            (map_option ag_conversation_id sender),
          pq_content = display_content, pq_files = (case mm_files m of None \<Rightarrow> [] | Some fs \<Rightarrow> fs),
          pq_visibility = teammate_message_policy,
          pq_dedupe_key = Some (teammate_dedupe_key (sc_team_id s) (mm_id m) (wi_conversation_id input))\<rparr>)"

definition mirror_unread_to_conversation :: "env \<Rightarrow> wake_input \<Rightarrow> session_state \<Rightarrow> session_state" where
  "mirror_unread_to_conversation E input s =
     fold (\<lambda>m s. if mm_from_agent_id m = ''user'' then s else project_bubble E (mirror_request s input m) s)
       (wi_unread input) s"

record agent_turn_request =
  tq_team_run_id :: "string option"
  tq_team_id :: string
  tq_slot_id :: string
  tq_role :: team_run_target_role
  tq_conversation_id :: string
  tq_content :: string
  tq_files :: "string list"
  tq_unread_message_ids :: "string list"
  tq_reports_start :: bool

definition turn_request :: "string \<Rightarrow> wake_input \<Rightarrow> starting_child_reservation option \<Rightarrow> session_state \<Rightarrow> agent_turn_request" where
  "turn_request slot_id input reservation s =
     \<lparr>tq_team_run_id = wi_team_run_id input, tq_team_id = sc_team_id s, tq_slot_id = slot_id,
      tq_role = target_role_for (wi_agent_role input), tq_conversation_id = wi_conversation_id input,
      tq_content = wi_first_message input,
      tq_files = concat (List.map_filter mm_files (wi_unread input)),
      tq_unread_message_ids = map mm_id (wi_unread input), tq_reports_start = (reservation \<noteq> None)\<rparr>"

definition start_turn :: "env \<Rightarrow> string \<Rightarrow> wake_input \<Rightarrow> starting_child_reservation option \<Rightarrow> session_state
    \<Rightarrow> session_state \<times> agent_turn_request option" where
  "start_turn E slot_id input reservation s =
     (let s1 = mirror_unread_to_conversation E input s;
          s2 = fst (set_agent_status slot_id Working s1)
      in (set_phase slot_id (LoopTurn input reservation False) s2, Some (turn_request slot_id input reservation s2)))"

text \<open>\<open>execute_turn\<close> up to the call of the turn port, with the request it is called with.\<close>

definition execute_turn :: "env \<Rightarrow> string \<Rightarrow> wake_input \<Rightarrow> session_state \<Rightarrow> session_state \<times> agent_turn_request option" where
  "execute_turn E slot_id input s =
     (if wi_team_run_id input \<noteq> None
      then (case on_runs (claim_wake_for_turn E slot_id (target_role_for (wi_agent_role input)) (wi_conversation_id input)) s of
              (s1, Some reservation) \<Rightarrow> start_turn E slot_id input (Some reservation) s1
            | (s1, None) \<Rightarrow> (set_phase slot_id LoopWaiting (fst (set_agent_status slot_id Idle s1)), None))
      else start_turn E slot_id input None s)"

text \<open>One round of the drain loop.\<close>

definition drain :: "env \<Rightarrow> json \<Rightarrow> prompts \<Rightarrow> string \<Rightarrow> session_state \<Rightarrow> session_state \<times> agent_turn_request option" where
  "drain E J role_prompt slot_id s =
     (case compute_wake_input J role_prompt slot_id s of
        (s1, Inl _) \<Rightarrow> (set_phase slot_id LoopWaiting s1, None)
      | (s1, Inr input) \<Rightarrow>
          if \<not> wi_should_send input
          then (set_phase slot_id LoopWaiting (fst (on_runs (record_empty_wake_observed E slot_id) s1)), None)
          else execute_turn E slot_id input s1)"

definition take_permit :: "string \<Rightarrow> session_state \<Rightarrow> session_state" where
  "take_permit slot_id s =
     (if slot_id \<in> set (ss_permits s)
      then set_phase slot_id LoopDraining (s\<lparr>ss_permits := filter (\<lambda>x. x \<noteq> slot_id) (ss_permits s)\<rparr>) else s)"

section \<open>During and after a turn\<close>

text \<open>The callback \<open>on_started\<close>, called by the turn port.\<close>

definition turn_started :: "env \<Rightarrow> string \<Rightarrow> active_child_turn \<Rightarrow> session_state \<Rightarrow> session_state" where
  "turn_started E slot_id child s =
     (case hm_get (ss_loops s) slot_id of
        Some (LoopTurn input (Some reservation) started_seen) \<Rightarrow>
          (case on_runs (record_child_started E (sr_reservation_id reservation) child)
                 (set_phase slot_id (LoopTurn input (Some reservation) True) s) of
             (s1, CancelImmediately child) \<Rightarrow>
               fst (on_runs (try_complete_cancelled E) (s1\<lparr>ss_runs := record_child_cancelled E child (ss_runs s1)\<rparr>))
           | (s1, _) \<Rightarrow> s1)
      | _ \<Rightarrow> s)"

datatype turn_status = TurnCompleted | TurnFailed | TurnSkipped

record turn_execution =
  tx_finish_ok :: bool
  tx_team_run_id :: "string option"
  tx_turn_id :: "string option"

definition loop_finalize_turn :: "env \<Rightarrow> json \<Rightarrow> string \<Rightarrow> turn_execution \<Rightarrow> session_state \<Rightarrow> session_state" where
  "loop_finalize_turn E J slot_id turn s =
     (let s1 = (if \<not> tx_finish_ok turn then fst (set_agent_status slot_id StatusError s) else s);
          s2 = (case finalize_turn E J slot_id [] s1 of
                  (s2, Inr (Some wake_target)) \<Rightarrow>
                    if wake_target \<noteq> slot_id then fst (wake_agent_for_team_work wake_target IdleNotification s2) else s2
                | (s2, _) \<Rightarrow> s2)
      in case (tx_team_run_id turn, tx_turn_id turn) of
           (Some _, Some turn_id) \<Rightarrow>
             fst (on_runs (maybe_complete E) (fst (on_runs (record_child_completed E slot_id turn_id
               (if tx_finish_ok turn then RunCompleted else Failed)) s2)))
         | _ \<Rightarrow> s2)"

text \<open>The rest of \<open>execute_turn\<close> with the port's answer, and the finalization; the loop drains again.\<close>

definition turn_answered :: "env \<Rightarrow> json \<Rightarrow> string \<Rightarrow> string + (string \<times> turn_status) \<Rightarrow> session_state \<Rightarrow> session_state" where
  "turn_answered E J slot_id answer s =
     (case hm_get (ss_loops s) slot_id of
        Some (LoopTurn input reservation started_seen) \<Rightarrow>
          set_phase slot_id LoopDraining
            (case answer of
               Inl e \<Rightarrow>
                 let s1 = (case (wi_team_run_id input, reservation) of
                       (Some _, Some r) \<Rightarrow>
                         if started_seen then fst (on_runs (complete_failed E) s)
                         else fst (on_runs (record_child_start_failed E (sr_reservation_id r)) s)
                     | _ \<Rightarrow> s)
                 in loop_finalize_turn E J slot_id
                      \<lparr>tx_finish_ok = False, tx_team_run_id = wi_team_run_id input, tx_turn_id = None\<rparr> s1
             | Inr (turn_id, status) \<Rightarrow>
                 let ids = map mm_id (wi_unread input);
                     s1 = (if ids \<noteq> [] then s\<lparr>sc_db := mark_read_batch ids (sc_db s)\<rparr> else s)
                 in loop_finalize_turn E J slot_id
                      \<lparr>tx_finish_ok = (status = TurnCompleted), tx_team_run_id = wi_team_run_id input, tx_turn_id = Some turn_id\<rparr> s1)
      | _ \<Rightarrow> s)"

text \<open>\<open>on_agent_finish\<close>, for a finish or error event of a conversation\<close>

definition on_agent_finish :: "env \<Rightarrow> json \<Rightarrow> int \<Rightarrow> string \<Rightarrow> bool \<Rightarrow> string option session_do" where
  "on_agent_finish E J now conversation_id is_error s =
     (case begin_finalize now conversation_id s of
        (s, False) \<Rightarrow> (s, Inr None)
      | (s, True) \<Rightarrow>
          (case find (\<lambda>a. ag_conversation_id a = conversation_id) (list_agents s) of
             None \<Rightarrow> (s, Inl (AgentNotFound (''no agent with conversation_id='' @ conversation_id)))
           | Some agent \<Rightarrow>
               let slot_id = ag_slot_id agent
               in and_then (if is_error then set_agent_status slot_id StatusError s else (s, Inr ())) (\<lambda>_ s.
                  and_then (finalize_turn E J slot_id [] s) (\<lambda>wake_target s.
                  let s1 = clear_finalized_turn conversation_id s
                  in (s1, Inr (if wake_target \<noteq> Some slot_id \<and> has_unread (sc_team_id s1) slot_id (sc_db s1)
                               then Some slot_id else wake_target))))))"

section \<open>Cancelling\<close>

text \<open>The loop over the active child turns of \<open>cancel_run\<close>; what the cancellation port answers is only logged.\<close>

definition cancel_children :: "env \<Rightarrow> active_child_turn list \<Rightarrow> session_state \<Rightarrow> session_state" where
  "cancel_children E children s = fold (\<lambda>child s. s\<lparr>ss_runs := record_child_cancelled E child (ss_runs s)\<rparr>) children s"

definition cancel_run :: "env \<Rightarrow> json \<Rightarrow> string \<Rightarrow> string option \<Rightarrow> string option \<Rightarrow> unit session_do" where
  "cancel_run E J team_run_id target_slot_id reason s =
     (case current_run_id (ss_runs s) of
        None \<Rightarrow> (s, Inl (InvalidRequest ''no active team run to cancel''))
      | Some current \<Rightarrow>
          if current \<noteq> team_run_id then (s, Inl (InvalidRequest (''team run '' @ team_run_id @ '' is not active'')))
          else and_then (on_runs (begin_cancel target_slot_id reason) s) (\<lambda>_ s.
            let agent_ids = map ag_slot_id (list_agents s);
                s1 = s\<lparr>sc_db := fst (mark_all_unread_for_agents_read J (sc_team_id s) agent_ids (sc_db s))\<rparr>;
                s2 = cancel_children E (active_child_turns (ss_runs s1)) s1
            in (fst (on_runs (try_complete_cancelled E) s2), Inr ())))"

definition notify_leader_child_interrupted :: "env \<Rightarrow> json \<Rightarrow> string \<Rightarrow> string option \<Rightarrow> unit session_do" where
  "notify_leader_child_interrupted E J slot_id reason s =
     (case find_lead_slot_id s of
        None \<Rightarrow> (s, Inr ())
      | Some lead \<Rightarrow>
          and_then (post E J lead slot_id MsgIdleNotification
              (case reason of Some r \<Rightarrow> r | None \<Rightarrow> ''Agent '' @ slot_id @ '' was interrupted by the user.'')
              (Some ''Interrupted by user'') s) (\<lambda>_.
          wake_agent_for_team_work lead InterruptedNotification))"

text \<open>\<open>port_ok\<close> is the cancellation port's answer, an error with its text.\<close>

definition cancel_child_turn :: "env \<Rightarrow> json \<Rightarrow> string \<Rightarrow> string \<Rightarrow> string option \<Rightarrow> string + unit \<Rightarrow> unit session_do" where
  "cancel_child_turn E J team_run_id slot_id reason port s =
     and_then (on_runs (begin_cancel_child slot_id) s) (\<lambda>target s.
       case target of
         CancelActive child \<Rightarrow>
           if ac_team_run_id child \<noteq> team_run_id
           then (s, Inl (InvalidRequest (''agent '' @ slot_id @ '' is not active in team run '' @ team_run_id)))
           else (case port of
             Inl e \<Rightarrow> (s, Inl (InvalidRequest e))
           | Inr _ \<Rightarrow>
               let s1 = s\<lparr>ss_runs := record_child_cancelled E child (ss_runs s)\<rparr>
               in if ac_role child = TargetTeammate then notify_leader_child_interrupted E J slot_id reason s1
                  else (fst (on_runs (maybe_complete E) s1), Inr ()))
       | CancelStarting reservation \<Rightarrow>
           if sr_team_run_id reservation \<noteq> team_run_id
           then (s, Inl (InvalidRequest (''agent '' @ slot_id @ '' is not starting in team run '' @ team_run_id)))
           else and_then (if sr_role reservation = TargetTeammate then notify_leader_child_interrupted E J slot_id reason s
                          else (s, Inr ())) (\<lambda>_ s.
                (fst (on_runs (try_complete_cancelled E) s), Inr ())))"

section \<open>Notices to the lead, joining and leaving\<close>

definition notify_leader_spawn_attach_failed :: "env \<Rightarrow> json \<Rightarrow> string \<Rightarrow> string \<Rightarrow> unit session_do" where
  "notify_leader_spawn_attach_failed E J failed_slot_id err s =
     (case find_lead_slot_id s of
        None \<Rightarrow> (s, Inl (AgentNotFound ''lead''))
      | Some lead \<Rightarrow>
          and_then (post E J lead failed_slot_id MsgMessage
              (''Spawned teammate '' @ failed_slot_id @ '' failed to attach its runtime. Error: '' @ err) None s) (\<lambda>_.
          wake_agent_for_team_work lead SpawnAttachFailure))"

definition wake_leader_after_recovery_message :: "team_wake_source \<Rightarrow> unit session_do" where
  "wake_leader_after_recovery_message source s =
     (case find_lead_slot_id s of
        None \<Rightarrow> (s, Inl (AgentNotFound ''lead''))
      | Some lead \<Rightarrow>
          if active_run_id (ss_runs s) \<noteq> None then wake_agent_for_team_work lead source s else (s, Inr ()))"

definition session_remove_agent :: "string \<Rightarrow> unit session_do" where
  "session_remove_agent slot_id s = and_then (sched_remove_agent slot_id (loop_remove slot_id s)) (\<lambda>_ s. (s, Inr ()))"

section \<open>Steps of a session\<close>

datatype session_op =
    SessSend string "string list option"
  | SessSendTo string string "string list option"
  | SessWake string team_wake_source
  | SessRestoreDrain string
  | SessTakePermit string
  | SessDrain string
  | SessTurnStarted string active_child_turn
  | SessTurnAnswered string "string + (string \<times> turn_status)"
  | SessAgentFinish int string bool
  | SessCancelRun string "string option" "string option"
  | SessCancelChild string string "string option" "string + unit"
  | SessAttachFailed string string
  | SessRecovery team_wake_source
  | SessAct string scheduler_action
  | SessCrash string crash_reason "string option"
  | SessInactive string
  | SessShutdownRejected string string
  | SessSpawnLoop string
  | SessAdd team_agent
  | SessRemove string

fun session_step :: "env \<Rightarrow> json \<Rightarrow> prompts \<Rightarrow> session_op \<Rightarrow> session_state \<Rightarrow> session_state" where
  "session_step E J R (SessSend content files) s = fst (send_message E J content files s)"
| "session_step E J R (SessSendTo slot content files) s = fst (send_message_to_agent E J slot content files s)"
| "session_step E J R (SessWake slot source) s = fst (wake_agent_for_team_work slot source s)"
| "session_step E J R (SessRestoreDrain slot) s = loop_notify slot s"
| "session_step E J R (SessTakePermit slot) s =
     (if hm_get (ss_loops s) slot = Some LoopWaiting then take_permit slot s else s)"
| "session_step E J R (SessDrain slot) s =
     (if hm_get (ss_loops s) slot = Some LoopDraining then fst (drain E J R slot s) else s)"
| "session_step E J R (SessTurnStarted slot child) s = turn_started E slot child s"
| "session_step E J R (SessTurnAnswered slot answer) s = turn_answered E J slot answer s"
| "session_step E J R (SessAgentFinish now conv is_error) s = fst (on_agent_finish E J now conv is_error s)"
| "session_step E J R (SessCancelRun run target reason) s = fst (cancel_run E J run target reason s)"
| "session_step E J R (SessCancelChild run slot reason port) s = fst (cancel_child_turn E J run slot reason port s)"
| "session_step E J R (SessAttachFailed slot err) s = fst (notify_leader_spawn_attach_failed E J slot err s)"
| "session_step E J R (SessRecovery source) s = fst (wake_leader_after_recovery_message source s)"
| "session_step E J R (SessAct slot a) s = fst (execute_action E J slot a s)"
| "session_step E J R (SessCrash slot reason last_msg) s = fst (handle_agent_crash E J slot reason last_msg s)"
| "session_step E J R (SessInactive slot) s = fst (handle_inactivity_timeout E J slot s)"
| "session_step E J R (SessShutdownRejected slot reason) s = fst (notify_shutdown_rejected E J slot reason s)"
| "session_step E J R (SessSpawnLoop slot) s = fst (loop_spawn slot s)"
| "session_step E J R (SessAdd a) s = add_agent a s"
| "session_step E J R (SessRemove slot) s = fst (session_remove_agent slot s)"

end
