(* ===== verification/EventLoopFacts.thy ===== *)
theory EventLoopFacts
  imports EventLoop TeamRunProperties
begin

text \<open>
  What the operations of a session leave alone: the scheduler's operations touch neither the run manager nor
  the event loops, and mark nothing as read; every operation drives the run manager by its own operations.
\<close>

section \<open>Nothing is read by writing\<close>

definition read_ids :: "team_db \<Rightarrow> string set" where
  "read_ids db = mr_id ` {r \<in> set (tb_mailbox db). mr_read r}"

lemma read_ids_cong: "tb_mailbox db' = tb_mailbox db \<Longrightarrow> read_ids db' = read_ids db"
  by (simp add: read_ids_def)

lemma read_ids_write_with_files [simp]:
  "read_ids (fst (write_with_files E J team to_id from_id ty content summary files db)) = read_ids db"
  by (auto simp: write_with_files_def Let_def read_ids_def write_message_def message_row_def map_err_def
      split: option.splits)

lemma read_ids_marked: "read_ids (mark_read_batch ids db) \<subseteq> read_ids db \<union> set ids"
  by (auto simp: read_ids_def tb_mailbox_mark_read_batch split: if_splits)

lemma mailbox_for_each:
  assumes "\<And>x s. tb_mailbox (fst (f x s)) = tb_mailbox s"
  shows "tb_mailbox (fst (for_each f xs db)) = tb_mailbox db"
  by (rule fst_for_each_inv [where P="\<lambda>s. tb_mailbox s = tb_mailbox db"]) (simp_all add: assms)

lemma board_rows_mailbox:
  "tb_mailbox (fst (append_to_blocks E J i j s)) = tb_mailbox s"
  "tb_mailbox (fst (remove_from_blocked_by E J i j s)) = tb_mailbox s"
  "tb_mailbox (fst (create_board_task row s)) = tb_mailbox s"
  "tb_mailbox (fst (update_board_row E i p s)) = tb_mailbox s"
  by (auto simp: append_to_blocks_def remove_from_blocked_by_def create_board_task_def update_board_row_def Let_def
      split: option.splits)

lemma read_back_same [simp]: "fst (read_back J row s) = s"
  by (simp add: read_back_def split: option.splits)

lemmas mailbox_seq = fst_and_then_inv [where P="\<lambda>s. tb_mailbox s = tb_mailbox db" for db]

lemma board_mailbox:
  "tb_mailbox (fst (create_task_on_board E J team subject d ow bs db)) = tb_mailbox db"
  "tb_mailbox (fst (check_unblocks E J i row db)) = tb_mailbox db"
  "tb_mailbox (fst (update_task_on_board E J team i u db)) = tb_mailbox db"
  unfolding create_task_on_board_def check_unblocks_def update_task_on_board_def Let_def
  by (auto simp: board_rows_mailbox mailbox_for_each intro!: mailbox_seq split: sum.splits option.splits)

section \<open>The scheduler leaves the session's own parts alone\<close>

definition sched_same :: "session_state \<Rightarrow> session_state \<Rightarrow> bool" where
  "sched_same s s' \<longleftrightarrow> ss_runs s' = ss_runs s \<and> ss_loops s' = ss_loops s \<and> ss_permits s' = ss_permits s \<and>
     sc_team_id s' = sc_team_id s \<and> read_ids (sc_db s') = read_ids (sc_db s)"

lemma sched_same_refl [simp]: "sched_same s s"
  by (simp add: sched_same_def)

lemma sched_same_trans: "sched_same a b \<Longrightarrow> sched_same b c \<Longrightarrow> sched_same a c"
  by (simp add: sched_same_def)

lemma set_agent_status_same: "sched_same s0 s \<Longrightarrow> sched_same s0 (fst (set_agent_status slot st s))"
  by (simp add: set_agent_status_def sched_same_def emit_def Let_def split: option.splits)

lemma on_team_db_same:
  "sched_same s0 s \<Longrightarrow> read_ids (fst (f (sc_db s))) = read_ids (sc_db s) \<Longrightarrow> sched_same s0 (fst (on_team_db f s))"
  by (cases "f (sc_db s)") (simp add: on_team_db_def sched_same_def)

lemmas same_seq = fst_and_then_inv [where P="sched_same s0" for s0]

lemma post_same: "sched_same s0 s \<Longrightarrow> sched_same s0 (fst (post E J a b ty c m s))"
  unfolding post_def mailbox_write_def by (auto intro!: same_seq on_team_db_same)

lemma wakes_same:
  "sched_same s0 s \<Longrightarrow> sched_same s0 (release_wake_lock slot s)"
  "sched_same s0 s \<Longrightarrow> sched_same s0 (clear_wake_timeout slot s)"
  "sched_same s0 s \<Longrightarrow> sched_same s0 (clear_finalized_turn conv s)"
  "sched_same s0 s \<Longrightarrow> sched_same s0 (fst (begin_finalize now conv s))"
  "sched_same s0 s \<Longrightarrow> sched_same s0 (fst (take_needs_role_prompt slot s))"
  "sched_same s0 s \<Longrightarrow> sched_same s0 (add_agent a s)"
  by (simp_all add: release_wake_lock_def clear_wake_timeout_def clear_finalized_turn_def begin_finalize_def
      take_needs_role_prompt_def add_agent_def emit_def sched_same_def Let_def split: option.splits)

lemma mark_idle_same: "sched_same s0 s \<Longrightarrow> sched_same s0 (fst (mark_idle E J slot summary s))"
  unfolding mark_idle_def by (auto intro!: same_seq post_same set_agent_status_same split: sum.splits option.splits)

lemma rename_same: "sched_same s0 s \<Longrightarrow> sched_same s0 (fst (rename_agent slot n s))"
  by (simp add: rename_agent_def sched_same_def emit_def Let_def split: option.splits)

lemma send_same: "sched_same s0 s \<Longrightarrow> sched_same s0 (fst (handle_send_message E J a b m s))"
  unfolding handle_send_message_def
  by (auto intro!: post_same fst_for_each_inv [where P="sched_same s0"])

lemma shutdown_same: "sched_same s0 s \<Longrightarrow> sched_same s0 (fst (handle_shutdown_agent E J a b m s))"
  unfolding handle_shutdown_agent_def by (auto intro!: post_same split: sum.splits)

lemma execute_action_same: "sched_same s0 s \<Longrightarrow> sched_same s0 (fst (execute_action E J slot a s))"
  by (cases a) (auto intro!: same_seq send_same shutdown_same rename_same mark_idle_same on_team_db_same
      read_ids_cong simp: board_mailbox)

lemma run_actions_same: "sched_same s0 s \<Longrightarrow> sched_same s0 (fst (run_actions E J slot as summary s))"
  by (induction E J slot as summary s rule: run_actions.induct)
    (auto intro!: same_seq execute_action_same simp del: execute_action.simps)

lemma finalize_turn_same: "sched_same s0 s \<Longrightarrow> sched_same s0 (fst (finalize_turn E J slot as s))"
  unfolding finalize_turn_def by (auto intro!: same_seq run_actions_same mark_idle_same)

lemma crash_same:
  "sched_same s0 s \<Longrightarrow> sched_same s0 (fst (handle_agent_crash E J slot reason m s))"
  "sched_same s0 s \<Longrightarrow> sched_same s0 (fst (handle_inactivity_timeout E J slot s))"
  "sched_same s0 s \<Longrightarrow> sched_same s0 (fst (notify_shutdown_rejected E J slot why s))"
  unfolding handle_agent_crash_def write_crash_testament_def handle_inactivity_timeout_def notify_shutdown_rejected_def Let_def
  by (auto intro!: same_seq post_same set_agent_status_same wakes_same split: sum.splits option.splits)

section \<open>What every operation of a session keeps\<close>

text \<open>
  The run manager got from \<open>m0\<close> by its own operations, what is read lies in \<open>R\<close>, and the turns that run were
  asked for with messages of \<open>A\<close>.
\<close>

definition runs_from :: "env \<Rightarrow> team_run_manager \<Rightarrow> team_run_manager \<Rightarrow> bool" where
  "runs_from E m0 m \<longleftrightarrow> (\<exists>xs. m = fold (run_step E) xs m0)"

lemma runs_from_refl [simp]: "runs_from E m m"
  unfolding runs_from_def by (rule exI [of _ "[]"]) simp

lemma runs_from_step: "runs_from E m0 m \<Longrightarrow> runs_from E m0 (run_step E x m)"
  unfolding runs_from_def by (metis fold_append fold_simps comp_apply)

lemmas runs_from_steps = runs_from_step [where x="OpAccept a b c d" for a b c d, simplified]
  runs_from_step [where x="OpPendingWake a b c" for a b c, simplified] runs_from_step [where x="OpClaim a b c" for a b c, simplified]
  runs_from_step [where x="OpEmptyWake a" for a, simplified] runs_from_step [where x="OpChildStarted a b" for a b, simplified]
  runs_from_step [where x="OpStartFailed a" for a, simplified] runs_from_step [where x="OpChildCompleted a b c" for a b c, simplified]
  runs_from_step [where x=OpMaybeComplete, simplified] runs_from_step [where x="OpBeginCancel a b" for a b, simplified]
  runs_from_step [where x=OpTryCompleteCancelled, simplified] runs_from_step [where x=OpCompleteFailed, simplified]
  runs_from_step [where x="OpCancelChild a" for a, simplified] runs_from_step [where x="OpChildCancelled a" for a, simplified]

definition session_ok :: "env \<Rightarrow> team_run_manager \<Rightarrow> string set \<Rightarrow> string set \<Rightarrow> session_state \<Rightarrow> bool" where
  "session_ok E m0 R A s \<longleftrightarrow> runs_from E m0 (ss_runs s) \<and> read_ids (sc_db s) \<subseteq> R \<and>
     (\<forall>slot input r b. hm_get (ss_loops s) slot = Some (LoopTurn input r b) \<longrightarrow> mm_id ` set (wi_unread input) \<subseteq> A)"

lemma session_ok_same: "sched_same s s' \<Longrightarrow> session_ok E m0 R A s \<Longrightarrow> session_ok E m0 R A s'"
  by (simp add: session_ok_def sched_same_def)

lemma session_ok_mono: "session_ok E m0 R A s \<Longrightarrow> R \<subseteq> R' \<Longrightarrow> A \<subseteq> A' \<Longrightarrow> session_ok E m0 R' A' s"
  unfolding session_ok_def by (meson order_trans)

lemmas ok_seq = fst_and_then_inv [where P="session_ok E m0 R A" for E m0 R A]

lemma on_runs_ok:
  assumes "session_ok E m0 R A s" and "\<And>m. runs_from E m0 m \<Longrightarrow> runs_from E m0 (fst (f m))"
  shows "session_ok E m0 R A (fst (on_runs f s))"
  using assms by (cases "f (ss_runs s)") (force simp: on_runs_def session_ok_def)

lemma set_runs_ok:
  assumes "session_ok E m0 R A s" and "\<And>m. runs_from E m0 m \<Longrightarrow> runs_from E m0 (f m)"
  shows "session_ok E m0 R A (s\<lparr>ss_runs := f (ss_runs s)\<rparr>)"
  using assms by (simp add: session_ok_def)

lemma loops_ok:
  "session_ok E m0 R A s \<Longrightarrow> session_ok E m0 R A (loop_notify slot s)"
  "session_ok E m0 R A s \<Longrightarrow> session_ok E m0 R A (fst (loop_spawn slot s))"
  "session_ok E m0 R A s \<Longrightarrow> session_ok E m0 R A (loop_remove slot s)"
  "session_ok E m0 R A s \<Longrightarrow> session_ok E m0 R A (set_phase slot LoopWaiting s)"
  "session_ok E m0 R A s \<Longrightarrow> session_ok E m0 R A (set_phase slot LoopDraining s)"
  "session_ok E m0 R A s \<Longrightarrow> session_ok E m0 R A (take_permit slot s)"
  "session_ok E m0 R A s \<Longrightarrow> mm_id ` set (wi_unread input) \<subseteq> A \<Longrightarrow> session_ok E m0 R A (set_phase slot (LoopTurn input r b) s)"
  by (auto simp: session_ok_def loop_notify_def loop_spawn_def loop_remove_def set_phase_def take_permit_def loop_has_def
      hm_get_insert hm_get_remove split: if_splits)

lemma bubbles_ok [simp]: "session_ok E m0 R A (project_bubble E q s) = session_ok E m0 R A s"
  by (simp add: project_bubble_def session_ok_def)

text \<open>Each operation of the scheduler keeps it.\<close>

lemmas sched_ok = set_agent_status_same [OF sched_same_refl, THEN session_ok_same]
  post_same [OF sched_same_refl, THEN session_ok_same] wakes_same [OF sched_same_refl, THEN session_ok_same]
  mark_idle_same [OF sched_same_refl, THEN session_ok_same] rename_same [OF sched_same_refl, THEN session_ok_same]
  execute_action_same [OF sched_same_refl, THEN session_ok_same] finalize_turn_same [OF sched_same_refl, THEN session_ok_same]
  crash_same [OF sched_same_refl, THEN session_ok_same]

lemma write_ok: "session_ok E m0 R A s \<Longrightarrow> session_ok E m0 R A
    (fst (on_team_db (write_with_files E J team slot from_id ty content summary files) s))"
  by (rule session_ok_same [OF on_team_db_same [OF sched_same_refl]]) simp_all

lemma marked_ok: "session_ok E m0 R A s \<Longrightarrow> set ids \<subseteq> R \<Longrightarrow> session_ok E m0 R A (s\<lparr>sc_db := mark_read_batch ids (sc_db s)\<rparr>)"
  using read_ids_marked [of ids "sc_db s"] by (auto simp: session_ok_def)

lemma fst_case_outcome [simp]:
  "fst (case r of (s1, Inl e) \<Rightarrow> (s1, Inl e) | (s1, Inr y) \<Rightarrow> (s1, Inr x)) = fst r"
  by (cases r; cases "snd r") auto

lemma reserve_ok: "session_ok E m0 R A s \<Longrightarrow> session_ok E m0 R A (fst (reserve_wake_for_team_work slot src s))"
  by (auto simp: reserve_wake_for_team_work_def intro!: on_runs_ok runs_from_steps split: sum.splits)

lemma wake_ok: "session_ok E m0 R A s \<Longrightarrow> session_ok E m0 R A (fst (wake_agent_for_team_work slot src s))"
  unfolding wake_agent_for_team_work_def by (auto intro!: ok_seq reserve_ok loops_ok)

section \<open>The operations\<close>

lemma deliver_ok:
  assumes "session_ok E m0 R A s"
  shows "session_ok E m0 R A (fst (deliver_user_message E J slot conv content files src a s))"
proof -
  let ?r = "on_team_db (write_with_files E J (sc_team_id s) slot ''user'' MsgMessage content None files) s"
  have ok: "session_ok E m0 R A (fst ?r)"
    using assms by (rule write_ok)
  show ?thesis
  proof (cases ?r)
    case (Pair s1 v)
    with ok have "session_ok E m0 R A s1" by simp
    with Pair show ?thesis
      by (cases v) (auto simp: deliver_user_message_def intro!: ok_seq wake_ok on_runs_ok runs_from_steps)
  qed
qed

lemma send_ok:
  "session_ok E m0 R A s \<Longrightarrow> session_ok E m0 R A (fst (send_message E J content files s))"
  "session_ok E m0 R A s \<Longrightarrow> session_ok E m0 R A (fst (send_message_to_agent E J slot content files s))"
  unfolding send_message_def send_message_to_agent_def Let_def
  by (auto intro!: ok_seq deliver_ok on_runs_ok runs_from_steps split: option.splits sum.splits)

lemma mirror_ok [simp]: "session_ok E m0 R A (mirror_unread_to_conversation E input s) = session_ok E m0 R A s"
proof -
  have "session_ok E m0 R A (fold (\<lambda>m s. if mm_from_agent_id m = ''user'' then s
      else project_bubble E (mirror_request s input m) s) ms s) = session_ok E m0 R A s" for ms
    by (induction ms arbitrary: s) auto
  then show ?thesis by (simp add: mirror_unread_to_conversation_def)
qed

lemma start_turn_ok:
  "session_ok E m0 R A s \<Longrightarrow> mm_id ` set (wi_unread input) \<subseteq> A \<Longrightarrow> session_ok E m0 R A (fst (start_turn E slot input r s))"
  by (auto simp: start_turn_def Let_def intro!: loops_ok sched_ok)

lemma finalize_loop_ok: "session_ok E m0 R A s \<Longrightarrow> session_ok E m0 R A (loop_finalize_turn E J slot turn s)"
proof -
  assume ok: "session_ok E m0 R A s"
  let ?s1 = "if \<not> tx_finish_ok turn then fst (set_agent_status slot StatusError s) else s"
  have "session_ok E m0 R A ?s1" using ok by (auto intro!: sched_ok)
  then have "session_ok E m0 R A (fst (finalize_turn E J slot [] ?s1))"
    by (rule sched_ok)
  then show ?thesis
    by (cases "finalize_turn E J slot [] ?s1")
      (auto simp: loop_finalize_turn_def Let_def intro!: wake_ok on_runs_ok runs_from_steps
        split: sum.splits option.splits)
qed

lemma session_ok_turn:
  "session_ok E m0 R A s \<Longrightarrow> hm_get (ss_loops s) slot = Some (LoopTurn input r b) \<Longrightarrow> mm_id ` set (wi_unread input) \<subseteq> A"
  unfolding session_ok_def by blast

lemma start_decision_ok:
  assumes "session_ok E m0 R A (fst r)"
  shows "session_ok E m0 R A (case r of
      (s1, CancelImmediately child) \<Rightarrow>
        fst (on_runs (try_complete_cancelled E) (s1\<lparr>ss_runs := record_child_cancelled E child (ss_runs s1)\<rparr>))
    | (s1, _) \<Rightarrow> s1)"
  using assms by (cases r; cases "snd r") (auto intro!: on_runs_ok set_runs_ok runs_from_steps)

lemma turn_started_ok: "session_ok E m0 R A s \<Longrightarrow> session_ok E m0 R A (turn_started E slot child s)"
  unfolding turn_started_def
  by (auto intro!: start_decision_ok on_runs_ok loops_ok runs_from_steps split: option.split loop_phase.split
      dest: session_ok_turn)

text \<open>The ids that an answer of the turn port marks as read.\<close>

definition answered_ids :: "string \<Rightarrow> string + (string \<times> turn_status) \<Rightarrow> session_state \<Rightarrow> string list" where
  "answered_ids slot answer s =
     (case (answer, hm_get (ss_loops s) slot) of
        (Inr _, Some (LoopTurn input _ _)) \<Rightarrow> map mm_id (wi_unread input)
      | _ \<Rightarrow> [])"

lemma turn_answered_ok:
  assumes ok: "session_ok E m0 R A s" and ids: "set (answered_ids slot answer s) \<subseteq> R"
  shows "session_ok E m0 R A (turn_answered E J slot answer s)"
proof (cases "\<exists>input r b. hm_get (ss_loops s) slot = Some (LoopTurn input r b)")
  case True
  then obtain input r b where turn: "hm_get (ss_loops s) slot = Some (LoopTurn input r b)" by blast
  show ?thesis
  proof (cases answer)
    case (Inl e)
    with turn ok show ?thesis
      by (auto simp: turn_answered_def Let_def intro!: loops_ok finalize_loop_ok on_runs_ok runs_from_steps split: option.split)
  next
    case (Inr v)
    with turn ids have "set (map mm_id (wi_unread input)) \<subseteq> R" by (simp add: answered_ids_def)
    with turn Inr ok show ?thesis
      by (cases v) (simp add: turn_answered_def Let_def loops_ok finalize_loop_ok marked_ok)
  qed
qed (use ok in \<open>auto simp: turn_answered_def split: option.split loop_phase.split\<close>)

lemma notices_ok:
  assumes "session_ok E m0 R A s"
  shows "session_ok E m0 R A (fst (notify_leader_child_interrupted E J slot reason s))"
    and "session_ok E m0 R A (fst (notify_leader_spawn_attach_failed E J slot err s))"
    and "session_ok E m0 R A (fst (wake_leader_after_recovery_message src s))"
  unfolding notify_leader_child_interrupted_def notify_leader_spawn_attach_failed_def wake_leader_after_recovery_message_def
  using assms by (auto intro!: ok_seq sched_ok wake_ok split: option.splits)

lemma cancel_child_ok: "session_ok E m0 R A s \<Longrightarrow> session_ok E m0 R A (fst (cancel_child_turn E J run slot reason port s))"
  unfolding cancel_child_turn_def Let_def
  by (rule ok_seq)
    (auto intro!: on_runs_ok runs_from_steps ok_seq notices_ok set_runs_ok split: child_cancel_target.splits sum.splits)

lemma cancel_children_ok: "session_ok E m0 R A s \<Longrightarrow> session_ok E m0 R A (cancel_children E children s)"
  unfolding cancel_children_def
  by (induction children arbitrary: s) (simp_all add: set_runs_ok runs_from_steps)

lemma on_agent_finish_ok: "session_ok E m0 R A s \<Longrightarrow> session_ok E m0 R A (fst (on_agent_finish E J now conv err s))"
proof -
  assume ok: "session_ok E m0 R A s"
  then have b: "session_ok E m0 R A (fst (begin_finalize now conv s))" by (rule sched_ok)
  show ?thesis
  proof (cases "begin_finalize now conv s")
    case (Pair s1 d)
    with b have "session_ok E m0 R A s1" by simp
    with Pair show ?thesis
      by (cases d) (auto simp: on_agent_finish_def Let_def intro!: ok_seq sched_ok split: option.splits)
  qed
qed

lemma remove_agent_ok: "session_ok E m0 R A s \<Longrightarrow> session_ok E m0 R A (fst (session_remove_agent slot s))"
proof -
  assume "session_ok E m0 R A s"
  then have "session_ok E m0 R A (loop_remove slot s)" by (rule loops_ok)
  then show ?thesis unfolding session_remove_agent_def
    by (intro ok_seq) (auto simp: sched_remove_agent_def clear_agent_state_def clear_wake_timeout_def release_wake_lock_def
        emit_def session_ok_def Let_def split: option.split)
qed

text \<open>What one round of the drain loop asks for.\<close>

lemma compute_wake_input_Inr:
  assumes "compute_wake_input J P slot s = (s1, Inr input)"
  obtains agent where "get_agent slot s = Inr agent"
    and "wi_unread input = filter (\<lambda>m. mm_from_agent_id m \<noteq> slot) (mailbox_peek_unread J (sc_team_id s) slot (sc_db s))"
    and "wi_should_send input \<longleftrightarrow> wi_unread input \<noteq> []" and "s1 = fst (take_needs_role_prompt slot s)"
    and "wi_first_message input = (if snd (take_needs_role_prompt slot s) then P agent (list_agents s1) @ newline @ newline else []) @
      wake_text agent (board_list_tasks J (sc_team_id s) (sc_db s)) (wi_unread input)"
    and "wi_conversation_id input = ag_conversation_id agent" and "wi_agent_role input = ag_role agent"
  using assms by (auto simp: compute_wake_input_def Let_def split: sum.splits prod.splits)

lemma compute_wake_input_ok: "session_ok E m0 R A s \<Longrightarrow> session_ok E m0 R A (fst (compute_wake_input J P slot s))"
proof -
  assume ok: "session_ok E m0 R A s"
  then have "session_ok E m0 R A (fst (take_needs_role_prompt slot s))" by (rule sched_ok)
  with ok show ?thesis by (auto simp: compute_wake_input_def Let_def split: sum.split prod.split)
qed

lemma execute_turn_request: "snd (execute_turn E slot input s) = Some q \<Longrightarrow>
    tq_unread_message_ids q = map mm_id (wi_unread input) \<and> tq_content q = wi_first_message input \<and> tq_slot_id q = slot"
  by (auto simp: execute_turn_def start_turn_def turn_request_def Let_def split: if_splits prod.splits option.splits)

lemma execute_turn_ok:
  assumes ok: "session_ok E m0 R A s"
    and ids: "\<And>q. snd (execute_turn E slot input s) = Some q \<Longrightarrow> set (tq_unread_message_ids q) \<subseteq> A"
  shows "session_ok E m0 R A (fst (execute_turn E slot input s))"
proof (cases "wi_team_run_id input")
  case None
  with ids have "mm_id ` set (wi_unread input) \<subseteq> A" by (auto simp: execute_turn_def start_turn_def turn_request_def Let_def)
  with None ok show ?thesis by (simp add: execute_turn_def start_turn_ok)
next
  case (Some run)
  let ?r = "on_runs (claim_wake_for_turn E slot (target_role_for (wi_agent_role input)) (wi_conversation_id input)) s"
  obtain s1 res where r: "?r = (s1, res)" by force
  have "session_ok E m0 R A (fst ?r)" using ok by (auto intro!: on_runs_ok runs_from_steps)
  with r have ok1: "session_ok E m0 R A s1" by simp
  show ?thesis
  proof (cases res)
    case None
    with r Some ok1 show ?thesis by (auto simp: execute_turn_def intro!: loops_ok sched_ok)
  next
    case (Some reservation)
    with r \<open>wi_team_run_id input = Some run\<close> ids have "mm_id ` set (wi_unread input) \<subseteq> A"
      by (auto simp: execute_turn_def start_turn_def turn_request_def Let_def)
    with r \<open>wi_team_run_id input = Some run\<close> Some ok1 show ?thesis by (simp add: execute_turn_def start_turn_ok)
  qed
qed

lemma drain_ok:
  assumes ok: "session_ok E m0 R A s"
    and ids: "\<And>q. snd (drain E J P slot s) = Some q \<Longrightarrow> set (tq_unread_message_ids q) \<subseteq> A"
  shows "session_ok E m0 R A (fst (drain E J P slot s))"
proof -
  obtain s1 v where c: "compute_wake_input J P slot s = (s1, v)" by force
  from compute_wake_input_ok [OF ok, of J P slot] c have ok1: "session_ok E m0 R A s1" by simp
  show ?thesis
  proof (cases v)
    case (Inl e)
    with c ok1 show ?thesis by (simp add: drain_def loops_ok)
  next
    case (Inr input)
    with c ok1 ids show ?thesis
      by (auto simp: drain_def intro!: loops_ok on_runs_ok runs_from_steps execute_turn_ok)
  qed
qed

text \<open>The ids a cancelled run marks as read without a turn.\<close>

definition dropped_ids :: "env \<Rightarrow> json \<Rightarrow> string \<Rightarrow> string option \<Rightarrow> string option \<Rightarrow> session_state \<Rightarrow> string list" where
  "dropped_ids E J run target reason s =
     (case snd (cancel_run E J run target reason s) of
        Inl _ \<Rightarrow> []
      | Inr _ \<Rightarrow> concat (map (\<lambda>a. map mm_id (mailbox_peek_unread J (sc_team_id s) (ag_slot_id a) (sc_db s))) (list_agents s)))"

lemma cancel_run_ok:
  assumes ok: "session_ok E m0 R A s" and ids: "set (dropped_ids E J run target reason s) \<subseteq> R"
  shows "session_ok E m0 R A (fst (cancel_run E J run target reason s))"
proof -
  let ?b = "on_runs (begin_cancel target reason) s"
  obtain m1 v where m: "begin_cancel target reason (ss_runs s) = (m1, v)" by force
  then have b: "?b = (s\<lparr>ss_runs := m1\<rparr>, v)" by (simp add: on_runs_def)
  have ok1: "session_ok E m0 R A (s\<lparr>ss_runs := m1\<rparr>)"
    using on_runs_ok [OF ok, of "begin_cancel target reason"] b by (simp add: runs_from_steps)
  show ?thesis
  proof (cases "current_run_id (ss_runs s) = Some run \<and> v = Inr ()")
    case True
    let ?ids = "concat (map (\<lambda>a. map mm_id (mailbox_peek_unread J (sc_team_id s) (ag_slot_id a) (sc_db s))) (list_agents s))"
    from True b have "snd (cancel_run E J run target reason s) = Inr ()" by (simp add: cancel_run_def Let_def)
    with ids have "set ?ids \<subseteq> R" by (simp add: dropped_ids_def)
    then have "session_ok E m0 R A (s\<lparr>ss_runs := m1, sc_db := mark_read_batch ?ids (sc_db s)\<rparr>)"
      using marked_ok [OF ok1, of ?ids] by simp
    moreover have "list_agents (s\<lparr>ss_runs := m1\<rparr>) = list_agents s" by (simp add: list_agents_def)
    ultimately show ?thesis using True b ok1
      by (auto simp: cancel_run_def Let_def mark_all_unread_for_agents_read_def comp_def
          intro!: on_runs_ok runs_from_steps cancel_children_ok)
  next
    case False
    with b ok ok1 show ?thesis by (cases v) (auto simp: cancel_run_def split: option.splits)
  qed
qed

end
