(* ===== verification/EventLoopProperties.thy ===== *)
theory EventLoopProperties
  imports EventLoopFacts
begin

text \<open>
  Properties of a team session: what its event loops deliver, when the lead is woken, how a turn ends and
  what cancelling a run leaves.
\<close>

section \<open>Histories\<close>

definition asked_by :: "env \<Rightarrow> json \<Rightarrow> prompts \<Rightarrow> session_op \<Rightarrow> session_state \<Rightarrow> agent_turn_request list" where
  "asked_by E J P op s =
     (case op of
        SessDrain slot \<Rightarrow>
          if hm_get (ss_loops s) slot = Some LoopDraining
          then (case snd (drain E J P slot s) of None \<Rightarrow> [] | Some q \<Rightarrow> [q]) else []
      | _ \<Rightarrow> [])"

definition answered_by :: "session_op \<Rightarrow> session_state \<Rightarrow> string list" where
  "answered_by op s = (case op of SessTurnAnswered slot answer \<Rightarrow> answered_ids slot answer s | _ \<Rightarrow> [])"

definition dropped_by :: "env \<Rightarrow> json \<Rightarrow> session_op \<Rightarrow> session_state \<Rightarrow> string list" where
  "dropped_by E J op s = (case op of SessCancelRun run target reason \<Rightarrow> dropped_ids E J run target reason s | _ \<Rightarrow> [])"

text \<open>The requests to the turn port, the ids it answered for, and the ids dropped by cancelled runs.\<close>

fun session_history :: "env \<Rightarrow> json \<Rightarrow> prompts \<Rightarrow> session_op list \<Rightarrow> session_state
    \<Rightarrow> session_state \<times> agent_turn_request list \<times> string list \<times> string list" where
  "session_history E J P [] s = (s, [], [], [])"
| "session_history E J P (op # ops) s =
     (case session_history E J P ops (session_step E J P op s) of
        (s', asked, answered, dropped) \<Rightarrow>
          (s', asked_by E J P op s @ asked, answered_by op s @ answered, dropped_by E J op s @ dropped))"

abbreviation request_ids :: "agent_turn_request list \<Rightarrow> string set" where
  "request_ids qs \<equiv> \<Union> (set ` tq_unread_message_ids ` set qs)"

lemma session_step_ok:
  assumes ok: "session_ok E m0 R A s" and "request_ids (asked_by E J P op s) \<subseteq> A"
    and "set (answered_by op s) \<subseteq> R" and "set (dropped_by E J op s) \<subseteq> R"
  shows "session_ok E m0 R A (session_step E J P op s)"
proof (cases op)
  case (SessDrain slot)
  show ?thesis
  proof (cases "hm_get (ss_loops s) slot = Some LoopDraining")
    case True
    have "session_ok E m0 R A (fst (drain E J P slot s))"
      by (rule drain_ok [OF ok]) (use assms(2) SessDrain True in \<open>simp add: asked_by_def\<close>)
    with True SessDrain show ?thesis by simp
  qed (use ok SessDrain in simp)
next
  case (SessTurnAnswered slot answer)
  with assms show ?thesis by (simp add: answered_by_def turn_answered_ok)
next
  case (SessCancelRun run target reason)
  with assms show ?thesis by (simp add: dropped_by_def cancel_run_ok)
qed (use ok in \<open>simp_all add: send_ok wake_ok loops_ok turn_started_ok on_agent_finish_ok cancel_child_ok notices_ok
    remove_agent_ok sched_ok del: execute_action.simps\<close>)

lemma answered_in_asked:
  "session_ok E m0 R A s \<Longrightarrow> set (answered_by op s) \<subseteq> A"
proof (cases op)
  case (SessTurnAnswered slot answer)
  assume "session_ok E m0 R A s"
  with SessTurnAnswered show ?thesis
    by (cases answer; cases "hm_get (ss_loops s) slot")
      (auto simp: answered_by_def answered_ids_def split: loop_phase.split dest!: session_ok_turn)
qed (simp_all add: answered_by_def)

lemma session_history_ok:
  assumes "session_history E J P ops s = (s', asked, answered, dropped)" and "session_ok E m0 R A s"
  shows "session_ok E m0 (R \<union> set answered \<union> set dropped) (A \<union> request_ids asked) s' \<and>
    set answered \<subseteq> A \<union> request_ids asked"
  using assms
proof (induction ops arbitrary: s s' asked answered dropped R A)
  case Nil
  then show ?case by simp
next
  case (Cons op ops)
  let ?s1 = "session_step E J P op s"
  let ?R = "R \<union> set (answered_by op s) \<union> set (dropped_by E J op s)" and ?A = "A \<union> request_ids (asked_by E J P op s)"
  obtain q a d where h: "session_history E J P ops ?s1 = (s', q, a, d)" and eq: "asked = asked_by E J P op s @ q"
      "answered = answered_by op s @ a" "dropped = dropped_by E J op s @ d"
    using Cons.prems(1) by (auto split: prod.splits)
  have "session_ok E m0 ?R ?A s" by (rule session_ok_mono [OF Cons.prems(2)]) auto
  then have "session_ok E m0 ?R ?A ?s1" by (rule session_step_ok) auto
  from Cons.IH [OF h this]
  have "session_ok E m0 (?R \<union> set a \<union> set d) (?A \<union> request_ids q) s'" and "set a \<subseteq> ?A \<union> request_ids q" by blast+
  moreover have "set (answered_by op s) \<subseteq> A" using answered_in_asked [OF Cons.prems(2)] .
  ultimately show ?case unfolding eq by (auto simp: Un_ac elim!: session_ok_mono)
qed

lemma session_start_ok: "session_ok E (team_run_manager_new t) (read_ids db) {} (session_start t agents db bubbles)"
  by (simp add: session_ok_def session_start_def teammate_manager_new_def team_state.defs)

text \<open>C22. No message is lost. After any history of a session, of sends, wakes, turns, crashes, cancellations
  and board actions in any order, a mailbox row is read only if it was read when the session started, if the
  turn port answered a request that lists it, or if a successful \<open>cancel_run\<close> dropped it; and the port only
  answers for messages a request listed.\<close>
theorem read_only_after_delivery:
  assumes "session_history E J P ops (session_start t agents db bubbles) = (s', asked, answered, dropped)"
  shows "read_ids (sc_db s') \<subseteq> read_ids db \<union> set answered \<union> set dropped \<and> set answered \<subseteq> request_ids asked"
  using session_history_ok [OF assms session_start_ok] by (simp add: session_ok_def)

section \<open>What a request says\<close>

lemma in_concat_map: "x \<in> set xs \<Longrightarrow> \<exists>a b. concat (map f xs) = a @ f x @ b"
proof -
  assume "x \<in> set xs"
  then obtain ys zs where "xs = ys @ x # zs" by (auto dest: split_list)
  then have "concat (map f xs) = concat (map f ys) @ f x @ concat (map f zs)" by simp
  then show ?thesis by blast
qed

lemma wake_text_lists:
  assumes "m \<in> set unread"
  shows "\<exists>a b. wake_text agent ts unread = a @ message_line m @ b"
proof -
  from in_concat_map [OF assms, of message_line] obtain a b where ab: "concat (map message_line unread) = a @ message_line m @ b"
    by blast
  define h where "h = ''## New Messages'' @ newline @ newline"
  from assms have "unread \<noteq> []" by auto
  then have "\<exists>r. wake_text agent ts unread = h @ concat (map message_line unread) @ r"
    by (auto simp: wake_text_def h_def)
  then obtain r where "wake_text agent ts unread = h @ (a @ message_line m @ b) @ r" unfolding ab by blast
  then have "wake_text agent ts unread = (h @ a) @ message_line m @ (b @ r)" by simp
  then show ?thesis by blast
qed

text \<open>What a turn is asked for: a request of the event loop of a slot goes out only when the slot has unread
  messages from others; it lists exactly those, oldest first, and its text has a line for each of them.\<close>
lemma request_carries_the_mailbox:
  assumes "drain E J P slot s = (s', Some q)"
  shows "tq_slot_id q = slot \<and> tq_unread_message_ids q \<noteq> [] \<and>
    tq_unread_message_ids q = map mm_id (filter (\<lambda>m. mm_from_agent_id m \<noteq> slot) (mailbox_peek_unread J (sc_team_id s) slot (sc_db s))) \<and>
    (\<forall>m\<in>set (mailbox_peek_unread J (sc_team_id s) slot (sc_db s)).
       mm_from_agent_id m \<noteq> slot \<longrightarrow> (\<exists>a b. tq_content q = a @ message_line m @ b))"
proof -
  obtain s1 v where c: "compute_wake_input J P slot s = (s1, v)" by force
  with assms obtain input where v: "v = Inr input" "wi_should_send input" "execute_turn E slot input s1 = (s', Some q)"
    by (cases v) (auto simp: drain_def split: if_splits)
  from c v(1) have "compute_wake_input J P slot s = (s1, Inr input)" by simp
  then obtain agent where agent: "wi_unread input = filter (\<lambda>m. mm_from_agent_id m \<noteq> slot) (mailbox_peek_unread J (sc_team_id s) slot (sc_db s))"
      "wi_should_send input \<longleftrightarrow> wi_unread input \<noteq> []"
      "wi_first_message input = (if snd (take_needs_role_prompt slot s) then P agent (list_agents s1) @ newline @ newline else []) @
        wake_text agent (board_list_tasks J (sc_team_id s) (sc_db s)) (wi_unread input)"
    by (rule compute_wake_input_Inr)
  from v(3) have q: "tq_unread_message_ids q = map mm_id (wi_unread input)" "tq_content q = wi_first_message input" "tq_slot_id q = slot"
    using execute_turn_request [of E slot input s1 q] by auto
  have "\<exists>a b. tq_content q = a @ message_line m @ b" if "m \<in> set (wi_unread input)" for m
  proof -
    from wake_text_lists [OF that] obtain a b where
      "wake_text agent (board_list_tasks J (sc_team_id s) (sc_db s)) (wi_unread input) = a @ message_line m @ b" by blast
    with q(2) agent(3) show ?thesis by (metis append.assoc)
  qed
  with q agent v(2) show ?thesis by auto
qed

section \<open>The lead and its team\<close>

text \<open>The slots as the scheduler keeps them: each under its own id, and no two leads.\<close>

definition slots_ok :: "'x team_state_scheme \<Rightarrow> bool" where
  "slots_ok s \<longleftrightarrow> hm_ok (sc_slots s) \<and> (\<forall>(i, sl)\<in>set (sc_slots s). ag_slot_id (as_agent sl) = i) \<and>
     (\<forall>x\<in>set (sc_slots s). \<forall>y\<in>set (sc_slots s).
        ag_role (as_agent (snd x)) = Lead \<longrightarrow> ag_role (as_agent (snd y)) = Lead \<longrightarrow> x = y)"

lemma scan_slots_settled:
  "snd (snd (scan_slots slots lead has)) \<longleftrightarrow>
     (\<forall>sl\<in>set slots. ag_role (as_agent sl) = Teammate \<longrightarrow> is_settled (as_status sl))"
  by (induction slots lead has rule: scan_slots.induct) (auto, metis teammate_role.exhaust)

lemma scan_slots_teammates:
  "snd (snd (scan_slots slots lead has)) \<Longrightarrow>
     fst (snd (scan_slots slots lead has)) \<longleftrightarrow> has \<or> (\<exists>sl\<in>set slots. ag_role (as_agent sl) = Teammate)"
  by (induction slots lead has rule: scan_slots.induct) (auto split: if_splits, (metis teammate_role.exhaust)+)

lemma scan_slots_lead_in:
  "fst (scan_slots slots lead has) = Some l \<Longrightarrow>
     lead = Some l \<or> (\<exists>sl\<in>set slots. ag_role (as_agent sl) = Lead \<and> ag_slot_id (as_agent sl) = l)"
  by (induction slots lead has rule: scan_slots.induct) (auto split: if_splits)

lemma scan_slots_lead_found:
  "snd (snd (scan_slots slots lead has)) \<Longrightarrow> lead \<noteq> None \<or> (\<exists>sl\<in>set slots. ag_role (as_agent sl) = Lead) \<Longrightarrow>
     fst (scan_slots slots lead has) \<noteq> None"
  by (induction slots lead has rule: scan_slots.induct) (auto split: if_splits)

text \<open>The loop that decides whether to wake the lead visits the slots in the map's arbitrary order and stops
  early; it computes what it means to: the lead is woken exactly when it is idle, the team has a teammate and
  every teammate is settled.\<close>
lemma lead_woken_when_all_settled:
  assumes "slots_ok s"
  shows "maybe_wake_leader_when_all_idle s = Some l \<longleftrightarrow>
    (\<exists>sl. hm_get (sc_slots s) l = Some sl \<and> ag_role (as_agent sl) = Lead \<and> as_status sl = Idle) \<and>
    (\<exists>sl\<in>set (hm_values (sc_slots s)). ag_role (as_agent sl) = Teammate) \<and>
    (\<forall>sl\<in>set (hm_values (sc_slots s)). ag_role (as_agent sl) = Teammate \<longrightarrow> is_settled (as_status sl))"
    (is "?wake = Some l \<longleftrightarrow> ?lead \<and> ?mate \<and> ?settled")
proof -
  let ?vs = "hm_values (sc_slots s)"
  obtain r where scan: "scan_slots ?vs None False = r" by blast
  note facts = scan_slots_settled [of ?vs None False, unfolded scan] scan_slots_teammates [of ?vs None False, unfolded scan]
    scan_slots_lead_in [of ?vs None False, unfolded scan] scan_slots_lead_found [of ?vs None False, unfolded scan]
  have key: "hm_get (sc_slots s) (ag_slot_id (as_agent sl)) = Some sl" if "sl \<in> set ?vs" for sl
    using that assms by (auto simp: slots_ok_def)
  have wake: "?wake = Some l \<longleftrightarrow> fst r = Some l \<and> fst (snd r) \<and> snd (snd r) \<and>
      (\<exists>sl. hm_get (sc_slots s) l = Some sl \<and> as_status sl = Idle)"
    using scan by (cases r) (auto simp: maybe_wake_leader_when_all_idle_def split: option.splits)
  show ?thesis
  proof
    assume "?wake = Some l"
    with wake obtain sl where r: "fst r = Some l" "fst (snd r)" "snd (snd r)" and sl: "hm_get (sc_slots s) l = Some sl" "as_status sl = Idle"
      by blast
    from r(1) facts obtain sl' where "sl' \<in> set ?vs" "ag_role (as_agent sl') = Lead" "ag_slot_id (as_agent sl') = l" by auto
    with key sl have "ag_role (as_agent sl) = Lead" by fastforce
    moreover from r facts have ?mate ?settled by auto
    ultimately show "?lead \<and> ?mate \<and> ?settled" using sl by blast
  next
    assume right: "?lead \<and> ?mate \<and> ?settled"
    then obtain sl where sl: "hm_get (sc_slots s) l = Some sl" "ag_role (as_agent sl) = Lead" "as_status sl = Idle" by blast
    then have "(l, sl) \<in> set (sc_slots s)" by (auto dest: map_of_SomeD)
    then have in_vs: "sl \<in> set ?vs" by force
    from right facts have all: "snd (snd r)" "fst (snd r)" by auto
    with facts in_vs sl obtain l' where l': "fst r = Some l'" by auto
    with facts obtain sl' where sl': "sl' \<in> set ?vs" "ag_role (as_agent sl') = Lead" "ag_slot_id (as_agent sl') = l'" by auto
    then have "(l', sl') \<in> set (sc_slots s)" using key [OF sl'(1)] by (auto dest: map_of_SomeD)
    with \<open>(l, sl) \<in> set (sc_slots s)\<close> sl sl' assms have "l' = l" unfolding slots_ok_def by fastforce
    with l' all sl wake show "?wake = Some l" by blast
  qed
qed

section \<open>The end of a turn\<close>

lemma slots_ok_iff:
  "slots_ok s \<longleftrightarrow> hm_ok (sc_slots s) \<and> (\<forall>i sl. hm_get (sc_slots s) i = Some sl \<longrightarrow> ag_slot_id (as_agent sl) = i) \<and>
     (\<forall>i j x y. hm_get (sc_slots s) i = Some x \<longrightarrow> hm_get (sc_slots s) j = Some y \<longrightarrow>
        ag_role (as_agent x) = Lead \<longrightarrow> ag_role (as_agent y) = Lead \<longrightarrow> i = j)"
  unfolding slots_ok_def by (auto simp: map_of_eq_Some_iff dest: map_of_SomeD) (metis eq_key_imp_eq_value snd_conv fst_conv)+

lemma find_SomeD: "find P xs = Some x \<Longrightarrow> x \<in> set xs \<and> P x"
  by (induction xs) (auto split: if_splits)

lemma find_lead_iff:
  assumes "slots_ok s"
  shows "find_lead_slot_id s = Some l \<longleftrightarrow> (\<exists>sl. hm_get (sc_slots s) l = Some sl \<and> ag_role (as_agent sl) = Lead)"
proof -
  have unique: "x = y" if "x \<in> set (sc_slots s)" "y \<in> set (sc_slots s)" "ag_role (as_agent (snd x)) = Lead" "ag_role (as_agent (snd y)) = Lead" for x y
    using that assms by (auto simp: slots_ok_def)
  have own: "ag_slot_id (as_agent (snd x)) = fst x" if "x \<in> set (sc_slots s)" for x
    using that assms by (auto simp: slots_ok_def)
  have get: "hm_get (sc_slots s) (fst x) = Some (snd x)" if "x \<in> set (sc_slots s)" for x
    using that assms by (simp add: slots_ok_def)
  show ?thesis
  proof
    assume "find_lead_slot_id s = Some l"
    then obtain x where "x \<in> set (sc_slots s)" "ag_role (as_agent (snd x)) = Lead" "ag_slot_id (as_agent (snd x)) = l"
      by (auto simp: find_lead_slot_id_def dest!: find_SomeD)
    with own get show "\<exists>sl. hm_get (sc_slots s) l = Some sl \<and> ag_role (as_agent sl) = Lead" by metis
  next
    assume "\<exists>sl. hm_get (sc_slots s) l = Some sl \<and> ag_role (as_agent sl) = Lead"
    then obtain sl where sl: "(l, sl) \<in> set (sc_slots s)" "ag_role (as_agent sl) = Lead" by (auto dest: map_of_SomeD)
    then obtain y where y: "find (\<lambda>sl. ag_role (as_agent sl) = Lead) (hm_values (sc_slots s)) = Some y"
      by (cases "find (\<lambda>sl. ag_role (as_agent sl) = Lead) (hm_values (sc_slots s))") (auto simp: find_None_iff)
    then obtain i where i: "(i, y) \<in> set (sc_slots s)" "ag_role (as_agent y) = Lead"
      by (auto dest!: find_SomeD)
    from unique [OF sl(1) i(1)] sl i have "y = sl" "i = l" by auto
    with y own [OF i(1)] show "find_lead_slot_id s = Some l" by (simp add: find_lead_slot_id_def)
  qed
qed

lemma slots_ok_status:
  assumes "slots_ok s" and "hm_get (sc_slots s) slot = Some sl"
  shows "slots_ok (s\<lparr>sc_slots := hm_insert slot (sl\<lparr>as_status := st, as_agent := (as_agent sl)\<lparr>ag_status := Some st\<rparr>\<rparr>) (sc_slots s)\<rparr>)"
  using assms by (auto simp: slots_ok_iff hm_get_insert)

lemma post_eq:
  assumes "mailbox_ok E (sc_db s)"
  shows "post E J a b ty c m s =
    (s\<lparr>sc_db := (sc_db s)\<lparr>tb_tick := Suc (tb_tick (sc_db s)),
        tb_mailbox := tb_mailbox (sc_db s) @ [message_row E J (sc_team_id s) a b ty c m None (sc_db s)]\<rparr>\<rparr>, Inr ())"
  using letter_write_eq [OF assms, of J "(sc_team_id s, a, b, ty, c, m, None)"]
  by (simp add: post_def on_team_db_def mailbox_write_def letter_write_def letter_row_def)

text \<open>How a turn ends. Whatever its status was, a teammate whose turn is finalized is idle, no other slot
  changes, the lead has exactly one new unread idle notification from it, and the answer is whether the lead is
  to be woken now.\<close>
lemma turn_end_reports_to_the_lead:
  assumes slots: "slots_ok s" and mail: "mailbox_ok E (sc_db s)" and me: "hm_get (sc_slots s) slot = Some sl"
    and mate: "ag_role (as_agent sl) = Teammate" and lead: "find_lead_slot_id s = Some l"
  shows "\<exists>s'. finalize_turn E J slot [] s = (s', Inr (maybe_wake_leader_when_all_idle s')) \<and>
    sc_slots s' = hm_insert slot (sl\<lparr>as_status := Idle, as_agent := (as_agent sl)\<lparr>ag_status := Some Idle\<rparr>\<rparr>) (sc_slots s) \<and>
    tb_mailbox (sc_db s') = tb_mailbox (sc_db s) @
      [message_row E J (sc_team_id s) l slot MsgIdleNotification ''idle'' None None (sc_db s)]"
proof -
  obtain s1 where s1: "set_agent_status slot Idle s = (s1, Inr ())" and db: "sc_db s1 = sc_db s" "sc_team_id s1 = sc_team_id s"
    and slots1: "sc_slots s1 = hm_insert slot (sl\<lparr>as_status := Idle, as_agent := (as_agent sl)\<lparr>ag_status := Some Idle\<rparr>\<rparr>) (sc_slots s)"
    using me by (auto simp: set_agent_status_def emit_def Let_def)
  have ok1: "slots_ok s1" using slots_ok_status [OF slots me, of Idle] slots1 by (simp add: slots_ok_def)
  have "l \<noteq> slot" using lead find_lead_iff [OF slots] me mate by auto
  moreover have "find_lead_slot_id s1 = Some l"
    using lead find_lead_iff [OF slots] find_lead_iff [OF ok1] slots1 \<open>l \<noteq> slot\<close> by (auto simp: hm_get_insert)
  moreover have "get_agent slot s1 = Inr ((as_agent sl)\<lparr>ag_status := Some Idle\<rparr>)"
    using slots1 by (simp add: get_agent_def hm_get_insert)
  ultimately have "finalize_turn E J slot [] s =
      and_then (post E J l slot MsgIdleNotification ''idle'' None s1) (\<lambda>_ s. (s, Inr (maybe_wake_leader_when_all_idle s)))"
    using s1 mate by (simp add: finalize_turn_def mark_idle_def)
  with mail db slots1 show ?thesis by (simp add: post_eq)
qed

section \<open>Cancelling a run\<close>

text \<open>A cancelling run whose children have their slots in \<open>C\<close>, and a manager with such a run or none.\<close>

definition winding :: "string set \<Rightarrow> team_run_record \<Rightarrow> bool" where
  "winding C run \<longleftrightarrow> ru_status run = Cancelling \<and> ru_pending_wakes run = [] \<and>
     (\<forall>x\<in>set (ru_starting_reservations run). sr_state (snd x) = ReservationCancelling) \<and>
     set (map fst (ru_active_child_turns run)) \<subseteq> C"

definition winding_down :: "string set \<Rightarrow> team_run_manager \<Rightarrow> bool" where
  "winding_down C m \<longleftrightarrow> rm_state m = None \<or> (\<exists>run. rm_state m = Some run \<and> winding C run)"

lemma settle_cancelled:
  assumes "ru_status run = Cancelling"
  shows "rm_state (fst (settle_run evs (maybe_cancelled_locked now run) evs' m)) = (if has_work run then Some run else None)"
  using assms by (simp add: settle_run_def maybe_cancelled_locked_def Let_def)

lemma winding_down_child:
  assumes "winding_down C m"
  shows "winding_down (C - {ac_slot_id child}) (record_child_cancelled E child m)"
proof (cases "rm_state m")
  case None
  then show ?thesis by (simp add: winding_down_def record_child_cancelled_def)
next
  case (Some run)
  let ?run = "run\<lparr>ru_active_child_turns := hm_remove (ac_slot_id child) (ru_active_child_turns run)\<rparr>"
  from assms Some have w: "winding C run" by (simp add: winding_down_def)
  then have "winding (C - {ac_slot_id child}) ?run" by (auto simp: winding_def delete_keys simp del: set_map)
  moreover have "rm_state (record_child_cancelled E child m) = (if has_work ?run then Some ?run else None)"
    using w Some by (simp add: record_child_cancelled_def winding_def settle_cancelled Let_def)
  ultimately show ?thesis by (simp add: winding_down_def)
qed

lemma winding_down_children:
  "winding_down C m \<Longrightarrow> winding_down (C - ac_slot_id ` set children) (fold (record_child_cancelled E) children m)"
proof (induction children arbitrary: C m)
  case (Cons c cs)
  have "C - ac_slot_id ` set (c # cs) = C - {ac_slot_id c} - ac_slot_id ` set cs" by auto
  with Cons.IH [OF winding_down_child [OF Cons.prems, of c E]] show ?case by simp
qed simp

lemma winding_down_end:
  assumes "winding_down {} m"
  shows "rm_state (fst (try_complete_cancelled E m)) = None \<or> (\<exists>run. rm_state (fst (try_complete_cancelled E m)) = Some run \<and>
    winding {} run \<and> ru_active_child_turns run = [] \<and> ru_starting_reservations run \<noteq> [])"
proof (cases "rm_state m")
  case None
  then show ?thesis by (simp add: try_complete_cancelled_def)
next
  case (Some run)
  with assms have w: "winding {} run" by (simp add: winding_down_def)
  then have "ru_active_child_turns run = []" "pending_wake_count run = 0" by (simp_all add: winding_def pending_wake_count_def)
  moreover from w Some have "rm_state (fst (try_complete_cancelled E m)) = (if has_work run then Some run else None)"
    by (simp add: try_complete_cancelled_def winding_def settle_cancelled)
  ultimately show ?thesis using w by (auto simp: has_work_def)
qed

lemma begin_cancel_winding_down:
  assumes b: "begin_cancel target reason m = (m', Inr ())" and wf: "\<And>run. rm_state m = Some run \<Longrightarrow> run_wf run"
  shows "winding_down (ac_slot_id ` set (active_child_turns m')) m'"
proof -
  from b obtain run where run: "rm_state m = Some run" by (auto simp: begin_cancel_def split: option.splits)
  let ?run = "run\<lparr>ru_status := Cancelling, ru_cancel_reason := reason, ru_pending_wakes := [],
      ru_starting_reservations := map (\<lambda>(k, r). (k, r\<lparr>sr_state := ReservationCancelling\<rparr>)) (ru_starting_reservations run)\<rparr>"
  from b run have m': "rm_state m' = Some ?run" by (auto simp: begin_cancel_def Let_def split: if_splits)
  have "ac_slot_id c = k" if "(k, c) \<in> set (ru_active_child_turns run)" for k c
    using wf [OF run] that by (simp add: run_wf_def)
  then have "set (map fst (ru_active_child_turns run)) \<subseteq> ac_slot_id ` snd ` set (ru_active_child_turns run)" by force
  then have "winding (ac_slot_id ` set (active_child_turns m')) ?run"
    by (auto simp: winding_def active_child_turns_def m')
  with m' show ?thesis by (simp add: winding_down_def)
qed

lemma cancel_children_runs: "ss_runs (cancel_children E cs s) = fold (record_child_cancelled E) cs (ss_runs s)"
  by (induction cs arbitrary: s) (simp_all add: cancel_children_def)

lemma cancel_children_frame:
  "sc_db (cancel_children E cs s) = sc_db s" "sc_slots (cancel_children E cs s) = sc_slots s"
  "sc_team_id (cancel_children E cs s) = sc_team_id s"
  by (induction cs arbitrary: s) (simp_all add: cancel_children_def)

lemma peek_after_mark:
  assumes "mailbox_ok E db" and "a \<in> set agents"
  shows "mailbox_peek_unread J t a (fst (mark_all_unread_for_agents_read J t agents db)) = []"
proof -
  obtain db' n where m: "mark_all_unread_for_agents_read J t agents db = (db', n)" by force
  let ?g = "\<lambda>r. if mr_team_id r = t \<and> mr_to_agent_id r \<in> set agents then r\<lparr>mr_read := True\<rparr> else r"
  have "\<not> unread_for t a (?g r)" for r using assms(2) by auto
  then have "filter (unread_for t a) (map ?g rows) = []" for rows by (induction rows) simp_all
  then have "filter (unread_for t a) (tb_mailbox db') = []" unfolding marked_rows [OF assms(1) m] .
  with m show ?thesis by (simp add: mailbox_peek_unread_def peek_unread_def)
qed


section \<open>The run of a session\<close>


end
