(* ===== verification/EventLoopExamples.thy ===== *)
theory EventLoopExamples
  imports EventLoopProperties
begin

text \<open>Concrete runs of a session with a lead and a teammate: the witnesses of its properties, and what they show.\<close>

definition demo_agent :: "string \<Rightarrow> teammate_role \<Rightarrow> team_agent" where
  "demo_agent i role = \<lparr>ag_slot_id = i, ag_name = i, ag_role = role, ag_conversation_id = ''c-'' @ i, ag_backend = ''b'',
     ag_model = ''m'', ag_custom_agent_id = None, ag_status = None, ag_conversation_type = None, ag_cli_path = None\<rparr>"

definition demo_prompts :: prompts where "demo_prompts a agents = ''ROLE''"

definition demo_session :: session_state where
  "demo_session = session_start ''t'' [demo_agent ''l'' Lead, demo_agent ''w'' Teammate] empty_team_db
     \<lparr>bs_conversations = [''c-l'', ''c-w''], bs_rows = [], bs_teammate_events = [], bs_tick = 0\<rparr>"

text \<open>The user writes, the lead's turn is asked for, starts and ends.\<close>

definition demo_child :: active_child_turn where
  "demo_child = \<lparr>ac_team_run_id = ''r'', ac_slot_id = ''l'', ac_role = TargetLead, ac_conversation_id = ''c-l'', ac_turn_id = ''x''\<rparr>"

definition demo_turn :: "session_op list" where
  "demo_turn = [SessSpawnLoop ''l'', SessSend ''hi'' None, SessTakePermit ''l'', SessDrain ''l'',
     SessTurnStarted ''l'' demo_child, SessTurnAnswered ''l'' (Inr (''x'', TurnCompleted))]"

abbreviation "demo_history ops \<equiv> session_history sample_env demo_json demo_prompts ops demo_session"

lemma read_only_after_delivery_witness:
  "case demo_history demo_turn of (s', asked, answered, dropped) \<Rightarrow>
     read_ids (sc_db s') \<subseteq> read_ids empty_team_db \<union> set answered \<union> set dropped \<and> set answered \<subseteq> request_ids asked \<and>
     answered = [''r''] \<and> map mr_read (tb_mailbox (sc_db s')) = [True]"
proof -
  obtain s' asked answered dropped where h: "demo_history demo_turn = (s', asked, answered, dropped)" by (metis prod_cases3)
  have "case demo_history demo_turn of (s', asked, answered, dropped) \<Rightarrow>
      answered = [''r''] \<and> map mr_read (tb_mailbox (sc_db s')) = [True]" by code_simp
  with h read_only_after_delivery [OF h [unfolded demo_session_def]] show ?thesis by simp
qed

abbreviation "demo_after n \<equiv> fst (demo_history (take n demo_turn))"

lemma request_carries_the_mailbox_witness:
  "\<exists>s' q. drain sample_env demo_json demo_prompts ''l'' (demo_after 3) = (s', Some q) \<and> tq_unread_message_ids q = [''r''] \<and>
     tq_unread_message_ids q = map mm_id (filter (\<lambda>m. mm_from_agent_id m \<noteq> ''l'')
       (mailbox_peek_unread demo_json (sc_team_id (demo_after 3)) ''l'' (sc_db (demo_after 3))))"
proof -
  obtain s' r where d: "drain sample_env demo_json demo_prompts ''l'' (demo_after 3) = (s', r)" by force
  have "map_option tq_unread_message_ids (snd (drain sample_env demo_json demo_prompts ''l'' (demo_after 3))) = Some [''r'']"
    by code_simp
  with d obtain q where q: "r = Some q" "tq_unread_message_ids q = [''r'']" by auto
  from request_carries_the_mailbox [OF d [unfolded q(1)]] d q show ?thesis by auto
qed

lemma demo_slots_ok: "slots_ok (demo_after 2)"
proof -
  have "map (\<lambda>(i, sl). (i, ag_slot_id (as_agent sl), ag_role (as_agent sl))) (sc_slots (demo_after 2)) =
    [(''l'', ''l'', Lead), (''w'', ''w'', Teammate)]" by code_simp
  then show ?thesis by (auto simp: slots_ok_def map_eq_Cons_conv)
qed

lemma lead_woken_when_all_settled_witness:
  "maybe_wake_leader_when_all_idle (demo_after 2) = Some ''l'' \<and>
     (\<exists>sl. hm_get (sc_slots (demo_after 2)) ''l'' = Some sl \<and> ag_role (as_agent sl) = Lead \<and> as_status sl = Idle)"
proof -
  have "maybe_wake_leader_when_all_idle (demo_after 2) = Some ''l''" by code_simp
  with lead_woken_when_all_settled [OF demo_slots_ok, of "''l''"] show ?thesis by blast
qed

lemma demo_mailbox_ok: "mailbox_ok sample_env (sc_db (demo_after 2))"
proof -
  have "map (\<lambda>r. (mr_id r, mr_msg_type r)) (tb_mailbox (sc_db (demo_after 2))) = [(''r'', ''message'')] \<and> tb_tick (sc_db (demo_after 2)) = 1"
    by code_simp
  then show ?thesis using sample_env_distinct
    by (auto simp: mailbox_ok_def message_types_def map_eq_Cons_conv sample_env_def)
qed

lemma turn_end_reports_to_the_lead_witness:
  "\<exists>(s' :: session_state) row. finalize_turn sample_env demo_json ''w'' [] (demo_after 2) = (s', Inr (Some ''l'')) \<and>
     tb_mailbox (sc_db s') = tb_mailbox (sc_db (demo_after 2)) @ [row] \<and> mr_to_agent_id row = ''l'' \<and> mr_from_agent_id row = ''w''"
proof -
  have "map_option (ag_role \<circ> as_agent) (hm_get (sc_slots (demo_after 2)) ''w'') = Some Teammate" by code_simp
  then obtain sl where sl: "hm_get (sc_slots (demo_after 2)) ''w'' = Some sl" "ag_role (as_agent sl) = Teammate" by auto
  have lead: "find_lead_slot_id (demo_after 2) = Some ''l''" by code_simp
  have "snd (finalize_turn sample_env demo_json ''w'' [] (demo_after 2)) = Inr (Some ''l'')" by code_simp
  with turn_end_reports_to_the_lead [OF demo_slots_ok demo_mailbox_ok sl lead, of demo_json]
  show ?thesis by (fastforce simp: message_row_def)
qed

lemma demo_run: "ss_runs (demo_after 2) =
    fold (run_step sample_env) [OpAccept ''l'' TargetLead False None, OpPendingWake ''l'' TargetLead UserMessage] (team_run_manager_new ''t'')"
  by code_simp


section \<open>What the runs show\<close>

text \<open>
  The role prompt is taken as soon as an event loop looks into the mailbox, also when it is empty. A session
  notifies every agent when it starts, so an agent without old messages never gets its role prompt.
\<close>

lemma role_prompt_is_lost_on_an_empty_mailbox:
  "case demo_history [SessSpawnLoop ''l'', SessRestoreDrain ''l'', SessTakePermit ''l'', SessDrain ''l'',
      SessSend ''hi'' None, SessTakePermit ''l'', SessDrain ''l''] of (s', asked, _, _) \<Rightarrow>
     map (take 15 \<circ> tq_content) asked = [''## New Messages'']"
  by code_simp

lemma role_prompt_is_sent_otherwise:
  "case demo_history (take 4 demo_turn) of (s', asked, _, _) \<Rightarrow> map (take 4 \<circ> tq_content) asked = [''ROLE'']"
  by code_simp

text \<open>A failed turn leaves the agent idle: the error status set first is overwritten.\<close>

lemma failed_turn_ends_idle:
  "case demo_history (take 5 demo_turn @ [SessTurnAnswered ''l'' (Inr (''x'', TurnFailed))]) of (s', _, _, _) \<Rightarrow>
     sc_log s' = [AgentStatus ''l'' Working, AgentStatus ''l'' StatusError, AgentStatus ''l'' Idle]"
  by code_simp

text \<open>A turn port that fails is asked the same again at once, as often as it fails.\<close>

lemma failing_port_is_asked_again:
  "case demo_history (take 4 demo_turn @ [SessTurnAnswered ''l'' (Inl ''e''), SessDrain ''l'', SessTurnAnswered ''l'' (Inl ''e''), SessDrain ''l'']) of
     (s', asked, answered, _) \<Rightarrow> map tq_unread_message_ids asked = [[''r''], [''r''], [''r'']] \<and> answered = []"
  by code_simp

text \<open>The finalization window is cleared with the finalization: the second of two finish events is not dropped.\<close>

lemma second_finish_event_notifies_again:
  "case demo_history [SessAgentFinish 0 ''c-w'' False, SessAgentFinish 1 ''c-w'' False] of (s', _, _, _) \<Rightarrow>
     map (\<lambda>r. (mr_to_agent_id r, mr_msg_type r)) (tb_mailbox (sc_db s')) =
       [(''l'', ''idle_notification''), (''l'', ''idle_notification'')]"
  by code_simp

end
