(* ===== verification/Dependencies.thy ===== *)
theory Dependencies
  imports Prelude
begin

text \<open>
  Dependencies between extensions (\<open>aionui-extension/src/dependency.rs\<close>): missing and mismatched versions, a
  load order by Kahn's algorithm and a depth-first search for cycles. Of a loaded extension the code reads
  the manifest's name, version and dependencies. A \<open>HashMap\<close> is visited in the order of its list. A panic
  (a missing entry, a counter below zero) is \<open>None\<close>. The crate \<open>semver\<close> is a parameter.
\<close>

section \<open>Data\<close>

record loaded_extension =
  ex_name :: string
  ex_version :: string
  ex_dependencies :: "(string, string) hmap"

datatype dependency_issue =
    Missing string string string
  | VersionMismatch string string string string
  | Circular "string list"

record dependency_validation_result =
  dv_valid :: bool
  dv_issues :: "dependency_issue list"
  dv_load_order :: "string list"

record ('v, 'r) semver =
  sv_version :: "string \<Rightarrow> 'v option"
  sv_req :: "string \<Rightarrow> 'r option"
  sv_matches :: "'r \<Rightarrow> 'v \<Rightarrow> bool"

section \<open>Versions\<close>

definition is_digit :: "char \<Rightarrow> bool" where
  "is_digit c \<longleftrightarrow> CHR ''0'' \<le> c \<and> c \<le> CHR ''9''"

definition version_matches :: "('v, 'r) semver \<Rightarrow> string \<Rightarrow> string \<Rightarrow> bool" where
  "version_matches V requirement actual =
     (case sv_version V actual of
        None \<Rightarrow> False
      | Some version \<Rightarrow>
          let req_str = (if requirement \<noteq> [] \<and> is_digit (hd requirement) then ''='' @ requirement else requirement)
          in (case sv_req V req_str of None \<Rightarrow> False | Some req \<Rightarrow> sv_matches V req version))"

definition check_dependency :: "('v, 'r) semver \<Rightarrow> (string, string) hmap \<Rightarrow> string \<Rightarrow> string \<times> string \<Rightarrow> dependency_issue list" where
  "check_dependency V versions name d =
     (case d of (dep_name, dep_req) \<Rightarrow>
        (case hm_get versions dep_name of
           None \<Rightarrow> [Missing name dep_name dep_req]
         | Some actual \<Rightarrow> if \<not> version_matches V dep_req actual then [VersionMismatch name dep_name dep_req actual] else []))"

section \<open>The load order\<close>

type_synonym adjacency = "(string, string list) hmap"
type_synonym degrees = "(string, nat) hmap"

definition neighbours :: "adjacency \<Rightarrow> string \<Rightarrow> string list" where
  "neighbours adj n = (case hm_get adj n of None \<Rightarrow> [] | Some ns \<Rightarrow> ns)"

definition degree_or_0 :: "degrees \<Rightarrow> string \<Rightarrow> nat" where
  "degree_or_0 deg n = (case hm_get deg n of None \<Rightarrow> 0 | Some d \<Rightarrow> d)"

definition note_dependency :: "string list \<Rightarrow> string \<Rightarrow> string \<Rightarrow> adjacency \<times> degrees \<Rightarrow> adjacency \<times> degrees" where
  "note_dependency known name dep g =
     (case g of (adj, deg) \<Rightarrow>
        if dep \<in> set known
        then (hm_insert dep (neighbours adj dep @ [name]) adj, hm_insert name (degree_or_0 deg name + 1) deg)
        else (adj, deg))"

definition note_extension :: "string list \<Rightarrow> loaded_extension \<Rightarrow> adjacency \<times> degrees \<Rightarrow> adjacency \<times> degrees" where
  "note_extension known ext g =
     (case g of (adj, deg) \<Rightarrow>
        fold (note_dependency known (ex_name ext)) (map fst (ex_dependencies ext))
          (adj, hm_insert (ex_name ext) (degree_or_0 deg (ex_name ext)) deg))"

definition build_graph :: "loaded_extension list \<Rightarrow> adjacency \<times> degrees" where
  "build_graph exts = fold (note_extension (map ex_name exts)) exts ([], [])"

text \<open>The loop over the dependents of a node: counts go down, those that reach zero are ready.\<close>

fun release :: "string list \<Rightarrow> degrees \<Rightarrow> string list \<Rightarrow> (degrees \<times> string list) option" where
  "release [] deg ready = Some (deg, ready)"
| "release (dep # deps) deg ready =
     (case hm_get deg dep of
        None \<Rightarrow> None
      | Some 0 \<Rightarrow> None
      | Some (Suc d) \<Rightarrow> release deps (hm_insert dep d deg) (if d = 0 then ready @ [dep] else ready))"

lemma sum_update: "hm_get m k = Some (d :: nat) \<Longrightarrow> sum_list (hm_values (hm_insert k v m)) + d = sum_list (hm_values m) + v"
  by (induction m) (auto split: if_splits)

lemma release_measure:
  "release deps deg ready = Some (deg', ready') \<Longrightarrow>
     sum_list (hm_values deg') + length ready' \<le> sum_list (hm_values deg) + length ready"
proof (induction deps deg ready rule: release.induct)
  case (2 dep deps deg ready)
  from "2.prems" obtain d where d: "hm_get deg dep = Some (Suc d)"
    "release deps (hm_insert dep d deg) (if d = 0 then ready @ [dep] else ready) = Some (deg', ready')"
    by (auto split: option.splits nat.splits)
  from "2.IH" [OF d(1) refl d(2)] sum_update [OF d(1), of d] show ?case by (auto split: if_splits)
qed simp

function kahn :: "adjacency \<Rightarrow> degrees \<Rightarrow> string list \<Rightarrow> string list \<Rightarrow> string list option" where
  "kahn adj deg [] order = Some order"
| "kahn adj deg (node # queue) order =
     (case release (neighbours adj node) deg [] of
        None \<Rightarrow> None
      | Some (deg', ready) \<Rightarrow> kahn adj deg' (queue @ sort ready) (order @ [node]))"
  by pat_completeness auto
termination
proof (relation "measure (\<lambda>(_, deg, queue, _). sum_list (hm_values deg) + length queue)", simp)
  fix adj :: adjacency and deg :: degrees and node queue order x deg' ready
  assume "release (neighbours adj node) deg [] = Some x" and "(deg', ready) = x"
  then have "sum_list (hm_values deg') + length ready \<le> sum_list (hm_values deg) + length ([] :: string list)"
    by (intro release_measure) simp
  then show "((adj, deg', queue @ sort ready, order @ [node]), adj, deg, node # queue, order)
      \<in> measure (\<lambda>(_, deg, queue, _). sum_list (hm_values deg) + length queue)"
    by simp
qed

section \<open>Cycles\<close>

record search_state =
  se_visited :: "string list"
  se_cycles :: "string list list"

text \<open>
  The loop of \<open>dfs_find_cycles\<close> over neighbours. \<open>path\<close> is the search path, which the code pushes and pops;
  \<open>on_stack\<close> is its set of nodes.
\<close>

definition cycle_at :: "string list \<Rightarrow> string \<Rightarrow> string list" where
  "cycle_at path next' = dropWhile (\<lambda>n. n \<noteq> next') path @ [next']"

function visit :: "adjacency \<Rightarrow> string list \<Rightarrow> string list \<Rightarrow> search_state \<Rightarrow> search_state" where
  "visit adj [] path st = st"
| "visit adj (next' # ns) path st =
     (if next' \<notin> set (se_visited st)
      then visit adj ns path (visit adj (neighbours adj next') (path @ [next']) (st\<lparr>se_visited := next' # se_visited st\<rparr>))
      else if next' \<in> set path
      then visit adj ns path (st\<lparr>se_cycles := se_cycles st @ [cycle_at path next']\<rparr>)
      else visit adj ns path st)"
  by pat_completeness auto

termination
proof -
  let ?R = "inv_image (finite_psubset <*lex*> less_than)
    (\<lambda>(adj, ns, _ :: string list, st). (set (map fst (adj :: adjacency)) - set (se_visited st), length (ns :: string list)))"
  have visited: "visit_dom (adj, ns, path, st) \<Longrightarrow> set (se_visited st) \<subseteq> set (se_visited (visit adj ns path st))" for adj ns path st
  proof (induction adj ns path st rule: visit.pinduct)
    case (2 adj next' ns path st)
    then show ?case by (auto simp: visit.psimps)
  qed (simp add: visit.psimps)
  show ?thesis
  proof (relation ?R)
    fix adj :: adjacency and next' :: string and ns path :: "string list" and st :: search_state
    assume new: "next' \<notin> set (se_visited st)"
    let ?st = "st\<lparr>se_visited := next' # se_visited st\<rparr>"
    show "((adj, neighbours adj next', path @ [next'], ?st), adj, next' # ns, path, st) \<in> ?R"
    proof (cases "next' \<in> set (map fst adj)")
      case True
      with new have "set (map fst adj) - set (se_visited ?st) \<subset> set (map fst adj) - set (se_visited st)" by auto
      then show ?thesis by (auto simp: finite_psubset_def)
    next
      case False
      then have "hm_get adj next' = None" by (simp add: map_of_eq_None_iff)
      then have "neighbours adj next' = []" by (simp add: neighbours_def)
      moreover from False have "set (map fst adj) - set (se_visited ?st) = set (map fst adj) - set (se_visited st)" by auto
      ultimately show ?thesis by simp
    qed
    assume dom: "visit_dom (adj, neighbours adj next', path @ [next'], ?st)"
    let ?st' = "visit adj (neighbours adj next') (path @ [next']) ?st"
    from visited [OF dom] have "set (map fst adj) - set (se_visited ?st') \<subseteq> set (map fst adj) - set (se_visited st)" by auto
    then show "((adj, ns, path, ?st'), adj, next' # ns, path, st) \<in> ?R"
      by (auto simp: finite_psubset_def)
  qed (auto simp: finite_psubset_def wf_finite_psubset [unfolded finite_psubset_def])
qed

definition dfs_find_cycles :: "adjacency \<Rightarrow> string \<Rightarrow> string list \<Rightarrow> search_state \<Rightarrow> search_state" where
  "dfs_find_cycles adj node path st =
     visit adj (neighbours adj node) (path @ [node]) (st\<lparr>se_visited := node # se_visited st\<rparr>)"

definition cycle_graph :: "loaded_extension list \<Rightarrow> string list \<Rightarrow> adjacency" where
  "cycle_graph exts involved =
     fold (\<lambda>ext adj. if ex_name ext \<in> set involved
         then hm_insert (ex_name ext) (sort (filter (\<lambda>d. d \<in> set involved) (map fst (ex_dependencies ext)))) adj
         else adj) exts []"

definition find_cycles :: "loaded_extension list \<Rightarrow> string list \<Rightarrow> string list list" where
  "find_cycles exts involved =
     se_cycles (fold (\<lambda>node st. if node \<notin> set (se_visited st) then dfs_find_cycles (cycle_graph exts involved) node [] st else st)
       (sort involved) \<lparr>se_visited = [], se_cycles = []\<rparr>)"

section \<open>The result\<close>

text \<open>The names left over, each once, sorted: the \<open>HashSet\<close> \<open>known\<close> without what was emitted.\<close>

definition left_over :: "loaded_extension list \<Rightarrow> string list \<Rightarrow> string list" where
  "left_over exts order = sort (filter (\<lambda>n. n \<notin> set order) (remdups (map ex_name exts)))"

definition compute_topological_order :: "loaded_extension list \<Rightarrow> (string list \<times> string list list) option" where
  "compute_topological_order exts =
     (case build_graph exts of (adj, in_degree) \<Rightarrow>
        let seeds = sort (map fst (filter (\<lambda>(_, d). d = 0) in_degree))
        in map_option (\<lambda>order.
             let remaining = left_over exts order;
                 cycles = (if remaining = [] then [] else find_cycles exts remaining)
             in (order @ remaining, cycles)) (kahn adj in_degree seeds []))"

definition topological_sort :: "loaded_extension list \<Rightarrow> string list option" where
  "topological_sort exts = map_option fst (compute_topological_order exts)"

definition validate_dependencies :: "('v, 'r) semver \<Rightarrow> loaded_extension list \<Rightarrow> dependency_validation_result option" where
  "validate_dependencies V exts =
     (let versions = fold (\<lambda>ext m. hm_insert (ex_name ext) (ex_version ext) m) exts [];
          found = concat (map (\<lambda>ext. concat (map (check_dependency V versions (ex_name ext)) (ex_dependencies ext))) exts)
      in map_option (\<lambda>(load_order, cycles).
           let issues = found @ map Circular cycles
           in \<lparr>dv_valid = (issues = []), dv_issues = issues, dv_load_order = load_order\<rparr>)
         (compute_topological_order exts))"

end
