(* ===== verification/DependencyFacts.thy ===== *)
theory DependencyFacts
  imports Dependencies
begin

text \<open>
  Correctness of the load order and of the cycle search. The reference is \<open>loadable\<close>: an extension whose
  installed dependencies are all loadable.
\<close>

section \<open>The reference\<close>

abbreviation names :: "loaded_extension list \<Rightarrow> string set" where
  "names exts \<equiv> ex_name ` set exts"

definition needs :: "loaded_extension list \<Rightarrow> string \<Rightarrow> string \<Rightarrow> bool" where
  "needs exts n d \<longleftrightarrow> d \<in> names exts \<and> (\<exists>ext\<in>set exts. ex_name ext = n \<and> d \<in> fst ` set (ex_dependencies ext))"

inductive loadable :: "loaded_extension list \<Rightarrow> string \<Rightarrow> bool" for exts where
  load: "n \<in> names exts \<Longrightarrow> (\<And>d. needs exts n d \<Longrightarrow> loadable exts d) \<Longrightarrow> loadable exts n"

lemma loadable_needs: "loadable exts n \<Longrightarrow> needs exts n d \<Longrightarrow> loadable exts d"
  by (erule loadable.cases) simp

section \<open>The graph that is built\<close>

text \<open>\<open>D\<close> are the edges noted so far, \<open>N\<close> the nodes that have a counter.\<close>

definition graph_inv :: "string set \<Rightarrow> (string \<times> string) set \<Rightarrow> string set \<Rightarrow> adjacency \<times> degrees \<Rightarrow> bool" where
  "graph_inv K D N g \<longleftrightarrow> (case g of (adj, deg) \<Rightarrow>
     hm_ok deg \<and> fst ` set deg = N \<and> (\<forall>d. set (neighbours adj d) = {n. (d, n) \<in> D}) \<and>
     (\<forall>n. degree_or_0 deg n = (\<Sum>d\<in>K. count_list (neighbours adj d) n)))"

lemma neighbours_insert: "neighbours (hm_insert k v adj) x = (if x = k then v else neighbours adj x)"
  by (simp add: neighbours_def hm_get_insert)

lemma degree_insert: "degree_or_0 (hm_insert k v deg) x = (if x = k then v else degree_or_0 deg x)"
  by (simp add: degree_or_0_def hm_get_insert)

lemma keys_insert: "fst ` set (hm_insert k v m) = insert k (fst ` set m)"
  by (simp add: dom_map_of_conv_image_fst [symmetric] update_conv')

lemma note_dependency_inv:
  assumes inv: "graph_inv K D N g" and fin: "finite K" "K = set known" and name: "name \<in> N"
  shows "graph_inv K (if dep \<in> K then insert (dep, name) D else D) N (note_dependency known name dep g)"
proof (cases "dep \<in> K")
  case False
  with inv fin show ?thesis by (simp add: note_dependency_def split: prod.split)
next
  case True
  obtain adj deg where g: "g = (adj, deg)" by force
  let ?adj = "hm_insert dep (neighbours adj dep @ [name]) adj"
  have cnt: "count_list (neighbours ?adj d) n = count_list (neighbours adj d) n + (if d = dep \<and> n = name then 1 else 0)" for d n
    by (simp add: neighbours_insert)
  have "(\<Sum>d\<in>K. count_list (neighbours ?adj d) n) = (\<Sum>d\<in>K. count_list (neighbours adj d) n) + (if n = name then 1 else 0)" for n
    unfolding cnt sum.distrib using True fin by (simp add: sum.delta)
  with inv True name fin show ?thesis
    by (auto simp: g graph_inv_def note_dependency_def neighbours_insert degree_insert keys_insert)
qed

lemma note_dependencies_inv:
  assumes "finite K" "K = set known" "name \<in> N"
  shows "graph_inv K D N g \<Longrightarrow>
    graph_inv K (D \<union> {(d, n). d \<in> set ds \<inter> K \<and> n = name}) N (fold (note_dependency known name) ds g)"
proof (induction ds arbitrary: D g)
  case (Cons dep ds)
  have "(if dep \<in> K then insert (dep, name) D else D) \<union> {(d, n). d \<in> set ds \<inter> K \<and> n = name} =
      D \<union> {(d, n). d \<in> set (dep # ds) \<inter> K \<and> n = name}" by auto
  with Cons.IH [OF note_dependency_inv [OF Cons.prems assms, of dep]] show ?case by (simp only: fold_simps)
qed simp

definition edges_of :: "string set \<Rightarrow> loaded_extension \<Rightarrow> (string \<times> string) set" where
  "edges_of K ext = {(d, n). d \<in> fst ` set (ex_dependencies ext) \<inter> K \<and> n = ex_name ext}"

lemma note_extension_inv:
  assumes "finite K" "K = set known" and inv: "graph_inv K D N g"
  shows "graph_inv K (D \<union> edges_of K ext) (insert (ex_name ext) N) (note_extension known ext g)"
proof -
  obtain adj deg where g: "g = (adj, deg)" by force
  have "graph_inv K D (insert (ex_name ext) N) (adj, hm_insert (ex_name ext) (degree_or_0 deg (ex_name ext)) deg)"
    using inv by (auto simp: g graph_inv_def degree_insert keys_insert)
  from note_dependencies_inv [OF assms(1,2) _ this, of "ex_name ext" "map fst (ex_dependencies ext)"]
  show ?thesis by (simp add: g note_extension_def edges_of_def)
qed

lemma note_extensions_inv:
  assumes "finite K" "K = set known"
  shows "graph_inv K D N g \<Longrightarrow>
    graph_inv K (D \<union> \<Union> (edges_of K ` set es)) (ex_name ` set es \<union> N) (fold (note_extension known) es g)"
proof (induction es arbitrary: D N g)
  case (Cons e es)
  from Cons.IH [OF note_extension_inv [OF assms Cons.prems, of e]] show ?case
    by (simp add: Un_assoc)
qed simp

lemma build_graph_inv: "graph_inv (names exts) {(d, n). needs exts n d} (names exts) (build_graph exts)"
proof -
  have "graph_inv (names exts) {} {} ([], [])" by (simp add: graph_inv_def neighbours_def degree_or_0_def)
  moreover have "finite (names exts)" "names exts = set (map ex_name exts)" by simp_all
  ultimately have "graph_inv (names exts) ({} \<union> \<Union> (edges_of (names exts) ` set exts)) (names exts \<union> {})
      (fold (note_extension (map ex_name exts)) exts ([], []))"
    by (intro note_extensions_inv)
  then have "graph_inv (names exts) (\<Union> (edges_of (names exts) ` set exts)) (names exts) (build_graph exts)"
    unfolding build_graph_def by (simp only: Un_empty_left Un_empty_right)
  moreover have "\<Union> (edges_of (names exts) ` set exts) = {(d, n). needs exts n d}"
    by (auto simp: needs_def edges_of_def)
  ultimately show ?thesis by simp
qed

section \<open>Releasing the dependents of a node\<close>

lemma release_spec:
  assumes "\<And>n. n \<in> set ds \<Longrightarrow> count_list ds n \<le> degree_or_0 deg n" and "hm_ok deg"
    and "distinct ready" and "set ready \<inter> set ds = {}"
  shows "\<exists>deg' ready'. release ds deg ready = Some (deg', ready') \<and> hm_ok deg' \<and> fst ` set deg' = fst ` set deg \<and>
    (\<forall>n. degree_or_0 deg' n = degree_or_0 deg n - count_list ds n) \<and> distinct ready' \<and>
    set ready' = set ready \<union> {n \<in> set ds. degree_or_0 deg n = count_list ds n}"
  using assms
proof (induction ds arbitrary: deg ready)
  case (Cons m ds)
  from Cons.prems(1) [of m] obtain d where d: "hm_get deg m = Some (Suc d)" "count_list ds m \<le> d"
    by (auto simp: degree_or_0_def split: option.splits) (metis Suc_le_D Suc_le_mono)
  let ?deg = "hm_insert m d deg" and ?ready = "if d = 0 then ready @ [m] else ready"
  have deg_m: "degree_or_0 deg m = Suc d" using d(1) by (simp add: degree_or_0_def)
  have "\<exists>deg' ready'. release ds ?deg ?ready = Some (deg', ready') \<and> hm_ok deg' \<and> fst ` set deg' = fst ` set ?deg \<and>
    (\<forall>n. degree_or_0 deg' n = degree_or_0 ?deg n - count_list ds n) \<and> distinct ready' \<and>
    set ready' = set ?ready \<union> {n \<in> set ds. degree_or_0 ?deg n = count_list ds n}"
  proof (rule Cons.IH)
    show "count_list ds n \<le> degree_or_0 ?deg n" if "n \<in> set ds" for n
      using Cons.prems(1) [of n] that d(2) by (auto simp: degree_insert split: if_splits)
    show "hm_ok ?deg" using Cons.prems(2) by simp
    show "distinct ?ready" using Cons.prems(3,4) by auto
    show "set ?ready \<inter> set ds = {}" using Cons.prems(4) d(2) by (auto simp: count_list_0_iff)
  qed
  then obtain deg' ready' where r: "release ds ?deg ?ready = Some (deg', ready')" "hm_ok deg'" "fst ` set deg' = fst ` set ?deg"
    "\<forall>n. degree_or_0 deg' n = degree_or_0 ?deg n - count_list ds n" "distinct ready'"
    "set ready' = set ?ready \<union> {n \<in> set ds. degree_or_0 ?deg n = count_list ds n}" by blast
  have "m \<in> fst ` set deg" using d(1) by (auto dest: map_of_SomeD intro: rev_image_eqI)
  then have keys: "fst ` set deg' = fst ` set deg" using r(3) by (auto simp: keys_insert)
  have degs: "degree_or_0 deg' n = degree_or_0 deg n - count_list (m # ds) n" for n
    using r(4) deg_m by (cases "n = m") (simp_all add: degree_insert)
  have "set ready' = set ready \<union> {n \<in> set (m # ds). degree_or_0 deg n = count_list (m # ds) n}"
  proof (rule set_eqI)
    fix n
    show "n \<in> set ready' \<longleftrightarrow> n \<in> set ready \<union> {n \<in> set (m # ds). degree_or_0 deg n = count_list (m # ds) n}"
    proof (cases "n = m")
      case True
      have "m \<in> set ds \<longleftrightarrow> count_list ds m \<noteq> 0" by (simp add: count_list_0_iff)
      with True d(2) show ?thesis unfolding r(6) by (cases "d = 0") (auto simp: degree_insert deg_m)
    qed (auto simp: r(6) degree_insert)
  qed
  moreover have "release (m # ds) deg ready = Some (deg', ready')" using r(1) d(1) by simp
  ultimately show ?case using r(2,5) keys degs by blast
qed auto

section \<open>Kahn's algorithm\<close>

text \<open>
  \<open>N\<close> are the nodes and \<open>G\<close> the edges from a dependency to its dependents; a counter is the number of edges
  from nodes that have not been emitted.
\<close>

definition kahn_inv :: "string set \<Rightarrow> (string \<times> string) set \<Rightarrow> adjacency \<Rightarrow> degrees \<Rightarrow> string list \<Rightarrow> string list \<Rightarrow> bool" where
  "kahn_inv N G adj deg queue order \<longleftrightarrow>
     hm_ok deg \<and> fst ` set deg = N \<and> finite N \<and> G \<subseteq> N \<times> N \<and> (\<forall>d. set (neighbours adj d) = {n. (d, n) \<in> G}) \<and>
     (\<forall>n. degree_or_0 deg n = (\<Sum>d\<in>N - set order. count_list (neighbours adj d) n)) \<and>
     distinct (order @ queue) \<and> set order \<union> set queue \<subseteq> N \<and>
     (\<forall>n\<in>N. n \<in> set order \<union> set queue \<longleftrightarrow> degree_or_0 deg n = 0) \<and>
     (\<forall>xs n ys d. order = xs @ n # ys \<longrightarrow> (d, n) \<in> G \<longrightarrow> d \<in> set xs)"

lemma kahn_inv_degree_0:
  assumes "kahn_inv N G adj deg queue order" and "n \<in> set order \<union> set queue" and "(d, n) \<in> G"
  shows "d \<in> set order"
proof (rule ccontr)
  assume "d \<notin> set order"
  with assms have "d \<in> N - set order" "finite (N - set order)" "n \<in> set (neighbours adj d)" "n \<in> N"
    by (auto simp: kahn_inv_def)
  then have "0 < count_list (neighbours adj d) n" by (meson count_list_0_iff gr0I)
  with \<open>d \<in> N - set order\<close> \<open>finite (N - set order)\<close> have "0 < (\<Sum>d\<in>N - set order. count_list (neighbours adj d) n)"
    by (meson sum_pos2 zero_le)
  with assms \<open>n \<in> N\<close> show False by (auto simp: kahn_inv_def)
qed

lemma kahn_inv_step:
  assumes inv: "kahn_inv N G adj deg (node # queue) order"
  shows "\<exists>deg' ready. release (neighbours adj node) deg [] = Some (deg', ready) \<and>
    kahn_inv N G adj deg' (queue @ sort ready) (order @ [node])"
proof -
  let ?c = "\<lambda>n. count_list (neighbours adj node) n"
  from inv have node: "node \<in> N" "node \<notin> set order" and fin: "finite N" and dist: "distinct (order @ node # queue)"
    and sub: "set order \<union> set (node # queue) \<subseteq> N" and nb: "\<And>d. set (neighbours adj d) = {n. (d, n) \<in> G}"
    and deg: "\<And>n. degree_or_0 deg n = (\<Sum>d\<in>N - set order. count_list (neighbours adj d) n)"
    and zero: "\<And>n. n \<in> N \<Longrightarrow> n \<in> set order \<union> set (node # queue) \<longleftrightarrow> degree_or_0 deg n = 0" and G: "G \<subseteq> N \<times> N"
    by (auto simp: kahn_inv_def)
  have split: "degree_or_0 deg n = ?c n + (\<Sum>d\<in>N - set (order @ [node]). count_list (neighbours adj d) n)" for n
  proof -
    have "N - set order - {node} = N - set (order @ [node])" by auto
    with node fin sum.remove [of "N - set order" node "\<lambda>d. count_list (neighbours adj d) n"] show ?thesis by (simp add: deg)
  qed
  obtain deg' ready where r: "release (neighbours adj node) deg [] = Some (deg', ready)" "hm_ok deg'" "fst ` set deg' = fst ` set deg"
      "\<And>n. degree_or_0 deg' n = degree_or_0 deg n - ?c n" "distinct ready"
      "set ready = {n \<in> set (neighbours adj node). degree_or_0 deg n = ?c n}"
    using release_spec [of "neighbours adj node" deg "[]"] split inv by (force simp: kahn_inv_def)
  have ready_pos: "degree_or_0 deg n \<noteq> 0" if "n \<in> set ready" for n
    using that by (auto simp: r(6) count_list_0_iff)
  have fresh: "set ready \<inter> (set order \<union> set (node # queue)) = {}"
    using ready_pos zero sub by (metis (no_types, lifting) disjoint_iff subsetD)
  have in_N: "set ready \<subseteq> N" using r(6) nb G by auto
  have deg'0: "n \<in> set (order @ [node]) \<union> set (queue @ sort ready) \<longleftrightarrow> degree_or_0 deg' n = 0" if "n \<in> N" for n
  proof -
    have "degree_or_0 deg' n = 0 \<longleftrightarrow> degree_or_0 deg n = ?c n" using r(4) [of n] split [of n] by auto
    also have "\<dots> \<longleftrightarrow> degree_or_0 deg n = 0 \<or> n \<in> set ready"
      using split [of n] by (auto simp: r(6) count_list_0_iff)
    finally show ?thesis using zero [OF that] by auto
  qed
  have deps: "d \<in> set xs" if "order @ [node] = xs @ n # ys" "(d, n) \<in> G" for xs n ys d
  proof (cases ys rule: rev_cases)
    case Nil
    with that have "xs = order" "n = node" by auto
    then show ?thesis using kahn_inv_degree_0 [OF inv _ that(2)] by auto
  next
    case (snoc zs z)
    with that have "order = xs @ n # zs" by auto
    with inv that(2) show ?thesis unfolding kahn_inv_def by blast
  qed
  have "kahn_inv N G adj deg' (queue @ sort ready) (order @ [node])"
    unfolding kahn_inv_def
  proof (intro conjI allI ballI impI)
    show "degree_or_0 deg' n = (\<Sum>d\<in>N - set (order @ [node]). count_list (neighbours adj d) n)" for n
      using r(4) [of n] split [of n] by simp
    show "distinct ((order @ [node]) @ queue @ sort ready)" using dist fresh r(5) by auto
    show "set (order @ [node]) \<union> set (queue @ sort ready) \<subseteq> N" using sub in_N by auto
  qed (use r inv deg'0 deps in \<open>auto simp: kahn_inv_def\<close>)
  with r(1) show ?thesis by blast
qed

lemma kahn_spec:
  "kahn_inv N G adj deg queue order \<Longrightarrow> \<exists>order' deg'. kahn adj deg queue order = Some order' \<and> kahn_inv N G adj deg' [] order'"
proof (induction adj deg queue order rule: kahn.induct)
  case (2 adj deg node queue order)
  from kahn_inv_step [OF "2.prems"] obtain deg' ready where r: "release (neighbours adj node) deg [] = Some (deg', ready)"
    "kahn_inv N G adj deg' (queue @ sort ready) (order @ [node])" by blast
  from "2.IH" [OF r(1) refl r(2)] r(1) show ?case by simp
qed auto

abbreviation edges :: "loaded_extension list \<Rightarrow> (string \<times> string) set" where
  "edges exts \<equiv> {(d, n). needs exts n d}"

lemma needs_names: "needs exts n d \<Longrightarrow> n \<in> names exts \<and> d \<in> names exts"
  by (auto simp: needs_def)

lemma degree_0_iff:
  assumes "hm_ok deg"
  shows "n \<in> set (map fst (filter (\<lambda>(_, d). d = 0) deg)) \<longleftrightarrow> n \<in> fst ` set deg \<and> degree_or_0 deg n = 0"
  using assms by (force simp: degree_or_0_def)

lemma kahn_start:
  assumes "build_graph exts = (adj, deg)"
  shows "kahn_inv (names exts) (edges exts) adj deg (sort (map fst (filter (\<lambda>(_, d). d = 0) deg))) []"
proof -
  from build_graph_inv [of exts] assms have g: "graph_inv (names exts) (edges exts) (names exts) (adj, deg)" by simp
  then have "distinct (map fst (filter (\<lambda>(_, d). d = 0) deg))" by (simp add: graph_inv_def distinct_map_filter)
  with g degree_0_iff [of deg] show ?thesis
    by (auto simp: kahn_inv_def graph_inv_def needs_names simp del: set_map set_filter)
qed

text \<open>What the algorithm emits, as one statement about \<open>compute_topological_order\<close>.\<close>

lemma loadable_emitted:
  assumes "kahn_inv (names exts) (edges exts) adj deg [] order"
  shows "set order = {n. loadable exts n}"
proof
  have prefix: "loadable exts n" if "order = xs @ n # ys" for xs n ys
    using that
  proof (induction "length xs" arbitrary: xs n ys rule: less_induct)
    case less
    have "n \<in> names exts" using assms less.prems by (auto simp: kahn_inv_def)
    moreover have "loadable exts d" if "needs exts n d" for d
    proof -
      from that assms less.prems have "d \<in> set xs" unfolding kahn_inv_def by blast
      then obtain as bs where xs: "xs = as @ d # bs" by (auto dest: split_list)
      then have "length as < length xs" by simp
      from less.hyps [OF this, of d "bs @ n # ys"] less.prems xs show ?thesis by simp
    qed
    ultimately show ?case by (rule load)
  qed
  then show "set order \<subseteq> {n. loadable exts n}" by (auto dest: split_list)
  have "n \<in> set order" if "loadable exts n" for n
    using that
  proof induction
    case (load n)
    show ?case
    proof (rule ccontr)
      assume "n \<notin> set order"
      with load.hyps(1) assms have "0 < degree_or_0 deg n" by (auto simp: kahn_inv_def)
      moreover from assms have "degree_or_0 deg n = (\<Sum>d\<in>names exts - set order. count_list (neighbours adj d) n)"
        by (simp add: kahn_inv_def)
      ultimately have "(\<Sum>d\<in>names exts - set order. count_list (neighbours adj d) n) \<noteq> 0" by linarith
      then obtain d where "d \<in> names exts - set order" "count_list (neighbours adj d) n \<noteq> 0" by (meson sum.neutral)
      with assms have "needs exts n d" "d \<notin> set order" by (auto simp: kahn_inv_def count_list_0_iff)
      with load.IH show False by blast
    qed
  qed
  then show "{n. loadable exts n} \<subseteq> set order" by blast
qed

lemma compute_topological_order_spec:
  "\<exists>order. compute_topological_order exts =
      Some (order @ left_over exts order, if left_over exts order = [] then [] else find_cycles exts (left_over exts order)) \<and>
    distinct order \<and> set order = {n. loadable exts n} \<and>
    (\<forall>xs n ys d. order = xs @ n # ys \<longrightarrow> needs exts n d \<longrightarrow> d \<in> set xs)"
proof -
  obtain adj deg where g: "build_graph exts = (adj, deg)" by force
  from kahn_spec [OF kahn_start [OF g]] obtain order deg' where
    k: "kahn adj deg (sort (map fst (filter (\<lambda>(_, d). d = 0) deg))) [] = Some order"
      "kahn_inv (names exts) (edges exts) adj deg' [] order" by blast
  have "distinct order" "\<forall>xs n ys d. order = xs @ n # ys \<longrightarrow> needs exts n d \<longrightarrow> d \<in> set xs"
    using k(2) by (auto simp: kahn_inv_def)
  with loadable_emitted [OF k(2)] k(1) g show ?thesis
    by (intro exI [of _ order]) (simp add: compute_topological_order_def Let_def)
qed

lemma left_over_set: "set order = {n. loadable exts n} \<Longrightarrow> set (left_over exts order) = {n \<in> names exts. \<not> loadable exts n}"
  by (auto simp: left_over_def)

section \<open>The cycle search\<close>

text \<open>\<open>path_in adj ns\<close>: every node of \<open>ns\<close> has the next one as a neighbour.\<close>

fun path_in :: "adjacency \<Rightarrow> string list \<Rightarrow> bool" where
  "path_in adj (a # b # ns) \<longleftrightarrow> b \<in> set (neighbours adj a) \<and> path_in adj (b # ns)"
| "path_in adj _ \<longleftrightarrow> True"

definition cycle_in :: "adjacency \<Rightarrow> string list \<Rightarrow> bool" where
  "cycle_in adj c \<longleftrightarrow> length c \<ge> 2 \<and> path_in adj c \<and> hd c = last c"

lemma path_in_append: "path_in adj (xs @ [a]) \<Longrightarrow> b \<in> set (neighbours adj a) \<Longrightarrow> path_in adj (xs @ [a, b])"
proof (induction xs)
  case (Cons x xs)
  then show ?case by (cases xs) auto
qed simp

lemma path_in_drop: "path_in adj (xs @ ys) \<Longrightarrow> path_in adj ys"
proof (induction xs)
  case (Cons x xs)
  then show ?case by (cases "xs @ ys") auto
qed simp

lemma cycle_at_cycle:
  assumes "path_in adj (path @ [a])" and "b \<in> set (neighbours adj a)" and "b \<in> set (path @ [a])"
  shows "cycle_in adj (cycle_at (path @ [a]) b)"
proof -
  let ?r = "dropWhile (\<lambda>n. n \<noteq> b) (path @ [a])"
  have ne: "?r \<noteq> []" and hd: "hd ?r = b"
    using assms(3) hd_dropWhile [of "\<lambda>n. n \<noteq> b" "path @ [a]"] by (auto simp: dropWhile_eq_Nil_conv)
  have split: "takeWhile (\<lambda>n. n \<noteq> b) (path @ [a]) @ ?r = path @ [a]" by simp
  then have "path_in adj ?r" using assms(1) path_in_drop by metis
  moreover obtain zs where zs: "?r = zs @ [a]"
    using ne split by (metis append_butlast_last_id last_appendR last_snoc)
  ultimately have "path_in adj (zs @ [a, b])" using path_in_append [of adj zs a b] assms(2) by simp
  with zs hd show ?thesis by (auto simp: cycle_in_def cycle_at_def hd_append split: if_splits)
qed

text \<open>Every cycle the search reports is one.\<close>

lemma visit_cycles_sound:
  assumes "\<forall>c\<in>set (se_cycles st). cycle_in adj c" and "path \<noteq> []" and "path_in adj path"
    and "set ns \<subseteq> set (neighbours adj (List.last path))"
  shows "\<forall>c\<in>set (se_cycles (visit adj ns path st)). cycle_in adj c"
  using assms
proof (induction adj ns path st rule: visit.induct)
  case (2 adj b ns path st)
  obtain p a where path: "path = p @ [a]" using "2.prems"(2) by (cases path rule: rev_cases) auto
  have b: "b \<in> set (neighbours adj a)" and ns: "set ns \<subseteq> set (neighbours adj (List.last path))" using "2.prems"(4) path by auto
  consider (fresh) "b \<notin> set (se_visited st)" | (closing) "b \<in> set (se_visited st)" "b \<in> set path"
    | (old) "b \<in> set (se_visited st)" "b \<notin> set path" by blast
  then show ?case
  proof cases
    case fresh
    have "path_in adj (path @ [b])" using path_in_append [of adj p a b] "2.prems"(3) b path by simp
    with "2.IH"(1) [OF fresh] "2.prems"(1)
    have "\<forall>c\<in>set (se_cycles (visit adj (neighbours adj b) (path @ [b]) (st\<lparr>se_visited := b # se_visited st\<rparr>))). cycle_in adj c"
      by simp
    from "2.IH"(2) [OF fresh this "2.prems"(2,3) ns] fresh show ?thesis by simp
  next
    case closing
    have "cycle_in adj (cycle_at path b)" using cycle_at_cycle [of adj p a b] "2.prems"(3) b closing path by simp
    with "2.prems"(1) have "\<forall>c\<in>set (se_cycles (st\<lparr>se_cycles := se_cycles st @ [cycle_at path b]\<rparr>)). cycle_in adj c" by auto
    from "2.IH"(3) [OF _ closing(2) this "2.prems"(2,3) ns] closing show ?thesis by simp
  next
    case old
    from "2.IH"(4) [OF _ old(2) "2.prems"(1,2,3) ns] old show ?thesis by simp
  qed
qed simp

text \<open>
  And when it reports none, from every node it has left, all ways on end (\<open>ends\<close>).
\<close>

inductive ends :: "adjacency \<Rightarrow> string \<Rightarrow> bool" for adj where
  stop: "(\<And>b. b \<in> set (neighbours adj a) \<Longrightarrow> ends adj b) \<Longrightarrow> ends adj a"

lemma visit_keeps_cycles: "se_cycles (visit adj ns path st) = [] \<Longrightarrow> se_cycles st = []"
  by (induction adj ns path st rule: visit.induct) (auto split: if_splits)

lemma visit_complete:
  assumes "se_cycles (visit adj ns path st) = []" and "set path \<subseteq> set (se_visited st)"
    and "\<forall>n\<in>set (se_visited st) - set path. ends adj n"
  shows "set ns \<union> set (se_visited st) \<subseteq> set (se_visited (visit adj ns path st)) \<and> set ns \<inter> set path = {} \<and>
    (\<forall>n\<in>set (se_visited (visit adj ns path st)) - set path. ends adj n)"
  using assms
proof (induction adj ns path st rule: visit.induct)
  case (2 adj b ns path st)
  show ?case
  proof (cases "b \<in> set (se_visited st)")
    case False
    let ?in = "st\<lparr>se_visited := b # se_visited st\<rparr>"
    let ?st = "visit adj (neighbours adj b) (path @ [b]) ?in"
    from "2.prems"(1) False have rest: "se_cycles (visit adj ns path ?st) = []" by simp
    have b: "b \<notin> set path" using False "2.prems"(2) by auto
    have pre: "set (path @ [b]) \<subseteq> set (se_visited ?in)" "\<forall>n\<in>set (se_visited ?in) - set (path @ [b]). ends adj n"
      using "2.prems"(2,3) by auto
    have "set (neighbours adj b) \<union> set (se_visited ?in) \<subseteq> set (se_visited ?st) \<and> set (neighbours adj b) \<inter> set (path @ [b]) = {} \<and>
      (\<forall>n\<in>set (se_visited ?st) - set (path @ [b]). ends adj n)"
      by (rule "2.IH"(1) [OF False visit_keeps_cycles [OF rest] pre])
    note inner = this [THEN conjunct1] this [THEN conjunct2, THEN conjunct1] this [THEN conjunct2, THEN conjunct2]
    have "ends adj b"
    proof (rule stop)
      fix c assume "c \<in> set (neighbours adj b)"
      with inner(1,2) have "c \<in> set (se_visited ?st) - set (path @ [b])" by blast
      with inner(3) show "ends adj c" by blast
    qed
    with inner(3) have "\<forall>n\<in>set (se_visited ?st) - set path. ends adj n" by auto
    moreover have sub: "set path \<subseteq> set (se_visited ?st)" using inner(1) "2.prems"(2) by auto
    ultimately have outer: "set ns \<union> set (se_visited ?st) \<subseteq> set (se_visited (visit adj ns path ?st)) \<and> set ns \<inter> set path = {} \<and>
        (\<forall>n\<in>set (se_visited (visit adj ns path ?st)) - set path. ends adj n)"
      by (intro "2.IH"(2) [OF False rest]) simp_all
    have eq: "visit adj (b # ns) path st = visit adj ns path ?st" using False by simp
    from inner(1) have "insert b (set (se_visited st)) \<subseteq> set (se_visited ?st)" by simp
    with outer [THEN conjunct1] have 1: "set (b # ns) \<union> set (se_visited st) \<subseteq> set (se_visited (visit adj ns path ?st))" by auto
    from outer [THEN conjunct2, THEN conjunct1] b have 2: "set (b # ns) \<inter> set path = {}" by simp
    show ?thesis unfolding eq by (rule conjI [OF 1 conjI [OF 2 outer [THEN conjunct2, THEN conjunct2]]])
  next
    case True
    have "b \<notin> set path"
    proof
      assume "b \<in> set path"
      with "2.prems"(1) True have "se_cycles (visit adj ns path (st\<lparr>se_cycles := se_cycles st @ [cycle_at path b]\<rparr>)) = []" by simp
      from visit_keeps_cycles [OF this] show False by simp
    qed
    with "2.IH"(4) [OF _ this] "2.prems" True show ?thesis by auto
  qed
qed auto

text \<open>The outer loop.\<close>

definition search_all :: "adjacency \<Rightarrow> string list \<Rightarrow> search_state \<Rightarrow> search_state" where
  "search_all adj ns st = fold (\<lambda>node st. if node \<notin> set (se_visited st) then dfs_find_cycles adj node [] st else st) ns st"

lemma search_all_visit: "search_all adj ns st = visit adj ns [] st"
  by (induction ns arbitrary: st) (simp_all add: search_all_def dfs_find_cycles_def)

lemma find_cycles_visit:
  "find_cycles exts involved = se_cycles (visit (cycle_graph exts involved) (sort involved) [] \<lparr>se_visited = [], se_cycles = []\<rparr>)"
  by (simp add: find_cycles_def search_all_visit [symmetric] search_all_def)

lemma cycle_graph_needs:
  assumes "set involved \<subseteq> names exts" and "b \<in> set (neighbours (cycle_graph exts involved) a)"
  shows "needs exts a b"
proof -
  have "\<forall>a. \<forall>b\<in>set (neighbours (fold (\<lambda>ext adj. if ex_name ext \<in> set involved
         then hm_insert (ex_name ext) (sort (filter (\<lambda>d. d \<in> set involved) (map fst (ex_dependencies ext)))) adj
         else adj) es adj) a). needs exts a b"
    if "set es \<subseteq> set exts" "\<forall>a. \<forall>b\<in>set (neighbours adj a). needs exts a b" for es adj
    using that
  proof (induction es arbitrary: adj)
    case (Cons e es)
    let ?adj = "if ex_name e \<in> set involved
      then hm_insert (ex_name e) (sort (filter (\<lambda>d. d \<in> set involved) (map fst (ex_dependencies e)))) adj else adj"
    have "\<forall>a. \<forall>b\<in>set (neighbours ?adj a). needs exts a b"
      using Cons.prems assms(1) by (auto simp: neighbours_insert needs_def split: if_splits)
    with Cons show ?case by simp
  qed simp
  from this [of exts "[]"] assms(2) show ?thesis by (simp add: cycle_graph_def neighbours_def)
qed

lemma cycle_graph_complete:
  assumes "distinct (map ex_name exts)" and "needs exts a b" and "a \<in> set involved" "b \<in> set involved"
  shows "b \<in> set (neighbours (cycle_graph exts involved) a)"
proof -
  let ?step = "\<lambda>ext adj. if ex_name ext \<in> set involved
      then hm_insert (ex_name ext) (sort (filter (\<lambda>d. d \<in> set involved) (map fst (ex_dependencies ext)))) adj else adj"
  have other: "neighbours (fold ?step es adj) a = neighbours adj a" if "a \<notin> names es" for es adj
    using that by (induction es arbitrary: adj) (auto simp: neighbours_insert)
  from assms(2) obtain ext where ext: "ext \<in> set exts" "ex_name ext = a" "b \<in> fst ` set (ex_dependencies ext)"
    by (auto simp: needs_def)
  then obtain es fs where split: "exts = es @ ext # fs" by (auto dest: split_list)
  with assms(1) ext(2) have "a \<notin> names fs" by auto
  with split ext assms(3,4) show ?thesis by (simp add: cycle_graph_def other neighbours_insert)
qed

lemma find_cycles_complete:
  assumes dist: "distinct (map ex_name exts)" and none: "find_cycles exts involved = []"
    and involved: "set involved = {n \<in> names exts. \<not> loadable exts n}"
  shows "involved = []"
proof -
  let ?adj = "cycle_graph exts involved" and ?st = "\<lparr>se_visited = [], se_cycles = []\<rparr>"
  have ends: "ends ?adj n" if "n \<in> set involved" for n
  proof -
    have "se_cycles (visit ?adj (sort involved) [] ?st) = []" using none unfolding find_cycles_visit .
    moreover have "set [] \<subseteq> set (se_visited ?st)" "\<forall>n\<in>set (se_visited ?st) - set []. ends ?adj n" by simp_all
    ultimately have "set (sort involved) \<union> set (se_visited ?st) \<subseteq> set (se_visited (visit ?adj (sort involved) [] ?st)) \<and>
      set (sort involved) \<inter> set [] = {} \<and> (\<forall>n\<in>set (se_visited (visit ?adj (sort involved) [] ?st)) - set []. ends ?adj n)"
      by (rule visit_complete)
    note c = this [THEN conjunct1] this [THEN conjunct2, THEN conjunct2]
    from that c(1) have "n \<in> set (se_visited (visit ?adj (sort involved) [] ?st)) - set []" by auto
    with c(2) show ?thesis by (rule bspec)
  qed
  have loads: "loadable exts n" if "ends ?adj n" "n \<in> set involved" for n
    using that
  proof induction
    case (stop a)
    show ?case
    proof (rule load)
      show "a \<in> names exts" using stop.prems involved by simp
      show "loadable exts d" if "needs exts a d" for d
      proof (rule ccontr)
        assume "\<not> loadable exts d"
        with needs_names [OF that] involved have d: "d \<in> set involved" by simp
        from stop.IH [OF cycle_graph_complete [OF dist that stop.prems d] d] \<open>\<not> loadable exts d\<close> show False by simp
      qed
    qed
  qed
  show ?thesis
  proof (cases involved)
    case (Cons n ns)
    then have n: "n \<in> set involved" by simp
    from loads [OF ends [OF n] n] n involved show ?thesis by simp
  qed
qed

text \<open>A cycle of dependencies, closed: its last name is its first.\<close>

definition dependency_cycle :: "loaded_extension list \<Rightarrow> string list \<Rightarrow> bool" where
  "dependency_cycle exts c \<longleftrightarrow> length c \<ge> 2 \<and> successively (needs exts) c \<and> hd c = List.last c"

lemma find_cycles_sound:
  assumes "set involved \<subseteq> names exts" and "c \<in> set (find_cycles exts involved)"
  shows "dependency_cycle exts c"
proof -
  let ?adj = "cycle_graph exts involved"
  have sound: "\<forall>c\<in>set (se_cycles (visit ?adj ns [] st)). cycle_in ?adj c" if "\<forall>c\<in>set (se_cycles st). cycle_in ?adj c" for ns st
    using that
  proof (induction ns arbitrary: st)
    case (Cons n ns)
    show ?case
    proof (cases "n \<in> set (se_visited st)")
      case False
      have "\<forall>c\<in>set (se_cycles (visit ?adj (neighbours ?adj n) [n] (st\<lparr>se_visited := n # se_visited st\<rparr>))). cycle_in ?adj c"
        by (rule visit_cycles_sound) (use Cons.prems in simp_all)
      from Cons.IH [OF this] False show ?thesis by simp
    qed (use Cons in simp)
  qed simp
  have "cycle_in ?adj c" using sound [of "\<lparr>se_visited = [], se_cycles = []\<rparr>" "sort involved"] assms(2) by (simp add: find_cycles_visit)
  moreover have "successively (needs exts) ns" if "path_in ?adj ns" for ns
    using that cycle_graph_needs [OF assms(1)] by (induction ?adj ns rule: path_in.induct) auto
  ultimately show ?thesis by (simp add: cycle_in_def dependency_cycle_def)
qed

section \<open>What the properties speak of\<close>

text \<open>Every name comes after the dependencies it needs.\<close>

definition deps_first :: "loaded_extension list \<Rightarrow> string list \<Rightarrow> bool" where
  "deps_first exts order \<longleftrightarrow> (\<forall>i < length order. \<forall>d. needs exts (order ! i) d \<longrightarrow> d \<in> set (take i order))"

definition dependency_met :: "('v, 'r) semver \<Rightarrow> loaded_extension list \<Rightarrow> string \<times> string \<Rightarrow> bool" where
  "dependency_met V exts d \<longleftrightarrow> (\<exists>ext\<in>set exts. ex_name ext = fst d \<and> version_matches V (snd d) (ex_version ext))"

lemma versions_get:
  "distinct (map ex_name exts) \<Longrightarrow> hm_get (fold (\<lambda>ext m. hm_insert (ex_name ext) (ex_version ext) m) exts m) n =
     (case find (\<lambda>ext. ex_name ext = n) exts of None \<Rightarrow> hm_get m n | Some ext \<Rightarrow> Some (ex_version ext))"
proof (induction exts arbitrary: m)
  case (Cons e es)
  have "find (\<lambda>ext. ex_name ext = ex_name e) es = None" using Cons.prems
    unfolding find_None_iff by (metis distinct.simps(2) image_eqI list.set_map list.simps(9))
  with Cons show ?case by (auto simp: hm_get_insert split: option.splits)
qed simp

end
