(* ===== verification/DependencyProperties.thy ===== *)
theory DependencyProperties
  imports DependencyFacts
begin

text \<open>
  The properties of the dependency resolver: its load order, that it returns, the cycles it reports and what it
  calls valid.
\<close>

section \<open>Properties\<close>

text \<open>C25. \<open>topological_sort\<close> puts the extensions whose dependencies can all be loaded first, each once and after what it
  needs, and then, in alphabetical order, those left over.\<close>

theorem load_order_correct:
  "\<exists>order rest. topological_sort exts = Some (order @ rest) \<and> distinct (order @ rest) \<and>
     set order = {n. loadable exts n} \<and> deps_first exts order \<and>
     set rest = {n \<in> names exts. \<not> loadable exts n} \<and> sorted rest"
proof -
  obtain order where o: "topological_sort exts = Some (order @ left_over exts order)" "distinct order"
    "set order = {n. loadable exts n}" "\<forall>xs n ys d. order = xs @ n # ys \<longrightarrow> needs exts n d \<longrightarrow> d \<in> set xs"
    using compute_topological_order_spec [of exts] by (auto simp: topological_sort_def)
  have "deps_first exts order" using o(4) by (auto simp: deps_first_def dest!: id_take_nth_drop)
  moreover have "distinct (order @ left_over exts order)" using o(2) by (auto simp: left_over_def)
  moreover have "sorted (left_over exts order)" by (simp add: left_over_def)
  ultimately show ?thesis using o(1,3) left_over_set [OF o(3)] by blast
qed

text \<open>\<open>validate_dependencies\<close> always returns: no counter is missing or goes below zero, the queue runs empty and the
  search for cycles ends. The load order it returns has every extension, each name once.\<close>

lemma validation_returns:
  "\<exists>result. validate_dependencies V exts = Some result \<and> distinct (dv_load_order result) \<and>
     set (dv_load_order result) = names exts"
proof -
  obtain order where o: "compute_topological_order exts =
      Some (order @ left_over exts order, if left_over exts order = [] then [] else find_cycles exts (left_over exts order))"
    "distinct order" "set order = {n. loadable exts n}"
    using compute_topological_order_spec [of exts] by blast
  moreover have "n \<in> names exts" if "loadable exts n" for n using that by cases
  ultimately show ?thesis by (auto simp: validate_dependencies_def Let_def left_over_def)
qed

text \<open>Every cycle that \<open>validate_dependencies\<close> reports is a closed chain of needed dependencies.\<close>

lemma reported_cycles_are_real:
  assumes "validate_dependencies V exts = Some result" and "Circular c \<in> set (dv_issues result)"
  shows "dependency_cycle exts c"
proof -
  obtain order where o: "compute_topological_order exts =
      Some (order @ left_over exts order, if left_over exts order = [] then [] else find_cycles exts (left_over exts order))"
    using compute_topological_order_spec [of exts] by blast
  have "Circular c \<notin> set (check_dependency V versions name d)" for versions name d
    by (auto simp: check_dependency_def split: prod.splits option.splits)
  with assms o have "c \<in> set (find_cycles exts (left_over exts order))"
    by (auto simp: validate_dependencies_def Let_def split: if_splits)
  then show ?thesis by (rule find_cycles_sound [rotated]) (auto simp: left_over_def)
qed


section \<open>Examples\<close>

text \<open>Two extensions that need each other, and a third that needs one of them.\<close>

definition ab_cycle :: "loaded_extension list" where
  "ab_cycle =
     [\<lparr>ex_name = ''a'', ex_version = ''1.0.0'', ex_dependencies = [(''b'', ''1.0.0'')]\<rparr>,
      \<lparr>ex_name = ''b'', ex_version = ''1.0.0'', ex_dependencies = [(''a'', ''1.0.0'')]\<rparr>,
      \<lparr>ex_name = ''Z'', ex_version = ''1.0.0'', ex_dependencies = [(''a'', ''1.0.0'')]\<rparr>]"

definition exact_versions :: "(string, string) semver" where
  "exact_versions = \<lparr>sv_version = Some, sv_req = Some, sv_matches = (\<lambda>req v. req = ''='' @ v)\<rparr>"

lemma ab_cycle_result:
  "validate_dependencies exact_versions ab_cycle =
     Some \<lparr>dv_valid = False, dv_issues = [Circular [''a'', ''b'', ''a'']], dv_load_order = [''Z'', ''a'', ''b'']\<rparr>"
  by code_simp

text \<open>
  \<open>Z\<close> is in no cycle, and is placed before the \<open>a\<close> it needs: what is left over is not only what is in a cycle, and is
  ordered by name alone.
\<close>

lemma left_over_is_not_ordered: "topological_sort ab_cycle = Some [''Z'', ''a'', ''b''] \<and> needs ab_cycle ''Z'' ''a''"
proof
  show "topological_sort ab_cycle = Some [''Z'', ''a'', ''b'']" by code_simp
qed (simp add: needs_def ab_cycle_def)

lemma reported_cycles_are_real_witness: "dependency_cycle ab_cycle [''a'', ''b'', ''a'']"
  by (rule reported_cycles_are_real [OF ab_cycle_result]) simp


end
