(* ===== verification/ChannelRepo.thy ===== *)
theory ChannelRepo
  imports ApiError "HOL-Library.Word"
begin

text \<open>
  Messaging channels: rows, errors and the repository (\<open>aionui-db/src/models/channel.rs\<close>,
  \<open>aionui-db/src/repository/sqlite_channel.rs\<close>, \<open>aionui-channel/src/error.rs\<close>), on the tables
  \<open>assistant_users\<close>, \<open>assistant_sessions\<close> and \<open>assistant_pairing_codes\<close> with the constraints of migrations 001
  and 002: primary keys, the unique platform user, the check on the status and the foreign keys of sessions,
  whose rows go with their user. The table \<open>assistant_plugins\<close> is not part of this state. Of the tables of
  other modules the state keeps the ids of the conversations and the client preferences.
\<close>

section \<open>Platforms and status\<close>

datatype plugin_type = Telegram | Lark | Dingtalk | Weixin | Slack | Discord

fun plugin_type_str :: "plugin_type \<Rightarrow> string" where
  "plugin_type_str Telegram = ''telegram''"
| "plugin_type_str Lark = ''lark''"
| "plugin_type_str Dingtalk = ''dingtalk''"
| "plugin_type_str Weixin = ''weixin''"
| "plugin_type_str Slack = ''slack''"
| "plugin_type_str Discord = ''discord''"

definition plugin_type_parse :: "string \<Rightarrow> plugin_type option" where
  "plugin_type_parse s =
     (if s = ''telegram'' then Some Telegram else if s = ''lark'' then Some Lark
      else if s = ''dingtalk'' then Some Dingtalk else if s = ''weixin'' then Some Weixin
      else if s = ''slack'' then Some Slack else if s = ''discord'' then Some Discord else None)"

datatype pairing_status = PairPending | PairApproved | PairRejected | PairExpired

fun pairing_status_str :: "pairing_status \<Rightarrow> string" where
  "pairing_status_str PairPending = ''pending''"
| "pairing_status_str PairApproved = ''approved''"
| "pairing_status_str PairRejected = ''rejected''"
| "pairing_status_str PairExpired = ''expired''"

definition pairing_status_parse :: "string \<Rightarrow> pairing_status option" where
  "pairing_status_parse s =
     (if s = ''pending'' then Some PairPending else if s = ''approved'' then Some PairApproved
      else if s = ''rejected'' then Some PairRejected else if s = ''expired'' then Some PairExpired else None)"

interpretation plugin_type_codec: codec plugin_type_str plugin_type_parse
  by unfold_locales (case_tac x; simp add: plugin_type_parse_def)

interpretation pairing_status_codec: codec pairing_status_str pairing_status_parse
  by unfold_locales (case_tac x; simp add: pairing_status_parse_def)

section \<open>Rows, errors, events\<close>

record assistant_user_row =
  au_id :: string
  au_platform_user_id :: string
  au_platform_type :: string
  au_display_name :: "string option"
  au_authorized_at :: int
  au_last_active :: "int option"
  au_session_id :: "string option"

record assistant_session_row =
  as_id :: string
  as_user_id :: string
  as_agent_type :: string
  as_conversation_id :: "string option"
  as_workspace :: "string option"
  as_chat_id :: "string option"
  as_created_at :: int
  as_last_activity :: int

record pairing_code_row =
  pc_code :: string
  pc_platform_user_id :: string
  pc_platform_type :: string
  pc_display_name :: "string option"
  pc_requested_at :: int
  pc_expires_at :: int
  pc_status :: string

datatype channel_error =
    PluginNotFound string
  | InvalidPluginType string
  | PluginAlreadyRunning string
  | InvalidConfig string
  | ConnectionFailed string
  | PairingNotFound string
  | PairingExpired string
  | PairingAlreadyProcessed string
  | UserNotFound string
  | UserNotAuthorized string
  | SessionNotFound string
  | EncryptionFailed string
  | DecryptionFailed string
  | PlatformApi string
  | MessageSendFailed string
  | Database db_error
  | ChJson string

text \<open>The broadcasts to the WebSocket clients: their name and payload.\<close>

datatype channel_event =
    PairingRequestedEvent string string string "string option" int
  | UserAuthorizedEvent string string string "string option"

record channel_state =
  ch_users :: "assistant_user_row list"
  ch_sessions :: "assistant_session_row list"
  ch_pairings :: "pairing_code_row list"
  ch_conversations :: "string list"
  ch_prefs :: "(string, string) hmap"
  ch_events :: "channel_event list"
  ch_draws :: nat

type_synonym 'a channel_repo_op = "channel_state \<Rightarrow> (channel_state, db_error, 'a) outcome"

text \<open>A reading of the clock and a fresh id; random numbers for pairing codes, which may fail.\<close>

record channel_env = env +
  rng :: "nat \<Rightarrow> string + 32 word"

definition ch_drawn :: "channel_state \<Rightarrow> channel_state" where
  "ch_drawn s = s\<lparr>ch_draws := Suc (ch_draws s)\<rparr>"

section \<open>Users\<close>

definition ch_get_all_users :: "channel_state \<Rightarrow> assistant_user_row list" where
  "ch_get_all_users s = sort_key (\<lambda>u. - au_authorized_at u) (ch_users s)"

definition get_user_by_platform :: "string \<Rightarrow> string \<Rightarrow> channel_state \<Rightarrow> assistant_user_row option" where
  "get_user_by_platform platform_user_id platform_type s =
     find (\<lambda>u. au_platform_user_id u = platform_user_id \<and> au_platform_type u = platform_type) (ch_users s)"

definition user_not_found_msg :: "string \<Rightarrow> string" where
  "user_not_found_msg i = ''User '' @ quoted i @ '' not found''"

definition ch_create_user :: "assistant_user_row \<Rightarrow> unit channel_repo_op" where
  "ch_create_user row s =
     (if \<exists>u\<in>set (ch_users s). au_id u = au_id row \<or>
           au_platform_user_id u = au_platform_user_id row \<and> au_platform_type u = au_platform_type row
      then (s, Inl (DbConflict (''User '' @ quoted (au_platform_user_id row) @ '' on platform '' @
              quoted (au_platform_type row) @ '' already exists'')))
      else (s\<lparr>ch_users := ch_users s @ [row]\<rparr>, Inr ()))"

definition update_user_last_active :: "string \<Rightarrow> int \<Rightarrow> unit channel_repo_op" where
  "update_user_last_active i last_active s =
     (if rows_affected (\<lambda>u. au_id u = i) (ch_users s) = 0 then (s, Inl (DbNotFound (user_not_found_msg i)))
      else (s\<lparr>ch_users := update_where (\<lambda>u. au_id u = i) (\<lambda>u. u\<lparr>au_last_active := Some last_active\<rparr>) (ch_users s)\<rparr>, Inr ()))"

text \<open>The sessions of the user go with the row (\<open>ON DELETE CASCADE\<close>).\<close>

definition ch_delete_user :: "string \<Rightarrow> unit channel_repo_op" where
  "ch_delete_user i s =
     (if rows_affected (\<lambda>u. au_id u = i) (ch_users s) = 0 then (s, Inl (DbNotFound (user_not_found_msg i)))
      else (s\<lparr>ch_users := filter (\<lambda>u. au_id u \<noteq> i) (ch_users s),
              ch_sessions := filter (\<lambda>x. as_user_id x \<noteq> i) (ch_sessions s)\<rparr>, Inr ()))"

section \<open>Sessions\<close>

definition get_all_sessions :: "channel_state \<Rightarrow> assistant_session_row list" where
  "get_all_sessions s = sort_key (\<lambda>x. - as_last_activity x) (ch_sessions s)"

definition ch_get_session :: "string \<Rightarrow> channel_state \<Rightarrow> assistant_session_row option" where
  "ch_get_session i s = find (\<lambda>x. as_id x = i) (ch_sessions s)"

definition of_chat :: "string \<Rightarrow> string \<Rightarrow> assistant_session_row \<Rightarrow> bool" where
  "of_chat user_id chat_id x \<longleftrightarrow> as_user_id x = user_id \<and> as_chat_id x = Some chat_id"

definition find_session :: "string \<Rightarrow> string \<Rightarrow> channel_state \<Rightarrow> assistant_session_row option" where
  "find_session user_id chat_id s = find (of_chat user_id chat_id) (ch_sessions s)"

definition insert_session :: "assistant_session_row \<Rightarrow> assistant_session_row channel_repo_op" where
  "insert_session row s =
     (if (\<exists>x\<in>set (ch_sessions s). as_id x = as_id row) \<or> (\<forall>u\<in>set (ch_users s). au_id u \<noteq> as_user_id row) \<or>
         (case as_conversation_id row of None \<Rightarrow> False | Some c \<Rightarrow> c \<notin> set (ch_conversations s))
      then (s, Inl Query)
      else (s\<lparr>ch_sessions := ch_sessions s @ [row]\<rparr>, Inr row))"

definition get_or_create_session :: "'a env_scheme \<Rightarrow> string \<Rightarrow> string \<Rightarrow> assistant_session_row \<Rightarrow> assistant_session_row channel_repo_op" where
  "get_or_create_session E user_id chat_id new_row s =
     (case find_session user_id chat_id s of
        Some row \<Rightarrow>
          let now = clock E (ch_draws s)
          in ((ch_drawn s)\<lparr>ch_sessions := update_where (\<lambda>x. as_id x = as_id row) (\<lambda>x. x\<lparr>as_last_activity := now\<rparr>) (ch_sessions s)\<rparr>,
              Inr (row\<lparr>as_last_activity := now\<rparr>))
      | None \<Rightarrow> insert_session new_row s)"

definition session_not_found_msg :: "string \<Rightarrow> string" where
  "session_not_found_msg i = ''Session '' @ quoted i @ '' not found''"

definition update_session_activity :: "string \<Rightarrow> int \<Rightarrow> unit channel_repo_op" where
  "update_session_activity i last_activity s =
     (if rows_affected (\<lambda>x. as_id x = i) (ch_sessions s) = 0 then (s, Inl (DbNotFound (session_not_found_msg i)))
      else (s\<lparr>ch_sessions := update_where (\<lambda>x. as_id x = i) (\<lambda>x. x\<lparr>as_last_activity := last_activity\<rparr>) (ch_sessions s)\<rparr>, Inr ()))"

definition update_session_conversation :: "'a env_scheme \<Rightarrow> string \<Rightarrow> string \<Rightarrow> unit channel_repo_op" where
  "update_session_conversation E i conversation_id s =
     (let now = clock E (ch_draws s); s = ch_drawn s
      in if rows_affected (\<lambda>x. as_id x = i) (ch_sessions s) = 0 then (s, Inl (DbNotFound (session_not_found_msg i)))
         else if conversation_id \<notin> set (ch_conversations s) then (s, Inl Query)
         else (s\<lparr>ch_sessions := update_where (\<lambda>x. as_id x = i)
                  (\<lambda>x. x\<lparr>as_conversation_id := Some conversation_id, as_last_activity := now\<rparr>) (ch_sessions s)\<rparr>, Inr ()))"

definition update_session_agent_type :: "'a env_scheme \<Rightarrow> string \<Rightarrow> string \<Rightarrow> unit channel_repo_op" where
  "update_session_agent_type E i agent_type s =
     (let now = clock E (ch_draws s); s = ch_drawn s
      in if rows_affected (\<lambda>x. as_id x = i) (ch_sessions s) = 0 then (s, Inl (DbNotFound (session_not_found_msg i)))
         else (s\<lparr>ch_sessions := update_where (\<lambda>x. as_id x = i)
                  (\<lambda>x. x\<lparr>as_agent_type := agent_type, as_last_activity := now\<rparr>) (ch_sessions s)\<rparr>, Inr ()))"

definition delete_sessions_by_user :: "string \<Rightarrow> unit channel_repo_op" where
  "delete_sessions_by_user user_id s =
     (s\<lparr>ch_sessions := filter (\<lambda>x. as_user_id x \<noteq> user_id) (ch_sessions s)\<rparr>, Inr ())"

definition delete_session_by_user_chat :: "string \<Rightarrow> string \<Rightarrow> unit channel_repo_op" where
  "delete_session_by_user_chat user_id chat_id s =
     (s\<lparr>ch_sessions := filter (\<lambda>x. \<not> of_chat user_id chat_id x) (ch_sessions s)\<rparr>, Inr ())"

section \<open>Pairing codes\<close>

definition create_pairing :: "pairing_code_row \<Rightarrow> unit channel_repo_op" where
  "create_pairing row s =
     (if \<exists>p\<in>set (ch_pairings s). pc_code p = pc_code row
      then (s, Inl (DbConflict (''Pairing code '' @ quoted (pc_code row) @ '' already exists'')))
      else if pairing_status_parse (pc_status row) = None then (s, Inl Query)
      else (s\<lparr>ch_pairings := ch_pairings s @ [row]\<rparr>, Inr ()))"

definition get_pending_pairings :: "channel_state \<Rightarrow> pairing_code_row list" where
  "get_pending_pairings s = sort_key (\<lambda>p. - pc_requested_at p) (filter (\<lambda>p. pc_status p = ''pending'') (ch_pairings s))"

definition get_pairing_by_code :: "string \<Rightarrow> channel_state \<Rightarrow> pairing_code_row option" where
  "get_pairing_by_code code s = find (\<lambda>p. pc_code p = code) (ch_pairings s)"

definition update_pairing_status :: "string \<Rightarrow> string \<Rightarrow> unit channel_repo_op" where
  "update_pairing_status code status s =
     (if rows_affected (\<lambda>p. pc_code p = code) (ch_pairings s) = 0
      then (s, Inl (DbNotFound (''Pairing code '' @ quoted code @ '' not found'')))
      else if pairing_status_parse status = None then (s, Inl Query)
      else (s\<lparr>ch_pairings := update_where (\<lambda>p. pc_code p = code) (\<lambda>p. p\<lparr>pc_status := status\<rparr>) (ch_pairings s)\<rparr>, Inr ()))"

definition cleanup_expired_pairings :: "int \<Rightarrow> nat channel_repo_op" where
  "cleanup_expired_pairings now s =
     (let P = (\<lambda>p. pc_status p = ''pending'' \<and> pc_expires_at p \<le> now)
      in (s\<lparr>ch_pairings := update_where P (\<lambda>p. p\<lparr>pc_status := ''expired''\<rparr>) (ch_pairings s)\<rparr>,
          Inr (rows_affected P (ch_pairings s))))"

end
