(* ===== verification/ChannelPairing.thy ===== *)
theory ChannelPairing
  imports ChannelRepo
begin

text \<open>
  The pairing service and the session manager of the messaging channels (\<open>aionui-channel/src/pairing.rs\<close>,
  \<open>session.rs\<close>, \<open>constants.rs\<close>). A database error is turned into \<open>ChannelError::Database\<close> by \<open>?\<close>.
\<close>

type_synonym 'a channel_op = "channel_state \<Rightarrow> (channel_state, channel_error, 'a) outcome"

abbreviation db :: "(channel_state, db_error, 'a) outcome \<Rightarrow> (channel_state, channel_error, 'a) outcome" where
  "db \<equiv> map_err Database"

section \<open>Numbers as text\<close>

fun decimal :: "nat \<Rightarrow> string" where
  "decimal n = (if n < 10 then [char_of (48 + n)] else decimal (n div 10) @ [char_of (48 + n mod 10)])"

declare decimal.simps [simp del]

definition decimal_int :: "int \<Rightarrow> string" where
  "decimal_int i = (if i < 0 then CHR ''-'' # decimal (nat (- i)) else decimal (nat i))"

text \<open>\<open>{num:0>width$}\<close>\<close>

definition zero_padded :: "nat \<Rightarrow> nat \<Rightarrow> string" where
  "zero_padded width n = replicate (width - length (decimal n)) CHR ''0'' @ decimal n"

section \<open>Pairing\<close>

definition PAIRING_CODE_LENGTH :: nat where "PAIRING_CODE_LENGTH = 6"
definition PAIRING_CODE_TTL :: int where "PAIRING_CODE_TTL = 10 * 60 * 1000"

text \<open>The random number is the \<open>u32\<close> read from the four bytes of \<open>getrandom\<close>.\<close>

definition generate_pairing_code :: "string + 32 word \<Rightarrow> channel_error + string" where
  "generate_pairing_code bytes =
     (case bytes of
        Inl e \<Rightarrow> Inl (InvalidConfig (''RNG failure: '' @ e))
      | Inr w \<Rightarrow> Inr (zero_padded PAIRING_CODE_LENGTH (unat (w mod 10 ^ PAIRING_CODE_LENGTH))))"

definition expire_user_pending_codes :: "string \<Rightarrow> string \<Rightarrow> unit channel_op" where
  "expire_user_pending_codes platform_user_id platform_type s =
     for_each (\<lambda>row s.
         if pc_platform_user_id row = platform_user_id \<and> pc_platform_type row = platform_type
         then db (update_pairing_status (pc_code row) (pairing_status_str PairExpired) s)
         else (s, Inr ()))
       (get_pending_pairings s) s"

definition request_pairing :: "'a channel_env_scheme \<Rightarrow> string \<Rightarrow> string \<Rightarrow> string option \<Rightarrow> string channel_op" where
  "request_pairing E platform_user_id platform_type display_name s =
     and_then (expire_user_pending_codes platform_user_id platform_type s) (\<lambda>_ s.
       (case generate_pairing_code (rng E (ch_draws s)) of
          Inl e \<Rightarrow> (ch_drawn s, Inl e)
        | Inr code \<Rightarrow>
            let s = ch_drawn s; now = clock E (ch_draws s); s = ch_drawn s; expires_at = now + PAIRING_CODE_TTL;
                row = \<lparr>pc_code = code, pc_platform_user_id = platform_user_id, pc_platform_type = platform_type,
                       pc_display_name = display_name, pc_requested_at = now, pc_expires_at = expires_at,
                       pc_status = pairing_status_str PairPending\<rparr>
            in and_then (db (create_pairing row s)) (\<lambda>_ s.
                 (s\<lparr>ch_events := ch_events s @ [PairingRequestedEvent code platform_user_id platform_type display_name expires_at]\<rparr>,
                  Inr code))))"

definition get_valid_pending_pairing :: "'a env_scheme \<Rightarrow> string \<Rightarrow> pairing_code_row channel_op" where
  "get_valid_pending_pairing E code s =
     (case get_pairing_by_code code s of
        None \<Rightarrow> (s, Inl (PairingNotFound code))
      | Some row \<Rightarrow>
          if pc_status row \<noteq> pairing_status_str PairPending then (s, Inl (PairingAlreadyProcessed code))
          else let now = clock E (ch_draws s); s = ch_drawn s
               in if pc_expires_at row \<le> now
                  then (fst (update_pairing_status code (pairing_status_str PairExpired) s), Inl (PairingExpired code))
                  else (s, Inr row))"

definition approve_pairing :: "'a env_scheme \<Rightarrow> string \<Rightarrow> unit channel_op" where
  "approve_pairing E code s =
     and_then (get_valid_pending_pairing E code s) (\<lambda>row s.
       let now = clock E (ch_draws s); user_id = mint_id E (ch_draws s); s = ch_drawn s;
           user_row = \<lparr>au_id = user_id, au_platform_user_id = pc_platform_user_id row,
             au_platform_type = pc_platform_type row, au_display_name = pc_display_name row,
             au_authorized_at = now, au_last_active = None, au_session_id = None\<rparr>
       in and_then (db (ch_create_user user_row s)) (\<lambda>_ s.
            and_then (db (update_pairing_status code (pairing_status_str PairApproved) s)) (\<lambda>_ s.
              (s\<lparr>ch_events := ch_events s @
                   [UserAuthorizedEvent user_id (pc_platform_user_id row) (pc_platform_type row) (pc_display_name row)]\<rparr>,
               Inr ()))))"

definition reject_pairing :: "'a env_scheme \<Rightarrow> string \<Rightarrow> unit channel_op" where
  "reject_pairing E code s =
     and_then (get_valid_pending_pairing E code s) (\<lambda>_ s.
       db (update_pairing_status code (pairing_status_str PairRejected) s))"

text \<open>The pending requests that have not run out.\<close>

definition active_pairings :: "'a env_scheme \<Rightarrow> pairing_code_row list channel_op" where
  "active_pairings E s =
     (let rows = get_pending_pairings s; now = clock E (ch_draws s)
      in (ch_drawn s, Inr (filter (\<lambda>r. pc_expires_at r > now) rows)))"

definition is_user_authorized :: "string \<Rightarrow> string \<Rightarrow> channel_state \<Rightarrow> bool" where
  "is_user_authorized platform_user_id platform_type s \<longleftrightarrow> get_user_by_platform platform_user_id platform_type s \<noteq> None"

definition get_internal_user_id :: "string \<Rightarrow> string \<Rightarrow> channel_state \<Rightarrow> string option" where
  "get_internal_user_id platform_user_id platform_type s = map_option au_id (get_user_by_platform platform_user_id platform_type s)"

text \<open>One turn of the clean-up timer.\<close>

definition cleanup_tick :: "'a env_scheme \<Rightarrow> channel_state \<Rightarrow> channel_state" where
  "cleanup_tick E s = fst (cleanup_expired_pairings (clock E (ch_draws s)) (ch_drawn s))"

section \<open>Sessions\<close>

definition new_session_row :: "'a env_scheme \<Rightarrow> string \<Rightarrow> string \<Rightarrow> string \<Rightarrow> string option \<Rightarrow> channel_state \<Rightarrow> assistant_session_row" where
  "new_session_row E user_id chat_id agent_type workspace s =
     (let now = clock E (ch_draws s)
      in \<lparr>as_id = mint_id E (ch_draws s), as_user_id = user_id, as_agent_type = agent_type, as_conversation_id = None,
          as_workspace = workspace, as_chat_id = Some chat_id, as_created_at = now, as_last_activity = now\<rparr>)"

definition session_for_chat :: "'a env_scheme \<Rightarrow> string \<Rightarrow> string \<Rightarrow> string \<Rightarrow> string option \<Rightarrow> assistant_session_row channel_op" where
  "session_for_chat E user_id chat_id agent_type workspace s =
     db (get_or_create_session E user_id chat_id (new_session_row E user_id chat_id agent_type workspace s) (ch_drawn s))"

definition reset_session :: "'a env_scheme \<Rightarrow> string \<Rightarrow> string \<Rightarrow> string \<Rightarrow> string option \<Rightarrow> assistant_session_row channel_op" where
  "reset_session E user_id chat_id agent_type workspace s =
     and_then (db (delete_session_by_user_chat user_id chat_id s)) (\<lambda>_ s.
       session_for_chat E user_id chat_id agent_type workspace s)"

definition update_agent_type :: "'a env_scheme \<Rightarrow> string \<Rightarrow> string \<Rightarrow> unit channel_op" where
  "update_agent_type E session_id agent_type s = db (update_session_agent_type E session_id agent_type s)"

definition cleanup_user_sessions :: "string \<Rightarrow> unit channel_op" where
  "cleanup_user_sessions user_id s = db (delete_sessions_by_user user_id s)"

text \<open>One delete for each user of the list; a user that was seen already is skipped.\<close>

fun clear_users :: "string list \<Rightarrow> assistant_session_row list \<Rightarrow> unit channel_op" where
  "clear_users cleared [] s = (s, Inr ())"
| "clear_users cleared (x # xs) s =
     (if as_user_id x \<in> set cleared then clear_users cleared xs s
      else and_then (db (delete_sessions_by_user (as_user_id x) s)) (\<lambda>_. clear_users (as_user_id x # cleared) xs))"

definition clear_all_sessions :: "unit channel_op" where
  "clear_all_sessions s = clear_users [] (get_all_sessions s) s"

definition get_session_by_id :: "string \<Rightarrow> channel_state \<Rightarrow> assistant_session_row option" where
  "get_session_by_id session_id s = ch_get_session session_id s"

definition bind_conversation :: "'a env_scheme \<Rightarrow> string \<Rightarrow> string \<Rightarrow> unit channel_op" where
  "bind_conversation E session_id conversation_id s = db (update_session_conversation E session_id conversation_id s)"

end
