(* ===== verification/ChannelActions.thy ===== *)
theory ChannelActions
  imports ChannelPairing
begin

text \<open>
  The entry point of the messaging channels and their REST routes (\<open>aionui-channel/src/action.rs\<close>,
  \<open>channel_settings.rs\<close>, \<open>routes.rs\<close>, \<open>types.rs\<close>): authorization, routing of actions and dispatch to the agent.
  Reading the JSON of a preference is a parameter. An id is 36 ASCII characters, so that its first eight
  are \<open>take 8\<close>. A character outside ASCII is its UTF-8 bytes.
\<close>

section \<open>Messages\<close>

datatype action_category = Platform | System | Chat
datatype action_behavior = Send | Edit | Answer

record action_context =
  ac_platform :: plugin_type
  ac_user_id :: string
  ac_chat_id :: string
  ac_message_id :: "string option"
  ac_session_id :: "string option"

record unified_action =
  un_action :: string
  un_category :: action_category
  un_params :: "(string, string) hmap option"
  un_context :: action_context

text \<open>Of an incoming message, the fields the executor reads.\<close>

record incoming_message =
  im_platform :: plugin_type
  im_chat_id :: string
  im_user_id :: string
  im_display_name :: string
  im_text :: string
  im_action :: "unified_action option"

record action_button =
  bt_label :: string
  bt_action :: string
  bt_params :: "(string, string) hmap option"

record action_response =
  rp_text :: "string option"
  rp_parse_mode :: "string option"
  rp_buttons :: "action_button list list option"
  rp_keyboard :: "action_button list list option"
  rp_behavior :: action_behavior
  rp_toast :: "string option"
  rp_edit_message_id :: "string option"

datatype message_result = Action action_response | Dispatched string "string option" | AlreadyProcessing

section \<open>Settings\<close>

record resolved_agent_config =
  rc_agent_type :: string
  rc_backend :: "string option"

text \<open>The fields \<open>agent_type\<close> and \<open>backend\<close> of a stored preference, as strings.\<close>

type_synonym pref_json = "string \<Rightarrow> string option \<times> string option"

definition agent_key :: "plugin_type \<Rightarrow> string" where
  "agent_key platform = ''assistant.'' @ plugin_type_str platform @ ''.agent''"

definition default_agent_config :: resolved_agent_config where
  "default_agent_config = \<lparr>rc_agent_type = ''aionrs'', rc_backend = None\<rparr>"

definition backend_to_agent_type :: "string \<Rightarrow> string" where
  "backend_to_agent_type backend =
     (if backend = ''aionrs'' \<or> backend = ''aion-cli'' then ''aionrs''
      else if backend = ''openclaw-gateway'' then ''openclaw-gateway''
      else if backend = ''nanobot'' then ''nanobot''
      else if backend = ''remote'' then ''remote''
      else ''acp'')"

definition get_agent_config :: "pref_json \<Rightarrow> plugin_type \<Rightarrow> channel_state \<Rightarrow> resolved_agent_config" where
  "get_agent_config J platform s =
     (case hm_get (ch_prefs s) (agent_key platform) of
        None \<Rightarrow> default_agent_config
      | Some value \<Rightarrow>
          (case J value of
             (Some at, backend) \<Rightarrow> \<lparr>rc_agent_type = at, rc_backend = (if at = ''acp'' then backend else None)\<rparr>
           | (None, backend) \<Rightarrow>
               let raw_backend = (case backend of Some b \<Rightarrow> b | None \<Rightarrow> ''aionrs'');
                   agent_type = backend_to_agent_type raw_backend
               in \<lparr>rc_agent_type = agent_type, rc_backend = (if agent_type = ''acp'' then Some raw_backend else None)\<rparr>))"

section \<open>Responses\<close>

definition reply :: "string option \<Rightarrow> action_button list list option \<Rightarrow> action_behavior \<Rightarrow> string option \<Rightarrow> action_response" where
  "reply txt buttons behavior toast =
     \<lparr>rp_text = txt, rp_parse_mode = None, rp_buttons = buttons, rp_keyboard = None, rp_behavior = behavior,
      rp_toast = toast, rp_edit_message_id = None\<rparr>"

definition button :: "string \<Rightarrow> string \<Rightarrow> action_button" where
  "button label action = \<lparr>bt_label = label, bt_action = action, bt_params = None\<rparr>"

definition NL :: string where "NL = [CHR 0x0A]"
definition ARROW :: string where "ARROW = [CHR 0xE2, CHR 0x86, CHR 0x92]"
definition BULLET :: string where "BULLET = [CHR 0xE2, CHR 0x80, CHR 0xA2]"
definition APOS :: string where "APOS = [CHR 0x27]"

definition build_pairing_response :: "string \<Rightarrow> action_response" where
  "build_pairing_response code =
     reply (Some (''Welcome! To use this bot, you need authorization.'' @ NL @ NL @
         ''Your pairing code: *'' @ code @ ''*'' @ NL @ NL @
         ''Share this code with the admin, who can approve it in Settings '' @ ARROW @ '' Channel '' @ ARROW @
         '' Pairing Requests.'' @ NL @ ''The code expires in 10 minutes.''))
       (Some [[button ''Refresh Code'' ''pairing.refresh'', button ''Check Status'' ''pairing.check'',
               button ''Help'' ''pairing.help'']]) Send None"

definition build_help_response :: action_response where
  "build_help_response =
     reply (Some (''How can I help?'' @ NL @ ''Choose an option below or just send me a message.''))
       (Some [[button ''New Session'' ''session.new'', button ''Session Status'' ''session.status''],
              [button ''Features'' ''help.features'', button ''Tips'' ''help.tips''],
              [button ''Switch Agent'' ''agent.show'']]) Send None"

definition build_unknown_action_response :: "string \<Rightarrow> action_response" where
  "build_unknown_action_response action = reply (Some (''Unknown action: '' @ action)) None Send None"

section \<open>Actions\<close>

definition handle_platform_action :: "'a channel_env_scheme \<Rightarrow> unified_action \<Rightarrow> action_response channel_op" where
  "handle_platform_action E action s =
     (let name = un_action action; user_id = ac_user_id (un_context action);
          platform = plugin_type_str (ac_platform (un_context action))
      in if name = ''pairing.show'' \<or> name = ''pairing.refresh'' then
           and_then (request_pairing E user_id platform None s) (\<lambda>code s. (s, Inr (build_pairing_response code)))
         else if name = ''pairing.check'' then
           (s, Inr (if is_user_authorized user_id platform s
             then reply (Some ''You are authorized! Send a message to start chatting.'') None Send None
             else reply (Some (''Still waiting for approval. Ask the admin to check Settings '' @ ARROW @ '' Channel.''))
               (Some [[button ''Refresh'' ''pairing.refresh'', button ''Check Again'' ''pairing.check'']]) Send None))
         else if name = ''pairing.help'' then
           (s, Inr (reply (Some (''To use this bot, you need authorization:'' @ NL @
               ''1. Send any message to get a 6-digit pairing code'' @ NL @
               ''2. Share this code with the admin'' @ NL @
               ''3. Admin approves in Settings '' @ ARROW @ '' Channel'' @ NL @
               ''4. You'' @ APOS @ ''re ready to chat!'')) None Send None))
         else (s, Inr (build_unknown_action_response name)))"

definition handle_system_action :: "'a channel_env_scheme \<Rightarrow> pref_json \<Rightarrow> string \<Rightarrow> unified_action \<Rightarrow> string \<Rightarrow> action_response channel_op" where
  "handle_system_action E J default_agent_type action internal_user_id s =
     (let name = un_action action; chat_id = ac_chat_id (un_context action)
      in if name = ''session.new'' then
           and_then (reset_session E internal_user_id chat_id (rc_agent_type (get_agent_config J (ac_platform (un_context action)) s)) None s)
             (\<lambda>session s. (s, Inr (reply (Some (''New session created.'' @ NL @ ''Agent: '' @ as_agent_type session @ NL @
                 ''Session: '' @ take 8 (as_id session))) (Some [[button ''Help'' ''help.show'']]) Send None)))
         else if name = ''session.status'' then
           and_then (session_for_chat E internal_user_id chat_id (rc_agent_type (get_agent_config J (ac_platform (un_context action)) s)) None s)
             (\<lambda>session s. (s, Inr (reply (Some (''Session: '' @ take 8 (as_id session) @ NL @ ''Agent: '' @ as_agent_type session @ NL @
                 ''Created: '' @ decimal_int (as_created_at session) @ NL @
                 ''Last active: '' @ decimal_int (as_last_activity session)))
               (Some [[button ''New Session'' ''session.new'']]) Send None)))
         else if name = ''help.show'' then (s, Inr build_help_response)
         else if name = ''help.features'' then
           (s, Inr (reply (Some (''Features:'' @ NL @ BULLET @ '' AI chat with multiple backends'' @ NL @
               BULLET @ '' Tool execution with auto-approval'' @ NL @ BULLET @ '' Session isolation per chat'' @ NL @
               BULLET @ '' Agent switching'')) None Send None))
         else if name = ''help.pairing'' then
           (s, Inr (reply (Some (''Pairing:'' @ NL @ ''Send any message '' @ ARROW @ '' get a 6-digit code '' @ ARROW @
               '' admin approves '' @ ARROW @ '' you'' @ APOS @ ''re in!'')) None Send None))
         else if name = ''help.tips'' then
           (s, Inr (reply (Some (''Tips:'' @ NL @ BULLET @ '' Start a new session to clear context'' @ NL @
               BULLET @ '' Use /help to see available commands'' @ NL @ BULLET @ '' In group chats, @mention the bot'')) None Send None))
         else if name = ''settings.show'' then
           (s, Inr (reply (Some (''Settings are managed in the desktop app.'' @ NL @ ''Go to Settings '' @ ARROW @
               '' Channel to configure plugins and manage users.'')) None Send None))
         else if name = ''agent.show'' then
           (s, Inr (reply (Some ''Available agents:'')
             (Some [[\<lparr>bt_label = ''Gemini'', bt_action = ''agent.select'', bt_params = Some [(''agentType'', ''gemini'')]\<rparr>,
                     \<lparr>bt_label = ''ACP'', bt_action = ''agent.select'', bt_params = Some [(''agentType'', ''acp'')]\<rparr>]]) Send None))
         else if name = ''agent.select'' then
           (let agent_type = (case Option.bind (un_params action) (\<lambda>p. hm_get p ''agentType'') of
                  Some t \<Rightarrow> t | None \<Rightarrow> default_agent_type)
            in and_then (session_for_chat E internal_user_id chat_id agent_type None s) (\<lambda>session s.
                 and_then (update_agent_type E (as_id session) agent_type s) (\<lambda>_ s.
                   (s, Inr (reply (Some (''Agent switched to: '' @ agent_type)) None Send
                      (Some (''Switched to '' @ agent_type)))))))
         else (s, Inr (build_unknown_action_response name)))"

definition handle_chat_action :: "unified_action \<Rightarrow> action_response channel_op" where
  "handle_chat_action action s =
     (let name = un_action action
      in if name = ''chat.send'' \<or> name = ''chat.regenerate'' \<or> name = ''chat.continue''
         then (s, Inr (reply None None Send (Some ''Processing...'')))
         else if name = ''action.copy'' then (s, Inr (reply None None Answer (Some ''Copied to clipboard'')))
         else if name = ''system.confirm'' then (s, Inr (reply None None Answer (Some ''Confirmed'')))
         else (s, Inr (build_unknown_action_response name)))"

definition route_action :: "'a channel_env_scheme \<Rightarrow> pref_json \<Rightarrow> string \<Rightarrow> unified_action \<Rightarrow> string \<Rightarrow> action_response channel_op" where
  "route_action E J default_agent_type action internal_user_id s =
     (case un_category action of
        Platform \<Rightarrow> handle_platform_action E action s
      | System \<Rightarrow> handle_system_action E J default_agent_type action internal_user_id s
      | Chat \<Rightarrow> handle_chat_action action s)"

definition handle_unauthorized :: "'a channel_env_scheme \<Rightarrow> string \<Rightarrow> string \<Rightarrow> string \<Rightarrow> action_response channel_op" where
  "handle_unauthorized E platform_user_id platform_type display_name s =
     and_then (request_pairing E platform_user_id platform_type (Some display_name) s)
       (\<lambda>code s. (s, Inr (build_pairing_response code)))"

definition handle_incoming_message :: "'a channel_env_scheme \<Rightarrow> pref_json \<Rightarrow> string \<Rightarrow> incoming_message \<Rightarrow> message_result channel_op" where
  "handle_incoming_message E J default_agent_type msg s =
     (let platform_type = plugin_type_str (im_platform msg)
      in case get_internal_user_id (im_user_id msg) platform_type s of
           None \<Rightarrow> and_then (handle_unauthorized E (im_user_id msg) platform_type (im_display_name msg) s)
                     (\<lambda>response s. (s, Inr (Action response)))
         | Some internal_user_id \<Rightarrow>
             (case im_action msg of
                Some action \<Rightarrow> and_then (route_action E J default_agent_type action internal_user_id s)
                                 (\<lambda>response s. (s, Inr (Action response)))
              | None \<Rightarrow>
                  and_then (session_for_chat E internal_user_id (im_chat_id msg)
                      (rc_agent_type (get_agent_config J (im_platform msg) s)) None s)
                    (\<lambda>session s. (s, Inr (Dispatched (as_id session) (as_conversation_id session))))))"

section \<open>REST routes\<close>

fun channel_db_error :: "db_error \<Rightarrow> api_error" where
  "channel_db_error (DbNotFound msg) = NotFound msg"
| "channel_db_error (DbConflict msg) = ApiConflict msg"
| "channel_db_error e = InternalDb e"

fun channel_api_error :: "channel_error \<Rightarrow> api_error" where
  "channel_api_error (PluginNotFound msg) = NotFound msg"
| "channel_api_error (InvalidPluginType msg) = BadRequest msg"
| "channel_api_error (PluginAlreadyRunning msg) = ApiConflict msg"
| "channel_api_error (InvalidConfig msg) = BadRequest msg"
| "channel_api_error (ConnectionFailed msg) = BadGateway msg"
| "channel_api_error (PairingNotFound msg) = NotFound msg"
| "channel_api_error (PairingExpired msg) = BadRequest msg"
| "channel_api_error (PairingAlreadyProcessed msg) = BadRequest msg"
| "channel_api_error (UserNotFound msg) = NotFound msg"
| "channel_api_error (UserNotAuthorized msg) = Forbidden msg"
| "channel_api_error (SessionNotFound msg) = NotFound msg"
| "channel_api_error (EncryptionFailed msg) = Internal msg"
| "channel_api_error (DecryptionFailed msg) = Internal msg"
| "channel_api_error (PlatformApi msg) = BadGateway msg"
| "channel_api_error (MessageSendFailed msg) = Internal msg"
| "channel_api_error (Database e) = channel_db_error e"
| "channel_api_error (ChJson e) = Internal (''JSON error: '' @ e)"

definition revoke_user :: "string \<Rightarrow> channel_state \<Rightarrow> (channel_state, api_error, unit) outcome" where
  "revoke_user user_id s =
     and_then (map_err channel_api_error (cleanup_user_sessions user_id s)) (\<lambda>_ s.
       map_err channel_db_error (ch_delete_user user_id s))"

definition sync_channel_settings :: "string \<Rightarrow> channel_state \<Rightarrow> (channel_state, api_error, unit) outcome" where
  "sync_channel_settings platform s =
     (case plugin_type_parse platform of
        None \<Rightarrow> (s, Inl (BadRequest (''Invalid platform: '' @ platform)))
      | Some _ \<Rightarrow> map_err channel_api_error (clear_all_sessions s))"

section \<open>The system\<close>

text \<open>
  What can happen: a message from a platform, a REST request, the orchestrator binding a session to the
  conversation it created, a turn of the clean-up timer, and the changes other modules make: a conversation
  created or deleted (its sessions lose it, \<open>ON DELETE SET NULL\<close>), a preference stored.
\<close>

datatype channel_request =
    Incoming incoming_message
  | GetPendingPairings
  | ApprovePairing string
  | RejectPairing string
  | GetAuthorizedUsers
  | RevokeUser string
  | GetActiveSessions
  | SyncSettings string
  | BindConversation string string
  | CleanupTick
  | ConversationCreated string
  | ConversationDeleted string
  | PreferenceStored string string

datatype channel_reply =
    Replied "channel_error + message_result"
  | Pairings "api_error + pairing_code_row list"
  | Users "assistant_user_row list"
  | Sessions "assistant_session_row list"
  | Done "api_error + unit"
  | Bound "channel_error + unit"
  | NoReply

fun channel_step :: "'a channel_env_scheme \<Rightarrow> pref_json \<Rightarrow> string \<Rightarrow> channel_request \<Rightarrow> channel_state \<Rightarrow> channel_state \<times> channel_reply" where
  "channel_step E J d (Incoming msg) s = map_prod id Replied (handle_incoming_message E J d msg s)"
| "channel_step E J d GetPendingPairings s = map_prod id Pairings (map_err channel_api_error (active_pairings E s))"
| "channel_step E J d (ApprovePairing code) s = map_prod id Done (map_err channel_api_error (approve_pairing E code s))"
| "channel_step E J d (RejectPairing code) s = map_prod id Done (map_err channel_api_error (reject_pairing E code s))"
| "channel_step E J d GetAuthorizedUsers s = (s, Users (ch_get_all_users s))"
| "channel_step E J d (RevokeUser user_id) s = map_prod id Done (revoke_user user_id s)"
| "channel_step E J d GetActiveSessions s = (s, Sessions (get_all_sessions s))"
| "channel_step E J d (SyncSettings platform) s = map_prod id Done (sync_channel_settings platform s)"
| "channel_step E J d (BindConversation session_id conversation_id) s = map_prod id Bound (bind_conversation E session_id conversation_id s)"
| "channel_step E J d CleanupTick s = (cleanup_tick E s, NoReply)"
| "channel_step E J d (ConversationCreated c) s = (s\<lparr>ch_conversations := ch_conversations s @ [c]\<rparr>, NoReply)"
| "channel_step E J d (ConversationDeleted c) s =
     (s\<lparr>ch_conversations := filter (\<lambda>x. x \<noteq> c) (ch_conversations s),
        ch_sessions := update_where (\<lambda>x. as_conversation_id x = Some c) (\<lambda>x. x\<lparr>as_conversation_id := None\<rparr>) (ch_sessions s)\<rparr>, NoReply)"
| "channel_step E J d (PreferenceStored k v) s = (s\<lparr>ch_prefs := hm_insert k v (ch_prefs s)\<rparr>, NoReply)"

definition empty_channels :: channel_state where
  "empty_channels = \<lparr>ch_users = [], ch_sessions = [], ch_pairings = [], ch_conversations = [], ch_prefs = [], ch_events = [], ch_draws = 0\<rparr>"

definition channel_run :: "'a channel_env_scheme \<Rightarrow> pref_json \<Rightarrow> string \<Rightarrow> channel_request list \<Rightarrow> channel_state" where
  "channel_run E J d reqs = fold (\<lambda>r s. fst (channel_step E J d r s)) reqs empty_channels"

end
