(* ===== verification/ChannelFacts.thy ===== *)
theory ChannelFacts
  imports ChannelActions
begin

text \<open>
  The invariant of the channel tables and what each operation does to it.
\<close>

section \<open>The invariant\<close>

abbreviation pending :: "pairing_code_row \<Rightarrow> bool" where
  "pending p \<equiv> pc_status p = ''pending''"

definition code_of :: "string \<Rightarrow> string \<Rightarrow> pairing_code_row \<Rightarrow> bool" where
  "code_of pu pt p \<longleftrightarrow> pc_platform_user_id p = pu \<and> pc_platform_type p = pt"

definition pairings_ok :: "channel_state \<Rightarrow> bool" where
  "pairings_ok s \<longleftrightarrow> distinct (map pc_code (ch_pairings s)) \<and>
     (\<forall>p\<in>set (ch_pairings s). pc_expires_at p = pc_requested_at p + PAIRING_CODE_TTL) \<and>
     (\<forall>pu pt. length (filter (\<lambda>p. pending p \<and> code_of pu pt p) (ch_pairings s)) \<le> 1)"

definition authorized_ok :: "channel_state \<Rightarrow> bool" where
  "authorized_ok s \<longleftrightarrow> distinct (map au_id (ch_users s)) \<and>
     distinct (map (\<lambda>u. (au_platform_user_id u, au_platform_type u)) (ch_users s)) \<and>
     (\<forall>u\<in>set (ch_users s). \<exists>p\<in>set (ch_pairings s).
        pc_status p = ''approved'' \<and> code_of (au_platform_user_id u) (au_platform_type u) p)"

definition sessions_ok :: "channel_state \<Rightarrow> bool" where
  "sessions_ok s \<longleftrightarrow> distinct (map as_id (ch_sessions s)) \<and>
     distinct (map (\<lambda>x. (as_user_id x, as_chat_id x)) (ch_sessions s)) \<and>
     (\<forall>x\<in>set (ch_sessions s). as_chat_id x \<noteq> None \<and> as_user_id x \<in> au_id ` set (ch_users s) \<and>
        (\<forall>c. as_conversation_id x = Some c \<longrightarrow> c \<in> set (ch_conversations s)))"

definition channel_ok :: "channel_state \<Rightarrow> bool" where
  "channel_ok s \<longleftrightarrow> pairings_ok s \<and> authorized_ok s \<and> sessions_ok s"

named_theorems channel_keeps \<open>operations that keep the invariant\<close>

lemma ch_drawn_fields [simp]:
  "ch_users (ch_drawn s) = ch_users s" "ch_sessions (ch_drawn s) = ch_sessions s" "ch_pairings (ch_drawn s) = ch_pairings s"
  "ch_conversations (ch_drawn s) = ch_conversations s" "ch_prefs (ch_drawn s) = ch_prefs s" "ch_events (ch_drawn s) = ch_events s"
  "ch_draws (ch_drawn s) = Suc (ch_draws s)"
  by (simp_all add: ch_drawn_def)

lemma channel_ok_cong:
  "ch_users s' = ch_users s \<Longrightarrow> ch_sessions s' = ch_sessions s \<Longrightarrow> ch_pairings s' = ch_pairings s \<Longrightarrow>
     ch_conversations s' = ch_conversations s \<Longrightarrow> channel_ok s' = channel_ok s"
  by (simp add: channel_ok_def pairings_ok_def authorized_ok_def sessions_ok_def)

lemma channel_ok_ch_drawn [simp]: "channel_ok (ch_drawn s) = channel_ok s"
  by (rule channel_ok_cong) simp_all

lemma channel_ok_events [simp]: "channel_ok (s\<lparr>ch_events := e\<rparr>) = channel_ok s"
  by (rule channel_ok_cong) simp_all

lemma channel_ok_prefs [simp]: "channel_ok (s\<lparr>ch_prefs := e\<rparr>) = channel_ok s"
  by (rule channel_ok_cong) simp_all

lemma channel_ok_empty: "channel_ok empty_channels"
  by (simp add: empty_channels_def channel_ok_def pairings_ok_def authorized_ok_def sessions_ok_def)

section \<open>Pairing codes\<close>

text \<open>Setting the status of codes that are not approved to something else than pending.\<close>

definition set_code_status :: "(pairing_code_row \<Rightarrow> bool) \<Rightarrow> string \<Rightarrow> channel_state \<Rightarrow> channel_state" where
  "set_code_status P st s = s\<lparr>ch_pairings := update_where P (\<lambda>p. p\<lparr>pc_status := st\<rparr>) (ch_pairings s)\<rparr>"

lemma set_code_status_fields [simp]:
  "ch_users (set_code_status P st s) = ch_users s" "ch_sessions (set_code_status P st s) = ch_sessions s"
  "ch_conversations (set_code_status P st s) = ch_conversations s" "ch_draws (set_code_status P st s) = ch_draws s"
  "ch_prefs (set_code_status P st s) = ch_prefs s" "ch_events (set_code_status P st s) = ch_events s"
  "ch_pairings (set_code_status P st s) = update_where P (\<lambda>p. p\<lparr>pc_status := st\<rparr>) (ch_pairings s)"
  by (simp_all add: set_code_status_def)

lemma filter_update_where_le:
  assumes "\<And>p. \<not> Q (f p)"
  shows "length (filter Q (update_where P f ps)) \<le> length (filter Q ps)"
proof (induction ps)
  case (Cons p ps)
  then show ?case using assms by (cases "P p") (auto simp: update_where_def)
qed (simp add: update_where_def)

lemma channel_ok_set_code_status:
  assumes "channel_ok s" and "\<And>p. p \<in> set (ch_pairings s) \<Longrightarrow> P p \<Longrightarrow> pc_status p \<noteq> ''approved''" and "st \<noteq> ''pending''"
  shows "channel_ok (set_code_status P st s)"
proof -
  let ?f = "\<lambda>p. p\<lparr>pc_status := st\<rparr>"
  have "pairings_ok (set_code_status P st s)"
  proof -
    have "length (filter (\<lambda>p. pending p \<and> code_of pu pt p) (update_where P ?f (ch_pairings s))) \<le> 1" for pu pt
    proof (rule order_trans [OF filter_update_where_le])
      show "\<not> (pending (?f p) \<and> code_of pu pt (?f p))" for p using assms(3) by simp
      show "length (filter (\<lambda>p. pending p \<and> code_of pu pt p) (ch_pairings s)) \<le> 1"
        using assms(1) by (simp add: channel_ok_def pairings_ok_def)
    qed
    with assms(1) show ?thesis
      by (auto simp: channel_ok_def pairings_ok_def update_where_key in_update_where)
  qed
  moreover have "authorized_ok (set_code_status P st s)"
  proof -
    have "\<exists>p\<in>set (update_where P ?f (ch_pairings s)). pc_status p = ''approved'' \<and> code_of pu pt p"
      if "p \<in> set (ch_pairings s)" "pc_status p = ''approved''" "code_of pu pt p" for p pu pt
      using that assms(2) [of p] by (auto simp: in_update_where intro!: bexI [of _ p])
    with assms(1) show ?thesis by (fastforce simp: channel_ok_def authorized_ok_def)
  qed
  ultimately show ?thesis using assms(1) by (simp add: channel_ok_def sessions_ok_def)
qed

lemma update_pairing_status_eq:
  "p \<in> set (ch_pairings s) \<Longrightarrow> pairing_status_parse st \<noteq> None \<Longrightarrow>
     update_pairing_status (pc_code p) st s = (set_code_status (\<lambda>q. pc_code q = pc_code p) st s, Inr ())"
  by (auto simp: update_pairing_status_def rows_affected_0 set_code_status_def)

lemma status_strings [simp]:
  "pairing_status_parse ''pending'' = Some PairPending" "pairing_status_parse ''approved'' = Some PairApproved"
  "pairing_status_parse ''rejected'' = Some PairRejected" "pairing_status_parse ''expired'' = Some PairExpired"
  by (simp_all add: pairing_status_parse_def)

lemma set_code_status_twice:
  assumes "\<And>p st. Q (p\<lparr>pc_status := st\<rparr>) = Q p"
  shows "set_code_status Q st (set_code_status P st s) = set_code_status (\<lambda>p. P p \<or> Q p) st s"
  using assms by (auto simp: set_code_status_def update_where_def)

lemma expire_user_pending_codes_eq:
  assumes "channel_ok s"
  shows "expire_user_pending_codes pu pt s = (set_code_status (\<lambda>p. pending p \<and> code_of pu pt p) ''expired'' s, Inr ())"
proof -
  let ?body = "\<lambda>row s. if pc_platform_user_id row = pu \<and> pc_platform_type row = pt
      then db (update_pairing_status (pc_code row) (pairing_status_str PairExpired) s) else (s, Inr ())"
  have loop: "for_each ?body rows s =
      (set_code_status (\<lambda>p. \<exists>r\<in>set rows. code_of pu pt r \<and> pc_code r = pc_code p) ''expired'' s, Inr ())"
    if "pc_code ` set rows \<subseteq> pc_code ` set (ch_pairings s)" for rows s
    using that
  proof (induction rows arbitrary: s)
    case Nil
    then show ?case by (simp add: set_code_status_def update_where_def)
  next
    case (Cons r rows)
    show ?case
    proof (cases "code_of pu pt r")
      case True
      from Cons.prems obtain p where p: "p \<in> set (ch_pairings s)" "pc_code p = pc_code r" by auto
      let ?s = "set_code_status (\<lambda>q. pc_code q = pc_code r) ''expired'' s"
      have "pc_code ` set (ch_pairings ?s) = pc_code ` set (ch_pairings s)"
        using update_where_key [of pc_code] by (metis (no_types, lifting) image_set pairing_code_row.select_convs(1)
          pairing_code_row.surjective pairing_code_row.update_convs(7) set_code_status_fields(7))
      with Cons.prems have "pc_code ` set rows \<subseteq> pc_code ` set (ch_pairings ?s)" by simp
      note tail = Cons.IH [OF this]
      have "update_pairing_status (pc_code r) ''expired'' s = (?s, Inr ())"
        using update_pairing_status_eq [OF p(1), of "''expired''"] p(2) by simp
      with True tail show ?thesis
        by (auto simp: code_of_def set_code_status_twice intro!: arg_cong [of _ _ "\<lambda>P. set_code_status P ''expired'' s"])
    next
      case False
      with Cons show ?thesis by (auto simp: code_of_def)
    qed
  qed
  have rows: "set (get_pending_pairings s) = {p \<in> set (ch_pairings s). pending p}" by (auto simp: get_pending_pairings_def)
  have "(\<exists>r\<in>set (get_pending_pairings s). code_of pu pt r \<and> pc_code r = pc_code p) \<longleftrightarrow> pending p \<and> code_of pu pt p"
    if "p \<in> set (ch_pairings s)" for p
    using that assms unfolding rows channel_ok_def pairings_ok_def distinct_map inj_on_def by blast
  then have "set_code_status (\<lambda>p. \<exists>r\<in>set (get_pending_pairings s). code_of pu pt r \<and> pc_code r = pc_code p) ''expired'' s =
      set_code_status (\<lambda>p. pending p \<and> code_of pu pt p) ''expired'' s"
    by (simp add: set_code_status_def update_where_def cong: map_cong)
  moreover have "pc_code ` set (get_pending_pairings s) \<subseteq> pc_code ` set (ch_pairings s)" unfolding rows by auto
  ultimately show ?thesis using loop unfolding expire_user_pending_codes_def by simp
qed

lemma find_filter_none: "find P xs = None \<longleftrightarrow> filter P xs = []"
  by (induction xs) auto

definition new_pairing :: "string \<Rightarrow> string \<Rightarrow> string option \<Rightarrow> string \<Rightarrow> int \<Rightarrow> pairing_code_row" where
  "new_pairing pu pt dn code now =
     \<lparr>pc_code = code, pc_platform_user_id = pu, pc_platform_type = pt, pc_display_name = dn, pc_requested_at = now,
      pc_expires_at = now + PAIRING_CODE_TTL, pc_status = ''pending''\<rparr>"

text \<open>What \<open>request_pairing\<close> does when it succeeds, and that otherwise it only retires codes.\<close>

definition retired :: "string \<Rightarrow> string \<Rightarrow> channel_state \<Rightarrow> channel_state" where
  "retired pu pt s = set_code_status (\<lambda>p. pending p \<and> code_of pu pt p) ''expired'' s"

lemma retired_fields [simp]:
  "ch_users (retired pu pt s) = ch_users s" "ch_sessions (retired pu pt s) = ch_sessions s"
  "ch_conversations (retired pu pt s) = ch_conversations s" "ch_draws (retired pu pt s) = ch_draws s"
  "ch_prefs (retired pu pt s) = ch_prefs s" "ch_events (retired pu pt s) = ch_events s"
  by (simp_all add: retired_def)

lemma retired_codes: "map pc_code (ch_pairings (retired pu pt s)) = map pc_code (ch_pairings s)"
  by (simp add: retired_def update_where_key)

lemma retired_none: "p \<in> set (ch_pairings (retired pu pt s)) \<Longrightarrow> pending p \<Longrightarrow> \<not> code_of pu pt p"
proof
  assume p: "p \<in> set (ch_pairings (retired pu pt s))" "pending p" "code_of pu pt p"
  then obtain r where r: "p = (if pending r \<and> code_of pu pt r then r\<lparr>pc_status := ''expired''\<rparr> else r)"
    by (auto simp: retired_def in_update_where)
  show False
  proof (cases "pending r \<and> code_of pu pt r")
    case True
    then have "pc_status p = ''expired''" using r by simp
    with p(2) show False by simp
  next
    case False
    then have "p = r" using r by (simp only: if_False)
    with False p(2,3) show False by simp
  qed
qed

lemma retired_code_set: "pc_code ` set (ch_pairings (retired pu pt s)) = pc_code ` set (ch_pairings s)"
  using arg_cong [OF retired_codes [of pu pt s], of set] by simp

lemma channel_ok_retired [simp]: "channel_ok s \<Longrightarrow> channel_ok (retired pu pt s)"
  unfolding retired_def by (rule channel_ok_set_code_status) auto

lemma channel_ok_new_pairing:
  assumes "channel_ok s" and "code \<notin> pc_code ` set (ch_pairings s)"
    and "\<And>p. p \<in> set (ch_pairings s) \<Longrightarrow> pending p \<Longrightarrow> \<not> code_of pu pt p"
  shows "channel_ok (s\<lparr>ch_pairings := ch_pairings s @ [new_pairing pu pt dn code now]\<rparr>)"
proof -
  let ?s = "s\<lparr>ch_pairings := ch_pairings s @ [new_pairing pu pt dn code now]\<rparr>"
  have none: "filter (\<lambda>p. pending p \<and> code_of pu pt p) (ch_pairings s) = []" using assms(3) by (auto simp: filter_empty_conv)
  have "length (filter (\<lambda>p. pending p \<and> code_of a b p) (ch_pairings ?s)) \<le> 1" for a b
    using assms(1) none by (cases "a = pu \<and> b = pt") (auto simp: channel_ok_def pairings_ok_def new_pairing_def code_of_def)
  then have "pairings_ok ?s" using assms(1,2) by (auto simp: channel_ok_def pairings_ok_def new_pairing_def)
  moreover have "authorized_ok ?s" using assms(1) by (auto simp: channel_ok_def authorized_ok_def)
  ultimately show ?thesis using assms(1) by (simp add: channel_ok_def sessions_ok_def)
qed

lemma request_pairing_eq:
  assumes "channel_ok s"
  shows "request_pairing E pu pt dn s =
    (let t = retired pu pt s; now = clock E (Suc (ch_draws s))
     in case generate_pairing_code (rng E (ch_draws s)) of
          Inl e \<Rightarrow> (ch_drawn t, Inl e)
        | Inr code \<Rightarrow>
            if code \<in> pc_code ` set (ch_pairings s)
            then (ch_drawn (ch_drawn t), Inl (Database (DbConflict (''Pairing code '' @ quoted code @ '' already exists''))))
            else ((ch_drawn (ch_drawn t))\<lparr>ch_pairings := ch_pairings t @ [new_pairing pu pt dn code now],
                    ch_events := ch_events s @ [PairingRequestedEvent code pu pt dn (now + PAIRING_CODE_TTL)]\<rparr>, Inr code))"
proof -
  have "(\<exists>p\<in>set (ch_pairings (retired pu pt s)). pc_code p = code) \<longleftrightarrow> code \<in> pc_code ` set (ch_pairings s)" for code
    unfolding retired_code_set [of pu pt s, symmetric] by auto
  then show ?thesis
    using expire_user_pending_codes_eq [OF assms, of pu pt]
    by (simp add: request_pairing_def retired_def [symmetric] create_pairing_def new_pairing_def Let_def split: sum.split)
qed

lemma request_pairing_keeps [channel_keeps]: "channel_ok s \<Longrightarrow> channel_ok (fst (request_pairing E pu pt dn s))"
proof -
  assume ok: "channel_ok s"
  let ?t = "ch_drawn (ch_drawn (retired pu pt s))"
  have "channel_ok (?t\<lparr>ch_pairings := ch_pairings ?t @ [new_pairing pu pt dn code now]\<rparr>)"
    if "code \<notin> pc_code ` set (ch_pairings s)" for code now
  proof (rule channel_ok_new_pairing)
    have "pc_code ` set (ch_pairings ?t) = pc_code ` set (ch_pairings s)" by (simp add: retired_code_set)
    with that show "code \<notin> pc_code ` set (ch_pairings ?t)" by simp
  qed (use ok retired_none [of _ pu pt s] in auto)
  then have new: "channel_ok (?t\<lparr>ch_pairings := ch_pairings ?t @ [new_pairing pu pt dn code now], ch_events := e\<rparr>)"
    if "code \<notin> pc_code ` set (ch_pairings s)" for code now e
    using that channel_ok_events [of e "?t\<lparr>ch_pairings := ch_pairings ?t @ [new_pairing pu pt dn code now]\<rparr>"] by simp
  with ok show ?thesis by (auto simp: request_pairing_eq [OF ok] Let_def split: sum.split)
qed

text \<open>A code that can be approved or rejected.\<close>

definition usable :: "'a env_scheme \<Rightarrow> channel_state \<Rightarrow> string \<Rightarrow> pairing_code_row \<Rightarrow> bool" where
  "usable E s code p \<longleftrightarrow> p \<in> set (ch_pairings s) \<and> pc_code p = code \<and> pending p \<and> clock E (ch_draws s) < pc_expires_at p"

lemma get_pairing_by_code_Some: "get_pairing_by_code code s = Some p \<Longrightarrow> p \<in> set (ch_pairings s) \<and> pc_code p = code"
  by (auto simp: get_pairing_by_code_def find_Some_iff)

lemma get_valid_pending_pairing_cases:
  obtains (usable) p where "usable E s code p" "get_valid_pending_pairing E code s = (ch_drawn s, Inr p)"
  | (unusable) e where "get_valid_pending_pairing E code s = (s, Inl e)"
  | (late) p e where "p \<in> set (ch_pairings s)" "pc_code p = code" "pending p"
      "get_valid_pending_pairing E code s = (set_code_status (\<lambda>q. pc_code q = code) ''expired'' (ch_drawn s), Inl e)"
proof (cases "get_pairing_by_code code s")
  case None
  then show ?thesis using that(2) by (simp add: get_valid_pending_pairing_def)
next
  case (Some p)
  then have p: "p \<in> set (ch_pairings s)" "pc_code p = code" using get_pairing_by_code_Some by blast+
  have late: "update_pairing_status code ''expired'' (ch_drawn s) = (set_code_status (\<lambda>q. pc_code q = code) ''expired'' (ch_drawn s), Inr ())"
    using update_pairing_status_eq [of p "ch_drawn s" "''expired''"] p by simp
  show ?thesis
  proof (cases "pending p")
    case False
    then show ?thesis using that(2) Some by (simp add: get_valid_pending_pairing_def)
  next
    case True
    show ?thesis
    proof (cases "pc_expires_at p \<le> clock E (ch_draws s)")
      case expired: True
      show ?thesis by (rule that(3) [OF p True]) (use expired True Some late in \<open>simp add: get_valid_pending_pairing_def Let_def\<close>)
    next
      case False
      show ?thesis
        by (rule that(1) [of p]) (use False True p Some in \<open>simp_all add: usable_def get_valid_pending_pairing_def Let_def\<close>)
    qed
  qed
qed

lemma only_row_of_code:
  "channel_ok s \<Longrightarrow> p \<in> set (ch_pairings s) \<Longrightarrow> q \<in> set (ch_pairings s) \<Longrightarrow> pc_code q = pc_code p \<Longrightarrow> q = p"
  by (auto simp: channel_ok_def pairings_ok_def distinct_map inj_on_def)

lemma channel_ok_set_code:
  "channel_ok s \<Longrightarrow> p \<in> set (ch_pairings s) \<Longrightarrow> pending p \<Longrightarrow> st \<noteq> ''pending'' \<Longrightarrow>
     channel_ok (set_code_status (\<lambda>q. pc_code q = pc_code p) st s)"
proof (rule channel_ok_set_code_status)
  fix q
  assume "channel_ok s" "p \<in> set (ch_pairings s)" "pending p" "q \<in> set (ch_pairings s)" "pc_code q = pc_code p"
  then have "q = p" by (intro only_row_of_code)
  with \<open>pending p\<close> show "pc_status q \<noteq> ''approved''" by simp
qed

lemma get_valid_pending_pairing_keeps [channel_keeps]:
  assumes "channel_ok s" shows "channel_ok (fst (get_valid_pending_pairing E code s))"
proof (cases rule: get_valid_pending_pairing_cases [of E s code])
  case (late p e)
  then have "channel_ok (set_code_status (\<lambda>q. pc_code q = pc_code p) ''expired'' (ch_drawn s))"
    using assms by (intro channel_ok_set_code) auto
  with late show ?thesis by simp
qed (use assms in auto)

lemma reject_pairing_keeps [channel_keeps]:
  assumes "channel_ok s" shows "channel_ok (fst (reject_pairing E code s))"
proof (cases rule: get_valid_pending_pairing_cases [of E s code])
  case (usable p)
  then have p: "p \<in> set (ch_pairings (ch_drawn s))" "pc_code p = code" "pending p" by (auto simp: usable_def)
  then have "channel_ok (set_code_status (\<lambda>q. pc_code q = pc_code p) ''rejected'' (ch_drawn s))"
    using assms by (intro channel_ok_set_code) auto
  then show ?thesis
    using usable(2) update_pairing_status_eq [OF p(1), of "''rejected''"] p(2) by (simp add: reject_pairing_def)
next
  case (late p e)
  then have "channel_ok (set_code_status (\<lambda>q. pc_code q = pc_code p) ''expired'' (ch_drawn s))"
    using assms by (intro channel_ok_set_code) auto
  with late show ?thesis by (simp add: reject_pairing_def)
qed (use assms in \<open>auto simp: reject_pairing_def\<close>)

text \<open>The row that an approval adds.\<close>

definition approved_user :: "'a env_scheme \<Rightarrow> channel_state \<Rightarrow> pairing_code_row \<Rightarrow> assistant_user_row" where
  "approved_user E s p =
     \<lparr>au_id = mint_id E (Suc (ch_draws s)), au_platform_user_id = pc_platform_user_id p, au_platform_type = pc_platform_type p,
      au_display_name = pc_display_name p, au_authorized_at = clock E (Suc (ch_draws s)), au_last_active = None, au_session_id = None\<rparr>"

lemma approve_pairing_cases:
  assumes "channel_ok s"
  obtains (approved) p where "usable E s code p" "get_user_by_platform (pc_platform_user_id p) (pc_platform_type p) s = None"
      "ch_users (fst (approve_pairing E code s)) = ch_users s @ [approved_user E s p]"
      "ch_pairings (fst (approve_pairing E code s)) = ch_pairings (set_code_status (\<lambda>q. pc_code q = code) ''approved'' s)"
      "ch_sessions (fst (approve_pairing E code s)) = ch_sessions s"
      "ch_conversations (fst (approve_pairing E code s)) = ch_conversations s"
      "snd (approve_pairing E code s) = Inr ()" "au_id (approved_user E s p) \<notin> au_id ` set (ch_users s)"
  | (refused) e where "ch_users (fst (approve_pairing E code s)) = ch_users s" "channel_ok (fst (approve_pairing E code s))"
      "snd (approve_pairing E code s) = Inl e"
proof (cases rule: get_valid_pending_pairing_cases [of E s code])
  case (usable p)
  then have p: "p \<in> set (ch_pairings s)" "pc_code p = code" "pending p" by (auto simp: usable_def)
  let ?u = "approved_user E s p" and ?s = "ch_drawn (ch_drawn s)"
  have run: "approve_pairing E code s = and_then (db (ch_create_user ?u ?s)) (\<lambda>_ s.
      and_then (db (update_pairing_status code ''approved'' s)) (\<lambda>_ s.
        (s\<lparr>ch_events := ch_events s @ [UserAuthorizedEvent (au_id ?u) (pc_platform_user_id p) (pc_platform_type p) (pc_display_name p)]\<rparr>, Inr ())))"
    using usable(2) by (simp add: approve_pairing_def approved_user_def Let_def)
  show ?thesis
  proof (cases "\<exists>u\<in>set (ch_users s). au_id u = au_id ?u \<or>
      au_platform_user_id u = au_platform_user_id ?u \<and> au_platform_type u = au_platform_type ?u")
    case True
    then have "ch_users (fst (approve_pairing E code s)) = ch_users s" "channel_ok (fst (approve_pairing E code s))"
      using assms by (simp_all add: run ch_create_user_def)
    moreover obtain e where "snd (approve_pairing E code s) = Inl e" using True by (simp add: run ch_create_user_def)
    ultimately show ?thesis by (rule that(2))
  next
    case False
    let ?t = "?s\<lparr>ch_users := ch_users s @ [?u]\<rparr>"
    have "p \<in> set (ch_pairings ?t)" using p by simp
    from update_pairing_status_eq [OF this, of "''approved''"] p(2)
    have upd: "update_pairing_status code ''approved'' ?t = (set_code_status (\<lambda>q. pc_code q = code) ''approved'' ?t, Inr ())" by simp
    from False have create: "ch_create_user ?u ?s = (?t, Inr ())" by (auto simp: ch_create_user_def)
    show ?thesis
    proof (rule that(1) [OF usable(1)])
      show "get_user_by_platform (pc_platform_user_id p) (pc_platform_type p) s = None"
        using False by (auto simp: get_user_by_platform_def find_None_iff approved_user_def)
      show "au_id ?u \<notin> au_id ` set (ch_users s)" using False by auto
    qed (simp_all add: run create upd)
  qed
next
  case (unusable e)
  then show ?thesis using that(2) assms by (simp add: approve_pairing_def)
next
  case (late p e)
  then have "channel_ok (set_code_status (\<lambda>q. pc_code q = pc_code p) ''expired'' (ch_drawn s))"
    using assms by (intro channel_ok_set_code) auto
  with late show ?thesis by (intro that(2)) (simp_all add: approve_pairing_def)
qed

lemma approve_pairing_keeps [channel_keeps]:
  assumes ok: "channel_ok s" shows "channel_ok (fst (approve_pairing E code s))"
  using ok
proof (cases rule: approve_pairing_cases [of s E code])
  case (approved p)
  let ?t = "set_code_status (\<lambda>q. pc_code q = code) ''approved'' s" and ?s' = "fst (approve_pairing E code s)"
  have p: "p \<in> set (ch_pairings s)" "pc_code p = code" "pending p" using approved(1) by (auto simp: usable_def)
  have t: "channel_ok ?t" using channel_ok_set_code [OF ok p(1,3), of "''approved''"] p(2) by simp
  have "pairings_ok ?s'" using t approved(4) by (simp add: channel_ok_def pairings_ok_def)
  moreover have "authorized_ok ?s'"
  proof -
    let ?key = "\<lambda>u. (au_platform_user_id u, au_platform_type u)" and ?u = "approved_user E s p"
    have "?key ?u \<notin> ?key ` set (ch_users s)"
      using approved(2) by (auto simp: get_user_by_platform_def find_None_iff approved_user_def)
    moreover have "\<exists>q\<in>set (ch_pairings ?t). pc_status q = ''approved'' \<and> code_of (pc_platform_user_id p) (pc_platform_type p) q"
      using p by (intro bexI [of _ "p\<lparr>pc_status := ''approved''\<rparr>"]) (auto simp: in_update_where code_of_def)
    moreover have "authorized_ok ?t" using t by (simp add: channel_ok_def)
    ultimately show ?thesis
      unfolding authorized_ok_def approved(3,4) using approved(8) by (simp add: ball_Un) (simp add: approved_user_def)
  qed
  moreover have "sessions_ok ?s'" using ok approved(3,5,6) by (auto simp: channel_ok_def sessions_ok_def)
  ultimately show ?thesis by (simp add: channel_ok_def)
qed

lemma cleanup_tick_eq:
  "cleanup_tick E s = set_code_status (\<lambda>p. pending p \<and> pc_expires_at p \<le> clock E (ch_draws s)) ''expired'' (ch_drawn s)"
  by (simp add: cleanup_tick_def cleanup_expired_pairings_def set_code_status_def Let_def)

lemma cleanup_tick_keeps [channel_keeps]: "channel_ok s \<Longrightarrow> channel_ok (cleanup_tick E s)"
  unfolding cleanup_tick_eq by (rule channel_ok_set_code_status) auto

section \<open>Sessions\<close>

text \<open>Removing sessions, or changing fields that no constraint reads, keeps the invariant.\<close>

lemma channel_ok_filter_sessions:
  "channel_ok s \<Longrightarrow> channel_ok (s\<lparr>ch_sessions := filter P (ch_sessions s)\<rparr>)"
  by (auto simp: channel_ok_def pairings_ok_def authorized_ok_def sessions_ok_def distinct_map_filter)

lemma channel_ok_update_sessions:
  assumes "channel_ok s" and "\<And>x. as_id (f x) = as_id x" "\<And>x. as_user_id (f x) = as_user_id x" "\<And>x. as_chat_id (f x) = as_chat_id x"
    and "\<And>x c. as_conversation_id (f x) = Some c \<Longrightarrow> as_conversation_id x = Some c \<or> c \<in> set (ch_conversations s)"
  shows "channel_ok (s\<lparr>ch_sessions := update_where P f (ch_sessions s)\<rparr>)"
proof -
  have "map (\<lambda>x. (as_user_id x, as_chat_id x)) (update_where P f (ch_sessions s)) = map (\<lambda>x. (as_user_id x, as_chat_id x)) (ch_sessions s)"
    using assms(3,4) by (intro update_where_key) simp
  moreover have "map as_id (update_where P f (ch_sessions s)) = map as_id (ch_sessions s)" using assms(2) by (rule update_where_key)
  moreover have "as_chat_id y \<noteq> None \<and> as_user_id y \<in> au_id ` set (ch_users s) \<and> (\<forall>c. as_conversation_id y = Some c \<longrightarrow> c \<in> set (ch_conversations s))"
    if "y \<in> set (update_where P f (ch_sessions s))" for y
  proof -
    from that obtain x where x: "x \<in> set (ch_sessions s)" "y = (if P x then f x else x)" by (auto simp: in_update_where)
    have "as_chat_id x \<noteq> None" "as_user_id x \<in> au_id ` set (ch_users s)" "\<forall>c. as_conversation_id x = Some c \<longrightarrow> c \<in> set (ch_conversations s)"
      using assms(1) x(1) by (auto simp: channel_ok_def sessions_ok_def)
    moreover have "\<forall>c. as_conversation_id (f x) = Some c \<longrightarrow> c \<in> set (ch_conversations s)" using calculation(3) assms(5) by blast
    ultimately show ?thesis using x(2) assms(3,4) by simp
  qed
  ultimately show ?thesis using assms(1) by (simp add: channel_ok_def pairings_ok_def authorized_ok_def sessions_ok_def)
qed

lemma channel_ok_update_drawn:
  assumes "channel_ok s" and "\<And>x. as_id (f x) = as_id x" "\<And>x. as_user_id (f x) = as_user_id x" "\<And>x. as_chat_id (f x) = as_chat_id x"
    and "\<And>x c. as_conversation_id (f x) = Some c \<Longrightarrow> as_conversation_id x = Some c \<or> c \<in> set (ch_conversations s)"
  shows "channel_ok ((ch_drawn s)\<lparr>ch_sessions := update_where P f (ch_sessions s)\<rparr>)"
  using channel_ok_update_sessions [of "ch_drawn s" f P] assms by simp

lemma find_session_Some: "find_session u c s = Some x \<Longrightarrow> x \<in> set (ch_sessions s) \<and> of_chat u c x"
  by (auto simp: find_session_def find_Some_iff)

lemma get_or_create_session_keeps:
  assumes ok: "channel_ok s" and row: "as_user_id row = u" "as_chat_id row = Some c"
  shows "channel_ok (fst (get_or_create_session E u c row s))"
proof (cases "find_session u c s")
  case (Some x)
  have "channel_ok ((ch_drawn s)\<lparr>ch_sessions := update_where (\<lambda>y. as_id y = as_id x) (\<lambda>y. y\<lparr>as_last_activity := clock E (ch_draws s)\<rparr>)
      (ch_sessions (ch_drawn s))\<rparr>)"
    using ok by (intro channel_ok_update_sessions) auto
  with Some show ?thesis by (simp add: get_or_create_session_def Let_def)
next
  case None
  then have "\<not> of_chat u c y" if "y \<in> set (ch_sessions s)" for y using that by (auto simp: find_session_def find_None_iff)
  then have "(u, Some c) \<notin> (\<lambda>x. (as_user_id x, as_chat_id x)) ` set (ch_sessions s)"
    unfolding of_chat_def by (metis (no_types, lifting) imageE prod.inject)
  note fresh = this
  show ?thesis
  proof (cases "insert_session row s = (s, Inl Query)")
    case False
    then have "as_id row \<notin> as_id ` set (ch_sessions s)" "u \<in> au_id ` set (ch_users s)"
      "\<And>c. as_conversation_id row = Some c \<Longrightarrow> c \<in> set (ch_conversations s)"
      using row(1) by (auto simp: insert_session_def split: if_splits dest: sym)
    with ok row fresh have "channel_ok (s\<lparr>ch_sessions := ch_sessions s @ [row]\<rparr>)"
      by (simp add: channel_ok_def pairings_ok_def authorized_ok_def sessions_ok_def)
    with False None show ?thesis by (auto simp: get_or_create_session_def insert_session_def split: if_splits)
  qed (use ok None in \<open>simp add: get_or_create_session_def\<close>)
qed

lemma session_for_chat_keeps [channel_keeps]:
  "channel_ok s \<Longrightarrow> channel_ok (fst (session_for_chat E u c t w s))"
  by (simp add: session_for_chat_def get_or_create_session_keeps new_session_row_def Let_def)

lemma reset_session_keeps [channel_keeps]: "channel_ok s \<Longrightarrow> channel_ok (fst (reset_session E u c t w s))"
  by (simp add: reset_session_def delete_session_by_user_chat_def session_for_chat_keeps channel_ok_filter_sessions)

lemma update_agent_type_keeps [channel_keeps]: "channel_ok s \<Longrightarrow> channel_ok (fst (update_agent_type E i t s))"
  by (auto simp: update_agent_type_def update_session_agent_type_def Let_def
      intro!: channel_ok_update_drawn)

lemma bind_conversation_keeps [channel_keeps]: "channel_ok s \<Longrightarrow> channel_ok (fst (bind_conversation E i c s))"
  by (auto simp: bind_conversation_def update_session_conversation_def Let_def
      intro!: channel_ok_update_drawn)

lemma clear_users_eq:
  "clear_users cleared xs s = (s\<lparr>ch_sessions := filter (\<lambda>x. as_user_id x \<in> set cleared \<or> as_user_id x \<notin> as_user_id ` set xs) (ch_sessions s)\<rparr>, Inr ())"
  if "\<forall>x\<in>set (ch_sessions s). as_user_id x \<notin> set cleared"
  using that
proof (induction cleared xs s rule: clear_users.induct)
  case (2 cleared x xs s)
  show ?case
  proof (cases "as_user_id x \<in> set cleared")
    case True
    with 2 have "clear_users cleared xs s =
      (s\<lparr>ch_sessions := filter (\<lambda>x. as_user_id x \<in> set cleared \<or> as_user_id x \<notin> as_user_id ` set xs) (ch_sessions s)\<rparr>, Inr ())" by simp
    moreover have "filter (\<lambda>x. as_user_id x \<in> set cleared \<or> as_user_id x \<notin> as_user_id ` set xs) (ch_sessions s) =
      filter (\<lambda>y. as_user_id y \<in> set cleared \<or> as_user_id y \<notin> as_user_id ` set (x # xs)) (ch_sessions s)"
      using True "2.prems" by (intro filter_cong) auto
    ultimately show ?thesis using True by simp
  next
    case False
    let ?s = "s\<lparr>ch_sessions := filter (\<lambda>y. as_user_id y \<noteq> as_user_id x) (ch_sessions s)\<rparr>"
    have del: "delete_sessions_by_user (as_user_id x) s = (?s, Inr ())" by (simp add: delete_sessions_by_user_def)
    have "clear_users (as_user_id x # cleared) xs ?s = (?s\<lparr>ch_sessions := filter (\<lambda>y. as_user_id y \<in> set (as_user_id x # cleared) \<or>
        as_user_id y \<notin> as_user_id ` set xs) (ch_sessions ?s)\<rparr>, Inr ())"
      using "2.IH"(2) [OF False, of ?s] "2.prems" by auto
    moreover have "filter (\<lambda>y. as_user_id y \<in> set (as_user_id x # cleared) \<or> as_user_id y \<notin> as_user_id ` set xs) (ch_sessions ?s) =
        filter (\<lambda>y. as_user_id y \<in> set cleared \<or> as_user_id y \<notin> as_user_id ` set (x # xs)) (ch_sessions s)"
      using "2.prems" by (auto intro!: filter_cong)
    ultimately show ?thesis using False del by simp
  qed
qed simp

lemma clear_all_sessions_eq: "clear_all_sessions s = (s\<lparr>ch_sessions := []\<rparr>, Inr ())"
  by (auto simp: clear_all_sessions_def clear_users_eq get_all_sessions_def filter_empty_conv)

lemma channel_ok_no_sessions: "channel_ok s \<Longrightarrow> channel_ok (s\<lparr>ch_sessions := []\<rparr>)"
  using channel_ok_filter_sessions [of s "\<lambda>_. False"] by simp

section \<open>The routes and the step\<close>

lemma revoke_user_eq:
  "revoke_user i s =
    (if i \<in> au_id ` set (ch_users s)
     then (s\<lparr>ch_users := filter (\<lambda>u. au_id u \<noteq> i) (ch_users s), ch_sessions := filter (\<lambda>x. as_user_id x \<noteq> i) (ch_sessions s)\<rparr>, Inr ())
     else (s\<lparr>ch_sessions := filter (\<lambda>x. as_user_id x \<noteq> i) (ch_sessions s)\<rparr>, Inl (NotFound (user_not_found_msg i))))"
  by (auto simp: revoke_user_def cleanup_user_sessions_def delete_sessions_by_user_def ch_delete_user_def rows_affected_0)

lemma revoke_user_keeps [channel_keeps]: "channel_ok s \<Longrightarrow> channel_ok (fst (revoke_user i s))"
  by (auto simp: revoke_user_eq channel_ok_filter_sessions channel_ok_def pairings_ok_def authorized_ok_def sessions_ok_def distinct_map_filter)

lemma handle_incoming_message_keeps [channel_keeps]:
  assumes "channel_ok s" shows "channel_ok (fst (handle_incoming_message E J d msg s))"
proof -
  note seq = fst_and_then_inv [where P = channel_ok]
  have action: "channel_ok (fst (route_action E J d action i s))" for action i
    using assms by (cases "un_category action")
      (auto simp: route_action_def handle_platform_action_def handle_system_action_def handle_chat_action_def Let_def
        intro!: seq channel_keeps)
  show ?thesis
    using assms action by (auto simp: handle_incoming_message_def handle_unauthorized_def Let_def split: option.split
        intro!: seq channel_keeps)
qed

lemma channel_step_keeps: "channel_ok s \<Longrightarrow> channel_ok (fst (channel_step E J d r s))"
proof (cases r)
  case (ConversationDeleted c)
  assume ok: "channel_ok s"
  have "channel_ok (s\<lparr>ch_sessions := update_where (\<lambda>x. as_conversation_id x = Some c) (\<lambda>x. x\<lparr>as_conversation_id := None\<rparr>) (ch_sessions s)\<rparr>)"
    using ok by (rule channel_ok_update_sessions) simp_all
  moreover have "as_conversation_id x \<noteq> Some c"
    if "x \<in> set (update_where (\<lambda>x. as_conversation_id x = Some c) (\<lambda>x. x\<lparr>as_conversation_id := None\<rparr>) (ch_sessions s))" for x
  proof -
    from that obtain r where r: "x = (if as_conversation_id r = Some c then r\<lparr>as_conversation_id := None\<rparr> else r)"
      by (auto simp: in_update_where)
    show ?thesis by (cases "as_conversation_id r = Some c") (simp_all add: r)
  qed
  ultimately show ?thesis
    using ConversationDeleted by (auto simp: channel_ok_def pairings_ok_def authorized_ok_def sessions_ok_def)
next
  case (ConversationCreated c)
  assume "channel_ok s"
  with ConversationCreated show ?thesis by (auto simp: channel_ok_def pairings_ok_def authorized_ok_def sessions_ok_def)
qed (auto simp: channel_keeps active_pairings_def sync_channel_settings_def clear_all_sessions_eq channel_ok_no_sessions Let_def
      split: option.split)

interpretation channels: machine channel_ok "\<lambda>r s. fst (channel_step E J d r s)" for E J d
  by unfold_locales (rule channel_step_keeps)

lemma channel_run_ok: "channel_ok (channel_run E J d reqs)"
  unfolding channel_run_def by (rule channels.run_inv [OF channel_ok_empty])

end
