(* ===== verification/ChannelProperties.thy ===== *)
theory ChannelProperties
  imports ChannelFacts
begin

text \<open>
  The properties of the messaging channels: the tables, who is authorized, and what an incoming message does.
\<close>

section \<open>Codes\<close>

lemma length_decimal: "n < 10 ^ k \<Longrightarrow> 0 < k \<Longrightarrow> length (decimal n) \<le> k"
proof (induction n arbitrary: k rule: decimal.induct)
  case (1 n)
  show ?case
  proof (cases "n < 10")
    case True
    with "1.prems" show ?thesis by (simp add: decimal.simps [of n])
  next
    case False
    then obtain j where j: "k = Suc j" "0 < j" using "1.prems" by (cases k; cases "k - 1") auto
    then have "n div 10 < 10 ^ j" using "1.prems" by (simp add: less_mult_imp_div_less mult.commute)
    from "1.IH" [OF False this j(2)] False j show ?thesis by (simp add: decimal.simps [of n])
  qed
qed

lemma generated_code_length: "generate_pairing_code b = Inr code \<Longrightarrow> length code = 6"
proof -
  assume "generate_pairing_code b = Inr code"
  then obtain w where w: "code = zero_padded 6 (unat (w mod 10 ^ 6 :: 32 word))"
    by (auto simp: generate_pairing_code_def PAIRING_CODE_LENGTH_def split: sum.splits)
  have "unat (w mod 10 ^ 6) = unat w mod unat (10 ^ 6 :: 32 word)" by (rule unat_mod_distrib)
  moreover have "unat (10 ^ 6 :: 32 word) = 10 ^ 6" by simp
  ultimately have "length (decimal (unat (w mod 10 ^ 6))) \<le> 6" by (intro length_decimal) simp_all
  with w show ?thesis by (simp add: zero_padded_def)
qed

section \<open>The tables\<close>


section \<open>Who is authorized\<close>

lemma request_pairing_users: "channel_ok s \<Longrightarrow> ch_users (fst (request_pairing E pu pt dn s)) = ch_users s"
  by (simp add: request_pairing_eq Let_def split: sum.split)

lemma session_for_chat_users: "ch_users (fst (session_for_chat E u c t w s)) = ch_users s"
  by (simp add: session_for_chat_def get_or_create_session_def insert_session_def Let_def split: option.split)

lemma reset_session_users: "ch_users (fst (reset_session E u c t w s)) = ch_users s"
  by (simp add: reset_session_def delete_session_by_user_chat_def session_for_chat_users)

lemma update_agent_type_users: "ch_users (fst (update_agent_type E i t s)) = ch_users s"
  by (simp add: update_agent_type_def update_session_agent_type_def Let_def)

lemma incoming_users:
  assumes "channel_ok s" shows "ch_users (fst (handle_incoming_message E J d msg s)) = ch_users s"
proof -
  note seq = fst_and_then_inv [where P = "\<lambda>t. ch_users t = ch_users s"]
  note users = request_pairing_users session_for_chat_users reset_session_users update_agent_type_users
  have action: "ch_users (fst (route_action E J d action i s)) = ch_users s" for action i
    using assms by (cases "un_category action")
      (auto simp: route_action_def handle_platform_action_def handle_system_action_def handle_chat_action_def Let_def users
        intro!: seq)
  show ?thesis
    using assms action by (auto simp: handle_incoming_message_def handle_unauthorized_def Let_def users split: option.split
        intro!: seq)
qed

text \<open>Apart from an approval, no step adds a user.\<close>

lemma no_new_users:
  assumes "channel_ok s" and "\<And>code. r \<noteq> ApprovePairing code"
  shows "set (ch_users (fst (channel_step E J d r s))) \<subseteq> set (ch_users s)"
proof (cases r)
  case (RejectPairing code)
  have "ch_users (fst (reject_pairing E code s)) = ch_users s"
    by (cases rule: get_valid_pending_pairing_cases [of E s code])
      (simp_all add: reject_pairing_def update_pairing_status_def)
  with RejectPairing show ?thesis by simp
next
  case (Incoming msg)
  with incoming_users [OF assms(1), of E J d msg] show ?thesis by simp
qed (use assms in \<open>auto simp: active_pairings_def revoke_user_eq sync_channel_settings_def clear_all_sessions_eq
      bind_conversation_def update_session_conversation_def cleanup_tick_eq Let_def split: option.split\<close>)

lemma authorized_iff:
  "is_user_authorized pu pt s \<longleftrightarrow> (\<exists>u\<in>set (ch_users s). au_platform_user_id u = pu \<and> au_platform_type u = pt)"
  by (auto simp: is_user_authorized_def get_user_by_platform_def find_None_iff)

text \<open>C27. Nobody becomes authorized but by an administrator's approval of a code that was handed out to that very
  platform user, that is still pending and whose ten minutes are not over.\<close>

theorem only_approval_authorizes:
  assumes "s = channel_run E J d reqs" and "\<not> is_user_authorized pu pt s"
    and "is_user_authorized pu pt (fst (channel_step E J d r s))"
  shows "\<exists>code p. r = ApprovePairing code \<and> usable E s code p \<and> code_of pu pt p"
proof -
  have ok: "channel_ok s" using assms(1) channel_run_ok by simp
  obtain code where r: "r = ApprovePairing code"
    using no_new_users [OF ok, of r E J d] assms(2,3) unfolding authorized_iff by blast
  from ok show ?thesis
  proof (cases rule: approve_pairing_cases [of s E code])
    case (approved p)
    from assms(2,3) approved(3) have "code_of pu pt p" by (auto simp: authorized_iff r approved_user_def code_of_def)
    with approved(1) r show ?thesis by blast
  next
    case (refused e)
    with assms(2,3) show ?thesis by (auto simp: authorized_iff r)
  qed
qed

text \<open>C28. What approving a code does, in every case: an unknown code is answered 404, one that was processed 400, one that
  ran out 400 and is expired, one of a user who is authorized already 409 and stays pending; otherwise the user is added
  and the code approved. In no other case is a user added.\<close>

theorem approval_outcome:
  assumes "s = channel_run E J d reqs" and "mint_id E (Suc (ch_draws s)) \<notin> au_id ` set (ch_users s)"
    and "channel_step E J d (ApprovePairing code) s = (s', r)"
  shows "(case get_pairing_by_code code s of
      None \<Rightarrow> r = Done (Inl (NotFound code)) \<and> s' = s
    | Some p \<Rightarrow>
        if \<not> pending p then r = Done (Inl (BadRequest code)) \<and> s' = s
        else if pc_expires_at p \<le> clock E (ch_draws s)
          then r = Done (Inl (BadRequest code)) \<and> ch_users s' = ch_users s \<and>
            get_pairing_by_code code s' = Some (p\<lparr>pc_status := ''expired''\<rparr>)
        else if is_user_authorized (pc_platform_user_id p) (pc_platform_type p) s
          then (\<exists>m. r = Done (Inl (ApiConflict m))) \<and> ch_users s' = ch_users s \<and> get_pairing_by_code code s' = Some p
        else r = Done (Inr ()) \<and> ch_users s' = ch_users s @ [approved_user E s p] \<and>
          get_pairing_by_code code s' = Some (p\<lparr>pc_status := ''approved''\<rparr>))"
proof (cases "get_pairing_by_code code s")
  case None
  with assms(3) show ?thesis by (auto simp: approve_pairing_def get_valid_pending_pairing_def)
next
  case (Some p)
  then have p: "p \<in> set (ch_pairings s)" "pc_code p = code" using get_pairing_by_code_Some by blast+
  have upd: "update_pairing_status code st t = (set_code_status (\<lambda>q. pc_code q = code) st t, Inr ())"
    if "ch_pairings t = ch_pairings s" "pairing_status_parse st \<noteq> None" for st t
    using update_pairing_status_eq [of p t st] p that by simp
  have get: "get_pairing_by_code code t = Some (p\<lparr>pc_status := st\<rparr>)"
    if "ch_pairings t = ch_pairings (set_code_status (\<lambda>q. pc_code q = code) st s)" for st t
    using Some that find_update_where [of pc_code "\<lambda>p. p\<lparr>pc_status := st\<rparr>" code "\<lambda>q. pc_code q = code" "ch_pairings s"] p(2)
    by (simp add: get_pairing_by_code_def)
  have known: "(\<exists>u\<in>set (ch_users s). au_id u = au_id (approved_user E s p) \<or>
      au_platform_user_id u = pc_platform_user_id p \<and> au_platform_type u = pc_platform_type p) \<longleftrightarrow>
      is_user_authorized (pc_platform_user_id p) (pc_platform_type p) s"
    using assms(2) unfolding authorized_iff by (auto simp: approved_user_def image_iff)
  consider (processed) "\<not> pending p" | (late) "pending p" "pc_expires_at p \<le> clock E (ch_draws s)"
    | (usable) "pending p" "\<not> pc_expires_at p \<le> clock E (ch_draws s)" by blast
  then show ?thesis
  proof cases
    case processed
    with Some assms(3) show ?thesis by (auto simp: approve_pairing_def get_valid_pending_pairing_def)
  next
    case late
    with Some assms(3) upd [of "ch_drawn s" "''expired''"] get [of s' "''expired''"] show ?thesis
      by (auto simp: approve_pairing_def get_valid_pending_pairing_def Let_def)
  next
    case usable
    let ?u = "approved_user E s p" and ?s = "ch_drawn (ch_drawn s)"
    have valid: "get_valid_pending_pairing E code s = (ch_drawn s, Inr p)"
      using usable Some by (simp add: get_valid_pending_pairing_def Let_def)
    show ?thesis
    proof (cases "is_user_authorized (pc_platform_user_id p) (pc_platform_type p) s")
      case True
      with known have "\<exists>m. ch_create_user ?u ?s = (?s, Inl (DbConflict m))" by (auto simp: ch_create_user_def approved_user_def)
      with True usable Some valid assms(3) show ?thesis
        by (auto simp: approve_pairing_def Let_def approved_user_def get_pairing_by_code_def)
    next
      case False
      with known have create: "ch_create_user ?u ?s = (?s\<lparr>ch_users := ch_users s @ [?u]\<rparr>, Inr ())"
        by (auto simp: ch_create_user_def approved_user_def)
      with False usable Some valid assms(3) upd [of "?s\<lparr>ch_users := ch_users s @ [?u]\<rparr>" "''approved''"] get [of s' "''approved''"]
      show ?thesis by (auto simp: approve_pairing_def Let_def approved_user_def)
    qed
  qed
qed

section \<open>Incoming messages\<close>

text \<open>Whatever an unauthorized user sends, text or button, is answered with a new six-digit code. It becomes the only
  pending code of that user; users and sessions stay as they are.\<close>

lemma unauthorized_gets_a_code:
  assumes "s = channel_run E J d reqs" and "\<not> is_user_authorized (im_user_id msg) pt s" and "pt = plugin_type_str (im_platform msg)"
    and "generate_pairing_code (rng E (ch_draws s)) = Inr code" and "code \<notin> pc_code ` set (ch_pairings s)"
    and "channel_step E J d (Incoming msg) s = (s', r)"
  shows "r = Replied (Inr (Action (build_pairing_response code))) \<and> length code = 6 \<and>
    filter (\<lambda>p. pending p \<and> code_of (im_user_id msg) pt p) (ch_pairings s') =
      [new_pairing (im_user_id msg) pt (Some (im_display_name msg)) code (clock E (Suc (ch_draws s)))] \<and>
    ch_users s' = ch_users s \<and> ch_sessions s' = ch_sessions s"
proof -
  let ?t = "retired (im_user_id msg) pt s"
  have ok: "channel_ok s" using assms(1) channel_run_ok by simp
  have "filter (\<lambda>p. pending p \<and> code_of (im_user_id msg) pt p) (ch_pairings ?t) = []"
    using retired_none by (auto simp: filter_empty_conv)
  with assms(2-6) show ?thesis
    by (auto simp: handle_incoming_message_def handle_unauthorized_def get_internal_user_id_def is_user_authorized_def
        request_pairing_eq [OF ok] Let_def new_pairing_def code_of_def dest: generated_code_length)
qed

lemma filter_of_key:
  assumes "distinct (map key xs)" and "y \<in> set xs" and "\<And>z. P z \<longleftrightarrow> key z = key y"
  shows "filter P xs = [y]"
  using assms(1,2)
proof (induction xs)
  case (Cons x xs)
  show ?case
  proof (cases "x = y")
    case True
    with Cons.prems assms(3) show ?thesis by (auto simp: filter_empty_conv image_iff)
  next
    case False
    with Cons.prems have "key x \<noteq> key y" "y \<in> set xs" by auto
    with Cons assms(3) show ?thesis by simp
  qed
qed simp

lemma filter_update_same:
  assumes "\<And>x. x \<in> set xs \<Longrightarrow> Q x \<Longrightarrow> \<not> P (f x)" and "\<And>x. x \<in> set xs \<Longrightarrow> Q x \<Longrightarrow> \<not> P x"
  shows "filter P (update_where Q f xs) = filter P xs"
  using assms by (induction xs) (auto simp: update_where_def)

text \<open>A text message of an authorized user is dispatched to the one session of that user and chat, which is
  created when there is none; no other session is touched.\<close>

lemma text_reaches_its_own_session:
  assumes "s = channel_run E J d reqs" and "im_action msg = None"
    and "get_internal_user_id (im_user_id msg) (plugin_type_str (im_platform msg)) s = Some i"
    and "mint_id E (ch_draws s) \<notin> as_id ` set (ch_sessions s)"
    and "channel_step E J d (Incoming msg) s = (s', r)"
  shows "\<exists>x. r = Replied (Inr (Dispatched (as_id x) (as_conversation_id x))) \<and>
    filter (of_chat i (im_chat_id msg)) (ch_sessions s') = [x] \<and>
    (case find_session i (im_chat_id msg) s of
       Some y \<Rightarrow> x = y\<lparr>as_last_activity := as_last_activity x\<rparr>
     | None \<Rightarrow> as_id x = mint_id E (ch_draws s) \<and> as_conversation_id x = None) \<and>
    filter (\<lambda>y. \<not> of_chat i (im_chat_id msg) y) (ch_sessions s') = filter (\<lambda>y. \<not> of_chat i (im_chat_id msg) y) (ch_sessions s) \<and>
    ch_users s' = ch_users s \<and> ch_pairings s' = ch_pairings s"
proof -
  let ?mine = "of_chat i (im_chat_id msg)" and ?now = "clock E (Suc (ch_draws s))"
  have ok: "channel_ok s" using assms(1) channel_run_ok by simp
  then have ids: "distinct (map as_id (ch_sessions s))" and chats: "distinct (map (\<lambda>x. (as_user_id x, as_chat_id x)) (ch_sessions s))"
    by (simp_all add: channel_ok_def sessions_ok_def)
  show ?thesis
  proof (cases "find_session i (im_chat_id msg) s")
    case (Some y)
    then have y: "y \<in> set (ch_sessions s)" "?mine y" using find_session_Some by blast+
    let ?f = "\<lambda>x. x\<lparr>as_last_activity := ?now\<rparr>"
    have only: "z = y" if "z \<in> set (ch_sessions s)" "as_id z = as_id y" for z
      using ids that y(1) by (auto simp: distinct_map dest: inj_onD)
    have one: "filter ?mine (ch_sessions s) = [y]"
      by (rule filter_of_key [OF chats y(1)]) (use y(2) in \<open>auto simp: of_chat_def\<close>)
    let ?sessions = "update_where (\<lambda>x. as_id x = as_id y) ?f (ch_sessions s)"
    have "filter ?mine ?sessions = map (\<lambda>x. if as_id x = as_id y then ?f x else x) (filter ?mine (ch_sessions s))"
      unfolding update_where_def filter_map by (rule arg_cong [of _ _ "map _"], rule filter_cong) (auto simp: of_chat_def)
    then have mine: "filter ?mine ?sessions = [?f y]" using one by simp
    have others: "filter (\<lambda>x. \<not> ?mine x) ?sessions = filter (\<lambda>x. \<not> ?mine x) (ch_sessions s)"
      by (rule filter_update_same) (use only y(2) in \<open>auto simp: of_chat_def\<close>)
    have "s' = (ch_drawn (ch_drawn s))\<lparr>ch_sessions := ?sessions\<rparr>"
      and "r = Replied (Inr (Dispatched (as_id y) (as_conversation_id y)))"
      using assms(2,3,5) Some
      by (auto simp: handle_incoming_message_def session_for_chat_def get_or_create_session_def find_session_def Let_def)
    with mine others Some show ?thesis by (intro exI [of _ "?f y"]) simp
  next
    case None
    let ?x = "new_session_row E i (im_chat_id msg) (rc_agent_type (get_agent_config J (im_platform msg) s)) None s"
    have none: "filter ?mine (ch_sessions s) = []" using None by (auto simp: find_session_def find_None_iff filter_empty_conv)
    have x: "?mine ?x" "as_id ?x = mint_id E (ch_draws s)" "as_conversation_id ?x = None" "as_user_id ?x = i"
      by (simp_all add: new_session_row_def of_chat_def Let_def)
    obtain u where u: "u \<in> set (ch_users s)" "au_id u = i"
      using assms(3) by (force simp: get_internal_user_id_def get_user_by_platform_def find_Some_iff)
    have "as_id z \<noteq> as_id ?x" if "z \<in> set (ch_sessions s)" for z using assms(4) x(2) that by (metis image_eqI)
    with u have "insert_session ?x (ch_drawn s) = ((ch_drawn s)\<lparr>ch_sessions := ch_sessions s @ [?x]\<rparr>, Inr ?x)"
      using x by (auto simp: insert_session_def)
    then have "s' = (ch_drawn s)\<lparr>ch_sessions := ch_sessions s @ [?x]\<rparr>" and "r = Replied (Inr (Dispatched (as_id ?x) (as_conversation_id ?x)))"
      using assms(2,3,5) None
      by (auto simp: handle_incoming_message_def session_for_chat_def get_or_create_session_def find_session_def Let_def)
    with none x None show ?thesis by (intro exI [of _ ?x]) simp
  qed
qed

section \<open>Examples\<close>

text \<open>Ids count up, the clock advances a second per draw, the random numbers are chosen.\<close>

definition demo_channel_env :: channel_env where
  "demo_channel_env = \<lparr>mint_id = (\<lambda>k. ''id'' @ decimal k), clock = (\<lambda>k. 1000 * int k), rng = (\<lambda>k. Inr (if k = 0 then 7 else 42))\<rparr>"

definition no_json :: pref_json where
  "no_json value = (None, None)"

definition hello :: incoming_message where
  "hello = \<lparr>im_platform = Telegram, im_chat_id = ''c1'', im_user_id = ''u1'', im_display_name = ''Ana'', im_text = ''hi'', im_action = None\<rparr>"

lemma demo_code: "generate_pairing_code (rng demo_channel_env 0) = Inr ''000007''"
proof -
  have "zero_padded 6 7 = ''000007''" by code_simp
  then show ?thesis by (simp add: generate_pairing_code_def demo_channel_env_def PAIRING_CODE_LENGTH_def)
qed

lemma unauthorized_gets_a_code_witness:
  "snd (channel_step demo_channel_env no_json ''acp'' (Incoming hello) empty_channels) =
     Replied (Inr (Action (build_pairing_response ''000007'')))"
proof -
  obtain s' r where step: "channel_step demo_channel_env no_json ''acp'' (Incoming hello) empty_channels = (s', r)" by force
  have "empty_channels = channel_run demo_channel_env no_json ''acp'' []" by (simp add: channel_run_def)
  moreover have "\<not> is_user_authorized (im_user_id hello) ''telegram'' empty_channels" by (simp add: authorized_iff empty_channels_def)
  moreover have "''telegram'' = plugin_type_str (im_platform hello)" by (simp add: hello_def)
  moreover have "generate_pairing_code (rng demo_channel_env (ch_draws empty_channels)) = Inr ''000007''"
    using demo_code by (simp add: empty_channels_def)
  moreover have "''000007'' \<notin> pc_code ` set (ch_pairings empty_channels)" by (simp add: empty_channels_def)
  ultimately show ?thesis using unauthorized_gets_a_code [OF _ _ _ _ _ step] step by simp
qed

definition demo_channels :: channel_state where
  "demo_channels = channel_run demo_channel_env no_json ''acp'' [Incoming hello]"

lemma demo_channels_eq:
  "demo_channels = empty_channels\<lparr>ch_pairings := [new_pairing ''u1'' ''telegram'' (Some ''Ana'') ''000007'' 1000],
     ch_events := [PairingRequestedEvent ''000007'' ''u1'' ''telegram'' (Some ''Ana'') 601000], ch_draws := 2\<rparr>"
  unfolding demo_channels_def by code_simp

lemma only_approval_authorizes_witness:
  "\<exists>code p. ApprovePairing ''000007'' = ApprovePairing code \<and> usable demo_channel_env demo_channels code p \<and>
     code_of ''u1'' ''telegram'' p"
proof (rule only_approval_authorizes [OF demo_channels_def])
  show "\<not> is_user_authorized ''u1'' ''telegram'' demo_channels" unfolding demo_channels_eq by code_simp
  show "is_user_authorized ''u1'' ''telegram''
      (fst (channel_step demo_channel_env no_json ''acp'' (ApprovePairing ''000007'') demo_channels))"
    unfolding demo_channels_eq by code_simp
qed

definition demo_authorized :: channel_state where
  "demo_authorized = channel_run demo_channel_env no_json ''acp'' [Incoming hello, ApprovePairing ''000007'']"

lemma approval_outcome_witness:
  "snd (channel_step demo_channel_env no_json ''acp'' (ApprovePairing ''000007'') demo_channels) = Done (Inr ())"
proof -
  obtain s' r where step: "channel_step demo_channel_env no_json ''acp'' (ApprovePairing ''000007'') demo_channels = (s', r)" by force
  have fresh: "mint_id demo_channel_env (Suc (ch_draws demo_channels)) \<notin> au_id ` set (ch_users demo_channels)"
    unfolding demo_channels_eq by code_simp
  have "get_pairing_by_code ''000007'' demo_channels = Some (new_pairing ''u1'' ''telegram'' (Some ''Ana'') ''000007'' 1000)"
    "\<not> pc_expires_at (new_pairing ''u1'' ''telegram'' (Some ''Ana'') ''000007'' 1000) \<le> clock demo_channel_env (ch_draws demo_channels)"
    "\<not> is_user_authorized ''u1'' ''telegram'' demo_channels"
    unfolding demo_channels_eq by code_simp+
  with approval_outcome [OF demo_channels_def fresh step] step show ?thesis by (simp add: new_pairing_def)
qed

lemma text_reaches_its_own_session_witness:
  "\<exists>(s' :: channel_state) r x. channel_step demo_channel_env no_json ''acp'' (Incoming hello) demo_authorized = (s', r) \<and>
     r = Replied (Inr (Dispatched (as_id x) (as_conversation_id x))) \<and> filter (of_chat ''id3'' ''c1'') (ch_sessions s') = [x]"
proof -
  obtain s' r where step: "channel_step demo_channel_env no_json ''acp'' (Incoming hello) demo_authorized = (s', r)" by force
  have "im_action hello = None" by (simp add: hello_def)
  moreover have "get_internal_user_id (im_user_id hello) (plugin_type_str (im_platform hello)) demo_authorized = Some ''id3''"
    unfolding demo_authorized_def by code_simp
  moreover have "mint_id demo_channel_env (ch_draws demo_authorized) \<notin> as_id ` set (ch_sessions demo_authorized)"
    unfolding demo_authorized_def by code_simp
  moreover have "im_chat_id hello = ''c1''" by (simp add: hello_def)
  ultimately show ?thesis using text_reaches_its_own_session [OF demo_authorized_def _ _ _ step] step by metis
qed

section \<open>Limits\<close>

text \<open>
  A code is never free again: clean-up only marks it expired, and a new request that draws it fails. The user
  gets no answer, and the code he had before is expired all the same.
\<close>

lemma used_code_is_refused:
  assumes "channel_ok s" and "\<not> is_user_authorized (im_user_id msg) (plugin_type_str (im_platform msg)) s"
    and "generate_pairing_code (rng E (ch_draws s)) = Inr code" and "code \<in> pc_code ` set (ch_pairings s)"
  shows "snd (channel_step E J d (Incoming msg) s) =
    Replied (Inl (Database (DbConflict (''Pairing code '' @ quoted code @ '' already exists''))))"
  using assms by (simp add: handle_incoming_message_def handle_unauthorized_def get_internal_user_id_def
      is_user_authorized_def request_pairing_eq Let_def)

lemma cleanup_keeps_codes: "pc_code ` set (ch_pairings (cleanup_tick E s)) = pc_code ` set (ch_pairings s)"
proof -
  have "map pc_code (ch_pairings (cleanup_tick E s)) = map pc_code (ch_pairings s)" by (simp add: cleanup_tick_eq update_where_key)
  from arg_cong [OF this, of set] show ?thesis by simp
qed

text \<open>
  The lookup and the insert of a session are two statements. When two messages of one chat are handled at the same
  time and both look before either inserts, the chat gets two sessions: no constraint forbids it.
\<close>

lemma concurrent_messages_make_two_sessions:
  assumes "find_session u c s = None" and "u \<in> au_id ` set (ch_users s)"
    and "of_chat u c x" "of_chat u c y" "as_conversation_id x = None" "as_conversation_id y = None"
    and "as_id x \<noteq> as_id y" "as_id x \<notin> as_id ` set (ch_sessions s)" "as_id y \<notin> as_id ` set (ch_sessions s)"
  shows "filter (of_chat u c) (ch_sessions (fst (insert_session y (fst (insert_session x s))))) = [x, y]"
proof -
  have none: "filter (of_chat u c) (ch_sessions s) = []" using assms(1) by (auto simp: find_session_def find_None_iff filter_empty_conv)
  from assms(2) obtain v where v: "v \<in> set (ch_users s)" "au_id v = u" by auto
  have fresh: "as_id z \<noteq> as_id x" "as_id z \<noteq> as_id y" if "z \<in> set (ch_sessions s)" for z
    using assms(8,9) that by (metis image_eqI)+
  have "insert_session x s = (s\<lparr>ch_sessions := ch_sessions s @ [x]\<rparr>, Inr x)"
    using assms(3,5) v fresh by (auto simp: insert_session_def of_chat_def)
  moreover have "insert_session y (s\<lparr>ch_sessions := ch_sessions s @ [x]\<rparr>) = (s\<lparr>ch_sessions := ch_sessions s @ [x, y]\<rparr>, Inr y)"
    using assms(4,6,7) v fresh by (auto simp: insert_session_def of_chat_def)
  ultimately show ?thesis using none assms(3,4) by simp
qed

end
