(* ===== verification/ConvRuntime.thy ===== *)
theory ConvRuntime
  imports TaskRepo
begin

text \<open>
  The runtime state of conversations (\<open>aionui-conversation/src/runtime_state.rs\<close>): which turn a conversation
  runs, which conversations are being deleted or cancelled, and whether the process shuts down; the claim that a
  turn holds; and the three policies that read this state (\<open>runtime_persistence.rs\<close>,
  \<open>turn_continuation_policy.rs\<close>, \<open>agent_health_policy.rs\<close>). Every method locks one mutex, so it is one step; no
  critical section panics, so the branches for a poisoned lock are not modelled. Log statements are left out.
\<close>

section \<open>Errors and enumerations\<close>

datatype conv_error =
  ConvNotFound string | ConvMessageNotFound string | ConvArtifactNotFound string
| ConvActiveAgentNotFound string | ConvArchived string string | ConvBadRequest string | ConvBusy string
| ConvForbidden string | ConvNotFoundReason string | ConvUnauthorized string | ConvRateLimited
| ConvBadGateway string | ConvTimeout string | ConvUnprocessable string | ConvInternal string
| ConvWorkspaceUnavailable string | ConvWorkspaceRuntimeUnavailable string | ConvAcp string

text \<open>\<open>ConversationError::error_code\<close>\<close>

fun conv_error_code :: "conv_error \<Rightarrow> string" where
  "conv_error_code (ConvNotFound _) = ''NOT_FOUND''"
| "conv_error_code (ConvMessageNotFound _) = ''NOT_FOUND''"
| "conv_error_code (ConvArtifactNotFound _) = ''NOT_FOUND''"
| "conv_error_code (ConvActiveAgentNotFound _) = ''NOT_FOUND''"
| "conv_error_code (ConvNotFoundReason _) = ''NOT_FOUND''"
| "conv_error_code (ConvBadRequest _) = ''BAD_REQUEST''"
| "conv_error_code (ConvUnauthorized _) = ''UNAUTHORIZED''"
| "conv_error_code (ConvForbidden _) = ''FORBIDDEN''"
| "conv_error_code (ConvBusy _) = ''CONFLICT''"
| "conv_error_code ConvRateLimited = ''RATE_LIMITED''"
| "conv_error_code (ConvInternal _) = ''INTERNAL_ERROR''"
| "conv_error_code (ConvAcp _) = ''INTERNAL_ERROR''"
| "conv_error_code (ConvBadGateway _) = ''BAD_GATEWAY''"
| "conv_error_code (ConvTimeout _) = ''TIMEOUT''"
| "conv_error_code (ConvUnprocessable _) = ''UNPROCESSABLE_ENTITY''"
| "conv_error_code (ConvArchived _ _) = ''CONVERSATION_ARCHIVED''"
| "conv_error_code (ConvWorkspaceUnavailable _) = ''WORKSPACE_PATH_UNAVAILABLE''"
| "conv_error_code (ConvWorkspaceRuntimeUnavailable _) = ''WORKSPACE_PATH_RUNTIME_UNAVAILABLE''"

text \<open>\<open>From<DbError> for ConversationError\<close>; the text of the driver's own errors is left out.\<close>

fun conv_of_db :: "db_error \<Rightarrow> conv_error" where
  "conv_of_db (DbNotFound r) = ConvNotFoundReason r"
| "conv_of_db (DbConflict r) = ConvBusy r"
| "conv_of_db Query = ConvInternal ''Database error: ''"
| "conv_of_db Migration = ConvInternal ''Migration error: ''"
| "conv_of_db (DbInit r) = ConvInternal (''Database init error: '' @ r)"

datatype agent_type = AtAcp | AtOpenclawGateway | AtNanobot | AtRemote | AtAionrs | AtGemini | AtCodex

fun agent_type_name :: "agent_type \<Rightarrow> string" where
  "agent_type_name AtAcp = ''acp''"
| "agent_type_name AtOpenclawGateway = ''openclaw-gateway''"
| "agent_type_name AtNanobot = ''nanobot''"
| "agent_type_name AtRemote = ''remote''"
| "agent_type_name AtAionrs = ''aionrs''"
| "agent_type_name AtGemini = ''gemini''"
| "agent_type_name AtCodex = ''codex''"

definition all_agent_types :: "agent_type list" where
  "all_agent_types = [AtAcp, AtOpenclawGateway, AtNanobot, AtRemote, AtAionrs, AtGemini, AtCodex]"

text \<open>The derived deserializer reads the name of a variant and nothing else.\<close>

definition agent_type_parse :: "string \<Rightarrow> agent_type option" where
  "agent_type_parse s = find (\<lambda>a. agent_type_name a = s) all_agent_types"

definition supports_new_conversation :: "agent_type \<Rightarrow> bool" where
  "supports_new_conversation a = (a = AtAcp \<or> a = AtAionrs)"

definition is_deprecated_runtime :: "agent_type \<Rightarrow> bool" where
  "is_deprecated_runtime a = (\<not> supports_new_conversation a)"

interpretation agent_types: codec agent_type_name agent_type_parse
proof
  fix a show "agent_type_parse (agent_type_name a) = Some a"
    by (cases a) (simp_all add: agent_type_parse_def all_agent_types_def)
qed

datatype conv_status = CsPending | CsRunning | CsFinished

datatype runtime_state_kind = RkIdle | RkStarting | RkRunning | RkCancelling | RkWaitingConfirmation

datatype lifecycle_state = LsActive | LsDeleting | LsCancelling | LsShuttingDown

section \<open>The runtime state\<close>

record conv_runtime =
  active_turns :: "(string, string) hmap"
  deleting :: "string set"
  cancelling :: "string set"
  shutting_down :: bool

definition init_runtime :: conv_runtime where
  "init_runtime = \<lparr>active_turns = [], deleting = {}, cancelling = {}, shutting_down = False\<rparr>"

record turn_claim =
  tc_conversation :: string
  tc_turn :: string
  tc_released :: bool

definition try_claim_turn ::
  "string \<Rightarrow> string \<Rightarrow> conv_runtime \<Rightarrow> (conv_runtime, conv_error, turn_claim) outcome" where
  "try_claim_turn c t rt =
     (if shutting_down rt then (rt, Inl (ConvBusy ''conversation runtime is shutting down''))
      else if c \<in> deleting rt then (rt, Inl (ConvBusy (''conversation '' @ c @ '' is being deleted'')))
      else if hm_contains (active_turns rt) c
        then (rt, Inl (ConvBusy (''conversation '' @ c @ '' is already running'')))
      else (rt\<lparr>active_turns := hm_insert c t (active_turns rt)\<rparr>,
            Inr \<lparr>tc_conversation = c, tc_turn = t, tc_released = False\<rparr>))"

definition is_claimed :: "string \<Rightarrow> conv_runtime \<Rightarrow> bool" where
  "is_claimed c rt = hm_contains (active_turns rt) c"

definition active_turn_id_for :: "string \<Rightarrow> conv_runtime \<Rightarrow> string option" where
  "active_turn_id_for c rt = hm_get (active_turns rt) c"

definition mark_deleting :: "string \<Rightarrow> conv_runtime \<Rightarrow> conv_runtime \<times> bool" where
  "mark_deleting c rt = (rt\<lparr>deleting := insert c (deleting rt)\<rparr>, hm_contains (active_turns rt) c)"

definition clear_deleting :: "string \<Rightarrow> conv_runtime \<Rightarrow> conv_runtime" where
  "clear_deleting c rt = rt\<lparr>deleting := deleting rt - {c}\<rparr>"

definition is_deleting :: "string \<Rightarrow> conv_runtime \<Rightarrow> bool" where
  "is_deleting c rt = (c \<in> deleting rt)"

definition mark_cancelling :: "string \<Rightarrow> conv_runtime \<Rightarrow> conv_runtime" where
  "mark_cancelling c rt = rt\<lparr>cancelling := insert c (cancelling rt)\<rparr>"

definition clear_cancelling :: "string \<Rightarrow> conv_runtime \<Rightarrow> conv_runtime" where
  "clear_cancelling c rt = rt\<lparr>cancelling := cancelling rt - {c}\<rparr>"

definition is_cancelling :: "string \<Rightarrow> conv_runtime \<Rightarrow> bool" where
  "is_cancelling c rt = (c \<in> cancelling rt)"

definition mark_shutting_down :: "conv_runtime \<Rightarrow> conv_runtime \<times> nat" where
  "mark_shutting_down rt = (rt\<lparr>shutting_down := True\<rparr>, length (active_turns rt))"

definition lifecycle_for :: "string \<Rightarrow> conv_runtime \<Rightarrow> lifecycle_state" where
  "lifecycle_for c rt =
     (if shutting_down rt then LsShuttingDown
      else if c \<in> deleting rt then LsDeleting
      else if c \<in> cancelling rt then LsCancelling
      else LsActive)"

record runtime_summary =
  sm_state :: runtime_state_kind
  sm_can_send_message :: bool
  sm_has_task :: bool
  sm_task_status :: "conv_status option"
  sm_is_processing :: bool
  sm_pending_confirmations :: nat
  sm_turn_id :: "string option"

definition summary_from_parts ::
  "string \<Rightarrow> conv_status option \<Rightarrow> bool \<Rightarrow> nat \<Rightarrow> conv_runtime \<Rightarrow> runtime_summary" where
  "summary_from_parts c task_status has_task pending rt =
     (let turn = hm_get (active_turns rt) c;
          claimed = (turn \<noteq> None);
          state = (if 0 < pending then RkWaitingConfirmation
                   else if c \<in> cancelling rt then RkCancelling
                   else if claimed \<and> task_status \<noteq> Some CsRunning then RkStarting
                   else if claimed \<or> task_status = Some CsRunning then RkRunning
                   else RkIdle);
          processing = (state \<noteq> RkIdle)
      in \<lparr>sm_state = state, sm_can_send_message = (\<not> processing), sm_has_task = has_task,
          sm_task_status = task_status, sm_is_processing = processing,
          sm_pending_confirmations = pending, sm_turn_id = turn\<rparr>)"

text \<open>\<open>ConversationRuntimeStateService::release\<close>: only the turn that is registered can release.\<close>

definition runtime_release :: "string \<Rightarrow> string \<Rightarrow> conv_runtime \<Rightarrow> conv_runtime \<times> bool" where
  "runtime_release c t rt =
     (if hm_get (active_turns rt) c = Some t
      then (rt\<lparr>active_turns := hm_remove c (active_turns rt), deleting := deleting rt - {c},
              cancelling := cancelling rt - {c}\<rparr>, c \<in> deleting rt)
      else (rt, False))"

section \<open>Claims\<close>

text \<open>
  \<open>TurnClaim::release_inner\<close>. The service outlives its claims, so the weak reference can be upgraded.
  \<open>Drop\<close> runs the same code.
\<close>

definition claim_release :: "turn_claim \<Rightarrow> conv_runtime \<Rightarrow> conv_runtime \<times> turn_claim \<times> bool" where
  "claim_release k rt =
     (if tc_released k then (rt, k, False)
      else let (rt', was_deleting) = runtime_release (tc_conversation k) (tc_turn k) rt
           in (rt', k\<lparr>tc_released := True\<rparr>, was_deleting))"

definition claim_release_for_turn :: "turn_claim \<Rightarrow> string \<Rightarrow> conv_runtime \<Rightarrow> conv_runtime \<times> turn_claim \<times> bool" where
  "claim_release_for_turn k t rt = (if tc_turn k \<noteq> t then (rt, k, False) else claim_release k rt)"

section \<open>What may be written\<close>

datatype write_kind =
  WkUserMessage | WkAssistantTextCreate | WkAssistantTextFlush | WkAssistantTextFinalize
| WkAssistantThinkingFinalize | WkToolCallPersist | WkAcpToolCallPersist | WkToolGroupPersist
| WkTerminalFinalize | WkConversationFinished | WkSendFailureTip | WkSessionKey | WkAcpRecoveryCleanup
| WkResolvedWorkspace | WkStartupRecovery

datatype write_decision = WriteAllow | WriteSkip lifecycle_state

definition persistence_decide :: "string \<Rightarrow> write_kind \<Rightarrow> conv_runtime \<Rightarrow> write_decision" where
  "persistence_decide c kind rt =
     (let lifecycle = lifecycle_for c rt;
          allow = (case lifecycle of
              LsActive \<Rightarrow> True
            | LsDeleting \<Rightarrow> kind = WkUserMessage
            | LsCancelling \<Rightarrow>
                kind \<in> {WkAssistantTextCreate, WkAssistantTextFlush, WkAssistantTextFinalize,
                  WkAssistantThinkingFinalize, WkToolCallPersist, WkAcpToolCallPersist, WkToolGroupPersist,
                  WkTerminalFinalize, WkConversationFinished}
            | LsShuttingDown \<Rightarrow> kind = WkUserMessage)
      in if allow then WriteAllow else WriteSkip lifecycle)"

definition persistence_allows :: "string \<Rightarrow> write_kind \<Rightarrow> conv_runtime \<Rightarrow> bool" where
  "persistence_allows c kind rt = (persistence_decide c kind rt = WriteAllow)"

section \<open>Continuation and health of the agent\<close>

text \<open>Of the error codes only the one the code tests is a variant of its own; the others are their wire names.\<close>

datatype agent_error_code = ProviderModelNotFound | OtherErrorCode string

datatype relay_terminal =
  RelayFinish | RelayError "agent_error_code option" "bool option" | RelayChannelClosed

fun terminal_is_error :: "relay_terminal \<Rightarrow> bool" where
  "terminal_is_error (RelayError _ _) = True"
| "terminal_is_error _ = False"

fun terminal_code :: "relay_terminal \<Rightarrow> agent_error_code option" where
  "terminal_code (RelayError code _) = code"
| "terminal_code _ = None"

fun terminal_retryable :: "relay_terminal \<Rightarrow> bool option" where
  "terminal_retryable (RelayError _ retryable) = retryable"
| "terminal_retryable _ = None"

record relay_outcome =
  ro_system_responses :: "string list"
  ro_terminal :: relay_terminal

datatype continuation_stop = NoSystemResponses | TerminalNotFinish | LifecycleNotActive | LimitReached

datatype continuation_decision = ContinueWith string nat | StopTurn continuation_stop

text \<open>\<open>xs.join("\n")\<close>\<close>

fun join_lines :: "string list \<Rightarrow> string" where
  "join_lines [] = []"
| "join_lines [x] = x"
| "join_lines (x # y # zs) = x @ CHR 0x0A # join_lines (y # zs)"

definition continuation_decide :: "nat \<Rightarrow> nat \<Rightarrow> relay_outcome \<Rightarrow> lifecycle_state \<Rightarrow> continuation_decision" where
  "continuation_decide max_continuations count out lifecycle =
     (if lifecycle \<noteq> LsActive then StopTurn LifecycleNotActive
      else if terminal_is_error (ro_terminal out) then StopTurn TerminalNotFinish
      else if ro_system_responses out = [] then StopTurn NoSystemResponses
      else if max_continuations \<le> count then StopTurn LimitReached
      else ContinueWith (join_lines (ro_system_responses out)) (count + 1))"

datatype health_action = KeepAgent | EvictAcpTask "agent_error_code option" "bool option" bool

definition health_decide :: "agent_type \<Rightarrow> relay_outcome \<Rightarrow> lifecycle_state \<Rightarrow> health_action" where
  "health_decide a out lifecycle =
     (if lifecycle \<noteq> LsActive then KeepAgent
      else if a \<noteq> AtAcp \<or> \<not> terminal_is_error (ro_terminal out) then KeepAgent
      else EvictAcpTask (terminal_code (ro_terminal out)) (terminal_retryable (ro_terminal out))
             (terminal_code (ro_terminal out) = Some ProviderModelNotFound))"

section \<open>Lemmas\<close>

lemma try_claim_Inr_iff:
  "try_claim_turn c t rt = (rt', Inr k) \<longleftrightarrow>
     \<not> shutting_down rt \<and> c \<notin> deleting rt \<and> hm_get (active_turns rt) c = None \<and>
     rt' = rt\<lparr>active_turns := hm_insert c t (active_turns rt)\<rparr> \<and>
     k = \<lparr>tc_conversation = c, tc_turn = t, tc_released = False\<rparr>"
  by (auto simp: try_claim_turn_def)

lemma try_claim_Inl: "try_claim_turn c t rt = (rt', Inl e) \<Longrightarrow> rt' = rt"
  by (auto simp: try_claim_turn_def split: if_splits)

lemma allows_cases:
  "persistence_allows c kind rt \<longleftrightarrow>
     (case lifecycle_for c rt of
        LsActive \<Rightarrow> True
      | LsDeleting \<Rightarrow> kind = WkUserMessage
      | LsCancelling \<Rightarrow>
          kind \<in> {WkAssistantTextCreate, WkAssistantTextFlush, WkAssistantTextFinalize,
            WkAssistantThinkingFinalize, WkToolCallPersist, WkAcpToolCallPersist, WkToolGroupPersist,
            WkTerminalFinalize, WkConversationFinished}
      | LsShuttingDown \<Rightarrow> kind = WkUserMessage)"
  unfolding persistence_allows_def persistence_decide_def Let_def
  by (cases "lifecycle_for c rt") (simp_all split: if_splits)

lemma user_message_allowed: "lifecycle_for c rt \<noteq> LsCancelling \<Longrightarrow> persistence_allows c WkUserMessage rt"
  by (cases "lifecycle_for c rt") (simp_all add: allows_cases)

text \<open>A conversation the summary offers for sending is claimed by the next sender, if no end of it is under way.\<close>

lemma can_send_claims:
  assumes "sm_can_send_message (summary_from_parts c ts ht n rt)"
    and "\<not> shutting_down rt" and "c \<notin> deleting rt"
  shows "\<exists>rt' k. try_claim_turn c t rt = (rt', Inr k)"
proof -
  from assms(1) have "hm_get (active_turns rt) c = None"
    by (auto simp: summary_from_parts_def Let_def split: if_splits)
  with assms(2,3) show ?thesis by (auto simp: try_claim_Inr_iff)
qed

end
