(* ===== verification/ConvRepo.thy ===== *)
theory ConvRepo
  imports ConvRuntime "HOL-Library.Word"
begin

text \<open>
  Conversations, their messages and artifacts as rows (\<open>aionui-db/src/models/{conversation,message,
  conversation_artifact}.rs\<close>) and the repository over them (\<open>aionui-db/src/repository/sqlite_conversation.rs\<close>,
  \<open>conversation.rs\<close>), with the constraints of migrations 001, 002 and 016: primary keys, the checks on status,
  position and kind, and the foreign keys, whose rows go with their conversation. The index on
  \<open>json_extract(extra, '$.cronJobId')\<close> makes SQLite refuse a row whose \<open>extra\<close> is no JSON. Page numbers and sizes
  are \<open>u32\<close>, with the wrap-around of a release build. The assistant snapshots are not part of this state.
\<close>

section \<open>Rows\<close>

record conversation_row =
  cr_id :: string
  cr_user_id :: string
  cr_name :: string
  cr_type :: string
  cr_extra :: string
  cr_model :: "string option"
  cr_status :: "string option"
  cr_source :: "string option"
  cr_channel_chat_id :: "string option"
  cr_project_id :: "string option"
  cr_pinned :: bool
  cr_pinned_at :: "int option"
  cr_created_at :: int
  cr_updated_at :: int

record chat_message_row =
  mr_id :: string
  mr_conversation_id :: string
  mr_msg_id :: "string option"
  mr_type :: string
  mr_content :: string
  mr_position :: "string option"
  mr_status :: "string option"
  mr_hidden :: bool
  mr_created_at :: int

record artifact_row =
  ar_id :: string
  ar_conversation_id :: string
  ar_cron_job_id :: "string option"
  ar_kind :: string
  ar_status :: string
  ar_payload :: string
  ar_created_at :: int
  ar_updated_at :: int

record conv_db =
  cv_rows :: "conversation_row list"
  cv_messages :: "chat_message_row list"
  cv_artifacts :: "artifact_row list"
  cv_users :: "string list"

record conv_update =
  vu_name :: "string option"
  vu_pinned :: "bool option"
  vu_pinned_at :: "int option option"
  vu_model :: "string option option"
  vu_extra :: "string option"
  vu_status :: "string option"
  vu_updated_at :: "int option"
  vu_project_id :: "string option option"

definition no_conv_update :: conv_update where
  "no_conv_update = \<lparr>vu_name = None, vu_pinned = None, vu_pinned_at = None, vu_model = None, vu_extra = None,
     vu_status = None, vu_updated_at = None, vu_project_id = None\<rparr>"

record message_update =
  mu_content :: "string option"
  mu_status :: "string option option"
  mu_hidden :: "bool option"

datatype sort_order = SortAsc | SortDesc

record conv_filters =
  cf_cursor :: "string option"
  cf_limit :: "32 word"
  cf_source :: "string option"
  cf_cron_job_id :: "string option"
  cf_pinned :: "bool option"
  cf_project_id :: "string option"

record 'a page =
  pg_items :: "'a list"
  pg_total :: nat
  pg_has_more :: bool

text \<open>
  The JSON library: whether a text is JSON, \<open>json_extract(doc, '$.key')\<close> when that is a string, the string field
  of a parsed document, and a document with one field set (None where indexing a document that is no object
  panics).
\<close>

record json_lib =
  js_valid :: "string \<Rightarrow> bool"
  js_field :: "string \<Rightarrow> string \<Rightarrow> string option"
  js_set :: "string \<Rightarrow> string \<Rightarrow> string \<Rightarrow> string option"
  js_object :: "(string \<times> string) list \<Rightarrow> string"

section \<open>Constraints\<close>

definition conv_status_ok :: "string option \<Rightarrow> bool" where
  "conv_status_ok s = (s \<in> {Some ''pending'', Some ''running'', Some ''finished''})"

definition message_row_ok :: "chat_message_row \<Rightarrow> bool" where
  "message_row_ok m =
     (mr_position m \<in> {None, Some ''left'', Some ''right'', Some ''center'', Some ''pop''} \<and>
      mr_status m \<in> {None, Some ''finish'', Some ''pending'', Some ''error'', Some ''work''})"

definition artifact_status_ok :: "string \<Rightarrow> bool" where
  "artifact_status_ok s = (s \<in> {''active'', ''pending'', ''dismissed'', ''saved''})"

definition artifact_row_ok :: "artifact_row \<Rightarrow> bool" where
  "artifact_row_ok a = (ar_kind a \<in> {''cron_trigger'', ''skill_suggest''} \<and> artifact_status_ok (ar_status a))"

section \<open>Conversations\<close>

definition conv_get :: "string \<Rightarrow> 'a conv_db_scheme \<Rightarrow> conversation_row option" where
  "conv_get i db = find (\<lambda>r. cr_id r = i) (cv_rows db)"

text \<open>The insert names every column but \<open>project_id\<close>, which stays NULL.\<close>

definition conv_create :: "json_lib \<Rightarrow> conversation_row \<Rightarrow> 'a conv_db_scheme \<Rightarrow> ('a conv_db_scheme, db_error, unit) outcome" where
  "conv_create J r db =
     (if cr_id r \<in> cr_id ` set (cv_rows db) \<or> \<not> conv_status_ok (cr_status r) \<or> \<not> js_valid J (cr_extra r) \<or>
         cr_user_id r \<notin> set (cv_users db)
      then (db, Inl Query)
      else (db\<lparr>cv_rows := cv_rows db @ [r\<lparr>cr_project_id := None\<rparr>]\<rparr>, Inr ()))"

definition set_field :: "'v option \<Rightarrow> ('v \<Rightarrow> 'r \<Rightarrow> 'r) \<Rightarrow> 'r \<Rightarrow> 'r" where
  "set_field v f r = (case v of None \<Rightarrow> r | Some x \<Rightarrow> f x r)"

lemma set_field_simps [simp]: "set_field None f r = r" "set_field (Some x) f r = f x r"
  by (simp_all add: set_field_def)

definition apply_conv_update :: "conv_update \<Rightarrow> conversation_row \<Rightarrow> conversation_row" where
  "apply_conv_update u =
     set_field (vu_project_id u) (\<lambda>x r. r\<lparr>cr_project_id := x\<rparr>) \<circ>
     set_field (vu_updated_at u) (\<lambda>x r. r\<lparr>cr_updated_at := x\<rparr>) \<circ>
     set_field (vu_status u) (\<lambda>x r. r\<lparr>cr_status := Some x\<rparr>) \<circ>
     set_field (vu_extra u) (\<lambda>x r. r\<lparr>cr_extra := x\<rparr>) \<circ>
     set_field (vu_model u) (\<lambda>x r. r\<lparr>cr_model := x\<rparr>) \<circ>
     set_field (vu_pinned_at u) (\<lambda>x r. r\<lparr>cr_pinned_at := x\<rparr>) \<circ>
     set_field (vu_pinned u) (\<lambda>x r. r\<lparr>cr_pinned := x\<rparr>) \<circ>
     set_field (vu_name u) (\<lambda>x r. r\<lparr>cr_name := x\<rparr>)"

definition conv_not_found :: "string \<Rightarrow> db_error" where
  "conv_not_found i = DbNotFound (''Conversation '' @ quoted i @ '' not found'')"

definition conv_update_row ::
  "json_lib \<Rightarrow> string \<Rightarrow> conv_update \<Rightarrow> 'a conv_db_scheme \<Rightarrow> ('a conv_db_scheme, db_error, unit) outcome" where
  "conv_update_row J i u db =
     (if u = no_conv_update then (db, Inr ())
      else if conv_get i db = None then (db, Inl (conv_not_found i))
      else if (\<exists>s\<in>set_option (vu_status u). \<not> conv_status_ok (Some s)) \<or>
              (\<exists>e\<in>set_option (vu_extra u). \<not> js_valid J e)
        then (db, Inl Query)
      else (db\<lparr>cv_rows := update_where (\<lambda>r. cr_id r = i) (apply_conv_update u) (cv_rows db)\<rparr>, Inr ()))"

definition conv_delete_row :: "string \<Rightarrow> 'a conv_db_scheme \<Rightarrow> ('a conv_db_scheme, db_error, unit) outcome" where
  "conv_delete_row i db =
     (if conv_get i db = None then (db, Inl (conv_not_found i))
      else (db\<lparr>cv_rows := filter (\<lambda>r. cr_id r \<noteq> i) (cv_rows db),
               cv_messages := filter (\<lambda>m. mr_conversation_id m \<noteq> i) (cv_messages db),
               cv_artifacts := filter (\<lambda>a. ar_conversation_id a \<noteq> i) (cv_artifacts db)\<rparr>, Inr ()))"

text \<open>\<open>effective_limit\<close>: zero means 20.\<close>

definition effective_limit :: "conv_filters \<Rightarrow> 32 word" where
  "effective_limit f = (if cf_limit f = 0 then 20 else cf_limit f)"

text \<open>\<open>append_filter_conditions\<close>: comparisons with a NULL column are not true.\<close>

definition filter_conditions :: "json_lib \<Rightarrow> conv_filters \<Rightarrow> conversation_row \<Rightarrow> bool" where
  "filter_conditions J f r =
     ((case cf_source f of None \<Rightarrow> True | Some s \<Rightarrow> cr_source r = Some s) \<and>
      (case cf_cron_job_id f of None \<Rightarrow> True
       | Some c \<Rightarrow> js_field J (cr_extra r) ''cronJobId'' = Some c \<or> js_field J (cr_extra r) ''cron_job_id'' = Some c) \<and>
      (case cf_pinned f of None \<Rightarrow> True | Some p \<Rightarrow> cr_pinned r = p) \<and>
      (case cf_project_id f of None \<Rightarrow> True | Some p \<Rightarrow> cr_project_id r = Some p))"

definition row_key :: "conversation_row \<Rightarrow> int \<times> string" where
  "row_key r = (cr_updated_at r, cr_id r)"

text \<open>The cursor condition; the subquery of an unknown cursor is NULL, which makes the condition not true.\<close>

definition after_cursor :: "string option \<Rightarrow> 'a conv_db_scheme \<Rightarrow> conversation_row \<Rightarrow> bool" where
  "after_cursor cursor db r =
     (case cursor of None \<Rightarrow> True
      | Some c \<Rightarrow> (case conv_get c db of None \<Rightarrow> False
                  | Some k \<Rightarrow> cr_updated_at r < cr_updated_at k \<or> (cr_updated_at r = cr_updated_at k \<and> cr_id r < c)))"

text \<open>\<open>ORDER BY updated_at DESC, id DESC\<close>\<close>

definition newest_first :: "conversation_row list \<Rightarrow> conversation_row list" where
  "newest_first rows = rev (sort_key row_key rows)"

text \<open>\<open>LIMIT size + 1 OFFSET offset\<close>, and the extra row is dropped.\<close>

definition take_page :: "32 word \<Rightarrow> nat \<Rightarrow> 'r list \<Rightarrow> nat \<Rightarrow> 'r page" where
  "take_page n offset rows count =
     (let got = take (unat (n + 1)) (drop offset rows);
          more = n < of_nat (length got)
      in \<lparr>pg_items = (if more then butlast got else got), pg_total = count, pg_has_more = more\<rparr>)"

definition conv_list_paginated :: "json_lib \<Rightarrow> string \<Rightarrow> conv_filters \<Rightarrow> 'a conv_db_scheme \<Rightarrow> conversation_row page" where
  "conv_list_paginated J user f db =
     (let matches = (\<lambda>r. cr_user_id r = user \<and> filter_conditions J f r)
      in take_page (effective_limit f) 0
           (newest_first (filter (\<lambda>r. matches r \<and> after_cursor (cf_cursor f) db r) (cv_rows db)))
           (length (filter matches (cv_rows db))))"

definition find_by_source_and_chat ::
  "string \<Rightarrow> string \<Rightarrow> string \<Rightarrow> string \<Rightarrow> 'a conv_db_scheme \<Rightarrow> conversation_row option" where
  "find_by_source_and_chat user source chat agent db =
     (case sort_key (\<lambda>r. - cr_updated_at r)
        (filter (\<lambda>r. cr_user_id r = user \<and> cr_source r = Some source \<and> cr_channel_chat_id r = Some chat \<and> cr_type r = agent)
           (cv_rows db)) of [] \<Rightarrow> None | r # _ \<Rightarrow> Some r)"

definition conv_list_by_cron_job :: "json_lib \<Rightarrow> string \<Rightarrow> string \<Rightarrow> 'a conv_db_scheme \<Rightarrow> conversation_row list" where
  "conv_list_by_cron_job J user job db =
     sort_key (\<lambda>r. - cr_updated_at r)
       (filter (\<lambda>r. cr_user_id r = user \<and>
          (js_field J (cr_extra r) ''cronJobId'' = Some job \<or> js_field J (cr_extra r) ''cron_job_id'' = Some job))
         (cv_rows db))"

definition conv_list_associated ::
  "json_lib \<Rightarrow> string \<Rightarrow> string \<Rightarrow> 'a conv_db_scheme \<Rightarrow> db_error + conversation_row list" where
  "conv_list_associated J user i db =
     (case find (\<lambda>r. cr_id r = i \<and> cr_user_id r = user) (cv_rows db) of
        None \<Rightarrow> Inl (conv_not_found i)
      | Some target \<Rightarrow>
          (case js_field J (cr_extra target) ''workspace'' of
             None \<Rightarrow> Inr []
           | Some ws \<Rightarrow>
               if ws = [] then Inr []
               else Inr (sort_key (\<lambda>r. - cr_updated_at r)
                 (filter (\<lambda>r. cr_user_id r = user \<and> cr_id r \<noteq> i \<and>
                    js_field J (cr_extra r) ''workspace'' = Some ws) (cv_rows db)))))"

section \<open>Messages\<close>

definition shown_type :: "string \<Rightarrow> bool" where
  "shown_type t = (t \<notin> {''cron_trigger'', ''skill_suggest''})"

definition message_key :: "chat_message_row \<Rightarrow> int \<times> string" where
  "message_key m = (mr_created_at m, mr_id m)"

definition sort_messages :: "sort_order \<Rightarrow> chat_message_row list \<Rightarrow> chat_message_row list" where
  "sort_messages ord ms = (case ord of SortAsc \<Rightarrow> sort_key message_key ms | SortDesc \<Rightarrow> rev (sort_key message_key ms))"

definition shown_messages :: "string \<Rightarrow> 'a conv_db_scheme \<Rightarrow> chat_message_row list" where
  "shown_messages c db = filter (\<lambda>m. mr_conversation_id m = c \<and> shown_type (mr_type m)) (cv_messages db)"

definition page_offset :: "32 word \<Rightarrow> 32 word \<Rightarrow> 32 word \<Rightarrow> 32 word \<times> 32 word" where
  "page_offset default_size page_no page_size =
     (let p = (if page_no = 0 then 1 else page_no);
          n = (if page_size = 0 then default_size else page_size)
      in ((p - 1) * n, n))"

definition get_messages :: "string \<Rightarrow> 32 word \<Rightarrow> 32 word \<Rightarrow> sort_order \<Rightarrow> 'a conv_db_scheme \<Rightarrow> chat_message_row page" where
  "get_messages c page_no page_size ord db =
     (let (offset, n) = page_offset 50 page_no page_size
      in take_page n (unat offset) (sort_messages ord (shown_messages c db)) (length (shown_messages c db)))"

definition get_message :: "string \<Rightarrow> string \<Rightarrow> 'a conv_db_scheme \<Rightarrow> chat_message_row option" where
  "get_message c i db = find (\<lambda>m. mr_conversation_id m = c \<and> mr_id m = i \<and> shown_type (mr_type m)) (cv_messages db)"

definition insert_message :: "chat_message_row \<Rightarrow> 'a conv_db_scheme \<Rightarrow> ('a conv_db_scheme, db_error, unit) outcome" where
  "insert_message m db =
     (if mr_id m \<in> mr_id ` set (cv_messages db) \<or> \<not> message_row_ok m \<or> conv_get (mr_conversation_id m) db = None
      then (db, Inl Query)
      else (db\<lparr>cv_messages := cv_messages db @ [m]\<rparr>, Inr ()))"

definition apply_message_update :: "message_update \<Rightarrow> chat_message_row \<Rightarrow> chat_message_row" where
  "apply_message_update u =
     set_field (mu_hidden u) (\<lambda>x m. m\<lparr>mr_hidden := x\<rparr>) \<circ>
     set_field (mu_status u) (\<lambda>x m. m\<lparr>mr_status := x\<rparr>) \<circ>
     set_field (mu_content u) (\<lambda>x m. m\<lparr>mr_content := x\<rparr>)"

definition update_message ::
  "string \<Rightarrow> message_update \<Rightarrow> 'a conv_db_scheme \<Rightarrow> ('a conv_db_scheme, db_error, unit) outcome" where
  "update_message i u db =
     (if mu_content u = None \<and> mu_status u = None \<and> mu_hidden u = None then (db, Inr ())
      else case find (\<lambda>m. mr_id m = i) (cv_messages db) of
        None \<Rightarrow> (db, Inl (DbNotFound (''Message '' @ quoted i @ '' not found'')))
      | Some m \<Rightarrow>
          if \<not> message_row_ok (apply_message_update u m) then (db, Inl Query)
          else (db\<lparr>cv_messages := update_where (\<lambda>m. mr_id m = i) (apply_message_update u) (cv_messages db)\<rparr>, Inr ()))"

definition delete_messages_by_conversation :: "string \<Rightarrow> 'a conv_db_scheme \<Rightarrow> 'a conv_db_scheme" where
  "delete_messages_by_conversation c db = db\<lparr>cv_messages := filter (\<lambda>m. mr_conversation_id m \<noteq> c) (cv_messages db)\<rparr>"

definition get_message_by_msg_id :: "string \<Rightarrow> string \<Rightarrow> string \<Rightarrow> 'a conv_db_scheme \<Rightarrow> chat_message_row option" where
  "get_message_by_msg_id c mid ty db =
     find (\<lambda>m. mr_conversation_id m = c \<and> mr_msg_id m = Some mid \<and> mr_type m = ty) (cv_messages db)"

definition list_stale_runtime_messages :: "'a conv_db_scheme \<Rightarrow> chat_message_row list" where
  "list_stale_runtime_messages db =
     sort_key mr_created_at
       (filter (\<lambda>m. conv_get (mr_conversation_id m) db \<noteq> None \<and> mr_position m = Some ''left'' \<and>
          mr_status m \<in> {Some ''work'', Some ''pending''} \<and> mr_type m \<in> {''text'', ''thinking''}) (cv_messages db))"

text \<open>SQLite's \<open>LIKE\<close>: a percent sign stands for any text, an underscore for one character; ASCII case is ignored.\<close>

fun like_match :: "string \<Rightarrow> string \<Rightarrow> bool" where
  "like_match [] s = (s = [])"
| "like_match (p # ps) [] = (p = CHR ''%'' \<and> like_match ps [])"
| "like_match (p # ps) (c # cs) =
     (if p = CHR ''%'' then like_match ps (c # cs) \<or> like_match (p # ps) cs
      else (p = CHR ''_'' \<or> to_lower_char p = to_lower_char c) \<and> like_match ps cs)"

definition search_hits :: "string \<Rightarrow> string \<Rightarrow> 'a conv_db_scheme \<Rightarrow> (chat_message_row \<times> conversation_row) list" where
  "search_hits user keyword db =
     List.map_filter (\<lambda>m. case conv_get (mr_conversation_id m) db of
         None \<Rightarrow> None
       | Some c \<Rightarrow> if cr_user_id c = user \<and> like_match (''%'' @ keyword @ ''%'') (mr_content m)
                   then Some (m, c) else None) (cv_messages db)"

definition search_messages ::
  "string \<Rightarrow> string \<Rightarrow> 32 word \<Rightarrow> 32 word \<Rightarrow> 'a conv_db_scheme \<Rightarrow> (chat_message_row \<times> conversation_row) page" where
  "search_messages user keyword page_no page_size db =
     (let (offset, n) = page_offset 20 page_no page_size;
          hits = search_hits user keyword db
      in take_page n (unat offset) (sort_key (\<lambda>h. - mr_created_at (fst h)) hits) (length hits))"

section \<open>Artifacts\<close>

definition artifact_key :: "artifact_row \<Rightarrow> int \<times> string" where
  "artifact_key a = (ar_created_at a, ar_id a)"

definition list_conv_artifacts :: "string \<Rightarrow> 'a conv_db_scheme \<Rightarrow> artifact_row list" where
  "list_conv_artifacts c db = sort_key artifact_key (filter (\<lambda>a. ar_conversation_id a = c) (cv_artifacts db))"

definition get_artifact :: "string \<Rightarrow> string \<Rightarrow> 'a conv_db_scheme \<Rightarrow> artifact_row option" where
  "get_artifact c i db = find (\<lambda>a. ar_conversation_id a = c \<and> ar_id a = i) (cv_artifacts db)"

definition upsert_artifact :: "artifact_row \<Rightarrow> 'a conv_db_scheme \<Rightarrow> ('a conv_db_scheme, db_error, artifact_row) outcome" where
  "upsert_artifact a db =
     (if \<not> artifact_row_ok a \<or> conv_get (ar_conversation_id a) db = None then (db, Inl Query)
      else let db' = db\<lparr>cv_artifacts :=
             (if ar_id a \<in> ar_id ` set (cv_artifacts db)
              then update_where (\<lambda>b. ar_id b = ar_id a) (\<lambda>b. a\<lparr>ar_created_at := ar_created_at b\<rparr>) (cv_artifacts db)
              else cv_artifacts db @ [a])\<rparr>
           in case get_artifact (ar_conversation_id a) (ar_id a) db' of
                None \<Rightarrow> (db', Inl (DbInit (''upsert artifact did not produce row for id '' @ quoted (ar_id a))))
              | Some b \<Rightarrow> (db', Inr b))"

definition update_artifact_status ::
  "string \<Rightarrow> string \<Rightarrow> string \<Rightarrow> int \<Rightarrow> 'a conv_db_scheme \<Rightarrow> ('a conv_db_scheme, db_error, artifact_row option) outcome" where
  "update_artifact_status c i status now db =
     (if get_artifact c i db = None then (db, Inr None)
      else if \<not> artifact_status_ok status then (db, Inl Query)
      else let db' = db\<lparr>cv_artifacts := update_where (\<lambda>a. ar_conversation_id a = c \<and> ar_id a = i)
                 (\<lambda>a. a\<lparr>ar_status := status, ar_updated_at := now\<rparr>) (cv_artifacts db)\<rparr>
           in (db', Inr (get_artifact c i db')))"

definition mark_skill_suggest_artifacts_saved :: "string \<Rightarrow> int \<Rightarrow> 'a conv_db_scheme \<Rightarrow> 'a conv_db_scheme \<times> artifact_row list" where
  "mark_skill_suggest_artifacts_saved job now db =
     (let mine = (\<lambda>a. ar_kind a = ''skill_suggest'' \<and> ar_cron_job_id a = Some job);
          rows = update_where (\<lambda>a. mine a \<and> ar_status a \<noteq> ''saved'')
            (\<lambda>a. a\<lparr>ar_status := ''saved'', ar_updated_at := now\<rparr>) (cv_artifacts db)
      in (db\<lparr>cv_artifacts := rows\<rparr>, sort_key artifact_key (filter mine rows)))"

definition delete_artifacts_by_conversation :: "string \<Rightarrow> 'a conv_db_scheme \<Rightarrow> 'a conv_db_scheme" where
  "delete_artifacts_by_conversation c db = db\<lparr>cv_artifacts := filter (\<lambda>a. ar_conversation_id a \<noteq> c) (cv_artifacts db)\<rparr>"

definition list_legacy_cron_trigger_messages :: "string \<Rightarrow> 'a conv_db_scheme \<Rightarrow> chat_message_row list" where
  "list_legacy_cron_trigger_messages c db =
     sort_key message_key (filter (\<lambda>m. mr_conversation_id m = c \<and> mr_type m = ''cron_trigger'') (cv_messages db))"

end
