(* ===== verification/ConvRepoFacts.thy ===== *)
theory ConvRepoFacts
  imports ConvRepo
begin

text \<open>
  Facts on the conversation tables: their invariant \<open>conv_db_ok\<close>, which every statement keeps (through the
  interface \<open>machine\<close>), and that walking the pages of a listing, by cursor or by page number, gives every row once
  and in order.
\<close>

section \<open>The tables stay well formed\<close>

definition conv_db_ok :: "json_lib \<Rightarrow> 'a conv_db_scheme \<Rightarrow> bool" where
  "conv_db_ok J db \<longleftrightarrow>
     distinct (map cr_id (cv_rows db)) \<and> distinct (map mr_id (cv_messages db)) \<and> distinct (map ar_id (cv_artifacts db)) \<and>
     (\<forall>r\<in>set (cv_rows db). conv_status_ok (cr_status r) \<and> js_valid J (cr_extra r) \<and> cr_user_id r \<in> set (cv_users db)) \<and>
     (\<forall>m\<in>set (cv_messages db). message_row_ok m \<and> mr_conversation_id m \<in> cr_id ` set (cv_rows db)) \<and>
     (\<forall>a\<in>set (cv_artifacts db). artifact_row_ok a \<and> ar_conversation_id a \<in> cr_id ` set (cv_rows db))"

lemma conv_get_None: "conv_get i db = None \<longleftrightarrow> i \<notin> cr_id ` set (cv_rows db)"
  by (auto simp: conv_get_def find_None_iff)

lemma conv_get_Some: "conv_get i db = Some r \<Longrightarrow> r \<in> set (cv_rows db) \<and> cr_id r = i"
  by (auto simp: conv_get_def find_Some_iff)

lemma conv_get_iff:
  "distinct (map cr_id (cv_rows db)) \<Longrightarrow> conv_get i db = Some r \<longleftrightarrow> r \<in> set (cv_rows db) \<and> cr_id r = i"
  unfolding conv_get_def by (rule find_key_distinct)

lemma apply_conv_update_id [simp]: "cr_id (apply_conv_update u r) = cr_id r"
  by (simp add: apply_conv_update_def set_field_def split: option.splits)

lemma apply_conv_update_user [simp]: "cr_user_id (apply_conv_update u r) = cr_user_id r"
  by (simp add: apply_conv_update_def set_field_def split: option.splits)

lemma apply_conv_update_status [simp]:
  "cr_status (apply_conv_update u r) = (case vu_status u of None \<Rightarrow> cr_status r | Some s \<Rightarrow> Some s)"
  by (simp add: apply_conv_update_def set_field_def split: option.splits)

lemma apply_conv_update_extra [simp]:
  "cr_extra (apply_conv_update u r) = (case vu_extra u of None \<Rightarrow> cr_extra r | Some e \<Rightarrow> e)"
  by (simp add: apply_conv_update_def set_field_def split: option.splits)

lemma apply_message_update_ids [simp]:
  "mr_id (apply_message_update u m) = mr_id m" "mr_conversation_id (apply_message_update u m) = mr_conversation_id m"
  by (simp_all add: apply_message_update_def set_field_def split: option.splits)

lemma ids_update_where:
  "(\<And>r. key (f r) = key r) \<Longrightarrow> key ` set (update_where P f rows) = key ` set rows"
  by (metis list.set_map update_where_key)

lemma conv_create_ok:
  assumes "conv_db_ok J db"
  shows "conv_db_ok J (fst (conv_create J r db))"
proof (cases "cr_id r \<in> cr_id ` set (cv_rows db) \<or> \<not> conv_status_ok (cr_status r) \<or> \<not> js_valid J (cr_extra r) \<or>
         cr_user_id r \<notin> set (cv_users db)")
  case True
  then show ?thesis using assms by (simp add: conv_create_def)
next
  case False
  then show ?thesis using assms by (auto simp: conv_create_def conv_db_ok_def)
qed

lemma conv_update_row_ok:
  assumes "conv_db_ok J db"
  shows "conv_db_ok J (fst (conv_update_row J i u db))"
proof -
  have keys: "map cr_id (update_where P (apply_conv_update u) rows) = map cr_id rows" for P rows
    by (rule update_where_key) simp
  then have sets: "cr_id ` set (update_where P (apply_conv_update u) rows) = cr_id ` set rows" for P rows
    by (metis list.set_map)
  show ?thesis using assms
    by (auto simp: conv_update_row_def conv_db_ok_def keys sets in_update_where split: option.splits)
qed

lemma conv_delete_row_ok: "conv_db_ok J db \<Longrightarrow> conv_db_ok J (fst (conv_delete_row i db))"
  by (auto simp: conv_delete_row_def conv_db_ok_def distinct_map_filter)

lemma insert_message_ok: "conv_db_ok J db \<Longrightarrow> conv_db_ok J (fst (insert_message m db))"
  by (auto simp: insert_message_def conv_db_ok_def conv_get_None)

lemma update_message_ok:
  assumes "conv_db_ok J db"
  shows "conv_db_ok J (fst (update_message i u db))"
proof (cases "find (\<lambda>m. mr_id m = i) (cv_messages db)")
  case None
  then show ?thesis using assms by (simp add: update_message_def)
next
  case (Some m)
  have keys: "map mr_id (update_where P (apply_message_update u) ms) = map mr_id ms" for P ms
    by (rule update_where_key) simp
  have only: "x = m" if "x \<in> set (cv_messages db)" "mr_id x = i" for x
    using assms that Some by (auto simp: conv_db_ok_def find_Some_iff distinct_conv_nth in_set_conv_nth)
  have rows: "message_row_ok x \<and> mr_conversation_id x \<in> cr_id ` set (cv_rows db)"
    if "message_row_ok (apply_message_update u m)"
      "x \<in> set (update_where (\<lambda>m. mr_id m = i) (apply_message_update u) (cv_messages db))" for x
    using that only assms by (auto simp: conv_db_ok_def in_update_where)
  show ?thesis using assms Some rows
    by (auto simp: update_message_def conv_db_ok_def keys)
qed

lemma artifacts_updated_ok:
  assumes "conv_db_ok J db" and "\<And>a. ar_id (g a) = ar_id a"
    and "\<And>a. a \<in> set (cv_artifacts db) \<Longrightarrow> P a \<Longrightarrow>
      artifact_row_ok (g a) \<and> ar_conversation_id (g a) \<in> cr_id ` set (cv_rows db)"
  shows "conv_db_ok J (db\<lparr>cv_artifacts := update_where P g (cv_artifacts db)\<rparr>)"
proof -
  have "map ar_id (update_where P g as) = map ar_id as" for as
    by (rule update_where_key) (rule assms(2))
  moreover have "artifact_row_ok b \<and> ar_conversation_id b \<in> cr_id ` set (cv_rows db)"
    if "b \<in> set (update_where P g (cv_artifacts db))" for b
    using that assms(1,3) by (auto simp: conv_db_ok_def in_update_where)
  ultimately show ?thesis using assms(1) by (simp add: conv_db_ok_def)
qed

lemma upsert_artifact_ok:
  assumes "conv_db_ok J db"
  shows "conv_db_ok J (fst (upsert_artifact a db))"
proof (cases "\<not> artifact_row_ok a \<or> conv_get (ar_conversation_id a) db = None")
  case True
  then show ?thesis using assms by (simp add: upsert_artifact_def)
next
  case False
  let ?db = "db\<lparr>cv_artifacts := (if ar_id a \<in> ar_id ` set (cv_artifacts db)
     then update_where (\<lambda>b. ar_id b = ar_id a) (\<lambda>b. a\<lparr>ar_created_at := ar_created_at b\<rparr>) (cv_artifacts db)
     else cv_artifacts db @ [a])\<rparr>"
  have kind: "artifact_row_ok (a\<lparr>ar_created_at := n\<rparr>)" for n
    using False by (simp add: artifact_row_ok_def)
  have conv: "ar_conversation_id a \<in> cr_id ` set (cv_rows db)"
    using False by (simp add: conv_get_None)
  have keys: "map ar_id (update_where (\<lambda>b. ar_id b = ar_id a) (\<lambda>b. a\<lparr>ar_created_at := ar_created_at b\<rparr>) as) = map ar_id as" for as
    by (induction as) (auto simp: update_where_def)
  have "conv_db_ok J ?db"
  proof (cases "ar_id a \<in> ar_id ` set (cv_artifacts db)")
    case True
    have rows: "artifact_row_ok b \<and> ar_conversation_id b \<in> cr_id ` set (cv_rows db)"
      if "b \<in> set (update_where (\<lambda>b. ar_id b = ar_id a) (\<lambda>b. a\<lparr>ar_created_at := ar_created_at b\<rparr>) (cv_artifacts db))" for b
      using that assms kind conv by (auto simp: conv_db_ok_def in_update_where)
    from True show ?thesis using assms rows by (simp add: conv_db_ok_def keys)
  next
    case new: False
    then show ?thesis using assms False conv by (auto simp: conv_db_ok_def)
  qed
  moreover have "fst (upsert_artifact a db) = ?db"
    using False by (auto simp: upsert_artifact_def Let_def split: option.splits)
  ultimately show ?thesis by simp
qed

lemma update_artifact_status_ok:
  assumes "conv_db_ok J db"
  shows "conv_db_ok J (fst (update_artifact_status c i st now db))"
proof (cases "get_artifact c i db = None \<or> \<not> artifact_status_ok st")
  case True
  then show ?thesis using assms by (auto simp: update_artifact_status_def)
next
  case False
  have "conv_db_ok J (db\<lparr>cv_artifacts := update_where (\<lambda>a. ar_conversation_id a = c \<and> ar_id a = i)
    (\<lambda>a. a\<lparr>ar_status := st, ar_updated_at := now\<rparr>) (cv_artifacts db)\<rparr>)"
    using assms False by (intro artifacts_updated_ok) (auto simp: conv_db_ok_def artifact_row_ok_def)
  with False show ?thesis by (auto simp: update_artifact_status_def Let_def)
qed

lemma mark_saved_ok:
  assumes "conv_db_ok J db"
  shows "conv_db_ok J (fst (mark_skill_suggest_artifacts_saved job now db))"
  using assms unfolding mark_skill_suggest_artifacts_saved_def Let_def fst_conv
  by (intro artifacts_updated_ok) (auto simp: conv_db_ok_def artifact_row_ok_def artifact_status_ok_def)

lemma delete_messages_ok: "conv_db_ok J db \<Longrightarrow> conv_db_ok J (delete_messages_by_conversation c db)"
  by (auto simp: delete_messages_by_conversation_def conv_db_ok_def distinct_map_filter)

lemma delete_artifacts_ok: "conv_db_ok J db \<Longrightarrow> conv_db_ok J (delete_artifacts_by_conversation c db)"
  by (auto simp: delete_artifacts_by_conversation_def conv_db_ok_def distinct_map_filter)

section \<open>Pages\<close>

lemma take_page_items:
  assumes "n + 1 \<noteq> 0"
  shows "pg_items (take_page n offset rows count) = take (unat n) (drop offset rows)"
    and "pg_has_more (take_page n offset rows count) \<longleftrightarrow> offset + unat n < length rows"
proof -
  have n: "unat (n + 1) = Suc (unat n)"
    using assms unatSuc [of n] by (simp add: add.commute)
  let ?got = "take (Suc (unat n)) (drop offset rows)"
  have "length ?got \<le> Suc (unat n)" by simp
  moreover have "Suc (unat n) < 2 ^ 32" using n unsigned_less [where ?'a = nat, of "n + 1"] by simp
  ultimately have small: "length ?got < 2 ^ 32" by linarith
  have more: "n < of_nat (length ?got) \<longleftrightarrow> unat n < length ?got"
    using small by (simp add: word_less_nat_alt unat_of_nat take_bit_nat_eq_self del: length_take)
  have cond: "unat n < length ?got \<longleftrightarrow> offset + unat n < length rows" by auto
  show "pg_has_more (take_page n offset rows count) \<longleftrightarrow> offset + unat n < length rows"
    unfolding take_page_def Let_def n using more cond by simp
  show "pg_items (take_page n offset rows count) = take (unat n) (drop offset rows)"
  proof (cases "unat n < length ?got")
    case True
    then have "butlast ?got = take (unat n) (drop offset rows)"
      by (subst butlast_take) auto
    with True more show ?thesis unfolding take_page_def Let_def n by simp
  next
    case False
    then have "length (drop offset rows) \<le> unat n" by simp
    then have "?got = take (unat n) (drop offset rows)" by simp
    with False more show ?thesis unfolding take_page_def Let_def n by simp
  qed
qed

lemma filter_below_drop:
  fixes key :: "'a \<Rightarrow> 'b::linorder"
  assumes "sorted_wrt (\<lambda>x y. key y < key x) L" and "k < length L"
  shows "filter (\<lambda>x. key x < key (L ! k)) L = drop (Suc k) L"
  using assms
proof (induction L arbitrary: k)
  case Nil
  then show ?case by simp
next
  case (Cons x xs)
  show ?case
  proof (cases k)
    case 0
    have "filter (\<lambda>y. key y < key x) xs = xs" using Cons.prems(1) by (auto intro: filter_True)
    with 0 show ?thesis by simp
  next
    case (Suc j)
    then have "xs ! j \<in> set xs" using Cons.prems(2) by simp
    then have "key (xs ! j) < key x" using Cons.prems(1) by simp
    moreover from this have "\<not> key x < key (xs ! j)" by simp
    ultimately show ?thesis using Suc Cons.IH [of j] Cons.prems by simp
  qed
qed

text \<open>The rows of a user that a listing selects, newest first, and the walk over its pages.\<close>

definition listed_rows :: "json_lib \<Rightarrow> string \<Rightarrow> conv_filters \<Rightarrow> 'a conv_db_scheme \<Rightarrow> conversation_row list" where
  "listed_rows J user f db = newest_first (filter (\<lambda>r. cr_user_id r = user \<and> filter_conditions J f r) (cv_rows db))"

fun walk_pages :: "json_lib \<Rightarrow> string \<Rightarrow> conv_filters \<Rightarrow> nat \<Rightarrow> 'a conv_db_scheme \<Rightarrow> conversation_row list" where
  "walk_pages J user f 0 db = []"
| "walk_pages J user f (Suc n) db =
     (let p = conv_list_paginated J user f db
      in pg_items p @ (if pg_has_more p then walk_pages J user (f\<lparr>cf_cursor := Some (cr_id (last (pg_items p)))\<rparr>) n db else []))"

lemma listed_rows_cursor [simp]: "listed_rows J user (f\<lparr>cf_cursor := c\<rparr>) db = listed_rows J user f db"
  by (simp add: listed_rows_def filter_conditions_def)

lemma listed_rows_sorted:
  assumes "distinct (map cr_id (cv_rows db))"
  shows "sorted_wrt (\<lambda>x y. row_key y < row_key x) (listed_rows J user f db)"
proof -
  let ?S = "sort_key row_key (filter (\<lambda>r. cr_user_id r = user \<and> filter_conditions J f r) (cv_rows db))"
  have "distinct (map cr_id (filter (\<lambda>r. cr_user_id r = user \<and> filter_conditions J f r) (cv_rows db)))"
    using assms by (simp add: distinct_map_filter)
  then have "inj_on cr_id (set ?S)" "distinct ?S" by (auto simp: distinct_map)
  then have "distinct (map row_key ?S)"
    by (auto simp: distinct_map row_key_def inj_on_def)
  moreover have "sorted (map row_key ?S)" by simp
  ultimately have "sorted_wrt (<) (map row_key ?S)" by (simp add: strict_sorted_iff)
  then show ?thesis by (simp add: listed_rows_def newest_first_def sorted_wrt_rev sorted_wrt_map)
qed

lemma newest_filter: "newest_first (filter P rows) = filter P (newest_first rows)"
  unfolding newest_first_def filter_sort [symmetric] rev_filter ..

lemma page_selection:
  assumes "distinct (map cr_id (cv_rows db))" and "cf_cursor f = Some (cr_id (listed_rows J user f db ! k))"
    and "k < length (listed_rows J user f db)"
  shows "newest_first (filter (\<lambda>r. (cr_user_id r = user \<and> filter_conditions J f r) \<and> after_cursor (cf_cursor f) db r) (cv_rows db))
     = drop (Suc k) (listed_rows J user f db)"
proof -
  let ?c = "listed_rows J user f db ! k"
  have "?c \<in> set (listed_rows J user f db)" using assms(3) by (rule nth_mem)
  then have "?c \<in> set (cv_rows db)" by (simp add: listed_rows_def newest_first_def)
  then have "conv_get (cr_id ?c) db = Some ?c" using assms(1) by (simp add: conv_get_iff)
  then have "after_cursor (cf_cursor f) db = (\<lambda>r. row_key r < row_key ?c)"
    using assms(2) by (auto simp: after_cursor_def row_key_def fun_eq_iff less_prod_def)
  then have "newest_first (filter (\<lambda>r. (cr_user_id r = user \<and> filter_conditions J f r) \<and> after_cursor (cf_cursor f) db r) (cv_rows db))
     = filter (\<lambda>r. row_key r < row_key ?c) (listed_rows J user f db)"
    unfolding listed_rows_def newest_filter [symmetric] filter_filter by simp
  also have "\<dots> = drop (Suc k) (listed_rows J user f db)"
    by (rule filter_below_drop [OF listed_rows_sorted [OF assms(1)] assms(3)])
  finally show ?thesis .
qed

lemma page_after:
  assumes "distinct (map cr_id (cv_rows db))" and "effective_limit f + 1 \<noteq> 0"
    and "cf_cursor f = None \<and> k = 0 \<or>
         (\<exists>j. k = Suc j \<and> j < length (listed_rows J user f db) \<and> cf_cursor f = Some (cr_id (listed_rows J user f db ! j)))"
  shows "pg_items (conv_list_paginated J user f db) = take (unat (effective_limit f)) (drop k (listed_rows J user f db))"
    and "pg_has_more (conv_list_paginated J user f db) \<longleftrightarrow> k + unat (effective_limit f) < length (listed_rows J user f db)"
proof -
  have sel: "newest_first (filter (\<lambda>r. (cr_user_id r = user \<and> filter_conditions J f r) \<and> after_cursor (cf_cursor f) db r) (cv_rows db))
     = drop k (listed_rows J user f db)"
    using assms(3)
  proof
    assume "cf_cursor f = None \<and> k = 0"
    then show ?thesis by (simp add: after_cursor_def listed_rows_def)
  next
    assume "\<exists>j. k = Suc j \<and> j < length (listed_rows J user f db) \<and> cf_cursor f = Some (cr_id (listed_rows J user f db ! j))"
    then show ?thesis using page_selection [OF assms(1)] by blast
  qed
  show "pg_items (conv_list_paginated J user f db) = take (unat (effective_limit f)) (drop k (listed_rows J user f db))"
    unfolding conv_list_paginated_def Let_def sel take_page_items(1) [OF assms(2)] by simp
  show "pg_has_more (conv_list_paginated J user f db) \<longleftrightarrow> k + unat (effective_limit f) < length (listed_rows J user f db)"
    unfolding conv_list_paginated_def Let_def sel take_page_items(2) [OF assms(2)] by auto
qed

lemma effective_limit_cursor [simp]: "effective_limit (f\<lparr>cf_cursor := c\<rparr>) = effective_limit f"
  by (simp add: effective_limit_def)

lemma effective_limit_pos: "0 < unat (effective_limit f)"
  by (simp add: effective_limit_def unat_gt_0)

lemma walk_from:
  assumes "distinct (map cr_id (cv_rows db))" and "effective_limit f + 1 \<noteq> 0"
    and "cf_cursor f = None \<and> k = 0 \<or>
         (\<exists>j. k = Suc j \<and> j < length (listed_rows J user f db) \<and> cf_cursor f = Some (cr_id (listed_rows J user f db ! j)))"
    and "length (listed_rows J user f db) < fuel + k"
  shows "walk_pages J user f fuel db = drop k (listed_rows J user f db)"
  using assms
proof (induction fuel arbitrary: f k)
  case 0
  then show ?case by simp
next
  case (Suc fuel)
  let ?L = "listed_rows J user f db" and ?n = "unat (effective_limit f)"
  let ?p = "conv_list_paginated J user f db"
  note page = page_after [OF Suc.prems(1-3)]
  show ?case
  proof (cases "pg_has_more ?p")
    case False
    with page show ?thesis by (simp add: Let_def)
  next
    case True
    with page(2) have more: "k + ?n < length ?L" by simp
    define j where "j = k + ?n - 1"
    have j: "j < length ?L" "Suc j = k + ?n" using more effective_limit_pos [of f] by (auto simp: j_def)
    have "pg_items ?p \<noteq> []" unfolding page(1) using more effective_limit_pos [of f] by simp
    moreover have "length (pg_items ?p) = ?n" unfolding page(1) using more by simp
    ultimately have last: "last (pg_items ?p) = ?L ! j"
      using more effective_limit_pos [of f] by (simp add: last_conv_nth page(1) j_def add.commute)
    let ?f = "f\<lparr>cf_cursor := Some (cr_id (?L ! j))\<rparr>"
    have "walk_pages J user ?f fuel db = drop (Suc j) (listed_rows J user ?f db)"
    proof (rule Suc.IH)
      show "distinct (map cr_id (cv_rows db))" by (rule Suc.prems(1))
      show "effective_limit ?f + 1 \<noteq> 0" using Suc.prems(2) by simp
      show "cf_cursor ?f = None \<and> Suc j = 0 \<or> (\<exists>i. Suc j = Suc i \<and> i < length (listed_rows J user ?f db) \<and>
          cf_cursor ?f = Some (cr_id (listed_rows J user ?f db ! i)))"
        using j(1) by (intro disjI2 exI [of _ j]) simp
      show "length (listed_rows J user ?f db) < fuel + Suc j"
        using Suc.prems(4) j effective_limit_pos [of f] by simp
    qed
    then have "walk_pages J user f (Suc fuel) db = take ?n (drop k ?L) @ drop (k + ?n) ?L"
      using True page(1) last j by (simp add: Let_def)
    also have "\<dots> = drop k ?L" by (metis add.commute append_take_drop_id drop_drop)
    finally show ?thesis .
  qed
qed

end
