(* ===== verification/ConvTurn.thy ===== *)
theory ConvTurn
  imports ConvRepo Complex_Main
begin

text \<open>
  Turns of a conversation as interleaved processes: sending a message and running an agent turn
  (\<open>aionui-conversation/src/service.rs\<close>, \<open>turn_orchestrator.rs\<close>), the failure tip (\<open>message_persistence.rs\<close>), the
  completion (\<open>runtime_completion.rs\<close>), the recovery after an agent error (\<open>acp_error_recovery.rs\<close>), deleting and
  cancelling. Each process is a phase, the code that remains to run; a step runs it to the next point where another
  process can run: it takes one lock of the runtime state, checks the write policy, executes one statement with
  the read that prepares it, or receives the answer of an awaited call. A step whose input is not the answer
  the phase waits for changes nothing.

  What the service awaits from others is an input: the options built from the row, the amounts the usage ledger
  reports (the finite \<open>f64\<close> values are rational numbers), the agent, the outcome of the stream relay. The ACP
  session rows, the delete hooks, the skill links and the texts of the tips are not part of the state.
\<close>

section \<open>State\<close>

record send_request =
  sr_content :: string
  sr_hidden :: bool

record build_options =
  bo_workspace :: string
  bo_profile :: "string option"

record agent_inst =
  ag_type :: agent_type
  ag_workspace :: string

datatype failure_tip =
  TipUserLimit | TipProfileLimit string | TipService string | TipAgent string

datatype turn_result = TurnRefused conv_error | TurnStoreFailed conv_error | TurnUnsent | TurnEnded bool | TurnPanicked

datatype turn_phase =
    PhClaim
  | PhUserMessage
  | PhUserInsert chat_message_row
  | PhOptions
  | PhUserLimit build_options
  | PhProfileLimit build_options
  | PhBuild build_options
  | PhWorkspace build_options agent_inst
  | PhWorkspaceWrite agent_inst
  | PhSend agent_inst string nat bool
  | PhRelay agent_inst nat bool
  | PhSessionWrite string turn_phase
  | PhDecide agent_inst relay_outcome lifecycle_state nat bool
  | PhEvict "agent_error_code option" bool
  | PhSeedWrite bool
  | PhTipInsert failure_tip
  | PhRelease turn_result
  | PhComplete bool turn_result
  | PhPublish runtime_summary turn_result
  | PhCheck write_kind turn_phase turn_phase
  | PhDone turn_result

record turn_proc =
  tp_user :: string
  tp_conversation :: string
  tp_request :: send_request
  tp_ordinary :: bool
  tp_turn :: string
  tp_claim :: "turn_claim option"
  tp_sends :: "string list"
  tp_phase :: turn_phase

datatype delete_phase = DlMark | DlHooks bool | DlRow bool | DlUndo conv_error | DlClear | DlAnnounce | DlDone "conv_error option"

record delete_proc =
  dp_conversation :: string
  dp_source :: "string option"
  dp_phase :: delete_phase

datatype cancel_phase =
  CnLookup | CnMark | CnAwait | CnClear conv_error | CnDrain | CnDone "conv_error option"

record cancel_proc =
  cp_conversation :: string
  cp_turn :: string
  cp_phase :: cancel_phase

datatype conv_event =
    EvUserCreated string string string bool int
  | EvStreamTip string string string
  | EvTurnCompleted string string runtime_summary
  | EvListChanged string string "string option"

record conv_world = conv_db +
  cw_runtime :: conv_runtime
  cw_turns :: "nat \<Rightarrow> turn_proc option"
  cw_deletes :: "nat \<Rightarrow> delete_proc option"
  cw_cancels :: "nat \<Rightarrow> cancel_proc option"
  cw_procs :: nat
  cw_events :: "conv_event list"
  cw_kills :: "string list"
  cw_draws :: nat

record conv_env = env +
  cn_json :: json_lib
  cn_tip_json :: "failure_tip \<Rightarrow> string"
  cn_remove_model :: "string \<Rightarrow> string option"

definition init_conv_world :: "string list \<Rightarrow> conv_world" where
  "init_conv_world us = \<lparr>cv_rows = [], cv_messages = [], cv_artifacts = [], cv_users = us, cw_runtime = init_runtime,
     cw_turns = (\<lambda>_. None), cw_deletes = (\<lambda>_. None), cw_cancels = (\<lambda>_. None), cw_procs = 0,
     cw_events = [], cw_kills = [], cw_draws = 0\<rparr>"

definition set_turn :: "nat \<Rightarrow> turn_proc \<Rightarrow> conv_world \<Rightarrow> conv_world" where
  "set_turn i p w = w\<lparr>cw_turns := (cw_turns w)(i := Some p)\<rparr>"

definition go :: "nat \<Rightarrow> turn_proc \<Rightarrow> turn_phase \<Rightarrow> conv_world \<Rightarrow> conv_world" where
  "go i p ph w = set_turn i (p\<lparr>tp_phase := ph\<rparr>) w"

definition conv_emit :: "conv_event \<Rightarrow> conv_world \<Rightarrow> conv_world" where
  "conv_emit e w = w\<lparr>cw_events := cw_events w @ [e]\<rparr>"

definition draw :: "conv_world \<Rightarrow> conv_world" where
  "draw w = w\<lparr>cw_draws := Suc (cw_draws w)\<rparr>"

section \<open>Starting a turn\<close>

text \<open>The row of a conversation, if it belongs to the user.\<close>

definition owned_conversation :: "string \<Rightarrow> string \<Rightarrow> conv_world \<Rightarrow> conv_error + conversation_row" where
  "owned_conversation user c w =
     (case conv_get c w of
        None \<Rightarrow> Inl (ConvNotFound c)
      | Some r \<Rightarrow> if cr_user_id r = user then Inr r else Inl (ConvNotFound c))"

definition archived_message :: string where
  "archived_message = ''This historical conversation can no longer be continued. Please start a new conversation.''"

definition reject_deprecated_runtime_row :: "conversation_row \<Rightarrow> conv_error option" where
  "reject_deprecated_runtime_row r =
     (case agent_type_parse (cr_type r) of
        None \<Rightarrow> None
      | Some a \<Rightarrow> if is_deprecated_runtime a then Some (ConvArchived (cr_id r) archived_message) else None)"

text \<open>\<open>TeamSessionBinding::team_id_marker_from_extra_str\<close>\<close>

definition team_id_from_extra :: "json_lib \<Rightarrow> string \<Rightarrow> string option" where
  "team_id_from_extra J e =
     (case js_field J e ''teamId'' of None \<Rightarrow> None | Some t \<Rightarrow> if trim t = [] then None else Some t)"

definition new_turn :: "string \<Rightarrow> string \<Rightarrow> send_request \<Rightarrow> bool \<Rightarrow> conv_world \<Rightarrow> conv_world" where
  "new_turn user c req ordinary w =
     (set_turn (cw_procs w) \<lparr>tp_user = user, tp_conversation = c, tp_request = req, tp_ordinary = ordinary,
        tp_turn = [], tp_claim = None, tp_sends = [], tp_phase = PhClaim\<rparr> w)\<lparr>cw_procs := Suc (cw_procs w)\<rparr>"

definition send_message_start ::
  "'a conv_env_scheme \<Rightarrow> string \<Rightarrow> string \<Rightarrow> send_request \<Rightarrow> conv_world \<Rightarrow> (conv_world, conv_error, unit) outcome" where
  "send_message_start E user c req w =
     (if trim (sr_content req) = [] then (w, Inl (ConvBadRequest ''Message content must not be empty''))
      else case owned_conversation user c w of
        Inl e \<Rightarrow> (w, Inl e)
      | Inr r \<Rightarrow>
          if team_id_from_extra (cn_json E) (cr_extra r) \<noteq> None
          then (w, Inl (ConvForbidden ''Team-owned conversations must be sent through Team API''))
          else case reject_deprecated_runtime_row r of
            Some e \<Rightarrow> (w, Inl e)
          | None \<Rightarrow> (new_turn user c req True w, Inr ()))"

definition run_agent_turn_start ::
  "string \<Rightarrow> string \<Rightarrow> send_request \<Rightarrow> conv_world \<Rightarrow> (conv_world, conv_error, unit) outcome" where
  "run_agent_turn_start user c req w =
     (if trim (sr_content req) = [] then (w, Inl (ConvBadRequest ''Agent turn content must not be empty''))
      else case owned_conversation user c w of
        Inl e \<Rightarrow> (w, Inl e)
      | Inr r \<Rightarrow>
          (case reject_deprecated_runtime_row r of
             Some e \<Rightarrow> (w, Inl e)
           | None \<Rightarrow> (new_turn user c req False w, Inr ())))"

definition claim_step :: "'a conv_env_scheme \<Rightarrow> nat \<Rightarrow> turn_proc \<Rightarrow> conv_world \<Rightarrow> conv_world" where
  "claim_step E i p w =
     (let t = mint_id E (cw_draws w); w1 = draw w
      in case try_claim_turn (tp_conversation p) t (cw_runtime w1) of
           (rt, Inl e) \<Rightarrow> go i p (PhDone (TurnRefused e)) w1
         | (rt, Inr k) \<Rightarrow>
             set_turn i (p\<lparr>tp_turn := t, tp_claim := Some k,
               tp_phase := (if tp_ordinary p then PhUserMessage else PhOptions)\<rparr>) (w1\<lparr>cw_runtime := rt\<rparr>))"

section \<open>Releasing the claim and completing the turn\<close>

definition release_claim :: "turn_proc \<Rightarrow> conv_runtime \<Rightarrow> conv_runtime \<times> turn_proc \<times> bool" where
  "release_claim p rt =
     (case tp_claim p of
        None \<Rightarrow> (rt, p, False)
      | Some k \<Rightarrow> let (rt', k', was_deleting) = claim_release_for_turn k (tp_turn p) rt
                  in (rt', p\<lparr>tp_claim := Some k'\<rparr>, was_deleting))"

definition release_step :: "nat \<Rightarrow> turn_proc \<Rightarrow> turn_result \<Rightarrow> conv_world \<Rightarrow> conv_world" where
  "release_step i p res w =
     (let (rt, p', was_deleting) = release_claim p (cw_runtime w)
      in go i p' (PhComplete was_deleting res) (w\<lparr>cw_runtime := rt\<rparr>))"

text \<open>An early return or a panic drops the claim, without a completion.\<close>

definition drop_step :: "nat \<Rightarrow> turn_proc \<Rightarrow> turn_result \<Rightarrow> conv_world \<Rightarrow> conv_world" where
  "drop_step i p res w =
     (let (rt, p', _) = release_claim p (cw_runtime w)
      in go i p' (PhDone res) (w\<lparr>cw_runtime := rt\<rparr>))"

definition publish_step :: "'a conv_env_scheme \<Rightarrow> nat \<Rightarrow> turn_proc \<Rightarrow> runtime_summary \<Rightarrow> turn_result \<Rightarrow> conv_world \<Rightarrow> conv_world" where
  "publish_step E i p s res w =
     (if conv_get (tp_conversation p) w = None then go i p (PhDone res) w
      else case conv_update_row (cn_json E) (tp_conversation p)
             (no_conv_update\<lparr>vu_status := Some ''finished'', vu_updated_at := Some (clock E (cw_draws w))\<rparr>) (draw w) of
             (w1, Inl e) \<Rightarrow> go i p (PhDone res) w1
           | (w1, Inr _) \<Rightarrow> go i p (PhDone res) (conv_emit (EvTurnCompleted (tp_conversation p) (tp_turn p) s) w1))"

section \<open>Writes of a turn\<close>

definition user_message_row :: "'a conv_env_scheme \<Rightarrow> turn_proc \<Rightarrow> conv_world \<Rightarrow> chat_message_row" where
  "user_message_row E p w =
     \<lparr>mr_id = mint_id E (cw_draws w), mr_conversation_id = tp_conversation p, mr_msg_id = Some (mint_id E (cw_draws w)),
      mr_type = ''text'', mr_content = js_object (cn_json E) [(''content'', sr_content (tp_request p))],
      mr_position = Some ''right'', mr_status = Some ''finish'', mr_hidden = sr_hidden (tp_request p),
      mr_created_at = clock E (cw_draws w)\<rparr>"

definition user_insert_step :: "nat \<Rightarrow> turn_proc \<Rightarrow> chat_message_row \<Rightarrow> conv_world \<Rightarrow> conv_world" where
  "user_insert_step i p m w =
     (case insert_message m w of
        (w1, Inl e) \<Rightarrow> drop_step i p (TurnStoreFailed (conv_of_db e)) w1
      | (w1, Inr _) \<Rightarrow> go i p PhOptions
          (conv_emit (EvUserCreated (tp_conversation p) (mr_id m) (sr_content (tp_request p)) (mr_hidden m) (mr_created_at m)) w1))"

definition fail_with :: "failure_tip \<Rightarrow> turn_phase" where
  "fail_with tip = PhCheck WkSendFailureTip (PhTipInsert tip) (PhRelease (TurnEnded False))"

definition tip_row :: "'a conv_env_scheme \<Rightarrow> turn_proc \<Rightarrow> failure_tip \<Rightarrow> conv_world \<Rightarrow> chat_message_row" where
  "tip_row E p tip w =
     \<lparr>mr_id = mint_id E (cw_draws w), mr_conversation_id = tp_conversation p, mr_msg_id = None, mr_type = ''tips'',
      mr_content = cn_tip_json E tip, mr_position = Some ''center'', mr_status = Some ''error'', mr_hidden = False,
      mr_created_at = clock E (cw_draws w)\<rparr>"

definition tip_step :: "'a conv_env_scheme \<Rightarrow> nat \<Rightarrow> turn_proc \<Rightarrow> failure_tip \<Rightarrow> conv_world \<Rightarrow> conv_world" where
  "tip_step E i p tip w =
     (let m = tip_row E p tip w
      in case insert_message m (draw w) of
           (w1, Inl e) \<Rightarrow> go i p (PhRelease (TurnEnded False)) w1
         | (w1, Inr _) \<Rightarrow> go i p (PhRelease (TurnEnded False))
             (conv_emit (EvStreamTip (tp_conversation p) (mr_id m) (tp_turn p)) w1))"

text \<open>\<open>maybe_persist_workspace\<close>: the check of the policy comes before, the write is one step.\<close>

definition send_phase :: "agent_inst \<Rightarrow> turn_proc \<Rightarrow> turn_phase" where
  "send_phase ag p = PhSend ag (sr_content (tp_request p)) 0 False"

definition workspace_phase :: "build_options \<Rightarrow> agent_inst \<Rightarrow> turn_proc \<Rightarrow> turn_phase" where
  "workspace_phase opts ag p =
     (if ag_workspace ag = [] \<or> ag_workspace ag = bo_workspace opts then send_phase ag p
      else PhCheck WkResolvedWorkspace (PhWorkspaceWrite ag) (send_phase ag p))"

definition workspace_step :: "'a conv_env_scheme \<Rightarrow> nat \<Rightarrow> turn_proc \<Rightarrow> agent_inst \<Rightarrow> conv_world \<Rightarrow> conv_world" where
  "workspace_step E i p ag w =
     (case conv_get (tp_conversation p) w of
        None \<Rightarrow> go i p (fail_with (TipService (conv_error_code (ConvInternal ''Conversation vanished during workspace sync'')))) w
      | Some r \<Rightarrow>
          (case js_set (cn_json E) (cr_extra r) ''workspace'' (ag_workspace ag) of
             None \<Rightarrow> drop_step i p TurnPanicked w
           | Some extra \<Rightarrow>
               (case conv_update_row (cn_json E) (tp_conversation p)
                  (no_conv_update\<lparr>vu_extra := Some extra, vu_updated_at := Some (clock E (cw_draws w))\<rparr>) (draw w) of
                  (w1, Inl e) \<Rightarrow> go i p (fail_with (TipService (conv_error_code (conv_of_db e)))) w1
                | (w1, Inr _) \<Rightarrow> go i p (send_phase ag p) w1)))"

text \<open>\<open>persist_session_key\<close>: every failure but a panic is logged and passed over.\<close>

definition session_key_step :: "'a conv_env_scheme \<Rightarrow> nat \<Rightarrow> turn_proc \<Rightarrow> string \<Rightarrow> turn_phase \<Rightarrow> conv_world \<Rightarrow> conv_world" where
  "session_key_step E i p key rest w =
     (case conv_get (tp_conversation p) w of
        None \<Rightarrow> go i p rest w
      | Some r \<Rightarrow>
          if js_field (cn_json E) (cr_extra r) ''sessionKey'' = Some key then go i p rest w
          else case js_set (cn_json E) (cr_extra r) ''sessionKey'' key of
            None \<Rightarrow> drop_step i p TurnPanicked w
          | Some extra \<Rightarrow> go i p rest (fst (conv_update_row (cn_json E) (tp_conversation p)
              (no_conv_update\<lparr>vu_extra := Some extra, vu_updated_at := Some (clock E (cw_draws w))\<rparr>) (draw w))))"

text \<open>
  \<open>evict_acp_task_after_terminal_error\<close>: the task is killed; after a model the provider does not know, the
  model seed in \<open>extra\<close> is removed.
\<close>

definition evict_step :: "nat \<Rightarrow> turn_proc \<Rightarrow> agent_error_code option \<Rightarrow> bool \<Rightarrow> conv_world \<Rightarrow> conv_world" where
  "evict_step i p code failed w =
     (let rel = PhRelease (TurnEnded (\<not> failed))
      in go i p (if code = Some ProviderModelNotFound then PhCheck WkAcpRecoveryCleanup (PhSeedWrite failed) rel else rel)
           (w\<lparr>cw_kills := cw_kills w @ [tp_conversation p]\<rparr>))"

definition seed_step :: "'a conv_env_scheme \<Rightarrow> nat \<Rightarrow> turn_proc \<Rightarrow> bool \<Rightarrow> conv_world \<Rightarrow> conv_world" where
  "seed_step E i p failed w =
     (let rel = PhRelease (TurnEnded (\<not> failed))
      in case conv_get (tp_conversation p) w of
           None \<Rightarrow> go i p rel w
         | Some r \<Rightarrow>
             (case cn_remove_model E (cr_extra r) of
                None \<Rightarrow> go i p rel w
              | Some extra \<Rightarrow>
                  (case conv_update_row (cn_json E) (tp_conversation p)
                     (no_conv_update\<lparr>vu_extra := Some extra, vu_updated_at := Some (clock E (cw_draws w))\<rparr>) (draw w) of
                     (w1, Inl e) \<Rightarrow> go i p rel w1
                   | (w1, Inr _) \<Rightarrow> go i p rel (conv_emit (EvListChanged (tp_conversation p) ''updated'' (cr_source r)) w1))))"

section \<open>The turn\<close>

definition max_cron_continuations :: nat where
  "max_cron_continuations = 4"

definition user_limit_exceeded :: "rat option \<Rightarrow> rat option \<Rightarrow> bool" where
  "user_limit_exceeded hard spent =
     (case hard of None \<Rightarrow> False | Some h \<Rightarrow> h \<le> (case spent of None \<Rightarrow> 0 | Some s \<Rightarrow> s))"

text \<open>\<open>check_profile_cap\<close>: no profile, no readable ceiling or an unknown amount is no limit.\<close>

definition profile_limit_exceeded :: "string option \<Rightarrow> rat option \<Rightarrow> rat option \<Rightarrow> bool" where
  "profile_limit_exceeded profile hard spent =
     (profile \<noteq> None \<and> (case (hard, spent) of (Some h, Some s) \<Rightarrow> h \<le> s | _ \<Rightarrow> False))"

datatype turn_input =
    InGo
  | InOptions "conv_error + build_options"
  | InAmounts "rat option" "rat option"
  | InAgent "string + agent_inst"
  | InRelay relay_outcome "string option"
  | InTask "conv_status option" bool nat

definition decide_phase :: "agent_inst \<Rightarrow> relay_outcome \<Rightarrow> lifecycle_state \<Rightarrow> nat \<Rightarrow> bool \<Rightarrow> turn_phase" where
  "decide_phase ag out lifecycle n failed =
     (case health_decide (ag_type ag) out lifecycle of
        EvictAcpTask code _ _ \<Rightarrow> PhEvict code failed
      | KeepAgent \<Rightarrow>
          (case continuation_decide max_cron_continuations n out lifecycle of
             ContinueWith content n' \<Rightarrow> PhSend ag content n' failed
           | StopTurn _ \<Rightarrow> PhRelease (TurnEnded (\<not> failed))))"

text \<open>The answer a phase waits for; any other input leaves the world as it is.\<close>

definition on_go :: "turn_input \<Rightarrow> conv_world \<Rightarrow> conv_world \<Rightarrow> conv_world" where
  "on_go inp w' w = (case inp of InGo \<Rightarrow> w' | _ \<Rightarrow> w)"

definition options_step :: "nat \<Rightarrow> turn_proc \<Rightarrow> turn_input \<Rightarrow> conv_world \<Rightarrow> conv_world" where
  "options_step i p inp w =
     (case inp of
        InOptions (Inl e) \<Rightarrow> go i p (fail_with (TipService (conv_error_code e))) w
      | InOptions (Inr opts) \<Rightarrow> go i p (PhUserLimit opts) w
      | _ \<Rightarrow> w)"

definition user_limit_step :: "nat \<Rightarrow> turn_proc \<Rightarrow> build_options \<Rightarrow> turn_input \<Rightarrow> conv_world \<Rightarrow> conv_world" where
  "user_limit_step i p opts inp w =
     (case inp of
        InAmounts hard spent \<Rightarrow>
          go i p (if user_limit_exceeded hard spent then fail_with TipUserLimit else PhProfileLimit opts) w
      | _ \<Rightarrow> w)"

definition profile_limit_step :: "nat \<Rightarrow> turn_proc \<Rightarrow> build_options \<Rightarrow> turn_input \<Rightarrow> conv_world \<Rightarrow> conv_world" where
  "profile_limit_step i p opts inp w =
     (case inp of
        InAmounts hard spent \<Rightarrow>
          go i p (if profile_limit_exceeded (bo_profile opts) hard spent
                  then fail_with (TipProfileLimit (case bo_profile opts of None \<Rightarrow> [] | Some n \<Rightarrow> n))
                  else PhBuild opts) w
      | _ \<Rightarrow> w)"

definition build_step :: "nat \<Rightarrow> turn_proc \<Rightarrow> build_options \<Rightarrow> turn_input \<Rightarrow> conv_world \<Rightarrow> conv_world" where
  "build_step i p opts inp w =
     (case inp of
        InAgent (Inl code) \<Rightarrow> go i p (fail_with (TipAgent code)) w
      | InAgent (Inr ag) \<Rightarrow> go i p (PhWorkspace opts ag) w
      | _ \<Rightarrow> w)"

definition relay_step :: "nat \<Rightarrow> turn_proc \<Rightarrow> agent_inst \<Rightarrow> nat \<Rightarrow> bool \<Rightarrow> turn_input \<Rightarrow> conv_world \<Rightarrow> conv_world" where
  "relay_step i p ag n failed inp w =
     (case inp of
        InRelay out key \<Rightarrow>
          (let rest = PhDecide ag out (lifecycle_for (tp_conversation p) (cw_runtime w)) n
                        (failed \<or> terminal_is_error (ro_terminal out))
           in go i p (case key of None \<Rightarrow> rest | Some k \<Rightarrow> PhCheck WkSessionKey (PhSessionWrite k rest) rest) w)
      | _ \<Rightarrow> w)"

definition complete_step :: "nat \<Rightarrow> turn_proc \<Rightarrow> bool \<Rightarrow> turn_result \<Rightarrow> turn_input \<Rightarrow> conv_world \<Rightarrow> conv_world" where
  "complete_step i p was_deleting res inp w =
     (case inp of
        InTask status has_task pending \<Rightarrow>
          go i p (if was_deleting then PhDone res
                  else PhCheck WkConversationFinished
                    (PhPublish (summary_from_parts (tp_conversation p) status has_task pending (cw_runtime w)) res)
                    (PhDone res)) w
      | _ \<Rightarrow> w)"

definition run_phase :: "'a conv_env_scheme \<Rightarrow> nat \<Rightarrow> turn_proc \<Rightarrow> turn_input \<Rightarrow> conv_world \<Rightarrow> conv_world" where
  "run_phase E i p inp w =
     (case tp_phase p of
        PhClaim \<Rightarrow> on_go inp (claim_step E i p w) w
      | PhUserMessage \<Rightarrow>
          on_go inp (go i p (PhCheck WkUserMessage (PhUserInsert (user_message_row E p w)) (PhRelease TurnUnsent)) (draw w)) w
      | PhUserInsert m \<Rightarrow> on_go inp (user_insert_step i p m w) w
      | PhOptions \<Rightarrow> options_step i p inp w
      | PhUserLimit opts \<Rightarrow> user_limit_step i p opts inp w
      | PhProfileLimit opts \<Rightarrow> profile_limit_step i p opts inp w
      | PhBuild opts \<Rightarrow> build_step i p opts inp w
      | PhWorkspace opts ag \<Rightarrow> on_go inp (go i p (workspace_phase opts ag p) w) w
      | PhWorkspaceWrite ag \<Rightarrow> on_go inp (workspace_step E i p ag w) w
      | PhSend ag content n failed \<Rightarrow>
          on_go inp (go i (p\<lparr>tp_sends := tp_sends p @ [content]\<rparr>) (PhRelay ag n failed) (draw w)) w
      | PhRelay ag n failed \<Rightarrow> relay_step i p ag n failed inp w
      | PhSessionWrite key rest \<Rightarrow> on_go inp (session_key_step E i p key rest w) w
      | PhDecide ag out lifecycle n failed \<Rightarrow> on_go inp (go i p (decide_phase ag out lifecycle n failed) w) w
      | PhEvict code failed \<Rightarrow> on_go inp (evict_step i p code failed w) w
      | PhSeedWrite failed \<Rightarrow> on_go inp (seed_step E i p failed w) w
      | PhTipInsert tip \<Rightarrow> on_go inp (tip_step E i p tip w) w
      | PhRelease res \<Rightarrow> on_go inp (release_step i p res w) w
      | PhComplete was_deleting res \<Rightarrow> complete_step i p was_deleting res inp w
      | PhPublish s res \<Rightarrow> on_go inp (publish_step E i p s res w) w
      | PhCheck kind yes no \<Rightarrow>
          on_go inp (go i p (if persistence_allows (tp_conversation p) kind (cw_runtime w) then yes else no) w) w
      | PhDone res \<Rightarrow> w)"

definition turn_step :: "'a conv_env_scheme \<Rightarrow> nat \<Rightarrow> turn_input \<Rightarrow> conv_world \<Rightarrow> conv_world" where
  "turn_step E i inp w = (case cw_turns w i of None \<Rightarrow> w | Some p \<Rightarrow> run_phase E i p inp w)"

section \<open>Deleting\<close>

definition set_delete :: "nat \<Rightarrow> delete_proc \<Rightarrow> delete_phase \<Rightarrow> conv_world \<Rightarrow> conv_world" where
  "set_delete i d ph w = w\<lparr>cw_deletes := (cw_deletes w)(i := Some (d\<lparr>dp_phase := ph\<rparr>))\<rparr>"

definition delete_start :: "string \<Rightarrow> string \<Rightarrow> conv_world \<Rightarrow> (conv_world, conv_error, unit) outcome" where
  "delete_start user c w =
     (case owned_conversation user c w of
        Inl e \<Rightarrow> (w, Inl e)
      | Inr r \<Rightarrow> ((set_delete (cw_procs w) \<lparr>dp_conversation = c, dp_source = cr_source r, dp_phase = DlMark\<rparr> DlMark w)
                   \<lparr>cw_procs := Suc (cw_procs w)\<rparr>, Inr ()))"

fun run_delete :: "nat \<Rightarrow> delete_proc \<Rightarrow> delete_phase \<Rightarrow> conv_world \<Rightarrow> conv_world" where
  "run_delete i d DlMark w =
     (let (rt, had_active) = mark_deleting (dp_conversation d) (cw_runtime w)
      in set_delete i d (DlHooks had_active) (w\<lparr>cw_runtime := rt\<rparr>))"
| "run_delete i d (DlHooks had_active) w = set_delete i d (DlRow had_active) w"
| "run_delete i d (DlRow had_active) w =
     (case conv_delete_row (dp_conversation d) w of
        (w1, Inl e) \<Rightarrow> set_delete i d (DlUndo (conv_of_db e)) w1
      | (w1, Inr _) \<Rightarrow> set_delete i d (if had_active then DlAnnounce else DlClear) w1)"
| "run_delete i d (DlUndo e) w =
     set_delete i d (DlDone (Some e)) (w\<lparr>cw_runtime := clear_deleting (dp_conversation d) (cw_runtime w)\<rparr>)"
| "run_delete i d DlClear w =
     set_delete i d DlAnnounce (w\<lparr>cw_runtime := clear_deleting (dp_conversation d) (cw_runtime w)\<rparr>)"
| "run_delete i d DlAnnounce w =
     set_delete i d (DlDone None) (conv_emit (EvListChanged (dp_conversation d) ''deleted'' (dp_source d)) w)"
| "run_delete i d (DlDone e) w = w"

definition delete_step :: "nat \<Rightarrow> conv_world \<Rightarrow> conv_world" where
  "delete_step i w = (case cw_deletes w i of None \<Rightarrow> w | Some d \<Rightarrow> run_delete i d (dp_phase d) w)"

section \<open>Cancelling\<close>

definition set_cancel :: "nat \<Rightarrow> cancel_proc \<Rightarrow> cancel_phase \<Rightarrow> conv_world \<Rightarrow> conv_world" where
  "set_cancel i c ph w = w\<lparr>cw_cancels := (cw_cancels w)(i := Some (c\<lparr>cp_phase := ph\<rparr>))\<rparr>"

definition cancel_start :: "string \<Rightarrow> string \<Rightarrow> string \<Rightarrow> conv_world \<Rightarrow> (conv_world, conv_error, unit) outcome" where
  "cancel_start user c t w =
     (case owned_conversation user c w of
        Inl e \<Rightarrow> (w, Inl e)
      | Inr r \<Rightarrow> ((set_cancel (cw_procs w) \<lparr>cp_conversation = c, cp_turn = t, cp_phase = CnLookup\<rparr> CnLookup w)
                   \<lparr>cw_procs := Suc (cw_procs w)\<rparr>, Inr ()))"

datatype cancel_input = InHasTask bool | InMark | InCancelled "conv_error + agent_type" | InTimer

definition run_cancel :: "nat \<Rightarrow> cancel_proc \<Rightarrow> cancel_input \<Rightarrow> conv_world \<Rightarrow> conv_world" where
  "run_cancel i c inp w =
     (case (cp_phase c, inp) of
        (CnLookup, InHasTask has_task) \<Rightarrow>
          set_cancel i c
            (if active_turn_id_for (cp_conversation c) (cw_runtime w) = Some (cp_turn c) \<and> has_task
             then CnMark else CnDone None) w
      | (CnMark, InMark) \<Rightarrow>
          set_cancel i c CnAwait (w\<lparr>cw_runtime := mark_cancelling (cp_conversation c) (cw_runtime w)\<rparr>)
      | (CnAwait, InCancelled (Inl e)) \<Rightarrow> set_cancel i c (CnClear e) w
      | (CnAwait, InCancelled (Inr a)) \<Rightarrow> set_cancel i c (if a = AtAcp then CnDrain else CnDone None) w
      | (CnClear e, InMark) \<Rightarrow>
          set_cancel i c (CnDone (Some e)) (w\<lparr>cw_runtime := clear_cancelling (cp_conversation c) (cw_runtime w)\<rparr>)
      | (CnDrain, InTimer) \<Rightarrow>
          set_cancel i c (CnDone None)
            (if active_turn_id_for (cp_conversation c) (cw_runtime w) = Some (cp_turn c) \<and>
                is_cancelling (cp_conversation c) (cw_runtime w)
             then w\<lparr>cw_kills := cw_kills w @ [cp_conversation c]\<rparr> else w)
      | _ \<Rightarrow> w)"

definition cancel_step :: "nat \<Rightarrow> cancel_input \<Rightarrow> conv_world \<Rightarrow> conv_world" where
  "cancel_step i inp w = (case cw_cancels w i of None \<Rightarrow> w | Some c \<Rightarrow> run_cancel i c inp w)"

section \<open>The other operations, and the machine\<close>

text \<open>\<open>reset\<close>: the messages and artifacts go, the status is pending again.\<close>

definition conv_reset :: "'a conv_env_scheme \<Rightarrow> string \<Rightarrow> string \<Rightarrow> conv_world \<Rightarrow> (conv_world, conv_error, unit) outcome" where
  "conv_reset E user c w =
     (case owned_conversation user c w of
        Inl e \<Rightarrow> (w, Inl e)
      | Inr r \<Rightarrow>
          map_err conv_of_db (conv_update_row (cn_json E) c
            (no_conv_update\<lparr>vu_status := Some ''pending'', vu_updated_at := Some (clock E (cw_draws w))\<rparr>)
            (draw (delete_artifacts_by_conversation c (delete_messages_by_conversation c w)))))"

datatype conv_op =
    OpCreate conversation_row
  | OpReset string string
  | OpSend string string send_request
  | OpAgentTurn string string send_request
  | OpTurn nat turn_input
  | OpDelete string string
  | OpDeleteStep nat
  | OpCancel string string string
  | OpCancelStep nat cancel_input
  | OpShutdown

fun conv_step :: "'a conv_env_scheme \<Rightarrow> conv_op \<Rightarrow> conv_world \<Rightarrow> conv_world" where
  "conv_step E (OpCreate r) w = fst (conv_create (cn_json E) r w)"
| "conv_step E (OpReset user c) w = fst (conv_reset E user c w)"
| "conv_step E (OpSend user c req) w = fst (send_message_start E user c req w)"
| "conv_step E (OpAgentTurn user c req) w = fst (run_agent_turn_start user c req w)"
| "conv_step E (OpTurn i inp) w = turn_step E i inp w"
| "conv_step E (OpDelete user c) w = fst (delete_start user c w)"
| "conv_step E (OpDeleteStep i) w = delete_step i w"
| "conv_step E (OpCancel user c t) w = fst (cancel_start user c t w)"
| "conv_step E (OpCancelStep i inp) w = cancel_step i inp w"
| "conv_step E OpShutdown w = w\<lparr>cw_runtime := fst (mark_shutting_down (cw_runtime w))\<rparr>"

end
