(* ===== verification/ConvTurnFacts.thy ===== *)
theory ConvTurnFacts
  imports ConvTurn ConvRepoFacts
begin

text \<open>
  Invariants of the interleaved turns: the registry of active turns lists exactly the turns that hold a claim
  (\<open>claims_ok\<close>), a turn sends its agent at most five messages (\<open>sends_ok\<close>), every answered step of a turn lowers
  its \<open>rank\<close>, and a deletion flag is always accounted for (\<open>flags_ok\<close>).
\<close>

section \<open>Phases that hold a claim\<close>

fun live_phase :: "turn_phase \<Rightarrow> bool" where
  "live_phase PhClaim = False"
| "live_phase (PhComplete _ _) = False"
| "live_phase (PhPublish _ _) = False"
| "live_phase (PhDone _) = False"
| "live_phase (PhCheck _ yes _) = live_phase yes"
| "live_phase _ = True"

fun wf_phase :: "turn_phase \<Rightarrow> bool" where
  "wf_phase (PhCheck _ yes no) \<longleftrightarrow> live_phase yes = live_phase no \<and> wf_phase yes \<and> wf_phase no"
| "wf_phase (PhSessionWrite _ rest) \<longleftrightarrow> live_phase rest \<and> wf_phase rest"
| "wf_phase _ \<longleftrightarrow> True"

definition holds_claim :: "turn_proc \<Rightarrow> bool" where
  "holds_claim p \<longleftrightarrow>
     tp_claim p = Some \<lparr>tc_conversation = tp_conversation p, tc_turn = tp_turn p, tc_released = False\<rparr>"

definition claims_ok ::
  "'a conv_env_scheme \<Rightarrow> (string, string) hmap \<Rightarrow> (nat \<Rightarrow> turn_proc option) \<Rightarrow> nat \<Rightarrow> nat \<Rightarrow> bool" where
  "claims_ok E A T n m \<longleftrightarrow>
     hm_ok A \<and>
     (\<forall>i p. T i = Some p \<longrightarrow> i < m \<and> wf_phase (tp_phase p) \<and>
        (live_phase (tp_phase p) \<longrightarrow> holds_claim p \<and> hm_get A (tp_conversation p) = Some (tp_turn p) \<and>
           (\<exists>j<n. tp_turn p = mint_id E j))) \<and>
     (\<forall>i j p q. T i = Some p \<longrightarrow> T j = Some q \<longrightarrow> live_phase (tp_phase p) \<longrightarrow> live_phase (tp_phase q) \<longrightarrow>
        tp_turn p = tp_turn q \<longrightarrow> i = j) \<and>
     (\<forall>c t. hm_get A c = Some t \<longrightarrow>
        (\<exists>i p. T i = Some p \<and> live_phase (tp_phase p) \<and> tp_conversation p = c \<and> tp_turn p = t))"

abbreviation world_claims_ok :: "'a conv_env_scheme \<Rightarrow> conv_world \<Rightarrow> bool" where
  "world_claims_ok E w \<equiv> claims_ok E (active_turns (cw_runtime w)) (cw_turns w) (cw_draws w) (cw_procs w)"

lemma claims_okD:
  assumes "claims_ok E A T n m"
  shows "hm_ok A"
    and "T i = Some p \<Longrightarrow> i < m" and "T i = Some p \<Longrightarrow> wf_phase (tp_phase p)"
    and "T i = Some p \<Longrightarrow> live_phase (tp_phase p) \<Longrightarrow> holds_claim p"
    and "T i = Some p \<Longrightarrow> live_phase (tp_phase p) \<Longrightarrow> hm_get A (tp_conversation p) = Some (tp_turn p)"
    and "T i = Some p \<Longrightarrow> live_phase (tp_phase p) \<Longrightarrow> \<exists>j<n. tp_turn p = mint_id E j"
    and "T i = Some p \<Longrightarrow> T j = Some q \<Longrightarrow> live_phase (tp_phase p) \<Longrightarrow> live_phase (tp_phase q) \<Longrightarrow> tp_turn p = tp_turn q \<Longrightarrow> i = j"
    and "hm_get A c = Some t \<Longrightarrow> \<exists>i p. T i = Some p \<and> live_phase (tp_phase p) \<and> tp_conversation p = c \<and> tp_turn p = t"
  using assms unfolding claims_ok_def by blast+

lemma claims_okI:
  assumes "hm_ok A"
    and "\<And>i p. T i = Some p \<Longrightarrow> i < m \<and> wf_phase (tp_phase p) \<and>
        (live_phase (tp_phase p) \<longrightarrow> holds_claim p \<and> hm_get A (tp_conversation p) = Some (tp_turn p) \<and>
           (\<exists>j<n. tp_turn p = mint_id E j))"
    and "\<And>i j p q. T i = Some p \<Longrightarrow> T j = Some q \<Longrightarrow> live_phase (tp_phase p) \<Longrightarrow> live_phase (tp_phase q) \<Longrightarrow>
        tp_turn p = tp_turn q \<Longrightarrow> i = j"
    and "\<And>c t. hm_get A c = Some t \<Longrightarrow>
        \<exists>i p. T i = Some p \<and> live_phase (tp_phase p) \<and> tp_conversation p = c \<and> tp_turn p = t"
  shows "claims_ok E A T n m"
  unfolding claims_ok_def
  by (intro conjI allI impI) (insert assms, (assumption | blast)+)

text \<open>A step that neither claims nor releases.\<close>

lemma claims_quiet:
  assumes ok: "claims_ok E A T n m" and Ti: "T i = Some p"
    and same: "tp_conversation p' = tp_conversation p" "tp_turn p' = tp_turn p" "tp_claim p' = tp_claim p"
    and live: "live_phase (tp_phase p') = live_phase (tp_phase p)" and wf: "wf_phase (tp_phase p')" and n: "n \<le> n'"
  shows "claims_ok E A (T(i := Some p')) n' m"
proof -
  have a: "j < m \<and> wf_phase (tp_phase q) \<and> (live_phase (tp_phase q) \<longrightarrow> holds_claim q \<and>
      hm_get A (tp_conversation q) = Some (tp_turn q) \<and> (\<exists>j<n'. tp_turn q = mint_id E j))"
    if "(T(i := Some p')) j = Some q" for j q
  proof (cases "j = i")
    case True
    then have "q = p'" using that by simp
    moreover have "live_phase (tp_phase p') \<longrightarrow> holds_claim p'"
      using claims_okD(4) [OF ok Ti] same live by (simp add: holds_claim_def)
    moreover have "live_phase (tp_phase p') \<longrightarrow> hm_get A (tp_conversation p') = Some (tp_turn p')"
      using claims_okD(5) [OF ok Ti] same live by simp
    moreover have "live_phase (tp_phase p') \<longrightarrow> (\<exists>j<n'. tp_turn p' = mint_id E j)"
      using claims_okD(6) [OF ok Ti] same live n by (metis less_le_trans)
    ultimately show ?thesis using True claims_okD(2) [OF ok Ti] wf by simp
  next
    case False
    then have Tj: "T j = Some q" using that by simp
    have "live_phase (tp_phase q) \<longrightarrow> (\<exists>j<n'. tp_turn q = mint_id E j)"
      using claims_okD(6) [OF ok Tj] n by (metis less_le_trans)
    then show ?thesis using claims_okD(2-5) [OF ok Tj] by simp
  qed
  have older: "\<exists>r. T j = Some r \<and> live_phase (tp_phase r) = live_phase (tp_phase q) \<and> tp_turn r = tp_turn q \<and> tp_conversation r = tp_conversation q"
    if "(T(i := Some p')) j = Some q" for j q
    using that Ti same live by (cases "j = i") auto
  have b: "j = k" if "(T(i := Some p')) j = Some q" "(T(i := Some p')) k = Some r"
      "live_phase (tp_phase q)" "live_phase (tp_phase r)" "tp_turn q = tp_turn r" for j k q r
    using older [OF that(1)] older [OF that(2)] that(3-5) claims_okD(7) [OF ok] by metis
  have forth: "\<exists>r. (T(i := Some p')) j = Some r \<and> live_phase (tp_phase r) = live_phase (tp_phase q) \<and> tp_turn r = tp_turn q \<and> tp_conversation r = tp_conversation q"
    if "T j = Some q" for j q
    using that Ti same live by (cases "j = i") auto
  have c: "\<exists>j q. (T(i := Some p')) j = Some q \<and> live_phase (tp_phase q) \<and> tp_conversation q = c \<and> tp_turn q = t"
    if "hm_get A c = Some t" for c t
    using claims_okD(8) [OF ok that] forth by metis
  show ?thesis by (rule claims_okI) (fact claims_okD(1) [OF ok], fact a, fact b, fact c)
qed

lemma claims_claim:
  assumes ids: "distinct_ids E" and ok: "claims_ok E A T n m" and Ti: "T i = Some p" and dead: "\<not> live_phase (tp_phase p)"
    and free: "hm_get A (tp_conversation p) = None"
    and p': "tp_conversation p' = tp_conversation p" "tp_turn p' = mint_id E n" "holds_claim p'" "live_phase (tp_phase p')" "wf_phase (tp_phase p')"
  shows "claims_ok E (hm_insert (tp_conversation p) (mint_id E n) A) (T(i := Some p')) (Suc n) m"
proof -
  let ?A = "hm_insert (tp_conversation p) (mint_id E n) A" and ?T = "T(i := Some p')"
  have a: "j < m \<and> wf_phase (tp_phase q) \<and> (live_phase (tp_phase q) \<longrightarrow> holds_claim q \<and>
      hm_get ?A (tp_conversation q) = Some (tp_turn q) \<and> (\<exists>j<Suc n. tp_turn q = mint_id E j))"
    if "?T j = Some q" for j q
  proof (cases "j = i")
    case True
    then have "q = p'" using that by simp
    with True p' claims_okD(2) [OF ok Ti] show ?thesis by (auto simp: hm_get_insert)
  next
    case False
    then have Tj: "T j = Some q" using that by simp
    have "hm_get ?A (tp_conversation q) = Some (tp_turn q)" if "live_phase (tp_phase q)"
      using claims_okD(5) [OF ok Tj that] free by (auto simp: hm_get_insert)
    moreover have "\<exists>j<Suc n. tp_turn q = mint_id E j" if "live_phase (tp_phase q)"
      using claims_okD(6) [OF ok Tj that] less_SucI by blast
    ultimately show ?thesis using claims_okD(2-4) [OF ok Tj] by blast
  qed
  have new: "tp_turn q \<noteq> mint_id E n" if "T j = Some q" "live_phase (tp_phase q)" for j q
    using claims_okD(6) [OF ok that] mint_id_eq [OF ids] by auto
  have b: "j = k" if "?T j = Some q" "?T k = Some r" "live_phase (tp_phase q)" "live_phase (tp_phase r)" "tp_turn q = tp_turn r" for j k q r
  proof (rule ccontr)
    assume "j \<noteq> k"
    then consider "j = i" "k \<noteq> i" | "k = i" "j \<noteq> i" | "j \<noteq> i" "k \<noteq> i" by blast
    then show False
    proof cases
      case 1
      then show False using that new [of k r] p' by simp
    next
      case 2
      then show False using that new [of j q] p' by simp
    next
      case 3
      then show False using that claims_okD(7) [OF ok, of j q k r] \<open>j \<noteq> k\<close> by simp
    qed
  qed
  have c: "\<exists>j q. ?T j = Some q \<and> live_phase (tp_phase q) \<and> tp_conversation q = c \<and> tp_turn q = t"
    if "hm_get ?A c = Some t" for c t
  proof (cases "c = tp_conversation p")
    case True
    then have "t = mint_id E n" using that by (simp add: hm_get_insert)
    with True p' have "?T i = Some p' \<and> live_phase (tp_phase p') \<and> tp_conversation p' = c \<and> tp_turn p' = t" by simp
    then show ?thesis by blast
  next
    case False
    then have "hm_get A c = Some t" using that by (simp add: hm_get_insert)
    from claims_okD(8) [OF ok this] obtain j q where q: "T j = Some q" "live_phase (tp_phase q)" "tp_conversation q = c" "tp_turn q = t" by blast
    then have "j \<noteq> i" using dead Ti by auto
    with q have "?T j = Some q" by simp
    with q show ?thesis by blast
  qed
  show ?thesis by (rule claims_okI) (fact distinct_update [OF claims_okD(1) [OF ok]], fact a, fact b, fact c)
qed

lemma claims_release:
  assumes ok: "claims_ok E A T n m" and Ti: "T i = Some p" and lv: "live_phase (tp_phase p)"
    and p': "\<not> live_phase (tp_phase p')" "wf_phase (tp_phase p')"
  shows "claims_ok E (hm_remove (tp_conversation p) A) (T(i := Some p')) n m"
proof -
  let ?A = "hm_remove (tp_conversation p) A" and ?T = "T(i := Some p')"
  have other: "tp_conversation q \<noteq> tp_conversation p" if "T j = Some q" "live_phase (tp_phase q)" "j \<noteq> i" for j q
  proof
    assume "tp_conversation q = tp_conversation p"
    then have "tp_turn q = tp_turn p" using claims_okD(5) [OF ok that(1,2)] claims_okD(5) [OF ok Ti lv] by simp
    then show False using claims_okD(7) [OF ok that(1) Ti that(2) lv] that(3) by simp
  qed
  have a: "j < m \<and> wf_phase (tp_phase q) \<and> (live_phase (tp_phase q) \<longrightarrow> holds_claim q \<and>
      hm_get ?A (tp_conversation q) = Some (tp_turn q) \<and> (\<exists>j<n. tp_turn q = mint_id E j))"
    if "?T j = Some q" for j q
  proof (cases "j = i")
    case True
    then show ?thesis using that p' claims_okD(2) [OF ok Ti] by simp
  next
    case False
    then have Tj: "T j = Some q" using that by simp
    show ?thesis using claims_okD(2-6) [OF ok Tj] other [OF Tj _ False] by (simp add: hm_get_remove)
  qed
  have b: "j = k" if "?T j = Some q" "?T k = Some r" "live_phase (tp_phase q)" "live_phase (tp_phase r)" "tp_turn q = tp_turn r" for j k q r
    using that p' claims_okD(7) [OF ok] by (auto split: if_splits)
  have c: "\<exists>j q. ?T j = Some q \<and> live_phase (tp_phase q) \<and> tp_conversation q = c \<and> tp_turn q = t"
    if "hm_get ?A c = Some t" for c t
  proof -
    from that have "c \<noteq> tp_conversation p" "hm_get A c = Some t" by (auto simp: hm_get_remove split: if_splits)
    from claims_okD(8) [OF ok this(2)] obtain j q
      where q: "T j = Some q" "live_phase (tp_phase q)" "tp_conversation q = c" "tp_turn q = t" by blast
    then have "j \<noteq> i" using \<open>c \<noteq> tp_conversation p\<close> Ti by auto
    with q have "?T j = Some q" by simp
    with q show ?thesis by blast
  qed
  show ?thesis by (rule claims_okI) (fact distinct_delete [OF claims_okD(1) [OF ok]], fact a, fact b, fact c)
qed

lemma claims_new:
  assumes ok: "claims_ok E A T n m" and p: "\<not> live_phase (tp_phase p)" "wf_phase (tp_phase p)"
  shows "claims_ok E A (T(m := Some p)) n (Suc m)"
proof -
  have none: "T m = None" using claims_okD(2) [OF ok, of m] by (cases "T m") auto
  have a: "j < Suc m \<and> wf_phase (tp_phase q) \<and> (live_phase (tp_phase q) \<longrightarrow> holds_claim q \<and>
      hm_get A (tp_conversation q) = Some (tp_turn q) \<and> (\<exists>j<n. tp_turn q = mint_id E j))"
    if "(T(m := Some p)) j = Some q" for j q
    using that p claims_okD(2-6) [OF ok, of j q] by (cases "j = m") auto
  have b: "j = k" if "(T(m := Some p)) j = Some q" "(T(m := Some p)) k = Some r" "live_phase (tp_phase q)" "live_phase (tp_phase r)" "tp_turn q = tp_turn r" for j k q r
    using that p claims_okD(7) [OF ok] by (auto split: if_splits)
  have c: "\<exists>j q. (T(m := Some p)) j = Some q \<and> live_phase (tp_phase q) \<and> tp_conversation q = c \<and> tp_turn q = t"
    if "hm_get A c = Some t" for c t
  proof -
    from claims_okD(8) [OF ok that] obtain j q
      where q: "T j = Some q" "live_phase (tp_phase q)" "tp_conversation q = c" "tp_turn q = t" by blast
    with none have "j \<noteq> m" by auto
    with q have "(T(m := Some p)) j = Some q" by simp
    with q show ?thesis by blast
  qed
  show ?thesis by (rule claims_okI) (fact claims_okD(1) [OF ok], fact a, fact b, fact c)
qed

lemma claims_mono: "claims_ok E A T n m \<Longrightarrow> n \<le> n' \<Longrightarrow> m \<le> m' \<Longrightarrow> claims_ok E A T n' m'"
  unfolding claims_ok_def by (meson less_le_trans)

end
