(* ===== verification/ConvTurnInv.thy ===== *)
theory ConvTurnInv
  imports ConvTurnFacts
begin

text \<open>Every operation keeps the claims in order.\<close>

section \<open>What the statements leave alone\<close>

definition same_procs :: "conv_world \<Rightarrow> conv_world \<Rightarrow> bool" where
  "same_procs w w' \<longleftrightarrow>
     cw_runtime w' = cw_runtime w \<and> cw_turns w' = cw_turns w \<and> cw_deletes w' = cw_deletes w \<and>
     cw_cancels w' = cw_cancels w \<and> cw_procs w' = cw_procs w \<and> cw_draws w' = cw_draws w \<and>
     cw_kills w' = cw_kills w \<and> cw_events w' = cw_events w"

lemma same_procs_refl [simp]: "same_procs w w"
  by (simp add: same_procs_def)

lemma same_procs_statements:
  "same_procs w (fst (insert_message msg w))"
  "same_procs w (fst (conv_update_row J c u w))"
  "same_procs w (fst (conv_delete_row c w))"
  "same_procs w (fst (conv_create J r w))"
  "same_procs w (delete_messages_by_conversation c w)"
  "same_procs w (delete_artifacts_by_conversation c w)"
  by (simp_all add: same_procs_def insert_message_def conv_update_row_def conv_delete_row_def conv_create_def
      delete_messages_by_conversation_def delete_artifacts_by_conversation_def)

lemma same_procs_eqs:
  assumes "r = (w', x)" and "same_procs w (fst r)"
  shows "cw_runtime w' = cw_runtime w" "cw_turns w' = cw_turns w" "cw_deletes w' = cw_deletes w"
    "cw_cancels w' = cw_cancels w" "cw_procs w' = cw_procs w" "cw_draws w' = cw_draws w"
  using assms by (simp_all add: same_procs_def)

lemma world_helpers [simp]:
  "cw_runtime (go i p ph w) = cw_runtime w" "cw_draws (go i p ph w) = cw_draws w" "cw_procs (go i p ph w) = cw_procs w"
  "cw_deletes (go i p ph w) = cw_deletes w"
  "cw_turns (go i p ph w) = (cw_turns w)(i := Some (p\<lparr>tp_phase := ph\<rparr>))"
  "cw_runtime (set_turn i p w) = cw_runtime w" "cw_draws (set_turn i p w) = cw_draws w" "cw_procs (set_turn i p w) = cw_procs w"
  "cw_deletes (set_turn i p w) = cw_deletes w"
  "cw_turns (set_turn i p w) = (cw_turns w)(i := Some p)"
  "cw_runtime (conv_emit e w) = cw_runtime w" "cw_draws (conv_emit e w) = cw_draws w" "cw_procs (conv_emit e w) = cw_procs w"
  "cw_deletes (conv_emit e w) = cw_deletes w" "cw_turns (conv_emit e w) = cw_turns w"
  "cw_runtime (draw w) = cw_runtime w" "cw_draws (draw w) = Suc (cw_draws w)" "cw_procs (draw w) = cw_procs w"
  "cw_deletes (draw w) = cw_deletes w" "cw_turns (draw w) = cw_turns w"
  by (simp_all add: go_def set_turn_def conv_emit_def draw_def)

section \<open>The shape of a step\<close>

text \<open>
  Every step of a turn is one of four: it does nothing, it moves the turn on and leaves the runtime state alone,
  it claims the conversation, or it releases it. The predicate also records that the turn keeps its conversation
  and its user, that a turn without a claim gets none by moving on, and how the messages sent to the agent grow.
\<close>

definition moves_on :: "nat \<Rightarrow> turn_proc \<Rightarrow> turn_proc \<Rightarrow> conv_world \<Rightarrow> conv_world \<Rightarrow> bool" where
  "moves_on i p p' w w' \<longleftrightarrow>
     cw_turns w' = (cw_turns w)(i := Some p') \<and> cw_procs w' = cw_procs w \<and> cw_deletes w' = cw_deletes w \<and>
     cw_draws w \<le> cw_draws w' \<and> tp_conversation p' = tp_conversation p \<and> tp_request p' = tp_request p"

definition quiet_step :: "nat \<Rightarrow> turn_proc \<Rightarrow> conv_world \<Rightarrow> conv_world \<Rightarrow> bool" where
  "quiet_step i p w w' \<longleftrightarrow>
     (\<exists>p'. moves_on i p p' w w' \<and> cw_runtime w' = cw_runtime w \<and> tp_turn p' = tp_turn p \<and> tp_claim p' = tp_claim p \<and>
        live_phase (tp_phase p') = live_phase (tp_phase p) \<and> (wf_phase (tp_phase p) \<longrightarrow> wf_phase (tp_phase p')))"

definition claiming_step :: "'a conv_env_scheme \<Rightarrow> nat \<Rightarrow> turn_proc \<Rightarrow> conv_world \<Rightarrow> conv_world \<Rightarrow> bool" where
  "claiming_step E i p w w' \<longleftrightarrow>
     (\<exists>p' k. moves_on i p p' w w' \<and> \<not> live_phase (tp_phase p) \<and> live_phase (tp_phase p') \<and> wf_phase (tp_phase p') \<and>
        try_claim_turn (tp_conversation p) (mint_id E (cw_draws w)) (cw_runtime w) = (cw_runtime w', Inr k) \<and>
        tp_turn p' = mint_id E (cw_draws w) \<and> tp_claim p' = Some k \<and> cw_draws w' = Suc (cw_draws w))"

definition releasing_step :: "nat \<Rightarrow> turn_proc \<Rightarrow> conv_world \<Rightarrow> conv_world \<Rightarrow> bool" where
  "releasing_step i p w w' \<longleftrightarrow>
     (\<exists>p' d k. moves_on i p p' w w' \<and> live_phase (tp_phase p) \<and> \<not> live_phase (tp_phase p') \<and> wf_phase (tp_phase p') \<and>
        release_claim p (cw_runtime w) = (cw_runtime w', k, d))"

lemma quiet_go:
  assumes "cw_turns w1 = cw_turns w" "cw_procs w1 = cw_procs w" "cw_deletes w1 = cw_deletes w" "cw_draws w \<le> cw_draws w1"
    and "cw_runtime w1 = cw_runtime w" and "live_phase ph = live_phase (tp_phase p)" and "wf_phase (tp_phase p) \<Longrightarrow> wf_phase ph"
  shows "quiet_step i p w (go i p ph w1)"
  unfolding quiet_step_def moves_on_def using assms
  by (intro exI [of _ "p\<lparr>tp_phase := ph\<rparr>"]) simp

lemma quiet_here:
  "live_phase ph = live_phase (tp_phase p) \<Longrightarrow> (wf_phase (tp_phase p) \<Longrightarrow> wf_phase ph) \<Longrightarrow> quiet_step i p w (go i p ph w)"
  by (rule quiet_go) simp_all

lemma live_fail_with [simp]: "live_phase (fail_with tip)" "wf_phase (fail_with tip)"
  by (simp_all add: fail_with_def)

lemma live_decide [simp]: "live_phase (decide_phase ag out l n failed)" "wf_phase (decide_phase ag out l n failed)"
  by (auto simp: decide_phase_def split: health_action.splits continuation_decision.splits)

lemma live_workspace [simp]: "live_phase (workspace_phase opts ag p)" "wf_phase (workspace_phase opts ag p)"
  by (auto simp: workspace_phase_def send_phase_def)

lemma drop_releases:
  assumes "live_phase (tp_phase p)" and "cw_turns w1 = cw_turns w" "cw_procs w1 = cw_procs w" "cw_deletes w1 = cw_deletes w"
    "cw_draws w \<le> cw_draws w1" "cw_runtime w1 = cw_runtime w"
  shows "releasing_step i p w (drop_step i p res w1)"
proof -
  obtain rt q d where r: "release_claim p (cw_runtime w) = (rt, q, d)" by (cases "release_claim p (cw_runtime w)") auto
  then have q: "tp_conversation q = tp_conversation p" "tp_request q = tp_request p"
    by (auto simp: release_claim_def split: option.splits prod.splits)
  show ?thesis unfolding releasing_step_def moves_on_def drop_step_def using assms r q
    by (intro exI [of _ "q\<lparr>tp_phase := PhDone res\<rparr>"] exI) (simp add: r)
qed

lemma release_releases:
  assumes "live_phase (tp_phase p)"
  shows "releasing_step i p w (release_step i p res w)"
proof -
  obtain rt q d where r: "release_claim p (cw_runtime w) = (rt, q, d)" by (cases "release_claim p (cw_runtime w)") auto
  then have q: "tp_conversation q = tp_conversation p" "tp_request q = tp_request p"
    by (auto simp: release_claim_def split: option.splits prod.splits)
  show ?thesis unfolding releasing_step_def moves_on_def release_step_def using assms r q
    by (intro exI [of _ "q\<lparr>tp_phase := PhComplete d res\<rparr>"] exI) (simp add: r)
qed

lemma claim_step_shape:
  assumes "tp_phase p = PhClaim"
  shows "quiet_step i p w (claim_step E i p w) \<or> claiming_step E i p w (claim_step E i p w)"
proof (cases "try_claim_turn (tp_conversation p) (mint_id E (cw_draws w)) (cw_runtime w)")
  case (Pair rt r)
  show ?thesis
  proof (cases r)
    case (Inl e)
    then have "claim_step E i p w = go i p (PhDone (TurnRefused e)) (draw w)"
      using Pair by (simp add: claim_step_def)
    then show ?thesis using assms by (auto intro: quiet_go)
  next
    case (Inr k)
    let ?p = "p\<lparr>tp_turn := mint_id E (cw_draws w), tp_claim := Some k, tp_phase := (if tp_ordinary p then PhUserMessage else PhOptions)\<rparr>"
    have "claiming_step E i p w (claim_step E i p w)"
      unfolding claiming_step_def moves_on_def using Pair Inr assms
      by (intro exI [of _ ?p] exI [of _ k]) (simp add: claim_step_def)
    then show ?thesis ..
  qed
qed

lemma user_insert_shape:
  assumes "live_phase (tp_phase p)"
  shows "quiet_step i p w (user_insert_step i p m w) \<or> releasing_step i p w (user_insert_step i p m w)"
proof (cases "insert_message m w")
  case (Pair w1 r)
  note same = same_procs_eqs [OF Pair same_procs_statements(1)]
  show ?thesis
  proof (cases r)
    case (Inl e)
    then show ?thesis using Pair same drop_releases [OF assms, of w1 w] by (simp add: user_insert_step_def)
  next
    case (Inr u)
    then show ?thesis using Pair same assms by (auto simp: user_insert_step_def intro!: quiet_go)
  qed
qed

lemma tip_shape:
  assumes "live_phase (tp_phase p)"
  shows "quiet_step i p w (tip_step E i p tip w)"
proof (cases "insert_message (tip_row E p tip w) (draw w)")
  case (Pair w1 r)
  note same = same_procs_eqs [OF Pair same_procs_statements(1)]
  show ?thesis using Pair same assms
    by (cases r) (auto simp: tip_step_def Let_def intro!: quiet_go)
qed

lemma publish_shape:
  assumes "\<not> live_phase (tp_phase p)"
  shows "quiet_step i p w (publish_step E i p s res w)"
proof (cases "conv_update_row (cn_json E) (tp_conversation p)
             (no_conv_update\<lparr>vu_status := Some ''finished'', vu_updated_at := Some (clock E (cw_draws w))\<rparr>) (draw w)")
  case (Pair w1 r)
  note same = same_procs_eqs [OF Pair same_procs_statements(2)]
  show ?thesis using Pair same assms
    by (cases r) (auto simp: publish_step_def intro!: quiet_go)
qed

lemma workspace_shape:
  assumes "live_phase (tp_phase p)"
  shows "quiet_step i p w (workspace_step E i p ag w) \<or> releasing_step i p w (workspace_step E i p ag w)"
proof (cases "conv_get (tp_conversation p) w")
  case None
  then show ?thesis using assms by (auto simp: workspace_step_def intro!: quiet_here)
next
  case (Some r)
  show ?thesis
  proof (cases "js_set (cn_json E) (cr_extra r) ''workspace'' (ag_workspace ag)")
    case None
    then show ?thesis using Some drop_releases [OF assms, of w w] by (simp add: workspace_step_def)
  next
    case e: (Some extra)
    obtain w1 x where u: "conv_update_row (cn_json E) (tp_conversation p)
        (no_conv_update\<lparr>vu_extra := Some extra, vu_updated_at := Some (clock E (cw_draws w))\<rparr>) (draw w) = (w1, x)" by fastforce
    note same = same_procs_eqs [OF u same_procs_statements(2)]
    show ?thesis using Some e u same assms
      by (cases x) (auto simp: workspace_step_def send_phase_def intro!: quiet_go)
  qed
qed

lemma session_shape:
  assumes "tp_phase p = PhSessionWrite key rest" and "wf_phase (tp_phase p)"
  shows "quiet_step i p w (session_key_step E i p key rest w) \<or> releasing_step i p w (session_key_step E i p key rest w)"
proof (cases "conv_get (tp_conversation p) w")
  case None
  then show ?thesis using assms by (auto simp: session_key_step_def intro!: quiet_here)
next
  case (Some r)
  show ?thesis
  proof (cases "js_set (cn_json E) (cr_extra r) ''sessionKey'' key")
    case None
    then show ?thesis using Some assms drop_releases [of p w w] by (auto simp: session_key_step_def intro!: quiet_here)
  next
    case e: (Some extra)
    let ?u = "no_conv_update\<lparr>vu_extra := Some extra, vu_updated_at := Some (clock E (cw_draws w))\<rparr>"
    obtain w1 x where u: "conv_update_row (cn_json E) (tp_conversation p) ?u (draw w) = (w1, x)" by fastforce
    note same = same_procs_eqs [OF u same_procs_statements(2)]
    show ?thesis using Some e u same assms
      by (auto simp: session_key_step_def intro!: quiet_go quiet_here)
  qed
qed

lemma seed_shape:
  assumes "live_phase (tp_phase p)"
  shows "quiet_step i p w (seed_step E i p failed w)"
proof (cases "conv_get (tp_conversation p) w")
  case None
  then show ?thesis using assms by (auto simp: seed_step_def Let_def intro!: quiet_here)
next
  case (Some r)
  show ?thesis
  proof (cases "cn_remove_model E (cr_extra r)")
    case None
    then show ?thesis using Some assms by (auto simp: seed_step_def Let_def intro!: quiet_here)
  next
    case e: (Some extra)
    obtain w1 x where u: "conv_update_row (cn_json E) (tp_conversation p)
        (no_conv_update\<lparr>vu_extra := Some extra, vu_updated_at := Some (clock E (cw_draws w))\<rparr>) (draw w) = (w1, x)" by fastforce
    note same = same_procs_eqs [OF u same_procs_statements(2)]
    show ?thesis using Some e u same assms
      by (cases x) (auto simp: seed_step_def Let_def intro!: quiet_go)
  qed
qed

text \<open>What a turn waits for.\<close>

fun awaits :: "turn_phase \<Rightarrow> turn_input \<Rightarrow> bool" where
  "awaits PhOptions inp = (case inp of InOptions _ \<Rightarrow> True | _ \<Rightarrow> False)"
| "awaits (PhUserLimit _) inp = (case inp of InAmounts _ _ \<Rightarrow> True | _ \<Rightarrow> False)"
| "awaits (PhProfileLimit _) inp = (case inp of InAmounts _ _ \<Rightarrow> True | _ \<Rightarrow> False)"
| "awaits (PhBuild _) inp = (case inp of InAgent _ \<Rightarrow> True | _ \<Rightarrow> False)"
| "awaits (PhRelay _ _ _) inp = (case inp of InRelay _ _ \<Rightarrow> True | _ \<Rightarrow> False)"
| "awaits (PhComplete _ _) inp = (case inp of InTask _ _ _ \<Rightarrow> True | _ \<Rightarrow> False)"
| "awaits (PhDone _) inp = False"
| "awaits _ inp = (inp = InGo)"

lemma not_awaited: "\<not> awaits (tp_phase p) inp \<Longrightarrow> run_phase E i p inp w = w"
  unfolding run_phase_def
  by (cases "tp_phase p"; cases inp)
    (auto simp: on_go_def options_step_def user_limit_step_def profile_limit_step_def build_step_def relay_step_def
       complete_step_def)

lemma step_shape:
  assumes "wf_phase (tp_phase p)" and "awaits (tp_phase p) inp"
  shows "quiet_step i p w (run_phase E i p inp w) \<or> claiming_step E i p w (run_phase E i p inp w) \<or>
    releasing_step i p w (run_phase E i p inp w)"
proof (cases "tp_phase p")
  case PhClaim
  then show ?thesis using assms claim_step_shape [OF PhClaim] by (auto simp: run_phase_def on_go_def)
next
  case (PhUserInsert m)
  then show ?thesis using assms user_insert_shape [of p i w m] by (auto simp: run_phase_def on_go_def)
next
  case (PhWorkspaceWrite ag)
  then show ?thesis using assms workspace_shape [of p i w E ag] by (auto simp: run_phase_def on_go_def)
next
  case (PhSessionWrite key rest)
  then show ?thesis using assms session_shape [OF PhSessionWrite] by (auto simp: run_phase_def on_go_def)
next
  case (PhSeedWrite failed)
  then show ?thesis using assms seed_shape [of p i w E failed] by (auto simp: run_phase_def on_go_def)
next
  case (PhTipInsert tip)
  then show ?thesis using assms tip_shape [of p i w E tip] by (auto simp: run_phase_def on_go_def)
next
  case (PhRelease res)
  then show ?thesis using assms release_releases [of p i w res] by (auto simp: run_phase_def on_go_def)
next
  case (PhPublish s res)
  then show ?thesis using assms publish_shape [of p i w E s res] by (auto simp: run_phase_def on_go_def)
next
  case (PhSend ag content n failed)
  have "quiet_step i p w (go i (p\<lparr>tp_sends := tp_sends p @ [content]\<rparr>) (PhRelay ag n failed) (draw w))"
    unfolding quiet_step_def moves_on_def using PhSend
    by (intro exI [of _ "p\<lparr>tp_sends := tp_sends p @ [content], tp_phase := PhRelay ag n failed\<rparr>"]) simp
  then show ?thesis using PhSend assms by (simp add: run_phase_def on_go_def)
next
  case (PhRelay ag n failed)
  then show ?thesis using assms
    by (auto simp: run_phase_def relay_step_def Let_def split: turn_input.splits option.splits intro!: quiet_here)
next
  case (PhEvict code failed)
  have "quiet_step i p w (evict_step i p code failed w)"
    unfolding evict_step_def Let_def using PhEvict by (intro quiet_go) auto
  then show ?thesis using PhEvict assms by (simp add: run_phase_def on_go_def)
next
  case (PhCheck kind yes no)
  then show ?thesis using assms by (auto simp: run_phase_def on_go_def intro!: quiet_here)
next
  case PhUserMessage
  then show ?thesis using assms by (auto simp: run_phase_def on_go_def intro!: quiet_go)
next
  case PhOptions
  then show ?thesis using assms
    by (auto simp: run_phase_def options_step_def split: turn_input.splits sum.splits intro!: quiet_here)
next
  case (PhUserLimit opts)
  then show ?thesis using assms
    by (auto simp: run_phase_def user_limit_step_def split: turn_input.splits intro!: quiet_here)
next
  case (PhProfileLimit opts)
  then show ?thesis using assms
    by (auto simp: run_phase_def profile_limit_step_def split: turn_input.splits intro!: quiet_here)
next
  case (PhBuild opts)
  then show ?thesis using assms
    by (auto simp: run_phase_def build_step_def split: turn_input.splits sum.splits intro!: quiet_here)
next
  case (PhComplete d res)
  then show ?thesis using assms
    by (auto simp: run_phase_def complete_step_def split: turn_input.splits intro!: quiet_here)
qed (use assms in \<open>auto simp: run_phase_def on_go_def intro!: quiet_here\<close>)

section \<open>The claims stay in order\<close>

lemma quiet_claims:
  assumes "world_claims_ok E w" and "cw_turns w i = Some p" and "quiet_step i p w w'"
  shows "world_claims_ok E w'"
proof -
  from assms(3) obtain p' where m: "moves_on i p p' w w'" and q: "cw_runtime w' = cw_runtime w" "tp_turn p' = tp_turn p"
      "tp_claim p' = tp_claim p" "live_phase (tp_phase p') = live_phase (tp_phase p)" "wf_phase (tp_phase p) \<longrightarrow> wf_phase (tp_phase p')"
    unfolding quiet_step_def by blast
  have "wf_phase (tp_phase p')" using q(5) claims_okD(3) [OF assms(1,2)] by simp
  with m q show ?thesis using claims_quiet [OF assms(1,2), of p' "cw_draws w'"] by (simp add: moves_on_def)
qed

lemma claiming_claims:
  assumes "distinct_ids E" and "world_claims_ok E w" and "cw_turns w i = Some p" and "claiming_step E i p w w'"
  shows "world_claims_ok E w'"
proof -
  from assms(4) obtain p' k where m: "moves_on i p p' w w'" and q: "\<not> live_phase (tp_phase p)" "live_phase (tp_phase p')" "wf_phase (tp_phase p')"
      "try_claim_turn (tp_conversation p) (mint_id E (cw_draws w)) (cw_runtime w) = (cw_runtime w', Inr k)"
      "tp_turn p' = mint_id E (cw_draws w)" "tp_claim p' = Some k" "cw_draws w' = Suc (cw_draws w)"
    unfolding claiming_step_def by blast
  from q(4) have k: "hm_get (active_turns (cw_runtime w)) (tp_conversation p) = None"
      "active_turns (cw_runtime w') = hm_insert (tp_conversation p) (mint_id E (cw_draws w)) (active_turns (cw_runtime w))"
      "k = \<lparr>tc_conversation = tp_conversation p, tc_turn = mint_id E (cw_draws w), tc_released = False\<rparr>"
    by (simp_all add: try_claim_Inr_iff)
  have "tp_conversation p' = tp_conversation p" "holds_claim p'" using m q(5,6) k(3) by (simp_all add: moves_on_def holds_claim_def)
  with m q k show ?thesis using claims_claim [OF assms(1-3) q(1) k(1), of p'] by (simp add: moves_on_def)
qed

lemma release_of_holder:
  assumes "holds_claim p" and "hm_get (active_turns rt) (tp_conversation p) = Some (tp_turn p)"
    and "release_claim p rt = (rt', q, d)"
  shows "active_turns rt' = hm_remove (tp_conversation p) (active_turns rt)"
    and "deleting rt' = deleting rt - {tp_conversation p}" and "cancelling rt' = cancelling rt - {tp_conversation p}"
    and "shutting_down rt' = shutting_down rt" and "d = (tp_conversation p \<in> deleting rt)"
  using assms
  by (auto simp: release_claim_def holds_claim_def claim_release_for_turn_def claim_release_def runtime_release_def)

lemma releasing_claims:
  assumes "world_claims_ok E w" and "cw_turns w i = Some p" and "releasing_step i p w w'"
  shows "world_claims_ok E w'"
proof -
  from assms(3) obtain p' q d where m: "moves_on i p p' w w'" and lv: "live_phase (tp_phase p)" "\<not> live_phase (tp_phase p')" "wf_phase (tp_phase p')"
      and r: "release_claim p (cw_runtime w) = (cw_runtime w', q, d)"
    unfolding releasing_step_def by blast
  note hold = claims_okD(4,5) [OF assms(1,2) lv(1)]
  from claims_release [OF assms(1,2) lv] m release_of_holder(1) [OF hold r] show ?thesis
    by (simp add: moves_on_def claims_mono)
qed

lemma turn_step_claims:
  assumes "distinct_ids E" and "world_claims_ok E w"
  shows "world_claims_ok E (turn_step E i inp w)"
proof (cases "cw_turns w i")
  case None
  then show ?thesis using assms by (simp add: turn_step_def)
next
  case (Some p)
  show ?thesis
  proof (cases "awaits (tp_phase p) inp")
    case False
    then show ?thesis using Some assms by (simp add: turn_step_def not_awaited)
  next
    case True
    from step_shape [OF claims_okD(3) [OF assms(2) Some] True, of i w E] Some show ?thesis
      using quiet_claims [OF assms(2) Some] claiming_claims [OF assms Some] releasing_claims [OF assms(2) Some]
      by (auto simp: turn_step_def)
  qed
qed

lemma new_turn_claims: "world_claims_ok E w \<Longrightarrow> world_claims_ok E (new_turn user c req ordinary w)"
  unfolding new_turn_def using claims_new [of E "active_turns (cw_runtime w)" "cw_turns w" "cw_draws w" "cw_procs w"]
  by (simp add: set_turn_def)

lemma starts_claims:
  assumes "world_claims_ok E w"
  shows "world_claims_ok E (fst (send_message_start E user c req w))" "world_claims_ok E (fst (run_agent_turn_start user c req w))"
  using assms new_turn_claims [OF assms]
  by (auto simp: send_message_start_def run_agent_turn_start_def split: sum.splits option.splits)

text \<open>The other operations leave the turns and the registry of active turns alone.\<close>

lemma delete_start_fields:
  "cw_runtime (fst (delete_start user c w)) = cw_runtime w" "cw_turns (fst (delete_start user c w)) = cw_turns w"
  "cw_draws (fst (delete_start user c w)) = cw_draws w" "cw_procs w \<le> cw_procs (fst (delete_start user c w))"
  by (auto simp: delete_start_def set_delete_def split: sum.splits)

lemma delete_step_fields:
  "active_turns (cw_runtime (delete_step i w)) = active_turns (cw_runtime w)"
  "shutting_down (cw_runtime (delete_step i w)) = shutting_down (cw_runtime w)"
  "cw_turns (delete_step i w) = cw_turns w"
  "cw_draws (delete_step i w) = cw_draws w" "cw_procs (delete_step i w) = cw_procs w"
proof -
  have "active_turns (cw_runtime (run_delete i d ph w)) = active_turns (cw_runtime w) \<and>
      shutting_down (cw_runtime (run_delete i d ph w)) = shutting_down (cw_runtime w) \<and>
      cw_turns (run_delete i d ph w) = cw_turns w \<and> cw_draws (run_delete i d ph w) = cw_draws w \<and>
      cw_procs (run_delete i d ph w) = cw_procs w" for d ph
  proof (cases ph)
    case (DlRow h)
    obtain w1 r where u: "conv_delete_row (dp_conversation d) w = (w1, r)" by fastforce
    note same = same_procs_eqs [OF u same_procs_statements(3)]
    show ?thesis using DlRow u same by (cases r) (simp_all add: set_delete_def)
  qed (simp_all add: set_delete_def mark_deleting_def clear_deleting_def conv_emit_def)
  then show "active_turns (cw_runtime (delete_step i w)) = active_turns (cw_runtime w)"
    "shutting_down (cw_runtime (delete_step i w)) = shutting_down (cw_runtime w)"
    "cw_turns (delete_step i w) = cw_turns w"
    "cw_draws (delete_step i w) = cw_draws w" "cw_procs (delete_step i w) = cw_procs w"
    by (simp_all add: delete_step_def split: option.splits)
qed

lemma cancel_start_fields:
  "cw_runtime (fst (cancel_start user c t w)) = cw_runtime w" "cw_turns (fst (cancel_start user c t w)) = cw_turns w"
  "cw_draws (fst (cancel_start user c t w)) = cw_draws w" "cw_procs w \<le> cw_procs (fst (cancel_start user c t w))"
  "cw_deletes (fst (cancel_start user c t w)) = cw_deletes w"
  by (auto simp: cancel_start_def set_cancel_def split: sum.splits)

lemma cancel_step_fields:
  "active_turns (cw_runtime (cancel_step i inp w)) = active_turns (cw_runtime w)"
  "shutting_down (cw_runtime (cancel_step i inp w)) = shutting_down (cw_runtime w)"
  "deleting (cw_runtime (cancel_step i inp w)) = deleting (cw_runtime w)"
  "cw_turns (cancel_step i inp w) = cw_turns w"
  "cw_draws (cancel_step i inp w) = cw_draws w" "cw_procs (cancel_step i inp w) = cw_procs w"
  "cw_deletes (cancel_step i inp w) = cw_deletes w"
  by (auto simp: cancel_step_def run_cancel_def set_cancel_def mark_cancelling_def clear_cancelling_def
      split: option.splits cancel_phase.splits cancel_input.splits sum.splits)

lemma create_fields:
  fixes w :: conv_world
  shows "cw_runtime (fst (conv_create J r w)) = cw_runtime w" "cw_turns (fst (conv_create J r w)) = cw_turns w"
  "cw_draws (fst (conv_create J r w)) = cw_draws w" "cw_procs (fst (conv_create J r w)) = cw_procs w"
  "cw_deletes (fst (conv_create J r w)) = cw_deletes w"
  using same_procs_statements(4) [of w J r] by (simp_all add: same_procs_def)

lemma reset_fields:
  "cw_runtime (fst (conv_reset E user c w)) = cw_runtime w" "cw_turns (fst (conv_reset E user c w)) = cw_turns w"
  "cw_draws w \<le> cw_draws (fst (conv_reset E user c w))" "cw_procs (fst (conv_reset E user c w)) = cw_procs w"
  "cw_deletes (fst (conv_reset E user c w)) = cw_deletes w"
proof -
  let ?w = "draw (delete_artifacts_by_conversation c (delete_messages_by_conversation c w))"
  let ?r = "conv_update_row (cn_json E) c
    (no_conv_update\<lparr>vu_status := Some ''pending'', vu_updated_at := Some (clock E (cw_draws w))\<rparr>) ?w"
  have "same_procs ?w (fst ?r)" by (rule same_procs_statements)
  moreover have "same_procs w (delete_artifacts_by_conversation c (delete_messages_by_conversation c w))"
    using same_procs_statements(5,6) [of w c] same_procs_statements(6) [of "delete_messages_by_conversation c w" c]
    by (simp add: same_procs_def)
  ultimately show "cw_runtime (fst (conv_reset E user c w)) = cw_runtime w" "cw_turns (fst (conv_reset E user c w)) = cw_turns w"
    "cw_draws w \<le> cw_draws (fst (conv_reset E user c w))" "cw_procs (fst (conv_reset E user c w)) = cw_procs w"
    "cw_deletes (fst (conv_reset E user c w)) = cw_deletes w"
    by (auto simp: conv_reset_def same_procs_def split: sum.splits)
qed

lemmas other_fields = delete_start_fields delete_step_fields cancel_start_fields cancel_step_fields create_fields reset_fields

lemma conv_step_claims:
  assumes "distinct_ids E" and "world_claims_ok E w"
  shows "world_claims_ok E (conv_step E x w)"
proof (cases x)
  case (OpTurn i inp)
  then show ?thesis using turn_step_claims [OF assms] by simp
qed (use assms starts_claims [OF assms(2)] in
      \<open>auto simp: other_fields mark_shutting_down_def intro: claims_mono [OF assms(2)]\<close>)

lemma init_claims: "world_claims_ok E (init_conv_world us)"
  by (simp add: init_conv_world_def init_runtime_def claims_ok_def)

interpretation conv_turns: machine "\<lambda>w. distinct_ids E \<and> world_claims_ok E w" "conv_step E" for E
  by unfold_locales (auto intro: conv_step_claims)

lemma run_claims:
  "distinct_ids E \<Longrightarrow> world_claims_ok E (fold (conv_step E) xs (init_conv_world us))"
  using conv_turns.run_inv [of E "init_conv_world us" xs] init_claims by blast

end
