(* ===== verification/ConvTurnRank.thy ===== *)
theory ConvTurnRank
  imports ConvTurnInv
begin

text \<open>
  Every answered step lowers the rank of its turn, which bounds the steps of a turn; the messages sent to the agent
  are bounded by the continuations allowed; after a shutdown no turn claims; a deletion flag is accounted for by
  a running turn or by a deletion that will clear it.
\<close>

section \<open>Rank and messages sent\<close>

fun rank :: "turn_phase \<Rightarrow> nat" where
  "rank PhClaim = 43"
| "rank PhUserMessage = 42"
| "rank (PhUserInsert _) = 40"
| "rank PhOptions = 39"
| "rank (PhUserLimit _) = 38"
| "rank (PhProfileLimit _) = 37"
| "rank (PhBuild _) = 36"
| "rank (PhWorkspace _ _) = 35"
| "rank (PhWorkspaceWrite _) = 33"
| "rank (PhSend _ _ n _) = 12 + 5 * (4 - n)"
| "rank (PhRelay _ n _) = 11 + 5 * (4 - n)"
| "rank (PhSessionWrite _ rest) = Suc (rank rest)"
| "rank (PhDecide _ _ _ n _) = 8 + 5 * (4 - n)"
| "rank (PhEvict _ _) = 7"
| "rank (PhSeedWrite _) = 5"
| "rank (PhTipInsert _) = 5"
| "rank (PhRelease _) = 4"
| "rank (PhComplete _ _) = 3"
| "rank (PhPublish _ _) = 1"
| "rank (PhCheck _ yes no) = Suc (max (rank yes) (rank no))"
| "rank (PhDone _) = 0"

text \<open>How many messages a turn in this phase has sent to its agent.\<close>

fun sends_ok :: "turn_phase \<Rightarrow> nat \<Rightarrow> bool" where
  "sends_ok (PhSend _ _ n _) k \<longleftrightarrow> k = n \<and> n \<le> 4"
| "sends_ok (PhRelay _ n _) k \<longleftrightarrow> k = Suc n \<and> n \<le> 4"
| "sends_ok (PhDecide _ _ _ n _) k \<longleftrightarrow> k = Suc n \<and> n \<le> 4"
| "sends_ok (PhSessionWrite _ rest) k \<longleftrightarrow> sends_ok rest k"
| "sends_ok (PhCheck _ yes no) k \<longleftrightarrow> sends_ok yes k \<and> sends_ok no k"
| "sends_ok (PhEvict _ _) k \<longleftrightarrow> k \<le> 5"
| "sends_ok (PhSeedWrite _) k \<longleftrightarrow> k \<le> 5"
| "sends_ok (PhTipInsert _) k \<longleftrightarrow> k \<le> 5"
| "sends_ok (PhRelease _) k \<longleftrightarrow> k \<le> 5"
| "sends_ok (PhComplete _ _) k \<longleftrightarrow> k \<le> 5"
| "sends_ok (PhPublish _ _) k \<longleftrightarrow> k \<le> 5"
| "sends_ok (PhDone _) k \<longleftrightarrow> k \<le> 5"
| "sends_ok _ k \<longleftrightarrow> k = 0"

text \<open>The turn after a step: further on, and still within its budget of messages.\<close>

definition further :: "turn_proc \<Rightarrow> turn_proc option \<Rightarrow> bool" where
  "further p p' \<longleftrightarrow>
     (\<exists>q. p' = Some q \<and> rank (tp_phase q) < rank (tp_phase p) \<and>
        (sends_ok (tp_phase p) (length (tp_sends p)) \<longrightarrow> sends_ok (tp_phase q) (length (tp_sends q))))"

lemma further_Some [simp]:
  "further p (Some q) \<longleftrightarrow> rank (tp_phase q) < rank (tp_phase p) \<and>
     (sends_ok (tp_phase p) (length (tp_sends p)) \<longrightarrow> sends_ok (tp_phase q) (length (tp_sends q)))"
  by (simp add: further_def)

lemma further_go:
  assumes "rank ph < rank (tp_phase p)"
    and "sends_ok (tp_phase p) (length (tp_sends p)) \<Longrightarrow> sends_ok ph (length (tp_sends p))"
  shows "further p (cw_turns (go i p ph w) i)"
  using assms by (simp add: further_def)

lemma release_claim_sends: "release_claim p rt = (rt', q, d) \<Longrightarrow> tp_sends q = tp_sends p"
  by (auto simp: release_claim_def split: option.splits prod.splits)

lemma further_drop:
  assumes "0 < rank (tp_phase p)" and "sends_ok (tp_phase p) (length (tp_sends p)) \<Longrightarrow> length (tp_sends p) \<le> 5"
  shows "further p (cw_turns (drop_step i p res w) i)"
proof -
  obtain rt q d where r: "release_claim p (cw_runtime w) = (rt, q, d)" by (cases "release_claim p (cw_runtime w)") auto
  show ?thesis using assms release_claim_sends [OF r] by (simp add: drop_step_def r further_def)
qed

lemma further_release:
  assumes "3 < rank (tp_phase p)" and "sends_ok (tp_phase p) (length (tp_sends p)) \<Longrightarrow> length (tp_sends p) \<le> 5"
  shows "further p (cw_turns (release_step i p res w) i)"
proof -
  obtain rt q d where r: "release_claim p (cw_runtime w) = (rt, q, d)" by (cases "release_claim p (cw_runtime w)") auto
  show ?thesis using assms release_claim_sends [OF r] by (simp add: release_step_def r further_def)
qed

lemma sends_bound: "sends_ok ph k \<Longrightarrow> k \<le> 5"
  by (induction ph k rule: sends_ok.induct) auto

lemma rank_fail_with [simp]: "rank (fail_with tip) = 6" "sends_ok (fail_with tip) k \<longleftrightarrow> k \<le> 5"
  by (simp_all add: fail_with_def)

lemma rank_decide: "rank (decide_phase ag out l n failed) < rank (PhDecide ag out l n failed)"
  by (auto simp: decide_phase_def continuation_decide_def max_cron_continuations_def
      split: health_action.splits continuation_decision.splits if_splits)

lemma sends_decide: "n \<le> 4 \<Longrightarrow> sends_ok (decide_phase ag out l n failed) (Suc n)"
  by (auto simp: decide_phase_def continuation_decide_def max_cron_continuations_def
      split: health_action.splits continuation_decision.splits if_splits)

lemma step_further:
  assumes "awaits (tp_phase p) inp"
  shows "further p (cw_turns (run_phase E i p inp w) i)"
proof (cases "tp_phase p")
  case PhClaim
  then show ?thesis using assms
    by (auto simp: run_phase_def on_go_def claim_step_def Let_def further_def split: prod.splits sum.splits)
next
  case PhUserMessage
  then show ?thesis using assms by (auto simp: run_phase_def on_go_def further_def)
next
  case (PhUserInsert m)
  have "further p (cw_turns (user_insert_step i p m w) i)"
    unfolding user_insert_step_def using PhUserInsert
    by (auto simp del: world_helpers split: prod.splits sum.splits intro!: further_go further_drop)
  then show ?thesis using assms PhUserInsert by (simp add: run_phase_def on_go_def)
next
  case PhOptions
  then show ?thesis using assms
    by (auto simp: run_phase_def options_step_def split: turn_input.splits sum.splits intro!: further_go)
next
  case (PhUserLimit opts)
  then show ?thesis using assms
    by (auto simp: run_phase_def user_limit_step_def split: turn_input.splits intro!: further_go)
next
  case (PhProfileLimit opts)
  then show ?thesis using assms
    by (auto simp: run_phase_def profile_limit_step_def split: turn_input.splits intro!: further_go)
next
  case (PhBuild opts)
  then show ?thesis using assms
    by (auto simp: run_phase_def build_step_def split: turn_input.splits sum.splits intro!: further_go)
next
  case (PhWorkspace opts ag)
  then show ?thesis using assms
    by (auto simp: run_phase_def on_go_def workspace_phase_def send_phase_def intro!: further_go)
next
  case (PhWorkspaceWrite ag)
  then show ?thesis using assms
    by (auto simp: run_phase_def on_go_def workspace_step_def send_phase_def split: option.splits prod.splits sum.splits
        intro!: further_go further_drop)
next
  case (PhSend ag content n failed)
  then show ?thesis using assms by (auto simp: run_phase_def on_go_def further_def)
next
  case (PhRelay ag n failed)
  then show ?thesis using assms
    by (auto simp: run_phase_def relay_step_def Let_def split: turn_input.splits option.splits intro!: further_go)
next
  case (PhSessionWrite key rest)
  have "further p (cw_turns (session_key_step E i p key rest w) i)"
    unfolding session_key_step_def using PhSessionWrite sends_bound
    by (auto split: option.splits intro!: further_go further_drop)
  then show ?thesis using assms PhSessionWrite by (simp add: run_phase_def on_go_def)
next
  case (PhDecide ag out l n failed)
  then show ?thesis using assms rank_decide [of ag out l n failed] sends_decide [of n ag out l failed]
    by (auto simp: run_phase_def on_go_def intro!: further_go)
next
  case (PhEvict code failed)
  then show ?thesis using assms
    by (auto simp: run_phase_def on_go_def evict_step_def Let_def intro!: further_go)
next
  case (PhSeedWrite failed)
  then show ?thesis using assms
    by (auto simp: run_phase_def on_go_def seed_step_def Let_def split: option.splits prod.splits sum.splits intro!: further_go)
next
  case (PhTipInsert tip)
  then show ?thesis using assms
    by (auto simp: run_phase_def on_go_def tip_step_def Let_def split: prod.splits sum.splits intro!: further_go)
next
  case (PhRelease res)
  then show ?thesis using assms by (auto simp: run_phase_def on_go_def intro!: further_release)
next
  case (PhComplete d res)
  then show ?thesis using assms
    by (auto simp: run_phase_def complete_step_def split: turn_input.splits intro!: further_go)
next
  case (PhPublish s res)
  then show ?thesis using assms
    by (auto simp: run_phase_def on_go_def publish_step_def split: prod.splits sum.splits intro!: further_go)
next
  case (PhCheck kind yes no)
  then show ?thesis using assms by (auto simp: run_phase_def on_go_def intro!: further_go)
next
  case (PhDone res)
  then show ?thesis using assms by simp
qed

text \<open>A turn only changes by its own steps.\<close>

lemma turn_step_other: "j \<noteq> i \<Longrightarrow> world_claims_ok E w \<Longrightarrow> cw_turns (turn_step E i inp w) j = cw_turns w j"
proof (cases "cw_turns w i")
  case (Some p)
  assume "j \<noteq> i" and ok: "world_claims_ok E w"
  show ?thesis
  proof (cases "awaits (tp_phase p) inp")
    case True
    from step_shape [OF claims_okD(3) [OF ok Some] True, of i w E] \<open>j \<noteq> i\<close> Some show ?thesis
      by (auto simp: turn_step_def quiet_step_def claiming_step_def releasing_step_def moves_on_def)
  qed (use Some in \<open>simp add: turn_step_def not_awaited\<close>)
qed (simp add: turn_step_def)

lemma conv_step_keeps_turn:
  assumes "world_claims_ok E w" and "cw_turns w i = Some p" and "\<And>inp. x = OpTurn i inp \<Longrightarrow> \<not> awaits (tp_phase p) inp"
  shows "cw_turns (conv_step E x w) i = Some p"
proof -
  have fresh: "i \<noteq> cw_procs w" using claims_okD(2) [OF assms(1,2)] by simp
  show ?thesis
  proof (cases x)
    case (OpTurn j inp)
    then show ?thesis using assms turn_step_other [of i j E w inp]
      by (cases "j = i") (simp_all add: turn_step_def not_awaited)
  qed (use assms fresh in \<open>auto simp: other_fields send_message_start_def run_agent_turn_start_def new_turn_def
        split: sum.splits option.splits\<close>)
qed

text \<open>The steps of a run that turn \<open>i\<close> takes because its awaited answer arrives.\<close>

fun answered :: "'a conv_env_scheme \<Rightarrow> nat \<Rightarrow> conv_op list \<Rightarrow> conv_world \<Rightarrow> nat" where
  "answered E i [] w = 0"
| "answered E i (x # xs) w =
     (case (x, cw_turns w i) of
        (OpTurn j inp, Some p) \<Rightarrow> if j = i \<and> awaits (tp_phase p) inp then 1 else 0
      | _ \<Rightarrow> 0) + answered E i xs (conv_step E x w)"

lemma answered_rank:
  assumes "distinct_ids E" and "world_claims_ok E w" and "cw_turns w i = Some p"
  shows "\<exists>q. cw_turns (fold (conv_step E) xs w) i = Some q \<and> rank (tp_phase q) + answered E i xs w \<le> rank (tp_phase p)"
  using assms(2,3)
proof (induction xs arbitrary: w p)
  case Nil
  then show ?case by simp
next
  case (Cons x xs)
  have ok: "world_claims_ok E (conv_step E x w)" by (rule conv_step_claims [OF assms(1) Cons.prems(1)])
  show ?case
  proof (cases "\<exists>inp. x = OpTurn i inp \<and> awaits (tp_phase p) inp")
    case True
    then obtain inp where x: "x = OpTurn i inp" "awaits (tp_phase p) inp" by blast
    from step_further [OF x(2), of E i w] obtain q where q: "cw_turns (conv_step E x w) i = Some q"
        "rank (tp_phase q) < rank (tp_phase p)"
      using x(1) Cons.prems(2) by (auto simp: further_def turn_step_def)
    from Cons.IH [OF ok q(1)] q(2) x Cons.prems(2) show ?thesis by auto
  next
    case False
    then have "cw_turns (conv_step E x w) i = Some p"
      using conv_step_keeps_turn [OF Cons.prems] by blast
    moreover have "answered E i (x # xs) w = answered E i xs (conv_step E x w)"
      using False Cons.prems(2) by (auto split: conv_op.splits)
    ultimately show ?thesis using Cons.IH [OF ok, of p] by simp
  qed
qed

section \<open>The budget of messages\<close>

definition world_sends_ok :: "conv_world \<Rightarrow> bool" where
  "world_sends_ok w \<longleftrightarrow> (\<forall>i p. cw_turns w i = Some p \<longrightarrow> sends_ok (tp_phase p) (length (tp_sends p)))"

lemma new_turn_sends: "world_sends_ok w \<Longrightarrow> world_sends_ok (new_turn user c req ordinary w)"
  by (simp add: world_sends_ok_def new_turn_def)

lemma conv_step_sends:
  assumes "world_claims_ok E w" and "world_sends_ok w"
  shows "world_sends_ok (conv_step E x w)"
proof (cases x)
  case (OpTurn i inp)
  show ?thesis
  proof (cases "cw_turns w i")
    case None
    then show ?thesis using OpTurn assms by (simp add: turn_step_def)
  next
    case (Some p)
    show ?thesis
    proof (cases "awaits (tp_phase p) inp")
      case False
      then show ?thesis using OpTurn Some assms by (simp add: turn_step_def not_awaited)
    next
      case True
      have "sends_ok (tp_phase q) (length (tp_sends q))" if "cw_turns (turn_step E i inp w) j = Some q" for j q
      proof (cases "j = i")
        case True
        with that step_further [OF \<open>awaits (tp_phase p) inp\<close>, of E i w] Some assms(2) show ?thesis
          by (auto simp: further_def turn_step_def world_sends_ok_def)
      next
        case False
        with that turn_step_other [OF False assms(1)] assms(2) show ?thesis by (simp add: world_sends_ok_def)
      qed
      then show ?thesis using OpTurn by (simp add: world_sends_ok_def)
    qed
  qed
qed (use assms new_turn_sends [OF assms(2)] in
      \<open>auto simp: other_fields world_sends_ok_def send_message_start_def run_agent_turn_start_def split: sum.splits option.splits\<close>)

interpretation turn_budget: machine "\<lambda>w. distinct_ids E \<and> world_claims_ok E w \<and> world_sends_ok w" "conv_step E" for E
  by unfold_locales (auto intro: conv_step_claims conv_step_sends)

lemma run_sends: "distinct_ids E \<Longrightarrow> world_sends_ok (fold (conv_step E) xs (init_conv_world us))"
proof -
  assume "distinct_ids E"
  moreover have "world_sends_ok (init_conv_world us)" by (simp add: world_sends_ok_def init_conv_world_def)
  ultimately show ?thesis using turn_budget.run_inv [of E "init_conv_world us" xs] init_claims by blast
qed

section \<open>After a shutdown\<close>

lemma release_claim_runtime:
  "release_claim p rt = (rt', q, d) \<Longrightarrow> shutting_down rt' = shutting_down rt"
  by (auto simp: release_claim_def claim_release_for_turn_def claim_release_def runtime_release_def Let_def
      split: option.splits prod.splits if_splits)

lemma turn_step_shutdown:
  assumes "world_claims_ok E w" and "shutting_down (cw_runtime w)"
  shows "shutting_down (cw_runtime (turn_step E i inp w)) \<and>
    (\<forall>p'. cw_turns (turn_step E i inp w) i = Some p' \<longrightarrow> live_phase (tp_phase p') \<longrightarrow>
       (\<exists>p. cw_turns w i = Some p \<and> live_phase (tp_phase p)))"
proof (cases "cw_turns w i")
  case None
  then show ?thesis using assms by (simp add: turn_step_def)
next
  case (Some p)
  show ?thesis
  proof (cases "awaits (tp_phase p) inp")
    case False
    then show ?thesis using Some assms by (simp add: turn_step_def not_awaited)
  next
    case True
    let ?w = "run_phase E i p inp w"
    from step_shape [OF claims_okD(3) [OF assms(1) Some] True, of i w E]
    consider "quiet_step i p w ?w" | "claiming_step E i p w ?w" | "releasing_step i p w ?w" by blast
    then show ?thesis
    proof cases
      case 1
      then show ?thesis using Some assms by (auto simp: quiet_step_def moves_on_def turn_step_def)
    next
      case 2
      then show ?thesis using assms by (auto simp: claiming_step_def try_claim_Inr_iff)
    next
      case 3
      then show ?thesis using Some assms
        by (auto simp: releasing_step_def moves_on_def turn_step_def dest: release_claim_runtime)
    qed
  qed
qed

lemma conv_step_shutdown:
  assumes "world_claims_ok E w" and "shutting_down (cw_runtime w)"
  shows "shutting_down (cw_runtime (conv_step E x w)) \<and>
    (\<forall>i p'. cw_turns (conv_step E x w) i = Some p' \<longrightarrow> live_phase (tp_phase p') \<longrightarrow>
       (\<exists>p. cw_turns w i = Some p \<and> live_phase (tp_phase p)))"
proof (cases x)
  case (OpTurn j inp)
  have "\<exists>p. cw_turns w i = Some p \<and> live_phase (tp_phase p)"
    if "cw_turns (turn_step E j inp w) i = Some p'" "live_phase (tp_phase p')" for i p'
  proof (cases "i = j")
    case True
    then show ?thesis using turn_step_shutdown [OF assms, of j inp] that by blast
  next
    case False
    then show ?thesis using turn_step_other [OF False assms(1)] that by auto
  qed
  then show ?thesis using turn_step_shutdown [OF assms, of j inp] OpTurn by simp
qed (use assms in \<open>auto simp: other_fields mark_shutting_down_def send_message_start_def run_agent_turn_start_def new_turn_def
      set_turn_def split: sum.splits option.splits if_splits\<close>)

lemma run_shutdown:
  assumes "distinct_ids E" and "world_claims_ok E w" and "shutting_down (cw_runtime w)"
    and "cw_turns (fold (conv_step E) xs w) i = Some p'" and "live_phase (tp_phase p')"
  shows "\<exists>p. cw_turns w i = Some p \<and> live_phase (tp_phase p)"
  using assms(2-5)
proof (induction xs arbitrary: w)
  case Nil
  then show ?case by simp
next
  case (Cons x xs)
  have "world_claims_ok E (conv_step E x w)" by (rule conv_step_claims [OF assms(1) Cons.prems(1)])
  moreover have "shutting_down (cw_runtime (conv_step E x w))"
    using conv_step_shutdown [OF Cons.prems(1,2)] by blast
  ultimately obtain p where "cw_turns (conv_step E x w) i = Some p" "live_phase (tp_phase p)"
    using Cons.IH [of "conv_step E x w"] Cons.prems(3,4) by auto
  then show ?case using conv_step_shutdown [OF Cons.prems(1,2)] by blast
qed

section \<open>The deletion flag\<close>

text \<open>A deletion that found no running turn when it set the flag, and has not cleared it yet.\<close>

fun will_clear :: "delete_phase \<Rightarrow> bool" where
  "will_clear (DlHooks had_active) = (\<not> had_active)"
| "will_clear (DlRow had_active) = (\<not> had_active)"
| "will_clear (DlUndo _) = True"
| "will_clear DlClear = True"
| "will_clear _ = False"

definition flags_ok :: "conv_world \<Rightarrow> bool" where
  "flags_ok w \<longleftrightarrow>
     (\<forall>i d. cw_deletes w i = Some d \<longrightarrow> i < cw_procs w) \<and>
     (\<forall>c\<in>deleting (cw_runtime w).
       hm_get (active_turns (cw_runtime w)) c \<noteq> None \<or>
       (\<exists>i d. cw_deletes w i = Some d \<and> dp_conversation d = c \<and> will_clear (dp_phase d)))"

lemma flags_okI:
  assumes "\<And>i d. cw_deletes w i = Some d \<Longrightarrow> i < cw_procs w"
    and "\<And>c. c \<in> deleting (cw_runtime w) \<Longrightarrow> hm_get (active_turns (cw_runtime w)) c = None \<Longrightarrow>
      \<exists>i d. cw_deletes w i = Some d \<and> dp_conversation d = c \<and> will_clear (dp_phase d)"
  shows "flags_ok w"
  unfolding flags_ok_def using assms by blast

lemma flags_okD:
  assumes "flags_ok w"
  shows "cw_deletes w i = Some d \<Longrightarrow> i < cw_procs w"
    and "c \<in> deleting (cw_runtime w) \<Longrightarrow> hm_get (active_turns (cw_runtime w)) c = None \<Longrightarrow>
      \<exists>i d. cw_deletes w i = Some d \<and> dp_conversation d = c \<and> will_clear (dp_phase d)"
  using assms unfolding flags_ok_def by blast+

lemma flags_same:
  assumes "flags_ok w" and "cw_deletes w' = cw_deletes w" and "cw_procs w \<le> cw_procs w'"
    and "deleting (cw_runtime w') = deleting (cw_runtime w)" and "active_turns (cw_runtime w') = active_turns (cw_runtime w)"
  shows "flags_ok w'"
  by (rule flags_okI) (use assms flags_okD [OF assms(1)] in \<open>auto dest: less_le_trans\<close>)

lemma turn_step_flags:
  assumes ok: "world_claims_ok E w" and fl: "flags_ok w"
  shows "flags_ok (turn_step E i inp w)"
proof (cases "cw_turns w i")
  case None
  then show ?thesis using fl by (simp add: turn_step_def)
next
  case (Some p)
  show ?thesis
  proof (cases "awaits (tp_phase p) inp")
    case False
    then show ?thesis using Some fl by (simp add: turn_step_def not_awaited)
  next
    case True
    let ?w = "run_phase E i p inp w"
    have run: "turn_step E i inp w = ?w" using Some by (simp add: turn_step_def)
    from step_shape [OF claims_okD(3) [OF ok Some] True, of i w E]
    consider "quiet_step i p w ?w" | "claiming_step E i p w ?w" | "releasing_step i p w ?w" by blast
    then show ?thesis
    proof cases
      case 1
      then show ?thesis unfolding run using flags_same [OF fl] by (auto simp: quiet_step_def moves_on_def)
    next
      case 2
      then obtain p' k where m: "moves_on i p p' w ?w" and c: "try_claim_turn (tp_conversation p) (mint_id E (cw_draws w))
          (cw_runtime w) = (cw_runtime ?w, Inr k)" unfolding claiming_step_def by blast
      then have d: "deleting (cw_runtime ?w) = deleting (cw_runtime w)"
          "active_turns (cw_runtime ?w) = hm_insert (tp_conversation p) (mint_id E (cw_draws w)) (active_turns (cw_runtime w))"
        by (simp_all add: try_claim_Inr_iff)
      show ?thesis unfolding run
        by (rule flags_okI) (use m d flags_okD [OF fl] in \<open>auto simp: moves_on_def hm_get_insert split: if_splits\<close>)
    next
      case 3
      then obtain p' q d where m: "moves_on i p p' w ?w" and lv: "live_phase (tp_phase p)"
          and r: "release_claim p (cw_runtime w) = (cw_runtime ?w, q, d)" unfolding releasing_step_def by blast
      note eqs = release_of_holder(1,2) [OF claims_okD(4,5) [OF ok Some lv] r]
      show ?thesis unfolding run
        by (rule flags_okI) (use m eqs flags_okD [OF fl] in \<open>auto simp: moves_on_def hm_get_remove split: if_splits\<close>)
    qed
  qed
qed

lemma delete_step_flags:
  assumes fl: "flags_ok w"
  shows "flags_ok (delete_step i w)"
proof (cases "cw_deletes w i")
  case None
  then show ?thesis using fl by (simp add: delete_step_def)
next
  case (Some d)
  let ?c = "dp_conversation d" and ?A = "active_turns (cw_runtime w)"
  have moved: "flags_ok w'"
    if w': "cw_deletes w' = (cw_deletes w)(i := Some (d\<lparr>dp_phase := ph\<rparr>))" "cw_procs w' = cw_procs w"
        "active_turns (cw_runtime w') = ?A"
      and flag: "deleting (cw_runtime w') - {?c} \<subseteq> deleting (cw_runtime w)"
      and mine: "?c \<in> deleting (cw_runtime w') \<Longrightarrow> hm_get ?A ?c = None \<Longrightarrow>
        will_clear ph \<or> (\<exists>j e. j \<noteq> i \<and> cw_deletes w j = Some e \<and> dp_conversation e = ?c \<and> will_clear (dp_phase e))" for w' ph
  proof (rule flags_okI)
    fix j e assume "cw_deletes w' j = Some e"
    then show "j < cw_procs w'" using w' flags_okD(1) [OF fl] Some by (cases "j = i") auto
  next
    fix c assume c: "c \<in> deleting (cw_runtime w')" "hm_get (active_turns (cw_runtime w')) c = None"
    show "\<exists>j e. cw_deletes w' j = Some e \<and> dp_conversation e = c \<and> will_clear (dp_phase e)"
    proof (cases "c = ?c")
      case True
      then consider "will_clear ph"
        | j e where "j \<noteq> i" "cw_deletes w j = Some e" "dp_conversation e = ?c" "will_clear (dp_phase e)"
        using mine c w'(3) by auto
      then show ?thesis
      proof cases
        case 1
        then show ?thesis using True w' by (intro exI [of _ i]) simp
      next
        case 2
        then show ?thesis using True w' by (intro exI [of _ j]) simp
      qed
    next
      case False
      then have "c \<in> deleting (cw_runtime w)" using c(1) flag by blast
      then obtain j e where "cw_deletes w j = Some e" "dp_conversation e = c" "will_clear (dp_phase e)"
        using flags_okD(2) [OF fl, of c] c(2) unfolding w'(3) by blast
      moreover from this have "j \<noteq> i" using False Some by auto
      ultimately show ?thesis using w' by (intro exI [of _ j]) simp
    qed
  qed
  have stays: "will_clear ph \<or> (\<exists>j e. j \<noteq> i \<and> cw_deletes w j = Some e \<and> dp_conversation e = ?c \<and> will_clear (dp_phase e))"
    if flag: "?c \<in> deleting (cw_runtime w)" and idle: "hm_get ?A ?c = None"
      and keep: "will_clear (dp_phase d) \<Longrightarrow> will_clear ph" for ph
  proof -
    obtain j e where "cw_deletes w j = Some e" "dp_conversation e = ?c" "will_clear (dp_phase e)"
      using flags_okD(2) [OF fl flag idle] by blast
    then show ?thesis using keep Some by (cases "j = i") auto
  qed
  have "flags_ok (run_delete i d (dp_phase d) w)"
  proof (cases "dp_phase d")
    case DlMark
    show ?thesis unfolding DlMark run_delete.simps
      by (rule moved [of _ "DlHooks (hm_contains ?A ?c)"]) (auto simp: set_delete_def mark_deleting_def)
  next
    case (DlHooks h)
    show ?thesis unfolding DlHooks run_delete.simps
      by (rule moved [of _ "DlRow h"]) (use DlHooks stays [of "DlRow h"] in \<open>auto simp: set_delete_def\<close>)
  next
    case (DlRow h)
    obtain w1 r where u: "conv_delete_row ?c w = (w1, r)" by fastforce
    note same = same_procs_eqs [OF u same_procs_statements(3)]
    show ?thesis
    proof (cases r)
      case (Inl e)
      show ?thesis unfolding DlRow run_delete.simps u Inl prod.case sum.case
        by (rule moved [of _ "DlUndo (conv_of_db e)"]) (use same in \<open>auto simp: set_delete_def\<close>)
    next
      case (Inr v)
      show ?thesis unfolding DlRow run_delete.simps u Inr prod.case sum.case
        by (rule moved [of _ "if h then DlAnnounce else DlClear"]) (use DlRow same stays [of "if h then DlAnnounce else DlClear"] in \<open>auto simp: set_delete_def\<close>)
    qed
  next
    case (DlUndo e)
    show ?thesis unfolding DlUndo run_delete.simps
      by (rule moved [of _ "DlDone (Some e)"]) (auto simp: set_delete_def clear_deleting_def)
  next
    case DlClear
    show ?thesis unfolding DlClear run_delete.simps
      by (rule moved [of _ DlAnnounce]) (auto simp: set_delete_def clear_deleting_def)
  next
    case DlAnnounce
    show ?thesis unfolding DlAnnounce run_delete.simps
      by (rule moved [of _ "DlDone None"]) (use DlAnnounce stays [of "DlDone None"] in \<open>auto simp: set_delete_def conv_emit_def\<close>)
  next
    case (DlDone e)
    then show ?thesis using fl by simp
  qed
  then show ?thesis using Some by (simp add: delete_step_def)
qed

lemma delete_start_flags:
  assumes fl: "flags_ok w"
  shows "flags_ok (fst (delete_start user c w))"
proof (cases "owned_conversation user c w")
  case (Inl e)
  then show ?thesis using fl by (simp add: delete_start_def)
next
  case (Inr r)
  have fresh: "cw_deletes w (cw_procs w) = None"
    using flags_okD(1) [OF fl, of "cw_procs w"] by (cases "cw_deletes w (cw_procs w)") auto
  show ?thesis
  proof (rule flags_okI)
    fix i d assume "cw_deletes (fst (delete_start user c w)) i = Some d"
    then show "i < cw_procs (fst (delete_start user c w))"
      using Inr flags_okD(1) [OF fl, of i] by (auto simp: delete_start_def set_delete_def split: if_splits)
  next
    fix k assume "k \<in> deleting (cw_runtime (fst (delete_start user c w)))"
      "hm_get (active_turns (cw_runtime (fst (delete_start user c w)))) k = None"
    then obtain i d where i: "cw_deletes w i = Some d" "dp_conversation d = k" "will_clear (dp_phase d)"
      using flags_okD(2) [OF fl, of k] Inr by (auto simp: delete_start_def set_delete_def)
    with fresh have "i \<noteq> cw_procs w" by auto
    with i show "\<exists>i d. cw_deletes (fst (delete_start user c w)) i = Some d \<and> dp_conversation d = k \<and> will_clear (dp_phase d)"
      using Inr by (intro exI [of _ i] exI [of _ d]) (simp add: delete_start_def set_delete_def)
  qed
qed

lemma conv_step_flags:
  assumes "world_claims_ok E w" and "flags_ok w"
  shows "flags_ok (conv_step E x w)"
proof (cases x)
  case (OpTurn i inp)
  then show ?thesis using turn_step_flags [OF assms] by simp
next
  case (OpDelete user c)
  then show ?thesis using delete_start_flags [OF assms(2)] by simp
next
  case (OpDeleteStep i)
  then show ?thesis using delete_step_flags [OF assms(2)] by simp
qed (auto simp: other_fields send_message_start_def run_agent_turn_start_def new_turn_def mark_shutting_down_def set_turn_def
      split: sum.splits option.splits intro!: flags_same [OF assms(2)])

interpretation deletion_flags: machine "\<lambda>w. distinct_ids E \<and> world_claims_ok E w \<and> flags_ok w" "conv_step E" for E
  by unfold_locales (auto intro: conv_step_claims conv_step_flags)

lemma run_flags: "distinct_ids E \<Longrightarrow> flags_ok (fold (conv_step E) xs (init_conv_world us))"
proof -
  assume "distinct_ids E"
  moreover have "flags_ok (init_conv_world us)" by (simp add: flags_ok_def init_conv_world_def init_runtime_def)
  ultimately show ?thesis using deletion_flags.run_inv [of E "init_conv_world us" xs] init_claims by blast
qed

end
