(* ===== verification/ConvTurnProperties.thy ===== *)
theory ConvTurnProperties
  imports ConvTurnRank
begin

text \<open>
  What the conversation service guarantees: one turn at a time per conversation, every turn ends and gives its
  claim back, a bounded number of messages to the agent, no turn after a shutdown, deletion flags that do not
  outlive their cause, and complete listings; with two runs that show where an interleaving goes wrong.
\<close>

section \<open>A concrete service\<close>

definition demo_conv_json :: json_lib where
  "demo_conv_json = \<lparr>js_valid = (\<lambda>_. True), js_field = (\<lambda>_ _. None), js_set = (\<lambda>d k v. Some (d @ k @ v)),
     js_object = (\<lambda>kvs. concat (map snd kvs))\<rparr>"

definition demo_conv_env :: conv_env where
  "demo_conv_env = \<lparr>mint_id = mint_id sample_env, clock = clock sample_env, cn_json = demo_conv_json,
     cn_tip_json = (\<lambda>_. ''tip''), cn_remove_model = (\<lambda>_. None)\<rparr>"

lemma demo_conv_distinct: "distinct_ids demo_conv_env"
  using sample_env_distinct by (simp add: distinct_ids_def demo_conv_env_def)

definition demo_row :: conversation_row where
  "demo_row = \<lparr>cr_id = ''c'', cr_user_id = ''u'', cr_name = ''n'', cr_type = ''acp'', cr_extra = ''{}'', cr_model = None,
     cr_status = Some ''pending'', cr_source = None, cr_channel_chat_id = None, cr_project_id = None, cr_pinned = False,
     cr_pinned_at = None, cr_created_at = 0, cr_updated_at = 0\<rparr>"

definition hello_request :: send_request where
  "hello_request = \<lparr>sr_content = ''hello'', sr_hidden = False\<rparr>"

text \<open>Two messages are sent to one conversation; the first claims it.\<close>

definition two_senders :: "conv_op list" where
  "two_senders = [OpCreate demo_row, OpSend ''u'' ''c'' hello_request, OpSend ''u'' ''c'' hello_request, OpTurn 0 InGo, OpTurn 1 InGo]"

lemma two_senders_turns:
  "map_option tp_phase (cw_turns (fold (conv_step demo_conv_env) two_senders (init_conv_world [''u''])) 0) = Some PhUserMessage"
  "map_option tp_conversation (cw_turns (fold (conv_step demo_conv_env) two_senders (init_conv_world [''u''])) 0) = Some ''c''"
  "map_option tp_conversation (cw_turns (fold (conv_step demo_conv_env) two_senders (init_conv_world [''u''])) 1) = Some ''c''"
  by code_simp+

section \<open>One turn at a time\<close>

text \<open>C30. At every moment of every interleaving at most one turn of a conversation holds a claim: while one turn
  runs, no other turn of the same conversation does.\<close>

theorem one_turn_per_conversation:
  assumes "distinct_ids E" and "w = fold (conv_step E) xs (init_conv_world us)"
    and "cw_turns w i = Some p" and "live_phase (tp_phase p)"
    and "cw_turns w j = Some q" and "tp_conversation q = tp_conversation p" and "i \<noteq> j"
  shows "\<not> live_phase (tp_phase q)"
proof
  assume "live_phase (tp_phase q)"
  have ok: "world_claims_ok E w" unfolding assms(2) by (rule run_claims [OF assms(1)])
  from claims_okD(5) [OF ok assms(3,4)] claims_okD(5) [OF ok assms(5) \<open>live_phase (tp_phase q)\<close>] assms(6)
  have "tp_turn q = tp_turn p" by simp
  then show False using claims_okD(7) [OF ok assms(3,5,4) \<open>live_phase (tp_phase q)\<close>] assms(7) by simp
qed

lemma one_turn_per_conversation_witness:
  "\<exists>q. cw_turns (fold (conv_step demo_conv_env) two_senders (init_conv_world [''u''])) 1 = Some q \<and> \<not> live_phase (tp_phase q)"
proof -
  obtain p q where p: "cw_turns (fold (conv_step demo_conv_env) two_senders (init_conv_world [''u''])) 0 = Some p"
      "tp_phase p = PhUserMessage" "tp_conversation p = ''c''"
    and q: "cw_turns (fold (conv_step demo_conv_env) two_senders (init_conv_world [''u''])) 1 = Some q" "tp_conversation q = ''c''"
    using two_senders_turns by (auto simp: map_option_case split: option.splits)
  have "\<not> live_phase (tp_phase q)"
    by (rule one_turn_per_conversation [OF demo_conv_distinct refl p(1) _ q(1)]) (use p q in simp_all)
  with q show ?thesis by blast
qed

text \<open>C31. The registry of active turns is exact: it lists a turn for a conversation just when that turn holds
  the claim of the conversation. So no claim is lost, and none is left behind when its turn has ended.\<close>

theorem registry_is_exact:
  assumes "distinct_ids E" and "w = fold (conv_step E) xs (init_conv_world us)"
  shows "active_turn_id_for c (cw_runtime w) = Some t \<longleftrightarrow>
    (\<exists>i p. cw_turns w i = Some p \<and> live_phase (tp_phase p) \<and> tp_conversation p = c \<and> tp_turn p = t)"
proof -
  have ok: "world_claims_ok E w" unfolding assms(2) by (rule run_claims [OF assms(1)])
  show ?thesis unfolding active_turn_id_for_def using claims_okD(5,8) [OF ok] by blast
qed

lemma registry_is_exact_witness:
  "\<exists>i p. cw_turns (fold (conv_step demo_conv_env) two_senders (init_conv_world [''u''])) i = Some p \<and> live_phase (tp_phase p) \<and>
     tp_conversation p = ''c'' \<and> tp_turn p = ''r''"
proof -
  have "active_turn_id_for ''c'' (cw_runtime (fold (conv_step demo_conv_env) two_senders (init_conv_world [''u'']))) = Some ''r''"
    by code_simp
  then show ?thesis using registry_is_exact [OF demo_conv_distinct refl, of "''c''" two_senders "[''u'']" "''r''"] by blast
qed

section \<open>Turns end\<close>

lemma awaits_unless_done: "(\<exists>r. ph = PhDone r) \<or> (\<exists>inp. awaits ph inp)"
proof (cases ph)
  case PhOptions
  then show ?thesis by (intro disjI2 exI [of _ "InOptions (Inl ConvRateLimited)"]) simp
next
  case (PhUserLimit opts)
  then show ?thesis by (intro disjI2 exI [of _ "InAmounts None None"]) simp
next
  case (PhProfileLimit opts)
  then show ?thesis by (intro disjI2 exI [of _ "InAmounts None None"]) simp
next
  case (PhBuild opts)
  then show ?thesis by (intro disjI2 exI [of _ "InAgent (Inl [])"]) simp
next
  case (PhRelay ag n failed)
  then show ?thesis by (intro disjI2 exI [of _ "InRelay \<lparr>ro_system_responses = [], ro_terminal = RelayFinish\<rparr> None"]) simp
next
  case (PhComplete d r)
  then show ?thesis by (intro disjI2 exI [of _ "InTask None False 0"]) simp
qed (auto intro: exI [of _ InGo])

text \<open>C32. Every turn ends. Whatever the other turns, deletions and cancellations do in between, a turn takes at most
  43 steps of its own, and as long as it has not ended it waits for an answer that can arrive.\<close>

theorem every_turn_ends:
  assumes "distinct_ids E" and "w = fold (conv_step E) xs (init_conv_world us)"
    and "cw_turns w i = Some p" and "tp_phase p = PhClaim"
  shows "answered E i ys w \<le> 43 \<and>
    (\<exists>q. cw_turns (fold (conv_step E) ys w) i = Some q \<and>
       (answered E i ys w < 43 \<or> (\<exists>r. tp_phase q = PhDone r)) \<and>
       ((\<exists>r. tp_phase q = PhDone r) \<or> (\<exists>inp. awaits (tp_phase q) inp)))"
proof -
  have ok: "world_claims_ok E w" unfolding assms(2) by (rule run_claims [OF assms(1)])
  from answered_rank [OF assms(1) ok assms(3), of ys] assms(4)
  obtain q where q: "cw_turns (fold (conv_step E) ys w) i = Some q" "rank (tp_phase q) + answered E i ys w \<le> 43" by auto
  have "\<exists>r. tp_phase q = PhDone r" if "rank (tp_phase q) = 0"
    using that by (cases "tp_phase q") auto
  then have "answered E i ys w < 43 \<or> (\<exists>r. tp_phase q = PhDone r)" using q(2) by (cases "rank (tp_phase q) = 0") auto
  with q awaits_unless_done [of "tp_phase q"] show ?thesis by auto
qed

lemma every_turn_ends_witness:
  "\<exists>q. cw_turns (fold (conv_step demo_conv_env) [OpTurn 0 InGo, OpTurn 1 InGo]
      (fold (conv_step demo_conv_env) [OpCreate demo_row, OpSend ''u'' ''c'' hello_request, OpSend ''u'' ''c'' hello_request] (init_conv_world [''u'']))) 1 = Some q \<and>
     ((\<exists>r. tp_phase q = PhDone r) \<or> (\<exists>inp. awaits (tp_phase q) inp))"
proof -
  have "map_option tp_phase (cw_turns (fold (conv_step demo_conv_env)
      [OpCreate demo_row, OpSend ''u'' ''c'' hello_request, OpSend ''u'' ''c'' hello_request] (init_conv_world [''u''])) 1) = Some PhClaim"
    by code_simp
  then obtain p where p: "cw_turns (fold (conv_step demo_conv_env)
      [OpCreate demo_row, OpSend ''u'' ''c'' hello_request, OpSend ''u'' ''c'' hello_request] (init_conv_world [''u''])) 1 = Some p" "tp_phase p = PhClaim"
    by blast
  from every_turn_ends [OF demo_conv_distinct refl p] show ?thesis by blast
qed

text \<open>A turn sends its agent at most five messages: the user's and the answers of at most four rounds of
  system commands.\<close>

lemma at_most_five_messages:
  assumes "distinct_ids E" and "cw_turns (fold (conv_step E) xs (init_conv_world us)) i = Some p"
  shows "length (tp_sends p) \<le> 5"
  using run_sends [OF assms(1), of xs us] assms(2) sends_bound by (auto simp: world_sends_ok_def)

text \<open>An agent that always asks for another round.\<close>

definition asks :: relay_outcome where
  "asks = \<lparr>ro_system_responses = [''more''], ro_terminal = RelayFinish\<rparr>"

definition endless_rounds :: "conv_op list" where
  "endless_rounds = [OpCreate demo_row, OpAgentTurn ''u'' ''c'' hello_request, OpTurn 0 InGo,
     OpTurn 0 (InOptions (Inr \<lparr>bo_workspace = [], bo_profile = None\<rparr>)),
     OpTurn 0 (InAmounts None None), OpTurn 0 (InAmounts None None),
     OpTurn 0 (InAgent (Inr \<lparr>ag_type = AtAcp, ag_workspace = []\<rparr>)), OpTurn 0 InGo] @
     concat (replicate 6 [OpTurn 0 InGo, OpTurn 0 (InRelay asks None), OpTurn 0 InGo])"

lemma at_most_five_messages_witness:
  "\<exists>p. cw_turns (fold (conv_step demo_conv_env) endless_rounds (init_conv_world [''u''])) 0 = Some p \<and>
     length (tp_sends p) \<le> 5 \<and> tp_sends p = [''hello'', ''more'', ''more'', ''more'', ''more'']"
proof -
  have "map_option tp_sends (cw_turns (fold (conv_step demo_conv_env) endless_rounds (init_conv_world [''u''])) 0) =
      Some [''hello'', ''more'', ''more'', ''more'', ''more'']"
    by code_simp
  then obtain p where "cw_turns (fold (conv_step demo_conv_env) endless_rounds (init_conv_world [''u''])) 0 = Some p"
      "tp_sends p = [''hello'', ''more'', ''more'', ''more'', ''more'']" by blast
  with at_most_five_messages [OF demo_conv_distinct this(1)] show ?thesis by blast
qed

section \<open>Shutdown and deletion\<close>

text \<open>After the shutdown mark no turn starts: every turn that holds a claim at any later moment already held one
  when the mark was set.\<close>

lemma no_turn_after_shutdown:
  assumes "distinct_ids E" and "w = fold (conv_step E) xs (init_conv_world us)"
    and "cw_turns (fold (conv_step E) ys (conv_step E OpShutdown w)) i = Some p'" and "live_phase (tp_phase p')"
  shows "\<exists>p. cw_turns w i = Some p \<and> live_phase (tp_phase p)"
proof -
  have "world_claims_ok E w" unfolding assms(2) by (rule run_claims [OF assms(1)])
  then have "world_claims_ok E (conv_step E OpShutdown w)" by (rule conv_step_claims [OF assms(1)])
  moreover have "shutting_down (cw_runtime (conv_step E OpShutdown w))" by (simp add: mark_shutting_down_def)
  ultimately show ?thesis
    using run_shutdown [OF assms(1) _ _ assms(3,4)] by (simp add: mark_shutting_down_def)
qed

lemma no_turn_after_shutdown_witness:
  "\<exists>p. cw_turns (fold (conv_step demo_conv_env) two_senders (init_conv_world [''u''])) 0 = Some p \<and> live_phase (tp_phase p)"
proof -
  have "map_option (live_phase \<circ> tp_phase) (cw_turns (fold (conv_step demo_conv_env) [OpTurn 0 InGo, OpTurn 0 InGo]
      (conv_step demo_conv_env OpShutdown (fold (conv_step demo_conv_env) two_senders (init_conv_world [''u''])))) 0) = Some True"
    by code_simp
  then obtain p where p: "cw_turns (fold (conv_step demo_conv_env) [OpTurn 0 InGo, OpTurn 0 InGo]
      (conv_step demo_conv_env OpShutdown (fold (conv_step demo_conv_env) two_senders (init_conv_world [''u''])))) 0 = Some p"
      "live_phase (tp_phase p)" by auto
  show ?thesis by (rule no_turn_after_shutdown [OF demo_conv_distinct refl p])
qed

text \<open>C33. A conversation that rests accepts the next turn: once none of its turns holds a claim and no deletion of
  it is under way, its deletion flag is clear and a turn can claim it, unless the process shuts down.\<close>

theorem resting_conversation_accepts:
  assumes "distinct_ids E" and "w = fold (conv_step E) xs (init_conv_world us)" and "\<not> shutting_down (cw_runtime w)"
    and "\<And>i p. cw_turns w i = Some p \<Longrightarrow> tp_conversation p = c \<Longrightarrow> \<not> live_phase (tp_phase p)"
    and "\<And>i d. cw_deletes w i = Some d \<Longrightarrow> dp_conversation d = c \<Longrightarrow> \<exists>e. dp_phase d = DlDone e"
  shows "\<not> is_deleting c (cw_runtime w) \<and> (\<exists>rt k. try_claim_turn c t (cw_runtime w) = (rt, Inr k))"
proof -
  have ok: "world_claims_ok E w" unfolding assms(2) by (rule run_claims [OF assms(1)])
  have fl: "flags_ok w" unfolding assms(2) by (rule run_flags [OF assms(1)])
  have idle: "hm_get (active_turns (cw_runtime w)) c = None"
  proof (cases "hm_get (active_turns (cw_runtime w)) c")
    case (Some t)
    from claims_okD(8) [OF ok Some] assms(4) show ?thesis by blast
  qed
  have "c \<notin> deleting (cw_runtime w)"
  proof
    assume "c \<in> deleting (cw_runtime w)"
    from flags_okD(2) [OF fl this idle] obtain i d where d: "cw_deletes w i = Some d" "dp_conversation d = c" "will_clear (dp_phase d)"
      by blast
    from assms(5) [OF d(1,2)] d(3) show False by auto
  qed
  with idle assms(3) show ?thesis by (simp add: is_deleting_def try_claim_Inr_iff)
qed

definition create_only :: "conv_op list" where
  "create_only = [OpCreate demo_row]"

lemma resting_conversation_accepts_witness:
  "\<exists>rt k. try_claim_turn ''c'' ''t'' (cw_runtime (fold (conv_step demo_conv_env) create_only (init_conv_world [''u'']))) = (rt, Inr k)"
proof -
  let ?w = "fold (conv_step demo_conv_env) create_only (init_conv_world [''u''])"
  have w: "cw_turns ?w = (\<lambda>_. None)" "cw_deletes ?w = (\<lambda>_. None)" "\<not> shutting_down (cw_runtime ?w)"
    by (simp_all add: create_only_def create_fields init_conv_world_def init_runtime_def)
  show ?thesis
    by (rule resting_conversation_accepts [OF demo_conv_distinct refl w(3), THEN conjunct2]) (simp_all add: w)
qed

section \<open>Listings\<close>

text \<open>C34. Following the cursors gives the whole listing: a client that asks for the page after the last row it got,
  until a page says there is no more, reads every conversation of the user that the filters select, once, newest
  first.\<close>

theorem pages_cover_listing:
  assumes "conv_db_ok J db" and "effective_limit f + 1 \<noteq> 0" and "cf_cursor f = None" and "length (cv_rows db) < fuel"
  shows "walk_pages J user f fuel db = listed_rows J user f db"
proof -
  have "distinct (map cr_id (cv_rows db))" using assms(1) by (simp add: conv_db_ok_def)
  moreover have "length (listed_rows J user f db) \<le> length (cv_rows db)"
    by (simp add: listed_rows_def newest_first_def)
  ultimately show ?thesis using walk_from [of db f 0 J user fuel] assms by simp
qed

definition three_rows :: conv_db where
  "three_rows = \<lparr>cv_rows = [demo_row\<lparr>cr_id := ''a''\<rparr>, demo_row\<lparr>cr_id := ''b'', cr_updated_at := 5\<rparr>, demo_row],
     cv_messages = [], cv_artifacts = [], cv_users = [''u'']\<rparr>"

definition pairs_of_rows :: conv_filters where
  "pairs_of_rows = \<lparr>cf_cursor = None, cf_limit = 2, cf_source = None, cf_cron_job_id = None, cf_pinned = None, cf_project_id = None\<rparr>"

lemma pages_cover_listing_witness:
  "walk_pages demo_conv_json ''u'' pairs_of_rows 4 three_rows = listed_rows demo_conv_json ''u'' pairs_of_rows three_rows \<and>
   map cr_id (listed_rows demo_conv_json ''u'' pairs_of_rows three_rows) = [''b'', ''c'', ''a'']"
proof
  show "walk_pages demo_conv_json ''u'' pairs_of_rows 4 three_rows = listed_rows demo_conv_json ''u'' pairs_of_rows three_rows"
    by (rule pages_cover_listing)
      (simp_all add: conv_db_ok_def three_rows_def demo_row_def conv_status_ok_def demo_conv_json_def effective_limit_def pairs_of_rows_def)
  show "map cr_id (listed_rows demo_conv_json ''u'' pairs_of_rows three_rows) = [''b'', ''c'', ''a'']"
    by code_simp
qed

text \<open>A page of messages is the slice its number names, and says whether more follow, as long as the offset fits
  the 32 bits the service computes it in.\<close>

lemma message_page_is_slice:
  assumes "0 < page_no" and "0 < n" and "n + 1 \<noteq> 0" and "(unat page_no - 1) * unat n < 2 ^ 32"
  shows "pg_items (get_messages c page_no n ord db) =
      take (unat n) (drop ((unat page_no - 1) * unat n) (sort_messages ord (shown_messages c db))) \<and>
    (pg_has_more (get_messages c page_no n ord db) \<longleftrightarrow> unat page_no * unat n < length (shown_messages c db))"
proof -
  have nz: "page_no \<noteq> 0" "n \<noteq> 0" using assms(1,2) by auto
  have "unat (page_no - 1) = unat page_no - 1" by (rule unat_minus_one) (rule nz)
  with assms(4) have offset: "unat ((page_no - 1) * n) = (unat page_no - 1) * unat n"
    by (simp add: unat_word_ariths)
  have len: "length (sort_messages ord (shown_messages c db)) = length (shown_messages c db)"
    by (simp add: sort_messages_def split: sort_order.splits)
  have "0 < unat page_no" using nz(1) by (simp add: unat_gt_0)
  then have whole: "(unat page_no - 1) * unat n + unat n = unat page_no * unat n"
    by (cases "unat page_no") simp_all
  have "get_messages c page_no n ord db =
      take_page n (unat ((page_no - 1) * n)) (sort_messages ord (shown_messages c db)) (length (shown_messages c db))"
    using nz by (simp add: get_messages_def page_offset_def)
  then show ?thesis by (simp add: take_page_items [OF assms(3)] offset len whole [simplified])
qed

definition two_messages :: conv_db where
  "two_messages = three_rows\<lparr>cv_messages :=
     [\<lparr>mr_id = ''m1'', mr_conversation_id = ''a'', mr_msg_id = None, mr_type = ''text'', mr_content = [], mr_position = None,
       mr_status = None, mr_hidden = False, mr_created_at = 1\<rparr>,
      \<lparr>mr_id = ''m2'', mr_conversation_id = ''a'', mr_msg_id = None, mr_type = ''text'', mr_content = [], mr_position = None,
       mr_status = None, mr_hidden = False, mr_created_at = 2\<rparr>]\<rparr>"

lemma message_page_is_slice_witness:
  "map mr_id (pg_items (get_messages ''a'' 2 1 SortDesc two_messages)) = [''m1''] \<and>
   \<not> pg_has_more (get_messages ''a'' 2 1 SortDesc two_messages)"
proof -
  have "sort_messages SortDesc (shown_messages ''a'' two_messages) = rev (cv_messages two_messages)"
    by code_simp
  moreover have "length (shown_messages ''a'' two_messages) = 2" by code_simp
  ultimately show ?thesis
    using message_page_is_slice [of 2 1 "''a''" SortDesc two_messages] by (simp add: two_messages_def)
qed

text \<open>Beyond that the offset wraps around: page 65537 of pages of 65536 messages is the first page again.\<close>

lemma page_number_wraps: "get_messages c 65537 65536 ord db = get_messages c 1 65536 ord db"
  by (simp add: get_messages_def page_offset_def)

section \<open>Where interleavings go wrong\<close>

text \<open>
  A turn that ends while the hooks of a deletion run clears the deletion flag, so that a new turn claims the
  conversation that is being deleted, and keeps running when its row is gone.
\<close>

definition delete_race :: "conv_op list" where
  "delete_race =
     [OpCreate demo_row, OpSend ''u'' ''c'' hello_request, OpTurn 0 InGo, OpDelete ''u'' ''c'', OpDeleteStep 1,
      OpTurn 0 InGo, OpTurn 0 InGo, OpTurn 0 InGo, OpTurn 0 (InOptions (Inl ConvRateLimited)), OpTurn 0 InGo, OpTurn 0 InGo,
      OpSend ''u'' ''c'' hello_request, OpTurn 2 InGo]"

lemma turn_starts_during_delete:
  "let w = fold (conv_step demo_conv_env) delete_race (init_conv_world [''u''])
   in map_option dp_phase (cw_deletes w 1) = Some (DlHooks True) \<and> map_option (live_phase \<circ> tp_phase) (cw_turns w 2) = Some True \<and>
      map_option (live_phase \<circ> tp_phase) (cw_turns (delete_step 1 (delete_step 1 w)) 2) = Some True \<and>
      cv_rows (delete_step 1 (delete_step 1 w)) = []"
  by code_simp

text \<open>
  A cancellation that marks its conversation after the turn has ended leaves the mark behind; the next message of
  the user is accepted and dropped.
\<close>

definition stale_cancel :: "conv_op list" where
  "stale_cancel =
     [OpCreate demo_row, OpSend ''u'' ''c'' hello_request, OpTurn 0 InGo, OpTurn 0 InGo, OpTurn 0 InGo, OpTurn 0 InGo,
      OpTurn 0 (InOptions (Inl ConvRateLimited)), OpTurn 0 InGo,
      OpCancel ''u'' ''c'' ''r'', OpCancelStep 1 (InHasTask True), OpTurn 0 InGo, OpTurn 0 InGo, OpCancelStep 1 InMark,
      OpSend ''u'' ''c'' hello_request, OpTurn 2 InGo, OpTurn 2 InGo, OpTurn 2 InGo, OpTurn 2 InGo]"

lemma message_lost_after_stale_cancel:
  "let w = fold (conv_step demo_conv_env) stale_cancel (init_conv_world [''u''])
   in map_option tp_phase (cw_turns w 2) = Some (PhComplete False TurnUnsent) \<and>
      length (filter (\<lambda>m. mr_type m = ''text'') (cv_messages w)) = 1"
  by code_simp

end
