(* ===== verification/ConvTurnTables.thy ===== *)
theory ConvTurnTables
  imports ConvTurnProperties
begin

text \<open>The tables stay well typed along every interleaving of the conversation service.\<close>

lemma ok_helpers [simp]:
  "conv_db_ok J (go i p ph w) \<longleftrightarrow> conv_db_ok J w"
  "conv_db_ok J (set_turn i p w) \<longleftrightarrow> conv_db_ok J w"
  "conv_db_ok J (conv_emit e w) \<longleftrightarrow> conv_db_ok J w"
  "conv_db_ok J (draw w) \<longleftrightarrow> conv_db_ok J w"
  "conv_db_ok J (set_delete i d dp w) \<longleftrightarrow> conv_db_ok J w"
  "conv_db_ok J (set_cancel i c cp w) \<longleftrightarrow> conv_db_ok J w"
  "conv_db_ok J (w\<lparr>cw_runtime := rt\<rparr>) \<longleftrightarrow> conv_db_ok J w"
  "conv_db_ok J (w\<lparr>cw_kills := ks\<rparr>) \<longleftrightarrow> conv_db_ok J w"
  "conv_db_ok J (w\<lparr>cw_procs := n\<rparr>) \<longleftrightarrow> conv_db_ok J w"
  by (simp_all add: conv_db_ok_def go_def set_turn_def conv_emit_def draw_def set_delete_def set_cancel_def)

lemma insert_message_tables: "insert_message m w = (w', r) \<Longrightarrow> conv_db_ok J w \<Longrightarrow> conv_db_ok J w'"
  using insert_message_ok [of J w m] by simp

lemma update_tables: "conv_update_row J c u w = (w', r) \<Longrightarrow> conv_db_ok J w \<Longrightarrow> conv_db_ok J w'"
  using conv_update_row_ok [of J w c u] by simp

lemma delete_tables: "conv_delete_row c w = (w', r) \<Longrightarrow> conv_db_ok J w \<Longrightarrow> conv_db_ok J w'"
  using conv_delete_row_ok [of J w c] by simp

lemmas tables = insert_message_tables update_tables delete_tables

lemma release_tables [simp]:
  "conv_db_ok J (drop_step i p r w) \<longleftrightarrow> conv_db_ok J w" "conv_db_ok J (release_step i p r w) \<longleftrightarrow> conv_db_ok J w"
  by (simp_all add: drop_step_def release_step_def split: prod.splits)

lemma turn_step_tables:
  assumes "conv_db_ok (cn_json E) w"
  shows "conv_db_ok (cn_json E) (turn_step E i inp w)"
proof (cases "cw_turns w i")
  case None
  then show ?thesis using assms by (simp add: turn_step_def)
next
  case (Some p)
  have steps: "conv_db_ok (cn_json E) (claim_step E i p w)" "conv_db_ok (cn_json E) (user_insert_step i p m w)"
    "conv_db_ok (cn_json E) (workspace_step E i p ag w)" "conv_db_ok (cn_json E) (session_key_step E i p key rest w)"
    "conv_db_ok (cn_json E) (evict_step i p code failed w)" "conv_db_ok (cn_json E) (seed_step E i p failed w)"
    "conv_db_ok (cn_json E) (tip_step E i p tip w)" "conv_db_ok (cn_json E) (publish_step E i p sm res w)"
    for m ag key rest code failed tip sm res
    using assms
    by (auto simp: claim_step_def user_insert_step_def workspace_step_def session_key_step_def evict_step_def
        seed_step_def tip_step_def publish_step_def Let_def conv_update_row_ok
        split: prod.splits sum.splits option.splits dest: tables)
  have "conv_db_ok (cn_json E) (run_phase E i p inp w)"
    unfolding run_phase_def on_go_def options_step_def user_limit_step_def profile_limit_step_def build_step_def
      relay_step_def complete_step_def Let_def
    using assms steps by (auto split: turn_phase.splits turn_input.splits sum.splits)
  then show ?thesis using Some by (simp add: turn_step_def)
qed

lemma delete_step_tables: "conv_db_ok J w \<Longrightarrow> conv_db_ok J (delete_step i w)"
proof (cases "cw_deletes w i")
  case (Some d)
  assume "conv_db_ok J w"
  then have "conv_db_ok J (run_delete i d (dp_phase d) w)"
    by (cases "dp_phase d") (auto simp: mark_deleting_def split: prod.splits sum.splits dest: tables)
  then show ?thesis using Some by (simp add: delete_step_def)
qed (simp add: delete_step_def)

lemma conv_step_tables:
  assumes "conv_db_ok (cn_json E) w"
  shows "conv_db_ok (cn_json E) (conv_step E x w)"
proof (cases x)
  case (OpCreate r)
  then show ?thesis using conv_create_ok [OF assms] by simp
next
  case (OpReset user c)
  have "conv_db_ok (cn_json E) (draw (delete_artifacts_by_conversation c (delete_messages_by_conversation c w)))"
    using assms by (simp add: delete_messages_ok delete_artifacts_ok)
  then show ?thesis using OpReset assms
    by (auto simp: conv_reset_def conv_update_row_ok split: sum.splits)
next
  case (OpSend user c req)
  then show ?thesis using assms
    by (auto simp: send_message_start_def new_turn_def split: sum.splits option.splits)
next
  case (OpAgentTurn user c req)
  then show ?thesis using assms
    by (auto simp: run_agent_turn_start_def new_turn_def split: sum.splits option.splits)
next
  case (OpTurn i inp)
  then show ?thesis using turn_step_tables [OF assms] by simp
next
  case (OpDelete user c)
  then show ?thesis using assms by (auto simp: delete_start_def split: sum.splits)
next
  case (OpDeleteStep i)
  then show ?thesis using delete_step_tables [OF assms] by simp
next
  case (OpCancel user c t)
  then show ?thesis using assms by (auto simp: cancel_start_def split: sum.splits)
next
  case (OpCancelStep i inp)
  then show ?thesis using assms
    by (auto simp: cancel_step_def run_cancel_def split: option.splits cancel_phase.splits cancel_input.splits sum.splits)
next
  case OpShutdown
  then show ?thesis using assms by simp
qed

interpretation conv_tables: machine "\<lambda>w. conv_db_ok (cn_json E) w" "conv_step E" for E
  by unfold_locales (rule conv_step_tables)


end
