(* ===== verification/CronTypes.thy ===== *)
theory CronTypes
  imports ConvRepo ConvRuntime ChannelPairing
begin

text \<open>
  Scheduled jobs: the types of \<open>aionui-cron/src/types.rs\<close> and \<open>error.rs\<close> with the conversions between a job, its
  row in the table \<open>cron_jobs\<close> and the request's schedule, and the statements of
  \<open>aionui-db/src/repository/sqlite_cron.rs\<close>.

  The JSON of an agent configuration is \<open>cron_lib\<close>'s, with the cron expressions and time zones of the crates
  \<open>cron\<close> and \<open>chrono_tz\<close>. Numbers are integers; where the code adds to a time, the sum wraps at 64 bits.
\<close>

section \<open>Jobs\<close>

datatype cron_schedule =
  SchedAt int "string option"
| SchedEvery int "string option"
| SchedCron string "string option" "string option"

datatype schedule_dto =
  DtoAt int "string option"
| DtoEvery int "string option"
| DtoCron string "string option" "string option"

datatype execution_mode = ExistingMode | NewConversationMode
datatype created_by = ByUser | ByAgent
datatype job_status = JobOk | JobError | JobSkipped | JobMissed

record cron_agent_config =
  ac_backend :: string
  ac_name :: string
  ac_cli_path :: "string option"
  ac_is_preset :: "bool option"
  ac_custom_agent_id :: "string option"
  ac_preset_agent_type :: "string option"
  ac_mode :: "string option"
  ac_model_id :: "string option"
  ac_config_options :: "(string \<times> string) list option"
  ac_workspace :: "string option"

record cron_job =
  cj_id :: string
  cj_name :: string
  cj_enabled :: bool
  cj_schedule :: cron_schedule
  cj_message :: string
  cj_execution_mode :: execution_mode
  cj_agent_config :: "cron_agent_config option"
  cj_conversation_id :: string
  cj_conversation_title :: "string option"
  cj_agent_type :: string
  cj_created_by :: created_by
  cj_skill_content :: "string option"
  cj_description :: "string option"
  cj_created_at :: int
  cj_updated_at :: int
  cj_next_run_at :: "int option"
  cj_last_run_at :: "int option"
  cj_last_status :: "job_status option"
  cj_last_error :: "string option"
  cj_run_count :: int
  cj_retry_count :: int
  cj_max_retries :: int

record cron_row =
  cw_id :: string
  cw_name :: string
  cw_enabled :: bool
  cw_schedule_kind :: string
  cw_schedule_value :: string
  cw_schedule_tz :: "string option"
  cw_schedule_description :: "string option"
  cw_payload_message :: string
  cw_execution_mode :: string
  cw_agent_config :: "string option"
  cw_conversation_id :: string
  cw_conversation_title :: "string option"
  cw_agent_type :: string
  cw_created_by :: string
  cw_skill_content :: "string option"
  cw_description :: "string option"
  cw_created_at :: int
  cw_updated_at :: int
  cw_next_run_at :: "int option"
  cw_last_run_at :: "int option"
  cw_last_status :: "string option"
  cw_last_error :: "string option"
  cw_run_count :: int
  cw_retry_count :: int
  cw_max_retries :: int

datatype cron_error =
  JobNotFound string | InvalidSchedule string | InvalidCronExpression string | InvalidExecutionMode string
| InvalidCreatedBy string | InvalidJobStatus string | InvalidTimezone string | InvalidSkillContent string
| InvalidAgentConfig string | CronScheduler string | CronWorkspaceUnavailable string
| CronWorkspaceRuntimeUnavailable string | CronConversation conv_error | CronDatabase db_error | CronJson

text \<open>
  What the code takes from other crates: JSON of an agent configuration, whether an expression parses
  (\<open>Schedule::from_str\<close>) and a time zone exists, the next time of an expression in a zone (UTC by default) after a
  time, whether a path is a directory, and the text of the errors of the conversation and database crates.
\<close>

record cron_lib =
  cl_json :: json_lib
  cl_config_ser :: "cron_agent_config \<Rightarrow> string"
  cl_config_de :: "string \<Rightarrow> cron_agent_config option"
  cl_expr_ok :: "string \<Rightarrow> bool"
  cl_tz_ok :: "string \<Rightarrow> bool"
  cl_next_after :: "string \<Rightarrow> string option \<Rightarrow> int \<Rightarrow> int option"
  cl_workspace_ok :: "string \<Rightarrow> bool"
  cl_conv_text :: "conv_error \<Rightarrow> string"
  cl_db_text :: "db_error \<Rightarrow> string"

section \<open>Printed forms\<close>

fun cron_error_text :: "cron_lib \<Rightarrow> cron_error \<Rightarrow> string" where
  "cron_error_text L (JobNotFound s) = ''Cron job not found: '' @ s"
| "cron_error_text L (InvalidSchedule s) = ''Invalid schedule: '' @ s"
| "cron_error_text L (InvalidCronExpression s) = ''Invalid cron expression: '' @ s"
| "cron_error_text L (InvalidExecutionMode s) = ''Invalid execution mode: '' @ s"
| "cron_error_text L (InvalidCreatedBy s) = ''Invalid created-by value: '' @ s"
| "cron_error_text L (InvalidJobStatus s) = ''Invalid job status: '' @ s"
| "cron_error_text L (InvalidTimezone s) = ''Invalid timezone: '' @ s"
| "cron_error_text L (InvalidSkillContent s) = ''Invalid skill content: '' @ s"
| "cron_error_text L (InvalidAgentConfig s) = ''Invalid agent config: '' @ s"
| "cron_error_text L (CronScheduler s) = ''Scheduler error: '' @ s"
| "cron_error_text L (CronWorkspaceUnavailable s) = ''Workspace path is unavailable: '' @ s"
| "cron_error_text L (CronWorkspaceRuntimeUnavailable s) = ''Workspace path is unavailable during execution: '' @ s"
| "cron_error_text L (CronConversation e) = cl_conv_text L e"
| "cron_error_text L (CronDatabase e) = cl_db_text L e"
| "cron_error_text L CronJson = ''JSON error: ''"

fun execution_mode_as_str :: "execution_mode \<Rightarrow> string" where
  "execution_mode_as_str ExistingMode = ''existing''"
| "execution_mode_as_str NewConversationMode = ''new_conversation''"

definition execution_mode_from_str :: "string \<Rightarrow> cron_error + execution_mode" where
  "execution_mode_from_str s =
     (if s = ''existing'' then Inr ExistingMode
      else if s = ''new_conversation'' then Inr NewConversationMode
      else Inl (InvalidExecutionMode s))"

fun created_by_as_str :: "created_by \<Rightarrow> string" where
  "created_by_as_str ByUser = ''user''"
| "created_by_as_str ByAgent = ''agent''"

definition created_by_from_str :: "string \<Rightarrow> cron_error + created_by" where
  "created_by_from_str s =
     (if s = ''user'' then Inr ByUser
      else if s = ''agent'' then Inr ByAgent
      else Inl (InvalidCreatedBy s))"

fun job_status_as_str :: "job_status \<Rightarrow> string" where
  "job_status_as_str JobOk = ''ok''"
| "job_status_as_str JobError = ''error''"
| "job_status_as_str JobSkipped = ''skipped''"
| "job_status_as_str JobMissed = ''missed''"

definition job_status_from_str :: "string \<Rightarrow> cron_error + job_status" where
  "job_status_from_str s =
     (if s = ''ok'' then Inr JobOk
      else if s = ''error'' then Inr JobError
      else if s = ''skipped'' then Inr JobSkipped
      else if s = ''missed'' then Inr JobMissed
      else Inl (InvalidJobStatus s))"

text \<open>\<open>str::parse::<i64>\<close>\<close>

definition digit_of :: "char \<Rightarrow> nat option" where
  "digit_of c = (let k = (of_char c :: nat) in if 48 \<le> k \<and> k \<le> 57 then Some (k - 48) else None)"

fun parse_digits :: "nat \<Rightarrow> string \<Rightarrow> nat option" where
  "parse_digits acc [] = Some acc"
| "parse_digits acc (c # cs) = (case digit_of c of None \<Rightarrow> None | Some k \<Rightarrow> parse_digits (10 * acc + k) cs)"

definition i64_min :: int where "i64_min = - (2 ^ 63)"
definition i64_max :: int where "i64_max = 2 ^ 63 - 1"

definition in_i64 :: "int \<Rightarrow> bool" where
  "in_i64 i = (i64_min \<le> i \<and> i \<le> i64_max)"

definition parse_i64 :: "string \<Rightarrow> int option" where
  "parse_i64 s =
     (let neg = starts_with ''-'' s;
          ds = (if neg \<or> starts_with ''+'' s then tl s else s);
          value = (if ds = [] then None else parse_digits 0 ds)
      in case value of
           None \<Rightarrow> None
         | Some k \<Rightarrow> (let i = (if neg then - int k else int k) in if in_i64 i then Some i else None))"

text \<open>Addition of two \<open>i64\<close> in a release build\<close>

definition i64_add :: "int \<Rightarrow> int \<Rightarrow> int" where
  "i64_add a b = (a + b + 2 ^ 63) mod 2 ^ 64 - 2 ^ 63"

section \<open>Rows and jobs\<close>

definition parse_schedule :: "string \<Rightarrow> string \<Rightarrow> string option \<Rightarrow> string option \<Rightarrow> cron_error + cron_schedule" where
  "parse_schedule kind value tz description =
     (if kind = ''at'' then
        (case parse_i64 value of
           None \<Rightarrow> Inl (InvalidSchedule (''invalid at_ms '' @ quoted value))
         | Some at_ms \<Rightarrow> Inr (SchedAt at_ms description))
      else if kind = ''every'' then
        (case parse_i64 value of
           None \<Rightarrow> Inl (InvalidSchedule (''invalid every_ms '' @ quoted value))
         | Some every_ms \<Rightarrow> Inr (SchedEvery every_ms description))
      else if kind = ''cron'' then Inr (SchedCron value tz description)
      else Inl (InvalidSchedule (''unknown schedule kind: '' @ kind)))"

fun schedule_to_row_fields :: "cron_schedule \<Rightarrow> string \<times> string \<times> string option \<times> string option" where
  "schedule_to_row_fields (SchedAt at_ms d) = (''at'', decimal_int at_ms, None, d)"
| "schedule_to_row_fields (SchedEvery every_ms d) = (''every'', decimal_int every_ms, None, d)"
| "schedule_to_row_fields (SchedCron expr tz d) = (''cron'', expr, tz, d)"

fun schedule_from_dto :: "schedule_dto \<Rightarrow> cron_schedule" where
  "schedule_from_dto (DtoAt at_ms d) = SchedAt at_ms d"
| "schedule_from_dto (DtoEvery every_ms d) = SchedEvery every_ms d"
| "schedule_from_dto (DtoCron expr tz d) = SchedCron expr tz d"

fun schedule_from_dto_with_existing_timezone :: "schedule_dto \<Rightarrow> cron_schedule \<Rightarrow> cron_schedule" where
  "schedule_from_dto_with_existing_timezone (DtoCron expr tz d) existing =
     SchedCron expr (case tz of Some z \<Rightarrow> Some z | None \<Rightarrow> (case existing of SchedCron _ z _ \<Rightarrow> z | _ \<Rightarrow> None)) d"
| "schedule_from_dto_with_existing_timezone dto existing = schedule_from_dto dto"

definition cron_job_from_row :: "cron_lib \<Rightarrow> cron_row \<Rightarrow> cron_error + cron_job" where
  "cron_job_from_row L r =
     (case parse_schedule (cw_schedule_kind r) (cw_schedule_value r) (cw_schedule_tz r) (cw_schedule_description r) of
        Inl e \<Rightarrow> Inl e
      | Inr schedule \<Rightarrow>
     (case execution_mode_from_str (cw_execution_mode r) of
        Inl e \<Rightarrow> Inl e
      | Inr mode \<Rightarrow>
     (case created_by_from_str (cw_created_by r) of
        Inl e \<Rightarrow> Inl e
      | Inr by \<Rightarrow>
     (case (case cw_agent_config r of None \<Rightarrow> Inr None
            | Some t \<Rightarrow> (case cl_config_de L t of None \<Rightarrow> Inl CronJson | Some c \<Rightarrow> Inr (Some c))) of
        Inl e \<Rightarrow> Inl e
      | Inr config \<Rightarrow>
     (case (case cw_last_status r of None \<Rightarrow> Inr None
            | Some t \<Rightarrow> (case job_status_from_str t of Inl e \<Rightarrow> Inl e | Inr v \<Rightarrow> Inr (Some v))) of
        Inl e \<Rightarrow> Inl e
      | Inr status \<Rightarrow>
          Inr \<lparr>cj_id = cw_id r, cj_name = cw_name r, cj_enabled = cw_enabled r, cj_schedule = schedule,
               cj_message = cw_payload_message r, cj_execution_mode = mode, cj_agent_config = config,
               cj_conversation_id = cw_conversation_id r, cj_conversation_title = cw_conversation_title r,
               cj_agent_type = cw_agent_type r, cj_created_by = by, cj_skill_content = cw_skill_content r,
               cj_description = cw_description r, cj_created_at = cw_created_at r, cj_updated_at = cw_updated_at r,
               cj_next_run_at = cw_next_run_at r, cj_last_run_at = cw_last_run_at r, cj_last_status = status,
               cj_last_error = cw_last_error r, cj_run_count = cw_run_count r, cj_retry_count = cw_retry_count r,
               cj_max_retries = cw_max_retries r\<rparr>)))))"

definition cron_job_to_row :: "cron_lib \<Rightarrow> cron_job \<Rightarrow> cron_row" where
  "cron_job_to_row L j =
     (case schedule_to_row_fields (cj_schedule j) of (kind, value, tz, d) \<Rightarrow>
        \<lparr>cw_id = cj_id j, cw_name = cj_name j, cw_enabled = cj_enabled j, cw_schedule_kind = kind,
         cw_schedule_value = value, cw_schedule_tz = tz, cw_schedule_description = d,
         cw_payload_message = cj_message j, cw_execution_mode = execution_mode_as_str (cj_execution_mode j),
         cw_agent_config = map_option (cl_config_ser L) (cj_agent_config j),
         cw_conversation_id = cj_conversation_id j, cw_conversation_title = cj_conversation_title j,
         cw_agent_type = cj_agent_type j, cw_created_by = created_by_as_str (cj_created_by j),
         cw_skill_content = cj_skill_content j, cw_description = cj_description j,
         cw_created_at = cj_created_at j, cw_updated_at = cj_updated_at j, cw_next_run_at = cj_next_run_at j,
         cw_last_run_at = cj_last_run_at j, cw_last_status = map_option job_status_as_str (cj_last_status j),
         cw_last_error = cj_last_error j, cw_run_count = cj_run_count j, cw_retry_count = cj_retry_count j,
         cw_max_retries = cj_max_retries j\<rparr>)"

section \<open>The table\<close>

text \<open>\<open>UpdateCronJobParams\<close>: no field for the maximum of retries.\<close>

record cron_update =
  cu_name :: "string option"
  cu_enabled :: "bool option"
  cu_schedule_kind :: "string option"
  cu_schedule_value :: "string option"
  cu_schedule_tz :: "string option option"
  cu_schedule_description :: "string option option"
  cu_payload_message :: "string option"
  cu_execution_mode :: "string option"
  cu_agent_config :: "string option option"
  cu_conversation_id :: "string option"
  cu_conversation_title :: "string option option"
  cu_agent_type :: "string option"
  cu_skill_content :: "string option option"
  cu_description :: "string option option"
  cu_next_run_at :: "int option option"
  cu_last_run_at :: "int option option"
  cu_last_status :: "string option option"
  cu_last_error :: "string option option"
  cu_run_count :: "int option"
  cu_retry_count :: "int option"

definition no_cron_update :: cron_update where
  "no_cron_update =
     \<lparr>cu_name = None, cu_enabled = None, cu_schedule_kind = None, cu_schedule_value = None, cu_schedule_tz = None,
      cu_schedule_description = None, cu_payload_message = None, cu_execution_mode = None, cu_agent_config = None,
      cu_conversation_id = None, cu_conversation_title = None, cu_agent_type = None, cu_skill_content = None,
      cu_description = None, cu_next_run_at = None, cu_last_run_at = None, cu_last_status = None,
      cu_last_error = None, cu_run_count = None, cu_retry_count = None\<rparr>"

definition apply_cron_update :: "cron_update \<Rightarrow> int \<Rightarrow> cron_row \<Rightarrow> cron_row" where
  "apply_cron_update u now =
     (\<lambda>r. r\<lparr>cw_updated_at := now\<rparr>) \<circ>
     set_field (cu_retry_count u) (\<lambda>x r. r\<lparr>cw_retry_count := x\<rparr>) \<circ>
     set_field (cu_run_count u) (\<lambda>x r. r\<lparr>cw_run_count := x\<rparr>) \<circ>
     set_field (cu_last_error u) (\<lambda>x r. r\<lparr>cw_last_error := x\<rparr>) \<circ>
     set_field (cu_last_status u) (\<lambda>x r. r\<lparr>cw_last_status := x\<rparr>) \<circ>
     set_field (cu_last_run_at u) (\<lambda>x r. r\<lparr>cw_last_run_at := x\<rparr>) \<circ>
     set_field (cu_next_run_at u) (\<lambda>x r. r\<lparr>cw_next_run_at := x\<rparr>) \<circ>
     set_field (cu_description u) (\<lambda>x r. r\<lparr>cw_description := x\<rparr>) \<circ>
     set_field (cu_skill_content u) (\<lambda>x r. r\<lparr>cw_skill_content := x\<rparr>) \<circ>
     set_field (cu_agent_type u) (\<lambda>x r. r\<lparr>cw_agent_type := x\<rparr>) \<circ>
     set_field (cu_conversation_title u) (\<lambda>x r. r\<lparr>cw_conversation_title := x\<rparr>) \<circ>
     set_field (cu_conversation_id u) (\<lambda>x r. r\<lparr>cw_conversation_id := x\<rparr>) \<circ>
     set_field (cu_agent_config u) (\<lambda>x r. r\<lparr>cw_agent_config := x\<rparr>) \<circ>
     set_field (cu_execution_mode u) (\<lambda>x r. r\<lparr>cw_execution_mode := x\<rparr>) \<circ>
     set_field (cu_payload_message u) (\<lambda>x r. r\<lparr>cw_payload_message := x\<rparr>) \<circ>
     set_field (cu_schedule_description u) (\<lambda>x r. r\<lparr>cw_schedule_description := x\<rparr>) \<circ>
     set_field (cu_schedule_tz u) (\<lambda>x r. r\<lparr>cw_schedule_tz := x\<rparr>) \<circ>
     set_field (cu_schedule_value u) (\<lambda>x r. r\<lparr>cw_schedule_value := x\<rparr>) \<circ>
     set_field (cu_schedule_kind u) (\<lambda>x r. r\<lparr>cw_schedule_kind := x\<rparr>) \<circ>
     set_field (cu_name u) (\<lambda>x r. r\<lparr>cw_name := x\<rparr>) \<circ>
     set_field (cu_enabled u) (\<lambda>x r. r\<lparr>cw_enabled := x\<rparr>)"

text \<open>The CHECK constraints of the table\<close>

definition cron_row_ok :: "cron_row \<Rightarrow> bool" where
  "cron_row_ok r =
     (cw_schedule_kind r \<in> {''at'', ''every'', ''cron''} \<and>
      cw_execution_mode r \<in> {''existing'', ''new_conversation''} \<and>
      cw_created_by r \<in> {''user'', ''agent''} \<and>
      cw_last_status r \<in> {None, Some ''ok'', Some ''error'', Some ''skipped'', Some ''missed''})"

definition cron_insert :: "cron_row \<Rightarrow> cron_row list \<Rightarrow> (cron_row list, db_error, unit) outcome" where
  "cron_insert r rows =
     (if cw_id r \<in> cw_id ` set rows \<or> \<not> cron_row_ok r then (rows, Inl Query) else (rows @ [r], Inr ()))"

definition cron_get :: "string \<Rightarrow> cron_row list \<Rightarrow> cron_row option" where
  "cron_get i rows = find (\<lambda>r. cw_id r = i) rows"

definition cron_not_found :: "string \<Rightarrow> db_error" where
  "cron_not_found i = DbNotFound (''cron job '' @ quoted i)"

definition cron_update_row :: "string \<Rightarrow> cron_update \<Rightarrow> int \<Rightarrow> cron_row list \<Rightarrow> (cron_row list, db_error, unit) outcome" where
  "cron_update_row i u now rows =
     (if u = no_cron_update then (rows, Inr ())
      else case cron_get i rows of
        None \<Rightarrow> (rows, Inl (cron_not_found i))
      | Some r \<Rightarrow>
          if cron_row_ok (apply_cron_update u now r)
          then (update_where (\<lambda>r. cw_id r = i) (apply_cron_update u now) rows, Inr ())
          else (rows, Inl Query))"

definition cron_delete :: "string \<Rightarrow> cron_row list \<Rightarrow> (cron_row list, db_error, unit) outcome" where
  "cron_delete i rows =
     (if cron_get i rows = None then (rows, Inl (cron_not_found i))
      else (filter (\<lambda>r. cw_id r \<noteq> i) rows, Inr ()))"

definition cron_list_all :: "cron_row list \<Rightarrow> cron_row list" where
  "cron_list_all rows = sort_key cw_created_at rows"

definition cron_list_enabled :: "cron_row list \<Rightarrow> cron_row list" where
  "cron_list_enabled rows = sort_key cw_created_at (filter cw_enabled rows)"

definition cron_list_by_conversation :: "string \<Rightarrow> cron_row list \<Rightarrow> cron_row list" where
  "cron_list_by_conversation c rows = sort_key cw_created_at (filter (\<lambda>r. cw_conversation_id r = c) rows)"

definition cron_delete_by_conversation :: "string \<Rightarrow> cron_row list \<Rightarrow> cron_row list" where
  "cron_delete_by_conversation c rows = filter (\<lambda>r. cw_conversation_id r \<noteq> c) rows"

end
