(* ===== verification/CronScheduling.thy ===== *)
theory CronScheduling
  imports CronTypes
begin

text \<open>
  \<open>aionui-cron/src/scheduler.rs\<close>: validation of a schedule, the next time of a job, and the timers. A timer is a
  task that sleeps until its time, calls the tick and, unless it is for a single time, goes on; \<open>timer_fire\<close> is one
  call of the tick. A timer that has ended keeps its handle in the map.
\<close>

section \<open>Expressions and schedules\<close>

fun split_ws :: "string \<Rightarrow> string list" where
  "split_ws [] = [[]]"
| "split_ws (c # cs) =
     (if is_ws c then [] # split_ws cs
      else case split_ws cs of [] \<Rightarrow> [[c]] | w # ws \<Rightarrow> (c # w) # ws)"

definition split_whitespace :: "string \<Rightarrow> string list" where
  "split_whitespace s = filter (\<lambda>w. w \<noteq> []) (split_ws s)"

definition normalize_cron_expr :: "string \<Rightarrow> string" where
  "normalize_cron_expr expr =
     (let trimmed = trim expr in
      if length (split_whitespace trimmed) = 5 then ''0 '' @ trimmed else trimmed)"

definition validate_cron_expression :: "cron_lib \<Rightarrow> string \<Rightarrow> cron_error + unit" where
  "validate_cron_expression L expr =
     (if cl_expr_ok L (normalize_cron_expr expr) then Inr () else Inl (InvalidCronExpression expr))"

definition validate_timezone :: "cron_lib \<Rightarrow> string \<Rightarrow> cron_error + unit" where
  "validate_timezone L tz = (if cl_tz_ok L tz then Inr () else Inl (InvalidTimezone tz))"

definition compute_cron_next_run :: "cron_lib \<Rightarrow> string \<Rightarrow> string option \<Rightarrow> int \<Rightarrow> int option" where
  "compute_cron_next_run L expr tz now =
     (let normalized = normalize_cron_expr expr in
      if \<not> cl_expr_ok L normalized then None
      else case tz of
        Some z \<Rightarrow> if cl_tz_ok L z then cl_next_after L normalized (Some z) now else None
      | None \<Rightarrow> cl_next_after L normalized None now)"

fun compute_next_run :: "cron_lib \<Rightarrow> cron_schedule \<Rightarrow> int \<Rightarrow> int option" where
  "compute_next_run L (SchedAt at_ms d) now = Some at_ms"
| "compute_next_run L (SchedEvery every_ms d) now =
     (if every_ms \<le> 0 then None else Some (i64_add now every_ms))"
| "compute_next_run L (SchedCron expr tz d) now = compute_cron_next_run L expr tz now"

fun validate_schedule :: "cron_lib \<Rightarrow> cron_schedule \<Rightarrow> cron_error + unit" where
  "validate_schedule L (SchedAt at_ms d) = Inr ()"
| "validate_schedule L (SchedEvery every_ms d) =
     (if every_ms \<le> 0 then Inl (InvalidSchedule ''every_ms must be positive'') else Inr ())"
| "validate_schedule L (SchedCron expr tz d) =
     (if trim expr = [] then Inr ()
      else case validate_cron_expression L expr of
        Inl e \<Rightarrow> Inl e
      | Inr _ \<Rightarrow> (case tz of None \<Rightarrow> Inr () | Some z \<Rightarrow> validate_timezone L z))"

section \<open>Timers\<close>

datatype timer_kind = AtTimer | EveryTimer int | CronTimer string "string option"

record cron_timer =
  tm_kind :: timer_kind
  tm_due :: int
  tm_first :: bool
  tm_live :: bool

type_synonym timers = "string \<Rightarrow> cron_timer option"

fun timer_kind_of :: "cron_schedule \<Rightarrow> timer_kind" where
  "timer_kind_of (SchedAt _ _) = AtTimer"
| "timer_kind_of (SchedEvery every_ms _) = EveryTimer every_ms"
| "timer_kind_of (SchedCron expr tz _) = CronTimer expr tz"

definition cancel_timer :: "string \<Rightarrow> timers \<Rightarrow> timers" where
  "cancel_timer i T = T(i := None)"

definition schedule_job :: "cron_job \<Rightarrow> timers \<Rightarrow> timers" where
  "schedule_job j T =
     (let T = cancel_timer (cj_id j) T in
      if \<not> cj_enabled j then T
      else case cj_next_run_at j of
        None \<Rightarrow> T
      | Some at \<Rightarrow>
          T(cj_id j := Some \<lparr>tm_kind = timer_kind_of (cj_schedule j), tm_due = at, tm_first = True, tm_live = True\<rparr>))"

definition is_scheduled :: "string \<Rightarrow> timers \<Rightarrow> bool" where
  "is_scheduled i T = (T i \<noteq> None)"

definition timer_live :: "string \<Rightarrow> timers \<Rightarrow> bool" where
  "timer_live i T = (case T i of None \<Rightarrow> False | Some tm \<Rightarrow> tm_live tm)"

text \<open>
  The timer after it called the tick at \<open>now\<close>, not before its time: a single time has passed, an interval starts
  when the first tick is called and its next times follow one another, an expression gives its next time after \<open>now\<close>.
\<close>

definition next_timer :: "cron_lib \<Rightarrow> int \<Rightarrow> cron_timer \<Rightarrow> cron_timer" where
  "next_timer L now tm =
     (case tm_kind tm of
        AtTimer \<Rightarrow> tm\<lparr>tm_live := False\<rparr>
      | EveryTimer p \<Rightarrow> tm\<lparr>tm_due := (if tm_first tm then now else tm_due tm) + p, tm_first := False\<rparr>
      | CronTimer expr tz \<Rightarrow>
          (case compute_cron_next_run L expr tz now of
             None \<Rightarrow> tm\<lparr>tm_live := False\<rparr>
           | Some at \<Rightarrow> tm\<lparr>tm_due := at, tm_first := False\<rparr>))"

definition timer_fire :: "cron_lib \<Rightarrow> int \<Rightarrow> string \<Rightarrow> timers \<Rightarrow> timers option" where
  "timer_fire L now i T =
     (case T i of
        None \<Rightarrow> None
      | Some tm \<Rightarrow> if tm_live tm \<and> tm_due tm \<le> now then Some (T(i := Some (next_timer L now tm))) else None)"

end
