(* ===== verification/CronService.thy ===== *)
theory CronService
  imports CronScheduling
begin

text \<open>
  The service of scheduled jobs: \<open>aionui-cron/src/service.rs\<close> with the parts of \<open>executor.rs\<close> that decide the
  result of an execution. An execution runs beside everything else, so the work under way is part of the state: a
  tick that a timer has called, with the job it loaded, and a run on request.

  Every operation reads the clock once. What an execution meets outside this module is its input: the saved skill,
  the conversation it creates, the agent, the answer to the message. Skill files, the tips' JSON apart, and log
  statements are left out; the statements of an operation do not fail except by a constraint or a missing row.
\<close>

section \<open>State\<close>

datatype execution_result = ExecSuccess string | ExecRetrying int | ExecSkipped | ExecError string

datatype cron_event =
  JobCreated cron_job | JobUpdated cron_job | JobRemoved string
| JobExecuted string string "string option"
| ConversationTips string string string

datatype flight =
  TickSpawned string
| TickLoaded cron_job
| TickExecuted cron_job execution_result
| RunPrepared cron_job string
| RunExecuted string execution_result

record cron_state =
  cs_jobs :: "cron_row list"
  cs_convs :: conv_db
  cs_timers :: timers
  cs_flights :: "flight list"
  cs_events :: "cron_event list"
  cs_minted :: nat

definition cron_emit :: "cron_event \<Rightarrow> cron_state \<Rightarrow> cron_state" where
  "cron_emit e st = st\<lparr>cs_events := cs_events st @ [e]\<rparr>"

text \<open>\<open>repo.update\<close> where a failure is only logged\<close>

definition update_quietly :: "string \<Rightarrow> cron_update \<Rightarrow> int \<Rightarrow> cron_state \<Rightarrow> cron_state" where
  "update_quietly i u now st = st\<lparr>cs_jobs := fst (cron_update_row i u now (cs_jobs st))\<rparr>"

definition system_default_user :: string where
  "system_default_user = ''system_default_user''"

section \<open>Requests\<close>

record create_job_request =
  jr_name :: string
  jr_description :: "string option"
  jr_schedule :: schedule_dto
  jr_prompt :: "string option"
  jr_message :: "string option"
  jr_conversation_id :: string
  jr_conversation_title :: "string option"
  jr_agent_type :: string
  jr_created_by :: string
  jr_execution_mode :: "string option"
  jr_agent_config :: "cron_agent_config option"

record update_job_request =
  ju_name :: "string option"
  ju_description :: "string option"
  ju_enabled :: "bool option"
  ju_schedule :: "schedule_dto option"
  ju_message :: "string option"
  ju_execution_mode :: "string option"
  ju_agent_config :: "cron_agent_config option"
  ju_conversation_title :: "string option"
  ju_max_retries :: "int option"

section \<open>Checks\<close>

definition reject_deprecated_agent_type :: "string \<Rightarrow> cron_error + unit" where
  "reject_deprecated_agent_type t =
     (case agent_type_parse t of
        None \<Rightarrow> Inr ()
      | Some a \<Rightarrow> if is_deprecated_runtime a
                  then Inl (InvalidAgentConfig ''This agent type is no longer supported for new conversations.'')
                  else Inr ())"

definition validate_aionrs_agent_config :: "string \<Rightarrow> cron_agent_config option \<Rightarrow> cron_error + unit" where
  "validate_aionrs_agent_config t config =
     (if t \<noteq> ''aionrs'' then Inr ()
      else if (case config of None \<Rightarrow> False | Some c \<Rightarrow> trim (ac_backend c) \<noteq> []) then Inr ()
      else Inl (InvalidAgentConfig ''aionrs cron jobs require agent_config.backend (provider_id)''))"

definition parse_execution_mode :: "string option \<Rightarrow> cron_error + execution_mode" where
  "parse_execution_mode m =
     (case m of None \<Rightarrow> Inr ExistingMode
      | Some s \<Rightarrow> if s = ''existing'' then Inr ExistingMode else execution_mode_from_str s)"

definition execution_workspace_raw :: "cron_lib \<Rightarrow> cron_job \<Rightarrow> string \<Rightarrow> conv_db \<Rightarrow> string" where
  "execution_workspace_raw L j c convs =
     (case (case cj_agent_config j of None \<Rightarrow> None | Some a \<Rightarrow> ac_workspace a) of
        Some w \<Rightarrow> w
      | None \<Rightarrow>
          (case conv_get c convs of
             None \<Rightarrow> []
           | Some row \<Rightarrow> (case js_field (cl_json L) (cr_extra row) ''workspace'' of None \<Rightarrow> [] | Some w \<Rightarrow> w)))"

definition workspace_available :: "cron_lib \<Rightarrow> string \<Rightarrow> bool" where
  "workspace_available L w = (trim w = [] \<or> cl_workspace_ok L w)"

definition validate_job_workspace :: "cron_lib \<Rightarrow> cron_job \<Rightarrow> conv_db \<Rightarrow> cron_error + unit" where
  "validate_job_workspace L j convs =
     (let w = execution_workspace_raw L j (cj_conversation_id j) convs in
      if workspace_available L w then Inr () else Inl (CronWorkspaceUnavailable w))"

section \<open>Binding a conversation to a job\<close>

definition bound_extra :: "json_lib \<Rightarrow> string \<Rightarrow> string \<Rightarrow> string" where
  "bound_extra J extra i =
     (let fresh = js_object J [(''cron_job_id'', i), (''cronJobId'', i)] in
      if \<not> js_valid J extra then fresh
      else case js_set J extra ''cron_job_id'' i of
        None \<Rightarrow> fresh
      | Some e \<Rightarrow> (case js_set J e ''cronJobId'' i of None \<Rightarrow> fresh | Some e' \<Rightarrow> e'))"

definition bind_cron_job :: "cron_lib \<Rightarrow> int \<Rightarrow> string \<Rightarrow> string \<Rightarrow> conv_db \<Rightarrow> conv_db" where
  "bind_cron_job L now c i convs =
     (case conv_get c convs of
        None \<Rightarrow> convs
      | Some row \<Rightarrow>
          (let J = cl_json L;
               current = (case js_field J (cr_extra row) ''cron_job_id'' of
                            Some v \<Rightarrow> Some v | None \<Rightarrow> js_field J (cr_extra row) ''cronJobId'')
           in if current = Some i then convs
              else fst (conv_update_row J c
                (no_conv_update\<lparr>vu_extra := Some (bound_extra J (cr_extra row) i), vu_updated_at := Some now\<rparr>) convs)))"

definition bind_existing_conversation :: "cron_lib \<Rightarrow> int \<Rightarrow> cron_job \<Rightarrow> cron_state \<Rightarrow> cron_state" where
  "bind_existing_conversation L now j st =
     (if cj_execution_mode j \<noteq> ExistingMode \<or> trim (cj_conversation_id j) = [] then st
      else st\<lparr>cs_convs := bind_cron_job L now (cj_conversation_id j) (cj_id j) (cs_convs st)\<rparr>)"

section \<open>Creating, changing and removing jobs\<close>

definition new_job :: "cron_lib \<Rightarrow> int \<Rightarrow> string \<Rightarrow> execution_mode \<Rightarrow> created_by \<Rightarrow> create_job_request \<Rightarrow> cron_job" where
  "new_job L now i mode by r =
     \<lparr>cj_id = i, cj_name = jr_name r, cj_enabled = True, cj_schedule = schedule_from_dto (jr_schedule r),
      cj_message = (case jr_message r of Some m \<Rightarrow> m | None \<Rightarrow> (case jr_prompt r of Some p \<Rightarrow> p | None \<Rightarrow> [])),
      cj_execution_mode = mode, cj_agent_config = jr_agent_config r, cj_conversation_id = jr_conversation_id r,
      cj_conversation_title = jr_conversation_title r, cj_agent_type = jr_agent_type r, cj_created_by = by,
      cj_skill_content = None, cj_description = jr_description r, cj_created_at = now, cj_updated_at = now,
      cj_next_run_at = compute_next_run L (schedule_from_dto (jr_schedule r)) now, cj_last_run_at = None,
      cj_last_status = None, cj_last_error = None, cj_run_count = 0, cj_retry_count = 0, cj_max_retries = 3\<rparr>"

definition check_new_job :: "cron_lib \<Rightarrow> create_job_request \<Rightarrow> cron_error + execution_mode \<times> created_by" where
  "check_new_job L r =
     (case validate_schedule L (schedule_from_dto (jr_schedule r)) of Inl e \<Rightarrow> Inl e | Inr _ \<Rightarrow>
     (case reject_deprecated_agent_type (jr_agent_type r) of Inl e \<Rightarrow> Inl e | Inr _ \<Rightarrow>
     (case validate_aionrs_agent_config (jr_agent_type r) (jr_agent_config r) of Inl e \<Rightarrow> Inl e | Inr _ \<Rightarrow>
     (case parse_execution_mode (jr_execution_mode r) of Inl e \<Rightarrow> Inl e | Inr mode \<Rightarrow>
     (case created_by_from_str (jr_created_by r) of Inl e \<Rightarrow> Inl e | Inr by \<Rightarrow> Inr (mode, by))))))"

definition add_job :: "cron_lib \<Rightarrow> env \<Rightarrow> int \<Rightarrow> create_job_request \<Rightarrow> cron_state \<Rightarrow> (cron_state, cron_error, cron_job) outcome" where
  "add_job L E now r st =
     (case check_new_job L r of
        Inl e \<Rightarrow> (st, Inl e)
      | Inr (mode, by) \<Rightarrow>
          (let j = new_job L now (''cron_'' @ mint_id E (cs_minted st)) mode by r;
               st = st\<lparr>cs_minted := Suc (cs_minted st)\<rparr>
           in case validate_job_workspace L j (cs_convs st) of
                Inl e \<Rightarrow> (st, Inl e)
              | Inr _ \<Rightarrow>
                  (case cron_insert (cron_job_to_row L j) (cs_jobs st) of
                     (rows, Inl e) \<Rightarrow> (st\<lparr>cs_jobs := rows\<rparr>, Inl (CronDatabase e))
                   | (rows, Inr _) \<Rightarrow>
                       (let st = bind_existing_conversation L now j (st\<lparr>cs_jobs := rows\<rparr>)
                        in (cron_emit (JobCreated j) (st\<lparr>cs_timers := schedule_job j (cs_timers st)\<rparr>), Inr j)))))"

text \<open>The job with the request's changes\<close>

definition edited_job :: "cron_lib \<Rightarrow> int \<Rightarrow> update_job_request \<Rightarrow> cron_job \<Rightarrow> cron_error + cron_job" where
  "edited_job L now r j =
     (let j = set_field (ju_name r) (\<lambda>x j. j\<lparr>cj_name := x\<rparr>) j;
          j = set_field (ju_description r) (\<lambda>x j. j\<lparr>cj_description := Some x\<rparr>) j;
          j = set_field (ju_enabled r) (\<lambda>x j. j\<lparr>cj_enabled := x\<rparr>) j
      in case (case ju_schedule r of None \<Rightarrow> Inr (cj_schedule j)
               | Some dto \<Rightarrow>
                   (let s = schedule_from_dto_with_existing_timezone dto (cj_schedule j)
                    in case validate_schedule L s of Inl e \<Rightarrow> Inl e | Inr _ \<Rightarrow> Inr s)) of
        Inl e \<Rightarrow> Inl e
      | Inr schedule \<Rightarrow>
     (let j = set_field (ju_message r) (\<lambda>x j. j\<lparr>cj_message := x\<rparr>) (j\<lparr>cj_schedule := schedule\<rparr>)
      in case (case ju_execution_mode r of None \<Rightarrow> Inr (cj_execution_mode j) | Some m \<Rightarrow> parse_execution_mode (Some m)) of
        Inl e \<Rightarrow> Inl e
      | Inr mode \<Rightarrow>
     (case (case ju_agent_config r of None \<Rightarrow> Inr (cj_agent_config j)
            | Some c \<Rightarrow> (case validate_aionrs_agent_config (cj_agent_type j) (Some c) of Inl e \<Rightarrow> Inl e | Inr _ \<Rightarrow> Inr (Some c))) of
        Inl e \<Rightarrow> Inl e
      | Inr config \<Rightarrow>
          (let j = j\<lparr>cj_execution_mode := mode, cj_agent_config := config\<rparr>;
               j = set_field (ju_conversation_title r) (\<lambda>x j. j\<lparr>cj_conversation_title := Some x\<rparr>) j;
               j = set_field (ju_max_retries r) (\<lambda>x j. j\<lparr>cj_max_retries := x\<rparr>) j;
               j = (if ju_schedule r \<noteq> None \<or> ju_enabled r \<noteq> None
                    then j\<lparr>cj_next_run_at := compute_next_run L (cj_schedule j) now\<rparr> else j)
           in Inr (j\<lparr>cj_updated_at := now\<rparr>)))))"

definition build_update_params :: "cron_lib \<Rightarrow> cron_job \<Rightarrow> update_job_request \<Rightarrow> cron_update" where
  "build_update_params L j r =
     (let fields = schedule_to_row_fields (cj_schedule j); changed = ju_schedule r \<noteq> None
      in no_cron_update
        \<lparr>cu_name := ju_name r, cu_enabled := ju_enabled r,
         cu_schedule_kind := (if changed then Some (fst fields) else None), cu_schedule_value := (if changed then Some (fst (snd fields)) else None),
         cu_schedule_tz := (if changed then Some (fst (snd (snd fields))) else None), cu_schedule_description := (if changed then Some (snd (snd (snd fields))) else None),
         cu_payload_message := ju_message r, cu_execution_mode := ju_execution_mode r,
         cu_agent_config := map_option (\<lambda>c. Some (cl_config_ser L c)) (ju_agent_config r),
         cu_conversation_title := map_option Some (ju_conversation_title r),
         cu_description := map_option Some (ju_description r),
         cu_next_run_at := (if ju_schedule r \<noteq> None \<or> ju_enabled r \<noteq> None then Some (cj_next_run_at j) else None)\<rparr>)"

definition update_job :: "cron_lib \<Rightarrow> int \<Rightarrow> string \<Rightarrow> update_job_request \<Rightarrow> cron_state \<Rightarrow> (cron_state, cron_error, cron_job) outcome" where
  "update_job L now i r st =
     (case cron_get i (cs_jobs st) of None \<Rightarrow> (st, Inl (JobNotFound i)) | Some row \<Rightarrow>
     (case cron_job_from_row L row of Inl e \<Rightarrow> (st, Inl e) | Inr existing \<Rightarrow>
     (case reject_deprecated_agent_type (cj_agent_type existing) of Inl e \<Rightarrow> (st, Inl e) | Inr _ \<Rightarrow>
     (case edited_job L now r existing of Inl e \<Rightarrow> (st, Inl e) | Inr j \<Rightarrow>
     (case validate_job_workspace L j (cs_convs st) of Inl e \<Rightarrow> (st, Inl e) | Inr _ \<Rightarrow>
     (case cron_update_row i (build_update_params L j r) now (cs_jobs st) of
        (rows, Inl e) \<Rightarrow> (st\<lparr>cs_jobs := rows\<rparr>, Inl (CronDatabase e))
      | (rows, Inr _) \<Rightarrow>
          (let st = bind_existing_conversation L now j (st\<lparr>cs_jobs := rows\<rparr>)
           in (cron_emit (JobUpdated j) (st\<lparr>cs_timers := schedule_job j (cs_timers st)\<rparr>), Inr j))))))))"

definition remove_job :: "string \<Rightarrow> cron_state \<Rightarrow> (cron_state, cron_error, unit) outcome" where
  "remove_job i st =
     (let st = st\<lparr>cs_timers := cancel_timer i (cs_timers st)\<rparr>
      in case cron_delete i (cs_jobs st) of
           (rows, Inl e) \<Rightarrow> (st\<lparr>cs_jobs := rows\<rparr>, Inl (CronDatabase e))
         | (rows, Inr _) \<Rightarrow> (cron_emit (JobRemoved i) (st\<lparr>cs_jobs := rows\<rparr>), Inr ()))"

definition delete_jobs_by_conversation :: "string \<Rightarrow> cron_state \<Rightarrow> cron_state" where
  "delete_jobs_by_conversation c st =
     (let st = fold (\<lambda>row st. cron_emit (JobRemoved (cw_id row)) (st\<lparr>cs_timers := cancel_timer (cw_id row) (cs_timers st)\<rparr>))
                 (cron_list_by_conversation c (cs_jobs st)) st
      in st\<lparr>cs_jobs := cron_delete_by_conversation c (cs_jobs st)\<rparr>)"

section \<open>Reading and ownership\<close>

definition get_job :: "cron_lib \<Rightarrow> string \<Rightarrow> cron_state \<Rightarrow> cron_error + cron_job" where
  "get_job L i st =
     (case cron_get i (cs_jobs st) of None \<Rightarrow> Inl (JobNotFound i) | Some row \<Rightarrow> cron_job_from_row L row)"

fun all_jobs :: "cron_lib \<Rightarrow> cron_row list \<Rightarrow> cron_error + cron_job list" where
  "all_jobs L [] = Inr []"
| "all_jobs L (r # rs) =
     (case cron_job_from_row L r of
        Inl e \<Rightarrow> Inl e
      | Inr j \<Rightarrow> (case all_jobs L rs of Inl e \<Rightarrow> Inl e | Inr js \<Rightarrow> Inr (j # js)))"

definition list_jobs :: "cron_lib \<Rightarrow> string option \<Rightarrow> cron_state \<Rightarrow> cron_error + cron_job list" where
  "list_jobs L conv st =
     all_jobs L (case conv of Some c \<Rightarrow> cron_list_by_conversation c (cs_jobs st) | None \<Rightarrow> cron_list_all (cs_jobs st))"

definition job_owner :: "cron_job \<Rightarrow> conv_db \<Rightarrow> string" where
  "job_owner j convs =
     (if trim (cj_conversation_id j) = [] then system_default_user
      else case conv_get (cj_conversation_id j) convs of
        None \<Rightarrow> system_default_user
      | Some row \<Rightarrow> if trim (cr_user_id row) = [] then system_default_user else cr_user_id row)"

definition ensure_owner :: "cron_lib \<Rightarrow> string \<Rightarrow> string \<Rightarrow> cron_state \<Rightarrow> cron_error + unit" where
  "ensure_owner L user i st =
     (case get_job L i st of
        Inl e \<Rightarrow> Inl e
      | Inr j \<Rightarrow> if job_owner j (cs_convs st) = user then Inr () else Inl (JobNotFound i))"

definition user_owns_conversation :: "string \<Rightarrow> string \<Rightarrow> conv_db \<Rightarrow> bool" where
  "user_owns_conversation user c convs =
     (if trim c = [] then True
      else case conv_get c convs of
        None \<Rightarrow> True
      | Some row \<Rightarrow> if trim (cr_user_id row) = [] then True else cr_user_id row = user)"

definition list_jobs_for_user :: "cron_lib \<Rightarrow> string \<Rightarrow> string option \<Rightarrow> cron_state \<Rightarrow> cron_error + cron_job list" where
  "list_jobs_for_user L user conv st =
     (case list_jobs L conv st of
        Inl e \<Rightarrow> Inl e
      | Inr js \<Rightarrow> Inr (filter (\<lambda>j. job_owner j (cs_convs st) = user) js))"

section \<open>Executing a job\<close>

datatype send_outcome = SendOk | SendBusy string | SendFailed conv_error

text \<open>
  What an execution meets: the error of the saved skill, the conversation created (its id, or the error), whether the
  conversation has a turn under way, the text of an error of preparing the agent, and the answer to the message.
\<close>

record exec_input =
  xi_skill :: "cron_error option"
  xi_created :: "cron_error + string"
  xi_claimed :: bool
  xi_setup :: "string option"
  xi_send :: send_outcome

definition handle_busy :: "cron_job \<Rightarrow> execution_result" where
  "handle_busy j = (if cj_max_retries j \<le> cj_retry_count j then ExecSkipped else ExecRetrying (cj_retry_count j + 1))"

definition resolve_conversation :: "exec_input \<Rightarrow> cron_job \<Rightarrow> conv_db \<Rightarrow> cron_error + string" where
  "resolve_conversation inp j convs =
     (if cj_execution_mode j = NewConversationMode \<or> trim (cj_conversation_id j) = [] then xi_created inp
      else if conv_get (cj_conversation_id j) convs = None
        then Inl (CronScheduler (''conversation '' @ cj_conversation_id j @ '' not found''))
      else Inr (cj_conversation_id j))"

definition execute_inner :: "cron_lib \<Rightarrow> bool \<Rightarrow> exec_input \<Rightarrow> cron_job \<Rightarrow> string \<Rightarrow> conv_db \<Rightarrow> execution_result" where
  "execute_inner L retry_on_busy inp j c convs =
     (if conv_get c convs = None then ExecError (''conversation '' @ c @ '' not found'')
      else case xi_setup inp of
        Some e \<Rightarrow> ExecError e
      | None \<Rightarrow>
          (case xi_send inp of
             SendOk \<Rightarrow> ExecSuccess c
           | SendBusy reason \<Rightarrow> if retry_on_busy then handle_busy j else ExecError (cl_conv_text L (ConvBusy reason))
           | SendFailed e \<Rightarrow> ExecError (cl_conv_text L e)))"

definition runtime_workspace_error :: "cron_lib \<Rightarrow> cron_job \<Rightarrow> conv_db \<Rightarrow> cron_error option" where
  "runtime_workspace_error L j convs =
     (let w = execution_workspace_raw L j (cj_conversation_id j) convs in
      if workspace_available L w then None else Some (CronWorkspaceRuntimeUnavailable w))"

definition execute :: "cron_lib \<Rightarrow> exec_input \<Rightarrow> cron_job \<Rightarrow> conv_db \<Rightarrow> execution_result" where
  "execute L inp j convs =
     (case xi_skill inp of Some e \<Rightarrow> ExecError (cron_error_text L e) | None \<Rightarrow>
     (case runtime_workspace_error L j convs of
        Some e \<Rightarrow> ExecError (cron_error_text L e) | None \<Rightarrow>
     (case resolve_conversation inp j convs of Inl e \<Rightarrow> ExecError (cron_error_text L e) | Inr c \<Rightarrow>
        if xi_claimed inp then handle_busy j else execute_inner L True inp j c convs)))"

definition prepare_run_now :: "cron_lib \<Rightarrow> exec_input \<Rightarrow> cron_job \<Rightarrow> conv_db \<Rightarrow> cron_error + string" where
  "prepare_run_now L inp j convs =
     (case xi_skill inp of Some e \<Rightarrow> Inl e | None \<Rightarrow>
     (case runtime_workspace_error L j convs of Some e \<Rightarrow> Inl e | None \<Rightarrow>
     (case resolve_conversation inp j convs of Inl e \<Rightarrow> Inl e | Inr c \<Rightarrow>
        if xi_claimed inp then Inl (CronConversation (ConvBusy (''conversation '' @ c @ '' is already running''))) else Inr c)))"

section \<open>After an execution\<close>

definition update_job_after_success :: "cron_lib \<Rightarrow> int \<Rightarrow> string \<Rightarrow> string \<Rightarrow> cron_state \<Rightarrow> cron_state" where
  "update_job_after_success L now i c st =
     (case cron_get i (cs_jobs st) of
        None \<Rightarrow> st
      | Some row \<Rightarrow>
          (let bind = trim (cw_conversation_id row) = [] \<and> trim c \<noteq> [];
               u = no_cron_update\<lparr>cu_last_run_at := Some (Some now), cu_last_status := Some (Some ''ok''),
                     cu_last_error := Some None, cu_retry_count := Some 0, cu_run_count := Some (cw_run_count row + 1),
                     cu_conversation_id := (if bind then Some c else None)\<rparr>
           in case cron_update_row i u now (cs_jobs st) of
                (rows, Inl e) \<Rightarrow> st\<lparr>cs_jobs := rows\<rparr>
              | (rows, Inr _) \<Rightarrow>
                  (let st = st\<lparr>cs_jobs := rows\<rparr>
                   in if bind then st\<lparr>cs_convs := bind_cron_job L now c i (cs_convs st)\<rparr> else st)))"

definition update_job_after_error :: "int \<Rightarrow> string \<Rightarrow> string \<Rightarrow> cron_state \<Rightarrow> cron_state" where
  "update_job_after_error now i message st =
     (case cron_get i (cs_jobs st) of
        None \<Rightarrow> st
      | Some row \<Rightarrow>
          update_quietly i (no_cron_update\<lparr>cu_last_run_at := Some (Some now), cu_last_status := Some (Some ''error''),
            cu_last_error := Some (Some message), cu_retry_count := Some 0, cu_run_count := Some (cw_run_count row + 1)\<rparr>) now st)"

definition mark_skipped :: "int \<Rightarrow> string \<Rightarrow> cron_state \<Rightarrow> cron_state" where
  "mark_skipped now i st =
     update_quietly i (no_cron_update\<lparr>cu_last_status := Some (Some ''skipped''), cu_retry_count := Some 0\<rparr>) now st"

definition is_at :: "cron_schedule \<Rightarrow> bool" where
  "is_at s = (case s of SchedAt _ _ \<Rightarrow> True | _ \<Rightarrow> False)"

definition disable_params :: cron_update where
  "disable_params = no_cron_update\<lparr>cu_enabled := Some False, cu_next_run_at := Some None\<rparr>"

definition reschedule_after_execution :: "cron_lib \<Rightarrow> int \<Rightarrow> cron_job \<Rightarrow> cron_state \<Rightarrow> cron_state" where
  "reschedule_after_execution L now j st =
     (if is_at (cj_schedule j) then
        (let st = update_quietly (cj_id j) disable_params now st
         in cron_emit (JobUpdated (j\<lparr>cj_enabled := False, cj_next_run_at := None\<rparr>))
              (st\<lparr>cs_timers := cancel_timer (cj_id j) (cs_timers st)\<rparr>))
      else
        (let at = compute_next_run L (cj_schedule j) now;
             st = update_quietly (cj_id j) (no_cron_update\<lparr>cu_next_run_at := Some at\<rparr>) now st
         in st\<lparr>cs_timers := schedule_job (j\<lparr>cj_next_run_at := at\<rparr>) (cs_timers st)\<rparr>))"

definition retry_interval_ms :: int where
  "retry_interval_ms = 30000"

text \<open>\<open>schedule_retry\<close>: a timer for a single time under the job's id, made with a job of which only that counts.\<close>

definition schedule_retry :: "int \<Rightarrow> string \<Rightarrow> cron_state \<Rightarrow> cron_state" where
  "schedule_retry now i st =
     (let at = i64_add now retry_interval_ms;
          j = \<lparr>cj_id = i, cj_name = [], cj_enabled = True, cj_schedule = SchedAt at None, cj_message = [],
               cj_execution_mode = ExistingMode, cj_agent_config = None, cj_conversation_id = [],
               cj_conversation_title = None, cj_agent_type = [], cj_created_by = ByUser, cj_skill_content = None,
               cj_description = None, cj_created_at = 0, cj_updated_at = 0, cj_next_run_at = Some at,
               cj_last_run_at = None, cj_last_status = None, cj_last_error = None, cj_run_count = 0,
               cj_retry_count = 0, cj_max_retries = 0\<rparr>
      in st\<lparr>cs_timers := schedule_job j (cs_timers st)\<rparr>)"

definition handle_execution_result :: "cron_lib \<Rightarrow> int \<Rightarrow> cron_job \<Rightarrow> execution_result \<Rightarrow> cron_state \<Rightarrow> cron_state" where
  "handle_execution_result L now j res st =
     (let i = cj_id j in
      case res of
        ExecSuccess c \<Rightarrow>
          cron_emit (JobExecuted i ''ok'' None)
            (reschedule_after_execution L now j (update_job_after_success L now i c st))
      | ExecRetrying attempt \<Rightarrow>
          schedule_retry now i (update_quietly i (no_cron_update\<lparr>cu_retry_count := Some attempt\<rparr>) now st)
      | ExecSkipped \<Rightarrow>
          cron_emit (JobExecuted i ''skipped'' None) (reschedule_after_execution L now j (mark_skipped now i st))
      | ExecError message \<Rightarrow>
          cron_emit (JobExecuted i ''error'' (Some message))
            (reschedule_after_execution L now j (update_job_after_error now i message st)))"

definition handle_run_now_result :: "cron_lib \<Rightarrow> int \<Rightarrow> string \<Rightarrow> execution_result \<Rightarrow> cron_state \<Rightarrow> cron_state" where
  "handle_run_now_result L now i res st =
     (case res of
        ExecSuccess c \<Rightarrow> cron_emit (JobExecuted i ''ok'' None) (update_job_after_success L now i c st)
      | ExecError message \<Rightarrow> cron_emit (JobExecuted i ''error'' (Some message)) (update_job_after_error now i message st)
      | ExecRetrying attempt \<Rightarrow> update_quietly i (no_cron_update\<lparr>cu_retry_count := Some attempt\<rparr>) now st
      | ExecSkipped \<Rightarrow> cron_emit (JobExecuted i ''skipped'' None) (mark_skipped now i st))"

section \<open>Ticks and runs\<close>

text \<open>The first part of \<open>tick\<close>: the job to execute, if any.\<close>

definition tick_load :: "cron_lib \<Rightarrow> string \<Rightarrow> cron_state \<Rightarrow> cron_state \<times> cron_job option" where
  "tick_load L i st =
     (case cron_get i (cs_jobs st) of
        None \<Rightarrow> (st\<lparr>cs_timers := cancel_timer i (cs_timers st)\<rparr>, None)
      | Some row \<Rightarrow>
          (case cron_job_from_row L row of
             Inl e \<Rightarrow> (st, None)
           | Inr j \<Rightarrow> (st, if cj_enabled j then Some j else None)))"

definition land :: "flight \<Rightarrow> cron_state \<Rightarrow> cron_state" where
  "land f st = st\<lparr>cs_flights := cs_flights st @ [f]\<rparr>"

definition run_now :: "cron_lib \<Rightarrow> exec_input \<Rightarrow> string \<Rightarrow> cron_state \<Rightarrow> (cron_state, cron_error, string) outcome" where
  "run_now L inp i st =
     (case get_job L i st of
        Inl e \<Rightarrow> (st, Inl e)
      | Inr j \<Rightarrow>
          (case prepare_run_now L inp j (cs_convs st) of
             Inl e \<Rightarrow> (st, Inl e)
           | Inr c \<Rightarrow> (land (RunPrepared j c) st, Inr c)))"

text \<open>One step of the work with number \<open>k\<close>\<close>

definition advance :: "cron_lib \<Rightarrow> int \<Rightarrow> exec_input \<Rightarrow> nat \<Rightarrow> cron_state \<Rightarrow> cron_state" where
  "advance L now inp k st =
     (if length (cs_flights st) \<le> k then st
      else let f = cs_flights st ! k;
               st = st\<lparr>cs_flights := take k (cs_flights st) @ drop (Suc k) (cs_flights st)\<rparr>
      in case f of
           TickSpawned i \<Rightarrow> (case tick_load L i st of (st, None) \<Rightarrow> st | (st, Some j) \<Rightarrow> land (TickLoaded j) st)
         | TickLoaded j \<Rightarrow> land (TickExecuted j (execute L inp j (cs_convs st))) st
         | TickExecuted j res \<Rightarrow> handle_execution_result L now j res st
         | RunPrepared j c \<Rightarrow> land (RunExecuted (cj_id j) (execute_inner L False inp j c (cs_convs st))) st
         | RunExecuted i res \<Rightarrow> handle_run_now_result L now i res st)"

definition fire :: "cron_lib \<Rightarrow> int \<Rightarrow> string \<Rightarrow> cron_state \<Rightarrow> cron_state" where
  "fire L now i st =
     (case timer_fire L now i (cs_timers st) of
        None \<Rightarrow> st
      | Some T \<Rightarrow> land (TickSpawned i) (st\<lparr>cs_timers := T\<rparr>))"

section \<open>Starting and resuming\<close>

definition is_orphan :: "(string \<Rightarrow> bool) \<Rightarrow> cron_job \<Rightarrow> conv_db \<Rightarrow> bool" where
  "is_orphan claimed j convs =
     (cj_execution_mode j \<noteq> NewConversationMode \<and> trim (cj_conversation_id j) \<noteq> [] \<and>
      \<not> claimed (cj_conversation_id j) \<and> conv_get (cj_conversation_id j) convs = None)"

definition init_row :: "cron_lib \<Rightarrow> (string \<Rightarrow> bool) \<Rightarrow> cron_row \<Rightarrow> cron_state \<Rightarrow> cron_state" where
  "init_row L claimed row st =
     (case cron_job_from_row L row of
        Inl e \<Rightarrow> st
      | Inr j \<Rightarrow>
          if is_orphan claimed j (cs_convs st)
          then st\<lparr>cs_jobs := fst (cron_delete (cj_id j) (cs_jobs st))\<rparr>
          else st\<lparr>cs_timers := schedule_job j (cs_timers st)\<rparr>)"

definition init_jobs :: "cron_lib \<Rightarrow> (string \<Rightarrow> bool) \<Rightarrow> cron_state \<Rightarrow> cron_state" where
  "init_jobs L claimed st = fold (init_row L claimed) (cron_list_enabled (cs_jobs st)) st"

definition missed_tips :: "cron_job \<Rightarrow> string" where
  "missed_tips j =
     ''Scheduled task '' @ [CHR 0x22] @ cj_name j @ [CHR 0x22] @
     '' was missed while the system was unavailable. It was not run automatically.''"

definition insert_missed_job_tips :: "cron_lib \<Rightarrow> env \<Rightarrow> int \<Rightarrow> cron_job \<Rightarrow> cron_state \<Rightarrow> cron_state" where
  "insert_missed_job_tips L E now j st =
     (if trim (cj_conversation_id j) = [] then st
      else let m = \<lparr>mr_id = mint_id E (cs_minted st), mr_conversation_id = cj_conversation_id j, mr_msg_id = None,
                    mr_type = ''tips'',
                    mr_content = js_object (cl_json L) [(''content'', missed_tips j), (''type'', ''warning'')],
                    mr_position = Some ''center'', mr_status = Some ''finish'', mr_hidden = False, mr_created_at = now\<rparr>;
               st = st\<lparr>cs_minted := Suc (cs_minted st)\<rparr>
           in case insert_message m (cs_convs st) of
                (convs, Inl e) \<Rightarrow> st\<lparr>cs_convs := convs\<rparr>
              | (convs, Inr _) \<Rightarrow>
                  cron_emit (ConversationTips (cj_conversation_id j) (missed_tips j) ''warning'') (st\<lparr>cs_convs := convs\<rparr>))"

definition reschedule_after_missed :: "cron_lib \<Rightarrow> int \<Rightarrow> cron_job \<Rightarrow> cron_state \<Rightarrow> cron_state" where
  "reschedule_after_missed L now j st =
     (if is_at (cj_schedule j) then
        (let st = update_quietly (cj_id j) disable_params now st
         in st\<lparr>cs_timers := cancel_timer (cj_id j) (cs_timers st)\<rparr>)
      else
        (let at = compute_next_run L (cj_schedule j) now
         in case cron_update_row (cj_id j) (no_cron_update\<lparr>cu_next_run_at := Some at\<rparr>) now (cs_jobs st) of
              (rows, Inl e) \<Rightarrow> st\<lparr>cs_jobs := rows\<rparr>
            | (rows, Inr _) \<Rightarrow>
                st\<lparr>cs_jobs := rows, cs_timers := schedule_job (j\<lparr>cj_next_run_at := at\<rparr>) (cs_timers st)\<rparr>))"

definition resume_row :: "cron_lib \<Rightarrow> env \<Rightarrow> int \<Rightarrow> cron_row \<Rightarrow> cron_state \<Rightarrow> cron_state" where
  "resume_row L E now row st =
     (case cron_job_from_row L row of
        Inl e \<Rightarrow> st
      | Inr j \<Rightarrow>
          if (case cj_next_run_at j of None \<Rightarrow> False | Some at \<Rightarrow> at < now)
          then let st = update_quietly (cj_id j) (no_cron_update\<lparr>cu_last_status := Some (Some ''missed''),
                          cu_last_error := Some None, cu_retry_count := Some 0\<rparr>) now st;
                   st = insert_missed_job_tips L E now j st;
                   st = reschedule_after_missed L now j st
               in cron_emit (JobExecuted (cj_id j) ''missed'' None) st
          else st\<lparr>cs_timers := schedule_job j (cs_timers st)\<rparr>)"

definition handle_system_resume :: "cron_lib \<Rightarrow> env \<Rightarrow> int \<Rightarrow> cron_state \<Rightarrow> cron_state" where
  "handle_system_resume L E now st = fold (resume_row L E now) (cron_list_enabled (cs_jobs st)) st"

end
