(* ===== verification/CronRoutes.thy ===== *)
theory CronRoutes
  imports CronService ApiError
begin

text \<open>
  The requests of \<open>aionui-cron/src/routes.rs\<close>, the commands an agent embeds in its answers (\<open>ICronService\<close> of
  \<open>service.rs\<close>) and the steps of the running system: requests, commands, timers, executions, deletions of
  conversations, resumes and restarts, and changes of the conversations by their own module.

  A request or a command runs at once, beside the executions under way. The routes of a job's skill are not modelled.
\<close>

section \<open>Errors\<close>

fun api_of_conv :: "conv_error \<Rightarrow> api_error" where
  "api_of_conv (ConvNotFound i) = NotFound (''Conversation '' @ i @ '' not found'')"
| "api_of_conv (ConvMessageNotFound i) = NotFound (''Message '' @ i @ '' not found'')"
| "api_of_conv (ConvArtifactNotFound i) = NotFound (''Artifact '' @ i @ '' not found'')"
| "api_of_conv (ConvActiveAgentNotFound _) = NotFound ''No active agent for this conversation''"
| "api_of_conv (ConvArchived _ reason) = ConversationArchived reason"
| "api_of_conv (ConvBadRequest reason) = BadRequest reason"
| "api_of_conv (ConvBusy reason) = ApiConflict reason"
| "api_of_conv (ConvForbidden reason) = Forbidden reason"
| "api_of_conv (ConvNotFoundReason reason) = NotFound reason"
| "api_of_conv (ConvUnauthorized reason) = Unauthorized reason"
| "api_of_conv ConvRateLimited = ApiRateLimited"
| "api_of_conv (ConvBadGateway reason) = BadGateway reason"
| "api_of_conv (ConvTimeout reason) = ApiTimeout reason"
| "api_of_conv (ConvUnprocessable reason) = UnprocessableEntity reason"
| "api_of_conv (ConvInternal reason) = Internal reason"
| "api_of_conv (ConvWorkspaceUnavailable path) = WorkspacePathUnavailable path"
| "api_of_conv (ConvWorkspaceRuntimeUnavailable path) = WorkspacePathRuntimeUnavailable path"
| "api_of_conv (ConvAcp _) = BadGateway ''Agent protocol error''"

fun cron_db_to_api :: "db_error \<Rightarrow> api_error" where
  "cron_db_to_api (DbNotFound m) = NotFound m"
| "cron_db_to_api (DbConflict m) = ApiConflict m"
| "cron_db_to_api Query = InternalDb Query"
| "cron_db_to_api Migration = InternalDb Migration"
| "cron_db_to_api (DbInit m) = Internal (''Database init error: '' @ m)"

fun api_of_cron :: "cron_error \<Rightarrow> api_error" where
  "api_of_cron (JobNotFound m) = NotFound m"
| "api_of_cron (InvalidSchedule m) = BadRequest m"
| "api_of_cron (InvalidCronExpression m) = BadRequest m"
| "api_of_cron (InvalidExecutionMode m) = BadRequest m"
| "api_of_cron (InvalidCreatedBy m) = BadRequest m"
| "api_of_cron (InvalidJobStatus m) = BadRequest m"
| "api_of_cron (InvalidTimezone m) = BadRequest m"
| "api_of_cron (InvalidSkillContent m) = BadRequest m"
| "api_of_cron (InvalidAgentConfig m) = BadRequest m"
| "api_of_cron (CronScheduler m) = Internal m"
| "api_of_cron (CronWorkspaceUnavailable p) = WorkspacePathUnavailable p"
| "api_of_cron (CronWorkspaceRuntimeUnavailable p) = WorkspacePathRuntimeUnavailable p"
| "api_of_cron (CronConversation e) = api_of_conv e"
| "api_of_cron (CronDatabase e) = cron_db_to_api e"
| "api_of_cron CronJson = Internal ''JSON error: ''"

section \<open>Requests\<close>

text \<open>A number that does not fit its field is rejected with the body.\<close>

fun dto_fits :: "schedule_dto \<Rightarrow> bool" where
  "dto_fits (DtoAt n _) = in_i64 n"
| "dto_fits (DtoEvery n _) = in_i64 n"
| "dto_fits (DtoCron _ _ _) = True"

definition create_body :: "create_job_request body \<Rightarrow> create_job_request body" where
  "create_body b = (case b of Inr r \<Rightarrow> if dto_fits (jr_schedule r) then b else Inl 422 | _ \<Rightarrow> b)"

definition update_body :: "update_job_request body \<Rightarrow> update_job_request body" where
  "update_body b =
     (case b of
        Inr r \<Rightarrow> if (case ju_schedule r of None \<Rightarrow> True | Some d \<Rightarrow> dto_fits d) \<and>
                   (case ju_max_retries r of None \<Rightarrow> True | Some n \<Rightarrow> in_i64 n) then b else Inl 422
      | _ \<Rightarrow> b)"

datatype cron_response = RespJob cron_job | RespJobs "cron_job list" | RespDone | RespRun string

definition lift_result :: "cron_error + 'a \<Rightarrow> cron_state \<Rightarrow> (cron_state, api_error, 'a) outcome" where
  "lift_result r st = (case r of Inl e \<Rightarrow> (st, Inl (api_of_cron e)) | Inr x \<Rightarrow> (st, Inr x))"

definition create_job_handler ::
  "cron_lib \<Rightarrow> env \<Rightarrow> int \<Rightarrow> string \<Rightarrow> create_job_request body \<Rightarrow> cron_state \<Rightarrow> (cron_state, api_error, cron_response) outcome" where
  "create_job_handler L E now user body st =
     and_then (read_body (create_body body) st) (\<lambda>r st.
       if \<not> user_owns_conversation user (jr_conversation_id r) (cs_convs st)
       then (st, Inl (Forbidden ''conversation not owned by user''))
       else and_then (map_err api_of_cron (add_job L E now r st)) (\<lambda>j st. (st, Inr (RespJob j))))"

definition list_jobs_handler :: "cron_lib \<Rightarrow> string \<Rightarrow> string option \<Rightarrow> cron_state \<Rightarrow> (cron_state, api_error, cron_response) outcome" where
  "list_jobs_handler L user conv st =
     and_then (lift_result (list_jobs_for_user L user conv st) st) (\<lambda>js st. (st, Inr (RespJobs js)))"

definition get_job_handler :: "cron_lib \<Rightarrow> string \<Rightarrow> string \<Rightarrow> cron_state \<Rightarrow> (cron_state, api_error, cron_response) outcome" where
  "get_job_handler L user i st =
     and_then (lift_result (ensure_owner L user i st) st) (\<lambda>_ st.
     and_then (lift_result (get_job L i st) st) (\<lambda>j st. (st, Inr (RespJob j))))"

definition update_job_handler ::
  "cron_lib \<Rightarrow> int \<Rightarrow> string \<Rightarrow> string \<Rightarrow> update_job_request body \<Rightarrow> cron_state \<Rightarrow> (cron_state, api_error, cron_response) outcome" where
  "update_job_handler L now user i body st =
     and_then (read_body (update_body body) st) (\<lambda>r st.
     and_then (lift_result (ensure_owner L user i st) st) (\<lambda>_ st.
     and_then (map_err api_of_cron (update_job L now i r st)) (\<lambda>j st. (st, Inr (RespJob j)))))"

definition delete_job_handler :: "cron_lib \<Rightarrow> string \<Rightarrow> string \<Rightarrow> cron_state \<Rightarrow> (cron_state, api_error, cron_response) outcome" where
  "delete_job_handler L user i st =
     and_then (lift_result (ensure_owner L user i st) st) (\<lambda>_ st.
     and_then (map_err api_of_cron (remove_job i st)) (\<lambda>_ st. (st, Inr RespDone)))"

definition run_now_handler ::
  "cron_lib \<Rightarrow> exec_input \<Rightarrow> string \<Rightarrow> string \<Rightarrow> cron_state \<Rightarrow> (cron_state, api_error, cron_response) outcome" where
  "run_now_handler L inp user i st =
     and_then (lift_result (ensure_owner L user i st) st) (\<lambda>_ st.
     and_then (map_err api_of_cron (run_now L inp i st)) (\<lambda>c st. (st, Inr (RespRun c))))"

text \<open>\<open>hdr\<close> is the value of \<open>x-aionui-internal\<close>, which the request itself carries.\<close>

definition system_resume_handler ::
  "cron_lib \<Rightarrow> env \<Rightarrow> int \<Rightarrow> string option \<Rightarrow> cron_state \<Rightarrow> (cron_state, api_error, cron_response) outcome" where
  "system_resume_handler L E now hdr st =
     (if hdr \<noteq> Some ''1'' then (st, Inl (Forbidden ''internal route''))
      else (handle_system_resume L E now st, Inr RespDone))"

datatype cron_request =
  CreateJob "create_job_request body"
| ListJobs "string option"
| GetJob string
| UpdateJob string "update_job_request body"
| DeleteJob string
| RunJob string exec_input
| SystemResume "string option"

definition cron_routes ::
  "cron_lib \<Rightarrow> env \<Rightarrow> int \<Rightarrow> string \<Rightarrow> cron_request \<Rightarrow> cron_state \<Rightarrow> (cron_state, api_error, cron_response) outcome" where
  "cron_routes L E now user req st =
     (case req of
        CreateJob body \<Rightarrow> create_job_handler L E now user body st
      | ListJobs conv \<Rightarrow> list_jobs_handler L user conv st
      | GetJob i \<Rightarrow> get_job_handler L user i st
      | UpdateJob i body \<Rightarrow> update_job_handler L now user i body st
      | DeleteJob i \<Rightarrow> delete_job_handler L user i st
      | RunJob i inp \<Rightarrow> run_now_handler L inp user i st
      | SystemResume hdr \<Rightarrow> system_resume_handler L E now hdr st)"

section \<open>Commands of an agent\<close>

record cron_create_params =
  kp_name :: string
  kp_schedule :: string
  kp_schedule_description :: string
  kp_message :: string

text \<open>
  \<open>derived\<close> is what the conversation's row gives: agent type, title and configuration
  (\<open>build_agent_config_from_conversation\<close>, not modelled).
\<close>

definition agent_create_job ::
  "cron_lib \<Rightarrow> env \<Rightarrow> int \<Rightarrow> string \<Rightarrow> cron_create_params \<Rightarrow> string \<times> string option \<times> cron_agent_config option \<Rightarrow>
   cron_state \<Rightarrow> cron_state \<times> bool \<times> string" where
  "agent_create_job L E now c p derived st =
     (let r = \<lparr>jr_name = kp_name p, jr_description = None,
               jr_schedule = DtoCron (kp_schedule p) None (Some (kp_schedule_description p)),
               jr_prompt = None, jr_message = Some (kp_message p), jr_conversation_id = c,
               jr_conversation_title = fst (snd derived), jr_agent_type = fst derived, jr_created_by = ''agent'',
               jr_execution_mode = Some ''existing'', jr_agent_config = snd (snd derived)\<rparr>
      in case add_job L E now r st of
           (st, Inl e) \<Rightarrow> (st, False, cron_error_text L e)
         | (st, Inr j) \<Rightarrow>
             (st\<lparr>cs_convs := bind_cron_job L now c (cj_id j) (cs_convs st)\<rparr>, True,
              ''Created cron job '' @ quoted (cj_name j) @ '' ('' @ cj_id j @ '')''))"

definition agent_update_job ::
  "cron_lib \<Rightarrow> int \<Rightarrow> string \<Rightarrow> string \<Rightarrow> cron_create_params \<Rightarrow> cron_state \<Rightarrow> cron_state \<times> bool \<times> string" where
  "agent_update_job L now c i p st =
     (let r = \<lparr>ju_name = Some (kp_name p), ju_description = None, ju_enabled = None,
               ju_schedule = Some (DtoCron (kp_schedule p) None (Some (kp_schedule_description p))),
               ju_message = Some (kp_message p), ju_execution_mode = None, ju_agent_config = None,
               ju_conversation_title = None, ju_max_retries = None\<rparr>
      in case update_job L now i r st of
           (st, Inl e) \<Rightarrow> (st, False, cron_error_text L e)
         | (st, Inr j) \<Rightarrow>
             (st\<lparr>cs_convs := bind_cron_job L now c (cj_id j) (cs_convs st)\<rparr>, True,
              ''Updated cron job '' @ quoted (cj_name j) @ '' ('' @ cj_id j @ '')''))"

definition agent_list_jobs :: "cron_lib \<Rightarrow> string \<Rightarrow> cron_state \<Rightarrow> bool \<times> string" where
  "agent_list_jobs L c st =
     (case list_jobs L (Some c) st of
        Inl e \<Rightarrow> (False, cron_error_text L e)
      | Inr [] \<Rightarrow> (True, ''No cron jobs found for conversation '' @ quoted c @ ''.'')
      | Inr js \<Rightarrow>
          (True, ''Found '' @ decimal (length js) @ '' cron job(s) for conversation '' @ quoted c @ '':'' @ [CHR 0x0A] @
             join_lines (map (\<lambda>j. ''- '' @ cj_name j @ '' ('' @ cj_id j @ '') ['' @
                                 (if cj_enabled j then ''enabled'' else ''disabled'') @ '']'') js)))"

definition agent_delete_job :: "cron_lib \<Rightarrow> string \<Rightarrow> cron_state \<Rightarrow> cron_state \<times> bool \<times> string" where
  "agent_delete_job L i st =
     (case remove_job i st of
        (st, Inl e) \<Rightarrow> (st, False, cron_error_text L e)
      | (st, Inr _) \<Rightarrow> (st, True, ''Deleted cron job '' @ quoted i))"

section \<open>The running system\<close>

datatype cron_step =
  StepRequest string cron_request
| StepAgentCreate string cron_create_params "string \<times> string option \<times> cron_agent_config option"
| StepAgentUpdate string string cron_create_params
| StepAgentDelete string
| StepConversationDeleted string
| StepConversations conv_db
| StepFire string
| StepAdvance nat exec_input
| StepRestart "string \<Rightarrow> bool"

definition cron_step_to :: "cron_lib \<Rightarrow> env \<Rightarrow> int \<Rightarrow> cron_step \<Rightarrow> cron_state \<Rightarrow> cron_state" where
  "cron_step_to L E now step st =
     (case step of
        StepRequest user req \<Rightarrow> fst (cron_routes L E now user req st)
      | StepAgentCreate c p derived \<Rightarrow> fst (agent_create_job L E now c p derived st)
      | StepAgentUpdate c i p \<Rightarrow> fst (agent_update_job L now c i p st)
      | StepAgentDelete i \<Rightarrow> fst (agent_delete_job L i st)
      | StepConversationDeleted c \<Rightarrow> delete_jobs_by_conversation c st
      | StepConversations convs \<Rightarrow> st\<lparr>cs_convs := convs\<rparr>
      | StepFire i \<Rightarrow> fire L now i st
      | StepAdvance k inp \<Rightarrow> advance L now inp k st
      | StepRestart claimed \<Rightarrow> init_jobs L claimed (st\<lparr>cs_timers := (\<lambda>_. None), cs_flights := []\<rparr>))"

definition cron_start :: "conv_db \<Rightarrow> cron_state" where
  "cron_start convs =
     \<lparr>cs_jobs = [], cs_convs = convs, cs_timers = (\<lambda>_. None), cs_flights = [], cs_events = [], cs_minted = 0\<rparr>"

inductive cron_reachable :: "cron_lib \<Rightarrow> env \<Rightarrow> cron_state \<Rightarrow> bool" for L E where
  cron_starts: "cron_reachable L E (cron_start convs)"
| cron_goes: "cron_reachable L E st \<Longrightarrow> cron_reachable L E (cron_step_to L E now step st)"

end
