(* ===== verification/CronFacts.thy ===== *)
theory CronFacts
  imports CronRoutes ConvRepoFacts
begin

text \<open>
  Facts on the rows of scheduled jobs: numbers are read back as printed, a row written from a job gives that job, and
  what an update leaves of a row.
\<close>

section \<open>Numbers\<close>

lemma parse_digits_append:
  "parse_digits acc (xs @ ys) = (case parse_digits acc xs of None \<Rightarrow> None | Some a \<Rightarrow> parse_digits a ys)"
  by (induction xs arbitrary: acc) (auto split: option.splits)

lemma digit_of_char: "k < 10 \<Longrightarrow> digit_of (char_of (48 + k)) = Some k"
  by (simp add: digit_of_def Let_def)

lemma parse_decimal: "parse_digits 0 (decimal n) = Some n"
proof (induction n rule: decimal.induct)
  case (1 n)
  show ?case
  proof (cases "n < 10")
    case True
    then show ?thesis by (simp add: decimal.simps [of n] digit_of_char)
  next
    case False
    then have "parse_digits 0 (decimal (n div 10)) = Some (n div 10)" by (rule 1)
    then show ?thesis using False
      by (simp add: decimal.simps [of n] parse_digits_append digit_of_char)
  qed
qed

lemma decimal_not_Nil: "decimal n \<noteq> []"
  by (simp add: decimal.simps [of n])

lemma hd_decimal: "hd (decimal n) \<noteq> CHR ''-'' \<and> hd (decimal n) \<noteq> CHR ''+''"
proof -
  have "parse_digits 0 (hd (decimal n) # tl (decimal n)) = Some n"
    using decimal_not_Nil [of n] parse_decimal [of n] by simp
  then have "digit_of (hd (decimal n)) \<noteq> None" by (auto split: option.splits)
  then show ?thesis by (auto simp: digit_of_def Let_def)
qed

lemma no_sign: "\<not> starts_with ''-'' (decimal n) \<and> \<not> starts_with ''+'' (decimal n)"
proof (cases "decimal n")
  case Nil
  then show ?thesis by simp
next
  case (Cons c cs)
  then show ?thesis using hd_decimal [of n] by auto
qed

lemma parse_i64_decimal: "in_i64 i \<Longrightarrow> parse_i64 (decimal_int i) = Some i"
proof (cases "i < 0")
  case True
  then have d: "decimal_int i = CHR ''-'' # decimal (nat (- i))" by (simp add: decimal_int_def)
  assume "in_i64 i"
  then show ?thesis using True by (simp add: parse_i64_def d decimal_not_Nil parse_decimal Let_def)
next
  case False
  then have d: "decimal_int i = decimal (nat i)" by (simp add: decimal_int_def)
  assume "in_i64 i"
  then show ?thesis using False by (simp add: parse_i64_def d no_sign decimal_not_Nil parse_decimal Let_def)
qed

section \<open>Rows and jobs\<close>

definition config_json :: "cron_lib \<Rightarrow> bool" where
  "config_json L \<longleftrightarrow> (\<forall>c. cl_config_de L (cl_config_ser L c) = Some c)"

fun schedule_fits :: "cron_schedule \<Rightarrow> bool" where
  "schedule_fits (SchedAt n _) = in_i64 n"
| "schedule_fits (SchedEvery n _) = in_i64 n"
| "schedule_fits (SchedCron _ _ _) = True"

lemma parse_schedule_of_fields:
  "schedule_fits s \<Longrightarrow> schedule_to_row_fields s = (kind, value, tz, d) \<Longrightarrow> parse_schedule kind value tz d = Inr s"
  by (cases s) (auto simp: parse_schedule_def parse_i64_decimal)

lemma mode_round [simp]: "execution_mode_from_str (execution_mode_as_str m) = Inr m"
  by (cases m) (simp_all add: execution_mode_from_str_def)

lemma created_by_round [simp]: "created_by_from_str (created_by_as_str b) = Inr b"
  by (cases b) (simp_all add: created_by_from_str_def)

lemma status_round [simp]: "job_status_from_str (job_status_as_str s) = Inr s"
  by (cases s) (simp_all add: job_status_from_str_def)

text \<open>A row that gives a job: each of its coded columns is read.\<close>

definition row_reads :: "cron_lib \<Rightarrow> cron_row \<Rightarrow> bool" where
  "row_reads L r \<longleftrightarrow>
     (\<exists>s. parse_schedule (cw_schedule_kind r) (cw_schedule_value r) (cw_schedule_tz r) (cw_schedule_description r) = Inr s) \<and>
     (\<exists>m. execution_mode_from_str (cw_execution_mode r) = Inr m) \<and>
     (\<exists>b. created_by_from_str (cw_created_by r) = Inr b) \<and>
     (\<forall>t. cw_agent_config r = Some t \<longrightarrow> cl_config_de L t \<noteq> None) \<and>
     (\<forall>t. cw_last_status r = Some t \<longrightarrow> (\<exists>v. job_status_from_str t = Inr v))"

lemma cron_job_from_row_fields:
  assumes "cron_job_from_row L r = Inr j"
  shows "cj_id j = cw_id r" "cj_enabled j = cw_enabled r" "cj_next_run_at j = cw_next_run_at r"
    "cj_retry_count j = cw_retry_count r" "cj_max_retries j = cw_max_retries r"
    "cj_conversation_id j = cw_conversation_id r"
  using assms by (auto simp: cron_job_from_row_def split: sum.splits)

lemma row_reads_job:
  assumes "row_reads L r"
  obtains j where "cron_job_from_row L r = Inr j" "cj_id j = cw_id r" "cj_enabled j = cw_enabled r"
    "cj_next_run_at j = cw_next_run_at r" "cj_retry_count j = cw_retry_count r" "cj_max_retries j = cw_max_retries r"
    "parse_schedule (cw_schedule_kind r) (cw_schedule_value r) (cw_schedule_tz r) (cw_schedule_description r) = Inr (cj_schedule j)"
proof -
  obtain s m b where s: "parse_schedule (cw_schedule_kind r) (cw_schedule_value r) (cw_schedule_tz r) (cw_schedule_description r) = Inr s"
    "execution_mode_from_str (cw_execution_mode r) = Inr m" "created_by_from_str (cw_created_by r) = Inr b"
    using assms by (auto simp: row_reads_def)
  obtain c where c: "(case cw_agent_config r of None \<Rightarrow> Inr None
      | Some t \<Rightarrow> (case cl_config_de L t of None \<Rightarrow> Inl CronJson | Some c \<Rightarrow> Inr (Some c))) = Inr c"
    using assms by (cases "cw_agent_config r") (auto simp: row_reads_def)
  obtain v where v: "(case cw_last_status r of None \<Rightarrow> Inr None
      | Some t \<Rightarrow> (case job_status_from_str t of Inl e \<Rightarrow> Inl e | Inr v \<Rightarrow> Inr (Some v))) = Inr v"
    using assms by (cases "cw_last_status r") (auto simp: row_reads_def)
  have "\<exists>j. cron_job_from_row L r = Inr j \<and> cj_schedule j = s"
    by (simp add: cron_job_from_row_def s c v)
  then obtain j where "cron_job_from_row L r = Inr j" "cj_schedule j = s" by blast
  then show thesis using that cron_job_from_row_fields s(1) by metis
qed

lemma row_reads_ok: "row_reads L r \<Longrightarrow> cron_row_ok r"
  by (cases "cw_last_status r")
    (auto simp: row_reads_def cron_row_ok_def parse_schedule_def execution_mode_from_str_def created_by_from_str_def
      job_status_from_str_def split: if_splits)

section \<open>Updates\<close>

definition newer :: "'v option \<Rightarrow> 'v \<Rightarrow> 'v" where
  "newer u old = (case u of None \<Rightarrow> old | Some x \<Rightarrow> x)"

lemma newer_simps [simp]: "newer None x = x" "newer (Some y) x = y"
  by (simp_all add: newer_def)

lemma set_field_keep: "(\<And>x r. g (f x r) = g r) \<Longrightarrow> g (set_field v f r) = g r"
  by (cases v) simp_all

lemma set_field_new: "(\<And>x r. g (f x r) = x) \<Longrightarrow> g (set_field v f r) = newer v (g r)"
  by (cases v) simp_all

lemma apply_cron_update_fields [simp]:
  "cw_id (apply_cron_update u now r) = cw_id r"
  "cw_enabled (apply_cron_update u now r) = newer (cu_enabled u) (cw_enabled r)"
  "cw_next_run_at (apply_cron_update u now r) = newer (cu_next_run_at u) (cw_next_run_at r)"
  "cw_schedule_kind (apply_cron_update u now r) = newer (cu_schedule_kind u) (cw_schedule_kind r)"
  "cw_schedule_value (apply_cron_update u now r) = newer (cu_schedule_value u) (cw_schedule_value r)"
  "cw_schedule_tz (apply_cron_update u now r) = newer (cu_schedule_tz u) (cw_schedule_tz r)"
  "cw_schedule_description (apply_cron_update u now r) = newer (cu_schedule_description u) (cw_schedule_description r)"
  "cw_execution_mode (apply_cron_update u now r) = newer (cu_execution_mode u) (cw_execution_mode r)"
  "cw_created_by (apply_cron_update u now r) = cw_created_by r"
  "cw_agent_config (apply_cron_update u now r) = newer (cu_agent_config u) (cw_agent_config r)"
  "cw_last_status (apply_cron_update u now r) = newer (cu_last_status u) (cw_last_status r)"
  "cw_retry_count (apply_cron_update u now r) = newer (cu_retry_count u) (cw_retry_count r)"
  "cw_max_retries (apply_cron_update u now r) = cw_max_retries r"
  "cw_conversation_id (apply_cron_update u now r) = newer (cu_conversation_id u) (cw_conversation_id r)"
  by (simp_all add: apply_cron_update_def
    set_field_keep [of cw_id] set_field_new [of cw_id]
    set_field_keep [of cw_enabled] set_field_new [of cw_enabled]
    set_field_keep [of cw_next_run_at] set_field_new [of cw_next_run_at]
    set_field_keep [of cw_schedule_kind] set_field_new [of cw_schedule_kind]
    set_field_keep [of cw_schedule_value] set_field_new [of cw_schedule_value]
    set_field_keep [of cw_schedule_tz] set_field_new [of cw_schedule_tz]
    set_field_keep [of cw_schedule_description] set_field_new [of cw_schedule_description]
    set_field_keep [of cw_execution_mode] set_field_new [of cw_execution_mode]
    set_field_keep [of cw_created_by] set_field_new [of cw_created_by]
    set_field_keep [of cw_agent_config] set_field_new [of cw_agent_config]
    set_field_keep [of cw_last_status] set_field_new [of cw_last_status]
    set_field_keep [of cw_retry_count] set_field_new [of cw_retry_count]
    set_field_keep [of cw_max_retries] set_field_new [of cw_max_retries]
    set_field_keep [of cw_conversation_id] set_field_new [of cw_conversation_id])

lemma cron_get_iff:
  "distinct (map cw_id rows) \<Longrightarrow> cron_get i rows = Some r \<longleftrightarrow> r \<in> set rows \<and> cw_id r = i"
  unfolding cron_get_def by (rule find_key_distinct)

lemma cron_get_id: "cron_get i rows = Some r \<Longrightarrow> r \<in> set rows \<and> cw_id r = i"
  by (auto simp: cron_get_def find_Some_iff)

lemma cron_get_None: "cron_get i rows = None \<longleftrightarrow> i \<notin> cw_id ` set rows"
  by (auto simp: cron_get_def find_None_iff)

lemma cron_get_filter:
  "distinct (map cw_id rows) \<Longrightarrow> cron_get k (filter P rows) =
     (case cron_get k rows of None \<Rightarrow> None | Some r \<Rightarrow> if P r then Some r else None)"
proof (cases "cron_get k rows")
  case None
  then have "cron_get k (filter P rows) = None" by (auto simp: cron_get_None)
  then show ?thesis by (simp add: None)
next
  case (Some r)
  assume d: "distinct (map cw_id rows)"
  have r: "r \<in> set rows" "cw_id r = k" using cron_get_id [OF Some] by auto
  show ?thesis
  proof (cases "P r")
    case True
    then have "cron_get k (filter P rows) = Some r" using r d by (simp add: cron_get_iff distinct_map_filter)
    then show ?thesis by (simp add: Some True)
  next
    case False
    have "x = r" if "x \<in> set rows" "cw_id x = k" for x using d r that by (auto simp: distinct_map inj_on_def)
    then have "cron_get k (filter P rows) = None" using False by (auto simp: cron_get_None)
    then show ?thesis by (simp add: Some False)
  qed
qed

lemma cron_get_append: "cron_get k (rows @ [r]) = (case cron_get k rows of None \<Rightarrow> if cw_id r = k then Some r else None | Some x \<Rightarrow> Some x)"
  by (induction rows) (auto simp: cron_get_def)

lemma cron_get_update:
  "cron_get k (fst (cron_update_row i u now rows)) = cron_get k rows \<or>
   (k = i \<and> cron_get k (fst (cron_update_row i u now rows)) = map_option (apply_cron_update u now) (cron_get k rows))"
proof -
  have "cron_get k (update_where (\<lambda>r. cw_id r = i) (apply_cron_update u now) rows) =
      map_option (\<lambda>r. if cw_id r = i then apply_cron_update u now r else r) (cron_get k rows)"
    unfolding cron_get_def by (rule find_update_where) simp
  then show ?thesis
    using cron_get_id [of k rows] by (cases "cron_get k rows") (auto simp: cron_update_row_def split: option.splits)
qed

lemma cron_get_update_ok:
  assumes "cron_get i rows = Some r" and "cron_row_ok (apply_cron_update u now r)" and "u \<noteq> no_cron_update"
  shows "cron_get i (fst (cron_update_row i u now rows)) = Some (apply_cron_update u now r)"
    "snd (cron_update_row i u now rows) = Inr ()"
proof -
  have "cron_get i (update_where (\<lambda>r. cw_id r = i) (apply_cron_update u now) rows) =
      map_option (\<lambda>r. if cw_id r = i then apply_cron_update u now r else r) (cron_get i rows)"
    unfolding cron_get_def by (rule find_update_where) simp
  then show "cron_get i (fst (cron_update_row i u now rows)) = Some (apply_cron_update u now r)"
    using assms cron_get_id [OF assms(1)] by (simp add: cron_update_row_def)
  show "snd (cron_update_row i u now rows) = Inr ()" using assms by (simp add: cron_update_row_def)
qed

lemma cron_update_row_ids [simp]: "map cw_id (fst (cron_update_row i u now rows)) = map cw_id rows"
  by (auto simp: cron_update_row_def update_where_key split: option.splits)

lemma cron_update_row_set:
  "x \<in> set (fst (cron_update_row i u now rows)) \<Longrightarrow> x \<in> set rows \<or> (\<exists>r\<in>set rows. cw_id r = i \<and> x = apply_cron_update u now r)"
  by (auto simp: cron_update_row_def in_update_where split: option.splits if_splits)

end
