(* ===== verification/CronInv.thy ===== *)
theory CronInv
  imports CronFacts
begin

text \<open>
  The invariant of the running system of scheduled jobs: ids are unique, every row reads, retries stay within the
  fixed maximum, work under way is for enabled jobs, and an enabled job with a next time has a live timer or a tick
  under way. It is kept by every step: an operation touches one job, and the loops touch the jobs one by one.
\<close>

section \<open>The invariant\<close>

definition row_fine :: "cron_lib \<Rightarrow> cron_row \<Rightarrow> bool" where
  "row_fine L r \<longleftrightarrow> row_reads L r \<and> cw_max_retries r = 3 \<and> 0 \<le> cw_retry_count r \<and> cw_retry_count r \<le> 3"

definition rows_fine :: "cron_lib \<Rightarrow> cron_row list \<Rightarrow> bool" where
  "rows_fine L rows \<longleftrightarrow> distinct (map cw_id rows) \<and> (\<forall>r\<in>set rows. row_fine L r)"

definition job_fine :: "cron_job \<Rightarrow> bool" where
  "job_fine j \<longleftrightarrow> cj_enabled j \<and> cj_max_retries j = 3 \<and> 0 \<le> cj_retry_count j \<and> cj_retry_count j \<le> 3"

fun result_fine :: "execution_result \<Rightarrow> bool" where
  "result_fine (ExecRetrying a) = (0 \<le> a \<and> a \<le> 3)"
| "result_fine _ = True"

fun flight_fine :: "flight \<Rightarrow> bool" where
  "flight_fine (TickSpawned i) = True"
| "flight_fine (TickLoaded j) = job_fine j"
| "flight_fine (TickExecuted j res) = (job_fine j \<and> result_fine res)"
| "flight_fine (RunPrepared j c) = True"
| "flight_fine (RunExecuted i res) = (\<forall>a. res \<noteq> ExecRetrying a)"

fun tick_of :: "flight \<Rightarrow> string option" where
  "tick_of (TickSpawned i) = Some i"
| "tick_of (TickLoaded j) = Some (cj_id j)"
| "tick_of (TickExecuted j res) = Some (cj_id j)"
| "tick_of (RunPrepared j c) = None"
| "tick_of (RunExecuted i res) = None"

definition ticking :: "string \<Rightarrow> flight list \<Rightarrow> bool" where
  "ticking i fs \<longleftrightarrow> (\<exists>f\<in>set fs. tick_of f = Some i)"

definition armed_at :: "string \<Rightarrow> cron_state \<Rightarrow> bool" where
  "armed_at i st \<longleftrightarrow>
     (\<forall>r. cron_get i (cs_jobs st) = Some r \<longrightarrow> cw_enabled r \<longrightarrow> cw_next_run_at r \<noteq> None \<longrightarrow>
        timer_live i (cs_timers st) \<or> ticking i (cs_flights st))"

definition cron_fine :: "cron_lib \<Rightarrow> cron_state \<Rightarrow> bool" where
  "cron_fine L st \<longleftrightarrow> rows_fine L (cs_jobs st) \<and> (\<forall>f\<in>set (cs_flights st). flight_fine f)"

definition cron_inv :: "cron_lib \<Rightarrow> cron_state \<Rightarrow> bool" where
  "cron_inv L st \<longleftrightarrow> cron_fine L st \<and> (\<forall>i. armed_at i st)"

text \<open>What an operation on the job \<open>i\<close> leaves of the others\<close>

definition touches_only :: "string \<Rightarrow> cron_state \<Rightarrow> cron_state \<Rightarrow> bool" where
  "touches_only i st st' \<longleftrightarrow>
     (\<forall>k. k \<noteq> i \<longrightarrow> cron_get k (cs_jobs st') = cron_get k (cs_jobs st) \<and> cs_timers st' k = cs_timers st k \<and>
        (ticking k (cs_flights st) \<longrightarrow> ticking k (cs_flights st')))"

lemma touches_only_refl [simp]: "touches_only i st st"
  by (simp add: touches_only_def)

lemma touches_only_trans: "touches_only i st st' \<Longrightarrow> touches_only i st' st'' \<Longrightarrow> touches_only i st st''"
  by (simp add: touches_only_def)

lemma armed_others:
  "touches_only i st st' \<Longrightarrow> armed_at k st \<Longrightarrow> k \<noteq> i \<Longrightarrow> armed_at k st'"
  by (auto simp: touches_only_def armed_at_def timer_live_def)

lemma cron_invI:
  assumes "cron_inv L st" and "touches_only i st st'" and "cron_fine L st'" and "armed_at i st'"
  shows "cron_inv L st'"
proof -
  have "armed_at k st'" for k
  proof (cases "k = i")
    case True
    then show ?thesis using assms(4) by simp
  next
    case False
    then show ?thesis using assms(1) armed_others [OF assms(2)] by (simp add: cron_inv_def)
  qed
  then show ?thesis using assms(3) by (simp add: cron_inv_def)
qed

section \<open>Timers\<close>

lemma timer_live_schedule:
  "timer_live k (schedule_job j T) \<longleftrightarrow>
     (if k = cj_id j then cj_enabled j \<and> cj_next_run_at j \<noteq> None else timer_live k T)"
  by (auto simp: schedule_job_def cancel_timer_def timer_live_def Let_def split: option.splits)

lemma schedule_job_other: "k \<noteq> cj_id j \<Longrightarrow> schedule_job j T k = T k"
  by (simp add: schedule_job_def cancel_timer_def Let_def split: option.splits)

lemma cancel_timer_other: "k \<noteq> i \<Longrightarrow> cancel_timer i T k = T k"
  by (simp add: cancel_timer_def)

section \<open>Rows\<close>

lemma row_fineD: "row_fine L r \<Longrightarrow> row_reads L r"
  by (simp add: row_fine_def)

lemma rows_fine_get: "rows_fine L rows \<Longrightarrow> cron_get i rows = Some r \<Longrightarrow> row_fine L r"
  using cron_get_id by (auto simp: rows_fine_def)

lemma rows_fine_update:
  assumes "rows_fine L rows"
    and "\<And>r. cron_get i rows = Some r \<Longrightarrow> row_fine L (apply_cron_update u now r)"
  shows "rows_fine L (fst (cron_update_row i u now rows))"
  unfolding rows_fine_def
proof (intro conjI ballI)
  show "distinct (map cw_id (fst (cron_update_row i u now rows)))" using assms(1) by (simp add: rows_fine_def)
next
  fix x
  assume "x \<in> set (fst (cron_update_row i u now rows))"
  then consider "x \<in> set rows" | r where "r \<in> set rows" "cw_id r = i" "x = apply_cron_update u now r"
    using cron_update_row_set by blast
  then show "row_fine L x"
  proof cases
    case 1
    then show ?thesis using assms(1) by (simp add: rows_fine_def)
  next
    case 2
    then show ?thesis using assms by (simp add: rows_fine_def cron_get_iff)
  qed
qed

text \<open>Updates of the bookkeeping columns keep a row readable.\<close>

definition bookkeeping :: "cron_update \<Rightarrow> bool" where
  "bookkeeping u \<longleftrightarrow>
     cu_schedule_kind u = None \<and> cu_schedule_value u = None \<and> cu_schedule_tz u = None \<and> cu_schedule_description u = None \<and>
     cu_execution_mode u = None \<and> cu_agent_config u = None \<and>
     cu_last_status u \<in> {None, Some (Some ''ok''), Some (Some ''error''), Some (Some ''skipped''), Some (Some ''missed'')} \<and>
     (\<forall>n. cu_retry_count u = Some n \<longrightarrow> 0 \<le> n \<and> n \<le> 3)"

lemma status_reads:
  "\<exists>v. job_status_from_str ''ok'' = Inr v" "\<exists>v. job_status_from_str ''error'' = Inr v"
  "\<exists>v. job_status_from_str ''skipped'' = Inr v" "\<exists>v. job_status_from_str ''missed'' = Inr v"
  by (simp_all add: job_status_from_str_def)

lemma bookkeeping_fine:
  assumes "bookkeeping u" and "row_fine L r"
  shows "row_fine L (apply_cron_update u now r)"
proof -
  have "\<exists>v. job_status_from_str t = Inr v" if "newer (cu_last_status u) (cw_last_status r) = Some t" for t
    using assms that status_reads by (cases "cu_last_status u") (auto simp: bookkeeping_def row_fine_def row_reads_def)
  moreover have "0 \<le> newer (cu_retry_count u) (cw_retry_count r) \<and> newer (cu_retry_count u) (cw_retry_count r) \<le> 3"
    using assms by (cases "cu_retry_count u") (auto simp: bookkeeping_def row_fine_def)
  ultimately show ?thesis using assms by (auto simp: bookkeeping_def row_fine_def row_reads_def)
qed

lemma no_cron_update_fields [simp]:
  "cu_enabled no_cron_update = None" "cu_schedule_kind no_cron_update = None" "cu_schedule_value no_cron_update = None"
  "cu_schedule_tz no_cron_update = None" "cu_schedule_description no_cron_update = None"
  "cu_execution_mode no_cron_update = None" "cu_agent_config no_cron_update = None"
  "cu_next_run_at no_cron_update = None" "cu_last_status no_cron_update = None"
  "cu_retry_count no_cron_update = None" "cu_conversation_id no_cron_update = None"
  "cu_run_count no_cron_update = None" "cu_last_run_at no_cron_update = None" "cu_last_error no_cron_update = None"
  "cu_name no_cron_update = None" "cu_description no_cron_update = None" "cu_skill_content no_cron_update = None"
  by (simp_all add: no_cron_update_def)

section \<open>Operations that only write the row\<close>

lemma update_quietly_touches: "touches_only i st (update_quietly i u now st)"
  using cron_get_update by (fastforce simp: touches_only_def update_quietly_def)

lemma update_quietly_fields [simp]:
  "cs_timers (update_quietly i u now st) = cs_timers st" "cs_flights (update_quietly i u now st) = cs_flights st"
  "cs_convs (update_quietly i u now st) = cs_convs st"
  by (simp_all add: update_quietly_def)

lemma update_quietly_fine:
  assumes "cron_fine L st" and "bookkeeping u"
  shows "cron_fine L (update_quietly i u now st)"
  using assms rows_fine_update [of L "cs_jobs st" i u now] rows_fine_get bookkeeping_fine
  by (auto simp: cron_fine_def update_quietly_def)

text \<open>What the row says on the schedule is kept when the update does not set it.\<close>

definition keeps_schedule :: "string \<Rightarrow> cron_state \<Rightarrow> cron_state \<Rightarrow> bool" where
  "keeps_schedule i st st' \<longleftrightarrow>
     (\<forall>r'. cron_get i (cs_jobs st') = Some r' \<longrightarrow>
        (\<exists>r. cron_get i (cs_jobs st) = Some r \<and> cw_enabled r' = cw_enabled r \<and> cw_next_run_at r' = cw_next_run_at r))"

lemma keeps_schedule_refl [simp]: "keeps_schedule i st st"
  by (simp add: keeps_schedule_def)

lemma update_quietly_keeps:
  "cu_enabled u = None \<Longrightarrow> cu_next_run_at u = None \<Longrightarrow> keeps_schedule i st (update_quietly i u now st)"
  using cron_get_update [of i i u now "cs_jobs st"]
  by (cases "cron_get i (cs_jobs st)") (auto simp: keeps_schedule_def update_quietly_def)

lemma armed_at_keeps:
  assumes "armed_at i st" and "keeps_schedule i st st'" and "cs_timers st' = cs_timers st" and "cs_flights st' = cs_flights st"
  shows "armed_at i st'"
  using assms by (fastforce simp: armed_at_def keeps_schedule_def)

text \<open>The state of the jobs, timers and work under way does not depend on events and conversations.\<close>

lemma cron_emit_fields [simp]:
  "cs_jobs (cron_emit e st) = cs_jobs st" "cs_timers (cron_emit e st) = cs_timers st"
  "cs_flights (cron_emit e st) = cs_flights st" "cs_convs (cron_emit e st) = cs_convs st"
  by (simp_all add: cron_emit_def)

definition same_core :: "cron_state \<Rightarrow> cron_state \<Rightarrow> bool" where
  "same_core st st' \<longleftrightarrow> cs_jobs st' = cs_jobs st \<and> cs_timers st' = cs_timers st \<and> cs_flights st' = cs_flights st"

lemma same_core_simps:
  assumes "same_core st st'"
  shows "cron_fine L st' = cron_fine L st" "armed_at i st' = armed_at i st" "cron_inv L st' = cron_inv L st"
    "touches_only i st0 st' = touches_only i st0 st"
  using assms by (simp_all add: same_core_def cron_fine_def armed_at_def cron_inv_def touches_only_def)

end
