(* ===== verification/CronKept.thy ===== *)
theory CronKept
  imports CronInv
begin

text \<open>
  Every step of the running system keeps the invariant \<open>cron_inv\<close>.
\<close>

section \<open>After an execution\<close>

lemma bookkeeping_base: "bookkeeping no_cron_update"
  by (simp add: bookkeeping_def)

lemma success_effect:
  assumes "cron_fine L st"
  shows "cron_fine L (update_job_after_success L now i c st) \<and> touches_only i st (update_job_after_success L now i c st) \<and>
    keeps_schedule i st (update_job_after_success L now i c st) \<and>
    cs_timers (update_job_after_success L now i c st) = cs_timers st \<and>
    cs_flights (update_job_after_success L now i c st) = cs_flights st"
proof (cases "cron_get i (cs_jobs st)")
  case None
  then show ?thesis using assms by (simp add: update_job_after_success_def)
next
  case (Some row)
  define u where "u = no_cron_update\<lparr>cu_last_run_at := Some (Some now), cu_last_status := Some (Some ''ok''),
      cu_last_error := Some None, cu_retry_count := Some 0, cu_run_count := Some (cw_run_count row + 1),
      cu_conversation_id := (if trim (cw_conversation_id row) = [] \<and> trim c \<noteq> [] then Some c else None)\<rparr>"
  have b: "bookkeeping u" by (simp add: u_def bookkeeping_def)
  have core: "same_core (update_quietly i u now st) (update_job_after_success L now i c st)"
    by (auto simp: update_job_after_success_def Some same_core_def update_quietly_def u_def [symmetric] Let_def
        split: prod.splits sum.splits)
  have keeps: "keeps_schedule i st (update_quietly i u now st)"
    by (rule update_quietly_keeps) (simp_all add: u_def)
  show ?thesis
    using update_quietly_fine [OF assms b, of i now] update_quietly_touches [of i st u now] keeps
      same_core_simps [OF core] core
    by (simp add: same_core_def keeps_schedule_def)
qed

lemma error_effect:
  assumes "cron_fine L st"
  shows "cron_fine L (update_job_after_error now i m st) \<and> touches_only i st (update_job_after_error now i m st) \<and>
    keeps_schedule i st (update_job_after_error now i m st) \<and>
    cs_timers (update_job_after_error now i m st) = cs_timers st \<and>
    cs_flights (update_job_after_error now i m st) = cs_flights st"
  using assms update_quietly_touches
  by (auto simp: update_job_after_error_def bookkeeping_def split: option.split
      intro!: update_quietly_fine update_quietly_keeps)

lemma skipped_effect:
  assumes "cron_fine L st"
  shows "cron_fine L (mark_skipped now i st) \<and> touches_only i st (mark_skipped now i st) \<and>
    keeps_schedule i st (mark_skipped now i st) \<and>
    cs_timers (mark_skipped now i st) = cs_timers st \<and> cs_flights (mark_skipped now i st) = cs_flights st"
  using assms update_quietly_touches
  by (auto simp: mark_skipped_def bookkeeping_def intro!: update_quietly_fine update_quietly_keeps)

text \<open>Setting the next time of a fine row, or disabling it\<close>

lemma update_enables:
  assumes "cron_fine L st" and "bookkeeping u" and "u \<noteq> no_cron_update"
  shows "cron_get i (cs_jobs (update_quietly i u now st)) = map_option (apply_cron_update u now) (cron_get i (cs_jobs st))"
proof (cases "cron_get i (cs_jobs st)")
  case None
  then show ?thesis using cron_get_update [of i i u now "cs_jobs st"] by (auto simp: update_quietly_def)
next
  case (Some r)
  have "row_fine L (apply_cron_update u now r)"
    using assms rows_fine_get [OF _ Some] bookkeeping_fine by (auto simp: cron_fine_def)
  then have "cron_row_ok (apply_cron_update u now r)" using row_reads_ok by (auto simp: row_fine_def)
  then show ?thesis using cron_get_update_ok(1) [OF Some _ assms(3)] by (simp add: update_quietly_def Some)
qed

lemma no_cron_update_neq:
  "u \<noteq> no_cron_update" if "cu_next_run_at u \<noteq> None \<or> cu_enabled u \<noteq> None"
  using that by auto

lemma reschedule_effect:
  assumes "cron_fine L st" and "cj_enabled j"
  shows "cron_fine L (reschedule_after_execution L now j st) \<and>
    touches_only (cj_id j) st (reschedule_after_execution L now j st) \<and> armed_at (cj_id j) (reschedule_after_execution L now j st)"
proof (cases "is_at (cj_schedule j)")
  case True
  let ?st = "update_quietly (cj_id j) disable_params now st"
  have u: "bookkeeping disable_params" "disable_params \<noteq> no_cron_update"
    by (simp_all add: disable_params_def bookkeeping_def no_cron_update_neq)
  have get: "\<not> cw_enabled r" if "cron_get (cj_id j) (cs_jobs ?st) = Some r" for r
    using that update_enables [OF assms(1) u, of "cj_id j" now]
    by (cases "cron_get (cj_id j) (cs_jobs st)") (auto simp: disable_params_def)
  have "cron_fine L ?st" by (rule update_quietly_fine [OF assms(1) u(1)])
  moreover have "touches_only (cj_id j) st ?st" by (rule update_quietly_touches)
  ultimately show ?thesis using get
    by (simp add: reschedule_after_execution_def True Let_def cron_fine_def touches_only_def armed_at_def cancel_timer_other)
next
  case False
  let ?at = "compute_next_run L (cj_schedule j) now"
  let ?u = "no_cron_update\<lparr>cu_next_run_at := Some ?at\<rparr>"
  let ?st = "update_quietly (cj_id j) ?u now st"
  have u: "bookkeeping ?u" "?u \<noteq> no_cron_update"
    by (simp_all add: bookkeeping_def no_cron_update_neq)
  have get: "cw_next_run_at r = ?at" if "cron_get (cj_id j) (cs_jobs ?st) = Some r" for r
    using that update_enables [OF assms(1) u, of "cj_id j" now]
    by (cases "cron_get (cj_id j) (cs_jobs st)") auto
  have "cron_fine L ?st" by (rule update_quietly_fine [OF assms(1) u(1)])
  moreover have "touches_only (cj_id j) st ?st" by (rule update_quietly_touches)
  ultimately show ?thesis using get assms(2)
    by (simp add: reschedule_after_execution_def False Let_def cron_fine_def touches_only_def armed_at_def
        schedule_job_other timer_live_schedule)
qed

lemma schedule_retry_effect:
  assumes "cron_fine L st"
  shows "cron_fine L (schedule_retry now i st) \<and> touches_only i st (schedule_retry now i st) \<and>
    armed_at i (schedule_retry now i st)"
  using assms
  by (simp add: schedule_retry_def Let_def cron_fine_def touches_only_def armed_at_def schedule_job_other timer_live_schedule)

lemma handle_result_effect:
  assumes "cron_fine L st" and "cj_enabled j" and "result_fine res"
  shows "cron_fine L (handle_execution_result L now j res st) \<and>
    touches_only (cj_id j) st (handle_execution_result L now j res st) \<and>
    armed_at (cj_id j) (handle_execution_result L now j res st)"
proof -
  have then_reschedule: ?thesis
    if "cron_fine L st'" "touches_only (cj_id j) st st'"
      "handle_execution_result L now j res st = cron_emit e (reschedule_after_execution L now j st')" for st' e
  proof -
    have core: "same_core (reschedule_after_execution L now j st') (handle_execution_result L now j res st)"
      by (simp add: same_core_def that(3))
    show ?thesis unfolding same_core_simps [OF core]
      using reschedule_effect [OF that(1) assms(2), of now] touches_only_trans [OF that(2)] by blast
  qed
  show ?thesis
  proof (cases res)
    case (ExecSuccess c)
    show ?thesis
      by (rule then_reschedule [of "update_job_after_success L now (cj_id j) c st" "JobExecuted (cj_id j) ''ok'' None"])
        (simp_all add: success_effect [OF assms(1)] handle_execution_result_def Let_def ExecSuccess)
  next
    case (ExecRetrying a)
    let ?u = "no_cron_update\<lparr>cu_retry_count := Some a\<rparr>"
    have "bookkeeping ?u" using assms(3) by (simp add: bookkeeping_def ExecRetrying)
    from update_quietly_fine [OF assms(1) this]
    have "cron_fine L (update_quietly (cj_id j) ?u now st)" by blast
    from schedule_retry_effect [OF this, of now "cj_id j"] show ?thesis
      using touches_only_trans [OF update_quietly_touches]
      by (auto simp: handle_execution_result_def ExecRetrying Let_def)
  next
    case ExecSkipped
    show ?thesis
      by (rule then_reschedule [of "mark_skipped now (cj_id j) st" "JobExecuted (cj_id j) ''skipped'' None"])
        (simp_all add: skipped_effect [OF assms(1)] handle_execution_result_def Let_def ExecSkipped)
  next
    case (ExecError m)
    show ?thesis
      by (rule then_reschedule [of "update_job_after_error now (cj_id j) m st" "JobExecuted (cj_id j) ''error'' (Some m)"])
        (simp_all add: error_effect [OF assms(1)] handle_execution_result_def Let_def ExecError)
  qed
qed

lemma handle_run_now_effect:
  assumes "cron_fine L st" and "\<And>a. res \<noteq> ExecRetrying a"
  shows "cron_fine L (handle_run_now_result L now i res st) \<and> touches_only i st (handle_run_now_result L now i res st) \<and>
    keeps_schedule i st (handle_run_now_result L now i res st) \<and>
    cs_timers (handle_run_now_result L now i res st) = cs_timers st \<and>
    cs_flights (handle_run_now_result L now i res st) = cs_flights st"
proof (cases res)
  case (ExecSuccess c)
  then show ?thesis using success_effect [OF assms(1), of now i c]
    by (simp add: handle_run_now_result_def cron_fine_def touches_only_def keeps_schedule_def)
next
  case (ExecRetrying a)
  then show ?thesis using assms(2) by simp
next
  case ExecSkipped
  then show ?thesis using skipped_effect [OF assms(1), of now i]
    by (simp add: handle_run_now_result_def cron_fine_def touches_only_def keeps_schedule_def)
next
  case (ExecError m)
  then show ?thesis using error_effect [OF assms(1), of now i m]
    by (simp add: handle_run_now_result_def cron_fine_def touches_only_def keeps_schedule_def)
qed

section \<open>Ticks, runs and timers\<close>

lemma ticking_simps [simp]:
  "ticking i (fs @ gs) \<longleftrightarrow> ticking i fs \<or> ticking i gs"
  "ticking i [f] \<longleftrightarrow> tick_of f = Some i"
  by (auto simp: ticking_def)

definition without :: "nat \<Rightarrow> cron_state \<Rightarrow> cron_state" where
  "without k st = st\<lparr>cs_flights := take k (cs_flights st) @ drop (Suc k) (cs_flights st)\<rparr>"

lemma without_fields [simp]:
  "cs_jobs (without k st) = cs_jobs st" "cs_timers (without k st) = cs_timers st" "cs_convs (without k st) = cs_convs st"
  "cs_flights (without k st) = take k (cs_flights st) @ drop (Suc k) (cs_flights st)"
  by (simp_all add: without_def)

lemma without_set: "set (cs_flights (without k st)) \<subseteq> set (cs_flights st)"
  using set_take_subset [of k "cs_flights st"] set_drop_subset [of "Suc k" "cs_flights st"] by auto

lemma without_fine: "cron_fine L st \<Longrightarrow> cron_fine L (without k st)"
  using without_set [of k st] by (auto simp: cron_fine_def)

lemma flights_at: "k < length (cs_flights st) \<Longrightarrow>
    cs_flights st = take k (cs_flights st) @ cs_flights st ! k # drop (Suc k) (cs_flights st)"
  by (rule id_take_nth_drop)

lemma without_ticking:
  assumes "k < length (cs_flights st)" and "tick_of (cs_flights st ! k) \<noteq> Some i"
  shows "ticking i (cs_flights (without k st)) \<longleftrightarrow> ticking i (cs_flights st)"
proof -
  have "ticking i (cs_flights st) \<longleftrightarrow>
      ticking i (take k (cs_flights st) @ [cs_flights st ! k] @ drop (Suc k) (cs_flights st))"
    using flights_at [OF assms(1)] by simp
  then show ?thesis using assms(2) by (simp only: ticking_simps without_fields) simp
qed

lemma execute_fine: "job_fine j \<Longrightarrow> result_fine (execute L inp j convs)"
  by (auto simp: execute_def execute_inner_def handle_busy_def job_fine_def split: option.split sum.split send_outcome.split)

lemma execute_inner_no_retry: "execute_inner L False inp j c convs \<noteq> ExecRetrying a"
  by (simp add: execute_inner_def split: option.split send_outcome.split)

text \<open>The end of a tick of the job \<open>i\<close>, after which the job is armed\<close>

lemma tick_ends:
  assumes inv: "cron_inv L st" and k: "k < length (cs_flights st)" "tick_of (cs_flights st ! k) = Some i"
    and t: "touches_only i (without k st) st'" and "cron_fine L st'" and "armed_at i st'"
  shows "cron_inv L st'"
proof (rule cron_invI [OF inv])
  show "touches_only i st st'"
    using t without_ticking [OF k(1)] k(2) by (auto simp: touches_only_def simp del: without_fields(4))
qed (fact assms)+

lemma fine_job:
  assumes "cron_fine L st" and "cron_get i (cs_jobs st) = Some row" and "cron_job_from_row L row = Inr j" and "cj_enabled j"
  shows "job_fine j"
  using rows_fine_get [OF _ assms(2)] assms cron_job_from_row_fields [OF assms(3)]
  by (auto simp: cron_fine_def row_fine_def job_fine_def)

lemma land_fine: "cron_fine L st \<Longrightarrow> flight_fine f \<Longrightarrow> cron_fine L (land f st)"
  by (auto simp: cron_fine_def land_def)

lemma land_fields [simp]:
  "cs_jobs (land f st) = cs_jobs st" "cs_timers (land f st) = cs_timers st" "cs_flights (land f st) = cs_flights st @ [f]"
  by (simp_all add: land_def)

text \<open>A step of a tick that goes on\<close>

lemma tick_goes_on:
  assumes inv: "cron_inv L st" and k: "k < length (cs_flights st)" "tick_of (cs_flights st ! k) = Some i"
    and f: "tick_of f = Some i" "flight_fine f"
  shows "cron_inv L (land f (without k st))"
proof (rule tick_ends [OF inv k])
  show "touches_only i (without k st) (land f (without k st))" by (simp add: touches_only_def)
  show "cron_fine L (land f (without k st))"
    using inv without_fine land_fine [OF _ f(2)] by (auto simp: cron_inv_def)
  show "armed_at i (land f (without k st))" by (simp add: armed_at_def f)
qed

lemma without_run:
  assumes "cron_inv L st" and "k < length (cs_flights st)" and "tick_of (cs_flights st ! k) = None"
  shows "cron_inv L (without k st)"
  using assms without_fine [of L st k] without_ticking [OF assms(2)] by (auto simp: cron_inv_def armed_at_def)

lemma spawned_kept:
  assumes inv: "cron_inv L st" and k: "k < length (cs_flights st)" "cs_flights st ! k = TickSpawned i"
  shows "cron_inv L (case tick_load L i (without k st) of (st, None) \<Rightarrow> st | (st, Some j) \<Rightarrow> land (TickLoaded j) st)"
proof -
  have fine: "cron_fine L (without k st)" using inv without_fine by (auto simp: cron_inv_def)
  have tick: "tick_of (cs_flights st ! k) = Some i" by (simp add: k)
  show ?thesis
  proof (cases "cron_get i (cs_jobs st)")
    case None
    let ?st = "(without k st)\<lparr>cs_timers := cancel_timer i (cs_timers st)\<rparr>"
    have "cron_inv L ?st"
      by (rule tick_ends [OF inv k(1) tick])
        (use fine in \<open>simp_all add: touches_only_def cron_fine_def armed_at_def cancel_timer_other None\<close>)
    then show ?thesis by (simp add: tick_load_def None)
  next
    case (Some row)
    have "row_reads L row" using rows_fine_get [OF _ Some] fine by (auto simp: cron_fine_def row_fine_def)
    then obtain j where j: "cron_job_from_row L row = Inr j" by (rule row_reads_job)
    have id: "cj_id j = i" "cj_enabled j = cw_enabled row"
      using cron_job_from_row_fields [OF j] cron_get_id [OF Some] by simp_all
    show ?thesis
    proof (cases "cj_enabled j")
      case True
      have "cron_inv L (land (TickLoaded j) (without k st))"
        by (rule tick_goes_on [OF inv k(1) tick]) (use fine_job [OF fine _ j True, of i] Some id in simp_all)
      then show ?thesis by (simp add: tick_load_def Some j True)
    next
      case False
      have "cron_inv L (without k st)"
        by (rule tick_ends [OF inv k(1) tick]) (use fine False id in \<open>simp_all add: armed_at_def Some\<close>)
      then show ?thesis by (simp add: tick_load_def Some j False)
    qed
  qed
qed

lemma advance_kept:
  assumes inv: "cron_inv L st"
  shows "cron_inv L (advance L now inp k st)"
proof (cases "k < length (cs_flights st)")
  case False
  then show ?thesis using inv by (simp add: advance_def)
next
  case True
  let ?f = "cs_flights st ! k"
  have fine: "cron_fine L (without k st)" using inv without_fine by (auto simp: cron_inv_def)
  have f: "flight_fine ?f" using inv True by (auto simp: cron_inv_def cron_fine_def)
  have adv: "advance L now inp k st = (case ?f of
           TickSpawned i \<Rightarrow> (case tick_load L i (without k st) of (st, None) \<Rightarrow> st | (st, Some j) \<Rightarrow> land (TickLoaded j) st)
         | TickLoaded j \<Rightarrow> land (TickExecuted j (execute L inp j (cs_convs st))) (without k st)
         | TickExecuted j res \<Rightarrow> handle_execution_result L now j res (without k st)
         | RunPrepared j c \<Rightarrow> land (RunExecuted (cj_id j) (execute_inner L False inp j c (cs_convs st))) (without k st)
         | RunExecuted i res \<Rightarrow> handle_run_now_result L now i res (without k st))"
    by (cases "cs_flights st ! k") (use True in \<open>simp_all add: advance_def Let_def without_def\<close>)
  show ?thesis
  proof (cases ?f)
    case (TickSpawned i)
    then show ?thesis using spawned_kept [OF inv True] by (simp add: adv)
  next
    case (TickLoaded j)
    have "cron_inv L (land (TickExecuted j (execute L inp j (cs_convs st))) (without k st))"
      by (rule tick_goes_on [OF inv True]) (use f execute_fine in \<open>simp_all add: TickLoaded\<close>)
    then show ?thesis by (simp add: adv TickLoaded)
  next
    case (TickExecuted j res)
    have "cron_inv L (handle_execution_result L now j res (without k st))"
      by (rule tick_ends [OF inv True, of "cj_id j"])
        (use f handle_result_effect [OF fine, of j res now] in \<open>simp_all add: TickExecuted job_fine_def\<close>)
    then show ?thesis by (simp add: adv TickExecuted)
  next
    case (RunPrepared j c)
    have "cron_inv L (without k st)" using without_run [OF inv True] by (simp add: RunPrepared)
    then have "cron_inv L (land (RunExecuted (cj_id j) (execute_inner L False inp j c (cs_convs st))) (without k st))"
      using execute_inner_no_retry by (auto simp: cron_inv_def armed_at_def intro!: land_fine)
    then show ?thesis by (simp add: adv RunPrepared)
  next
    case (RunExecuted i res)
    have w: "cron_inv L (without k st)" using without_run [OF inv True] by (simp add: RunExecuted)
    have res: "\<And>a. res \<noteq> ExecRetrying a" using f by (simp add: RunExecuted)
    note e = handle_run_now_effect [OF fine res, of now i]
    have "armed_at i (handle_run_now_result L now i res (without k st))"
      by (rule armed_at_keeps [of i "without k st"]) (use e w in \<open>auto simp: cron_inv_def\<close>)
    with e have "cron_inv L (handle_run_now_result L now i res (without k st))"
      by (intro cron_invI [OF w, of i]) blast+
    then show ?thesis by (simp add: adv RunExecuted)
  qed
qed

lemma fire_kept:
  assumes inv: "cron_inv L st"
  shows "cron_inv L (fire L now i st)"
proof (cases "timer_fire L now i (cs_timers st)")
  case None
  then show ?thesis using inv by (simp add: fire_def)
next
  case (Some T)
  then have T: "T k = cs_timers st k" if "k \<noteq> i" for k
    using that by (auto simp: timer_fire_def split: option.splits if_splits)
  have "cron_inv L (land (TickSpawned i) (st\<lparr>cs_timers := T\<rparr>))"
    by (rule cron_invI [OF inv, of i])
      (use inv T in \<open>auto simp: touches_only_def cron_inv_def armed_at_def cron_fine_def\<close>)
  then show ?thesis by (simp add: fire_def Some)
qed

end
