(* ===== verification/CronStepsKept.thy ===== *)
theory CronStepsKept
  imports CronKept
begin

text \<open>
  Requests, commands of agents, deletions of conversations, resumes and restarts keep the invariant \<open>cron_inv\<close>, so it
  holds in every reachable state.
\<close>

section \<open>Creating a job\<close>

lemma job_row_reads:
  assumes "config_json L" and "schedule_fits (cj_schedule j)"
  shows "row_reads L (cron_job_to_row L j)"
proof -
  obtain kind v tz d where f: "schedule_to_row_fields (cj_schedule j) = (kind, v, tz, d)"
    by (cases "schedule_to_row_fields (cj_schedule j)") auto
  show ?thesis
    using parse_schedule_of_fields [OF assms(2) f] assms(1)
    by (auto simp: row_reads_def cron_job_to_row_def f config_json_def)
qed

lemma cron_job_to_row_fields [simp]:
  "cw_id (cron_job_to_row L j) = cj_id j" "cw_enabled (cron_job_to_row L j) = cj_enabled j"
  "cw_next_run_at (cron_job_to_row L j) = cj_next_run_at j" "cw_retry_count (cron_job_to_row L j) = cj_retry_count j"
  "cw_max_retries (cron_job_to_row L j) = cj_max_retries j"
  by (simp_all add: cron_job_to_row_def split: prod.split)

lemma schedule_from_dto_fits [simp]: "schedule_fits (schedule_from_dto d) = dto_fits d"
  by (cases d) simp_all

lemma schedule_existing_fits:
  "dto_fits d \<Longrightarrow> schedule_fits (schedule_from_dto_with_existing_timezone d s)"
  by (cases d) simp_all

lemma bind_existing_core: "same_core st (bind_existing_conversation L now j st)"
  by (simp add: bind_existing_conversation_def same_core_def)

lemma bind_existing_fields [simp]:
  "cs_jobs (bind_existing_conversation L now j st) = cs_jobs st"
  "cs_timers (bind_existing_conversation L now j st) = cs_timers st"
  "cs_flights (bind_existing_conversation L now j st) = cs_flights st"
  using bind_existing_core [of st L now j] by (simp_all add: same_core_def)

lemma add_job_cases:
  obtains (same) "same_core st (fst (add_job L E now r st))"
  | (added) j mode by' where "j = new_job L now (''cron_'' @ mint_id E (cs_minted st)) mode by' r"
      "cj_id j \<notin> cw_id ` set (cs_jobs st)"
      "cs_jobs (fst (add_job L E now r st)) = cs_jobs st @ [cron_job_to_row L j]"
      "cs_timers (fst (add_job L E now r st)) = schedule_job j (cs_timers st)"
      "cs_flights (fst (add_job L E now r st)) = cs_flights st"
proof (cases "check_new_job L r")
  case (Inl e)
  then show ?thesis by (intro same) (simp add: add_job_def same_core_def)
next
  case (Inr mb)
  obtain mode by' where mb: "mb = (mode, by')" by (cases mb)
  obtain i where i: "i = ''cron_'' @ mint_id E (cs_minted st)" by blast
  let ?j = "new_job L now i mode by' r"
  have add: "add_job L E now r st =
      (case validate_job_workspace L ?j (cs_convs st) of
         Inl e \<Rightarrow> (st\<lparr>cs_minted := Suc (cs_minted st)\<rparr>, Inl e)
       | Inr _ \<Rightarrow>
           (case cron_insert (cron_job_to_row L ?j) (cs_jobs st) of
              (rows, Inl e) \<Rightarrow> (st\<lparr>cs_minted := Suc (cs_minted st), cs_jobs := rows\<rparr>, Inl (CronDatabase e))
            | (rows, Inr _) \<Rightarrow>
                (let st = bind_existing_conversation L now ?j (st\<lparr>cs_minted := Suc (cs_minted st), cs_jobs := rows\<rparr>)
                 in (cron_emit (JobCreated ?j) (st\<lparr>cs_timers := schedule_job ?j (cs_timers st)\<rparr>), Inr ?j))))"
    unfolding add_job_def Inr mb i by (simp add: Let_def cong: sum.case_cong prod.case_cong)
  show ?thesis
  proof (cases "(\<exists>e. validate_job_workspace L ?j (cs_convs st) = Inl e) \<or> cj_id ?j \<in> cw_id ` set (cs_jobs st) \<or>
      \<not> cron_row_ok (cron_job_to_row L ?j)")
    case True
    then have "same_core st (fst (add_job L E now r st))"
      by (cases "validate_job_workspace L ?j (cs_convs st)") (auto simp: add same_core_def cron_insert_def)
    then show ?thesis by (rule same)
  next
    case False
    then obtain u where ok: "validate_job_workspace L ?j (cs_convs st) = Inr u"
      by (cases "validate_job_workspace L ?j (cs_convs st)") auto
    from False have ins: "cron_insert (cron_job_to_row L ?j) (cs_jobs st) = (cs_jobs st @ [cron_job_to_row L ?j], Inr ())"
      by (simp add: cron_insert_def)
    show ?thesis
      by (rule added [of ?j mode by'], simp only: i) (use False in \<open>simp_all add: add ok ins Let_def\<close>)
  qed
qed

lemma new_job_fields [simp]:
  "cj_id (new_job L now i m b r) = i" "cj_enabled (new_job L now i m b r)"
  "cj_schedule (new_job L now i m b r) = schedule_from_dto (jr_schedule r)"
  "cj_retry_count (new_job L now i m b r) = 0" "cj_max_retries (new_job L now i m b r) = 3"
  by (simp_all add: new_job_def)

lemma add_job_kept:
  assumes json: "config_json L" and inv: "cron_inv L st" and fits: "dto_fits (jr_schedule r)"
  shows "cron_inv L (fst (add_job L E now r st))"
proof (rule add_job_cases [of st L E now r])
  assume "same_core st (fst (add_job L E now r st))"
  then show ?thesis using same_core_simps(3) inv by blast
next
  fix j mode by'
  let ?st' = "fst (add_job L E now r st)"
  assume j: "j = new_job L now (''cron_'' @ mint_id E (cs_minted st)) mode by' r"
    and new: "cj_id j \<notin> cw_id ` set (cs_jobs st)"
    and core: "cs_jobs ?st' = cs_jobs st @ [cron_job_to_row L j]"
      "cs_timers ?st' = schedule_job j (cs_timers st)" "cs_flights ?st' = cs_flights st"
  have en: "cj_enabled j" "schedule_fits (cj_schedule j)" "cj_retry_count j = 0" "cj_max_retries j = 3"
    using fits by (simp_all add: j)
  have fine: "row_fine L (cron_job_to_row L j)"
    using job_row_reads [OF json en(2)] en by (simp add: row_fine_def)
  show ?thesis
  proof (rule cron_invI [OF inv, of "cj_id j"])
    show "touches_only (cj_id j) st ?st'"
      by (simp add: touches_only_def core cron_get_append schedule_job_other split: option.split)
    show "cron_fine L ?st'"
      using inv fine new by (auto simp: cron_inv_def cron_fine_def rows_fine_def core)
    have "cron_get (cj_id j) (cs_jobs ?st') = Some (cron_job_to_row L j)"
      using new by (simp add: core cron_get_append cron_get_None [THEN iffD2])
    then show "armed_at (cj_id j) ?st'"
      using en by (auto simp: armed_at_def core timer_live_schedule)
  qed
qed

section \<open>Changing and removing a job\<close>

lemma set_field_same: "(\<And>x r. g (f x r) = g r) \<Longrightarrow> g (set_field v f r) = g r"
  by (rule set_field_keep)

lemma edited_job_fields:
  assumes "edited_job L now r j = Inr j'"
  shows "cj_id j' = cj_id j" "cj_enabled j' = newer (ju_enabled r) (cj_enabled j)"
    "cj_next_run_at j' = (if ju_schedule r \<noteq> None \<or> ju_enabled r \<noteq> None then compute_next_run L (cj_schedule j') now else cj_next_run_at j)"
    "\<And>dto. ju_schedule r = Some dto \<Longrightarrow> cj_schedule j' = schedule_from_dto_with_existing_timezone dto (cj_schedule j)"
    "\<And>m. ju_execution_mode r = Some m \<Longrightarrow> \<exists>v. execution_mode_from_str m = Inr v"
  using assms
  by (auto simp: edited_job_def Let_def parse_execution_mode_def execution_mode_from_str_def
      set_field_keep [of cj_id] set_field_keep [of cj_enabled] set_field_new [of cj_enabled]
      set_field_keep [of cj_next_run_at] set_field_keep [of cj_schedule]
      split: option.splits sum.splits if_splits)

lemma build_update_params_fields [simp]:
  "cu_enabled (build_update_params L j r) = ju_enabled r"
  "cu_next_run_at (build_update_params L j r) =
     (if ju_schedule r \<noteq> None \<or> ju_enabled r \<noteq> None then Some (cj_next_run_at j) else None)"
  "cu_execution_mode (build_update_params L j r) = ju_execution_mode r"
  "cu_agent_config (build_update_params L j r) = map_option (\<lambda>c. Some (cl_config_ser L c)) (ju_agent_config r)"
  "cu_last_status (build_update_params L j r) = None" "cu_retry_count (build_update_params L j r) = None"
  "cu_schedule_kind (build_update_params L j r) =
     (if ju_schedule r \<noteq> None then Some (fst (schedule_to_row_fields (cj_schedule j))) else None)"
  "cu_schedule_value (build_update_params L j r) =
     (if ju_schedule r \<noteq> None then Some (fst (snd (schedule_to_row_fields (cj_schedule j)))) else None)"
  "cu_schedule_tz (build_update_params L j r) =
     (if ju_schedule r \<noteq> None then Some (fst (snd (snd (schedule_to_row_fields (cj_schedule j))))) else None)"
  "cu_schedule_description (build_update_params L j r) =
     (if ju_schedule r \<noteq> None then Some (snd (snd (snd (schedule_to_row_fields (cj_schedule j))))) else None)"
  by (simp_all add: build_update_params_def Let_def)

lemma edited_row_fine:
  assumes json: "config_json L" and row: "row_fine L row" and job: "cron_job_from_row L row = Inr j"
    and edit: "edited_job L now r j = Inr j'" and fits: "\<And>d. ju_schedule r = Some d \<Longrightarrow> dto_fits d"
  shows "row_fine L (apply_cron_update (build_update_params L j' r) now row)"
proof -
  let ?row = "apply_cron_update (build_update_params L j' r) now row"
  have "\<exists>s. parse_schedule (cw_schedule_kind ?row) (cw_schedule_value ?row) (cw_schedule_tz ?row) (cw_schedule_description ?row) = Inr s"
  proof (cases "ju_schedule r")
    case None
    then show ?thesis using row by (simp add: row_fine_def row_reads_def)
  next
    case (Some d)
    have "schedule_fits (cj_schedule j')"
      using edited_job_fields(4) [OF edit Some] schedule_existing_fits [OF fits [OF Some]] by simp
    then show ?thesis
      using parse_schedule_of_fields [of "cj_schedule j'"]
      by (cases "schedule_to_row_fields (cj_schedule j')") (auto simp: Some)
  qed
  moreover have "\<exists>m. execution_mode_from_str (cw_execution_mode ?row) = Inr m"
    using row edited_job_fields(5) [OF edit]
    by (cases "ju_execution_mode r") (auto simp: row_fine_def row_reads_def)
  moreover have "\<forall>t. cw_agent_config ?row = Some t \<longrightarrow> cl_config_de L t \<noteq> None"
    using row json by (cases "ju_agent_config r") (auto simp: row_fine_def row_reads_def config_json_def)
  ultimately show ?thesis using row by (simp add: row_fine_def row_reads_def)
qed

lemma update_job_cases:
  obtains (same) "same_core st (fst (update_job L now i r st))"
  | (updated) row j j' where "cron_get i (cs_jobs st) = Some row" "cron_job_from_row L row = Inr j" "edited_job L now r j = Inr j'"
      "cs_jobs (fst (update_job L now i r st)) = fst (cron_update_row i (build_update_params L j' r) now (cs_jobs st))"
      "cs_timers (fst (update_job L now i r st)) = schedule_job j' (cs_timers st)"
      "cs_flights (fst (update_job L now i r st)) = cs_flights st"
      "snd (cron_update_row i (build_update_params L j' r) now (cs_jobs st)) = Inr ()"
      "snd (update_job L now i r st) = Inr j'"
proof (cases "(\<exists>row j u j' v. cron_get i (cs_jobs st) = Some row \<and> cron_job_from_row L row = Inr j \<and>
    reject_deprecated_agent_type (cj_agent_type j) = Inr u \<and> edited_job L now r j = Inr j' \<and>
    validate_job_workspace L j' (cs_convs st) = Inr v)")
  case False
  then have "fst (update_job L now i r st) = st"
    unfolding update_job_def by (auto split: option.split sum.split)
  then show ?thesis by (intro same) (simp add: same_core_def)
next
  case True
  then obtain row j u j' v where ok: "cron_get i (cs_jobs st) = Some row" "cron_job_from_row L row = Inr j"
      "reject_deprecated_agent_type (cj_agent_type j) = Inr u" "edited_job L now r j = Inr j'"
      "validate_job_workspace L j' (cs_convs st) = Inr v"
    by blast
  let ?upd = "cron_update_row i (build_update_params L j' r) now (cs_jobs st)"
  show ?thesis
  proof (cases "snd ?upd")
    case (Inl e)
    then have "fst ?upd = cs_jobs st"
      by (auto simp: cron_update_row_def split: if_splits option.splits)
    then have "same_core st (fst (update_job L now i r st))"
      using Inl by (cases ?upd) (simp add: update_job_def ok same_core_def)
    then show ?thesis by (rule same)
  next
    case (Inr w)
    then show ?thesis
      by (cases ?upd) (intro updated [of row j j']; simp add: update_job_def ok Let_def)
  qed
qed

lemma cron_update_row_Inr:
  assumes "snd (cron_update_row i u now rows) = Inr w" and "cron_get i rows = Some r"
  shows "cron_get i (fst (cron_update_row i u now rows)) = Some r \<and> u = no_cron_update \<or>
    cron_get i (fst (cron_update_row i u now rows)) = Some (apply_cron_update u now r)"
proof (cases "u = no_cron_update")
  case True
  then show ?thesis using assms(2) by (simp add: cron_update_row_def)
next
  case False
  then have "cron_row_ok (apply_cron_update u now r)"
    using assms by (simp add: cron_update_row_def split: if_splits)
  then show ?thesis using cron_get_update_ok(1) [OF assms(2) _ False] by simp
qed

lemma update_job_kept:
  assumes json: "config_json L" and inv: "cron_inv L st" and fits: "\<And>d. ju_schedule r = Some d \<Longrightarrow> dto_fits d"
  shows "cron_inv L (fst (update_job L now i r st))"
proof (rule update_job_cases [of st L now i r])
  assume "same_core st (fst (update_job L now i r st))"
  then show ?thesis using same_core_simps(3) inv by blast
next
  fix row j j'
  let ?st' = "fst (update_job L now i r st)"
  let ?u = "build_update_params L j' r"
  assume row: "cron_get i (cs_jobs st) = Some row" and job: "cron_job_from_row L row = Inr j"
    and edit: "edited_job L now r j = Inr j'"
    and core: "cs_jobs ?st' = fst (cron_update_row i ?u now (cs_jobs st))"
      "cs_timers ?st' = schedule_job j' (cs_timers st)" "cs_flights ?st' = cs_flights st"
    and wrote: "snd (cron_update_row i ?u now (cs_jobs st)) = Inr ()"
  have fine: "rows_fine L (cs_jobs st)" using inv by (simp add: cron_inv_def cron_fine_def)
  have rf: "row_fine L row" by (rule rows_fine_get [OF fine row])
  have ids: "cj_id j' = i" using edited_job_fields(1) [OF edit] cron_job_from_row_fields(1) [OF job] cron_get_id [OF row] by simp
  have j': "cj_enabled j' = newer (ju_enabled r) (cw_enabled row)"
      "ju_schedule r = None \<Longrightarrow> ju_enabled r = None \<Longrightarrow> cj_next_run_at j' = cw_next_run_at row"
    using edited_job_fields(2,3) [OF edit] cron_job_from_row_fields [OF job] by simp_all
  have rf': "row_fine L (apply_cron_update ?u now row)"
    by (rule edited_row_fine [OF json rf job edit fits])
  show ?thesis
  proof (rule cron_invI [OF inv, of i])
    show "touches_only i st ?st'"
      using cron_get_update [of _ i ?u now "cs_jobs st"] by (auto simp: touches_only_def core schedule_job_other ids)
    show "cron_fine L ?st'"
      using inv rows_fine_update [OF fine, of i ?u now] rf' row by (simp add: cron_inv_def cron_fine_def core)
    have "cw_enabled x = cj_enabled j' \<and> cw_next_run_at x = cj_next_run_at j'"
      if x: "cron_get i (cs_jobs ?st') = Some x" for x
    proof -
      have "(x = row \<and> ?u = no_cron_update) \<or> x = apply_cron_update ?u now row"
        using cron_update_row_Inr [OF wrote row] x unfolding core by auto
      then consider "x = row" "?u = no_cron_update" | "x = apply_cron_update ?u now row" by blast
      then show ?thesis
      proof cases
        case 1
        have "cu_enabled ?u = None" "cu_next_run_at ?u = None" unfolding 1(2) by simp_all
        then have "ju_enabled r = None" "ju_schedule r = None" by (auto split: if_splits)
        then show ?thesis using j' 1 by simp
      next
        case 2
        then show ?thesis using j' by (cases "ju_enabled r"; cases "ju_schedule r") simp_all
      qed
    qed
    then show "armed_at i ?st'" by (auto simp: armed_at_def core timer_live_schedule ids)
  qed
qed

lemma remove_job_kept:
  assumes inv: "cron_inv L st"
  shows "cron_inv L (fst (remove_job i st))"
proof -
  let ?st' = "fst (remove_job i st)"
  have fine: "rows_fine L (cs_jobs st)" using inv by (simp add: cron_inv_def cron_fine_def)
  then have distinct: "distinct (map cw_id (cs_jobs st))" by (simp add: rows_fine_def)
  have core: "cs_jobs ?st' = filter (\<lambda>r. cw_id r \<noteq> i) (cs_jobs st)" "cs_timers ?st' = cancel_timer i (cs_timers st)"
      "cs_flights ?st' = cs_flights st"
    using filter_id_conv [of "\<lambda>r. cw_id r \<noteq> i" "cs_jobs st"]
    by (auto simp: remove_job_def Let_def cron_delete_def cron_get_None)
  show ?thesis
  proof (rule cron_invI [OF inv, of i])
    show "touches_only i st ?st'"
      using cron_get_id by (fastforce simp: touches_only_def core cron_get_filter [OF distinct] cancel_timer_other split: option.split)
    show "cron_fine L ?st'"
      using inv by (auto simp: cron_inv_def cron_fine_def rows_fine_def core distinct_map_filter)
    show "armed_at i ?st'"
      by (auto simp: armed_at_def core dest: cron_get_id)
  qed
qed

section \<open>Loops over the jobs\<close>

lemma delete_by_conversation_fields:
  "cs_jobs (delete_jobs_by_conversation c st) = filter (\<lambda>r. cw_conversation_id r \<noteq> c) (cs_jobs st)"
  "cs_flights (delete_jobs_by_conversation c st) = cs_flights st"
  "k \<notin> cw_id ` {r\<in>set (cs_jobs st). cw_conversation_id r = c} \<Longrightarrow>
     cs_timers (delete_jobs_by_conversation c st) k = cs_timers st k"
proof -
  let ?f = "\<lambda>row st. cron_emit (JobRemoved (cw_id row)) (st\<lparr>cs_timers := cancel_timer (cw_id row) (cs_timers st)\<rparr>)"
  have loop: "cs_jobs (fold ?f rs st) = cs_jobs st \<and> cs_flights (fold ?f rs st) = cs_flights st \<and>
      (k \<notin> cw_id ` set rs \<longrightarrow> cs_timers (fold ?f rs st) k = cs_timers st k)" for rs st
    by (induction rs arbitrary: st) (auto simp: cancel_timer_other)
  show "cs_jobs (delete_jobs_by_conversation c st) = filter (\<lambda>r. cw_conversation_id r \<noteq> c) (cs_jobs st)"
    "cs_flights (delete_jobs_by_conversation c st) = cs_flights st"
    using loop [of "cron_list_by_conversation c (cs_jobs st)" st]
    by (simp_all add: delete_jobs_by_conversation_def Let_def cron_delete_by_conversation_def)
  assume "k \<notin> cw_id ` {r\<in>set (cs_jobs st). cw_conversation_id r = c}"
  then show "cs_timers (delete_jobs_by_conversation c st) k = cs_timers st k"
    using loop [of "cron_list_by_conversation c (cs_jobs st)" st]
    by (auto simp: delete_jobs_by_conversation_def Let_def cron_list_by_conversation_def)
qed

lemma delete_by_conversation_kept:
  assumes inv: "cron_inv L st"
  shows "cron_inv L (delete_jobs_by_conversation c st)"
proof -
  let ?st' = "delete_jobs_by_conversation c st"
  have distinct: "distinct (map cw_id (cs_jobs st))" using inv by (simp add: cron_inv_def cron_fine_def rows_fine_def)
  have "armed_at k ?st'" for k
    unfolding armed_at_def
  proof (intro allI impI)
    fix r
    assume r: "cron_get k (cs_jobs ?st') = Some r" "cw_enabled r" "cw_next_run_at r \<noteq> None"
    then have old: "cron_get k (cs_jobs st) = Some r" "cw_conversation_id r \<noteq> c"
      by (auto simp: delete_by_conversation_fields cron_get_filter [OF distinct] split: option.splits if_splits)
    have "x = r" if "x \<in> set (cs_jobs st)" "cw_id x = k" for x
      using that old(1) cron_get_iff [OF distinct] by (metis option.inject)
    then have "k \<notin> cw_id ` {r\<in>set (cs_jobs st). cw_conversation_id r = c}" using old(2) by auto
    then show "timer_live k (cs_timers ?st') \<or> ticking k (cs_flights ?st')"
      using inv old(1) r(2,3) by (simp add: cron_inv_def armed_at_def timer_live_def delete_by_conversation_fields)
  qed
  then show ?thesis
    using inv by (auto simp: cron_inv_def cron_fine_def rows_fine_def delete_by_conversation_fields distinct_map_filter)
qed

text \<open>A loop whose body handles one row each, starting from the listed rows\<close>

lemma fold_rows:
  assumes body: "\<And>r st. cron_fine L st \<Longrightarrow> cron_get (cw_id r) (cs_jobs st) = Some r \<Longrightarrow>
      cron_fine L (f r st) \<and> touches_only (cw_id r) st (f r st) \<and> armed_at (cw_id r) (f r st)"
    and "cron_fine L st" and "distinct (map cw_id rs)"
    and "\<forall>r\<in>set rs. cron_get (cw_id r) (cs_jobs st) = Some r"
  shows "cron_fine L (fold f rs st) \<and> (\<forall>k. (k \<in> cw_id ` set rs \<or> armed_at k st) \<longrightarrow> armed_at k (fold f rs st))"
  using assms(2-4)
proof (induction rs arbitrary: st)
  case Nil
  then show ?case by simp
next
  case (Cons r rs)
  have b: "cron_fine L (f r st)" "touches_only (cw_id r) st (f r st)" "armed_at (cw_id r) (f r st)"
    using body [of st r] Cons.prems by simp_all
  have "\<forall>x\<in>set rs. cron_get (cw_id x) (cs_jobs (f r st)) = Some x"
  proof
    fix x
    assume x: "x \<in> set rs"
    then have "cw_id x \<in> cw_id ` set rs" by simp
    then have "cw_id x \<noteq> cw_id r" using Cons.prems(2) by (metis distinct.simps(2) list.map(2) list.set_map)
    then show "cron_get (cw_id x) (cs_jobs (f r st)) = Some x"
      using b(2) Cons.prems(3) x by (simp add: touches_only_def)
  qed
  from Cons.IH [OF b(1) _ this] Cons.prems(2) have IH: "cron_fine L (fold f rs (f r st))"
      "\<And>k. k \<in> cw_id ` set rs \<or> armed_at k (f r st) \<Longrightarrow> armed_at k (fold f rs (f r st))" by auto
  moreover have "armed_at k (f r st)" if "k = cw_id r \<or> armed_at k st" for k
    using that b(3) armed_others [OF b(2)] by (cases "k = cw_id r") auto
  ultimately show ?case by auto
qed

lemma loop_kept:
  assumes body: "\<And>r st. cron_fine L st \<Longrightarrow> cron_get (cw_id r) (cs_jobs st) = Some r \<Longrightarrow>
      cron_fine L (f r st) \<and> touches_only (cw_id r) st (f r st) \<and> armed_at (cw_id r) (f r st)"
    and fine: "cron_fine L st"
  shows "cron_inv L (fold f (cron_list_enabled (cs_jobs st)) st)"
proof -
  let ?rs = "cron_list_enabled (cs_jobs st)"
  have rows: "rows_fine L (cs_jobs st)" using fine by (simp add: cron_fine_def)
  then have distinct: "distinct (map cw_id (cs_jobs st))" by (simp add: rows_fine_def)
  have d: "distinct (map cw_id ?rs)"
    using distinct by (auto simp: cron_list_enabled_def distinct_map inj_on_def)
  have get: "\<forall>r\<in>set ?rs. cron_get (cw_id r) (cs_jobs st) = Some r"
    by (simp add: cron_list_enabled_def cron_get_iff [OF distinct])
  have result: "cron_fine L (fold f ?rs st)" "\<And>k. k \<in> cw_id ` set ?rs \<or> armed_at k st \<Longrightarrow> armed_at k (fold f ?rs st)"
    using fold_rows [of L f st ?rs, OF body fine d get] by auto
  have "armed_at k st" if "k \<notin> cw_id ` set ?rs" for k
    using that by (auto simp: armed_at_def cron_list_enabled_def dest: cron_get_id)
  then show ?thesis using result by (auto simp: cron_inv_def)
qed

lemma init_row_effect:
  assumes fine: "cron_fine L st" and row: "cron_get (cw_id r) (cs_jobs st) = Some r"
  shows "cron_fine L (init_row L claimed r st) \<and> touches_only (cw_id r) st (init_row L claimed r st) \<and>
    armed_at (cw_id r) (init_row L claimed r st)"
proof -
  have distinct: "distinct (map cw_id (cs_jobs st))" using fine by (simp add: cron_fine_def rows_fine_def)
  have "row_reads L r" using rows_fine_get [OF _ row] fine by (auto simp: cron_fine_def row_fine_def)
  then obtain j where j: "cron_job_from_row L r = Inr j" by (rule row_reads_job)
  note jf = cron_job_from_row_fields [OF j]
  show ?thesis
  proof (cases "is_orphan claimed j (cs_convs st)")
    case True
    have del: "fst (cron_delete (cj_id j) (cs_jobs st)) = filter (\<lambda>x. cw_id x \<noteq> cw_id r) (cs_jobs st)"
      by (simp add: cron_delete_def jf row)
    have "cron_fine L (st\<lparr>cs_jobs := filter (\<lambda>x. cw_id x \<noteq> cw_id r) (cs_jobs st)\<rparr>)"
      using fine by (auto simp: cron_fine_def rows_fine_def distinct_map_filter)
    moreover have "touches_only (cw_id r) st (st\<lparr>cs_jobs := filter (\<lambda>x. cw_id x \<noteq> cw_id r) (cs_jobs st)\<rparr>)"
      using cron_get_id by (fastforce simp: touches_only_def cron_get_filter [OF distinct] split: option.split)
    moreover have "armed_at (cw_id r) (st\<lparr>cs_jobs := filter (\<lambda>x. cw_id x \<noteq> cw_id r) (cs_jobs st)\<rparr>)"
      by (auto simp: armed_at_def dest: cron_get_id)
    ultimately show ?thesis by (simp add: init_row_def j True del)
  next
    case False
    then show ?thesis using fine row
      by (simp add: init_row_def j cron_fine_def touches_only_def armed_at_def schedule_job_other timer_live_schedule jf)
  qed
qed

lemma tips_core: "same_core st (insert_missed_job_tips L E now j st)"
  by (auto simp: insert_missed_job_tips_def same_core_def Let_def split: prod.splits sum.splits)

lemma missed_effect:
  assumes fine: "cron_fine L st" and "cj_enabled j"
  shows "cron_fine L (reschedule_after_missed L now j st) \<and> touches_only (cj_id j) st (reschedule_after_missed L now j st) \<and>
    (cron_get (cj_id j) (cs_jobs st) \<noteq> None \<longrightarrow> armed_at (cj_id j) (reschedule_after_missed L now j st))"
proof (cases "is_at (cj_schedule j)")
  case True
  let ?x = "cron_emit (JobUpdated (j\<lparr>cj_enabled := False, cj_next_run_at := None\<rparr>)) (reschedule_after_missed L now j st)"
  have "reschedule_after_execution L now j st = ?x"
    by (simp add: reschedule_after_execution_def reschedule_after_missed_def True)
  then have core: "same_core (reschedule_after_missed L now j st) (reschedule_after_execution L now j st)"
    by (simp add: same_core_def)
  show ?thesis using reschedule_effect [OF assms, of now] unfolding same_core_simps [OF core] by blast
next
  case False
  let ?u = "no_cron_update\<lparr>cu_next_run_at := Some (compute_next_run L (cj_schedule j) now)\<rparr>"
  show ?thesis
  proof (cases "cron_get (cj_id j) (cs_jobs st)")
    case None
    then have "reschedule_after_missed L now j st = st"
      by (simp add: reschedule_after_missed_def False cron_update_row_def no_cron_update_neq Let_def)
    then show ?thesis using fine None by simp
  next
    case (Some r)
    have u: "bookkeeping ?u" "?u \<noteq> no_cron_update" by (simp_all add: bookkeeping_def no_cron_update_neq)
    have "row_fine L (apply_cron_update ?u now r)"
      using bookkeeping_fine [OF u(1)] rows_fine_get [OF _ Some] fine by (auto simp: cron_fine_def)
    then have "cron_row_ok (apply_cron_update ?u now r)" by (intro row_reads_ok row_fineD)
    from cron_get_update_ok(2) [OF Some this u(2)]
    have "reschedule_after_missed L now j st = reschedule_after_execution L now j st"
      by (cases "cron_update_row (cj_id j) ?u now (cs_jobs st)")
        (simp add: reschedule_after_missed_def reschedule_after_execution_def False Let_def update_quietly_def)
    then show ?thesis using reschedule_effect [OF assms, of now] by simp
  qed
qed

lemma resume_row_effect:
  assumes fine: "cron_fine L st" and row: "cron_get (cw_id r) (cs_jobs st) = Some r" and enabled: "cw_enabled r"
  shows "cron_fine L (resume_row L E now r st) \<and> touches_only (cw_id r) st (resume_row L E now r st) \<and>
    armed_at (cw_id r) (resume_row L E now r st)"
proof -
  have "row_reads L r" using rows_fine_get [OF _ row] fine by (auto simp: cron_fine_def row_fine_def)
  then obtain j where j: "cron_job_from_row L r = Inr j" by (rule row_reads_job)
  note jf = cron_job_from_row_fields [OF j]
  show ?thesis
  proof (cases "case cj_next_run_at j of None \<Rightarrow> False | Some at \<Rightarrow> at < now")
    case True
    let ?u = "no_cron_update\<lparr>cu_last_status := Some (Some ''missed''), cu_last_error := Some None, cu_retry_count := Some 0\<rparr>"
    let ?st1 = "update_quietly (cj_id j) ?u now st"
    let ?st2 = "insert_missed_job_tips L E now j ?st1"
    let ?st3 = "reschedule_after_missed L now j ?st2"
    have u: "bookkeeping ?u" by (simp add: bookkeeping_def)
    have fine1: "cron_fine L ?st1" by (rule update_quietly_fine [OF fine u])
    have there: "cron_get (cj_id j) (cs_jobs ?st1) \<noteq> None"
      using row jf cron_get_update [of "cj_id j" "cj_id j" ?u now "cs_jobs st"] by (auto simp: update_quietly_def)
    have core: "same_core ?st1 ?st2" by (rule tips_core)
    have fine2: "cron_fine L ?st2" and touch2: "touches_only (cj_id j) st ?st2"
      using fine1 update_quietly_touches unfolding same_core_simps [OF core] by blast+
    have there2: "cron_get (cj_id j) (cs_jobs ?st2) \<noteq> None" using there core by (simp add: same_core_def)
    have "cj_enabled j" using jf enabled by simp
    from missed_effect [OF fine2 this, of now] touch2 there2
    have "cron_fine L ?st3 \<and> touches_only (cj_id j) st ?st3 \<and> armed_at (cj_id j) ?st3"
      using touches_only_trans by blast
    moreover have "same_core ?st3 (resume_row L E now r st)"
      using True by (simp add: resume_row_def j Let_def same_core_def)
    ultimately show ?thesis using same_core_simps [of ?st3 "resume_row L E now r st"] jf(1) by simp
  next
    case False
    then show ?thesis using fine row
      by (simp add: resume_row_def j cron_fine_def touches_only_def armed_at_def schedule_job_other timer_live_schedule jf)
  qed
qed

text \<open>The loop of a resume works on enabled rows only; for others its body is not called.\<close>

lemma resume_kept:
  assumes inv: "cron_inv L st"
  shows "cron_inv L (handle_system_resume L E now st)"
proof -
  let ?f = "\<lambda>r st. if cw_enabled r then resume_row L E now r st else st"
  have same: "fold (resume_row L E now) rs s = fold ?f rs s" if "\<forall>r\<in>set rs. cw_enabled r" for rs s
    using that by (induction rs arbitrary: s) simp_all
  have body: "cron_fine L (?f r s) \<and> touches_only (cw_id r) s (?f r s) \<and> armed_at (cw_id r) (?f r s)"
    if fine: "cron_fine L s" and row: "cron_get (cw_id r) (cs_jobs s) = Some r" for r s
  proof (cases "cw_enabled r")
    case True
    then show ?thesis using resume_row_effect [OF fine row True, of E now] by simp
  next
    case False
    then show ?thesis using fine row by (simp add: armed_at_def)
  qed
  have "cron_inv L (fold ?f (cron_list_enabled (cs_jobs st)) st)"
    by (rule loop_kept [OF body]) (use inv in \<open>simp_all add: cron_inv_def\<close>)
  then show ?thesis
    by (simp add: handle_system_resume_def same cron_list_enabled_def)
qed

lemma restart_kept:
  assumes inv: "cron_inv L st"
  shows "cron_inv L (init_jobs L claimed (st\<lparr>cs_timers := (\<lambda>_. None), cs_flights := []\<rparr>))"
proof -
  let ?st = "st\<lparr>cs_timers := (\<lambda>_. None), cs_flights := []\<rparr>"
  have "cron_inv L (fold (init_row L claimed) (cron_list_enabled (cs_jobs ?st)) ?st)"
    by (rule loop_kept [OF init_row_effect]) (use inv in \<open>simp_all add: cron_inv_def cron_fine_def\<close>)
  then show ?thesis by (simp add: init_jobs_def)
qed

section \<open>Requests and commands\<close>

lemma fst_and_then_ret [simp]: "fst (and_then r (\<lambda>x s. (s, Inr (f x)))) = fst r"
  by (cases r; cases "snd r") auto

lemma routes_kept:
  assumes json: "config_json L" and inv: "cron_inv L st"
  shows "cron_inv L (fst (cron_routes L E now user req st))"
proof (cases req)
  case (CreateJob body)
  have "cron_inv L (fst (add_job L E now r st))" if "create_body body = Inr r" for r
    by (rule add_job_kept [OF json inv]) (use that in \<open>auto simp: create_body_def split: sum.splits if_splits\<close>)
  then show ?thesis using inv
    by (cases "create_body body") (auto simp: CreateJob cron_routes_def create_job_handler_def)
next
  case (ListJobs conv)
  then show ?thesis using inv
    by (auto simp: cron_routes_def list_jobs_handler_def lift_result_def split: sum.split)
next
  case (GetJob i)
  then show ?thesis using inv
    by (auto simp: cron_routes_def get_job_handler_def lift_result_def split: sum.split)
next
  case (UpdateJob i body)
  have "cron_inv L (fst (update_job L now i r st))" if "update_body body = Inr r" for r
    by (rule update_job_kept [OF json inv]) (use that in \<open>auto simp: update_body_def split: sum.splits if_splits option.splits\<close>)
  then show ?thesis using inv
    by (cases "update_body body"; cases "ensure_owner L user i st")
      (auto simp: UpdateJob cron_routes_def update_job_handler_def lift_result_def)
next
  case (DeleteJob i)
  then show ?thesis using inv remove_job_kept [OF inv, of i]
    by (cases "ensure_owner L user i st") (auto simp: cron_routes_def delete_job_handler_def lift_result_def)
next
  case (RunJob i inp)
  have "cron_inv L (fst (run_now L inp i st))"
    using inv by (auto simp: run_now_def cron_inv_def armed_at_def intro!: land_fine split: sum.split)
  then show ?thesis using inv
    by (cases "ensure_owner L user i st") (auto simp: RunJob cron_routes_def run_now_handler_def lift_result_def)
next
  case (SystemResume hdr)
  then show ?thesis using inv resume_kept [OF inv]
    by (simp add: cron_routes_def system_resume_handler_def)
qed

lemma convs_core: "same_core st (st\<lparr>cs_convs := convs\<rparr>)"
  by (simp add: same_core_def)

lemma convs_kept [simp]: "cron_inv L (st\<lparr>cs_convs := convs\<rparr>) = cron_inv L st"
  by (rule same_core_simps(3) [OF convs_core])

lemma agent_create_kept:
  assumes "config_json L" and "cron_inv L st"
  shows "cron_inv L (fst (agent_create_job L E now c p derived st))"
proof -
  let ?r = "\<lparr>jr_name = kp_name p, jr_description = None,
               jr_schedule = DtoCron (kp_schedule p) None (Some (kp_schedule_description p)),
               jr_prompt = None, jr_message = Some (kp_message p), jr_conversation_id = c,
               jr_conversation_title = fst (snd derived), jr_agent_type = fst derived, jr_created_by = ''agent'',
               jr_execution_mode = Some ''existing'', jr_agent_config = snd (snd derived)\<rparr>"
  have "cron_inv L (fst (add_job L E now ?r st))" by (rule add_job_kept [OF assms]) simp
  then show ?thesis
    by (cases "add_job L E now ?r st"; cases "snd (add_job L E now ?r st)") (simp_all add: agent_create_job_def Let_def)
qed

lemma agent_update_kept:
  assumes "config_json L" and "cron_inv L st"
  shows "cron_inv L (fst (agent_update_job L now c i p st))"
proof -
  let ?r = "\<lparr>ju_name = Some (kp_name p), ju_description = None, ju_enabled = None,
               ju_schedule = Some (DtoCron (kp_schedule p) None (Some (kp_schedule_description p))),
               ju_message = Some (kp_message p), ju_execution_mode = None, ju_agent_config = None,
               ju_conversation_title = None, ju_max_retries = None\<rparr>"
  have "cron_inv L (fst (update_job L now i ?r st))" by (rule update_job_kept [OF assms]) auto
  then show ?thesis
    by (cases "update_job L now i ?r st"; cases "snd (update_job L now i ?r st)") (simp_all add: agent_update_job_def Let_def)
qed

lemma cron_step_kept:
  assumes "config_json L" and "cron_inv L st"
  shows "cron_inv L (cron_step_to L E now step st)"
proof (cases step)
  case (StepAgentDelete i)
  then show ?thesis using remove_job_kept [OF assms(2), of i]
    by (auto simp: cron_step_to_def agent_delete_job_def split: prod.split sum.split)
qed (use assms routes_kept agent_create_kept agent_update_kept delete_by_conversation_kept fire_kept advance_kept
      restart_kept in \<open>simp_all add: cron_step_to_def\<close>)

lemma cron_start_inv: "cron_inv L (cron_start convs)"
  by (simp add: cron_inv_def cron_fine_def rows_fine_def armed_at_def cron_start_def cron_get_def)

lemma cron_reachable_inv:
  assumes "config_json L" and "cron_reachable L E st"
  shows "cron_inv L st"
  using assms(2) by (induction) (auto intro: cron_start_inv cron_step_kept [OF assms(1)])

end
