(* ===== verification/CronProperties.thy ===== *)
theory CronProperties
  imports CronStepsKept
begin

text \<open>
  What holds of scheduled jobs: no enabled job is forgotten by the timers, retries are bounded, a job survives its
  row, and a user's requests do not reach the jobs of others; with runs of the system in which a change is lost.
\<close>

section \<open>A concrete library\<close>

definition demo_opt :: "string option \<Rightarrow> string" where
  "demo_opt x = (case x of None \<Rightarrow> [] | Some s \<Rightarrow> CHR ''s'' # s)"

definition demo_unopt :: "string \<Rightarrow> string option" where
  "demo_unopt s = (case s of [] \<Rightarrow> None | _ # t \<Rightarrow> Some t)"

lemma demo_unopt_opt [simp]: "demo_unopt (demo_opt x) = x"
  by (cases x) (simp_all add: demo_opt_def demo_unopt_def)

definition demo_bool :: "bool option \<Rightarrow> string" where
  "demo_bool b = demo_opt (map_option (\<lambda>b. if b then ''1'' else []) b)"

definition demo_unbool :: "string \<Rightarrow> bool option" where
  "demo_unbool s = map_option (\<lambda>t. t = ''1'') (demo_unopt s)"

lemma demo_unbool_bool [simp]: "demo_unbool (demo_bool b) = b"
  by (cases b) (simp_all add: demo_bool_def demo_unbool_def)

fun demo_pairs :: "string list \<Rightarrow> (string \<times> string) list" where
  "demo_pairs (a # b # xs) = (a, b) # demo_pairs xs"
| "demo_pairs _ = []"

lemma demo_pairs_concat [simp]: "demo_pairs (concat (map (\<lambda>(a, b). [a, b]) ps)) = ps"
  by (induction ps) auto

definition demo_config_ser :: "cron_agent_config \<Rightarrow> string" where
  "demo_config_ser c =
     demo_ser [ac_backend c, ac_name c, demo_opt (ac_cli_path c), demo_bool (ac_is_preset c),
       demo_opt (ac_custom_agent_id c), demo_opt (ac_preset_agent_type c), demo_opt (ac_mode c), demo_opt (ac_model_id c),
       demo_opt (map_option (\<lambda>ps. demo_ser (concat (map (\<lambda>(a, b). [a, b]) ps))) (ac_config_options c)),
       demo_opt (ac_workspace c)]"

definition demo_config_de :: "string \<Rightarrow> cron_agent_config option" where
  "demo_config_de s =
     (case demo_de [] s of
        Some [b, n, cli, pre, cust, pat, m, mid, opts, ws] \<Rightarrow>
          Some \<lparr>ac_backend = b, ac_name = n, ac_cli_path = demo_unopt cli, ac_is_preset = demo_unbool pre,
                ac_custom_agent_id = demo_unopt cust, ac_preset_agent_type = demo_unopt pat, ac_mode = demo_unopt m,
                ac_model_id = demo_unopt mid,
                ac_config_options = map_option (\<lambda>t. case demo_de [] t of None \<Rightarrow> [] | Some xs \<Rightarrow> demo_pairs xs) (demo_unopt opts),
                ac_workspace = demo_unopt ws\<rparr>
      | _ \<Rightarrow> None)"

text \<open>JSON documents are empty objects, an expression is its number of milliseconds, every directory exists.\<close>

definition demo_cron_json :: json_lib where
  "demo_cron_json = \<lparr>js_valid = (\<lambda>_. True), js_field = (\<lambda>_ _. None), js_set = (\<lambda>d _ _. Some d), js_object = (\<lambda>_. [])\<rparr>"

definition demo_cron :: cron_lib where
  "demo_cron =
     \<lparr>cl_json = demo_cron_json, cl_config_ser = demo_config_ser, cl_config_de = demo_config_de,
      cl_expr_ok = (\<lambda>_. True), cl_tz_ok = (\<lambda>_. True), cl_next_after = (\<lambda>_ _ now. Some (now + 1000)),
      cl_workspace_ok = (\<lambda>_. True), cl_conv_text = (\<lambda>_. []), cl_db_text = (\<lambda>_. [])\<rparr>"

lemma demo_config_round: "demo_config_de (demo_config_ser c) = Some c"
  by (simp add: demo_config_ser_def demo_config_de_def demo_de_ser option.map_comp comp_def option.map_ident)

lemma demo_cron_json_ok: "config_json demo_cron"
  by (simp add: config_json_def demo_cron_def demo_config_round)

definition demo_convs :: conv_db where
  "demo_convs =
     \<lparr>cv_rows =
        [\<lparr>cr_id = ''c'', cr_user_id = ''u'', cr_name = ''n'', cr_type = ''acp'', cr_extra = [], cr_model = None,
          cr_status = Some ''pending'', cr_source = None, cr_channel_chat_id = None, cr_project_id = None,
          cr_pinned = False, cr_pinned_at = None, cr_created_at = 0, cr_updated_at = 0\<rparr>],
      cv_messages = [], cv_artifacts = [], cv_users = [''u'', ''v'']\<rparr>"

definition demo_job_request :: "schedule_dto \<Rightarrow> string \<Rightarrow> create_job_request" where
  "demo_job_request s c =
     \<lparr>jr_name = ''j'', jr_description = None, jr_schedule = s, jr_prompt = None, jr_message = Some ''m'',
      jr_conversation_id = c, jr_conversation_title = None, jr_agent_type = ''acp'', jr_created_by = ''user'',
      jr_execution_mode = None, jr_agent_config = None\<rparr>"

definition no_job_update :: update_job_request where
  "no_job_update =
     \<lparr>ju_name = None, ju_description = None, ju_enabled = None, ju_schedule = None, ju_message = None,
      ju_execution_mode = None, ju_agent_config = None, ju_conversation_title = None, ju_max_retries = None\<rparr>"

definition demo_input :: exec_input where
  "demo_input = \<lparr>xi_skill = None, xi_created = Inr ''c'', xi_claimed = False, xi_setup = None, xi_send = SendOk\<rparr>"

definition demo_cron_run :: "cron_step list \<Rightarrow> cron_state" where
  "demo_cron_run steps = fold (cron_step_to demo_cron sample_env 100) steps (cron_start demo_convs)"

lemma demo_cron_run_reachable: "cron_reachable demo_cron sample_env (demo_cron_run steps)"
proof -
  have "cron_reachable demo_cron sample_env (fold (cron_step_to demo_cron sample_env 100) steps st)"
    if "cron_reachable demo_cron sample_env st" for st
    using that by (induction steps arbitrary: st) (auto intro: cron_goes)
  then show ?thesis by (simp add: demo_cron_run_def cron_starts)
qed

abbreviation "create_demo s c \<equiv> StepRequest ''u'' (CreateJob (Inr (demo_job_request s c)))"

definition demo_id :: string where
  "demo_id = ''cron_'' @ mint_id sample_env 0"

section \<open>No job is forgotten\<close>

text \<open>C38. Whatever happens, and in whatever order executions end: an enabled job with a next time has a timer that
  will call its tick, or a tick under way; and its retries stay between zero and the fixed maximum of three.\<close>

theorem no_job_is_forgotten:
  assumes "config_json L" and "cron_reachable L E st" and "r \<in> set (cs_jobs st)"
  shows "(cw_enabled r \<and> cw_next_run_at r \<noteq> None \<longrightarrow>
      timer_live (cw_id r) (cs_timers st) \<or> (\<exists>f\<in>set (cs_flights st). tick_of f = Some (cw_id r))) \<and>
    0 \<le> cw_retry_count r \<and> cw_retry_count r \<le> 3 \<and> cw_max_retries r = 3"
proof -
  have inv: "cron_inv L st" by (rule cron_reachable_inv [OF assms(1,2)])
  then have rows: "rows_fine L (cs_jobs st)" by (simp add: cron_inv_def cron_fine_def)
  then have "cron_get (cw_id r) (cs_jobs st) = Some r" using assms(3) by (simp add: rows_fine_def cron_get_iff)
  moreover have "row_fine L r" using rows assms(3) by (simp add: rows_fine_def)
  moreover have "armed_at (cw_id r) st" using inv by (simp add: cron_inv_def)
  ultimately show ?thesis by (simp add: armed_at_def row_fine_def ticking_def)
qed

lemma no_job_is_forgotten_witness:
  "timer_live demo_id (cs_timers (demo_cron_run [create_demo (DtoEvery 60 None) ''c''])) \<or>
   (\<exists>f\<in>set (cs_flights (demo_cron_run [create_demo (DtoEvery 60 None) ''c''])). tick_of f = Some demo_id)"
proof -
  let ?st = "demo_cron_run [create_demo (DtoEvery 60 None) ''c'']"
  have "map (\<lambda>r. (cw_id r, cw_enabled r, cw_next_run_at r)) (cs_jobs ?st) = [(demo_id, True, Some 160)]" by code_simp
  then obtain r where "r \<in> set (cs_jobs ?st)" "cw_id r = demo_id" "cw_enabled r" "cw_next_run_at r = Some 160"
    by (cases "cs_jobs ?st") auto
  then show ?thesis
    using no_job_is_forgotten [OF demo_cron_json_ok demo_cron_run_reachable, of r "[create_demo (DtoEvery 60 None) ''c'']"] by auto
qed

section \<open>Rows\<close>

text \<open>C39. A job survives its row: the row written for a job, when its numbers fit, reads back as that job.\<close>

theorem job_row_roundtrip:
  assumes "config_json L" and "schedule_fits (cj_schedule j)"
  shows "cron_job_from_row L (cron_job_to_row L j) = Inr j"
proof -
  obtain kind v tz d where f: "schedule_to_row_fields (cj_schedule j) = (kind, v, tz, d)"
    by (cases "schedule_to_row_fields (cj_schedule j)") auto
  have "cl_config_de L (cl_config_ser L c) = Some c" for c using assms(1) by (simp add: config_json_def)
  then show ?thesis
    using parse_schedule_of_fields [OF assms(2) f]
    by (cases "cj_agent_config j"; cases "cj_last_status j") (simp_all add: cron_job_from_row_def cron_job_to_row_def f)
qed

definition demo_job :: "cron_schedule \<Rightarrow> cron_job" where
  "demo_job s = new_job demo_cron 100 demo_id ExistingMode ByUser (demo_job_request (DtoEvery 60 None) ''c'')\<lparr>cj_schedule := s\<rparr>"

lemma job_row_roundtrip_witness:
  "cron_job_from_row demo_cron (cron_job_to_row demo_cron (demo_job (SchedAt (- 42) (Some ''d'')))) = Inr (demo_job (SchedAt (- 42) (Some ''d'')))"
  by (rule job_row_roundtrip [OF demo_cron_json_ok]) (simp add: demo_job_def in_i64_def i64_min_def i64_max_def)

section \<open>Jobs of others\<close>

definition asks_for :: "string \<Rightarrow> cron_request \<Rightarrow> bool" where
  "asks_for i req \<longleftrightarrow>
     (case req of
        GetJob k \<Rightarrow> k = i
      | UpdateJob k body \<Rightarrow> k = i \<and> (case update_body body of Inr _ \<Rightarrow> True | Inl _ \<Rightarrow> False)
      | DeleteJob k \<Rightarrow> k = i
      | RunJob k inp \<Rightarrow> k = i
      | _ \<Rightarrow> False)"

text \<open>C40. A job of somebody else is as good as absent: each request for it is answered 404, as for a job that does
  not exist, and changes nothing; and it is in no list the user gets.\<close>

theorem others_jobs_are_hidden:
  assumes "get_job L i st = Inr j" and "job_owner j (cs_convs st) \<noteq> user"
  shows "(asks_for i req \<longrightarrow> cron_routes L E now user req st = (st, Inl (NotFound i))) \<and>
    (\<forall>js. list_jobs_for_user L user conv st = Inr js \<longrightarrow> j \<notin> set js)"
proof (intro conjI allI impI)
  have e: "ensure_owner L user i st = Inl (JobNotFound i)" using assms by (simp add: ensure_owner_def)
  assume "asks_for i req"
  then show "cron_routes L E now user req st = (st, Inl (NotFound i))"
    by (cases req) (auto simp: asks_for_def cron_routes_def get_job_handler_def update_job_handler_def delete_job_handler_def
        run_now_handler_def lift_result_def e split: sum.splits)
next
  fix js
  assume "list_jobs_for_user L user conv st = Inr js"
  then show "j \<notin> set js"
    using assms(2) by (auto simp: list_jobs_for_user_def split: sum.splits)
qed

lemma others_jobs_are_hidden_witness:
  "cron_routes demo_cron sample_env 100 ''v'' (DeleteJob demo_id) (demo_cron_run [create_demo (DtoEvery 60 None) ''c'']) =
     (demo_cron_run [create_demo (DtoEvery 60 None) ''c''], Inl (NotFound demo_id))"
proof -
  let ?st = "demo_cron_run [create_demo (DtoEvery 60 None) ''c'']"
  have "(case get_job demo_cron demo_id ?st of Inr j \<Rightarrow> job_owner j (cs_convs ?st) | _ \<Rightarrow> []) = ''u''" by code_simp
  then obtain j where j: "get_job demo_cron demo_id ?st = Inr j" "job_owner j (cs_convs ?st) \<noteq> ''v''"
    by (auto split: sum.splits)
  show ?thesis using others_jobs_are_hidden [OF j, of "DeleteJob demo_id" sample_env 100] by (simp add: asks_for_def)
qed

section \<open>A job for a single time\<close>

lemma reschedule_at:
  assumes "cron_fine L st" and "is_at (cj_schedule j)"
    and "cron_get (cj_id j) (cs_jobs (reschedule_after_execution L now j st)) = Some r"
  shows "\<not> cw_enabled r \<and> cw_next_run_at r = None \<and> cs_timers (reschedule_after_execution L now j st) (cj_id j) = None"
proof -
  have u: "bookkeeping disable_params" "disable_params \<noteq> no_cron_update"
    by (simp_all add: disable_params_def bookkeeping_def no_cron_update_neq)
  show ?thesis
    using assms(3) update_enables [OF assms(1) u, of "cj_id j" now]
    by (cases "cron_get (cj_id j) (cs_jobs st)")
      (auto simp: reschedule_after_execution_def assms(2) Let_def cancel_timer_def disable_params_def)
qed

text \<open>A job for a single time ends with its execution: unless the conversation was busy and a retry is due, it is
  disabled, has no next time and no timer, whatever the result.\<close>

lemma single_time_ends:
  assumes "config_json L" and "cron_reachable L E st" and "k < length (cs_flights st)"
    and "cs_flights st ! k = TickExecuted j res" and "is_at (cj_schedule j)" and "\<forall>a. res \<noteq> ExecRetrying a"
    and "cron_get (cj_id j) (cs_jobs (advance L now inp k st)) = Some r"
  shows "\<not> cw_enabled r \<and> cw_next_run_at r = None \<and> cs_timers (advance L now inp k st) (cj_id j) = None"
proof -
  have "cron_inv L st" by (rule cron_reachable_inv [OF assms(1,2)])
  then have fine: "cron_fine L (without k st)" using without_fine by (auto simp: cron_inv_def)
  have adv: "advance L now inp k st = handle_execution_result L now j res (without k st)"
    using assms(3,4) by (simp add: advance_def Let_def without_def)
  have ends: ?thesis
    if "cron_fine L st'" "handle_execution_result L now j res (without k st) = cron_emit e (reschedule_after_execution L now j st')"
    for st' e
    using reschedule_at [OF that(1) assms(5), of now r] assms(7) by (simp add: adv that(2))
  show ?thesis
  proof (cases res)
    case (ExecSuccess c)
    show ?thesis
      by (rule ends [of "update_job_after_success L now (cj_id j) c (without k st)" "JobExecuted (cj_id j) ''ok'' None"])
        (simp_all add: success_effect [OF fine] handle_execution_result_def Let_def ExecSuccess)
  next
    case (ExecRetrying a)
    then show ?thesis using assms(6) by simp
  next
    case ExecSkipped
    show ?thesis
      by (rule ends [of "mark_skipped now (cj_id j) (without k st)" "JobExecuted (cj_id j) ''skipped'' None"])
        (simp_all add: skipped_effect [OF fine] handle_execution_result_def Let_def ExecSkipped)
  next
    case (ExecError m)
    show ?thesis
      by (rule ends [of "update_job_after_error now (cj_id j) m (without k st)" "JobExecuted (cj_id j) ''error'' (Some m)"])
        (simp_all add: error_effect [OF fine] handle_execution_result_def Let_def ExecError)
  qed
qed

definition demo_executed :: cron_state where
  "demo_executed = demo_cron_run [create_demo (DtoAt 50 None) ''c'', StepFire demo_id, StepAdvance 0 demo_input, StepAdvance 0 demo_input]"

lemma single_time_ends_witness:
  "cs_timers (advance demo_cron 100 demo_input 0 demo_executed) demo_id = None"
proof -
  have "map (\<lambda>f. case f of TickExecuted j res \<Rightarrow> cj_id j = demo_id \<and> is_at (cj_schedule j) \<and> res = ExecSuccess ''c'' | _ \<Rightarrow> False)
      (cs_flights demo_executed) = [True]" by code_simp
  then obtain j where j: "cs_flights demo_executed ! 0 = TickExecuted j (ExecSuccess ''c'')" "cj_id j = demo_id" "is_at (cj_schedule j)"
      "0 < length (cs_flights demo_executed)"
    by (cases "cs_flights demo_executed") (auto split: flight.splits)
  have "cron_get demo_id (cs_jobs (advance demo_cron 100 demo_input 0 demo_executed)) \<noteq> None" by code_simp
  then obtain r where "cron_get (cj_id j) (cs_jobs (advance demo_cron 100 demo_input 0 demo_executed)) = Some r"
    using j(2) by auto
  from single_time_ends [OF demo_cron_json_ok _ j(4,1,3) _ this, of sample_env]
  show ?thesis using j(2) demo_cron_run_reachable by (simp add: demo_executed_def)
qed

section \<open>Changes that are lost\<close>

text \<open>The maximum of retries of a request is shown in the answer, but not stored.\<close>

lemma retries_not_stored:
  "(case update_job demo_cron 100 demo_id (no_job_update\<lparr>ju_max_retries := Some 9\<rparr>) (demo_cron_run [create_demo (DtoEvery 60 None) ''c'']) of
      (st, Inr j) \<Rightarrow> (cj_max_retries j, map cw_max_retries (cs_jobs st)) | (st, Inl e) \<Rightarrow> (0, [])) = (9, [3])"
  by code_simp

text \<open>A job without a conversation is not its creator's: it can be neither read nor removed by the user who made it.\<close>

lemma creator_loses_job:
  "snd (cron_routes demo_cron sample_env 100 ''u'' (GetJob demo_id) (demo_cron_run [create_demo (DtoEvery 60 None) []])) = Inl (NotFound demo_id)"
  "snd (cron_routes demo_cron sample_env 100 ''u'' (DeleteJob demo_id) (demo_cron_run [create_demo (DtoEvery 60 None) []])) = Inl (NotFound demo_id)"
  by code_simp+

text \<open>A command in an agent's answer removes any job, whoever owns it.\<close>

lemma agent_removes_any_job:
  "map cw_id (cs_jobs (demo_cron_run [create_demo (DtoEvery 60 None) ''c''])) = [demo_id]"
  "cs_jobs (demo_cron_run [create_demo (DtoEvery 60 None) ''c'', StepAgentDelete demo_id]) = []"
  by code_simp+

text \<open>
  The result of an execution is written with the schedule the tick loaded: a job for a single time that gets an
  interval while it runs is disabled when the run ends.
\<close>

lemma stale_result_disables_job:
  "map (\<lambda>r. (cw_schedule_kind r, cw_enabled r, cw_next_run_at r))
     (cs_jobs (demo_cron_run [create_demo (DtoAt 50 None) ''c'', StepFire demo_id, StepAdvance 0 demo_input,
        StepRequest ''u'' (UpdateJob demo_id (Inr (no_job_update\<lparr>ju_schedule := Some (DtoEvery 60 None)\<rparr>))),
        StepAdvance 0 demo_input, StepAdvance 0 demo_input])) = [(''every'', False, None)]"
  by code_simp

text \<open>A resume reports a job as missed that is running at the time.\<close>

lemma running_job_reported_missed:
  "map (\<lambda>e. case e of JobExecuted i s _ \<Rightarrow> s | _ \<Rightarrow> [])
     (cs_events (demo_cron_run [create_demo (DtoAt 50 None) ''c'', StepFire demo_id, StepAdvance 0 demo_input,
        StepRequest ''v'' (SystemResume (Some ''1'')), StepAdvance 0 demo_input, StepAdvance 0 demo_input])) =
   [[], [], ''missed'', [], ''ok'']"
  by code_simp

text \<open>The sum of the time and a valid interval wraps around: the job is due in the distant past.\<close>

lemma interval_wraps:
  "validate_schedule L (SchedEvery i64_max d) = Inr ()" "compute_next_run L (SchedEvery i64_max d) 1 = Some i64_min"
  by (simp_all add: i64_max_def i64_min_def i64_add_def)

end
