(* ===== verification/FileSandbox.thy ===== *)
theory FileSandbox
  imports Prelude
begin

text \<open>
  The file sandbox: paths as Rust's \<open>std::path\<close> reads them, a file system with directories, files and symbolic
  links, the path checks of \<open>aionui-file/src/path_safety.rs\<close>, the operations of \<open>service.rs\<close> that read, write,
  remove and rename one entry, and the user's scope and directories of \<open>routes.rs\<close>.

  A location is the list of names from the root directory; the file system maps locations to nodes. Resolving a
  path follows symbolic links, at most 40 of them, as Linux does; this also ends the resolution of a cycle. Rights,
  limits on lengths and the texts of the system's errors are not modelled, and a request runs while no other
  process changes the file system.
\<close>

section \<open>Paths\<close>

datatype path_comp = RootDir | CurDir | ParentDir | Normal string

type_synonym path = "path_comp list"

definition comp_of :: "string \<Rightarrow> path_comp" where
  "comp_of s = (if s = ''..'' then ParentDir else Normal s)"

text \<open>
  \<open>Path::components\<close>: empty names and dots are dropped, except a dot at the start of a relative path.
\<close>

definition parse_path :: "string \<Rightarrow> path" where
  "parse_path s =
     (let names = split_on CHR ''/'' s;
          rest = map comp_of (filter (\<lambda>n. n \<noteq> [] \<and> n \<noteq> ''.'') names)
      in if starts_with ''/'' s then RootDir # rest
         else if hd names = ''.'' then CurDir # rest
         else rest)"

definition is_absolute :: "path \<Rightarrow> bool" where
  "is_absolute p = (p \<noteq> [] \<and> hd p = RootDir)"

definition path_parent :: "path \<Rightarrow> path option" where
  "path_parent p = (if p = [] \<or> last p = RootDir then None else Some (butlast p))"

definition path_file_name :: "path \<Rightarrow> string option" where
  "path_file_name p = (if p = [] then None else case last p of Normal n \<Rightarrow> Some n | _ \<Rightarrow> None)"

definition path_of :: "string list \<Rightarrow> path" where
  "path_of loc = RootDir # map Normal loc"

fun comp_name :: "path_comp \<Rightarrow> string" where
  "comp_name RootDir = []"
| "comp_name CurDir = ''.''"
| "comp_name ParentDir = ''..''"
| "comp_name (Normal n) = n"

section \<open>The file system\<close>

datatype fs_node = DirNode | FileNode string | LinkNode string

record file_system =
  fs_nodes :: "string list \<Rightarrow> fs_node option"
  fs_cwd :: "string list"

definition max_links :: nat where
  "max_links = 40"

text \<open>
  Resolving the names \<open>cs\<close> from the directory \<open>d\<close> with \<open>k\<close> links left; with \<open>create\<close> the last name need not exist,
  as for a file that is opened to be created.
\<close>

function resolve :: "(string list \<Rightarrow> fs_node option) \<Rightarrow> bool \<Rightarrow> nat \<Rightarrow> string list \<Rightarrow> string list \<Rightarrow> string list option" where
  "resolve N create k d [] = Some d"
| "resolve N create k d (c # cs) =
     (if c = [] \<or> c = ''.'' then resolve N create k d cs
      else if c = ''..'' then resolve N create k (butlast d) cs
      else case N (d @ [c]) of
          None \<Rightarrow> if create \<and> cs = [] then Some (d @ [c]) else None
        | Some DirNode \<Rightarrow> resolve N create k (d @ [c]) cs
        | Some (FileNode _) \<Rightarrow> if cs = [] then Some (d @ [c]) else None
        | Some (LinkNode target) \<Rightarrow>
            if k = 0 then None
            else resolve N create (k - 1) (if starts_with ''/'' target then [] else d) (split_on CHR ''/'' target @ cs))"
  by pat_completeness auto

termination
  by (relation "measures [\<lambda>(N, create, k, d, cs). k, \<lambda>(N, create, k, d, cs). length cs]") auto

definition start_dir :: "path \<Rightarrow> file_system \<Rightarrow> string list" where
  "start_dir p fs = (if is_absolute p then [] else fs_cwd fs)"

text \<open>\<open>std::fs::canonicalize\<close> of a path and of the text of a path; the empty path does not exist.\<close>

definition canonicalize :: "path \<Rightarrow> file_system \<Rightarrow> string list option" where
  "canonicalize p fs =
     (if p = [] then None else resolve (fs_nodes fs) False max_links (start_dir p fs) (map comp_name p))"

definition canonicalize_str :: "string \<Rightarrow> file_system \<Rightarrow> string list option" where
  "canonicalize_str s fs =
     (if s = [] \<or> CHR 0x00 \<in> set s then None
      else resolve (fs_nodes fs) False max_links (if starts_with ''/'' s then [] else fs_cwd fs) (split_on CHR ''/'' s))"

definition under :: "string list \<Rightarrow> string list \<Rightarrow> bool" where
  "under root loc = (take (length root) loc = root)"

text \<open>\<open>std::fs::write\<close>: the file is created or truncated where the path leads.\<close>

definition fs_write :: "string list \<Rightarrow> string \<Rightarrow> file_system \<Rightarrow> file_system option" where
  "fs_write loc bytes fs =
     (case resolve (fs_nodes fs) True max_links [] loc of
        None \<Rightarrow> None
      | Some t \<Rightarrow> if fs_nodes fs t = Some DirNode then None
                  else Some (fs\<lparr>fs_nodes := (fs_nodes fs)(t := Some (FileNode bytes))\<rparr>))"

section \<open>Path checks\<close>

datatype file_error =
  FileBadRequest string | FileForbidden string | FileOutsideSandbox string string string | FileNotFound string | FileInternal string

definition outside :: "string \<Rightarrow> string \<Rightarrow> file_error" where
  "outside s operation = FileOutsideSandbox (''path '' @ quoted s @ '' is outside the allowed sandbox'') ''path'' operation"

definition in_roots :: "string list \<Rightarrow> path list \<Rightarrow> file_system \<Rightarrow> bool" where
  "in_roots loc roots fs =
     list_ex (\<lambda>root. case canonicalize root fs of Some r \<Rightarrow> under r loc | None \<Rightarrow> False) roots"

definition validate_path :: "string \<Rightarrow> path list \<Rightarrow> file_system \<Rightarrow> file_error + string list" where
  "validate_path s roots fs =
     (case canonicalize_str s fs of
        None \<Rightarrow> Inl (FileBadRequest (''cannot resolve path '' @ quoted s))
      | Some loc \<Rightarrow> if in_roots loc roots fs then Inr loc else Inl (outside s ''access''))"

definition validate_path_with_extra_root ::
  "string \<Rightarrow> path list \<Rightarrow> path option \<Rightarrow> file_system \<Rightarrow> file_error + string list" where
  "validate_path_with_extra_root s base extra fs =
     validate_path s (base @ (case extra of None \<Rightarrow> [] | Some r \<Rightarrow> [r])) fs"

definition validate_path_for_write :: "string \<Rightarrow> path list \<Rightarrow> file_system \<Rightarrow> file_error + string list" where
  "validate_path_for_write s roots fs =
     (case path_parent (parse_path s) of
        None \<Rightarrow> Inl (FileBadRequest (''path '' @ quoted s @ '' has no parent directory''))
      | Some parent \<Rightarrow>
          (case path_file_name (parse_path s) of
             None \<Rightarrow> Inl (FileBadRequest (''path '' @ quoted s @ '' has no file name component''))
           | Some name \<Rightarrow>
               (case (if CHR 0x00 \<in> set s then None else canonicalize parent fs) of
                  None \<Rightarrow> Inl (FileBadRequest (''cannot resolve parent of '' @ quoted s))
                | Some d \<Rightarrow> if in_roots d roots fs then Inr (d @ [name]) else Inl (outside s ''write''))))"

definition enforce_user_scope :: "string \<Rightarrow> path option \<Rightarrow> file_system \<Rightarrow> file_error option" where
  "enforce_user_scope s user_root fs =
     (case user_root of
        None \<Rightarrow> None
      | Some root \<Rightarrow>
          (case validate_path s [root] fs of
             Inr _ \<Rightarrow> None
           | Inl _ \<Rightarrow> (case validate_path_for_write s [root] fs of Inr _ \<Rightarrow> None | Inl e \<Rightarrow> Some e)))"

definition has_traversal :: "string \<Rightarrow> bool" where
  "has_traversal s = (CHR 0x00 \<in> set s \<or> ParentDir \<in> set (parse_path s))"

section \<open>Operations on one entry\<close>

definition traversal_error :: "string \<Rightarrow> file_error" where
  "traversal_error s = FileBadRequest (''path '' @ quoted s @ '' contains invalid traversal patterns'')"

definition max_file_size :: int where
  "max_file_size = 268435456"

text \<open>\<open>validate_file_for_read\<close> and \<open>read_file_sync\<close> at a canonical location; \<open>utf8\<close> tells whether bytes are UTF-8.\<close>

definition read_file_sync :: "(string \<Rightarrow> bool) \<Rightarrow> string list \<Rightarrow> file_system \<Rightarrow> file_error + string option" where
  "read_file_sync utf8 loc fs =
     (case fs_nodes fs loc of
        None \<Rightarrow> Inr None
      | Some DirNode \<Rightarrow> Inl (FileBadRequest ''is a directory; expected a file'')
      | Some (LinkNode _) \<Rightarrow> Inl (FileInternal ''cannot read metadata'')
      | Some (FileNode bytes) \<Rightarrow>
          if max_file_size < int (length bytes) then Inl (FileBadRequest ''exceeds 256 MB limit'')
          else if utf8 bytes then Inr (Some bytes) else Inl (FileInternal ''cannot read file''))"

text \<open>\<open>path_uses_allowed_root\<close> compares the names of the path, unresolved, with the canonical roots.\<close>

definition path_uses_allowed_root :: "string \<Rightarrow> path list \<Rightarrow> path option \<Rightarrow> file_system \<Rightarrow> bool" where
  "path_uses_allowed_root s base extra fs =
     (let p = parse_path s;
          candidate = (if is_absolute p then p else path_of (fs_cwd fs) @ filter (\<lambda>c. c \<noteq> CurDir) p)
      in list_ex (\<lambda>root. case canonicalize root fs of
                    Some r \<Rightarrow> take (length (path_of r)) candidate = path_of r | None \<Rightarrow> False)
           (base @ (case extra of None \<Rightarrow> [] | Some r \<Rightarrow> [r])))"

definition read_file ::
  "(string \<Rightarrow> bool) \<Rightarrow> path list \<Rightarrow> string \<Rightarrow> path option \<Rightarrow> file_system \<Rightarrow> file_error + string option" where
  "read_file utf8 base s extra fs =
     (if has_traversal s then Inl (traversal_error s)
      else case validate_path_with_extra_root s base extra fs of
        Inr loc \<Rightarrow> read_file_sync utf8 loc fs
      | Inl (FileBadRequest e) \<Rightarrow>
          (case validate_path_for_write s (base @ (case extra of None \<Rightarrow> [] | Some r \<Rightarrow> [r])) fs of
             Inr _ \<Rightarrow> Inr None
           | Inl _ \<Rightarrow> if path_uses_allowed_root s base extra fs then Inr None else Inl (FileBadRequest e))
      | Inl e \<Rightarrow> Inl e)"

definition write_file :: "path list \<Rightarrow> string \<Rightarrow> string \<Rightarrow> file_system \<Rightarrow> file_system \<times> (file_error + unit)" where
  "write_file base s bytes fs =
     (if has_traversal s then (fs, Inl (traversal_error s))
      else case validate_path_for_write s base fs of
        Inl e \<Rightarrow> (fs, Inl e)
      | Inr loc \<Rightarrow>
          (case fs_write loc bytes fs of
             None \<Rightarrow> (fs, Inl (FileInternal ''cannot write file''))
           | Some fs' \<Rightarrow> (fs', Inr ())))"

text \<open>\<open>remove_entry\<close>: the entry and everything below it; the root directory itself stays.\<close>

definition remove_entry :: "path list \<Rightarrow> string \<Rightarrow> file_system \<Rightarrow> file_system \<times> (file_error + unit)" where
  "remove_entry base s fs =
     (if has_traversal s then (fs, Inl (traversal_error s))
      else case validate_path s base fs of
        Inl e \<Rightarrow> (fs, Inl e)
      | Inr loc \<Rightarrow>
          if loc = []
          then (fs\<lparr>fs_nodes := (\<lambda>l. if l = [] then fs_nodes fs l else None)\<rparr>, Inl (FileInternal ''cannot remove directory''))
          else (fs\<lparr>fs_nodes := (\<lambda>l. if under loc l then None else fs_nodes fs l)\<rparr>, Inr ()))"

text \<open>
  \<open>rename_entry\<close>: the entry moves, with everything below it, to another name in its directory. \<open>Path::exists\<close> follows
  links; \<open>rename\<close> replaces an entry at the new name that does not exist in this sense, a dangling link.
\<close>

definition rename_entry :: "path list \<Rightarrow> string \<Rightarrow> string \<Rightarrow> file_system \<Rightarrow> file_system \<times> (file_error + string list)" where
  "rename_entry base s new_name fs =
     (if has_traversal s then (fs, Inl (traversal_error s))
      else if CHR ''/'' \<in> set new_name \<or> CHR 0x5C \<in> set new_name
        then (fs, Inl (FileBadRequest (''new name '' @ quoted new_name @ '' must not contain path separators'')))
      else case validate_path s base fs of
        Inl e \<Rightarrow> (fs, Inl e)
      | Inr loc \<Rightarrow>
          if loc = [] then (fs, Inl (FileBadRequest ''has no parent''))
          else let new_loc = butlast loc @ [new_name]
          in if resolve (fs_nodes fs) False max_links [] new_loc \<noteq> None
             then (fs, Inl (FileBadRequest ''already exists''))
             else if CHR 0x00 \<in> set new_name \<or> (fs_nodes fs loc = Some DirNode \<and> fs_nodes fs new_loc \<noteq> None)
             then (fs, Inl (FileInternal ''cannot rename''))
             else (fs\<lparr>fs_nodes := (\<lambda>l. if under new_loc l then fs_nodes fs (loc @ drop (length new_loc) l)
                                   else if under loc l then None else fs_nodes fs l)\<rparr>, Inr new_loc))"

section \<open>The routes\<close>

text \<open>The handlers for reading and writing: the user's scope first, then the service with its own roots.\<close>

definition read_file_route ::
  "(string \<Rightarrow> bool) \<Rightarrow> path list \<Rightarrow> path option \<Rightarrow> string \<Rightarrow> path option \<Rightarrow> file_system \<Rightarrow> file_error + string option" where
  "read_file_route utf8 base user_root s workspace fs =
     (case enforce_user_scope s user_root fs of
        Some e \<Rightarrow> Inl e
      | None \<Rightarrow> read_file utf8 base s workspace fs)"

definition write_file_route ::
  "path list \<Rightarrow> path option \<Rightarrow> string \<Rightarrow> string \<Rightarrow> file_system \<Rightarrow> file_system \<times> (file_error + unit)" where
  "write_file_route base user_root s bytes fs =
     (case enforce_user_scope s user_root fs of
        Some e \<Rightarrow> (fs, Inl e)
      | None \<Rightarrow> write_file base s bytes fs)"

definition remove_entry_route :: "path list \<Rightarrow> path option \<Rightarrow> string \<Rightarrow> file_system \<Rightarrow> file_system \<times> (file_error + unit)" where
  "remove_entry_route base user_root s fs =
     (case enforce_user_scope s user_root fs of
        Some e \<Rightarrow> (fs, Inl e)
      | None \<Rightarrow> remove_entry base s fs)"

definition rename_entry_route ::
  "path list \<Rightarrow> path option \<Rightarrow> string \<Rightarrow> string \<Rightarrow> file_system \<Rightarrow> file_system \<times> (file_error + string list)" where
  "rename_entry_route base user_root s new_name fs =
     (case enforce_user_scope s user_root fs of
        Some e \<Rightarrow> (fs, Inl e)
      | None \<Rightarrow> rename_entry base s new_name fs)"

end
