(* ===== verification/FileProperties.thy ===== *)
theory FileProperties
  imports FileSandbox
begin

text \<open>
  What the path checks of the file service guarantee and what they do not: a location that passes is resolved and
  lies under an allowed root, reading returns what is stored there, and writing, removing and renaming change
  nothing else; with concrete file systems on which the checks let a request leave the sandbox.
\<close>

section \<open>File systems\<close>

definition name_ok :: "string \<Rightarrow> bool" where
  "name_ok c \<longleftrightarrow> c \<noteq> [] \<and> c \<noteq> ''.'' \<and> c \<noteq> ''..'' \<and> CHR ''/'' \<notin> set c"

definition fs_ok :: "file_system \<Rightarrow> bool" where
  "fs_ok fs \<longleftrightarrow> fs_nodes fs [] = Some DirNode \<and> fs_nodes fs (fs_cwd fs) = Some DirNode \<and>
     (\<forall>d c. fs_nodes fs (d @ [c]) \<noteq> None \<longrightarrow> fs_nodes fs d = Some DirNode \<and> name_ok c)"

definition real_node :: "fs_node option \<Rightarrow> bool" where
  "real_node n \<longleftrightarrow> (case n of Some DirNode \<Rightarrow> True | Some (FileNode _) \<Rightarrow> True | _ \<Rightarrow> False)"

lemma real_node_simps [simp]:
  "real_node (Some DirNode)" "real_node (Some (FileNode b))" "\<not> real_node (Some (LinkNode t))" "\<not> real_node None"
  by (simp_all add: real_node_def)

lemma fs_okD:
  assumes "fs_ok fs"
  shows "fs_nodes fs [] = Some DirNode" "fs_nodes fs (fs_cwd fs) = Some DirNode"
    "fs_nodes fs (d @ [c]) \<noteq> None \<Longrightarrow> fs_nodes fs d = Some DirNode"
    "fs_nodes fs (d @ [c]) \<noteq> None \<Longrightarrow> name_ok c"
  using assms unfolding fs_ok_def by blast+

lemma parent_dir: "fs_ok fs \<Longrightarrow> fs_nodes fs d = Some DirNode \<Longrightarrow> fs_nodes fs (butlast d) = Some DirNode"
  by (cases d rule: rev_cases) (auto dest: fs_okD(3))

lemma prefix_dir: "fs_ok fs \<Longrightarrow> fs_nodes fs (d @ c # cs) \<noteq> None \<Longrightarrow> fs_nodes fs d = Some DirNode"
proof (induction cs arbitrary: c d)
  case Nil
  then show ?case by (auto dest: fs_okD(3))
next
  case (Cons x xs)
  have "fs_nodes fs (d @ [c]) = Some DirNode" using Cons.IH [of "d @ [c]" x] Cons.prems by simp
  then show ?case using Cons.prems(1) fs_okD(3) by blast
qed

section \<open>Resolution\<close>

text \<open>
  Where a resolution ends there is no link: a directory, a file, or with \<open>create\<close> a free place in a directory.
\<close>

lemma resolve_real:
  assumes "fs_ok fs" and "resolve (fs_nodes fs) create k d cs = Some loc" and "fs_nodes fs d = Some DirNode"
  shows "real_node (fs_nodes fs loc) \<or>
    (create \<and> fs_nodes fs loc = None \<and> loc \<noteq> [] \<and> fs_nodes fs (butlast loc) = Some DirNode)"
  using assms(2,3)
proof (induction "fs_nodes fs" create k d cs rule: resolve.induct)
  case (1 create k d)
  then show ?case by simp
next
  case (2 create k d c cs)
  consider "c = [] \<or> c = ''.''" | "c = ''..''" | "\<not> (c = [] \<or> c = ''.'')" "c \<noteq> ''..''" by blast
  then show ?case
  proof cases
    case 1
    then show ?thesis using 2 by simp
  next
    case two: 2
    then show ?thesis using 2 parent_dir [OF assms(1)] by simp
  next
    case 3
    show ?thesis
    proof (cases "fs_nodes fs (d @ [c])")
      case None
      then show ?thesis using 3 2(5,6) by (auto split: if_splits)
    next
      case (Some n)
      show ?thesis
      proof (cases n)
        case DirNode
        then show ?thesis using 3 2(5) Some 2(3) [OF 3 Some DirNode] by simp
      next
        case (FileNode b)
        then show ?thesis using 3 2(5) Some by (auto split: if_splits)
      next
        case (LinkNode t)
        then have k: "k \<noteq> 0" "resolve (fs_nodes fs) create (k - 1) (if starts_with ''/'' t then [] else d)
            (split_on CHR ''/'' t @ cs) = Some loc"
          using 3 2(5) Some by (auto split: if_splits)
        show ?thesis
          by (rule 2(4) [OF 3 Some LinkNode k]) (use fs_okD(1) [OF assms(1)] 2(6) in simp)
      qed
    qed
  qed
qed

lemma resolve_self:
  assumes "fs_ok fs" and "real_node (fs_nodes fs (d @ cs))"
  shows "resolve (fs_nodes fs) create k d cs = Some (d @ cs)"
  using assms(2)
proof (induction cs arbitrary: d)
  case Nil
  then show ?case by simp
next
  case (Cons c cs)
  have some: "fs_nodes fs ((d @ [c]) @ cs) \<noteq> None" using Cons.prems by (auto simp: real_node_def split: option.splits)
  have "fs_nodes fs (d @ [c]) \<noteq> None"
  proof (cases cs)
    case Nil
    then show ?thesis using some by simp
  next
    case (Cons x xs)
    then show ?thesis using some prefix_dir [OF assms(1), of "d @ [c]" x xs] by simp
  qed
  then have ok: "c \<noteq> []" "c \<noteq> ''.''" "c \<noteq> ''..''"
    using fs_okD(4) [OF assms(1)] by (auto simp: name_ok_def)
  show ?case
  proof (cases cs)
    case Nil
    then show ?thesis using Cons.prems ok by (auto simp: real_node_def split: option.splits fs_node.splits)
  next
    case c: (Cons x xs)
    then have "fs_nodes fs (d @ [c]) = Some DirNode" using some prefix_dir [OF assms(1), of "d @ [c]" x xs] by simp
    then show ?thesis using Cons.IH [of "d @ [c]"] Cons.prems ok by simp
  qed
qed

lemma canonicalize_str_real:
  assumes "fs_ok fs" and "canonicalize_str s fs = Some loc"
  shows "real_node (fs_nodes fs loc)"
  using assms resolve_real [OF assms(1), of False] fs_okD(1,2) [OF assms(1)]
  by (auto simp: canonicalize_str_def split: if_splits)

lemma canonicalize_real:
  assumes "fs_ok fs" and "canonicalize p fs = Some loc"
  shows "real_node (fs_nodes fs loc)"
  using assms resolve_real [OF assms(1), of False] fs_okD(1,2) [OF assms(1)]
  by (auto simp: canonicalize_def start_dir_def split: if_splits)

lemma names_path_of [simp]: "map comp_name (path_of loc) = [] # loc"
  unfolding path_of_def by (induction loc) simp_all

lemma canonicalize_path_of:
  "fs_ok fs \<Longrightarrow> real_node (fs_nodes fs loc) \<Longrightarrow> canonicalize (path_of loc) fs = Some loc"
  using resolve_self [of fs "[]" loc False max_links]
  by (simp add: canonicalize_def start_dir_def is_absolute_def) (simp add: path_of_def)

section \<open>Roots\<close>

lemma in_roots_iff: "in_roots loc roots fs \<longleftrightarrow> (\<exists>root\<in>set roots. \<exists>r. canonicalize root fs = Some r \<and> under r loc)"
  by (auto simp: in_roots_def list_ex_iff split: option.splits)

lemma under_iff: "under r loc \<longleftrightarrow> (\<exists>xs. loc = r @ xs)"
  unfolding under_def by (metis append_eq_conv_conj append_take_drop_id)

lemma under_append: "under r loc \<Longrightarrow> under r (loc @ xs)"
  by (auto simp: under_iff)

lemma under_trans: "under r loc \<Longrightarrow> under loc l \<Longrightarrow> under r l"
  by (auto simp: under_iff)

lemma validate_path_Inr:
  "validate_path s roots fs = Inr loc \<longleftrightarrow> canonicalize_str s fs = Some loc \<and> in_roots loc roots fs"
  by (auto simp: validate_path_def split: option.splits if_splits)

lemma validate_path_for_write_Inr:
  "validate_path_for_write s roots fs = Inr loc \<Longrightarrow>
     \<exists>parent d name. path_parent (parse_path s) = Some parent \<and> path_file_name (parse_path s) = Some name \<and>
       canonicalize parent fs = Some d \<and> in_roots d roots fs \<and> loc = d @ [name]"
  by (auto simp: validate_path_for_write_def split: option.splits if_splits)

text \<open>A canonical directory in front of a path is walked through.\<close>

lemma resolve_append:
  assumes "fs_ok fs" and "fs_nodes fs (e @ d) = Some DirNode"
  shows "resolve (fs_nodes fs) create k e (d @ cs) = resolve (fs_nodes fs) create k (e @ d) cs"
  using assms(2)
proof (induction d arbitrary: e)
  case Nil
  then show ?case by simp
next
  case (Cons c d)
  have dir: "fs_nodes fs (e @ [c]) = Some DirNode"
  proof (cases d)
    case Nil
    then show ?thesis using Cons.prems by simp
  next
    case (Cons x xs)
    then show ?thesis using Cons.prems prefix_dir [OF assms(1), of "e @ [c]" x xs] by simp
  qed
  then have "c \<noteq> []" "c \<noteq> ''.''" "c \<noteq> ''..''"
    using fs_okD(4) [OF assms(1), of e c] by (auto simp: name_ok_def)
  then show ?case using dir Cons.IH [of "e @ [c]"] Cons.prems by simp
qed

lemma normal_names:
  assumes "Normal n \<in> set (parse_path s)"
  shows "n \<noteq> []" "n \<noteq> ''.''" "n \<noteq> ''..''"
  using assms by (auto simp: parse_path_def comp_of_def Let_def split: if_splits)

lemma file_name_names:
  assumes "path_file_name (parse_path s) = Some n"
  shows "n \<noteq> []" "n \<noteq> ''.''" "n \<noteq> ''..''"
proof -
  from assms have "parse_path s \<noteq> []" "last (parse_path s) = Normal n"
    by (auto simp: path_file_name_def split: if_splits path_comp.splits)
  then have "Normal n \<in> set (parse_path s)" by (metis last_in_set)
  then show "n \<noteq> []" "n \<noteq> ''.''" "n \<noteq> ''..''" by (rule normal_names)+
qed

text \<open>Without a link at the last name, a file is written where its path says.\<close>

lemma resolve_create:
  assumes "fs_ok fs" and "fs_nodes fs d = Some DirNode" and "n \<noteq> []" "n \<noteq> ''.''" "n \<noteq> ''..''"
    and "\<And>t. fs_nodes fs (d @ [n]) \<noteq> Some (LinkNode t)"
  shows "resolve (fs_nodes fs) True k [] (d @ [n]) = Some (d @ [n])"
proof -
  have "resolve (fs_nodes fs) True k [] (d @ [n]) = resolve (fs_nodes fs) True k d [n]"
    using resolve_append [OF assms(1), of "[]" d] assms(2) by simp
  also have "\<dots> = Some (d @ [n])"
    using assms(3-6) by (auto split: option.splits fs_node.splits)
  finally show ?thesis .
qed

section \<open>Texts and names\<close>

lemma comp_name_of [simp]: "comp_name (comp_of n) = n"
  by (simp add: comp_of_def)

definition plain_name :: "string \<Rightarrow> bool" where
  "plain_name n \<longleftrightarrow> n \<noteq> [] \<and> n \<noteq> ''.''"

lemma parse_path_names:
  "\<exists>pre. set pre \<subseteq> {[], ''.''} \<and> map comp_name (parse_path s) = pre @ filter plain_name (split_on CHR ''/'' s)"
proof -
  let ?pre = "if starts_with ''/'' s then [[]] else if hd (split_on CHR ''/'' s) = ''.'' then [''.''] else []"
  have "map comp_name (parse_path s) = ?pre @ filter plain_name (split_on CHR ''/'' s)"
    by (simp add: parse_path_def Let_def plain_name_def [abs_def] comp_def)
  moreover have "set ?pre \<subseteq> {[], ''.''}" by auto
  ultimately show ?thesis by blast
qed

lemma resolve_skip: "set pre \<subseteq> {[], ''.''} \<Longrightarrow> resolve N create k d (pre @ cs) = resolve N create k d cs"
  by (induction pre) auto

lemma resolve_plain:
  assumes "resolve N False k d (xs @ cs) = Some loc"
  shows "resolve N False k d (xs @ filter plain_name cs) = Some loc"
  using assms
proof (induction N "False" k d "xs @ cs" arbitrary: xs cs rule: resolve.induct)
  case 1
  then show ?case by simp
next
  case (2 N k d c ys)
  have step: "resolve N False k d (c # xs' @ filter plain_name cs') = Some loc"
    if "ys = xs' @ cs'" "resolve N False k d (c # ys) = Some loc" for xs' cs'
  proof -
    consider "c = [] \<or> c = ''.''" | "c = ''..''" | "\<not> (c = [] \<or> c = ''.'')" "c \<noteq> ''..''" by blast
    then show ?thesis
    proof cases
      case 1
      then show ?thesis using 2(1) that by simp
    next
      case two: 2
      then show ?thesis using 2(2) that by simp
    next
      case 3
      show ?thesis
      proof (cases "N (d @ [c])")
        case None
        then show ?thesis using 3 that by simp
      next
        case (Some n)
        show ?thesis
        proof (cases n)
          case DirNode
          then show ?thesis using 3 Some that 2(3) [OF 3 Some DirNode that(1)] by simp
        next
          case (FileNode b)
          then show ?thesis using 3 Some that by (auto split: if_splits)
        next
          case (LinkNode t)
          then have k: "k \<noteq> 0" "resolve N False (k - 1) (if starts_with ''/'' t then [] else d) (split_on CHR ''/'' t @ ys) = Some loc"
            using 3 Some that by (auto split: if_splits)
          then show ?thesis
            using 3 Some LinkNode that 2(4) [OF 3 Some LinkNode, of "split_on CHR ''/'' t @ xs'" cs'] by simp
        qed
      qed
    qed
  qed
  show ?case
  proof (cases xs)
    case Nil
    then have cs: "cs = c # ys" using 2(5) by simp
    show ?thesis
    proof (cases "plain_name c")
      case True
      then show ?thesis using step [of "[]" ys] 2(6) Nil cs by simp
    next
      case False
      then have "c = [] \<or> c = ''.''" by (auto simp: plain_name_def)
      then show ?thesis using 2(1) [of "[]" ys] 2(6) Nil cs False by simp
    qed
  next
    case (Cons x xs')
    then have "c = x" "ys = xs' @ cs" using 2(5) by auto
    then show ?thesis using step [of xs' cs] 2(6) unfolding Cons append_Cons by blast
  qed
qed

lemma resolve_parts:
  assumes "resolve N False k d (xs @ ys) = Some loc" and "ys \<noteq> []" and "N d = Some DirNode" and "N [] = Some DirNode"
    and "\<forall>l. N l = Some DirNode \<longrightarrow> N (butlast l) = Some DirNode"
  shows "\<exists>e k'. resolve N False k d xs = Some e \<and> N e = Some DirNode \<and> resolve N False k' e ys = Some loc"
  using assms
proof (induction N "False" k d "xs" rule: resolve.induct)
  case 1
  then show ?case by auto
next
  case (2 N k d c cs)
  consider "c = [] \<or> c = ''.''" | "c = ''..''" | "\<not> (c = [] \<or> c = ''.'')" "c \<noteq> ''..''" by blast
  then show ?case
  proof cases
    case 1
    then show ?thesis using 2 by simp
  next
    case two: 2
    then show ?thesis using 2 by simp
  next
    case 3
    show ?thesis
    proof (cases "N (d @ [c])")
      case None
      then show ?thesis using 3 2(5) by simp
    next
      case (Some n)
      show ?thesis
      proof (cases n)
        case DirNode
        then show ?thesis using 3 Some 2(5-9) 2(3) [OF 3 Some DirNode] by simp
      next
        case (FileNode b)
        then show ?thesis using 3 Some 2(5,6) by simp
      next
        case (LinkNode t)
        then have k: "k \<noteq> 0" "resolve N False (k - 1) (if starts_with ''/'' t then [] else d)
            ((split_on CHR ''/'' t @ cs) @ ys) = Some loc"
          using 3 Some 2(5) by (auto split: if_splits)
        have "N (if starts_with ''/'' t then [] else d) = Some DirNode" using 2(7,8) by simp
        from 2(4) [OF 3 Some LinkNode k(1) k(2) 2(6) this 2(8,9)] show ?thesis using 3 Some LinkNode k(1) by simp
      qed
    qed
  qed
qed

lemma canonicalize_text:
  assumes "canonicalize_str s fs = Some loc" and "parse_path s \<noteq> []"
  shows "canonicalize (parse_path s) fs = Some loc"
proof -
  obtain pre where pre: "set pre \<subseteq> {[], ''.''}"
    and names: "map comp_name (parse_path s) = pre @ filter plain_name (split_on CHR ''/'' s)"
    using parse_path_names by blast
  have abs: "is_absolute (parse_path s) = starts_with ''/'' s"
    using assms(2) by (auto simp: is_absolute_def parse_path_def Let_def comp_of_def hd_map split: if_splits)
  have "resolve (fs_nodes fs) False max_links (if starts_with ''/'' s then [] else fs_cwd fs) ([] @ split_on CHR ''/'' s) = Some loc"
    using assms(1) by (simp add: canonicalize_str_def split: if_splits)
  from resolve_plain [OF this] show ?thesis
    using assms(2) by (simp add: canonicalize_def start_dir_def abs names resolve_skip [OF pre])
qed

section \<open>A concrete file system\<close>

text \<open>Two users below one root, a secret of the first, and links the second has made.\<close>

definition demo_entries :: "(string list \<times> fs_node) list" where
  "demo_entries =
     [([], DirNode), ([''w''], DirNode), ([''w'', ''a''], DirNode), ([''w'', ''a'', ''secret''], FileNode ''s''),
      ([''w'', ''b''], DirNode), ([''w'', ''b'', ''notes''], FileNode ''n''),
      ([''w'', ''b'', ''l''], LinkNode ''/w/a/secret''), ([''w'', ''b'', ''out''], LinkNode ''/etc/conf''),
      ([''etc''], DirNode), ([''etc'', ''conf''], FileNode ''c'')]"

definition demo_fs :: file_system where
  "demo_fs = \<lparr>fs_nodes = map_of demo_entries, fs_cwd = []\<rparr>"

definition work_root :: path where
  "work_root = [RootDir, Normal ''w'']"

definition b_root :: path where
  "b_root = [RootDir, Normal ''w'', Normal ''b'']"

lemma demo_fs_ok: "fs_ok demo_fs"
proof -
  have "fs_nodes demo_fs d = Some DirNode \<and> name_ok c" if "fs_nodes demo_fs (d @ [c]) \<noteq> None" for d c
  proof -
    have "d @ [c] \<in> fst ` set demo_entries" using that by (simp add: demo_fs_def map_of_eq_None_iff)
    moreover have "\<forall>l\<in>fst ` set demo_entries. l \<noteq> [] \<longrightarrow> map_of demo_entries (butlast l) = Some DirNode \<and> name_ok (last l)"
      by (simp add: demo_entries_def name_ok_def)
    ultimately have "map_of demo_entries (butlast (d @ [c])) = Some DirNode \<and> name_ok (last (d @ [c]))" by blast
    then show ?thesis by (simp add: demo_fs_def)
  qed
  then show ?thesis by (auto simp: fs_ok_def demo_fs_def demo_entries_def)
qed


section \<open>The user's scope\<close>

definition names_link :: "string \<Rightarrow> file_system \<Rightarrow> bool" where
  "names_link s fs =
     (case (path_parent (parse_path s), path_file_name (parse_path s)) of
        (Some parent, Some n) \<Rightarrow>
          (case canonicalize parent fs of
             None \<Rightarrow> False
           | Some d \<Rightarrow> (case fs_nodes fs (d @ [n]) of Some (LinkNode _) \<Rightarrow> True | _ \<Rightarrow> False))
      | _ \<Rightarrow> False)"

lemma parent_of_text:
  assumes "path_file_name (parse_path s) = Some n" and "path_parent (parse_path s) = Some parent"
  shows "parse_path s = parent @ [Normal n]"
  using assms by (auto simp: path_file_name_def path_parent_def split: if_splits path_comp.splits)
    (metis append_butlast_last_id)

text \<open>A path that resolves and names no link resolves to its name in the directory its parent resolves to.\<close>

lemma no_link_location:
  assumes ok: "fs_ok fs" and loc: "canonicalize_str s fs = Some loc"
    and n: "path_file_name (parse_path s) = Some n" and parent: "path_parent (parse_path s) = Some parent"
    and d: "canonicalize parent fs = Some d" and nolink: "\<not> names_link s fs"
  shows "loc = d @ [n]"
proof -
  have p: "parse_path s = parent @ [Normal n]" by (rule parent_of_text [OF n parent])
  have ne: "parent \<noteq> []" using d by (auto simp: canonicalize_def)
  then have st: "start_dir (parse_path s) fs = start_dir parent fs"
    by (simp add: start_dir_def is_absolute_def p)
  have "canonicalize (parse_path s) fs = Some loc" by (rule canonicalize_text [OF loc]) (simp add: p)
  then have r: "resolve (fs_nodes fs) False max_links (start_dir parent fs) (map comp_name parent @ [n]) = Some loc"
    by (simp add: canonicalize_def st p split: if_splits) (simp add: st [unfolded p])
  have dir: "fs_nodes fs (start_dir parent fs) = Some DirNode" using fs_okD(1,2) [OF ok] by (simp add: start_dir_def)
  obtain e k' where e: "resolve (fs_nodes fs) False max_links (start_dir parent fs) (map comp_name parent) = Some e"
      "resolve (fs_nodes fs) False k' e [n] = Some loc"
    using resolve_parts [OF r _ dir fs_okD(1) [OF ok]] parent_dir [OF ok] by auto
  moreover have "e = d" using e(1) d ne by (simp add: canonicalize_def)
  moreover have "fs_nodes fs (d @ [n]) \<noteq> Some (LinkNode t)" for t
    using nolink by (auto simp: names_link_def n parent d)
  ultimately show ?thesis using file_name_names [OF n] by (auto split: option.splits fs_node.splits)
qed

text \<open>The scope check of a path that names no link: what the path leads to lies below the user's root.\<close>

lemma scope_name:
  assumes "fs_ok fs" and "enforce_user_scope s (Some root) fs = None" and "\<not> names_link s fs"
    and "path_file_name (parse_path s) = Some n" "path_parent (parse_path s) = Some parent" "canonicalize parent fs = Some d"
  shows "\<exists>r. canonicalize root fs = Some r \<and> under r (d @ [n])"
proof (cases "validate_path s [root] fs")
  case (Inr loc)
  then have "canonicalize_str s fs = Some loc" "in_roots loc [root] fs" by (simp_all add: validate_path_Inr)
  then show ?thesis using no_link_location [OF assms(1) _ assms(4-6,3)] by (simp add: in_roots_iff)
next
  case (Inl e)
  then obtain loc where "validate_path_for_write s [root] fs = Inr loc"
    using assms(2) by (auto simp: enforce_user_scope_def split: sum.splits)
  from validate_path_for_write_Inr [OF this] have "in_roots d [root] fs" using assms(4-6) by auto
  then show ?thesis by (auto simp: in_roots_iff intro: under_append)
qed

lemma scope_location:
  assumes "fs_ok fs" and "enforce_user_scope s (Some root) fs = None" and "\<not> names_link s fs"
    and "canonicalize_str s fs = Some loc"
  shows "\<exists>r. canonicalize root fs = Some r \<and> under r loc"
proof (cases "validate_path s [root] fs")
  case (Inr loc')
  then show ?thesis using assms(4) by (auto simp: validate_path_Inr in_roots_iff)
next
  case (Inl e)
  then obtain loc' where "validate_path_for_write s [root] fs = Inr loc'"
    using assms(2) by (auto simp: enforce_user_scope_def split: sum.splits)
  then obtain parent d n where p: "path_file_name (parse_path s) = Some n" "path_parent (parse_path s) = Some parent"
      "canonicalize parent fs = Some d"
    using validate_path_for_write_Inr by blast
  show ?thesis
    using scope_name [OF assms(1-3) p] no_link_location [OF assms(1,4) p assms(3)] by simp
qed

section \<open>What an operation changes\<close>

lemma fs_write_below_file:
  assumes "fs_ok fs" and "real_node (fs_nodes fs d)" and "resolve (fs_nodes fs) True k [] (d @ [n]) = Some t"
  shows "fs_nodes fs d = Some DirNode"
proof (rule ccontr)
  assume no: "fs_nodes fs d \<noteq> Some DirNode"
  with assms(2) obtain b where b: "fs_nodes fs d = Some (FileNode b)" by (auto simp: real_node_def split: option.splits fs_node.splits)
  with fs_okD(1) [OF assms(1)] obtain e c where d: "d = e @ [c]" by (cases d rule: rev_cases) auto
  have dir: "fs_nodes fs e = Some DirNode" and c: "name_ok c" using fs_okD(3,4) [OF assms(1), of e c] b d by simp_all
  have "resolve (fs_nodes fs) True k [] (e @ [c, n]) = resolve (fs_nodes fs) True k e [c, n]"
    using resolve_append [OF assms(1), of "[]" e] dir by simp
  then show False using assms(3) b d c by (simp add: name_ok_def)
qed

lemma write_file_effect:
  assumes "fs_ok fs" and "\<not> names_link s fs" and "fst (write_file base s bytes fs) \<noteq> fs"
  shows "\<exists>parent d n. path_file_name (parse_path s) = Some n \<and> path_parent (parse_path s) = Some parent \<and>
    canonicalize parent fs = Some d \<and> in_roots d base fs \<and>
    fst (write_file base s bytes fs) = fs\<lparr>fs_nodes := (fs_nodes fs)(d @ [n] := Some (FileNode bytes))\<rparr> \<and>
    fs_nodes fs (d @ [n]) \<noteq> Some DirNode"
proof -
  obtain loc fs' where v: "validate_path_for_write s base fs = Inr loc" and w: "fs_write loc bytes fs = Some fs'"
    and fst: "fst (write_file base s bytes fs) = fs'"
    using assms(3) by (auto simp: write_file_def split: if_splits sum.splits option.splits)
  obtain parent d n where p: "path_parent (parse_path s) = Some parent" "path_file_name (parse_path s) = Some n"
      "canonicalize parent fs = Some d" and r: "in_roots d base fs" and loc: "loc = d @ [n]"
    using validate_path_for_write_Inr [OF v] by blast
  have nolink: "\<And>t. fs_nodes fs (d @ [n]) \<noteq> Some (LinkNode t)" using assms(2) by (auto simp: names_link_def p)
  have "fs_nodes fs d = Some DirNode"
    using w fs_write_below_file [OF assms(1) canonicalize_real [OF assms(1) p(3)]] by (auto simp: fs_write_def loc split: option.splits)
  from resolve_create [OF assms(1) this file_name_names [OF p(2)] nolink]
  have "fs' = fs\<lparr>fs_nodes := (fs_nodes fs)(d @ [n] := Some (FileNode bytes))\<rparr>" "fs_nodes fs (d @ [n]) \<noteq> Some DirNode"
    using w by (auto simp: fs_write_def loc split: if_splits)
  then show ?thesis using p r fst by blast
qed

lemma remove_entry_effect:
  assumes "fs_nodes (fst (remove_entry base s fs)) l \<noteq> fs_nodes fs l"
  shows "\<exists>loc. canonicalize_str s fs = Some loc \<and> in_roots loc base fs \<and> under loc l"
  using assms
  by (auto simp: remove_entry_def validate_path_Inr under_def split: if_splits sum.splits)

text \<open>C37. A user's requests stay in the user's subtree: unless the path names a symbolic link, writing and removing
  change nothing outside the user's root, and nothing outside the allowed roots.\<close>

theorem changes_stay_in_scope:
  assumes "fs_ok fs" and "\<not> names_link s fs"
    and "fs' \<in> {fst (write_file_route base (Some root) s bytes fs), fst (remove_entry_route base (Some root) s fs)}"
    and "fs_nodes fs' l \<noteq> fs_nodes fs l"
  shows "(\<exists>r. canonicalize root fs = Some r \<and> under r l) \<and> in_roots l base fs"
proof -
  have scope: "enforce_user_scope s (Some root) fs = None"
    using assms(3,4) by (auto simp: write_file_route_def remove_entry_route_def split: option.splits)
  from assms(3) consider "fs' = fst (write_file base s bytes fs)" | "fs' = fst (remove_entry base s fs)"
    by (auto simp: write_file_route_def remove_entry_route_def scope)
  then show ?thesis
  proof cases
    case 1
    then have "fst (write_file base s bytes fs) \<noteq> fs" using assms(4) by auto
    from write_file_effect [OF assms(1,2) this] obtain parent d n where
        p: "path_file_name (parse_path s) = Some n" "path_parent (parse_path s) = Some parent" "canonicalize parent fs = Some d"
      and r: "in_roots d base fs" and e: "fst (write_file base s bytes fs) = fs\<lparr>fs_nodes := (fs_nodes fs)(d @ [n] := Some (FileNode bytes))\<rparr>"
      by blast
    from e 1 assms(4) have "l = d @ [n]" by (auto split: if_splits)
    then show ?thesis using scope_name [OF assms(1) scope assms(2) p] r by (auto simp: in_roots_iff intro: under_append)
  next
    case 2
    then obtain loc where loc: "canonicalize_str s fs = Some loc" "in_roots loc base fs" "under loc l"
      using remove_entry_effect assms(4) by blast
    then show ?thesis using scope_location [OF assms(1) scope assms(2) loc(1)] by (auto simp: in_roots_iff intro: under_trans)
  qed
qed

section \<open>Inside the sandbox\<close>

text \<open>C36. What is read lies in the sandbox: when a read succeeds with a content, the path resolves, links followed, to
  a file with that content below an allowed root or the extra root of the request.\<close>

theorem read_stays_in_sandbox:
  assumes "fs_ok fs" and "read_file utf8 base s extra fs = Inr (Some bytes)"
  shows "\<exists>loc. canonicalize_str s fs = Some loc \<and> fs_nodes fs loc = Some (FileNode bytes) \<and>
    (\<exists>root\<in>set base \<union> set_option extra. \<exists>r. canonicalize root fs = Some r \<and> under r loc)"
proof -
  let ?roots = "base @ (case extra of None \<Rightarrow> [] | Some r \<Rightarrow> [r])"
  obtain loc where v: "validate_path s ?roots fs = Inr loc" and r: "read_file_sync utf8 loc fs = Inr (Some bytes)"
    using assms(2) by (auto simp: read_file_def validate_path_with_extra_root_def split: if_splits sum.splits file_error.splits)
  from v have loc: "canonicalize_str s fs = Some loc" "in_roots loc ?roots fs" by (simp_all add: validate_path_Inr)
  have "set ?roots = set base \<union> set_option extra" by (cases extra) auto
  moreover have "fs_nodes fs loc = Some (FileNode bytes)"
    using r by (auto simp: read_file_sync_def split: option.splits fs_node.splits if_splits)
  ultimately show ?thesis using loc by (auto simp: in_roots_iff)
qed

lemma read_stays_in_sandbox_witness:
  "\<exists>loc. canonicalize_str ''/w/b//./notes'' demo_fs = Some loc \<and> fs_nodes demo_fs loc = Some (FileNode ''n'')"
proof -
  have "read_file (\<lambda>_. True) [work_root] ''/w/b//./notes'' None demo_fs = Inr (Some ''n'')" by code_simp
  from read_stays_in_sandbox [OF demo_fs_ok this] show ?thesis by blast
qed

lemma changes_stay_in_scope_witness:
  "in_roots [''w'', ''b'', ''new''] [work_root] demo_fs"
proof -
  let ?fs' = "fst (write_file_route [work_root] (Some b_root) ''/w/b/new'' ''x'' demo_fs)"
  have "\<not> names_link ''/w/b/new'' demo_fs" by code_simp
  moreover have "fs_nodes ?fs' [''w'', ''b'', ''new''] \<noteq> fs_nodes demo_fs [''w'', ''b'', ''new'']" by code_simp
  ultimately show ?thesis
    using changes_stay_in_scope [OF demo_fs_ok, of "''/w/b/new''" ?fs' "[work_root]" b_root "''x''"] by blast
qed

section \<open>Requests that leave the scope\<close>

text \<open>
  When the check of the resolved path fails, the scope check accepts a path whose parent lies in the scope: a link in
  the user's own directory leads to another user's file, which is read, or removed.
\<close>

lemma read_through_own_link:
  "read_file_route (\<lambda>_. True) [work_root] (Some b_root) ''/w/b/l'' None demo_fs = Inr (Some ''s'')"
  "validate_path ''/w/b/l'' [b_root] demo_fs = Inl (outside ''/w/b/l'' ''access'')"
  by code_simp+

lemma remove_through_own_link:
  "fs_nodes (fst (remove_entry_route [work_root] (Some b_root) ''/w/b/l'' demo_fs)) [''w'', ''a'', ''secret''] = None"
  by code_simp

text \<open>Writing checks the parent only, also in the service: a link leads out of every allowed root.\<close>

lemma write_through_own_link:
  "fs_nodes (fst (write_file_route [work_root] (Some b_root) ''/w/b/out'' ''x'' demo_fs)) [''etc'', ''conf''] = Some (FileNode ''x'')"
  by code_simp

text \<open>The extra root of a read comes from the request, unchecked: without a user's scope it opens every file.\<close>

lemma read_with_workspace_root:
  "read_file_route (\<lambda>_. True) [work_root] None ''/etc/conf'' (Some [RootDir]) demo_fs = Inr (Some ''c'')"
  "read_file_route (\<lambda>_. True) [work_root] None ''/etc/conf'' None demo_fs = Inl (outside ''/etc/conf'' ''access'')"
  by code_simp+

text \<open>The user's root itself can be renamed, which moves the user's files out of the user's subtree.\<close>

lemma rename_own_root:
  "snd (rename_entry_route [work_root] (Some b_root) ''/w/b'' ''c'' demo_fs) = Inr [''w'', ''c'']"
  by code_simp

end
