(* ===== verification/Spec2Isabelle.thy ===== *)
theory Spec2Isabelle
  imports Prelude TaskState TaskRepo TaskRepoFacts ApiError Workflow Handoff TaskCreation ProjectRepo Pipeline ResourceAcl ProjectHandlers ProjectServer ProjectProperties TeamTypes TeamRun TeamRunFacts TeamRunProperties TeamRepo Mailbox TaskBoard TaskBoardProperties
    RateLimit QrToken Validation HttpHeaders Jwt
    UserRepo UserFacts Password AuthState AuthHandlers AuthServer AuthProperties AuthExamples
    Scheduler Projection TeamSession EventLoop EventLoopFacts EventLoopProperties EventLoopExamples
    Dependencies DependencyFacts DependencyProperties
    ChannelRepo ChannelPairing ChannelActions ChannelFacts ChannelProperties
    ConvRuntime ConvRepo ConvRepoFacts ConvTurn ConvTurnFacts ConvTurnInv ConvTurnRank ConvTurnProperties
    ConvTurnTables
    CronTypes CronScheduling CronService CronRoutes CronFacts CronInv CronKept CronStepsKept CronProperties
    FileSandbox FileProperties
begin

text \<open>
  A model of the core of a multi-user agent server (a Rust workspace, \<open>src/crates\<close>): projects whose tasks
  hand work over between people and agents, teams of agents that talk through a mailbox and share a task
  board, and the accounts and sessions that guard both.

  \<^bold>\<open>Parts and theories.\<close>

  \<^item> Shared vocabulary: \<open>Prelude\<close> (fallible state-passing operations as Rust's \<open>Result\<close> with \<open>?\<close>, clock and
    ids, strings, hash maps, SQL statements on row lists, the interfaces \<open>codec\<close> and \<open>machine\<close>), \<open>ApiError\<close>
    (\<open>aionui-common/src/error.rs\<close>).
  \<^item> Projects: \<open>TaskState\<close> (\<open>aionui-db/src/task_state.rs\<close>), \<open>TaskRepo\<close>, \<open>ProjectRepo\<close>, \<open>ResourceAcl\<close>
    (\<open>aionui-db/src/repository/sqlite_{task,project,resource_acl}.rs\<close>), \<open>Handoff\<close>, \<open>Pipeline\<close>
    (\<open>aionui-projects/src\<close>), \<open>ProjectHandlers\<close> and \<open>ProjectServer\<close> (\<open>aionui-app/src/router/projects.rs\<close>). \<open>Workflow\<close>
    is the abstract specification that the transition handler refines; \<open>TaskRepoFacts\<close>, \<open>TaskCreation\<close> and
    \<open>ProjectProperties\<close> hold lemmas and properties.
  \<^item> Teams: \<open>TeamTypes\<close> (data, events), \<open>TeamRun\<close> (\<open>aionui-team/src/team_run.rs\<close>, with \<open>TeamRunFacts\<close> and
    \<open>TeamRunProperties\<close>), \<open>TeamRepo\<close> (\<open>sqlite_team.rs\<close>), \<open>Mailbox\<close>, \<open>TaskBoard\<close> (and \<open>TaskBoardProperties\<close>),
    \<open>Scheduler\<close> (\<open>aionui-team/src/scheduler\<close>), \<open>Projection\<close> (\<open>visibility.rs\<close>, \<open>message_projection.rs\<close>),
    \<open>TeamSession\<close> and \<open>EventLoop\<close> (\<open>session.rs\<close>, \<open>event_loop.rs\<close>, the wake text of \<open>prompts/mod.rs\<close>), with \<open>EventLoopFacts\<close>, \<open>EventLoopProperties\<close> and
    \<open>EventLoopExamples\<close>.
  \<^item> Accounts (\<open>aionui-auth/src\<close>): \<open>RateLimit\<close>, \<open>QrToken\<close>, \<open>Validation\<close>, \<open>Password\<close>, \<open>HttpHeaders\<close> (cookies, CSRF,
    token extraction), \<open>Jwt\<close>, \<open>UserRepo\<close> and \<open>UserFacts\<close> (\<open>sqlite_user.rs\<close>), \<open>AuthState\<close> (middleware), \<open>AuthHandlers\<close>
    and \<open>AuthServer\<close> (\<open>routes.rs\<close>), \<open>AuthProperties\<close>, \<open>AuthExamples\<close>.
  \<^item> Messaging channels: \<open>ChannelRepo\<close> (\<open>aionui-db/src/repository/sqlite_channel.rs\<close>: users, sessions, pairing codes),
    \<open>ChannelPairing\<close> (\<open>aionui-channel/src/pairing.rs\<close>, \<open>session.rs\<close>), \<open>ChannelActions\<close> (\<open>action.rs\<close>), with \<open>ChannelFacts\<close> and
    \<open>ChannelProperties\<close>. One incoming message is one step.
  \<^item> Extension dependencies: \<open>Dependencies\<close> (\<open>aionui-extension/src/dependency.rs\<close>), \<open>DependencyFacts\<close>,
    \<open>DependencyProperties\<close>.
  \<^item> Conversations (\<open>aionui-conversation/src\<close>): \<open>ConvRuntime\<close> (\<open>runtime_state.rs\<close>, \<open>runtime_persistence.rs\<close>, the
    continuation and health policies: which turn claims a conversation), \<open>ConvRepo\<close>
    (\<open>aionui-db/src/repository/sqlite_conversation.rs\<close>), \<open>ConvTurn\<close> (\<open>turn_orchestrator.rs\<close> and sending, cancelling,
    deleting and resetting in \<open>service.rs\<close>). A turn is a sequence of phases; a phase is one statement or one section
    under the lock, and the phases of different turns, deletions and cancellations interleave freely. \<open>ConvRepoFacts\<close>,
    \<open>ConvTurnFacts\<close>, \<open>ConvTurnInv\<close> (who holds a claim), \<open>ConvTurnRank\<close> (every turn ends), \<open>ConvTurnProperties\<close> and
    \<open>ConvTurnTables\<close> (what the tables hold).
  \<^item> Scheduled jobs (\<open>aionui-cron/src\<close>): \<open>CronTypes\<close> (\<open>types.rs\<close>, \<open>sqlite_cron.rs\<close>), \<open>CronScheduling\<close> (\<open>scheduler.rs\<close>:
    next times and timers), \<open>CronService\<close> (\<open>service.rs\<close>, the decisions of \<open>executor.rs\<close>), \<open>CronRoutes\<close> (\<open>routes.rs\<close>, the
    commands of agents, the steps of the running system), with \<open>CronFacts\<close>, \<open>CronInv\<close>, \<open>CronKept\<close>, \<open>CronStepsKept\<close> and
    \<open>CronProperties\<close>. An execution is in three steps, loading the job, executing it and writing its result, between
    which requests and timers run.
  \<^item> File sandbox (\<open>aionui-file/src\<close>): \<open>FileSandbox\<close> (\<open>path_safety.rs\<close>; reading, writing, removing and renaming of
    \<open>service.rs\<close> and \<open>routes.rs\<close> over a file system with symbolic links), \<open>FileProperties\<close>.

  \<^bold>\<open>Reading the model.\<close> A table is a list of rows with the keys and checks of the migrations; an operation maps a
  state to a state and an error or a value, and keeps what ran before an error, as the handlers do outside a
  transaction. A method that holds its lock or its transaction throughout is one step. Time and fresh ids are
  supplied by an environment, numbered by a counter in the state; \<open>distinct_ids\<close> says that no id is drawn twice.
  Third-party code (bcrypt, the JWT library, JSON, SHA-256) is a parameter with its documented behaviour as a
  named hypothesis, and each has a concrete instance in the witnesses.

  \<^bold>\<open>What the lemmas show.\<close> Per component: an invariant that every operation keeps (\<open>server_inv\<close>, \<open>run_wf\<close>,
  \<open>mailbox_ok\<close>, \<open>board_ok\<close>, \<open>users_ok\<close>, \<open>conv_db_ok\<close>, \<open>cron_inv\<close>), lifted to all request sequences through the interface \<open>machine\<close>;
  functional descriptions of the operations with their error branches; refinement of the task workflow;
  round trips of tokens, cookies and enumerations; exactly-once delivery through the interface \<open>inbox\<close>. The
  numbered properties are marked C1, C2, \<dots> where they are proved; each with a hypothesis has a concrete witness.
  Where the code does not do what it means to, a lemma with concrete inputs shows it (for example
  \<open>stale_result_disables_job\<close>, \<open>write_through_own_link\<close>).

  \<^bold>\<open>Bounds and fuel.\<close> No operation needs fuel: loops are recursions over lists with a decreasing measure. A turn
  of a conversation has a rank of at most 43 that every step of its own decreases. Resolving a path follows at most 40
  symbolic links, as Linux does, which ends it on a cycle. Page numbers of messages are 32-bit words and wrap; the next
  time of a job is a sum that wraps at 64 bits. The rate
  limiter keeps its 32- and 64-bit counters as words; QR tokens use saturating subtraction. SQLite batches
  of 500 ids are modelled as chunks and proved equal to one statement.

  \<^bold>\<open>Not modelled.\<close> I/O failures of SQLite other than violated constraints; rendering of responses; Unicode beyond
  ASCII in trimming and lower-casing; the plugins, the message service and the
  stream relay of the channels; creating and editing conversations, the stream relay and agent snapshots; of scheduled jobs
  the skill files, prompts and the parsing of expressions, and two requests that overlap each other; of files everything
  but the sandbox; the agent runtime, the rest of the extensions and the other crates, which are mostly process,
  network and file-system code.
\<close>

end
